(* ===== verification/MCT_Prelude.thy ===== *)
theory MCT_Prelude
  imports Main "HOL-Library.Word"
begin

text \<open>
  The shared library of the development: machine integers as they are used by the Rust
  sources, results in the style of \<open>Result<T, E>\<close>, strings as lists of UTF-8 bytes with the
  few \<open>str\<close> operations the sources call, decimal printing, length-prefixed byte framing,
  first-match search, and an interface for invariants of transition systems.
\<close>

named_theorems result_simps \<open>rewrite rules that open checks written with and_then and ensure\<close>

section \<open>Machine integers\<close>

type_synonym u32 = "32 word"
type_synonym u64 = "64 word"

text \<open>\<open>u64::checked_add\<close> and \<open>u64::checked_sub\<close> of the Rust standard library.\<close>

definition checked_add_u64 :: "u64 \<Rightarrow> u64 \<Rightarrow> u64 option" where
  "checked_add_u64 a b = (if unat a + unat b < 2 ^ 64 then Some (a + b) else None)"

definition checked_sub_u64 :: "u64 \<Rightarrow> u64 \<Rightarrow> u64 option" where
  "checked_sub_u64 a b = (if b \<le> a then Some (a - b) else None)"

lemma checked_add_u64_Some:
  "checked_add_u64 a b = Some c \<Longrightarrow> unat c = unat a + unat b"
  by (auto simp: checked_add_u64_def unat_word_ariths split: if_splits)

lemma checked_add_u64_1_less: "checked_add_u64 a 1 = Some c \<Longrightarrow> a < c"
  by (drule checked_add_u64_Some) (simp add: word_less_nat_alt)

lemma checked_sub_u64_Some:
  "checked_sub_u64 a b = Some c \<Longrightarrow> unat a = unat b + unat c"
  by (auto simp: checked_sub_u64_def unat_sub word_le_nat_alt split: if_splits)

lemma checked_add_u64_same: "checked_add_u64 a n = Some c \<Longrightarrow> checked_add_u64 b n = Some c \<Longrightarrow> a = b"
  by (auto dest!: checked_add_u64_Some simp: word_unat_eq_iff)

section \<open>Results\<close>

text \<open>
  A Rust \<open>Result\<close> is a sum with the error on the left; \<open>and_then\<close> is the \<open>?\<close> operator and
  \<open>ensure\<close> an early return of an error when its condition fails.
\<close>

definition and_then :: "'e + 'a \<Rightarrow> ('a \<Rightarrow> 'e + 'b) \<Rightarrow> 'e + 'b" where
  "and_then r k = (case r of Inl e \<Rightarrow> Inl e | Inr x \<Rightarrow> k x)"

definition ensure :: "bool \<Rightarrow> 'e \<Rightarrow> 'e + unit" where
  "ensure b e = (if b then Inr () else Inl e)"

definition ok_or :: "'a option \<Rightarrow> 'e \<Rightarrow> 'e + 'a" where
  "ok_or x e = (case x of None \<Rightarrow> Inl e | Some y \<Rightarrow> Inr y)"

definition is_ok :: "'e + 'a \<Rightarrow> bool" where
  "is_ok r = (case r of Inl _ \<Rightarrow> False | Inr _ \<Rightarrow> True)"

lemma and_then_Inr [result_simps]: "and_then (Inr x) k = k x"
  by (simp add: and_then_def)

lemma and_then_Inl [result_simps]: "and_then (Inl e) k = Inl e"
  by (simp add: and_then_def)

lemma and_then_eq_Inr [result_simps]:
  "and_then r k = Inr y \<longleftrightarrow> (\<exists>x. r = Inr x \<and> k x = Inr y)"
  by (cases r) (simp_all add: and_then_def)

lemma ensure_eq_Inr [result_simps]: "ensure b e = Inr u \<longleftrightarrow> b"
  by (simp add: ensure_def)

lemma ensure_eq_Inl [result_simps]: "ensure b e = Inl e' \<longleftrightarrow> \<not> b \<and> e' = e"
  by (auto simp: ensure_def)

lemma ok_or_eq_Inr [result_simps]: "ok_or x e = Inr y \<longleftrightarrow> x = Some y"
  by (cases x) (auto simp: ok_or_def)

lemma is_ok_iff: "is_ok r \<longleftrightarrow> (\<exists>x. r = Inr x)"
  by (cases r) (auto simp: is_ok_def)

lemma is_ok_unit: "is_ok (r :: 'e + unit) \<longleftrightarrow> r = Inr ()"
  by (cases r) (auto simp: is_ok_def)

lemma is_ok_Inr [simp]: "is_ok (Inr x)"
  by (simp add: is_ok_def)

lemma is_ok_Inl [simp]: "\<not> is_ok (Inl e)"
  by (simp add: is_ok_def)

lemma is_ok_and_then [result_simps]:
  "is_ok (and_then r k) \<longleftrightarrow> (\<exists>x. r = Inr x \<and> is_ok (k x))"
  by (cases r) (auto simp: and_then_def is_ok_def)

lemma is_ok_ensure [result_simps]: "is_ok (ensure b e) \<longleftrightarrow> b"
  by (simp add: ensure_def is_ok_def)

section \<open>First-match search\<close>

text \<open>\<open>iter().find(p)\<close> is \<open>List.find\<close>.\<close>

lemma find_SomeD: "List.find P xs = Some x \<Longrightarrow> P x \<and> x \<in> set xs"
  by (auto simp: find_Some_iff in_set_conv_nth)

lemma find_map_distinct:
  assumes "distinct (map f xs)" and "x \<in> set xs"
  shows "List.find (\<lambda>y. f y = f x) xs = Some x"
  using assms by (induction xs) auto

lemma find_key_iff:
  assumes "distinct (map f xs)"
  shows "List.find (\<lambda>y. f y = k) xs = Some x \<longleftrightarrow> x \<in> set xs \<and> f x = k"
  using assms find_map_distinct [OF assms] by (auto dest: find_SomeD)

text \<open>
  A search with a stronger condition still finds the first element that the weaker search
  found, when that element satisfies the stronger condition.
\<close>

lemma find_strengthen:
  assumes "List.find P xs = Some x" and "Q x" and "\<And>y. Q y \<Longrightarrow> P y"
  shows "List.find Q xs = Some x"
  using assms by (induction xs) (auto split: if_splits)

lemma find_exists: "x \<in> set xs \<Longrightarrow> P x \<Longrightarrow> \<exists>y. List.find P xs = Some y"
  by (induction xs) auto

section \<open>Strings\<close>

text \<open>
  A Rust \<open>String\<close> is a \<open>string\<close> holding its UTF-8 bytes. \<open>ws_width\<close> is the number of bytes
  of the white-space character (Unicode property White\_Space) a byte sequence starts with,
  0 if it starts with another character.
\<close>

definition utf8_bytes :: "string \<Rightarrow> nat list" where
  "utf8_bytes s = map of_char s"

definition ws3 :: "nat \<Rightarrow> nat \<Rightarrow> nat \<Rightarrow> bool" where
  "ws3 a b c \<longleftrightarrow>
     (a = 0xE1 \<and> b = 0x9A \<and> c = 0x80) \<or>
     (a = 0xE2 \<and> b = 0x80 \<and> (0x80 \<le> c \<and> c \<le> 0x8A \<or> c = 0xA8 \<or> c = 0xA9 \<or> c = 0xAF)) \<or>
     (a = 0xE2 \<and> b = 0x81 \<and> c = 0x9F) \<or>
     (a = 0xE3 \<and> b = 0x80 \<and> c = 0x80)"

fun ws_width :: "nat list \<Rightarrow> nat" where
  "ws_width [] = 0"
| "ws_width [a] = (if 9 \<le> a \<and> a \<le> 13 \<or> a = 32 then 1 else 0)"
| "ws_width [a, b] =
     (if 9 \<le> a \<and> a \<le> 13 \<or> a = 32 then 1
      else if a = 0xC2 \<and> (b = 0x85 \<or> b = 0xA0) then 2 else 0)"
| "ws_width (a # b # c # _) =
     (if 9 \<le> a \<and> a \<le> 13 \<or> a = 32 then 1
      else if a = 0xC2 \<and> (b = 0x85 \<or> b = 0xA0) then 2
      else if ws3 a b c then 3 else 0)"

lemma ws_width_nonempty: "0 < ws_width bs \<Longrightarrow> bs \<noteq> []"
  by auto

function trim_start :: "nat list \<Rightarrow> nat list" where
  "trim_start bs = (if ws_width bs = 0 then bs else trim_start (drop (ws_width bs) bs))"
  by pat_completeness auto
termination
  by (relation "measure length") (use ws_width_nonempty in force)+

declare trim_start.simps [simp del]

text \<open>\<open>value.trim().is_empty()\<close>: every character is white space.\<close>

definition trim_is_empty :: "string \<Rightarrow> bool" where
  "trim_is_empty s \<longleftrightarrow> trim_start (utf8_bytes s) = []"

text \<open>\<open>value.chars().any(char::is_whitespace)\<close>.\<close>

fun has_whitespace :: "nat list \<Rightarrow> bool" where
  "has_whitespace [] = False"
| "has_whitespace (b # bs) = (0 < ws_width (b # bs) \<or> has_whitespace bs)"

lemma ws_width_visible: "32 < b \<Longrightarrow> b < 0x80 \<Longrightarrow> ws_width (b # bs) = 0"
proof (cases bs)
  case (Cons c cs)
  assume "32 < b" and "b < 0x80"
  then show ?thesis using Cons by (cases cs) (simp_all add: ws3_def)
qed simp

lemma trim_is_empty_visible:
  "32 < (of_char c :: nat) \<Longrightarrow> (of_char c :: nat) < 0x80 \<Longrightarrow> \<not> trim_is_empty (c # s)"
  by (simp add: trim_is_empty_def utf8_bytes_def trim_start.simps ws_width_visible)

lemma trim_is_empty_Nil: "trim_is_empty []"
  by (simp add: trim_is_empty_def utf8_bytes_def trim_start.simps)

text \<open>\<open>str::split_once\<close>, \<open>str::rsplit_once\<close>, \<open>str::split\<close> at an ASCII character.\<close>

fun split_once :: "char \<Rightarrow> string \<Rightarrow> (string \<times> string) option" where
  "split_once c [] = None"
| "split_once c (x # xs) =
     (if x = c then Some ([], xs)
      else case split_once c xs of None \<Rightarrow> None | Some (a, b) \<Rightarrow> Some (x # a, b))"

definition rsplit_once :: "char \<Rightarrow> string \<Rightarrow> (string \<times> string) option" where
  "rsplit_once c s =
     (case split_once c (rev s) of None \<Rightarrow> None | Some (a, b) \<Rightarrow> Some (rev b, rev a))"

fun split_on :: "char \<Rightarrow> string \<Rightarrow> string list" where
  "split_on c [] = [[]]"
| "split_on c (x # xs) =
     (if x = c then [] # split_on c xs
      else case split_on c xs of [] \<Rightarrow> [[x]] | s # ss \<Rightarrow> (x # s) # ss)"

lemma split_once_first: "c \<notin> set a \<Longrightarrow> split_once c (a @ c # b) = Some (a, b)"
  by (induction a) auto

lemma split_once_SomeD: "split_once c s = Some (a, b) \<Longrightarrow> s = a @ c # b \<and> c \<notin> set a"
  by (induction s arbitrary: a b) (auto split: if_splits option.splits)

lemma split_once_Some:
  "split_once c s = Some (a, b) \<longleftrightarrow> s = a @ c # b \<and> c \<notin> set a"
  by (auto simp: split_once_first dest: split_once_SomeD)

lemma split_once_None: "split_once c s = None \<longleftrightarrow> c \<notin> set s"
  by (induction s) (auto split: option.splits)

lemma rsplit_once_Some:
  "rsplit_once c s = Some (a, b) \<longleftrightarrow> s = a @ c # b \<and> c \<notin> set b"
proof -
  have "rsplit_once c s = Some (a, b) \<longleftrightarrow> split_once c (rev s) = Some (rev b, rev a)"
    by (auto simp: rsplit_once_def split: option.splits)
  also have "\<dots> \<longleftrightarrow> rev s = rev b @ c # rev a \<and> c \<notin> set b"
    by (simp add: split_once_Some)
  also have "\<dots> \<longleftrightarrow> s = a @ c # b \<and> c \<notin> set b"
    by (simp add: rev_swap)
  finally show ?thesis .
qed

lemma split_on_neq_Nil [simp]: "split_on c s \<noteq> []"
  by (induction s) (auto split: list.splits)

lemma Nil_neq_split_on [simp]: "[] \<noteq> split_on c s"
  using split_on_neq_Nil [of c s] by metis

lemma split_on_inj: "split_on c s = split_on c t \<Longrightarrow> s = t"
proof (induction s arbitrary: t)
  case Nil
  then show ?case
    by (cases t) (auto split: if_splits list.splits)
next
  case (Cons x s)
  obtain a as where s: "split_on c s = a # as" by (cases "split_on c s") auto
  show ?case
  proof (cases t)
    case Nil
    with Cons.prems s show ?thesis by (auto split: if_splits)
  next
    case (Cons y t')
    obtain b bs where "split_on c t' = b # bs" by (cases "split_on c t'") auto
    with Cons.prems Cons s Cons.IH show ?thesis by (auto split: if_splits)
  qed
qed

lemma split_on_segments: "seg \<in> set (split_on c s) \<Longrightarrow> c \<notin> set seg"
  by (induction s arbitrary: seg) (auto split: if_splits list.splits)

text \<open>\<open>str::starts_with\<close>, \<open>str::strip_prefix\<close>, \<open>str::ends_with\<close>, \<open>str::contains\<close>.\<close>

definition starts_with :: "string \<Rightarrow> string \<Rightarrow> bool" where
  "starts_with s prefix \<longleftrightarrow> take (length prefix) s = prefix"

definition strip_prefix :: "string \<Rightarrow> string \<Rightarrow> string option" where
  "strip_prefix prefix s =
     (if starts_with s prefix then Some (drop (length prefix) s) else None)"

definition ends_with :: "string \<Rightarrow> string \<Rightarrow> bool" where
  "ends_with s suffix \<longleftrightarrow> length suffix \<le> length s \<and> drop (length s - length suffix) s = suffix"

fun contains_str :: "string \<Rightarrow> string \<Rightarrow> bool" where
  "contains_str [] part \<longleftrightarrow> part = []"
| "contains_str (c # s) part \<longleftrightarrow> starts_with (c # s) part \<or> contains_str s part"

lemma strip_prefix_Some: "strip_prefix p s = Some r \<longleftrightarrow> s = p @ r"
proof
  assume "strip_prefix p s = Some r"
  then have "take (length p) s = p" "drop (length p) s = r"
    by (auto simp: strip_prefix_def starts_with_def split: if_splits)
  then show "s = p @ r" by (metis append_take_drop_id)
qed (simp add: strip_prefix_def starts_with_def)

lemma ends_with_char: "ends_with s [c] \<longleftrightarrow> s \<noteq> [] \<and> last s = c"
  by (cases s rule: rev_cases) (auto simp: ends_with_def)

lemma contains_str_char: "contains_str s [c] \<longleftrightarrow> c \<in> set s"
  by (induction s) (auto simp: starts_with_def)

lemma split_on_leading: "starts_with s [c] \<Longrightarrow> hd (split_on c s) = []"
  by (cases s) (auto simp: starts_with_def)

lemma split_on_empty_tail:
  "contains_str s [c, c] \<or> ends_with s [c] \<Longrightarrow> [] \<in> set (tl (split_on c s))"
proof (induction s)
  case (Cons x s)
  have tl: "tl (split_on c (x # s)) = (if x = c then split_on c s else tl (split_on c s))"
    by (cases "split_on c s") auto
  show ?case
  proof (cases "x = c")
    case True
    then consider "s = []" | "starts_with s [c]" | "contains_str s [c, c] \<or> ends_with s [c]"
      using Cons.prems by (auto simp: starts_with_def ends_with_char split: if_splits)
    then show ?thesis
    proof cases
      case 2
      with True tl show ?thesis using split_on_leading [of s c] by (cases "split_on c s") auto
    next
      case 3
      with Cons.IH have "[] \<in> set (tl (split_on c s))" by simp
      with True tl show ?thesis by (metis list.set_sel(2) split_on_neq_Nil)
    qed (use True in simp)
  next
    case False
    with Cons tl show ?thesis by (auto simp: starts_with_def ends_with_char split: if_splits)
  qed
qed (simp_all add: ends_with_char)

lemma split_on_empty_segment:
  assumes "starts_with s [c] \<or> contains_str s [c, c] \<or> ends_with s [c]"
  shows "[] \<in> set (split_on c s)"
  using assms split_on_leading [of s c] split_on_empty_tail [of s c]
  by (metis list.set_sel split_on_neq_Nil)

text \<open>The ASCII classes of \<open>u8\<close>, and lowercase hexadecimal digits.\<close>

definition is_ascii_lowercase :: "char \<Rightarrow> bool" where
  "is_ascii_lowercase c \<longleftrightarrow> 97 \<le> (of_char c :: nat) \<and> (of_char c :: nat) \<le> 122"

definition is_ascii_digit :: "char \<Rightarrow> bool" where
  "is_ascii_digit c \<longleftrightarrow> 48 \<le> (of_char c :: nat) \<and> (of_char c :: nat) \<le> 57"

definition is_ascii_alphanumeric :: "char \<Rightarrow> bool" where
  "is_ascii_alphanumeric c \<longleftrightarrow>
     is_ascii_lowercase c \<or> is_ascii_digit c \<or> 65 \<le> (of_char c :: nat) \<and> (of_char c :: nat) \<le> 90"

definition is_lower_hex :: "char \<Rightarrow> bool" where
  "is_lower_hex c \<longleftrightarrow> is_ascii_digit c \<or> 97 \<le> (of_char c :: nat) \<and> (of_char c :: nat) \<le> 102"

section \<open>Fixed-size arrays and positions\<close>

text \<open>The Rust array type \<open>[T; 3]\<close>, and \<open>iter().position(p)\<close>.\<close>

datatype 'a array3 = Array3 'a 'a 'a

fun array3_list :: "'a array3 \<Rightarrow> 'a list" where
  "array3_list (Array3 a b c) = [a, b, c]"

lemma length_array3_list [simp]: "length (array3_list a) = 3"
  by (cases a) simp

lemma array3_list_inj [simp]: "array3_list a = array3_list b \<longleftrightarrow> a = b"
  by (cases a; cases b) simp

fun position :: "('a \<Rightarrow> bool) \<Rightarrow> 'a list \<Rightarrow> nat option" where
  "position p [] = None"
| "position p (x # xs) = (if p x then Some 0 else map_option Suc (position p xs))"

lemma position_SomeD: "position p xs = Some i \<Longrightarrow> i < length xs \<and> p (xs ! i)"
  by (induction xs arbitrary: i) (auto split: if_splits)

section \<open>Decimal printing\<close>

text \<open>\<open>u64::to_string\<close>.\<close>

definition digit_char :: "nat \<Rightarrow> char" where
  "digit_char d = char_of (48 + d)"

fun dec :: "nat \<Rightarrow> string" where
  "dec n = (if n < 10 then [digit_char n] else dec (n div 10) @ [digit_char (n mod 10)])"

declare dec.simps [simp del]

definition undec :: "string \<Rightarrow> nat" where
  "undec s = foldl (\<lambda>acc c. acc * 10 + (of_char c - 48)) 0 s"

lemma of_char_digit: "d < 10 \<Longrightarrow> (of_char (digit_char d) :: nat) = 48 + d"
  by (simp add: digit_char_def of_char_of)

lemma undec_dec: "undec (dec n) = n"
proof (induction n rule: dec.induct)
  case (1 n)
  show ?case
  proof (cases "n < 10")
    case True
    then show ?thesis by (subst dec.simps) (simp add: undec_def of_char_digit)
  next
    case False
    with 1 have "undec (dec (n div 10)) = n div 10" by simp
    with False show ?thesis
      by (subst dec.simps) (simp add: undec_def of_char_digit)
  qed
qed

lemma dec_inj: "dec m = dec n \<longleftrightarrow> m = n"
  by (metis undec_dec)

lemma dec_digits: "c \<in> set (dec n) \<Longrightarrow> 48 \<le> (of_char c :: nat) \<and> (of_char c :: nat) < 58"
proof (induction n rule: dec.induct)
  case (1 n)
  have d: "of_char (digit_char (n mod 10)) = 48 + n mod 10" by (simp add: of_char_digit)
  show ?case
  proof (cases "n < 10")
    case True
    with "1.prems" show ?thesis by (subst (asm) dec.simps) (simp add: of_char_digit)
  next
    case False
    with "1.prems" have "c \<in> set (dec (n div 10)) \<or> c = digit_char (n mod 10)"
      by (subst (asm) dec.simps) auto
    with False d show ?thesis using "1.IH" by auto
  qed
qed

definition dec_u64 :: "u64 \<Rightarrow> string" where
  "dec_u64 n = dec (unat n)"

lemma dec_u64_inj: "dec_u64 a = dec_u64 b \<longleftrightarrow> a = b"
  by (simp add: dec_u64_def dec_inj word_unat_eq_iff)

lemma length_dec: "n < 10 ^ k \<Longrightarrow> 0 < k \<Longrightarrow> length (dec n) \<le> k"
proof (induction n arbitrary: k rule: dec.induct)
  case (1 n)
  show ?case
  proof (cases "n < 10")
    case True
    with "1.prems" show ?thesis by (subst dec.simps) simp
  next
    case False
    with "1.prems" obtain j where k: "k = Suc j" "0 < j" by (cases k; cases "k - 1") auto
    with "1.prems" have "n div 10 < 10 ^ j" by (simp add: less_mult_imp_div_less mult.commute)
    with "1.IH" False k have "length (dec (n div 10)) \<le> j" by simp
    with False k show ?thesis by (subst dec.simps) simp
  qed
qed

lemma dec_short: "n < 2 ^ 64 \<Longrightarrow> length (dec n) < 2 ^ 64"
  using length_dec [of n 20] by simp

lemma dec_u64_short: "length (dec_u64 n) < 2 ^ 64"
  unfolding dec_u64_def by (rule dec_short) (use unsigned_less [of n] in simp)

lemma colon_notin_dec_u64: "CHR '':'' \<notin> set (dec_u64 n)"
proof
  assume "CHR '':'' \<in> set (dec_u64 n)"
  then have "(of_char (CHR '':'') :: nat) < 58"
    unfolding dec_u64_def using dec_digits by blast
  then show False by simp
qed

section \<open>Length-prefixed framing\<close>

text \<open>
  Hash preimages join their fields with a 64-bit length before each, little-endian
  (\<open>u64::to_le_bytes\<close>) or big-endian (\<open>u64::to_be_bytes\<close>). Both make the join injective.
\<close>

primrec le_bytes :: "nat \<Rightarrow> nat \<Rightarrow> string" where
  "le_bytes 0 n = []"
| "le_bytes (Suc k) n = char_of (n mod 256) # le_bytes k (n div 256)"

definition u64_le_bytes :: "nat \<Rightarrow> string" where
  "u64_le_bytes n = le_bytes 8 n"

definition u64_be_bytes :: "nat \<Rightarrow> string" where
  "u64_be_bytes n = rev (le_bytes 8 n)"

definition frame :: "(nat \<Rightarrow> string) \<Rightarrow> string list \<Rightarrow> string" where
  "frame len_bytes fields = concat (map (\<lambda>f. len_bytes (length f) @ f) fields)"

definition addressable :: "string list \<Rightarrow> bool" where
  "addressable fields \<longleftrightarrow> list_all (\<lambda>f. length f < 2 ^ 64) fields"

lemma length_le_bytes [simp]: "length (le_bytes k n) = k"
  by (induction k arbitrary: n) auto

lemma char_of_eq_mod256:
  assumes "(char_of (m mod 256) :: char) = char_of (n mod 256)"
  shows "m mod 256 = (n mod 256 :: nat)"
proof -
  from assms have "(of_char (char_of (m mod 256) :: char) :: nat) = of_char (char_of (n mod 256) :: char)"
    by simp
  then show ?thesis by simp
qed

lemma le_bytes_inj:
  "m < 256 ^ k \<Longrightarrow> n < 256 ^ k \<Longrightarrow> le_bytes k m = le_bytes k n \<Longrightarrow> m = n"
proof (induction k arbitrary: m n)
  case (Suc k)
  then have "m mod 256 = n mod 256" "le_bytes k (m div 256) = le_bytes k (n div 256)"
    using char_of_eq_mod256 by auto
  moreover have "m div 256 < 256 ^ k" "n div 256 < 256 ^ k"
    using Suc.prems by (simp_all add: less_mult_imp_div_less mult.commute)
  ultimately show ?case using Suc.IH by (metis div_mult_mod_eq)
qed simp

locale length_prefix =
  fixes len_bytes :: "nat \<Rightarrow> string"
  assumes len_bytes_length: "length (len_bytes n) = 8"
    and len_bytes_inj: "m < 2 ^ 64 \<Longrightarrow> n < 2 ^ 64 \<Longrightarrow> len_bytes m = len_bytes n \<Longrightarrow> m = n"
begin

lemma frame_Cons_eq:
  assumes "length f < 2 ^ 64" and "length g < 2 ^ 64"
    and "len_bytes (length f) @ f @ x = len_bytes (length g) @ g @ y"
  shows "f = g \<and> x = y"
proof -
  from assms(3) have "len_bytes (length f) = len_bytes (length g)" "f @ x = g @ y"
    by (simp_all add: append_eq_append_conv len_bytes_length)
  with assms(1,2) show ?thesis using len_bytes_inj by auto
qed

lemma frame_neq_Nil: "frame len_bytes (f # fs) \<noteq> []"
  using len_bytes_length [of "length f"] by (auto simp: frame_def)

lemma frame_inj:
  "addressable fs \<Longrightarrow> addressable gs \<Longrightarrow> frame len_bytes fs = frame len_bytes gs \<Longrightarrow> fs = gs"
proof (induction fs arbitrary: gs)
  case Nil
  then show ?case using frame_neq_Nil by (cases gs) (auto simp: frame_def)
next
  case (Cons f fs)
  then obtain g gs' where gs: "gs = g # gs'"
    using frame_neq_Nil [of f fs] by (cases gs) (auto simp: frame_def)
  with Cons.prems have "f = g \<and> frame len_bytes fs = frame len_bytes gs'"
    by (intro frame_Cons_eq) (simp_all add: addressable_def frame_def)
  with Cons gs show ?case by (simp add: addressable_def)
qed

end

interpretation u64_le: length_prefix u64_le_bytes
proof
  show "length (u64_le_bytes n) = 8" for n by (simp add: u64_le_bytes_def)
  show "m < 2 ^ 64 \<Longrightarrow> n < 2 ^ 64 \<Longrightarrow> u64_le_bytes m = u64_le_bytes n \<Longrightarrow> m = n" for m n
    using le_bytes_inj [of m 8 n] by (simp add: u64_le_bytes_def)
qed

interpretation u64_be: length_prefix u64_be_bytes
proof
  show "length (u64_be_bytes n) = 8" for n by (simp add: u64_be_bytes_def)
  show "m < 2 ^ 64 \<Longrightarrow> n < 2 ^ 64 \<Longrightarrow> u64_be_bytes m = u64_be_bytes n \<Longrightarrow> m = n" for m n
    using le_bytes_inj [of m 8 n] by (simp add: u64_be_bytes_def)
qed

section \<open>State machines\<close>

text \<open>
  The states a machine reaches from its initial states, and the interface a component fills
  in to show that an invariant holds in all of them.
\<close>

inductive reach :: "('s \<Rightarrow> bool) \<Rightarrow> ('s \<Rightarrow> 's \<Rightarrow> bool) \<Rightarrow> 's \<Rightarrow> bool"
  for init :: "'s \<Rightarrow> bool" and step :: "'s \<Rightarrow> 's \<Rightarrow> bool" where
  reach_init: "init s \<Longrightarrow> reach init step s"
| reach_step: "reach init step s \<Longrightarrow> step s t \<Longrightarrow> reach init step t"

locale invariant_system =
  fixes init :: "'s \<Rightarrow> bool" and step :: "'s \<Rightarrow> 's \<Rightarrow> bool" and inv :: "'s \<Rightarrow> bool"
  assumes inv_init: "init s \<Longrightarrow> inv s"
    and inv_step: "inv s \<Longrightarrow> step s t \<Longrightarrow> inv t"
begin

lemma reach_inv: "reach init step s \<Longrightarrow> inv s"
  by (induction rule: reach.induct) (auto intro: inv_init inv_step)

lemma steps_inv: "step\<^sup>*\<^sup>* s t \<Longrightarrow> inv s \<Longrightarrow> inv t"
  by (induction rule: rtranclp.induct) (auto intro: inv_step)

end

end
