(* ===== verification/MCT_Base.thy ===== *)
theory MCT_Base
  imports MCT_Prelude
begin

text \<open>
  The boundary types of the kernel crate: its error type and the non-blank check
  (\<open>error.rs\<close>), string identifiers and timestamps (\<open>id.rs\<close>).

  Timestamps are parsed and printed by the external crate \<open>jiff\<close>. It is a parameter, a
  record of the three operations the kernel calls; \<open>jiff_roundtrip\<close> states the one
  documented fact the kernel relies on, that a printed instant parses back to itself.
\<close>

named_theorems ts_simps \<open>order of timestamps on their instants\<close>

section \<open>Errors (error.rs)\<close>

datatype InvalidFieldReason = IFR_Empty | IFR_Blank

datatype MctKernelError =
    InvalidField string string InvalidFieldReason
  | InvalidTimestamp string string
  | PayloadSizeMismatch u64 u64
  | InvalidConstraint string string string
  | EncodeCallProtocolJson string
  | InvalidRouteTakenPresence string string
  | InvalidReplyReasonPresence string string
  | DecodeCallProtocolJson string

type_synonym 'a MctKernelResult = "MctKernelError + 'a"

definition ensure_non_blank :: "string \<Rightarrow> string \<Rightarrow> string \<Rightarrow> unit MctKernelResult" where
  "ensure_non_blank rec field val =
     (if val = [] then Inl (InvalidField rec field IFR_Empty)
      else if trim_is_empty val then Inl (InvalidField rec field IFR_Blank)
      else Inr ())"

definition non_blank :: "string \<Rightarrow> bool" where
  "non_blank s \<longleftrightarrow> \<not> trim_is_empty s"

lemma non_blank_neq_Nil: "non_blank s \<Longrightarrow> s \<noteq> []"
  using trim_is_empty_Nil by (auto simp: non_blank_def)

lemma ensure_non_blank_ok [result_simps]:
  "ensure_non_blank r f s = Inr u \<longleftrightarrow> non_blank s"
  using trim_is_empty_Nil by (auto simp: ensure_non_blank_def non_blank_def)

lemma non_blank_visible [simp]:
  "32 < (of_char c :: nat) \<Longrightarrow> (of_char c :: nat) < 0x80 \<Longrightarrow> non_blank (c # s)"
  by (simp add: non_blank_def trim_is_empty_visible)

section \<open>String identifiers (id.rs)\<close>

text \<open>
  The macro \<open>string_id!\<close> makes one newtype over \<open>String\<close> per identifier; all compare as
  their text. Each is a synonym of \<open>string\<close>, and \<open>string_id_new\<close> is the only constructor.
\<close>

type_synonym MctNodeId = string
type_synonym VisionId = string
type_synonym ProjectId = string
type_synonym UserId = string
type_synonym ChildId = string
type_synonym CallId = string
type_synonym DecisionId = string
type_synonym ObservationId = string
type_synonym TraceId = string
type_synonym SpanId = string
type_synonym PeerBindingId = string
type_synonym EndpointIdText = string
type_synonym ProtocolRequestId = string
type_synonym ReplyId = string
type_synonym ResultRef = string
type_synonym AuditRef = string
type_synonym ToyId = string
type_synonym ToyGrantId = string
type_synonym ToyGrantEvaluationId = string
type_synonym AuthorizedToyCallId = string
type_synonym ChildInstanceId = string
type_synonym ChildAssignmentId = string
type_synonym ComponentArtifactId = string
type_synonym ChildApprovalId = string
type_synonym ChildCallEvaluationId = string
type_synonym AuthorizedChildInvocationId = string
type_synonym AuthorizedRouteExecutionId = string
type_synonym ArtifactSourceAuthorityId = string
type_synonym ArtifactAcquisitionDecisionId = string
type_synonym ArtifactAcquisitionId = string
type_synonym AuthorizedArtifactAcquisitionId = string
type_synonym CallTriggerAuthorityId = string
type_synonym CallTriggerOccurrenceId = string
type_synonym CallTriggerFiringId = string
type_synonym CallTriggerPendingOccurrenceId = string
type_synonym WatchObservationScopeId = string
type_synonym WatchEventBatchId = string
type_synonym WatchEventId = string
type_synonym WatchEventDeliveryDispositionId = string
type_synonym WatchEventDeliveryId = string

definition string_id_new :: "string \<Rightarrow> string \<Rightarrow> string MctKernelResult" where
  "string_id_new name val =
     and_then (ensure_non_blank name ''value'' val) (\<lambda>_. Inr val)"

lemma string_id_new_ok [result_simps]:
  "string_id_new name val = Inr s \<longleftrightarrow> non_blank val \<and> s = val"
  by (auto simp: string_id_new_def result_simps)

section \<open>Timestamps (id.rs)\<close>

text \<open>
  A timestamp keeps its RFC3339 text and its instant; equality and order look at the
  instant only, so the order on timestamps is a preorder that is total. Rust's \<open>==\<close> on
  timestamps is \<open>ts_eq\<close>.
\<close>

datatype Timestamp = Timestamp (ts_value: string) (ts_ns: int)

definition ts_eq :: "Timestamp \<Rightarrow> Timestamp \<Rightarrow> bool" where
  "ts_eq a b \<longleftrightarrow> ts_ns a = ts_ns b"

instantiation Timestamp :: preorder
begin

definition less_eq_Timestamp :: "Timestamp \<Rightarrow> Timestamp \<Rightarrow> bool" where
  "less_eq_Timestamp a b \<longleftrightarrow> ts_ns a \<le> ts_ns b"

definition less_Timestamp :: "Timestamp \<Rightarrow> Timestamp \<Rightarrow> bool" where
  "less_Timestamp a b \<longleftrightarrow> ts_ns a < ts_ns b"

instance
  by standard (auto simp: less_eq_Timestamp_def less_Timestamp_def)

end

lemmas ts_order [ts_simps] = less_eq_Timestamp_def less_Timestamp_def ts_eq_def

lemma ts_not_less [simp]: "\<not> (a :: Timestamp) < b \<longleftrightarrow> b \<le> a"
  by (auto simp: ts_simps)

lemma ts_less_leD [dest]: "(a :: Timestamp) < b \<Longrightarrow> b \<le> a \<Longrightarrow> False"
  by (simp add: ts_order)

lemma ts_le_False [simp]: "(a :: Timestamp) < b \<Longrightarrow> b \<le> a \<longleftrightarrow> False"
  by (simp add: ts_order)

lemma ts_not_le [simp]: "\<not> (a :: Timestamp) \<le> b \<longleftrightarrow> b < a"
  by (auto simp: ts_simps)

text \<open>\<open>Ord::min\<close> keeps the first argument when the instants are equal.\<close>

definition ts_min :: "Timestamp \<Rightarrow> Timestamp \<Rightarrow> Timestamp" where
  "ts_min a b = (if b < a then b else a)"

lemma ts_min_ns: "ts_ns (ts_min a b) = min (ts_ns a) (ts_ns b)"
  by (auto simp: ts_min_def ts_simps)

lemma less_ts_min [simp]: "t < ts_min a b \<longleftrightarrow> t < a \<and> t < b"
  by (auto simp: ts_simps ts_min_ns)

lemma ts_min_le [simp]: "ts_min a b \<le> a" "ts_min a b \<le> b"
  by (auto simp: ts_simps ts_min_ns)

definition opt_ts_eq :: "Timestamp option \<Rightarrow> Timestamp option \<Rightarrow> bool" where
  "opt_ts_eq a b =
     (case (a, b) of (None, None) \<Rightarrow> True | (Some x, Some y) \<Rightarrow> ts_eq x y | _ \<Rightarrow> False)"

lemma ts_eq_refl [simp]: "ts_eq a a"
  by (simp add: ts_eq_def)

lemma opt_ts_eq_refl [simp]: "opt_ts_eq a a"
  by (cases a) (simp_all add: opt_ts_eq_def)

record jiff =
  jf_parse :: "string \<Rightarrow> string + int"
  jf_in_range :: "int \<Rightarrow> bool"
  jf_show :: "int \<Rightarrow> string"

definition jiff_roundtrip :: "jiff \<Rightarrow> bool" where
  "jiff_roundtrip J \<longleftrightarrow> (\<forall>n. jf_in_range J n \<longrightarrow> jf_parse J (jf_show J n) = Inr n)"

definition Timestamp_new :: "jiff \<Rightarrow> string \<Rightarrow> Timestamp MctKernelResult" where
  "Timestamp_new J val =
     (case jf_parse J val of
        Inl reason \<Rightarrow> Inl (InvalidTimestamp val reason)
      | Inr n \<Rightarrow> Inr (Timestamp val n))"

text \<open>\<open>i128::checked_add\<close> and \<open>i128::checked_mul\<close>.\<close>

definition i128_checked :: "int \<Rightarrow> int option" where
  "i128_checked n = (if - (2 ^ 127) \<le> n \<and> n < 2 ^ 127 then Some n else None)"

definition checked_add_milliseconds :: "jiff \<Rightarrow> Timestamp \<Rightarrow> u64 \<Rightarrow> Timestamp option" where
  "checked_add_milliseconds J t ms =
     (case i128_checked (uint ms * 1000000) of
        None \<Rightarrow> None
      | Some delta \<Rightarrow>
          (case i128_checked (ts_ns t + delta) of
             None \<Rightarrow> None
           | Some n \<Rightarrow>
               if jf_in_range J n
               then (case Timestamp_new J (jf_show J n) of
                       Inl _ \<Rightarrow> None | Inr t' \<Rightarrow> Some t')
               else None))"

lemma checked_add_milliseconds_ns:
  assumes "jiff_roundtrip J" and "checked_add_milliseconds J t ms = Some t'"
  shows "ts_ns t' = ts_ns t + uint ms * 1000000"
  using assms
  by (auto simp: checked_add_milliseconds_def i128_checked_def jiff_roundtrip_def
      Timestamp_new_def split: if_splits)

text \<open>
  A printer that satisfies the round trip: minus sign and decimal digits. It instantiates
  the parameter where a concrete one is needed.
\<close>

definition plain_show :: "int \<Rightarrow> string" where
  "plain_show n = (if n < 0 then CHR ''-'' # dec (nat (- n)) else dec (nat n))"

definition plain_parse :: "string \<Rightarrow> string + int" where
  "plain_parse s =
     (case s of [] \<Rightarrow> Inl ''empty''
      | c # cs \<Rightarrow> if c = CHR ''-'' then Inr (- int (undec cs)) else Inr (int (undec s)))"

definition plain_jiff :: jiff where
  "plain_jiff = \<lparr>jf_parse = plain_parse, jf_in_range = (\<lambda>n. \<bar>n\<bar> < 2 ^ 68), jf_show = plain_show\<rparr>"

lemma dec_neq_Nil: "dec n \<noteq> []"
  by (subst dec.simps) simp

lemma dec_hd_not_minus: "dec n = c # cs \<Longrightarrow> c \<noteq> CHR ''-''"
proof
  assume "dec n = c # cs" and "c = CHR ''-''"
  then have "48 \<le> (of_char (CHR ''-'') :: nat)"
    using dec_digits [of c n] by simp
  then show False by simp
qed

lemma plain_parse_show: "plain_parse (plain_show n) = Inr n"
proof (cases "n < 0")
  case True
  then show ?thesis by (simp add: plain_parse_def plain_show_def undec_dec)
next
  case False
  obtain c cs where "dec (nat n) = c # cs"
    using dec_neq_Nil by (cases "dec (nat n)") auto
  with False dec_hd_not_minus [OF this] show ?thesis
    using undec_dec [of "nat n"] by (simp add: plain_parse_def plain_show_def)
qed

lemma plain_jiff_roundtrip: "jiff_roundtrip plain_jiff"
  by (simp add: jiff_roundtrip_def plain_jiff_def plain_parse_show)

end
