(* ===== verification/MCT_Call.thy ===== *)
theory MCT_Call
  imports MCT_Base
begin

text \<open>
  Calls, results and payload handles (\<open>call/mod.rs\<close>), the comparison of a payload handle
  with the bytes an adapter observed (\<open>call/internal.rs\<close>) and the idempotency decision.
  Field names carry a prefix for their struct, since a field is a function here.
\<close>

section \<open>Calls\<close>

record CallerIdentity =
  ci_node_id :: MctNodeId
  ci_user_id :: "UserId option"
  ci_vision_id :: VisionId
  ci_project_id :: "ProjectId option"

record OperationTarget =
  ot_namespace :: string
  ot_interface_name :: string
  ot_function_name :: string

definition OperationTarget_validate :: "OperationTarget \<Rightarrow> unit MctKernelResult" where
  "OperationTarget_validate t =
     and_then (ensure_non_blank ''OperationTarget'' ''namespace'' (ot_namespace t)) (\<lambda>_.
     and_then (ensure_non_blank ''OperationTarget'' ''interface_name'' (ot_interface_name t)) (\<lambda>_.
     and_then (ensure_non_blank ''OperationTarget'' ''function_name'' (ot_function_name t)) (\<lambda>_.
     Inr ())))"

definition OperationTarget_new :: "string \<Rightarrow> string \<Rightarrow> string \<Rightarrow> OperationTarget MctKernelResult" where
  "OperationTarget_new ns iface fn =
     (let target = \<lparr>ot_namespace = ns, ot_interface_name = iface, ot_function_name = fn\<rparr>
      in and_then (OperationTarget_validate target) (\<lambda>_. Inr target))"

record PayloadMetadata =
  pm_data_classification :: string
  pm_size_bytes :: u64
  pm_contains_secret_scoped_material :: bool

definition PayloadMetadata_validate :: "PayloadMetadata \<Rightarrow> unit MctKernelResult" where
  "PayloadMetadata_validate m =
     ensure_non_blank ''PayloadMetadata'' ''data_classification'' (pm_data_classification m)"

record GrantsAuthorityIdentity =
  ga_mother_node_id :: string
  ga_authority_epoch :: string
  ga_generation :: u64
  ga_source_authority_observation_id :: string

definition GrantsAuthorityIdentity_validate ::
  "GrantsAuthorityIdentity \<Rightarrow> unit MctKernelResult" where
  "GrantsAuthorityIdentity_validate g =
     and_then (ensure_non_blank ''GrantsAuthorityIdentity'' ''mother_node_id''
                 (ga_mother_node_id g)) (\<lambda>_.
     and_then (ensure_non_blank ''GrantsAuthorityIdentity'' ''authority_epoch''
                 (ga_authority_epoch g)) (\<lambda>_.
     and_then (ensure_non_blank ''GrantsAuthorityIdentity'' ''source_authority_observation_id''
                 (ga_source_authority_observation_id g)) (\<lambda>_.
     Inr ())))"

record AuthorityContextSnapshot =
  ac_policy_revision :: u64
  ac_expected_receiver_grants_authority :: GrantsAuthorityIdentity
  ac_vision_policy_revision :: u64

record TraceContext =
  tc_trace_id :: TraceId
  tc_span_id :: SpanId

datatype CallOrigin = Iroh | JvmAdapter | WasmHost | ProcessHarness | Cli | TriggerFiring

fun allows_remote_candidate_sourcing :: "CallOrigin \<Rightarrow> bool" where
  "allows_remote_candidate_sourcing Iroh = False"
| "allows_remote_candidate_sourcing JvmAdapter = True"
| "allows_remote_candidate_sourcing WasmHost = True"
| "allows_remote_candidate_sourcing ProcessHarness = True"
| "allows_remote_candidate_sourcing Cli = True"
| "allows_remote_candidate_sourcing TriggerFiring = True"

record MctCall =
  c_call_id :: CallId
  c_caller :: CallerIdentity
  c_target :: OperationTarget
  c_payload_metadata :: PayloadMetadata
  c_authority_context :: AuthorityContextSnapshot
  c_deadline :: Timestamp
  c_trace_context :: TraceContext
  c_origin :: CallOrigin

definition CallerIdentity_validate :: "CallerIdentity \<Rightarrow> unit MctKernelResult" where
  "CallerIdentity_validate c = Inr ()"

definition TraceContext_validate :: "TraceContext \<Rightarrow> unit MctKernelResult" where
  "TraceContext_validate t = Inr ()"

definition MctCall_validate :: "MctCall \<Rightarrow> unit MctKernelResult" where
  "MctCall_validate c =
     and_then (CallerIdentity_validate (c_caller c)) (\<lambda>_.
     and_then (OperationTarget_validate (c_target c)) (\<lambda>_.
     and_then (PayloadMetadata_validate (c_payload_metadata c)) (\<lambda>_.
     and_then (GrantsAuthorityIdentity_validate
                 (ac_expected_receiver_grants_authority (c_authority_context c))) (\<lambda>_.
     and_then (ensure_non_blank ''MctCall'' ''deadline'' (ts_value (c_deadline c))) (\<lambda>_.
     and_then (TraceContext_validate (c_trace_context c)) (\<lambda>_.
     Inr ()))))))"

section \<open>Payload handles and results\<close>

datatype RuntimeKind = RK_Process | RK_JvmChild | RK_WasmComponent | RK_RemotePeer | RK_Internal

record RouteTaken =
  rt_node_id :: MctNodeId
  rt_child_id :: "ChildId option"
  rt_runtime_kind :: RuntimeKind

record ExecutionSummary =
  es_wall_time_ms :: u64
  es_execution_time_ms :: "u64 option"
  es_queue_wait_ms :: "u64 option"
  es_input_size_bytes :: u64
  es_output_size_bytes :: "u64 option"

datatype ResultOutcome = RO_Success | RO_Denied | RO_Failed | RO_TimedOut | RO_Cancelled

fun ResultOutcome_as_str :: "ResultOutcome \<Rightarrow> string" where
  "ResultOutcome_as_str RO_Success = ''success''"
| "ResultOutcome_as_str RO_Denied = ''denied''"
| "ResultOutcome_as_str RO_Failed = ''failed''"
| "ResultOutcome_as_str RO_TimedOut = ''timed_out''"
| "ResultOutcome_as_str RO_Cancelled = ''cancelled''"

text \<open>
  Arguments in the order of the source's fields: inline reference, content type, size, digest;
  digest, blob reference, content type, size; external reference, content type, approximate size.
\<close>

datatype MctCallPayloadHandle =
    InlinePayload string string u64 string
  | ContentAddressedBlob string string string u64
  | ExternalReference string "string option" u64
  | EmptyPayload

fun declared_size_bytes :: "MctCallPayloadHandle \<Rightarrow> u64" where
  "declared_size_bytes (InlinePayload _ _ n _) = n"
| "declared_size_bytes (ContentAddressedBlob _ _ _ n) = n"
| "declared_size_bytes (ExternalReference _ _ approximate) = approximate"
| "declared_size_bytes EmptyPayload = 0"

definition validate_optional_string_field ::
  "string \<Rightarrow> string \<Rightarrow> string option \<Rightarrow> unit MctKernelResult" where
  "validate_optional_string_field rec field val =
     (case val of None \<Rightarrow> Inr () | Some v \<Rightarrow> ensure_non_blank rec field v)"

fun MctCallPayloadHandle_validate :: "MctCallPayloadHandle \<Rightarrow> unit MctKernelResult" where
  "MctCallPayloadHandle_validate (InlinePayload inline_ref content_type _ digest_hex) =
     and_then (ensure_non_blank ''MctCallPayloadHandle'' ''inline_payload_ref'' inline_ref) (\<lambda>_.
     and_then (ensure_non_blank ''MctCallPayloadHandle'' ''content_type'' content_type) (\<lambda>_.
     and_then (ensure_non_blank ''MctCallPayloadHandle'' ''blake3_digest_hex'' digest_hex) (\<lambda>_.
     Inr ())))"
| "MctCallPayloadHandle_validate (ContentAddressedBlob digest blob_ref content_type _) =
     and_then (ensure_non_blank ''MctCallPayloadHandle'' ''digest'' digest) (\<lambda>_.
     and_then (ensure_non_blank ''MctCallPayloadHandle'' ''blob_ref'' blob_ref) (\<lambda>_.
     and_then (ensure_non_blank ''MctCallPayloadHandle'' ''content_type'' content_type) (\<lambda>_.
     Inr ())))"
| "MctCallPayloadHandle_validate (ExternalReference external_ref content_type _) =
     and_then (ensure_non_blank ''MctCallPayloadHandle'' ''external_ref'' external_ref) (\<lambda>_.
     and_then (validate_optional_string_field ''MctCallPayloadHandle'' ''content_type''
                 content_type) (\<lambda>_.
     Inr ()))"
| "MctCallPayloadHandle_validate EmptyPayload = Inr ()"

record MctResult =
  mr_call_id :: CallId
  mr_outcome :: ResultOutcome
  mr_route_taken :: "RouteTaken option"
  mr_authority_decision_ref :: DecisionId
  mr_execution_summary :: ExecutionSummary
  mr_result_payload :: MctCallPayloadHandle
  mr_requester_message :: string
  mr_audit_ref :: AuditRef

definition MctResult_validate :: "MctResult \<Rightarrow> unit MctKernelResult" where
  "MctResult_validate r =
     (if mr_route_taken r \<noteq> None \<and> mr_outcome r \<in> {RO_Denied, RO_Cancelled}
      then Inl (InvalidRouteTakenPresence ''MctResult'' (ResultOutcome_as_str (mr_outcome r)))
      else Inr ())"

section \<open>Payload integrity\<close>

datatype PayloadIntegritySubject = PIS_Request | PIS_ReplyResult

datatype PayloadIntegrityOutcome = PIO_Matched | PIO_Mismatch

datatype PayloadIntegrityReason =
    IntegrityMatched | PayloadDeclaredTooLarge | PayloadActualTooLarge
  | PIR_PayloadSizeMismatch | PayloadDigestMismatch | PayloadMissingInlineBytes
  | PayloadUnexpectedInlineBytes | PayloadBlobUnavailable | InvalidPayloadDigest
  | ResultPayloadTooLarge | ResultPayloadIntegrityMismatch

record MctPayloadIntegrityObservation =
  po_inline_bytes_present :: bool
  po_content_addressed_blob_fetch_attempted :: bool
  po_observed_size_bytes :: "u64 option"
  po_observed_blake3_digest_hex :: "string option"

definition missing_inline_bytes :: MctPayloadIntegrityObservation where
  "missing_inline_bytes =
     \<lparr>po_inline_bytes_present = False, po_content_addressed_blob_fetch_attempted = False,
      po_observed_size_bytes = None, po_observed_blake3_digest_hex = None\<rparr>"

definition missing_content_addressed_blob :: MctPayloadIntegrityObservation where
  "missing_content_addressed_blob =
     \<lparr>po_inline_bytes_present = False, po_content_addressed_blob_fetch_attempted = True,
      po_observed_size_bytes = None, po_observed_blake3_digest_hex = None\<rparr>"

record MctPayloadIntegrityDecision =
  pid_subject :: PayloadIntegritySubject
  pid_outcome :: PayloadIntegrityOutcome
  pid_reason :: PayloadIntegrityReason
  pid_safe_message :: string

fun is_inline_payload :: "MctCallPayloadHandle \<Rightarrow> bool" where
  "is_inline_payload (InlinePayload _ _ _ _) = True"
| "is_inline_payload _ = False"

fun is_content_addressed_blob :: "MctCallPayloadHandle \<Rightarrow> bool" where
  "is_content_addressed_blob (ContentAddressedBlob _ _ _ _) = True"
| "is_content_addressed_blob _ = False"

definition handle_declares_observed_bytes ::
  "MctCallPayloadHandle \<Rightarrow> MctPayloadIntegrityObservation \<Rightarrow> bool" where
  "handle_declares_observed_bytes h observed \<longleftrightarrow>
     is_inline_payload h \<or>
     (po_content_addressed_blob_fetch_attempted observed \<and> is_content_addressed_blob h)"

fun declared_digest_hex :: "MctCallPayloadHandle \<Rightarrow> string" where
  "declared_digest_hex (InlinePayload _ _ _ digest_hex) = digest_hex"
| "declared_digest_hex (ContentAddressedBlob digest _ _ _) = digest"
| "declared_digest_hex (ExternalReference _ _ _) = ''''"
| "declared_digest_hex EmptyPayload = ''''"

fun mismatch_reason :: "PayloadIntegritySubject \<Rightarrow> bool \<Rightarrow> PayloadIntegrityReason" where
  "mismatch_reason PIS_Request size_mismatch =
     (if size_mismatch then PIR_PayloadSizeMismatch else PayloadDigestMismatch)"
| "mismatch_reason PIS_ReplyResult _ = ResultPayloadIntegrityMismatch"

definition is_valid_blake3_hex :: "string \<Rightarrow> bool" where
  "is_valid_blake3_hex s \<longleftrightarrow> length s = 64 \<and> list_all is_lower_hex s"

definition payload_integrity_reason ::
  "PayloadIntegritySubject \<Rightarrow> MctCallPayloadHandle \<Rightarrow> MctPayloadIntegrityObservation \<Rightarrow> u64 \<Rightarrow>
   PayloadIntegrityReason" where
  "payload_integrity_reason subject h observed max_inline_size_bytes =
     (if \<not> handle_declares_observed_bytes h observed then
        (if po_inline_bytes_present observed
         then (if subject = PIS_ReplyResult then ResultPayloadIntegrityMismatch
               else PayloadUnexpectedInlineBytes)
         else IntegrityMatched)
      else (case (po_inline_bytes_present observed, po_observed_size_bytes observed,
                  po_observed_blake3_digest_hex observed) of
        (True, Some observed_size, Some observed_digest) \<Rightarrow>
          (let declared_digest = declared_digest_hex h; declared_size = declared_size_bytes h
           in if \<not> is_valid_blake3_hex declared_digest \<or> \<not> is_valid_blake3_hex observed_digest
              then InvalidPayloadDigest
              else if max_inline_size_bytes < declared_size
              then (if subject = PIS_ReplyResult then ResultPayloadTooLarge
                    else PayloadDeclaredTooLarge)
              else if max_inline_size_bytes < observed_size
              then (if subject = PIS_ReplyResult then ResultPayloadTooLarge
                    else PayloadActualTooLarge)
              else if declared_size \<noteq> observed_size then mismatch_reason subject True
              else if declared_digest \<noteq> observed_digest then mismatch_reason subject False
              else IntegrityMatched)
      | _ \<Rightarrow>
          (if subject = PIS_ReplyResult then ResultPayloadIntegrityMismatch
           else if po_content_addressed_blob_fetch_attempted observed
           then PayloadBlobUnavailable else PayloadMissingInlineBytes)))"

fun payload_integrity_safe_message :: "PayloadIntegrityReason \<Rightarrow> string" where
  "payload_integrity_safe_message IntegrityMatched = ''payload integrity verified''"
| "payload_integrity_safe_message ResultPayloadTooLarge = ''result payload too large''"
| "payload_integrity_safe_message ResultPayloadIntegrityMismatch =
     ''result payload integrity mismatch''"
| "payload_integrity_safe_message PayloadBlobUnavailable = ''payload blob unavailable''"
| "payload_integrity_safe_message _ = ''malformed call payload''"

definition evaluate_payload_integrity ::
  "PayloadIntegritySubject \<Rightarrow> MctCallPayloadHandle \<Rightarrow> MctPayloadIntegrityObservation \<Rightarrow> u64 \<Rightarrow>
   MctPayloadIntegrityDecision" where
  "evaluate_payload_integrity subject h observed max_inline_size_bytes =
     (let reason = payload_integrity_reason subject h observed max_inline_size_bytes
      in \<lparr>pid_subject = subject,
          pid_outcome = (if reason = IntegrityMatched then PIO_Matched else PIO_Mismatch),
          pid_reason = reason,
          pid_safe_message = payload_integrity_safe_message reason\<rparr>)"

section \<open>Idempotency\<close>

record MctIdempotencyFingerprint =
  if_target :: string
  if_call_id :: CallId
  if_payload_digest :: string

datatype MctIdempotencyEntryState = IES_InFlight | IES_Completed

record MctIdempotencyStoredEntry =
  ie_fingerprint :: MctIdempotencyFingerprint
  ie_state :: MctIdempotencyEntryState
  ie_expires_at :: Timestamp

datatype MctIdempotencyReason =
    ExecuteFresh | ReplayCompleted | IdempotencyKeyReuseMismatch
  | IdempotencyBudgetFull | IdempotencyInProgress

record MctIdempotencyDecision =
  id_reason :: MctIdempotencyReason
  id_safe_message :: string

definition evaluate_idempotency_request ::
  "MctIdempotencyFingerprint \<Rightarrow> MctIdempotencyStoredEntry option \<Rightarrow> u64 \<Rightarrow> u64 \<Rightarrow> Timestamp \<Rightarrow>
   MctIdempotencyDecision" where
  "evaluate_idempotency_request requested stored caller_entry_count caller_entry_budget now =
     (let live = (case stored of
                    None \<Rightarrow> None
                  | Some entry \<Rightarrow> if now < ie_expires_at entry then Some entry else None);
          reason = (case live of
                      Some entry \<Rightarrow>
                        if ie_fingerprint entry \<noteq> requested then IdempotencyKeyReuseMismatch
                        else if ie_state entry = IES_InFlight then IdempotencyInProgress
                        else ReplayCompleted
                    | None \<Rightarrow>
                        if caller_entry_budget \<le> caller_entry_count then IdempotencyBudgetFull
                        else ExecuteFresh);
          safe_message = (case reason of
                      ExecuteFresh \<Rightarrow> ''idempotency key reserved''
                    | ReplayCompleted \<Rightarrow> ''recorded result replayed''
                    | IdempotencyKeyReuseMismatch \<Rightarrow> ''idempotency key does not match request''
                    | IdempotencyBudgetFull \<Rightarrow> ''idempotency capacity unavailable; retry later''
                    | IdempotencyInProgress \<Rightarrow> ''request already in progress; retry later'')
      in \<lparr>id_reason = reason, id_safe_message = safe_message\<rparr>)"

section \<open>Facts about payload handles\<close>

lemma payload_reason_matched_declared:
  assumes "handle_declares_observed_bytes h obs"
  shows "payload_integrity_reason s h obs limit = IntegrityMatched \<longleftrightarrow>
    po_inline_bytes_present obs \<and>
    po_observed_size_bytes obs = Some (declared_size_bytes h) \<and>
    po_observed_blake3_digest_hex obs = Some (declared_digest_hex h) \<and>
    declared_size_bytes h \<le> limit \<and> is_valid_blake3_hex (declared_digest_hex h)"
  using assms
  by (cases s) (auto simp: payload_integrity_reason_def Let_def split: option.splits bool.splits)

lemma payload_reason_matched_undeclared:
  assumes "\<not> handle_declares_observed_bytes h obs"
  shows "payload_integrity_reason s h obs limit = IntegrityMatched \<longleftrightarrow>
    \<not> po_inline_bytes_present obs"
  using assms by (auto simp: payload_integrity_reason_def)

lemma payload_outcome_iff_reason:
  "pid_outcome (evaluate_payload_integrity s h obs limit) = PIO_Matched \<longleftrightarrow>
   payload_integrity_reason s h obs limit = IntegrityMatched"
  by (simp add: evaluate_payload_integrity_def Let_def)

section \<open>Properties\<close>

text \<open>
  A payload is matched exactly when either the handle declares bytes the adapter was to
  observe and those bytes are present with the declared size and digest, the digest is well
  formed and the size is within the limit; or the handle declares no observed bytes and none
  were delivered.
\<close>

lemma payload_matched_iff:
  "pid_outcome (evaluate_payload_integrity s h obs limit) = PIO_Matched \<longleftrightarrow>
   (if handle_declares_observed_bytes h obs
    then po_inline_bytes_present obs \<and>
         po_observed_size_bytes obs = Some (declared_size_bytes h) \<and>
         po_observed_blake3_digest_hex obs = Some (declared_digest_hex h) \<and>
         declared_size_bytes h \<le> limit \<and> is_valid_blake3_hex (declared_digest_hex h)
    else \<not> po_inline_bytes_present obs)"
  unfolding payload_outcome_iff_reason
  by (simp add: payload_reason_matched_declared payload_reason_matched_undeclared)

text \<open>
  The idempotency decision: an unexpired entry is never executed again. It is replayed when
  it completed with the same fingerprint, reported in progress while in flight, and refused as a
  mismatch under another fingerprint; only without one does the caller's budget decide.
\<close>

lemma idempotency_reason_eq:
  "id_reason (evaluate_idempotency_request requested stored used budget now) =
   (case stored of
      Some entry \<Rightarrow>
        if now < ie_expires_at entry
        then if ie_fingerprint entry = requested
             then (if ie_state entry = IES_Completed then ReplayCompleted else IdempotencyInProgress)
             else IdempotencyKeyReuseMismatch
        else if used < budget then ExecuteFresh else IdempotencyBudgetFull
    | None \<Rightarrow> if used < budget then ExecuteFresh else IdempotencyBudgetFull)"
  by (cases "(case stored of None \<Rightarrow> IES_Completed | Some e \<Rightarrow> ie_state e)")
    (auto simp: evaluate_idempotency_request_def Let_def not_le split: option.split)

end
