(* ===== verification/MCT_Grant.thy ===== *)
theory MCT_Grant
  imports MCT_Call
begin

text \<open>
  What all grant checks share: the time window and action list (\<open>grant_check.rs\<close>), optional
  scope fields (\<open>option_matches\<close> of \<open>child.rs\<close> and \<open>toy.rs\<close>), and the data facts that bind a
  grant to one call (\<open>invocation_data.rs\<close>).
\<close>

section \<open>Optional scope fields\<close>

definition option_matches :: "'a option \<Rightarrow> 'a option \<Rightarrow> bool" where
  "option_matches authority_value request_value =
     (case authority_value of None \<Rightarrow> True | Some v \<Rightarrow> request_value = Some v)"

lemma option_matches_None [simp]: "option_matches None r"
  by (simp add: option_matches_def)

lemma option_matches_Some [simp]: "option_matches (Some v) r \<longleftrightarrow> r = Some v"
  by (simp add: option_matches_def)

lemma option_matches_refl [simp]: "option_matches v v"
  by (cases v) simp_all

section \<open>Time window and actions (grant\_check.rs)\<close>

datatype ExpiryRequirement = ER_Optional | ER_Mandatory | ER_Forbidden

datatype ExpiryDecision =
  ED_Open | ED_NotYet | ED_Expired | ED_Missing | ED_PresentButForbidden

definition action_is_allowed :: "string list \<Rightarrow> string \<Rightarrow> bool" where
  "action_is_allowed allowed_actions action = list_ex (\<lambda>allowed. allowed = action) allowed_actions"

lemma action_is_allowed_iff [simp]: "action_is_allowed as a \<longleftrightarrow> a \<in> set as"
  by (auto simp: action_is_allowed_def list_ex_iff)

definition expiry_decision ::
  "Timestamp \<Rightarrow> Timestamp option \<Rightarrow> Timestamp option \<Rightarrow> ExpiryRequirement \<Rightarrow> ExpiryDecision" where
  "expiry_decision now starts_at expires_at requirement =
     (if (case starts_at of None \<Rightarrow> False | Some s \<Rightarrow> now < s) then ED_NotYet
      else case requirement of
        ER_Forbidden \<Rightarrow> (if expires_at \<noteq> None then ED_PresentButForbidden else ED_Open)
      | ER_Mandatory \<Rightarrow>
          (case expires_at of
             None \<Rightarrow> ED_Missing
           | Some e \<Rightarrow> if e \<le> now then ED_Expired else ED_Open)
      | ER_Optional \<Rightarrow>
          (case expires_at of
             Some e \<Rightarrow> if e \<le> now then ED_Expired else ED_Open
           | None \<Rightarrow> ED_Open))"

definition started :: "Timestamp \<Rightarrow> Timestamp option \<Rightarrow> bool" where
  "started now starts_at \<longleftrightarrow> (case starts_at of None \<Rightarrow> True | Some s \<Rightarrow> s \<le> now)"

definition unexpired :: "Timestamp \<Rightarrow> Timestamp option \<Rightarrow> bool" where
  "unexpired now expires_at \<longleftrightarrow> (case expires_at of None \<Rightarrow> True | Some e \<Rightarrow> now < e)"

lemma expiry_open_optional:
  "expiry_decision now s e ER_Optional = ED_Open \<longleftrightarrow> started now s \<and> unexpired now e"
  by (auto simp: expiry_decision_def started_def unexpired_def split: option.splits)

lemma expiry_open_mandatory:
  "expiry_decision now s e ER_Mandatory = ED_Open \<longleftrightarrow>
   started now s \<and> (\<exists>t. e = Some t \<and> now < t)"
  by (auto simp: expiry_decision_def started_def split: option.splits)

lemma expiry_open_forbidden:
  "expiry_decision now s e ER_Forbidden = ED_Open \<longleftrightarrow> started now s \<and> e = None"
  by (auto simp: expiry_decision_def started_def split: option.splits)

lemmas expiry_open = expiry_open_optional expiry_open_mandatory expiry_open_forbidden

section \<open>Invocation data (invocation\_data.rs)\<close>

record LocalInvocationData =
  ld_call_id :: CallId
  ld_project_id :: "ProjectId option"
  ld_data_classification :: string
  ld_contains_secret_scoped_material :: bool
  ld_source_observation_id :: ObservationId

definition ld_matches_call :: "LocalInvocationData \<Rightarrow> MctCall \<Rightarrow> bool" where
  "ld_matches_call d call \<longleftrightarrow>
     ld_call_id d = c_call_id call \<and>
     ld_project_id d = ci_project_id (c_caller call) \<and>
     \<not> trim_is_empty (ld_data_classification d) \<and>
     ld_data_classification d = pm_data_classification (c_payload_metadata call) \<and>
     ld_contains_secret_scoped_material d =
       pm_contains_secret_scoped_material (c_payload_metadata call)"

definition ld_matches_scope ::
  "LocalInvocationData \<Rightarrow> ProjectId option \<Rightarrow> string option \<Rightarrow> bool" where
  "ld_matches_scope d project classification \<longleftrightarrow>
     (case project of None \<Rightarrow> True | Some p \<Rightarrow> Some p = ld_project_id d) \<and>
     (case classification of None \<Rightarrow> True | Some c \<Rightarrow> c = ld_data_classification d)"

definition data_scope_matches ::
  "MctCall \<Rightarrow> LocalInvocationData option \<Rightarrow> ProjectId option \<Rightarrow> string option \<Rightarrow> bool" where
  "data_scope_matches call data project classification =
     (case data of
        Some d \<Rightarrow> ld_matches_call d call \<and> ld_matches_scope d project classification
      | None \<Rightarrow> project = None \<and> classification = None)"

text \<open>
  Whatever the evidence, a matched data scope holds of the call's own claims; without
  evidence only the unrestricted scope matches.
\<close>

lemma data_scope_matches_call:
  "data_scope_matches call data project classification \<Longrightarrow>
   option_matches project (ci_project_id (c_caller call)) \<and>
   option_matches classification (Some (pm_data_classification (c_payload_metadata call)))"
  by (auto simp: data_scope_matches_def ld_matches_call_def ld_matches_scope_def
      split: option.splits)

record InvocationCallBinding =
  icb_caller :: CallerIdentity
  icb_payload :: PayloadMetadata
  icb_origin :: CallOrigin

definition icb_capture :: "MctCall \<Rightarrow> InvocationCallBinding" where
  "icb_capture call =
     \<lparr>icb_caller = c_caller call, icb_payload = c_payload_metadata call,
      icb_origin = c_origin call\<rparr>"

definition icb_matches_call :: "InvocationCallBinding \<Rightarrow> MctCall \<Rightarrow> bool" where
  "icb_matches_call b call \<longleftrightarrow> b = icb_capture call"

lemma icb_capture_matches [simp]:
  "icb_matches_call (icb_capture call) call' \<longleftrightarrow>
   c_caller call = c_caller call' \<and> c_payload_metadata call = c_payload_metadata call' \<and>
   c_origin call = c_origin call'"
  by (auto simp: icb_matches_call_def icb_capture_def)

end
