(* ===== verification/MCT_Peer.thy ===== *)
theory MCT_Peer
  imports MCT_Call
begin

text \<open>
  Peer admission (\<open>peer/mod.rs\<close>, \<open>peer/internal.rs\<close>): connection facts, peer bindings and
  the evaluation of an \<open>mct/hello/0\<close> request against the local bindings and policy.
\<close>

section \<open>Data\<close>

definition NonBlank_new :: "string \<Rightarrow> string MctKernelResult" where
  "NonBlank_new val = and_then (ensure_non_blank ''NonBlank'' ''value'' val) (\<lambda>_. Inr val)"

datatype HelloSurfaceVisibility = VisionScoped

definition MCT_HELLO_ALPN :: string where
  "MCT_HELLO_ALPN = ''mct/hello/0''"

definition MCT_CALL_ALPN :: string where
  "MCT_CALL_ALPN = ''mct/call/0''"

datatype ConnectionSide = Incoming | Outgoing

datatype PathClass = PC_Direct | PC_Relayed | PC_RelayOnly | PC_PrivacyTransport | PC_Unknown

record IrohConnectionPresentation =
  ic_endpoint_id :: EndpointIdText
  ic_alpn :: string
  ic_connection_side :: ConnectionSide
  ic_path_class :: PathClass
  ic_relay_url :: "string option"
  ic_presented_capability_ref :: "string option"

definition IrohConnectionPresentation_validate ::
  "IrohConnectionPresentation \<Rightarrow> unit MctKernelResult" where
  "IrohConnectionPresentation_validate p =
     (case ic_presented_capability_ref p of
        None \<Rightarrow> Inr ()
      | Some r \<Rightarrow> ensure_non_blank ''IrohConnectionPresentation'' ''presented_capability_ref'' r)"

record MctPeerBindingScope =
  bs_mct_node_id :: MctNodeId
  bs_vision_id :: VisionId
  bs_allowed_alpns :: "string list"
  bs_data_scope :: "string option"
  bs_observation_scope :: "string option"

datatype BindingState = BS_Pending | BS_Admitted | BS_Denied | BS_Expired | BS_Revoked

record MctPeerBinding =
  pb_binding_id :: PeerBindingId
  pb_iroh_endpoint_id :: EndpointIdText
  pb_scope :: MctPeerBindingScope
  pb_issuer_node_id :: MctNodeId
  pb_policy_revision :: u64
  pb_binding_state :: BindingState
  pb_issued_at :: Timestamp
  pb_expires_at :: Timestamp
  pb_created_by_observation_id :: ObservationId
  pb_superseded_by_observation_id :: "ObservationId option"

record MctPeerAuthoritySnapshot =
  ps_bindings :: "MctPeerBinding list"
  ps_policy_revision :: u64

record MctProtocolVersion =
  pv_protocol_name :: string
  pv_major :: u32
  pv_minor :: u32
  pv_compatibility_floor :: "u32 option"

record MctPeerBindingPresentation =
  bp_binding_id :: "PeerBindingId option"
  bp_endpoint_id :: EndpointIdText
  bp_mct_node_id :: "MctNodeId option"
  bp_vision_id :: "VisionId option"
  bp_policy_revision :: "u64 option"
  bp_allowed_alpns_claim :: "string list"
  bp_signature_ref :: "string option"
  bp_expires_at :: "Timestamp option"

record MctHelloCallableSurface =
  cs_child_name :: string
  cs_operation_id :: string
  cs_runtime_kind :: RuntimeKind
  cs_vision_id :: VisionId
  cs_policy_revision :: u64
  cs_visibility :: HelloSurfaceVisibility

record MctHelloCapabilityView =
  cv_node_id :: MctNodeId
  cv_vision_id :: VisionId
  cv_published_at :: Timestamp
  cv_policy_revision :: u64
  cv_supported_alpns :: "string list"
  cv_supported_wit_worlds :: "string list"
  cv_supported_observation_modes :: "string list"
  cv_callable_surfaces :: "MctHelloCallableSurface list"
  cv_capability_view_ref :: "string option"

record MctHelloRequest =
  hr_hello_id :: string
  hr_received_over :: IrohConnectionPresentation
  hr_requested_protocol :: MctProtocolVersion
  hr_requested_vision_id :: "VisionId option"
  hr_requested_alpns :: "string list"
  hr_presented_binding :: MctPeerBindingPresentation
  hr_capability_view :: "MctHelloCapabilityView option"
  hr_local_policy_revision_seen :: "u64 option"
  hr_trace_id :: TraceId
  hr_received_observation_id :: ObservationId

datatype HelloOutcome = HO_Admitted | HO_Denied | HO_RetryLater | HO_UpgradeRequired

datatype HelloReason =
    HR_ActiveBinding | HR_EndpointMismatch | HR_MissingBinding | HR_BindingPending
  | HR_BindingRevoked | HR_BindingExpired | HR_VisionNotAllowed | HR_AlpnNotAllowed
  | HR_VersionUnsupported | HR_PolicyRevisionStale | HR_CapabilityInvalid
  | HR_RelayAccessDenied | HR_TemporaryUnavailable

datatype SafeHelloReason =
  SH_NotAuthorized | SH_UnsupportedVersion | SH_RetryLater | SH_Admitted

record MctHelloAdmissionEvaluation =
  he_decision_id :: DecisionId
  he_request_id :: string
  he_peer_admission_decision_id :: "DecisionId option"
  he_selected_binding_id :: "PeerBindingId option"
  he_selected_node_id :: "MctNodeId option"
  he_selected_vision_id :: "VisionId option"
  he_selected_policy_revision :: "u64 option"
  he_negotiated_protocol :: "MctProtocolVersion option"
  he_accepted_alpns :: "string list"
  he_hello_outcome :: HelloOutcome
  he_reason :: HelloReason
  he_safe_reason :: SafeHelloReason
  he_observation_id :: ObservationId

record MctHelloResponse =
  hs_response_id :: string
  hs_request_id :: string
  hs_decision_id :: DecisionId
  hs_hello_outcome :: HelloOutcome
  hs_negotiated_protocol :: "MctProtocolVersion option"
  hs_accepted_alpns :: "string list"
  hs_receiving_grants_authority :: "GrantsAuthorityIdentity option"
  hs_safe_message :: string
  hs_retry_after :: "Timestamp option"
  hs_capability_view :: "MctHelloCapabilityView option"
  hs_response_observation_id :: ObservationId

datatype PeerAdmissionOutcome = PA_Admitted | PA_Denied

datatype PeerAdmissionReason =
    PAR_ActiveBinding | PAR_UnknownEndpoint | PAR_MissingBinding | PAR_BindingPending
  | PAR_BindingRevoked | PAR_BindingExpired | PAR_VisionNotAllowed | PAR_AlpnNotAllowed
  | PAR_PolicyRevisionStale | PAR_CapabilityInvalid | PAR_RelayAccessDenied

record MctPeerAdmissionDecision =
  pd_decision_id :: DecisionId
  pd_presentation :: IrohConnectionPresentation
  pd_binding_id :: "PeerBindingId option"
  pd_requested_vision_id :: "VisionId option"
  pd_policy_revision :: u64
  pd_outcome :: PeerAdmissionOutcome
  pd_reason :: PeerAdmissionReason
  pd_observation_id :: ObservationId

record HelloPolicy =
  hp_protocol :: MctProtocolVersion
  hp_current_policy_revision :: u64
  hp_supported_alpns :: "string list"

definition HelloPolicy_default :: HelloPolicy where
  "HelloPolicy_default =
     \<lparr>hp_protocol = \<lparr>pv_protocol_name = MCT_HELLO_ALPN, pv_major = 1, pv_minor = 0,
                    pv_compatibility_floor = Some 1\<rparr>,
      hp_current_policy_revision = 1,
      hp_supported_alpns = [MCT_HELLO_ALPN, MCT_CALL_ALPN]\<rparr>"

record EvaluationIds =
  ei_decision_id :: DecisionId
  ei_observation_id :: ObservationId

record HelloEvaluationContext =
  hc_ids :: EvaluationIds
  hc_now :: Timestamp

section \<open>Operations\<close>

text \<open>
  \<open>collect::<BTreeSet<_>>\<close> sorts strings bytewise and drops duplicates; \<open>insort_str\<close> is one
  insertion into such a set kept as a sorted list.
\<close>

fun str_less :: "string \<Rightarrow> string \<Rightarrow> bool" where
  "str_less [] [] = False"
| "str_less [] (_ # _) = True"
| "str_less (_ # _) [] = False"
| "str_less (a # as) (b # bs) =
     ((of_char a :: nat) < of_char b \<or> a = b \<and> str_less as bs)"

fun insort_str :: "string \<Rightarrow> string list \<Rightarrow> string list" where
  "insort_str s [] = [s]"
| "insort_str s (t # ts) =
     (if s = t then t # ts else if str_less s t then s # t # ts else t # insort_str s ts)"

definition btree_set :: "string list \<Rightarrow> string list" where
  "btree_set ss = foldr insort_str ss []"

definition wit_world_of :: "MctHelloCallableSurface \<Rightarrow> string option" where
  "wit_world_of surface = map_option fst (rsplit_once (CHR ''.'') (cs_operation_id surface))"

definition for_vision ::
  "MctHelloCapabilityView \<Rightarrow> VisionId \<Rightarrow> MctHelloCapabilityView option" where
  "for_vision view vision =
     (if cv_vision_id view \<noteq> vision then None
      else let surfaces = filter (\<lambda>surface. cs_vision_id surface = vision)
                                 (cv_callable_surfaces view)
           in Some (view\<lparr>cv_callable_surfaces := surfaces,
                         cv_supported_wit_worlds := btree_set (List.map_filter wit_world_of surfaces),
                         cv_capability_view_ref := None\<rparr>))"

definition select_binding ::
  "MctHelloRequest \<Rightarrow> MctPeerBinding list \<Rightarrow> MctPeerBinding option" where
  "select_binding request bindings =
     (case bp_binding_id (hr_presented_binding request) of
        Some binding_id \<Rightarrow>
          List.find (\<lambda>binding.
            pb_binding_id binding = binding_id \<and>
            pb_iroh_endpoint_id binding = ic_endpoint_id (hr_received_over request)) bindings
      | None \<Rightarrow>
          List.find (\<lambda>binding.
            pb_iroh_endpoint_id binding = ic_endpoint_id (hr_received_over request)) bindings)"

definition accepted_alpns ::
  "MctHelloRequest \<Rightarrow> MctPeerBinding \<Rightarrow> HelloPolicy \<Rightarrow> string list" where
  "accepted_alpns request binding policy =
     filter (\<lambda>alpn. alpn \<in> set (bs_allowed_alpns (pb_scope binding)))
       (filter (\<lambda>alpn. alpn \<in> set (hp_supported_alpns policy)) (hr_requested_alpns request))"

definition hello_denied ::
  "MctHelloRequest \<Rightarrow> EvaluationIds \<Rightarrow> HelloReason \<Rightarrow> SafeHelloReason \<Rightarrow>
   MctHelloAdmissionEvaluation" where
  "hello_denied request ids reason safe_reason =
     \<lparr>he_decision_id = ei_decision_id ids, he_request_id = hr_hello_id request,
      he_peer_admission_decision_id = None, he_selected_binding_id = None,
      he_selected_node_id = None, he_selected_vision_id = None,
      he_selected_policy_revision = None, he_negotiated_protocol = None,
      he_accepted_alpns = [],
      he_hello_outcome = (case safe_reason of
          SH_UnsupportedVersion \<Rightarrow> HO_UpgradeRequired
        | SH_RetryLater \<Rightarrow> HO_RetryLater
        | SH_NotAuthorized \<Rightarrow> HO_Denied
        | SH_Admitted \<Rightarrow> HO_Denied),
      he_reason = reason, he_safe_reason = safe_reason,
      he_observation_id = ei_observation_id ids\<rparr>"

definition evaluate_hello ::
  "MctHelloRequest \<Rightarrow> MctPeerBinding list \<Rightarrow> HelloPolicy \<Rightarrow> HelloEvaluationContext \<Rightarrow>
   MctHelloAdmissionEvaluation" where
  "evaluate_hello request bindings policy context =
     (let ids = hc_ids context; now = hc_now context;
          presented = hr_presented_binding request;
          deny = hello_denied request ids
      in if pv_protocol_name (hr_requested_protocol request) \<noteq> pv_protocol_name (hp_protocol policy)
            \<or> pv_major (hr_requested_protocol request) \<noteq> pv_major (hp_protocol policy)
         then deny HR_VersionUnsupported SH_UnsupportedVersion
         else if bp_endpoint_id presented \<noteq> ic_endpoint_id (hr_received_over request)
         then deny HR_EndpointMismatch SH_NotAuthorized
         else case select_binding request bindings of
           None \<Rightarrow> deny HR_MissingBinding SH_NotAuthorized
         | Some binding \<Rightarrow>
           (case pb_binding_state binding of
              BS_Pending \<Rightarrow> deny HR_BindingPending SH_RetryLater
            | BS_Expired \<Rightarrow> deny HR_BindingExpired SH_NotAuthorized
            | BS_Revoked \<Rightarrow> deny HR_BindingRevoked SH_NotAuthorized
            | BS_Denied \<Rightarrow> deny HR_MissingBinding SH_NotAuthorized
            | BS_Admitted \<Rightarrow>
              if (case bp_mct_node_id presented of
                    None \<Rightarrow> False | Some n \<Rightarrow> n \<noteq> bs_mct_node_id (pb_scope binding))
              then deny HR_CapabilityInvalid SH_NotAuthorized
              else if (case bp_vision_id presented of
                    None \<Rightarrow> False | Some v \<Rightarrow> v \<noteq> bs_vision_id (pb_scope binding))
              then deny HR_VisionNotAllowed SH_NotAuthorized
              else if pb_expires_at binding \<le> now
              then deny HR_BindingExpired SH_NotAuthorized
              else if pb_policy_revision binding < hp_current_policy_revision policy \<or>
                (case bp_policy_revision presented of
                   None \<Rightarrow> False | Some r \<Rightarrow> r < hp_current_policy_revision policy)
              then deny HR_PolicyRevisionStale SH_NotAuthorized
              else if (case hr_requested_vision_id request of
                    None \<Rightarrow> False | Some v \<Rightarrow> v \<noteq> bs_vision_id (pb_scope binding))
              then deny HR_VisionNotAllowed SH_NotAuthorized
              else let alpns = accepted_alpns request binding policy
                   in if alpns = [] then deny HR_AlpnNotAllowed SH_NotAuthorized
                      else \<lparr>he_decision_id = ei_decision_id ids,
                            he_request_id = hr_hello_id request,
                            he_peer_admission_decision_id = None,
                            he_selected_binding_id = Some (pb_binding_id binding),
                            he_selected_node_id = Some (bs_mct_node_id (pb_scope binding)),
                            he_selected_vision_id = Some (bs_vision_id (pb_scope binding)),
                            he_selected_policy_revision = Some (pb_policy_revision binding),
                            he_negotiated_protocol = Some (hp_protocol policy),
                            he_accepted_alpns = alpns,
                            he_hello_outcome = HO_Admitted,
                            he_reason = HR_ActiveBinding,
                            he_safe_reason = SH_Admitted,
                            he_observation_id = ei_observation_id ids\<rparr>))"

definition he_is_admitted :: "MctHelloAdmissionEvaluation \<Rightarrow> bool" where
  "he_is_admitted e \<longleftrightarrow> he_hello_outcome e = HO_Admitted"

definition admits_alpn :: "MctHelloAdmissionEvaluation \<Rightarrow> string \<Rightarrow> bool" where
  "admits_alpn e alpn \<longleftrightarrow> list_ex (\<lambda>accepted. accepted = alpn) (he_accepted_alpns e)"

definition refuse_receiver_authority_unavailable ::
  "MctHelloAdmissionEvaluation \<Rightarrow> MctHelloAdmissionEvaluation" where
  "refuse_receiver_authority_unavailable e =
     (if \<not> he_is_admitted e then e
      else e\<lparr>he_peer_admission_decision_id := None, he_selected_binding_id := None,
             he_selected_node_id := None, he_selected_vision_id := None,
             he_selected_policy_revision := None, he_negotiated_protocol := None,
             he_accepted_alpns := [], he_hello_outcome := HO_RetryLater,
             he_reason := HR_TemporaryUnavailable, he_safe_reason := SH_RetryLater\<rparr>)"

definition hello_response ::
  "string \<Rightarrow> MctHelloAdmissionEvaluation \<Rightarrow> ObservationId \<Rightarrow> MctHelloResponse" where
  "hello_response response_id evaluation response_observation_id =
     (let safe_message = (case he_safe_reason evaluation of
            SH_Admitted \<Rightarrow> ''admitted''
          | SH_NotAuthorized \<Rightarrow> ''not authorized''
          | SH_UnsupportedVersion \<Rightarrow> ''unsupported version''
          | SH_RetryLater \<Rightarrow> ''retry later'')
      in \<lparr>hs_response_id = response_id, hs_request_id = he_request_id evaluation,
          hs_decision_id = he_decision_id evaluation,
          hs_hello_outcome = he_hello_outcome evaluation,
          hs_negotiated_protocol = he_negotiated_protocol evaluation,
          hs_accepted_alpns = he_accepted_alpns evaluation,
          hs_receiving_grants_authority = None, hs_safe_message = safe_message,
          hs_retry_after = None, hs_capability_view = None,
          hs_response_observation_id = response_observation_id\<rparr>)"

end
