(* ===== verification/MCT_Protocol.thy ===== *)
theory MCT_Protocol
  imports MCT_Grant MCT_Peer
begin

text \<open>
  The call protocol \<open>mct/call/0\<close> (\<open>call/mod.rs\<close>, \<open>call/internal.rs\<close>): the request an
  admitted peer submits, its evaluation against the hello and the current bindings, and
  the projection of an evaluation to the reply a peer may see. JSON encoding is done by
  \<open>serde_json\<close>, a parameter of the definitions that call it.
\<close>

section \<open>Data\<close>

record MctCallProtocolAuthority =
  pa_hello_decision_id :: DecisionId
  pa_peer_binding_id :: PeerBindingId
  pa_vision_id :: VisionId
  pa_accepted_alpn :: string
  pa_endpoint_id :: EndpointIdText
  pa_policy_revision :: u64
  pa_expected_receiver_grants_authority :: GrantsAuthorityIdentity

definition MctCallProtocolAuthority_validate ::
  "MctCallProtocolAuthority \<Rightarrow> unit MctKernelResult" where
  "MctCallProtocolAuthority_validate a =
     and_then (ensure_non_blank ''MctCallProtocolAuthority'' ''accepted_alpn''
                 (pa_accepted_alpn a)) (\<lambda>_.
     GrantsAuthorityIdentity_validate (pa_expected_receiver_grants_authority a))"

record MctCallProtocolRequest =
  pr_protocol_request_id :: ProtocolRequestId
  pr_authority :: MctCallProtocolAuthority
  pr_received_over :: IrohConnectionPresentation
  pr_call :: MctCall
  pr_payload :: MctCallPayloadHandle
  pr_idempotency_key :: "string option"
  pr_received_observation_id :: ObservationId

definition MctCallProtocolRequest_validate ::
  "MctCallProtocolRequest \<Rightarrow> unit MctKernelResult" where
  "MctCallProtocolRequest_validate r =
     and_then (MctCallProtocolAuthority_validate (pr_authority r)) (\<lambda>_.
     and_then (IrohConnectionPresentation_validate (pr_received_over r)) (\<lambda>_.
     and_then (MctCall_validate (pr_call r)) (\<lambda>_.
     and_then (MctCallPayloadHandle_validate (pr_payload r)) (\<lambda>_.
     and_then (validate_optional_string_field ''MctCallProtocolRequest'' ''idempotency_key''
                 (pr_idempotency_key r)) (\<lambda>_.
     if declared_size_bytes (pr_payload r) \<noteq> pm_size_bytes (c_payload_metadata (pr_call r))
     then Inl (MctKernelError.PayloadSizeMismatch
                 (pm_size_bytes (c_payload_metadata (pr_call r)))
                 (declared_size_bytes (pr_payload r)))
     else Inr ())))))"

datatype CallProtocolOutcome =
    CPO_AcceptedForRouting | CPO_Malformed | CPO_Denied | CPO_Failed | CPO_TimedOut
  | CPO_Cancelled | CPO_Completed

datatype CallProtocolReason =
    CPR_HelloNotAdmitted | CPR_AlpnNotAdmitted | CPR_EndpointMismatch | CPR_BindingMismatch
  | CPR_CallerMismatch | CPR_OriginMismatch | CPR_VisionMismatch | CPR_BindingRevoked
  | CPR_BindingExpired | CPR_PolicyRevisionStale | CPR_ExpectedReceiverAuthorityStale
  | CPR_ReceiverAuthorityUnavailable | CPR_CallDeadlineExpired | CPR_MalformedCall
  | CPR_PayloadMetadataMismatch | CPR_PayloadDeclaredTooLarge | CPR_PayloadActualTooLarge
  | CPR_PayloadSizeMismatch | CPR_PayloadDigestMismatch | CPR_PayloadMissingInlineBytes
  | CPR_PayloadUnexpectedInlineBytes | CPR_PayloadBlobUnavailable | CPR_InvalidPayloadDigest
  | CPR_ChildPayloadContentTypeUnsupported | CPR_ResultPayloadTooLarge
  | CPR_ResultPayloadIntegrityMismatch | CPR_IdempotencyKeyReuseMismatch
  | CPR_IdempotencyBudgetFull | CPR_IdempotencyInProgress | CPR_IdempotencyReplayCompleted
  | CPR_AuthorityDenied | CPR_NoRoute | CPR_ExecutionFailed | CPR_ExecutionTimedOut
  | CPR_ExecutionInterrupted | CPR_AcceptedForRouting | CPR_ResultRecorded

fun to_call_protocol_reason :: "PayloadIntegrityReason \<Rightarrow> CallProtocolReason" where
  "to_call_protocol_reason IntegrityMatched = CPR_ResultRecorded"
| "to_call_protocol_reason PayloadDeclaredTooLarge = CPR_PayloadDeclaredTooLarge"
| "to_call_protocol_reason PayloadActualTooLarge = CPR_PayloadActualTooLarge"
| "to_call_protocol_reason PIR_PayloadSizeMismatch = CPR_PayloadSizeMismatch"
| "to_call_protocol_reason PayloadDigestMismatch = CPR_PayloadDigestMismatch"
| "to_call_protocol_reason PayloadMissingInlineBytes = CPR_PayloadMissingInlineBytes"
| "to_call_protocol_reason PayloadUnexpectedInlineBytes = CPR_PayloadUnexpectedInlineBytes"
| "to_call_protocol_reason PayloadBlobUnavailable = CPR_PayloadBlobUnavailable"
| "to_call_protocol_reason InvalidPayloadDigest = CPR_InvalidPayloadDigest"
| "to_call_protocol_reason ResultPayloadTooLarge = CPR_ResultPayloadTooLarge"
| "to_call_protocol_reason ResultPayloadIntegrityMismatch = CPR_ResultPayloadIntegrityMismatch"

datatype CallProtocolRetryDirective = CRD_None | CRD_RefreshHello | CRD_RetryLater

record MctCallProtocolEvaluation =
  ce_decision_id :: DecisionId
  ce_protocol_request_id :: ProtocolRequestId
  ce_call_id :: "CallId option"
  ce_route_decision_id :: "DecisionId option"
  ce_result_ref :: "ResultRef option"
  ce_outcome :: CallProtocolOutcome
  ce_reason :: CallProtocolReason
  ce_retry_directive :: CallProtocolRetryDirective
  ce_safe_message :: string
  ce_observation_id :: ObservationId

datatype CallProtocolReplyOutcome =
  CRO_Success | CRO_Denied | CRO_Failed | CRO_TimedOut | CRO_Cancelled | CRO_Malformed

fun CallProtocolReplyOutcome_as_str :: "CallProtocolReplyOutcome \<Rightarrow> string" where
  "CallProtocolReplyOutcome_as_str CRO_Success = ''success''"
| "CallProtocolReplyOutcome_as_str CRO_Denied = ''denied''"
| "CallProtocolReplyOutcome_as_str CRO_Failed = ''failed''"
| "CallProtocolReplyOutcome_as_str CRO_TimedOut = ''timed_out''"
| "CallProtocolReplyOutcome_as_str CRO_Cancelled = ''cancelled''"
| "CallProtocolReplyOutcome_as_str CRO_Malformed = ''malformed''"

datatype CallProtocolReplyReason = Known CallProtocolReason | Unrecognized string

record MctCallProtocolReply =
  rp_reply_id :: ReplyId
  rp_protocol_request_id :: ProtocolRequestId
  rp_decision_id :: DecisionId
  rp_result_ref :: "ResultRef option"
  rp_result_payload :: MctCallPayloadHandle
  rp_route_taken :: "RouteTaken option"
  rp_reply_outcome :: CallProtocolReplyOutcome
  rp_reason :: "CallProtocolReplyReason option"
  rp_retry_directive :: CallProtocolRetryDirective
  rp_safe_message :: string
  rp_reply_observation_id :: ObservationId

record CallEvaluationIds =
  cei_decision_id :: DecisionId
  cei_observation_id :: ObservationId

record CallEvaluationContext =
  cec_ids :: CallEvaluationIds
  cec_current_peer_authority :: MctPeerAuthoritySnapshot
  cec_current_receiver_grants_authority :: "GrantsAuthorityIdentity option"
  cec_now :: Timestamp

section \<open>Reply reasons\<close>

definition is_peer_reply_reason :: "CallProtocolReason \<Rightarrow> bool" where
  "is_peer_reply_reason reason \<longleftrightarrow>
     reason \<in> {CPR_ExecutionFailed, CPR_ExecutionTimedOut, CPR_ExecutionInterrupted}"

fun peer_safe :: "CallProtocolReplyReason \<Rightarrow> CallProtocolReason option" where
  "peer_safe (Known reason) = (if is_peer_reply_reason reason then Some reason else None)"
| "peer_safe (Unrecognized _) = None"

definition peer_reply_reason ::
  "CallProtocolReplyOutcome \<Rightarrow> CallProtocolReason \<Rightarrow> CallProtocolReplyReason option" where
  "peer_reply_reason outcome reason =
     (let execution_outcome = outcome \<in> {CRO_Failed, CRO_TimedOut}
      in if execution_outcome \<and> is_peer_reply_reason reason then Some (Known reason) else None)"

definition MAX_UNRECOGNIZED_REPLY_REASON_LEN :: nat where
  "MAX_UNRECOGNIZED_REPLY_REASON_LEN = 64"

text \<open>
  \<open>str::is_char_boundary\<close> on UTF-8 bytes: the ends of the string, and every position whose byte
  is not a continuation byte \<open>0x80..0xBF\<close>. The loop stops at 0 at the latest.
\<close>

definition is_char_boundary :: "string \<Rightarrow> nat \<Rightarrow> bool" where
  "is_char_boundary text i \<longleftrightarrow>
     i = 0 \<or> i = length text \<or>
     i < length text \<and> \<not> (let b = (of_char (text ! i) :: nat) in 0x80 \<le> b \<and> b < 0xC0)"

function truncation_end :: "string \<Rightarrow> nat \<Rightarrow> nat" where
  "truncation_end text end =
     (if is_char_boundary text end then end else truncation_end text (end - 1))"
  by pat_completeness auto
termination
  by (relation "measure snd") (auto simp: is_char_boundary_def)

declare truncation_end.simps [simp del]

definition reply_reason_from_value ::
  "('j \<Rightarrow> CallProtocolReason option) \<Rightarrow> ('j \<Rightarrow> string option) \<Rightarrow> 'j \<Rightarrow>
   CallProtocolReplyReason" where
  "reply_reason_from_value from_value as_string val =
     (case from_value val of
        Some reason \<Rightarrow> Known reason
      | None \<Rightarrow>
          (let text = (case as_string val of Some t \<Rightarrow> t | None \<Rightarrow> ''non-string'')
           in Unrecognized
                (if MAX_UNRECOGNIZED_REPLY_REASON_LEN < length text
                 then take (truncation_end text MAX_UNRECOGNIZED_REPLY_REASON_LEN) text
                 else text)))"

definition deserialize_reply_reason ::
  "('j \<Rightarrow> CallProtocolReason option) \<Rightarrow> ('j \<Rightarrow> string option) \<Rightarrow> 'j option \<Rightarrow>
   CallProtocolReplyReason option" where
  "deserialize_reply_reason from_value as_string val =
     map_option (reply_reason_from_value from_value as_string) val"

definition MctCallProtocolReply_validate :: "MctCallProtocolReply \<Rightarrow> unit MctKernelResult" where
  "MctCallProtocolReply_validate r =
     and_then (ensure_non_blank ''MctCallProtocolReply'' ''safe_message'' (rp_safe_message r)) (\<lambda>_.
     if rp_reason r \<noteq> None \<and> rp_reply_outcome r = CRO_Success
     then Inl (InvalidReplyReasonPresence ''MctCallProtocolReply''
                 (CallProtocolReplyOutcome_as_str (rp_reply_outcome r)))
     else
     and_then (MctCallPayloadHandle_validate (rp_result_payload r)) (\<lambda>_.
     if rp_route_taken r \<noteq> None \<and>
        rp_reply_outcome r \<in> {CRO_Denied, CRO_Cancelled, CRO_Malformed}
     then Inl (InvalidRouteTakenPresence ''MctCallProtocolReply''
                 (CallProtocolReplyOutcome_as_str (rp_reply_outcome r)))
     else Inr ()))"

section \<open>Evaluation\<close>

fun denied_outcome :: "CallProtocolReason \<Rightarrow> CallProtocolOutcome" where
  "denied_outcome reason =
     (if reason \<in> {CPR_MalformedCall, CPR_PayloadMetadataMismatch, CPR_PayloadDeclaredTooLarge,
          CPR_PayloadActualTooLarge, CPR_PayloadSizeMismatch, CPR_PayloadDigestMismatch,
          CPR_PayloadMissingInlineBytes, CPR_PayloadUnexpectedInlineBytes,
          CPR_InvalidPayloadDigest, CPR_IdempotencyKeyReuseMismatch}
      then CPO_Malformed
      else if reason \<in> {CPR_IdempotencyBudgetFull, CPR_IdempotencyInProgress,
          CPR_ChildPayloadContentTypeUnsupported, CPR_ResultPayloadTooLarge,
          CPR_ResultPayloadIntegrityMismatch, CPR_ExecutionFailed, CPR_ExecutionInterrupted}
      then CPO_Failed
      else if reason = CPR_ExecutionTimedOut then CPO_TimedOut
      else CPO_Denied)"

definition call_denied ::
  "MctCallProtocolRequest \<Rightarrow> CallEvaluationIds \<Rightarrow> CallProtocolReason \<Rightarrow> string \<Rightarrow>
   MctCallProtocolEvaluation" where
  "call_denied request ids reason safe_message =
     \<lparr>ce_decision_id = cei_decision_id ids,
      ce_protocol_request_id = pr_protocol_request_id request,
      ce_call_id = Some (c_call_id (pr_call request)),
      ce_route_decision_id = None, ce_result_ref = None,
      ce_outcome = denied_outcome reason, ce_reason = reason,
      ce_retry_directive =
        (if reason = CPR_ExpectedReceiverAuthorityStale then CRD_RefreshHello
         else if reason = CPR_ReceiverAuthorityUnavailable then CRD_RetryLater
         else CRD_None),
      ce_safe_message = safe_message, ce_observation_id = cei_observation_id ids\<rparr>"

definition current_binding_denial_reason ::
  "MctCallProtocolRequest \<Rightarrow> MctHelloAdmissionEvaluation \<Rightarrow> MctPeerAuthoritySnapshot \<Rightarrow>
   Timestamp \<Rightarrow> CallProtocolReason option" where
  "current_binding_denial_reason request hello authority now =
     (let pa = pr_authority request; call = pr_call request
      in case List.find (\<lambda>binding.
                pb_binding_id binding = pa_peer_binding_id pa \<and>
                pb_iroh_endpoint_id binding = ic_endpoint_id (pr_received_over request))
              (ps_bindings authority) of
        None \<Rightarrow> Some CPR_BindingMismatch
      | Some binding \<Rightarrow>
        (case pb_binding_state binding of
           BS_Revoked \<Rightarrow> Some CPR_BindingRevoked
         | BS_Expired \<Rightarrow> Some CPR_BindingExpired
         | BS_Pending \<Rightarrow> Some CPR_BindingMismatch
         | BS_Denied \<Rightarrow> Some CPR_BindingMismatch
         | BS_Admitted \<Rightarrow>
           if pb_expires_at binding \<le> now then Some CPR_BindingExpired
           else if he_selected_policy_revision hello \<noteq> Some (pb_policy_revision binding)
                \<or> pb_policy_revision binding \<noteq> pa_policy_revision pa
                \<or> pb_policy_revision binding < ps_policy_revision authority
                \<or> pa_policy_revision pa < ps_policy_revision authority
           then Some CPR_PolicyRevisionStale
           else if bs_mct_node_id (pb_scope binding) \<noteq> ci_node_id (c_caller call)
           then Some CPR_CallerMismatch
           else if bs_vision_id (pb_scope binding) \<noteq> pa_vision_id pa
                \<or> bs_vision_id (pb_scope binding) \<noteq> ci_vision_id (c_caller call)
           then Some CPR_VisionMismatch
           else if \<not> list_ex (\<lambda>alpn. alpn = MCT_CALL_ALPN) (bs_allowed_alpns (pb_scope binding))
           then Some CPR_AlpnNotAdmitted
           else None))"

definition evaluate_call_protocol ::
  "MctCallProtocolRequest \<Rightarrow> MctHelloAdmissionEvaluation \<Rightarrow> CallEvaluationContext \<Rightarrow>
   MctCallProtocolEvaluation" where
  "evaluate_call_protocol request hello context =
     (let ids = cec_ids context; now = cec_now context;
          pa = pr_authority request; call = pr_call request;
          deny = call_denied request ids
      in if \<not> he_is_admitted hello \<or> pa_hello_decision_id pa \<noteq> he_decision_id hello
         then deny CPR_HelloNotAdmitted ''not authorized''
         else if he_selected_binding_id hello \<noteq> Some (pa_peer_binding_id pa)
         then deny CPR_BindingMismatch ''not authorized''
         else if c_origin call \<noteq> Iroh
         then deny CPR_OriginMismatch ''not authorized''
         else if he_selected_node_id hello \<noteq> Some (ci_node_id (c_caller call))
              \<or> ci_user_id (c_caller call) \<noteq> None
         then deny CPR_CallerMismatch ''not authorized''
         else if he_selected_vision_id hello \<noteq> Some (pa_vision_id pa)
              \<or> pa_vision_id pa \<noteq> ci_vision_id (c_caller call)
         then deny CPR_VisionMismatch ''not authorized''
         else if pa_accepted_alpn pa \<noteq> MCT_CALL_ALPN \<or> \<not> admits_alpn hello MCT_CALL_ALPN
         then deny CPR_AlpnNotAdmitted ''not authorized''
         else if pa_endpoint_id pa \<noteq> ic_endpoint_id (pr_received_over request)
         then deny CPR_EndpointMismatch ''not authorized''
         else case current_binding_denial_reason request hello
                     (cec_current_peer_authority context) now of
           Some reason \<Rightarrow> deny reason ''not authorized''
         | None \<Rightarrow>
           if ac_policy_revision (c_authority_context call) < pa_policy_revision pa
           then deny CPR_PolicyRevisionStale ''not authorized''
           else if ac_expected_receiver_grants_authority (c_authority_context call)
                   \<noteq> pa_expected_receiver_grants_authority pa
           then deny CPR_MalformedCall ''malformed call''
           else case cec_current_receiver_grants_authority context of
             None \<Rightarrow> deny CPR_ReceiverAuthorityUnavailable
                       ''receiver authority unavailable; retry later''
           | Some current \<Rightarrow>
             if pa_expected_receiver_grants_authority pa \<noteq> current
             then deny CPR_ExpectedReceiverAuthorityStale
                       ''receiver authority changed; refresh hello''
             else if declared_size_bytes (pr_payload request)
                     \<noteq> pm_size_bytes (c_payload_metadata call)
             then deny CPR_PayloadMetadataMismatch ''malformed call''
             else \<lparr>ce_decision_id = cei_decision_id ids,
                   ce_protocol_request_id = pr_protocol_request_id request,
                   ce_call_id = Some (c_call_id call),
                   ce_route_decision_id = None, ce_result_ref = None,
                   ce_outcome = CPO_AcceptedForRouting, ce_reason = CPR_AcceptedForRouting,
                   ce_retry_directive = CRD_None, ce_safe_message = ''accepted for routing'',
                   ce_observation_id = cei_observation_id ids\<rparr>)"

definition is_accepted_for_routing :: "MctCallProtocolEvaluation \<Rightarrow> bool" where
  "is_accepted_for_routing e \<longleftrightarrow> ce_outcome e = CPO_AcceptedForRouting"

section \<open>JSON edge and replies\<close>

text \<open>
  \<open>serde_json::to_vec\<close> and \<open>from_slice\<close> of one type; the error is the message of the crate.
\<close>

record 'a json_codec =
  sj_to_vec :: "'a \<Rightarrow> string + string"
  sj_from_slice :: "string \<Rightarrow> string + 'a"

definition encode_call_protocol_request_json ::
  "MctCallProtocolRequest json_codec \<Rightarrow> MctCallProtocolRequest \<Rightarrow> string MctKernelResult" where
  "encode_call_protocol_request_json codec request =
     and_then (MctCallProtocolRequest_validate request) (\<lambda>_.
     case sj_to_vec codec request of
       Inl source \<Rightarrow> Inl (EncodeCallProtocolJson source) | Inr bytes \<Rightarrow> Inr bytes)"

definition decode_call_protocol_request_json ::
  "MctCallProtocolRequest json_codec \<Rightarrow> string \<Rightarrow> MctCallProtocolRequest MctKernelResult" where
  "decode_call_protocol_request_json codec bytes =
     and_then (case sj_from_slice codec bytes of
                 Inl source \<Rightarrow> Inl (DecodeCallProtocolJson source) | Inr r \<Rightarrow> Inr r) (\<lambda>request.
     and_then (MctCallProtocolRequest_validate request) (\<lambda>_. Inr request))"

definition encode_call_protocol_reply_json ::
  "MctCallProtocolReply json_codec \<Rightarrow> MctCallProtocolReply \<Rightarrow> string MctKernelResult" where
  "encode_call_protocol_reply_json codec reply =
     and_then (MctCallProtocolReply_validate reply) (\<lambda>_.
     case sj_to_vec codec reply of
       Inl source \<Rightarrow> Inl (EncodeCallProtocolJson source) | Inr bytes \<Rightarrow> Inr bytes)"

definition decode_call_protocol_reply_json ::
  "MctCallProtocolReply json_codec \<Rightarrow> string \<Rightarrow> MctCallProtocolReply MctKernelResult" where
  "decode_call_protocol_reply_json codec bytes =
     and_then (case sj_from_slice codec bytes of
                 Inl source \<Rightarrow> Inl (DecodeCallProtocolJson source) | Inr r \<Rightarrow> Inr r) (\<lambda>reply.
     and_then (MctCallProtocolReply_validate reply) (\<lambda>_. Inr reply))"

definition call_reply_from_evaluation_with_result_payload_and_route ::
  "ReplyId \<Rightarrow> MctCallProtocolEvaluation \<Rightarrow> ResultRef option \<Rightarrow> MctCallPayloadHandle \<Rightarrow>
   RouteTaken option \<Rightarrow> ObservationId \<Rightarrow> MctCallProtocolReply" where
  "call_reply_from_evaluation_with_result_payload_and_route
     reply_id evaluation result_ref result_payload route_taken reply_observation_id =
     (let reply_outcome = (case ce_outcome evaluation of
            CPO_AcceptedForRouting \<Rightarrow> CRO_Success
          | CPO_Completed \<Rightarrow> CRO_Success
          | CPO_Malformed \<Rightarrow> CRO_Malformed
          | CPO_Denied \<Rightarrow> CRO_Denied
          | CPO_Failed \<Rightarrow> CRO_Failed
          | CPO_TimedOut \<Rightarrow> CRO_TimedOut
          | CPO_Cancelled \<Rightarrow> CRO_Cancelled);
          route_taken = (case reply_outcome of
            CRO_Denied \<Rightarrow> None
          | CRO_Cancelled \<Rightarrow> None
          | CRO_Malformed \<Rightarrow> None
          | CRO_Success \<Rightarrow> route_taken
          | CRO_Failed \<Rightarrow> route_taken
          | CRO_TimedOut \<Rightarrow> route_taken)
      in \<lparr>rp_reply_id = reply_id,
          rp_protocol_request_id = ce_protocol_request_id evaluation,
          rp_decision_id = ce_decision_id evaluation,
          rp_result_ref = result_ref, rp_result_payload = result_payload,
          rp_route_taken = route_taken, rp_reply_outcome = reply_outcome,
          rp_reason = peer_reply_reason reply_outcome (ce_reason evaluation),
          rp_retry_directive = ce_retry_directive evaluation,
          rp_safe_message = ce_safe_message evaluation,
          rp_reply_observation_id = reply_observation_id\<rparr>)"

definition call_reply_from_evaluation_with_result_payload ::
  "ReplyId \<Rightarrow> MctCallProtocolEvaluation \<Rightarrow> ResultRef option \<Rightarrow> MctCallPayloadHandle \<Rightarrow>
   ObservationId \<Rightarrow> MctCallProtocolReply" where
  "call_reply_from_evaluation_with_result_payload
     reply_id evaluation result_ref result_payload reply_observation_id =
     call_reply_from_evaluation_with_result_payload_and_route
       reply_id evaluation result_ref result_payload None reply_observation_id"

definition call_reply_from_evaluation ::
  "ReplyId \<Rightarrow> MctCallProtocolEvaluation \<Rightarrow> ResultRef option \<Rightarrow> ObservationId \<Rightarrow>
   MctCallProtocolReply" where
  "call_reply_from_evaluation reply_id evaluation result_ref reply_observation_id =
     call_reply_from_evaluation_with_result_payload
       reply_id evaluation result_ref EmptyPayload reply_observation_id"

section \<open>Facts\<close>

lemma truncation_end_boundary:
  "is_char_boundary s (truncation_end s n) \<and> truncation_end s n \<le> n"
proof (induction s n rule: truncation_end.induct)
  case (1 s n)
  then show ?case by (cases "is_char_boundary s n") (auto simp: truncation_end.simps [of s n])
qed

lemma denied_outcome_not_accepted [simp]:
  "denied_outcome reason \<noteq> CPO_AcceptedForRouting"
  by simp

lemma call_denied_not_accepted [simp]: "\<not> is_accepted_for_routing (call_denied r ids reason m)"
  by (simp add: call_denied_def is_accepted_for_routing_def del: denied_outcome.simps)

lemma hello_denied_not_admitted [simp]: "\<not> he_is_admitted (hello_denied r ids reason safe)"
  by (cases safe) (simp_all add: hello_denied_def he_is_admitted_def)

text \<open>
  The declarative form of hello admission: what must hold of the selected binding.
\<close>

definition hello_binding_ok ::
  "MctHelloRequest \<Rightarrow> HelloPolicy \<Rightarrow> Timestamp \<Rightarrow> MctPeerBinding \<Rightarrow> bool" where
  "hello_binding_ok request policy now b \<longleftrightarrow>
     pb_binding_state b = BS_Admitted \<and> now < pb_expires_at b \<and>
     hp_current_policy_revision policy \<le> pb_policy_revision b \<and>
     (\<forall>r. bp_policy_revision (hr_presented_binding request) = Some r \<longrightarrow>
          hp_current_policy_revision policy \<le> r) \<and>
     option_matches (bp_mct_node_id (hr_presented_binding request))
       (Some (bs_mct_node_id (pb_scope b))) \<and>
     option_matches (bp_vision_id (hr_presented_binding request))
       (Some (bs_vision_id (pb_scope b))) \<and>
     option_matches (hr_requested_vision_id request) (Some (bs_vision_id (pb_scope b))) \<and>
     accepted_alpns request b policy \<noteq> []"

definition hello_admission ::
  "MctHelloRequest \<Rightarrow> MctPeerBinding \<Rightarrow> HelloPolicy \<Rightarrow> EvaluationIds \<Rightarrow>
   MctHelloAdmissionEvaluation" where
  "hello_admission request b policy ids =
     \<lparr>he_decision_id = ei_decision_id ids, he_request_id = hr_hello_id request,
      he_peer_admission_decision_id = None,
      he_selected_binding_id = Some (pb_binding_id b),
      he_selected_node_id = Some (bs_mct_node_id (pb_scope b)),
      he_selected_vision_id = Some (bs_vision_id (pb_scope b)),
      he_selected_policy_revision = Some (pb_policy_revision b),
      he_negotiated_protocol = Some (hp_protocol policy),
      he_accepted_alpns = accepted_alpns request b policy,
      he_hello_outcome = HO_Admitted, he_reason = HR_ActiveBinding,
      he_safe_reason = SH_Admitted, he_observation_id = ei_observation_id ids\<rparr>"

lemma hello_admission_admitted [simp]: "he_is_admitted (hello_admission r b p ids)"
  by (simp add: hello_admission_def he_is_admitted_def)

definition hello_admits ::
  "MctHelloRequest \<Rightarrow> MctPeerBinding list \<Rightarrow> HelloPolicy \<Rightarrow> Timestamp \<Rightarrow> MctPeerBinding \<Rightarrow> bool"
where
  "hello_admits request bindings policy now b \<longleftrightarrow>
     pv_protocol_name (hr_requested_protocol request) = pv_protocol_name (hp_protocol policy) \<and>
     pv_major (hr_requested_protocol request) = pv_major (hp_protocol policy) \<and>
     bp_endpoint_id (hr_presented_binding request) = ic_endpoint_id (hr_received_over request) \<and>
     select_binding request bindings = Some b \<and> hello_binding_ok request policy now b"

lemma claim_guard [simp]:
  "(case x of None \<Rightarrow> False | Some v \<Rightarrow> v \<noteq> k) \<longleftrightarrow> \<not> option_matches x (Some k)"
  by (auto simp: option_matches_def split: option.split)

lemma revision_guard [simp]:
  "(case x of None \<Rightarrow> False | Some r \<Rightarrow> r < (k :: u64)) \<longleftrightarrow> \<not> (\<forall>r. x = Some r \<longrightarrow> k \<le> r)"
  by (auto split: option.split)

lemma evaluate_hello_admits:
  assumes "hello_admits request bindings policy (hc_now ctx) b"
  shows "evaluate_hello request bindings policy ctx = hello_admission request b policy (hc_ids ctx)"
proof -
  from assms have "\<not> pb_expires_at b \<le> hc_now ctx"
    "\<not> pb_policy_revision b < hp_current_policy_revision policy"
    by (simp_all add: hello_admits_def hello_binding_ok_def not_less)
  with assms show ?thesis
    by (simp add: hello_admits_def hello_binding_ok_def evaluate_hello_def hello_admission_def
        Let_def)
qed

lemma evaluate_hello_admitted_only:
  assumes "he_is_admitted (evaluate_hello request bindings policy ctx)"
  shows "\<exists>b. hello_admits request bindings policy (hc_now ctx) b"
  using assms
  by (simp add: evaluate_hello_def Let_def hello_admits_def hello_binding_ok_def
      split: if_split_asm option.split_asm BindingState.split_asm)

definition hello_form ::
  "MctHelloRequest \<Rightarrow> EvaluationIds \<Rightarrow> MctHelloAdmissionEvaluation \<Rightarrow> bool" where
  "hello_form request ids e \<longleftrightarrow>
     he_is_admitted e \<or>
     (\<exists>reason safe. safe \<noteq> SH_Admitted \<and> e = hello_denied request ids reason safe)"

lemma hello_form_denied [simp]:
  "safe \<noteq> SH_Admitted \<Longrightarrow> hello_form request ids (hello_denied request ids reason safe)"
  by (auto simp: hello_form_def)

lemma hello_form_admitted [simp]: "he_hello_outcome e = HO_Admitted \<Longrightarrow> hello_form request ids e"
  by (simp add: hello_form_def he_is_admitted_def)

lemma evaluate_hello_form: "hello_form request (hc_ids ctx) (evaluate_hello request bs policy ctx)"
  by (simp add: evaluate_hello_def Let_def split: option.split BindingState.split)

lemma evaluate_hello_cases:
  obtains (admitted) b where "hello_admits request bindings policy (hc_now ctx) b"
    "evaluate_hello request bindings policy ctx = hello_admission request b policy (hc_ids ctx)"
  | (refused) reason safe where "\<nexists>b. hello_admits request bindings policy (hc_now ctx) b"
    "safe \<noteq> SH_Admitted"
    "evaluate_hello request bindings policy ctx = hello_denied request (hc_ids ctx) reason safe"
proof (cases "\<exists>b. hello_admits request bindings policy (hc_now ctx) b")
  case True
  then show ?thesis using admitted evaluate_hello_admits by blast
next
  case False
  then have "\<not> he_is_admitted (evaluate_hello request bindings policy ctx)"
    using evaluate_hello_admitted_only by blast
  then show ?thesis
    using refused False evaluate_hello_form [of request ctx bindings policy]
    by (auto simp: hello_form_def)
qed

lemma select_binding_SomeD:
  assumes "select_binding request bindings = Some b"
  shows "b \<in> set bindings" "pb_iroh_endpoint_id b = ic_endpoint_id (hr_received_over request)"
    "option_matches (bp_binding_id (hr_presented_binding request)) (Some (pb_binding_id b))"
  using assms by (auto simp: select_binding_def split: option.splits dest: find_SomeD)

lemma select_binding_find:
  assumes "select_binding request bindings = Some b"
  shows "List.find (\<lambda>c. pb_binding_id c = pb_binding_id b \<and>
      pb_iroh_endpoint_id c = ic_endpoint_id (hr_received_over request)) bindings = Some b"
proof (cases "bp_binding_id (hr_presented_binding request)")
  case None
  with assms have "List.find (\<lambda>c. pb_iroh_endpoint_id c =
      ic_endpoint_id (hr_received_over request)) bindings = Some b"
    by (simp add: select_binding_def)
  then show ?thesis by (rule find_strengthen) (use select_binding_SomeD [OF assms] in auto)
next
  case (Some i)
  then show ?thesis using assms select_binding_SomeD(3) [OF assms]
    by (simp add: select_binding_def)
qed

text \<open>
  The declarative form of call acceptance over the current binding of the connection.
\<close>

definition current_binding_ok ::
  "MctCallProtocolRequest \<Rightarrow> MctHelloAdmissionEvaluation \<Rightarrow> MctPeerAuthoritySnapshot \<Rightarrow>
   Timestamp \<Rightarrow> MctPeerBinding \<Rightarrow> bool" where
  "current_binding_ok request hello authority now b \<longleftrightarrow>
     List.find (\<lambda>c. pb_binding_id c = pa_peer_binding_id (pr_authority request) \<and>
         pb_iroh_endpoint_id c = ic_endpoint_id (pr_received_over request))
       (ps_bindings authority) = Some b \<and>
     pb_binding_state b = BS_Admitted \<and> now < pb_expires_at b \<and>
     he_selected_policy_revision hello = Some (pb_policy_revision b) \<and>
     pa_policy_revision (pr_authority request) = pb_policy_revision b \<and>
     ps_policy_revision authority \<le> pb_policy_revision b \<and>
     ci_node_id (c_caller (pr_call request)) = bs_mct_node_id (pb_scope b) \<and>
     pa_vision_id (pr_authority request) = bs_vision_id (pb_scope b) \<and>
     ci_vision_id (c_caller (pr_call request)) = bs_vision_id (pb_scope b) \<and>
     MCT_CALL_ALPN \<in> set (bs_allowed_alpns (pb_scope b))"

lemma current_binding_denial_None:
  "current_binding_denial_reason request hello authority now = None \<longleftrightarrow>
   (\<exists>b. current_binding_ok request hello authority now b)"
  by (auto simp: current_binding_denial_reason_def current_binding_ok_def Let_def list_ex_iff
      not_less split: option.split BindingState.split)

definition call_accepts ::
  "MctCallProtocolRequest \<Rightarrow> MctHelloAdmissionEvaluation \<Rightarrow> CallEvaluationContext \<Rightarrow> bool" where
  "call_accepts request hello ctx \<longleftrightarrow>
     he_is_admitted hello \<and>
     pa_hello_decision_id (pr_authority request) = he_decision_id hello \<and>
     he_selected_binding_id hello = Some (pa_peer_binding_id (pr_authority request)) \<and>
     he_selected_node_id hello = Some (ci_node_id (c_caller (pr_call request))) \<and>
     he_selected_vision_id hello = Some (pa_vision_id (pr_authority request)) \<and>
     ci_vision_id (c_caller (pr_call request)) = pa_vision_id (pr_authority request) \<and>
     ci_user_id (c_caller (pr_call request)) = None \<and>
     c_origin (pr_call request) = Iroh \<and>
     pa_accepted_alpn (pr_authority request) = MCT_CALL_ALPN \<and>
     MCT_CALL_ALPN \<in> set (he_accepted_alpns hello) \<and>
     pa_endpoint_id (pr_authority request) = ic_endpoint_id (pr_received_over request) \<and>
     (\<exists>b. current_binding_ok request hello (cec_current_peer_authority ctx) (cec_now ctx) b) \<and>
     pa_policy_revision (pr_authority request)
       \<le> ac_policy_revision (c_authority_context (pr_call request)) \<and>
     ac_expected_receiver_grants_authority (c_authority_context (pr_call request))
       = pa_expected_receiver_grants_authority (pr_authority request) \<and>
     cec_current_receiver_grants_authority ctx
       = Some (pa_expected_receiver_grants_authority (pr_authority request)) \<and>
     declared_size_bytes (pr_payload request) = pm_size_bytes (c_payload_metadata (pr_call request))"

lemma admits_alpn_iff [simp]: "admits_alpn e alpn \<longleftrightarrow> alpn \<in> set (he_accepted_alpns e)"
  by (auto simp: admits_alpn_def list_ex_iff)

lemma call_accepts_only:
  assumes "is_accepted_for_routing (evaluate_call_protocol request hello ctx)"
  shows "call_accepts request hello ctx"
  using assms
  by (simp add: evaluate_call_protocol_def Let_def call_accepts_def
      current_binding_denial_None not_less split: if_split_asm option.split_asm)

lemma call_accepts_sufficient:
  assumes "call_accepts request hello ctx"
  shows "is_accepted_for_routing (evaluate_call_protocol request hello ctx)"
proof -
  from assms have "current_binding_denial_reason request hello
      (cec_current_peer_authority ctx) (cec_now ctx) = None"
    "\<not> ac_policy_revision (c_authority_context (pr_call request))
        < pa_policy_revision (pr_authority request)"
    by (simp_all add: call_accepts_def current_binding_denial_None not_less)
  with assms show ?thesis
    by (simp add: evaluate_call_protocol_def Let_def call_accepts_def is_accepted_for_routing_def)
qed

lemma call_accepted_iff:
  "is_accepted_for_routing (evaluate_call_protocol request hello ctx) \<longleftrightarrow>
   call_accepts request hello ctx"
  using call_accepts_only call_accepts_sufficient by blast

lemma current_binding_denial_undisclosed:
  "current_binding_denial_reason request hello authority now = Some reason \<Longrightarrow>
   \<not> is_peer_reply_reason reason"
  by (simp add: current_binding_denial_reason_def is_peer_reply_reason_def Let_def
      split: option.split_asm BindingState.split_asm if_split_asm)

lemmas reply_defs = call_reply_from_evaluation_def call_reply_from_evaluation_with_result_payload_def
  call_reply_from_evaluation_with_result_payload_and_route_def Let_def

lemma ensure_non_blank_visible:
  "32 < (of_char c :: nat) \<Longrightarrow> (of_char c :: nat) < 0x80 \<Longrightarrow> ensure_non_blank r f (c # s) = Inr ()"
  by (simp add: ensure_non_blank_ok)

end
