(* ===== verification/MCT_Records.thy ===== *)
theory MCT_Records
  imports MCT_Protocol
begin

text \<open>
  The authority records that a local snapshot carries: Child artifacts, approvals,
  assignments and instances (\<open>child.rs\<close>), Toy contracts and grants (\<open>toy.rs\<close>), watch
  scopes (\<open>watch.rs\<close>) and the network path class of a route (\<open>route.rs\<close>).
\<close>

section \<open>Children (child.rs)\<close>

record ComponentWitExport =
  we_namespace :: string
  we_interface_name :: string
  we_version :: string
  we_function_names :: "string list"

datatype ComponentRuntimeShape =
  RS_WasmComponent | RS_JvmChild | RS_ProcessChild | RS_RemoteChild

datatype LocalChildRuntime = LCR_WasmComponent

datatype LocalChildRuntimeError = RetiredOrNonLocal ComponentRuntimeShape

fun RuntimeKind_from :: "LocalChildRuntime \<Rightarrow> RuntimeKind" where
  "RuntimeKind_from LCR_WasmComponent = RK_WasmComponent"

fun LocalChildRuntime_try_from_kind :: "RuntimeKind \<Rightarrow> RuntimeKind + LocalChildRuntime" where
  "LocalChildRuntime_try_from_kind RK_WasmComponent = Inr LCR_WasmComponent"
| "LocalChildRuntime_try_from_kind RK_Process = Inl RK_Process"
| "LocalChildRuntime_try_from_kind RK_JvmChild = Inl RK_JvmChild"
| "LocalChildRuntime_try_from_kind RK_RemotePeer = Inl RK_RemotePeer"
| "LocalChildRuntime_try_from_kind RK_Internal = Inl RK_Internal"

fun LocalChildRuntime_try_from ::
  "ComponentRuntimeShape \<Rightarrow> LocalChildRuntimeError + LocalChildRuntime" where
  "LocalChildRuntime_try_from RS_WasmComponent = Inr LCR_WasmComponent"
| "LocalChildRuntime_try_from RS_JvmChild = Inl (RetiredOrNonLocal RS_JvmChild)"
| "LocalChildRuntime_try_from RS_ProcessChild = Inl (RetiredOrNonLocal RS_ProcessChild)"
| "LocalChildRuntime_try_from RS_RemoteChild = Inl (RetiredOrNonLocal RS_RemoteChild)"

lemma LocalChildRuntime_try_from_ok [simp]:
  "is_ok (LocalChildRuntime_try_from shape) \<longleftrightarrow> shape = RS_WasmComponent"
  by (cases shape) (simp_all add: is_ok_def)

datatype ChildIngressMode = IM_WitOnly | IM_Hybrid | IM_Handle

datatype LifecycleExports = LE_Required | LE_Optional | LE_AbsentAllowed

datatype VerificationStatus = VS_Verified | VS_Rejected

datatype ArtifactProvenanceStatus = PV_AcquisitionBacked | PV_HistoricalUnknown

record ComponentArtifact =
  ar_artifact_id :: ComponentArtifactId
  ar_child_name :: string
  ar_artifact_version :: string
  ar_content_hash :: string
  ar_manifest_hash :: string
  ar_primary_export :: ComponentWitExport
  ar_additional_exports :: "ComponentWitExport list"
  ar_runtime_shape :: ComponentRuntimeShape
  ar_ingress_mode :: ChildIngressMode
  ar_lifecycle_exports :: LifecycleExports
  ar_verification_status :: VerificationStatus
  ar_provenance_status :: ArtifactProvenanceStatus
  ar_acquisition_ids :: "ArtifactAcquisitionId list"
  ar_created_by_observation_id :: ObservationId

datatype ChildApprovalState =
  AP_Candidate | AP_Approved | AP_Blocked | AP_Revoked | AP_Deprecated

record ChildApproval =
  ap_approval_id :: ChildApprovalId
  ap_artifact_id :: ComponentArtifactId
  ap_child_name :: string
  ap_artifact_version :: string
  ap_scope_vision_id :: "VisionId option"
  ap_scope_node_id :: "MctNodeId option"
  ap_scope_project_id :: "ProjectId option"
  ap_approval_state :: ChildApprovalState
  ap_policy_revision :: u64
  ap_authority_observation_id :: ObservationId

datatype ChildAssignmentState = AS_Active | AS_Revoked

record ChildAssignment =
  as_assignment_id :: ChildAssignmentId
  as_approval_id :: ChildApprovalId
  as_artifact_id :: ComponentArtifactId
  as_child_name :: string
  as_vision_id :: VisionId
  as_node_id :: "MctNodeId option"
  as_project_id :: "ProjectId option"
  as_assignment_state :: ChildAssignmentState
  as_pinned_artifact_version :: string
  as_assignment_observation_id :: ObservationId

datatype ChildInstanceState =
  CI_Loading | CI_Ready | CI_Degraded | CI_Draining | CI_Stopped | CI_Failed

record ChildInstance =
  in_instance_id :: ChildInstanceId
  in_assignment_id :: ChildAssignmentId
  in_artifact_id :: ComponentArtifactId
  in_child_name :: string
  in_generation :: u64
  in_node_id :: MctNodeId
  in_instance_state :: ChildInstanceState
  in_readiness_observation_id :: "ObservationId option"
  in_last_lifecycle_observation_id :: ObservationId

section \<open>Toys (toy.rs)\<close>

record ToyContractIdentity =
  ti_namespace :: string
  ti_interface_name :: string
  ti_version :: string
  ti_function_name :: "string option"
  ti_resource_name :: "string option"

record CanonicalToyContract =
  ct_toy_id :: ToyId
  ct_contract :: ToyContractIdentity
  ct_authority_bearing :: bool
  ct_catalog_revision :: u64
  ct_admitted_by_observation_id :: ObservationId

record ToyGrantSubject =
  su_child_name :: string
  su_artifact_id :: string
  su_artifact_version :: string
  su_assignment_id :: "ChildAssignmentId option"
  su_caller_node_id :: "MctNodeId option"

record ToyGrantScope =
  sc_vision_id :: VisionId
  sc_node_id :: "MctNodeId option"
  sc_project_id :: "ProjectId option"
  sc_data_classification :: "string option"
  sc_resource_id :: "string option"
  sc_allowed_actions :: "string list"

record ToyGrantConstraints =
  tk_starts_at :: "Timestamp option"
  tk_expires_at :: "Timestamp option"
  tk_max_uses :: "u64 option"
  tk_max_duration_ms :: "u64 option"
  tk_locality_required :: bool

datatype ToyGrantState =
  GS_Requested | GS_Active | GS_Expired | GS_Revoked | GS_Superseded | GS_Denied

record ToyGrant =
  tg_grant_id :: ToyGrantId
  tg_toy_id :: ToyId
  tg_subject :: ToyGrantSubject
  tg_scope :: ToyGrantScope
  tg_constraints :: ToyGrantConstraints
  tg_grant_state :: ToyGrantState
  tg_issuer_id :: string
  tg_policy_revision :: u64
  tg_grants_revision :: u64
  tg_authority_observation_id :: ObservationId

section \<open>Watch scopes (watch.rs)\<close>

datatype WatchObserverShape = WO_ChildToy

datatype WatchScopeMode = WM_Constrained | WM_ExplicitBroad

datatype WatchTraversalScope = WT_RootOnly | WT_Recursive

datatype WatchEventClass = WC_Created | WC_Modified | WC_Deleted

datatype WatchCoalescingPolicy = RetainAll | LastPerPath

datatype WatchObservationScopeState = WS_Active | WS_Revoked | WS_Superseded

record WatchObserverRef =
  wo_child_name :: string
  wo_artifact_id :: ComponentArtifactId
  wo_artifact_version :: string
  wo_assignment_id :: ChildAssignmentId

record WatchObservationScope =
  ws_watch_scope_id :: WatchObservationScopeId
  ws_observer_shape :: WatchObserverShape
  ws_observer_ref :: WatchObserverRef
  ws_scope_mode :: WatchScopeMode
  ws_canonical_root_ref :: string
  ws_traversal_scope :: WatchTraversalScope
  ws_event_classes :: "WatchEventClass list"
  ws_max_events_per_batch :: u32
  ws_coalescing_policy :: WatchCoalescingPolicy
  ws_starts_at :: Timestamp
  ws_expires_at :: Timestamp
  ws_scope_revision :: u64
  ws_policy_revision :: u64
  ws_authority_state :: WatchObservationScopeState
  ws_authority_observation_id :: ObservationId
  ws_canonical_record_digest :: string

section \<open>Network paths (route.rs)\<close>

datatype NetworkPathClass = NP_Direct | NP_Relayed | NP_Local | NP_Unknown

end
