(* ===== verification/MCT_Authority.thy ===== *)
theory MCT_Authority
  imports MCT_Records
begin

text \<open>
  The executing Mother's authority snapshot (\<open>authority.rs\<close>): the grants authority identity,
  the policy, peer and clock facts, the token that binds an effect to one snapshot and call
  deadline, and the assembly of a snapshot from its parts. Accessors are the record fields.
\<close>

section \<open>Data\<close>

datatype LocalChildPolicyProvenanceV1 = LegacyConfigAndLoadedChildProjection

datatype LocalPeerPolicyProvenanceV1 = LegacyConfigAndRuntimePeerProjection

datatype LocalMotherClockProvenanceV1 = ExecutingMotherClock

record LocalGrantsAuthorityIdentityV1 =
  lg_mother_node_id :: string
  lg_authority_epoch :: string
  lg_generation :: u64
  lg_source_authority_observation_id :: string

record LocalExecutionAuthorityTokenV1 =
  lt_grants_authority :: LocalGrantsAuthorityIdentityV1
  lt_policy_revision :: u64
  lt_vision_policy_revision :: u64
  lt_effective_deadline :: Timestamp

record LocalCanonicalGrantsSnapshotV1 =
  lc_grants_authority :: LocalGrantsAuthorityIdentityV1
  lc_toy_catalog :: "CanonicalToyContract list"
  lc_toy_grants :: "ToyGrant list"
  lc_watch_scopes :: "WatchObservationScope list"

record LocalChildPolicySnapshotV1 =
  lp_provenance :: LocalChildPolicyProvenanceV1
  lp_local_node_id :: MctNodeId
  lp_vision_id :: VisionId
  lp_policy_revision :: u64
  lp_artifacts :: "ComponentArtifact list"
  lp_approvals :: "ChildApproval list"
  lp_assignments :: "ChildAssignment list"
  lp_instances :: "ChildInstance list"

record LocalPeerAuthorityRecordV1 =
  lr_peer_node_id :: MctNodeId
  lr_binding_id :: PeerBindingId
  lr_endpoint_id :: EndpointIdText
  lr_vision_id :: VisionId
  lr_binding_state :: BindingState
  lr_policy_revision :: u64
  lr_expires_at :: Timestamp
  lr_local_binding :: MctPeerBinding
  lr_binding_signature_ref :: "string option"
  lr_outbound_binding :: "MctPeerBinding option"
  lr_outbound_signature_ref :: "string option"
  lr_ticket_available :: bool
  lr_network_path :: NetworkPathClass

record LocalRemoteCallableSurfaceV1 =
  lf_peer_node_id :: MctNodeId
  lf_binding_id :: PeerBindingId
  lf_endpoint_id :: EndpointIdText
  lf_vision_id :: VisionId
  lf_publisher_policy_revision :: u64
  lf_child_name :: string
  lf_operation_id :: string
  lf_runtime_kind :: RuntimeKind
  lf_surface_policy_revision :: u64
  lf_visibility :: string
  lf_received_at :: Timestamp
  lf_stale_at :: Timestamp

record LocalPeerPolicySnapshotV1 =
  ly_provenance :: LocalPeerPolicyProvenanceV1
  ly_local_node_id :: MctNodeId
  ly_local_vision_id :: VisionId
  ly_local_endpoint_id :: EndpointIdText
  ly_policy_revision :: u64
  ly_peers :: "LocalPeerAuthorityRecordV1 list"
  ly_callable_surfaces :: "LocalRemoteCallableSurfaceV1 list"

record LocalMotherClockSnapshotV1 =
  lk_evaluated_at :: Timestamp
  lk_provenance :: LocalMotherClockProvenanceV1

record LocalAuthorityProjectionProvenanceV1 =
  lv_projection_id :: string
  lv_source_mother_node_id :: string
  lv_source_ledger_id :: string
  lv_through_sequence :: u64
  lv_through_observation_id :: string
  lv_through_entry_hash :: string
  lv_authority_state_hash :: string
  lv_projection_hash :: string

record LocalExecutionAuthoritySnapshot =
  ls_executing_mother_node_id :: string
  ls_canonical_grants :: LocalCanonicalGrantsSnapshotV1
  ls_policy_revision :: u64
  ls_vision_policy_revision :: u64
  ls_child_policy :: LocalChildPolicySnapshotV1
  ls_peer_policy :: LocalPeerPolicySnapshotV1
  ls_mother_clock :: LocalMotherClockSnapshotV1
  ls_projection :: LocalAuthorityProjectionProvenanceV1

text \<open>\<open>From<&LocalGrantsAuthorityIdentityV1> for GrantsAuthorityIdentity\<close> of \<open>call/mod.rs\<close>.\<close>

definition GrantsAuthorityIdentity_from ::
  "LocalGrantsAuthorityIdentityV1 \<Rightarrow> GrantsAuthorityIdentity" where
  "GrantsAuthorityIdentity_from identity =
     \<lparr>ga_mother_node_id = lg_mother_node_id identity,
      ga_authority_epoch = lg_authority_epoch identity,
      ga_generation = lg_generation identity,
      ga_source_authority_observation_id = lg_source_authority_observation_id identity\<rparr>"

definition execution_authority ::
  "LocalExecutionAuthoritySnapshot \<Rightarrow> Timestamp \<Rightarrow> LocalExecutionAuthorityTokenV1" where
  "execution_authority s effective_deadline =
     \<lparr>lt_grants_authority = lc_grants_authority (ls_canonical_grants s),
      lt_policy_revision = ls_policy_revision s,
      lt_vision_policy_revision = ls_vision_policy_revision s,
      lt_effective_deadline = effective_deadline\<rparr>"

section \<open>Assembly\<close>

record LocalPeerAuthorityRecordPartsV1 =
  xr_peer_node_id :: MctNodeId
  xr_binding_id :: PeerBindingId
  xr_endpoint_id :: EndpointIdText
  xr_vision_id :: VisionId
  xr_binding_state :: BindingState
  xr_policy_revision :: u64
  xr_expires_at :: Timestamp
  xr_local_binding :: MctPeerBinding
  xr_binding_signature_ref :: "string option"
  xr_outbound_binding :: "MctPeerBinding option"
  xr_outbound_signature_ref :: "string option"
  xr_ticket_available :: bool
  xr_network_path :: NetworkPathClass

record LocalRemoteCallableSurfacePartsV1 =
  xf_peer_node_id :: MctNodeId
  xf_binding_id :: PeerBindingId
  xf_endpoint_id :: EndpointIdText
  xf_vision_id :: VisionId
  xf_publisher_policy_revision :: u64
  xf_child_name :: string
  xf_operation_id :: string
  xf_runtime_kind :: RuntimeKind
  xf_surface_policy_revision :: u64
  xf_visibility :: string
  xf_received_at :: Timestamp
  xf_stale_at :: Timestamp

record LocalExecutionAuthoritySnapshotPartsV1 =
  xs_executing_mother_node_id :: string
  xs_grants_authority_mother_node_id :: string
  xs_grants_authority_epoch :: string
  xs_grants_authority_generation :: u64
  xs_grants_authority_observation_id :: string
  xs_toy_catalog :: "CanonicalToyContract list"
  xs_toy_grants :: "ToyGrant list"
  xs_watch_scopes :: "WatchObservationScope list"
  xs_policy_revision :: u64
  xs_vision_policy_revision :: u64
  xs_child_local_node_id :: MctNodeId
  xs_child_vision_id :: VisionId
  xs_child_artifacts :: "ComponentArtifact list"
  xs_child_approvals :: "ChildApproval list"
  xs_child_assignments :: "ChildAssignment list"
  xs_child_instances :: "ChildInstance list"
  xs_peer_local_node_id :: MctNodeId
  xs_peer_local_vision_id :: VisionId
  xs_peer_local_endpoint_id :: EndpointIdText
  xs_peer_records :: "LocalPeerAuthorityRecordPartsV1 list"
  xs_callable_surfaces :: "LocalRemoteCallableSurfacePartsV1 list"
  xs_evaluated_at :: Timestamp
  xs_projection_id :: string
  xs_projection_source_mother_node_id :: string
  xs_projection_source_ledger_id :: string
  xs_through_sequence :: u64
  xs_through_observation_id :: string
  xs_through_entry_hash :: string
  xs_authority_state_hash :: string
  xs_projection_hash :: string

definition peer_record_from_parts :: "LocalPeerAuthorityRecordPartsV1 \<Rightarrow> LocalPeerAuthorityRecordV1" where
  "peer_record_from_parts r =
     \<lparr>lr_peer_node_id = xr_peer_node_id r,
      lr_binding_id = xr_binding_id r,
      lr_endpoint_id = xr_endpoint_id r,
      lr_vision_id = xr_vision_id r,
      lr_binding_state = xr_binding_state r,
      lr_policy_revision = xr_policy_revision r,
      lr_expires_at = xr_expires_at r,
      lr_local_binding = xr_local_binding r,
      lr_binding_signature_ref = xr_binding_signature_ref r,
      lr_outbound_binding = xr_outbound_binding r,
      lr_outbound_signature_ref = xr_outbound_signature_ref r,
      lr_ticket_available = xr_ticket_available r,
      lr_network_path = xr_network_path r\<rparr>"

definition callable_surface_from_parts :: "LocalRemoteCallableSurfacePartsV1 \<Rightarrow> LocalRemoteCallableSurfaceV1" where
  "callable_surface_from_parts surface =
     \<lparr>lf_peer_node_id = xf_peer_node_id surface,
      lf_binding_id = xf_binding_id surface,
      lf_endpoint_id = xf_endpoint_id surface,
      lf_vision_id = xf_vision_id surface,
      lf_publisher_policy_revision = xf_publisher_policy_revision surface,
      lf_child_name = xf_child_name surface,
      lf_operation_id = xf_operation_id surface,
      lf_runtime_kind = xf_runtime_kind surface,
      lf_surface_policy_revision = xf_surface_policy_revision surface,
      lf_visibility = xf_visibility surface,
      lf_received_at = xf_received_at surface,
      lf_stale_at = xf_stale_at surface\<rparr>"

definition assemble_local_execution_authority_snapshot ::
  "LocalExecutionAuthoritySnapshotPartsV1 \<Rightarrow> LocalExecutionAuthoritySnapshot" where
  "assemble_local_execution_authority_snapshot parts =
     \<lparr>ls_executing_mother_node_id = xs_executing_mother_node_id parts,
      ls_canonical_grants =
        \<lparr>lc_grants_authority =
           \<lparr>lg_mother_node_id = xs_grants_authority_mother_node_id parts,
            lg_authority_epoch = xs_grants_authority_epoch parts,
            lg_generation = xs_grants_authority_generation parts,
            lg_source_authority_observation_id = xs_grants_authority_observation_id parts\<rparr>,
         lc_toy_catalog = xs_toy_catalog parts,
         lc_toy_grants = xs_toy_grants parts,
         lc_watch_scopes = xs_watch_scopes parts\<rparr>,
      ls_policy_revision = xs_policy_revision parts,
      ls_vision_policy_revision = xs_vision_policy_revision parts,
      ls_child_policy =
        \<lparr>lp_provenance = LegacyConfigAndLoadedChildProjection,
         lp_local_node_id = xs_child_local_node_id parts,
         lp_vision_id = xs_child_vision_id parts,
         lp_policy_revision = xs_policy_revision parts,
         lp_artifacts = xs_child_artifacts parts,
         lp_approvals = xs_child_approvals parts,
         lp_assignments = xs_child_assignments parts,
         lp_instances = xs_child_instances parts\<rparr>,
      ls_peer_policy =
        \<lparr>ly_provenance = LegacyConfigAndRuntimePeerProjection,
         ly_local_node_id = xs_peer_local_node_id parts,
         ly_local_vision_id = xs_peer_local_vision_id parts,
         ly_local_endpoint_id = xs_peer_local_endpoint_id parts,
         ly_policy_revision = xs_policy_revision parts,
         ly_peers = map peer_record_from_parts (xs_peer_records parts),
         ly_callable_surfaces = map callable_surface_from_parts (xs_callable_surfaces parts)\<rparr>,
      ls_mother_clock =
        \<lparr>lk_evaluated_at = xs_evaluated_at parts, lk_provenance = ExecutingMotherClock\<rparr>,
      ls_projection =
        \<lparr>lv_projection_id = xs_projection_id parts,
         lv_source_mother_node_id = xs_projection_source_mother_node_id parts,
         lv_source_ledger_id = xs_projection_source_ledger_id parts,
         lv_through_sequence = xs_through_sequence parts,
         lv_through_observation_id = xs_through_observation_id parts,
         lv_through_entry_hash = xs_through_entry_hash parts,
         lv_authority_state_hash = xs_authority_state_hash parts,
         lv_projection_hash = xs_projection_hash parts\<rparr>\<rparr>"

section \<open>The contract of effect admission\<close>

text \<open>
  A token is current for a call and a snapshot when its authority names the snapshot's grants
  authority, policy revisions and Mother, and the call's deadline has not been reached on the
  Mother clock. Child and Toy tokens both promise at least this much at admission.
\<close>

definition authority_current ::
  "LocalExecutionAuthorityTokenV1 \<Rightarrow> MctCall \<Rightarrow> LocalExecutionAuthoritySnapshot \<Rightarrow> bool" where
  "authority_current a call s \<longleftrightarrow>
     ts_eq (lt_effective_deadline a) (c_deadline call) \<and>
     lt_policy_revision a = ls_policy_revision s \<and>
     lt_vision_policy_revision a = ls_vision_policy_revision s \<and>
     lt_grants_authority a = lc_grants_authority (ls_canonical_grants s) \<and>
     lg_mother_node_id (lt_grants_authority a) = ls_executing_mother_node_id s \<and>
     lk_evaluated_at (ls_mother_clock s) < lt_effective_deadline a"

lemma authority_current_minted [simp]:
  "authority_current (execution_authority s (c_deadline call)) call s \<longleftrightarrow>
   lg_mother_node_id (lc_grants_authority (ls_canonical_grants s))
     = ls_executing_mother_node_id s \<and>
   lk_evaluated_at (ls_mother_clock s) < c_deadline call"
  by (simp add: authority_current_def execution_authority_def ts_eq_def)

locale effect_admission =
  fixes admit :: "'t \<Rightarrow> MctCall \<Rightarrow> LocalExecutionAuthoritySnapshot \<Rightarrow> 'e + 'a"
    and token_authority :: "'t \<Rightarrow> LocalExecutionAuthorityTokenV1 option"
    and token_call_id :: "'t \<Rightarrow> CallId"
    and token_binding :: "'t \<Rightarrow> InvocationCallBinding"
  assumes admit_current: "admit t call s = Inr e \<Longrightarrow>
      \<exists>a. token_authority t = Some a \<and> authority_current a call s \<and>
          token_call_id t = c_call_id call \<and> icb_matches_call (token_binding t) call"
begin

lemma admit_same_snapshot_identity:
  assumes "admit t call s = Inr e" and "admit t call' s' = Inr e'"
  shows "lc_grants_authority (ls_canonical_grants s) = lc_grants_authority (ls_canonical_grants s')"
    "ls_policy_revision s = ls_policy_revision s'"
    "ls_vision_policy_revision s = ls_vision_policy_revision s'"
    "ls_executing_mother_node_id s = ls_executing_mother_node_id s'"
  using admit_current [OF assms(1)] admit_current [OF assms(2)]
  by (auto simp: authority_current_def)

lemma admit_same_call:
  assumes "admit t call s = Inr e" and "admit t call' s' = Inr e'"
  shows "c_call_id call = c_call_id call'" "c_caller call = c_caller call'"
    "c_payload_metadata call = c_payload_metadata call'" "c_origin call = c_origin call'"
    "ts_eq (c_deadline call) (c_deadline call')"
  using admit_current [OF assms(1)] admit_current [OF assms(2)]
  by (auto simp: authority_current_def icb_matches_call_def icb_capture_def ts_eq_def)

lemma admit_before_deadline:
  assumes "admit t call s = Inr e"
  shows "lk_evaluated_at (ls_mother_clock s) < c_deadline call"
  using admit_current [OF assms] by (auto simp: authority_current_def ts_eq_def ts_order)

end

end
