(* ===== verification/MCT_Samples.thy ===== *)
theory MCT_Samples
  imports MCT_Authority
begin

text \<open>
  Concrete records at which the witnesses evaluate the model: one peer call, the Child that
  serves it, a Toy grant, and the snapshot of the Mother that executes it.
\<close>

named_theorems sample_defs \<open>definitions of the sample records\<close>

definition sample_time :: "nat \<Rightarrow> Timestamp" where
  "sample_time n = Timestamp (dec n) (int n)"

lemma sample_time_order [simp]:
  "sample_time m < sample_time n \<longleftrightarrow> m < n" "sample_time m \<le> sample_time n \<longleftrightarrow> m \<le> n"
  "ts_eq (sample_time m) (sample_time n) \<longleftrightarrow> m = n"
  by (simp_all add: sample_time_def ts_order ts_eq_def)

definition sample_grants_identity :: GrantsAuthorityIdentity where [sample_defs]:
  "sample_grants_identity =
     \<lparr>ga_mother_node_id = ''mother'', ga_authority_epoch = ''e1'', ga_generation = 3,
      ga_source_authority_observation_id = ''o1''\<rparr>"

definition sample_caller :: CallerIdentity where [sample_defs]:
  "sample_caller =
     \<lparr>ci_node_id = ''peer'', ci_user_id = None, ci_vision_id = ''vision'', ci_project_id = None\<rparr>"

definition sample_target :: OperationTarget where [sample_defs]:
  "sample_target =
     \<lparr>ot_namespace = ''demo'', ot_interface_name = ''control'', ot_function_name = ''run''\<rparr>"

definition sample_call :: MctCall where [sample_defs]:
  "sample_call =
     \<lparr>c_call_id = ''call'', c_caller = sample_caller, c_target = sample_target,
      c_payload_metadata =
        \<lparr>pm_data_classification = ''public'', pm_size_bytes = 0,
         pm_contains_secret_scoped_material = False\<rparr>,
      c_authority_context =
        \<lparr>ac_policy_revision = 7, ac_expected_receiver_grants_authority = sample_grants_identity,
         ac_vision_policy_revision = 2\<rparr>,
      c_deadline = sample_time 100,
      c_trace_context = \<lparr>tc_trace_id = ''t'', tc_span_id = ''s''\<rparr>, c_origin = Iroh\<rparr>"

lemma sample_call_fields [simp]:
  "c_call_id sample_call = ''call''" "c_caller sample_call = sample_caller"
  "c_origin sample_call = Iroh" "c_deadline sample_call = sample_time 100"
  "ac_policy_revision (c_authority_context sample_call) = 7"
  by (simp_all add: sample_call_def)

definition sample_artifact :: ComponentArtifact where [sample_defs]:
  "sample_artifact =
     \<lparr>ar_artifact_id = ''art'', ar_child_name = ''kid'', ar_artifact_version = ''1'',
      ar_content_hash = ''h'', ar_manifest_hash = ''m'',
      ar_primary_export =
        \<lparr>we_namespace = ''demo'', we_interface_name = ''control'', we_version = ''0.1.0'',
         we_function_names = [''run'']\<rparr>,
      ar_additional_exports = [], ar_runtime_shape = RS_WasmComponent,
      ar_ingress_mode = IM_WitOnly, ar_lifecycle_exports = LE_Optional,
      ar_verification_status = VS_Verified, ar_provenance_status = PV_AcquisitionBacked,
      ar_acquisition_ids = [], ar_created_by_observation_id = ''o2''\<rparr>"

definition sample_approval :: ChildApproval where [sample_defs]:
  "sample_approval =
     \<lparr>ap_approval_id = ''apr'', ap_artifact_id = ''art'', ap_child_name = ''kid'',
      ap_artifact_version = ''1'', ap_scope_vision_id = Some ''vision'', ap_scope_node_id = None,
      ap_scope_project_id = None, ap_approval_state = AP_Approved, ap_policy_revision = 7,
      ap_authority_observation_id = ''o3''\<rparr>"

definition sample_assignment :: ChildAssignment where [sample_defs]:
  "sample_assignment =
     \<lparr>as_assignment_id = ''asg'', as_approval_id = ''apr'', as_artifact_id = ''art'',
      as_child_name = ''kid'', as_vision_id = ''vision'', as_node_id = Some ''mother'',
      as_project_id = None, as_assignment_state = AS_Active, as_pinned_artifact_version = ''1'',
      as_assignment_observation_id = ''o4''\<rparr>"

definition sample_instance :: ChildInstance where [sample_defs]:
  "sample_instance =
     \<lparr>in_instance_id = ''inst'', in_assignment_id = ''asg'', in_artifact_id = ''art'',
      in_child_name = ''kid'', in_generation = 1, in_node_id = ''mother'',
      in_instance_state = CI_Ready, in_readiness_observation_id = Some ''o5'',
      in_last_lifecycle_observation_id = ''o5''\<rparr>"

definition sample_toy :: CanonicalToyContract where [sample_defs]:
  "sample_toy =
     \<lparr>ct_toy_id = ''toy'',
      ct_contract = \<lparr>ti_namespace = ''mct'', ti_interface_name = ''kv'', ti_version = ''1'',
                     ti_function_name = None, ti_resource_name = None\<rparr>,
      ct_authority_bearing = True, ct_catalog_revision = 1,
      ct_admitted_by_observation_id = ''o6''\<rparr>"

definition sample_subject :: ToyGrantSubject where [sample_defs]:
  "sample_subject =
     \<lparr>su_child_name = ''kid'', su_artifact_id = ''art'', su_artifact_version = ''1'',
      su_assignment_id = Some ''asg'', su_caller_node_id = None\<rparr>"

definition sample_grant :: ToyGrant where [sample_defs]:
  "sample_grant =
     \<lparr>tg_grant_id = ''g1'', tg_toy_id = ''toy'', tg_subject = sample_subject,
      tg_scope = \<lparr>sc_vision_id = ''vision'', sc_node_id = Some ''mother'', sc_project_id = None,
                  sc_data_classification = None, sc_resource_id = None,
                  sc_allowed_actions = [''read'', ''write'']\<rparr>,
      tg_constraints = \<lparr>tk_starts_at = Some (sample_time 5), tk_expires_at = Some (sample_time 90),
                        tk_max_uses = None, tk_max_duration_ms = None,
                        tk_locality_required = False\<rparr>,
      tg_grant_state = GS_Active, tg_issuer_id = ''root'', tg_policy_revision = 7,
      tg_grants_revision = 3, tg_authority_observation_id = ''o7''\<rparr>"

definition sample_parts :: LocalExecutionAuthoritySnapshotPartsV1 where [sample_defs]:
  "sample_parts =
     \<lparr>xs_executing_mother_node_id = ''mother'', xs_grants_authority_mother_node_id = ''mother'',
      xs_grants_authority_epoch = ''e1'', xs_grants_authority_generation = 3,
      xs_grants_authority_observation_id = ''o1'',
      xs_toy_catalog = [sample_toy], xs_toy_grants = [sample_grant], xs_watch_scopes = [],
      xs_policy_revision = 7, xs_vision_policy_revision = 2,
      xs_child_local_node_id = ''mother'', xs_child_vision_id = ''vision'',
      xs_child_artifacts = [sample_artifact], xs_child_approvals = [sample_approval],
      xs_child_assignments = [sample_assignment], xs_child_instances = [sample_instance],
      xs_peer_local_node_id = ''mother'', xs_peer_local_vision_id = ''vision'',
      xs_peer_local_endpoint_id = ''ep0'', xs_peer_records = [], xs_callable_surfaces = [],
      xs_evaluated_at = sample_time 10, xs_projection_id = ''p'',
      xs_projection_source_mother_node_id = ''mother'', xs_projection_source_ledger_id = ''l'',
      xs_through_sequence = 1, xs_through_observation_id = ''o8'', xs_through_entry_hash = ''h'',
      xs_authority_state_hash = ''h'', xs_projection_hash = ''h''\<rparr>"

definition sample_snapshot :: LocalExecutionAuthoritySnapshot where
  "sample_snapshot = assemble_local_execution_authority_snapshot sample_parts"

lemma sample_snapshot_fields [simp]:
  "ls_executing_mother_node_id sample_snapshot = ''mother''"
  "ls_policy_revision sample_snapshot = 7"
  "ls_vision_policy_revision sample_snapshot = 2"
  "lg_mother_node_id (lc_grants_authority (ls_canonical_grants sample_snapshot)) = ''mother''"
  "lg_generation (lc_grants_authority (ls_canonical_grants sample_snapshot)) = 3"
  "lc_toy_catalog (ls_canonical_grants sample_snapshot) = [sample_toy]"
  "lc_toy_grants (ls_canonical_grants sample_snapshot) = [sample_grant]"
  "lk_evaluated_at (ls_mother_clock sample_snapshot) = sample_time 10"
  "lp_artifacts (ls_child_policy sample_snapshot) = [sample_artifact]"
  "lp_approvals (ls_child_policy sample_snapshot) = [sample_approval]"
  "lp_assignments (ls_child_policy sample_snapshot) = [sample_assignment]"
  "lp_instances (ls_child_policy sample_snapshot) = [sample_instance]"
  by (simp_all add: sample_snapshot_def assemble_local_execution_authority_snapshot_def
      sample_parts_def)

end
