(* ===== verification/MCT_Child.thy ===== *)
theory MCT_Child
  imports MCT_Samples
begin

text \<open>
  Child authority (\<open>child.rs\<close>): the WIT exports of an artifact, the instance lifecycle, the
  evaluation that mints a Child invocation token, and the admission of that token's effect
  against a fresh snapshot.
\<close>

section \<open>WIT exports\<close>

text \<open>The export returned for a malformed operation list, written three times in the source.\<close>

definition unparsed_exports :: "string list \<Rightarrow> ComponentWitExport list" where
  "unparsed_exports allowed_operations =
     [\<lparr>we_namespace = '''', we_interface_name = '''', we_version = ''0.0.0'',
       we_function_names = allowed_operations\<rparr>]"

definition parse_operation_id :: "string \<Rightarrow> (string \<times> string \<times> string \<times> string) option" where
  "parse_operation_id operation =
     (case split_once (CHR ''/'') operation of
        None \<Rightarrow> None
      | Some (ns, interface_and_function) \<Rightarrow>
        (case rsplit_once (CHR ''.'') interface_and_function of
           None \<Rightarrow> None
         | Some (interface_with_version, function_name) \<Rightarrow>
           if function_name = [] then None
           else (case split_once (CHR ''@'') interface_with_version of
                   None \<Rightarrow> Some (ns, interface_with_version, ''0.0.0'', function_name)
                 | Some (name, version) \<Rightarrow> Some (ns, name, version, function_name))))"

fun add_wit_function ::
  "string \<times> string \<times> string \<times> string \<Rightarrow> ComponentWitExport list \<Rightarrow> ComponentWitExport list" where
  "add_wit_function (ns, i, v, f) [] =
     [\<lparr>we_namespace = ns, we_interface_name = i, we_version = v, we_function_names = [f]\<rparr>]"
| "add_wit_function (ns, i, v, f) (export # exports) =
     (if we_namespace export = ns \<and> we_interface_name export = i \<and> we_version export = v
      then (if list_ex (\<lambda>name. name = f) (we_function_names export) then export
            else export\<lparr>we_function_names := we_function_names export @ [f]\<rparr>) # exports
      else export # add_wit_function (ns, i, v, f) exports)"

fun wit_exports_loop ::
  "string list \<Rightarrow> string list \<Rightarrow> ComponentWitExport list \<Rightarrow> ComponentWitExport list" where
  "wit_exports_loop allowed_operations [] exports = exports"
| "wit_exports_loop allowed_operations (operation # rest) exports =
     (case parse_operation_id operation of
        None \<Rightarrow> unparsed_exports allowed_operations
      | Some p \<Rightarrow> wit_exports_loop allowed_operations rest (add_wit_function p exports))"

definition component_wit_exports_from_operation_ids ::
  "string list \<Rightarrow> ComponentWitExport list" where
  "component_wit_exports_from_operation_ids allowed_operations =
     wit_exports_loop allowed_operations allowed_operations []"

definition wit_export_matches :: "ComponentWitExport \<Rightarrow> OperationTarget \<Rightarrow> bool" where
  "wit_export_matches export target \<longleftrightarrow>
     (let interface_with_version = we_interface_name export @ ''@'' @ we_version export
      in we_namespace export = ot_namespace target \<and>
         (we_interface_name export = ot_interface_name target \<or>
          interface_with_version = ot_interface_name target) \<and>
         list_ex (\<lambda>f. f = ot_function_name target) (we_function_names export))"

definition exports_operation :: "ComponentArtifact \<Rightarrow> OperationTarget \<Rightarrow> bool" where
  "exports_operation artifact target \<longleftrightarrow>
     list_ex (\<lambda>export. wit_export_matches export target)
       (ar_primary_export artifact # ar_additional_exports artifact)"

section \<open>Lifecycle\<close>

datatype ChildLifecycleTransitionReason = TR_Allowed | TR_IllegalTransition

record ChildLifecycleTransition =
  cl_instance_id :: ChildInstanceId
  cl_from_state :: ChildInstanceState
  cl_to_state :: ChildInstanceState
  cl_reason :: ChildLifecycleTransitionReason
  cl_allowed :: bool
  cl_safe_message :: string
  cl_observation_id :: ObservationId

definition is_allowed_instance_transition ::
  "ChildInstanceState \<Rightarrow> ChildInstanceState \<Rightarrow> bool" where
  "is_allowed_instance_transition from_state to_state =
     (if from_state = to_state then True
      else case from_state of
        CI_Loading \<Rightarrow> to_state \<in> {CI_Ready, CI_Degraded, CI_Failed, CI_Stopped}
      | CI_Ready \<Rightarrow> to_state \<in> {CI_Degraded, CI_Draining, CI_Failed, CI_Stopped}
      | CI_Degraded \<Rightarrow> to_state \<in> {CI_Ready, CI_Draining, CI_Failed, CI_Stopped}
      | CI_Draining \<Rightarrow> to_state \<in> {CI_Stopped, CI_Failed}
      | CI_Stopped \<Rightarrow> to_state = CI_Loading
      | CI_Failed \<Rightarrow> to_state = CI_Loading)"

definition transition_child_instance ::
  "ChildInstance \<Rightarrow> ChildInstanceState \<Rightarrow> ObservationId \<Rightarrow>
   ChildInstance \<times> ChildLifecycleTransition" where
  "transition_child_instance inst to_state observation_id =
     (let allowed = is_allowed_instance_transition (in_instance_state inst) to_state;
          transition =
            \<lparr>cl_instance_id = in_instance_id inst,
             cl_from_state = in_instance_state inst, cl_to_state = to_state,
             cl_reason = (if allowed then TR_Allowed else TR_IllegalTransition),
             cl_allowed = allowed,
             cl_safe_message = (if allowed then ''lifecycle transition recorded''
                                else ''illegal lifecycle transition''),
             cl_observation_id = observation_id\<rparr>;
          next_inst =
            (if allowed
             then let moved = inst\<lparr>in_instance_state := to_state,
                                   in_last_lifecycle_observation_id := observation_id\<rparr>
                  in if to_state = CI_Ready
                     then moved\<lparr>in_readiness_observation_id := Some observation_id\<rparr>
                     else moved
             else inst)
      in (next_inst, transition))"

section \<open>Call authority\<close>

datatype ChildCallVerdict = CV_Allowed | CV_Denied

datatype ChildCallReasonCode =
    CC_ReadyAuthorizedInstance | CC_UnknownInstance | CC_MissingAssignment
  | CC_AssignmentRevoked | CC_MissingApproval | CC_ApprovalNotApproved
  | CC_ApprovalScopeMismatch | CC_ArtifactMissing | CC_ArtifactRejected
  | CC_UnsupportedLocalRuntime | CC_OperationNotExported | CC_InstanceNotReady
  | CC_WrongNode | CC_WrongProject | CC_StalePolicy | CC_VersionMismatch

record ChildCallAuthorityEvaluation =
  ca_evaluation_id :: ChildCallEvaluationId
  ca_call_id :: CallId
  ca_decision_id :: DecisionId
  ca_instance_id :: "ChildInstanceId option"
  ca_assignment_id :: "ChildAssignmentId option"
  ca_approval_id :: "ChildApprovalId option"
  ca_artifact_id :: "ComponentArtifactId option"
  ca_child_name :: "string option"
  ca_verdict :: ChildCallVerdict
  ca_reason_code :: ChildCallReasonCode
  ca_policy_revision :: u64
  ca_observation_id :: ObservationId

record AuthorizedChildInvocation =
  ai_call_binding :: InvocationCallBinding
  ai_data_authority :: "LocalInvocationData option"
  ai_manifest_hash :: string
  ai_authorized_child_invocation_id :: AuthorizedChildInvocationId
  ai_call_id :: CallId
  ai_evaluation_id :: ChildCallEvaluationId
  ai_assignment_id :: ChildAssignmentId
  ai_approval_id :: ChildApprovalId
  ai_artifact_id :: ComponentArtifactId
  ai_child_instance_id :: ChildInstanceId
  ai_child_name :: string
  ai_authority_decision_id :: DecisionId
  ai_policy_revision :: u64
  ai_local_execution_authority :: "LocalExecutionAuthorityTokenV1 option"

record ChildCallAuthorityIds =
  cid_evaluation_id :: ChildCallEvaluationId
  cid_decision_id :: DecisionId
  cid_observation_id :: ObservationId
  cid_authorized_child_invocation_id :: AuthorizedChildInvocationId

record ChildCallAuthorityRequest =
  cq_data_authority :: "LocalInvocationData option"
  cq_instance_id :: ChildInstanceId
  cq_node_id :: MctNodeId
  cq_ids :: ChildCallAuthorityIds

record ChildCallAuthorityResult =
  cr_evaluation :: ChildCallAuthorityEvaluation
  cr_authorized :: "AuthorizedChildInvocation option"

definition child_is_allowed :: "ChildCallAuthorityResult \<Rightarrow> bool" where
  "child_is_allowed r \<longleftrightarrow> ca_verdict (cr_evaluation r) = CV_Allowed \<and> cr_authorized r \<noteq> None"

definition child_denied ::
  "MctCall \<Rightarrow> ChildCallAuthorityRequest \<Rightarrow> ChildCallReasonCode \<Rightarrow> ChildInstanceId option \<Rightarrow>
   ChildAssignmentId option \<Rightarrow> ChildApprovalId option \<Rightarrow> ComponentArtifactId option \<Rightarrow>
   string option \<Rightarrow> u64 \<Rightarrow> ChildCallAuthorityResult" where
  "child_denied call request reason_code instance_id assignment_id approval_id artifact_id
     child_name policy_revision =
     \<lparr>cr_evaluation =
        \<lparr>ca_evaluation_id = cid_evaluation_id (cq_ids request), ca_call_id = c_call_id call,
         ca_decision_id = cid_decision_id (cq_ids request), ca_instance_id = instance_id,
         ca_assignment_id = assignment_id, ca_approval_id = approval_id,
         ca_artifact_id = artifact_id, ca_child_name = child_name,
         ca_verdict = CV_Denied, ca_reason_code = reason_code,
         ca_policy_revision = policy_revision,
         ca_observation_id = cid_observation_id (cq_ids request)\<rparr>,
      cr_authorized = None\<rparr>"

definition child_denied_for_instance ::
  "MctCall \<Rightarrow> ChildCallAuthorityRequest \<Rightarrow> ChildInstance \<Rightarrow> ChildCallReasonCode \<Rightarrow> u64 \<Rightarrow>
   ChildCallAuthorityResult" where
  "child_denied_for_instance call request inst reason_code policy_revision =
     child_denied call request reason_code (Some (in_instance_id inst))
       (Some (in_assignment_id inst)) None (Some (in_artifact_id inst))
       (Some (in_child_name inst)) policy_revision"

text \<open>\<open>Option::or_else\<close>.\<close>

definition or_else :: "'a option \<Rightarrow> 'a option \<Rightarrow> 'a option" where
  "or_else x y = (case x of None \<Rightarrow> y | Some v \<Rightarrow> Some v)"

definition child_denied_with_context ::
  "MctCall \<Rightarrow> ChildCallAuthorityRequest \<Rightarrow> ChildCallReasonCode \<Rightarrow> ChildInstance option \<Rightarrow>
   ChildAssignment option \<Rightarrow> ChildApproval option \<Rightarrow> ComponentArtifact option \<Rightarrow> u64 \<Rightarrow>
   ChildCallAuthorityResult" where
  "child_denied_with_context call request reason_code inst asg apr art policy_revision =
     child_denied call request reason_code
       (map_option in_instance_id inst)
       (or_else (map_option as_assignment_id asg) (map_option in_assignment_id inst))
       (map_option ap_approval_id apr)
       (or_else (map_option ar_artifact_id art)
          (or_else (map_option as_artifact_id asg) (map_option in_artifact_id inst)))
       (or_else (map_option ar_child_name art)
          (or_else (map_option as_child_name asg)
             (or_else (map_option ap_child_name apr) (map_option in_child_name inst))))
       policy_revision"

definition approval_scope_matches :: "ChildApproval \<Rightarrow> MctCall \<Rightarrow> MctNodeId \<Rightarrow> bool" where
  "approval_scope_matches apr call node_id \<longleftrightarrow>
     option_matches (ap_scope_vision_id apr) (Some (ci_vision_id (c_caller call))) \<and>
     option_matches (ap_scope_node_id apr) (Some node_id) \<and>
     option_matches (ap_scope_project_id apr) (ci_project_id (c_caller call))"

definition evaluate_child_call_authority_with_policy ::
  "MctCall \<Rightarrow> ChildCallAuthorityRequest \<Rightarrow> ComponentArtifact list \<Rightarrow> ChildApproval list \<Rightarrow>
   ChildAssignment list \<Rightarrow> ChildInstance list \<Rightarrow> u64 \<Rightarrow> ChildCallAuthorityResult" where
  "evaluate_child_call_authority_with_policy call request artifacts approvals assignments
     instances expected_policy_revision =
     (case List.find (\<lambda>i. in_instance_id i = cq_instance_id request) instances of
        None \<Rightarrow> child_denied call request CC_UnknownInstance None None None None None
                  expected_policy_revision
      | Some inst \<Rightarrow>
        if in_node_id inst \<noteq> cq_node_id request
        then child_denied_for_instance call request inst CC_WrongNode expected_policy_revision
        else if in_instance_state inst \<noteq> CI_Ready
        then child_denied_for_instance call request inst CC_InstanceNotReady
               expected_policy_revision
        else
     (case List.find (\<lambda>a. as_assignment_id a = in_assignment_id inst) assignments of
        None \<Rightarrow> child_denied_for_instance call request inst CC_MissingAssignment
                  expected_policy_revision
      | Some asg \<Rightarrow>
        if as_assignment_state asg \<noteq> AS_Active
        then child_denied_with_context call request CC_AssignmentRevoked (Some inst) (Some asg)
               None None expected_policy_revision
        else if as_vision_id asg \<noteq> ci_vision_id (c_caller call)
        then child_denied_with_context call request CC_ApprovalScopeMismatch (Some inst) (Some asg)
               None None expected_policy_revision
        else if \<not> option_matches (as_node_id asg) (Some (cq_node_id request))
        then child_denied_with_context call request CC_WrongNode (Some inst) (Some asg)
               None None expected_policy_revision
        else if \<not> data_scope_matches call (cq_data_authority request) (as_project_id asg) None
        then child_denied_with_context call request CC_WrongProject (Some inst) (Some asg)
               None None expected_policy_revision
        else
     (case List.find (\<lambda>a. ap_approval_id a = as_approval_id asg) approvals of
        None \<Rightarrow> child_denied_with_context call request CC_MissingApproval (Some inst) (Some asg)
                  None None expected_policy_revision
      | Some apr \<Rightarrow>
        if ap_policy_revision apr \<noteq> expected_policy_revision
        then child_denied_with_context call request CC_StalePolicy (Some inst) (Some asg)
               (Some apr) None (ap_policy_revision apr)
        else if ap_approval_state apr \<noteq> AP_Approved
        then child_denied_with_context call request CC_ApprovalNotApproved (Some inst) (Some asg)
               (Some apr) None (ap_policy_revision apr)
        else if ap_artifact_id apr \<noteq> as_artifact_id asg
             \<or> ap_artifact_id apr \<noteq> in_artifact_id inst
             \<or> ap_child_name apr \<noteq> as_child_name asg
             \<or> ap_child_name apr \<noteq> in_child_name inst
             \<or> ap_artifact_version apr \<noteq> as_pinned_artifact_version asg
        then child_denied_with_context call request CC_VersionMismatch (Some inst) (Some asg)
               (Some apr) None (ap_policy_revision apr)
        else if \<not> approval_scope_matches apr call (cq_node_id request)
             \<or> \<not> data_scope_matches call (cq_data_authority request) (ap_scope_project_id apr) None
        then child_denied_with_context call request CC_ApprovalScopeMismatch (Some inst) (Some asg)
               (Some apr) None (ap_policy_revision apr)
        else
     (case List.find (\<lambda>a. ar_artifact_id a = as_artifact_id asg) artifacts of
        None \<Rightarrow> child_denied_with_context call request CC_ArtifactMissing (Some inst) (Some asg)
                  (Some apr) None (ap_policy_revision apr)
      | Some art \<Rightarrow>
        if ar_verification_status art \<noteq> VS_Verified
        then child_denied_with_context call request CC_ArtifactRejected (Some inst) (Some asg)
               (Some apr) (Some art) (ap_policy_revision apr)
        else if \<not> is_ok (LocalChildRuntime_try_from (ar_runtime_shape art))
        then child_denied_with_context call request CC_UnsupportedLocalRuntime (Some inst)
               (Some asg) (Some apr) (Some art) (ap_policy_revision apr)
        else if ar_artifact_version art \<noteq> as_pinned_artifact_version asg
             \<or> ar_artifact_version art \<noteq> ap_artifact_version apr
             \<or> ar_artifact_id art \<noteq> in_artifact_id inst
             \<or> ar_child_name art \<noteq> in_child_name inst
        then child_denied_with_context call request CC_VersionMismatch (Some inst) (Some asg)
               (Some apr) (Some art) (ap_policy_revision apr)
        else if \<not> exports_operation art (c_target call)
        then child_denied_with_context call request CC_OperationNotExported (Some inst) (Some asg)
               (Some apr) (Some art) (ap_policy_revision apr)
        else
          (let evaluation =
             \<lparr>ca_evaluation_id = cid_evaluation_id (cq_ids request), ca_call_id = c_call_id call,
              ca_decision_id = cid_decision_id (cq_ids request),
              ca_instance_id = Some (in_instance_id inst),
              ca_assignment_id = Some (as_assignment_id asg),
              ca_approval_id = Some (ap_approval_id apr),
              ca_artifact_id = Some (ar_artifact_id art),
              ca_child_name = Some (in_child_name inst),
              ca_verdict = CV_Allowed, ca_reason_code = CC_ReadyAuthorizedInstance,
              ca_policy_revision = ap_policy_revision apr,
              ca_observation_id = cid_observation_id (cq_ids request)\<rparr>;
            authorized =
             \<lparr>ai_call_binding = icb_capture call,
              ai_data_authority = cq_data_authority request,
              ai_manifest_hash = ar_manifest_hash art,
              ai_authorized_child_invocation_id =
                cid_authorized_child_invocation_id (cq_ids request),
              ai_call_id = c_call_id call,
              ai_evaluation_id = ca_evaluation_id evaluation,
              ai_assignment_id = as_assignment_id asg,
              ai_approval_id = ap_approval_id apr,
              ai_artifact_id = ar_artifact_id art,
              ai_child_instance_id = in_instance_id inst,
              ai_child_name = in_child_name inst,
              ai_authority_decision_id = ca_decision_id evaluation,
              ai_policy_revision = ca_policy_revision evaluation,
              ai_local_execution_authority = None\<rparr>
           in \<lparr>cr_evaluation = evaluation, cr_authorized = Some authorized\<rparr>)))))"

definition evaluate_child_call_authority ::
  "MctCall \<Rightarrow> ChildCallAuthorityRequest \<Rightarrow> ComponentArtifact list \<Rightarrow> ChildApproval list \<Rightarrow>
   ChildAssignment list \<Rightarrow> ChildInstance list \<Rightarrow> ChildCallAuthorityResult" where
  "evaluate_child_call_authority call request artifacts approvals assignments instances =
     evaluate_child_call_authority_with_policy call request artifacts approvals assignments
       instances (ac_policy_revision (c_authority_context call))"

section \<open>Effect admission\<close>

datatype ChildEffectAdmissionDenyV1 =
    CD_LocalAuthorityUnavailable | CD_CallIdMismatch | CD_CallDataMismatch
  | CD_EffectiveDeadlineMismatch | CD_PolicyAuthorityMismatch | CD_GrantsAuthorityMismatch
  | CD_Expired | CD_ChildAuthorityMismatch

record AdmittedChildEffect =
  ace_authorized :: AuthorizedChildInvocation

definition child_bind_local_execution_authority ::
  "AuthorizedChildInvocation \<Rightarrow> LocalExecutionAuthorityTokenV1 \<Rightarrow> AuthorizedChildInvocation" where
  "child_bind_local_execution_authority t authority =
     t\<lparr>ai_local_execution_authority := Some authority\<rparr>"

definition child_admit_effect_with_snapshot ::
  "AuthorizedChildInvocation \<Rightarrow> MctCall \<Rightarrow> LocalExecutionAuthoritySnapshot \<Rightarrow>
   ChildEffectAdmissionDenyV1 + AdmittedChildEffect" where
  "child_admit_effect_with_snapshot t call snapshot =
     and_then (ok_or (ai_local_execution_authority t) CD_LocalAuthorityUnavailable) (\<lambda>authority.
     if ai_call_id t \<noteq> c_call_id call then Inl CD_CallIdMismatch
     else if \<not> icb_matches_call (ai_call_binding t) call then Inl CD_CallDataMismatch
     else if \<not> ts_eq (lt_effective_deadline authority) (c_deadline call)
     then Inl CD_EffectiveDeadlineMismatch
     else if lt_policy_revision authority \<noteq> ls_policy_revision snapshot
          \<or> lt_vision_policy_revision authority \<noteq> ls_vision_policy_revision snapshot
     then Inl CD_PolicyAuthorityMismatch
     else if lt_grants_authority authority \<noteq> lc_grants_authority (ls_canonical_grants snapshot)
          \<or> lg_mother_node_id (lt_grants_authority authority)
            \<noteq> ls_executing_mother_node_id snapshot
     then Inl CD_GrantsAuthorityMismatch
     else if lt_effective_deadline authority \<le> lk_evaluated_at (ls_mother_clock snapshot)
     then Inl CD_Expired
     else let policy = ls_child_policy snapshot in
     (case List.find (\<lambda>inst.
             in_instance_id inst = ai_child_instance_id t \<and>
             in_assignment_id inst = ai_assignment_id t \<and>
             in_artifact_id inst = ai_artifact_id t \<and>
             in_child_name inst = ai_child_name t \<and>
             in_instance_state inst = CI_Ready) (lp_instances policy) of
        None \<Rightarrow> Inl CD_ChildAuthorityMismatch
      | Some inst \<Rightarrow>
     (case List.find (\<lambda>asg.
             as_assignment_id asg = in_assignment_id inst \<and>
             as_approval_id asg = ai_approval_id t \<and>
             as_artifact_id asg = ai_artifact_id t \<and>
             as_child_name asg = ai_child_name t \<and>
             as_assignment_state asg = AS_Active) (lp_assignments policy) of
        None \<Rightarrow> Inl CD_ChildAuthorityMismatch
      | Some asg \<Rightarrow>
     (case List.find (\<lambda>apr.
             ap_approval_id apr = as_approval_id asg \<and>
             ap_artifact_id apr = ai_artifact_id t \<and>
             ap_child_name apr = ai_child_name t \<and>
             ap_approval_state apr = AP_Approved \<and>
             ap_policy_revision apr = ls_policy_revision snapshot) (lp_approvals policy) of
        None \<Rightarrow> Inl CD_ChildAuthorityMismatch
      | Some apr \<Rightarrow>
        if \<not> list_ex (\<lambda>art.
             ar_artifact_id art = ap_artifact_id apr \<and>
             ar_child_name art = ai_child_name t \<and>
             ar_artifact_version art = ap_artifact_version apr \<and>
             ar_manifest_hash art = ai_manifest_hash t \<and>
             ar_verification_status art = VS_Verified \<and>
             is_ok (LocalChildRuntime_try_from (ar_runtime_shape art))) (lp_artifacts policy)
        then Inl CD_ChildAuthorityMismatch
        else Inr \<lparr>ace_authorized = t\<rparr>))))"

definition child_matches_invocation_data :: "AuthorizedChildInvocation \<Rightarrow> MctCall \<Rightarrow> bool" where
  "child_matches_invocation_data t call \<longleftrightarrow>
     ai_call_id t = c_call_id call \<and> icb_matches_call (ai_call_binding t) call"

definition child_admit_effect_for_call ::
  "AuthorizedChildInvocation \<Rightarrow> MctCall \<Rightarrow> AdmittedChildEffect option" where
  "child_admit_effect_for_call t call =
     (if ai_call_id t = c_call_id call \<and> icb_matches_call (ai_call_binding t) call
      then Some \<lparr>ace_authorized = t\<rparr> else None)"

section \<open>Facts about call authority\<close>

named_theorems child_simps \<open>projections of Child denials\<close>

lemma child_denied_not_allowed [child_simps]:
  "\<not> child_is_allowed (child_denied call request r i a p t n v)"
  "\<not> child_is_allowed (child_denied_for_instance call request inst r v)"
  "\<not> child_is_allowed (child_denied_with_context call request r oi oa op ot v)"
  by (simp_all add: child_is_allowed_def child_denied_def child_denied_for_instance_def
      child_denied_with_context_def)

text \<open>What the four records an authorization cites must satisfy together.\<close>

definition child_facts_ok ::
  "MctCall \<Rightarrow> ChildCallAuthorityRequest \<Rightarrow> u64 \<Rightarrow> ChildInstance \<Rightarrow> ChildAssignment \<Rightarrow>
   ChildApproval \<Rightarrow> ComponentArtifact \<Rightarrow> bool" where
  "child_facts_ok call request revision inst asg apr art \<longleftrightarrow>
     in_instance_id inst = cq_instance_id request \<and> in_node_id inst = cq_node_id request \<and>
     in_instance_state inst = CI_Ready \<and>
     as_assignment_id asg = in_assignment_id inst \<and> as_assignment_state asg = AS_Active \<and>
     as_vision_id asg = ci_vision_id (c_caller call) \<and>
     option_matches (as_node_id asg) (Some (cq_node_id request)) \<and>
     data_scope_matches call (cq_data_authority request) (as_project_id asg) None \<and>
     ap_approval_id apr = as_approval_id asg \<and> ap_policy_revision apr = revision \<and>
     ap_approval_state apr = AP_Approved \<and>
     approval_scope_matches apr call (cq_node_id request) \<and>
     data_scope_matches call (cq_data_authority request) (ap_scope_project_id apr) None \<and>
     ar_artifact_id art = as_artifact_id asg \<and> ap_artifact_id apr = as_artifact_id asg \<and>
     in_artifact_id inst = as_artifact_id asg \<and>
     as_child_name asg = in_child_name inst \<and> ap_child_name apr = in_child_name inst \<and>
     ar_child_name art = in_child_name inst \<and>
     ap_artifact_version apr = as_pinned_artifact_version asg \<and>
     ar_artifact_version art = as_pinned_artifact_version asg \<and>
     ar_verification_status art = VS_Verified \<and> ar_runtime_shape art = RS_WasmComponent \<and>
     exports_operation art (c_target call)"

definition child_lookups ::
  "ChildCallAuthorityRequest \<Rightarrow> ComponentArtifact list \<Rightarrow> ChildApproval list \<Rightarrow>
   ChildAssignment list \<Rightarrow> ChildInstance list \<Rightarrow> ChildInstance \<Rightarrow> ChildAssignment \<Rightarrow>
   ChildApproval \<Rightarrow> ComponentArtifact \<Rightarrow> bool" where
  "child_lookups request artifacts approvals assignments instances inst asg apr art \<longleftrightarrow>
     List.find (\<lambda>i. in_instance_id i = cq_instance_id request) instances = Some inst \<and>
     List.find (\<lambda>a. as_assignment_id a = in_assignment_id inst) assignments = Some asg \<and>
     List.find (\<lambda>a. ap_approval_id a = as_approval_id asg) approvals = Some apr \<and>
     List.find (\<lambda>a. ar_artifact_id a = as_artifact_id asg) artifacts = Some art"

definition child_token ::
  "MctCall \<Rightarrow> ChildCallAuthorityRequest \<Rightarrow> ChildInstance \<Rightarrow> ChildAssignment \<Rightarrow>
   ChildApproval \<Rightarrow> ComponentArtifact \<Rightarrow> AuthorizedChildInvocation" where
  "child_token call request inst asg apr art =
     \<lparr>ai_call_binding = icb_capture call, ai_data_authority = cq_data_authority request,
      ai_manifest_hash = ar_manifest_hash art,
      ai_authorized_child_invocation_id = cid_authorized_child_invocation_id (cq_ids request),
      ai_call_id = c_call_id call, ai_evaluation_id = cid_evaluation_id (cq_ids request),
      ai_assignment_id = as_assignment_id asg, ai_approval_id = ap_approval_id apr,
      ai_artifact_id = ar_artifact_id art, ai_child_instance_id = in_instance_id inst,
      ai_child_name = in_child_name inst,
      ai_authority_decision_id = cid_decision_id (cq_ids request),
      ai_policy_revision = ap_policy_revision apr, ai_local_execution_authority = None\<rparr>"

lemma child_allowed_only:
  assumes "child_is_allowed (evaluate_child_call_authority_with_policy call request artifacts
      approvals assignments instances revision)"
  shows "\<exists>inst asg apr art.
      child_lookups request artifacts approvals assignments instances inst asg apr art \<and>
      child_facts_ok call request revision inst asg apr art"
  using assms unfolding evaluate_child_call_authority_with_policy_def
  by (auto simp: child_simps child_lookups_def child_facts_ok_def dest: find_SomeD
      split: option.split_asm if_split_asm)

lemma child_allowed_result:
  assumes "child_lookups request artifacts approvals assignments instances inst asg apr art"
    and "child_facts_ok call request revision inst asg apr art"
  shows "evaluate_child_call_authority_with_policy call request artifacts approvals assignments
      instances revision =
    \<lparr>cr_evaluation =
       \<lparr>ca_evaluation_id = cid_evaluation_id (cq_ids request), ca_call_id = c_call_id call,
        ca_decision_id = cid_decision_id (cq_ids request),
        ca_instance_id = Some (in_instance_id inst),
        ca_assignment_id = Some (as_assignment_id asg),
        ca_approval_id = Some (ap_approval_id apr), ca_artifact_id = Some (ar_artifact_id art),
        ca_child_name = Some (in_child_name inst), ca_verdict = CV_Allowed,
        ca_reason_code = CC_ReadyAuthorizedInstance,
        ca_policy_revision = ap_policy_revision apr,
        ca_observation_id = cid_observation_id (cq_ids request)\<rparr>,
     cr_authorized = Some (child_token call request inst asg apr art)\<rparr>"
  using assms
  by (simp add: evaluate_child_call_authority_with_policy_def child_lookups_def
      child_facts_ok_def child_token_def)

lemma child_allowed_iff:
  "child_is_allowed (evaluate_child_call_authority_with_policy call request artifacts
      approvals assignments instances revision) \<longleftrightarrow>
   (\<exists>inst asg apr art.
      child_lookups request artifacts approvals assignments instances inst asg apr art \<and>
      child_facts_ok call request revision inst asg apr art)"
  using child_allowed_only [of call request artifacts approvals assignments instances revision]
  by (auto simp: child_allowed_result child_is_allowed_def)

section \<open>Facts about effect admission\<close>

text \<open>The records of a snapshot that keep a minted token alive.\<close>

definition child_still_backed ::
  "AuthorizedChildInvocation \<Rightarrow> LocalExecutionAuthoritySnapshot \<Rightarrow> bool" where
  "child_still_backed t s \<longleftrightarrow>
     (\<exists>inst \<in> set (lp_instances (ls_child_policy s)). \<exists>asg \<in> set (lp_assignments (ls_child_policy s)).
      \<exists>apr \<in> set (lp_approvals (ls_child_policy s)). \<exists>art \<in> set (lp_artifacts (ls_child_policy s)).
        in_instance_id inst = ai_child_instance_id t \<and> in_instance_state inst = CI_Ready \<and>
        in_assignment_id inst = ai_assignment_id t \<and> in_artifact_id inst = ai_artifact_id t \<and>
        in_child_name inst = ai_child_name t \<and>
        as_assignment_id asg = ai_assignment_id t \<and> as_assignment_state asg = AS_Active \<and>
        as_approval_id asg = ai_approval_id t \<and> as_artifact_id asg = ai_artifact_id t \<and>
        as_child_name asg = ai_child_name t \<and>
        ap_approval_id apr = ai_approval_id t \<and> ap_approval_state apr = AP_Approved \<and>
        ap_policy_revision apr = ls_policy_revision s \<and> ap_artifact_id apr = ai_artifact_id t \<and>
        ap_child_name apr = ai_child_name t \<and>
        ar_artifact_id art = ai_artifact_id t \<and> ar_child_name art = ai_child_name t \<and>
        ar_artifact_version art = ap_artifact_version apr \<and>
        ar_manifest_hash art = ai_manifest_hash t \<and>
        ar_verification_status art = VS_Verified \<and> ar_runtime_shape art = RS_WasmComponent)"

lemma child_admit_currentD:
  assumes "child_admit_effect_with_snapshot t call s = Inr e"
  shows "\<exists>a. ai_local_execution_authority t = Some a \<and> authority_current a call s \<and>
      ai_call_id t = c_call_id call \<and> icb_matches_call (ai_call_binding t) call"
  using assms unfolding child_admit_effect_with_snapshot_def
  by (auto simp: result_simps authority_current_def split: if_split_asm)

lemma child_admit_backedD:
  assumes "child_admit_effect_with_snapshot t call s = Inr e"
  shows "child_still_backed t s" and "ace_authorized e = t"
proof -
  let ?p = "ls_child_policy s"
  from assms obtain inst asg apr where found:
    "List.find (\<lambda>i. in_instance_id i = ai_child_instance_id t \<and>
      in_assignment_id i = ai_assignment_id t \<and> in_artifact_id i = ai_artifact_id t \<and>
      in_child_name i = ai_child_name t \<and> in_instance_state i = CI_Ready) (lp_instances ?p) = Some inst"
    "List.find (\<lambda>g. as_assignment_id g = in_assignment_id inst \<and>
      as_approval_id g = ai_approval_id t \<and> as_artifact_id g = ai_artifact_id t \<and>
      as_child_name g = ai_child_name t \<and> as_assignment_state g = AS_Active)
      (lp_assignments ?p) = Some asg"
    "List.find (\<lambda>p. ap_approval_id p = as_approval_id asg \<and>
      ap_artifact_id p = ai_artifact_id t \<and> ap_child_name p = ai_child_name t \<and>
      ap_approval_state p = AP_Approved \<and> ap_policy_revision p = ls_policy_revision s)
      (lp_approvals ?p) = Some apr"
    and art: "\<exists>r \<in> set (lp_artifacts ?p).
      ar_artifact_id r = ap_artifact_id apr \<and> ar_child_name r = ai_child_name t \<and>
      ar_artifact_version r = ap_artifact_version apr \<and> ar_manifest_hash r = ai_manifest_hash t \<and>
      ar_verification_status r = VS_Verified \<and> ar_runtime_shape r = RS_WasmComponent"
    and e: "e = \<lparr>ace_authorized = t\<rparr>"
    unfolding child_admit_effect_with_snapshot_def
    by (simp add: result_simps list_ex_iff Let_def split: if_split_asm option.split_asm) blast
  from found [THEN find_SomeD] art show "child_still_backed t s"
    unfolding child_still_backed_def
    by - (rule bexI [of _ inst], rule bexI [of _ asg], rule bexI [of _ apr], simp_all)
  from e show "ace_authorized e = t" by simp
qed

interpretation child_effect: effect_admission child_admit_effect_with_snapshot
  ai_local_execution_authority ai_call_id ai_call_binding
  by unfold_locales (rule child_admit_currentD)

lemmas mint_defs = child_lookups_def child_facts_ok_def child_token_def
  child_bind_local_execution_authority_def

lemma child_admit_minted:
  assumes look: "child_lookups request (lp_artifacts (ls_child_policy s))
      (lp_approvals (ls_child_policy s)) (lp_assignments (ls_child_policy s))
      (lp_instances (ls_child_policy s)) inst asg apr art"
    and ok: "child_facts_ok call request (ls_policy_revision s) inst asg apr art"
    and cur: "authority_current a call s"
  defines "t \<equiv> child_bind_local_execution_authority (child_token call request inst asg apr art) a"
  shows "child_admit_effect_with_snapshot t call s = Inr \<lparr>ace_authorized = t\<rparr>"
proof -
  let ?p = "ls_child_policy s"
  have 1: "List.find (\<lambda>i. in_instance_id i = ai_child_instance_id t \<and>
      in_assignment_id i = ai_assignment_id t \<and> in_artifact_id i = ai_artifact_id t \<and>
      in_child_name i = ai_child_name t \<and> in_instance_state i = CI_Ready) (lp_instances ?p) = Some inst"
    by (rule find_strengthen [where P = "\<lambda>i. in_instance_id i = cq_instance_id request"])
      (use look ok in \<open>auto simp: mint_defs t_def\<close>)
  have 2: "List.find (\<lambda>g. as_assignment_id g = in_assignment_id inst \<and>
      as_approval_id g = ai_approval_id t \<and> as_artifact_id g = ai_artifact_id t \<and>
      as_child_name g = ai_child_name t \<and> as_assignment_state g = AS_Active)
      (lp_assignments ?p) = Some asg"
    by (rule find_strengthen [where P = "\<lambda>g. as_assignment_id g = in_assignment_id inst"])
      (use look ok in \<open>auto simp: mint_defs t_def\<close>)
  have 3: "List.find (\<lambda>p. ap_approval_id p = as_approval_id asg \<and>
      ap_artifact_id p = ai_artifact_id t \<and> ap_child_name p = ai_child_name t \<and>
      ap_approval_state p = AP_Approved \<and> ap_policy_revision p = ls_policy_revision s)
      (lp_approvals ?p) = Some apr"
    by (rule find_strengthen [where P = "\<lambda>p. ap_approval_id p = as_approval_id asg"])
      (use look ok in \<open>auto simp: mint_defs t_def\<close>)
  have 4: "list_ex (\<lambda>r. ar_artifact_id r = ap_artifact_id apr \<and> ar_child_name r = ai_child_name t \<and>
      ar_artifact_version r = ap_artifact_version apr \<and> ar_manifest_hash r = ai_manifest_hash t \<and>
      ar_verification_status r = VS_Verified \<and>
      is_ok (LocalChildRuntime_try_from (ar_runtime_shape r))) (lp_artifacts ?p)"
    using look ok by (auto simp: list_ex_iff mint_defs t_def dest!: find_SomeD)
  have 5: "ai_local_execution_authority t = Some a" "ai_call_id t = c_call_id call"
    "icb_matches_call (ai_call_binding t) call"
    by (simp_all add: mint_defs t_def)
  have 6: "lg_mother_node_id (lc_grants_authority (ls_canonical_grants s))
      = ls_executing_mother_node_id s"
    using cur by (auto simp: authority_current_def)
  from cur 1 2 3 4 5 6 show ?thesis
    by (simp add: child_admit_effect_with_snapshot_def authority_current_def ok_or_def Let_def
        result_simps)
qed

section \<open>Facts about the lifecycle\<close>

lemmas transition_defs = transition_child_instance_def is_allowed_instance_transition_def Let_def

definition child_run :: "ChildInstance \<Rightarrow> (ChildInstanceState \<times> ObservationId) list \<Rightarrow> ChildInstance"
where
  "child_run inst requests =
     foldl (\<lambda>i (to_state, obs). fst (transition_child_instance i to_state obs)) inst requests"

lemma child_run_simps [simp]:
  "child_run inst [] = inst"
  "child_run inst ((st, obs) # rs) = child_run (fst (transition_child_instance inst st obs)) rs"
  by (simp_all add: child_run_def)

lemma transition_keeps_identity:
  "in_instance_id (fst (transition_child_instance i st obs)) = in_instance_id i"
  "in_assignment_id (fst (transition_child_instance i st obs)) = in_assignment_id i"
  "in_artifact_id (fst (transition_child_instance i st obs)) = in_artifact_id i"
  "in_child_name (fst (transition_child_instance i st obs)) = in_child_name i"
  "in_generation (fst (transition_child_instance i st obs)) = in_generation i"
  "in_node_id (fst (transition_child_instance i st obs)) = in_node_id i"
  by (simp_all add: transition_child_instance_def Let_def)

lemma transition_state:
  "in_instance_state (fst (transition_child_instance i st obs)) =
     (if is_allowed_instance_transition (in_instance_state i) st then st else in_instance_state i)"
  by (simp add: transition_child_instance_def Let_def)

definition child_down :: "ChildInstanceState \<Rightarrow> bool" where
  "child_down st \<longleftrightarrow> st \<in> {CI_Draining, CI_Stopped, CI_Failed}"

lemma transition_from_down:
  assumes "child_down (in_instance_state i)"
  shows "child_down (in_instance_state (fst (transition_child_instance i st obs))) \<or>
    in_instance_state (fst (transition_child_instance i st obs)) = CI_Loading"
  using assms
  by (cases "in_instance_state i"; cases st)
    (simp_all add: transition_state child_down_def is_allowed_instance_transition_def)

definition child_init :: "ChildInstance \<Rightarrow> bool" where
  "child_init i \<longleftrightarrow> in_instance_state i = CI_Loading"

definition child_step :: "ChildInstance \<Rightarrow> ChildInstance \<Rightarrow> bool" where
  "child_step i j \<longleftrightarrow> (\<exists>st obs. j = fst (transition_child_instance i st obs))"

definition child_ready_observed :: "ChildInstance \<Rightarrow> bool" where
  "child_ready_observed i \<longleftrightarrow>
     (in_instance_state i = CI_Ready \<longrightarrow>
      in_readiness_observation_id i = Some (in_last_lifecycle_observation_id i))"

interpretation child_lifecycle: invariant_system child_init child_step child_ready_observed
  by unfold_locales
    (auto simp: child_init_def child_step_def child_ready_observed_def
      transition_child_instance_def Let_def)

section \<open>Facts about WIT exports\<close>

definition export_tuples :: "ComponentWitExport list \<Rightarrow> (string \<times> string \<times> string \<times> string) set" where
  "export_tuples es =
     {(we_namespace e, we_interface_name e, we_version e, f) |e f.
        e \<in> set es \<and> f \<in> set (we_function_names e)}"

lemma export_tuples_simps [simp]:
  "export_tuples [] = {}"
  "export_tuples (e # es) =
     (\<lambda>f. (we_namespace e, we_interface_name e, we_version e, f)) ` set (we_function_names e)
       \<union> export_tuples es"
  by (auto simp: export_tuples_def)

lemma add_wit_function_tuples:
  "export_tuples (add_wit_function p es) = insert p (export_tuples es)"
  by (induction p es rule: add_wit_function.induct) (auto simp: list_ex_iff)

lemma the_image_Some:
  assumes "list_all (\<lambda>x. f x \<noteq> None) xs"
  shows "y \<in> (the \<circ> f) ` set xs \<longleftrightarrow> (\<exists>x \<in> set xs. f x = Some y)"
  using assms by (induction xs) auto

lemma wit_exports_loop_tuples:
  "list_all (\<lambda>op. parse_operation_id op \<noteq> None) ops \<Longrightarrow>
   export_tuples (wit_exports_loop all_ops ops es) =
     export_tuples es \<union> (the \<circ> parse_operation_id) ` set ops"
  by (induction ops arbitrary: es) (auto simp: add_wit_function_tuples)

lemma wit_export_matches_tuple:
  "(\<exists>e \<in> set es. wit_export_matches e t) \<longleftrightarrow>
   (\<exists>i v. (ot_namespace t, i, v, ot_function_name t) \<in> export_tuples es \<and>
      (ot_interface_name t = i \<or> ot_interface_name t = i @ ''@'' @ v))"
proof -
  have "(\<exists>e \<in> set es. wit_export_matches e t) \<longleftrightarrow>
    (\<exists>e \<in> set es. we_namespace e = ot_namespace t \<and> ot_function_name t \<in> set (we_function_names e) \<and>
       (ot_interface_name t = we_interface_name e \<or>
        ot_interface_name t = we_interface_name e @ ''@'' @ we_version e))"
    by (auto simp: wit_export_matches_def list_ex_iff Let_def)
  also have "\<dots> \<longleftrightarrow> (\<exists>i v. (ot_namespace t, i, v, ot_function_name t) \<in> export_tuples es \<and>
      (ot_interface_name t = i \<or> ot_interface_name t = i @ ''@'' @ v))"
    unfolding export_tuples_def mem_Collect_eq prod.inject by metis
  finally show ?thesis .
qed

section \<open>Properties\<close>

definition sample_child_request :: ChildCallAuthorityRequest where [sample_defs]:
  "sample_child_request =
     \<lparr>cq_data_authority = None, cq_instance_id = ''inst'', cq_node_id = ''mother'',
      cq_ids = \<lparr>cid_evaluation_id = ''ev'', cid_decision_id = ''dec'', cid_observation_id = ''ob'',
                cid_authorized_child_invocation_id = ''inv''\<rparr>\<rparr>"

lemma sample_child_lookups:
  "child_lookups sample_child_request [sample_artifact] [sample_approval] [sample_assignment]
     [sample_instance] sample_instance sample_assignment sample_approval sample_artifact"
  by (simp add: child_lookups_def sample_defs)

lemma sample_child_facts:
  "child_facts_ok sample_call sample_child_request 7 sample_instance sample_assignment
     sample_approval sample_artifact"
  by (simp add: child_facts_ok_def data_scope_matches_def approval_scope_matches_def
      exports_operation_def wit_export_matches_def sample_defs)

text \<open>
  C29: When identifiers are unique in each table, a Child call is allowed exactly when some ready
  instance on the requested node, active assignment, approved approval at the expected policy
  revision and verified WASM artifact exist that agree on identifiers, name, version and scope,
  and the artifact exports the called operation. The order of the tables does not matter.
\<close>

theorem child_call_allowed_iff:
  assumes "distinct (map in_instance_id instances)" and "distinct (map as_assignment_id assignments)"
    and "distinct (map ap_approval_id approvals)" and "distinct (map ar_artifact_id artifacts)"
  shows "child_is_allowed (evaluate_child_call_authority_with_policy call request artifacts
      approvals assignments instances revision) \<longleftrightarrow>
    (\<exists>inst \<in> set instances. \<exists>asg \<in> set assignments. \<exists>apr \<in> set approvals. \<exists>art \<in> set artifacts.
       child_facts_ok call request revision inst asg apr art)"
  unfolding child_allowed_iff child_lookups_def find_key_iff [OF assms(1)]
    find_key_iff [OF assms(2)] find_key_iff [OF assms(3)] find_key_iff [OF assms(4)]
  by (auto simp: child_facts_ok_def)

theorem child_call_allowed_iff_witness:
  "child_is_allowed (evaluate_child_call_authority_with_policy sample_call sample_child_request
     [sample_artifact] [sample_approval] [sample_assignment] [sample_instance] 7)"
  using child_call_allowed_iff [of "[sample_instance]" "[sample_assignment]" "[sample_approval]"
      "[sample_artifact]" sample_call sample_child_request 7] sample_child_facts by simp

text \<open>
  C11: A Child effect is admitted only for the exact call its token was minted for, on the
  snapshot identity the token names, before the deadline, and while a ready instance, an active
  assignment, an approval at the current policy revision and a verified artifact with the token's
  manifest hash still back it. So revoking any of the four stops the token.
\<close>

theorem child_effect_admitted_sound:
  assumes "child_admit_effect_with_snapshot t call s = Inr e"
  shows "ace_authorized e = t \<and> child_still_backed t s \<and> child_matches_invocation_data t call \<and>
    lk_evaluated_at (ls_mother_clock s) < c_deadline call \<and>
    (\<exists>a. ai_local_execution_authority t = Some a \<and> authority_current a call s)"
  using child_admit_currentD [OF assms] child_admit_backedD [OF assms]
    child_effect.admit_before_deadline [OF assms]
  by (auto simp: child_matches_invocation_data_def)

theorem child_effect_admitted_sound_witness:
  "let t = child_bind_local_execution_authority (child_token sample_call sample_child_request
       sample_instance sample_assignment sample_approval sample_artifact)
       (execution_authority sample_snapshot (sample_time 100))
   in child_admit_effect_with_snapshot t sample_call sample_snapshot = Inr \<lparr>ace_authorized = t\<rparr> \<and>
      child_still_backed t sample_snapshot"
proof -
  have "child_lookups sample_child_request (lp_artifacts (ls_child_policy sample_snapshot))
      (lp_approvals (ls_child_policy sample_snapshot))
      (lp_assignments (ls_child_policy sample_snapshot))
      (lp_instances (ls_child_policy sample_snapshot))
      sample_instance sample_assignment sample_approval sample_artifact"
    using sample_child_lookups by simp
  moreover have "authority_current (execution_authority sample_snapshot (sample_time 100))
      sample_call sample_snapshot"
    using authority_current_minted [of sample_snapshot sample_call]
    by (simp add: sample_call_def)
  moreover have "child_facts_ok sample_call sample_child_request (ls_policy_revision sample_snapshot)
      sample_instance sample_assignment sample_approval sample_artifact"
    using sample_child_facts by simp
  ultimately have m: "child_admit_effect_with_snapshot (child_bind_local_execution_authority
      (child_token sample_call sample_child_request sample_instance sample_assignment
        sample_approval sample_artifact) (execution_authority sample_snapshot (sample_time 100)))
      sample_call sample_snapshot = Inr \<lparr>ace_authorized = child_bind_local_execution_authority
      (child_token sample_call sample_child_request sample_instance sample_assignment
        sample_approval sample_artifact) (execution_authority sample_snapshot (sample_time 100))\<rparr>"
    by (intro child_admit_minted)
  from m child_effect_admitted_sound [OF m] show ?thesis by (simp add: Let_def)
qed

text \<open>
  C31: An instance that is draining, stopped or failed serves again only after a restart: every
  sequence of transition requests that brings it to Ready or Degraded passes through Loading.
\<close>

theorem child_restart_through_loading:
  assumes "child_down (in_instance_state i)"
    and "in_instance_state (child_run i requests) \<in> {CI_Ready, CI_Degraded}"
  shows "\<exists>pre suf. requests = pre @ suf \<and> in_instance_state (child_run i pre) = CI_Loading"
  using assms
proof (induction requests arbitrary: i)
  case Nil
  then show ?case by (auto simp: child_down_def)
next
  case (Cons r rs)
  obtain st obs where r: "r = (st, obs)" by fastforce
  let ?j = "fst (transition_child_instance i st obs)"
  from transition_from_down [OF Cons.prems(1)] consider
    "child_down (in_instance_state ?j)" | "in_instance_state ?j = CI_Loading" by blast
  then show ?case
  proof cases
    case 1
    from Cons.prems(2) r have "in_instance_state (child_run ?j rs) \<in> {CI_Ready, CI_Degraded}" by simp
    from Cons.IH [OF 1 this] obtain pre suf where
      "rs = pre @ suf" "in_instance_state (child_run ?j pre) = CI_Loading" by blast
    with r show ?thesis by (intro exI [of _ "r # pre"] exI [of _ suf]) simp
  next
    case 2
    with r show ?thesis by (intro exI [of _ "[r]"] exI [of _ rs]) simp
  qed
qed

theorem child_restart_through_loading_witness:
  "\<exists>pre suf. [(CI_Stopped, ''a''), (CI_Ready, ''b''), (CI_Loading, ''c''), (CI_Ready, ''d'')] = pre @ suf \<and>
     in_instance_state (child_run (sample_instance\<lparr>in_instance_state := CI_Draining\<rparr>) pre) = CI_Loading"
  by (rule child_restart_through_loading)
    (simp_all add: child_down_def transition_state is_allowed_instance_transition_def)

text \<open>
  From Loading, in every reachable state, an instance marked Ready carries as readiness
  evidence the observation of its last accepted transition.
\<close>

lemma child_ready_has_evidence:
  assumes "reach child_init child_step i" and "in_instance_state i = CI_Ready"
  shows "in_readiness_observation_id i = Some (in_last_lifecycle_observation_id i)"
  using child_lifecycle.reach_inv [OF assms(1)] assms(2) by (simp add: child_ready_observed_def)

lemma child_ready_has_evidence_witness:
  "let i = fst (transition_child_instance (sample_instance\<lparr>in_instance_state := CI_Loading\<rparr>) CI_Ready ''x'')
   in in_readiness_observation_id i = Some (in_last_lifecycle_observation_id i)"
proof -
  let ?i = "sample_instance\<lparr>in_instance_state := CI_Loading\<rparr>"
  have "reach child_init child_step (fst (transition_child_instance ?i CI_Ready ''x''))"
    by (rule reach_step [of _ _ ?i]) (auto intro: reach_init simp: child_init_def child_step_def)
  moreover have "in_instance_state (fst (transition_child_instance ?i CI_Ready ''x'')) = CI_Ready"
    by (simp add: transition_state is_allowed_instance_transition_def)
  ultimately show ?thesis using child_ready_has_evidence by (simp add: Let_def)
qed

text \<open>
  For a list of well-formed operation ids, an artifact carrying the grouped exports exports
  exactly the listed operations, named with or without the interface version.
\<close>

lemma exports_operation_iff_listed:
  assumes "list_all (\<lambda>op. parse_operation_id op \<noteq> None) ops"
    and "component_wit_exports_from_operation_ids ops
      = ar_primary_export artifact # ar_additional_exports artifact"
  shows "exports_operation artifact t \<longleftrightarrow>
    (\<exists>op \<in> set ops. \<exists>i v. parse_operation_id op = Some (ot_namespace t, i, v, ot_function_name t) \<and>
       (ot_interface_name t = i \<or> ot_interface_name t = i @ ''@'' @ v))"
proof -
  have tuples: "export_tuples (component_wit_exports_from_operation_ids ops)
      = (the \<circ> parse_operation_id) ` set ops"
    using wit_exports_loop_tuples [OF assms(1), of ops "[]"]
    by (simp only: component_wit_exports_from_operation_ids_def export_tuples_simps Un_empty_left)
  have "exports_operation artifact t \<longleftrightarrow>
      (\<exists>e \<in> set (component_wit_exports_from_operation_ids ops). wit_export_matches e t)"
    by (simp add: exports_operation_def assms(2) list_ex_iff)
  then show ?thesis
    unfolding wit_export_matches_tuple tuples the_image_Some [OF assms(1)] by blast
qed

lemma exports_operation_iff_listed_witness:
  "exports_operation (sample_artifact\<lparr>ar_primary_export :=
       \<lparr>we_namespace = ''demo'', we_interface_name = ''control'', we_version = ''0.1.0'',
        we_function_names = [''run'']\<rparr>\<rparr>)
     \<lparr>ot_namespace = ''demo'', ot_interface_name = ''control@0.1.0'', ot_function_name = ''run''\<rparr>"
proof -
  have p: "parse_operation_id ''demo/control@0.1.0.run'' = Some (''demo'', ''control'', ''0.1.0'', ''run'')"
    by code_simp
  show ?thesis
    by (subst exports_operation_iff_listed [where ops = "[''demo/control@0.1.0.run'']"])
      (simp_all add: p component_wit_exports_from_operation_ids_def sample_defs)
qed

end
