(* ===== verification/MCT_Toy.thy ===== *)
theory MCT_Toy
  imports MCT_Samples
begin

text \<open>
  Toy grants (\<open>toy.rs\<close>): the search for a grant that lets a Child use a Toy during one call,
  its variant over a local snapshot, the token minted from it, and the admission of a Toy effect.
\<close>

section \<open>Data\<close>

datatype ToyGrantVerdict = TV_Allowed | TV_Denied

datatype ToyGrantReasonCode =
    TR_ActiveGrant | TR_MissingGrant | TR_ExpiredGrant | TR_RevokedGrant | TR_WrongScope
  | TR_UnknownToy | TR_PolicyDenied | TR_StaleSnapshot

record ToyGrantEvaluation =
  te_evaluation_id :: ToyGrantEvaluationId
  te_call_id :: CallId
  te_decision_id :: DecisionId
  te_grant_id :: "ToyGrantId option"
  te_toy_id :: ToyId
  te_subject_child_name :: string
  te_verdict :: ToyGrantVerdict
  te_reason_code :: ToyGrantReasonCode
  te_policy_revision :: u64
  te_grants_revision :: u64
  te_observation_id :: ObservationId

record AuthorizedToyCall =
  tt_call_binding :: InvocationCallBinding
  tt_authorized_toy_call_id :: AuthorizedToyCallId
  tt_call_id :: CallId
  tt_evaluation_id :: ToyGrantEvaluationId
  tt_grant_id :: ToyGrantId
  tt_toy_id :: ToyId
  tt_child_instance_id :: ChildInstanceId
  tt_resource_id :: "string option"
  tt_authority_decision_id :: DecisionId
  tt_expires_at :: Timestamp
  tt_policy_revision :: u64
  tt_grants_revision :: u64
  tt_local_execution_authority :: "LocalExecutionAuthorityTokenV1 option"
  tt_canonical_toy :: CanonicalToyContract
  tt_canonical_grant :: ToyGrant
  tt_subject :: ToyGrantSubject
  tt_action :: string
  tt_node_id :: MctNodeId
  tt_vision_id :: VisionId
  tt_project_id :: "ProjectId option"
  tt_data_classification :: string

datatype ToyEffectAdmissionDenyV1 =
    TD_LocalAuthorityUnavailable | TD_CallIdMismatch | TD_CallDataMismatch
  | TD_EffectiveDeadlineMismatch | TD_PolicyAuthorityMismatch | TD_GrantsAuthorityMismatch
  | TD_TokenExpired | TD_UnknownToy | TD_MissingExactGrant | TD_InactiveGrant
  | TD_ExactGrantMismatch | TD_GrantNotStarted | TD_GrantExpired
  | TD_ConsumptionStateUnavailable

record AdmittedToyEffect =
  ate_authorized :: AuthorizedToyCall

record ToyGrantEvaluationIds =
  tid_evaluation_id :: ToyGrantEvaluationId
  tid_decision_id :: DecisionId
  tid_observation_id :: ObservationId
  tid_authorized_toy_call_id :: AuthorizedToyCallId

record ToyGrantEvaluationRequest =
  tq_data_authority :: "LocalInvocationData option"
  tq_toy_id :: ToyId
  tq_subject :: ToyGrantSubject
  tq_child_instance_id :: ChildInstanceId
  tq_action :: string
  tq_resource_id :: "string option"
  tq_node_id :: MctNodeId
  tq_now :: Timestamp
  tq_ids :: ToyGrantEvaluationIds

record ToyGrantEvaluationResult =
  tr_evaluation :: ToyGrantEvaluation
  tr_authorized :: "AuthorizedToyCall option"

definition toy_is_allowed :: "ToyGrantEvaluationResult \<Rightarrow> bool" where
  "toy_is_allowed r \<longleftrightarrow> te_verdict (tr_evaluation r) = TV_Allowed \<and> tr_authorized r \<noteq> None"

section \<open>Matching\<close>

definition subject_matches :: "ToyGrantSubject \<Rightarrow> ToyGrantSubject \<Rightarrow> bool" where
  "subject_matches grant request \<longleftrightarrow>
     su_child_name grant = su_child_name request \<and>
     su_artifact_id grant = su_artifact_id request \<and>
     su_artifact_version grant = su_artifact_version request \<and>
     option_matches (su_assignment_id grant) (su_assignment_id request) \<and>
     option_matches (su_caller_node_id grant) (su_caller_node_id request)"

definition scope_matches :: "ToyGrantScope \<Rightarrow> MctCall \<Rightarrow> ToyGrantEvaluationRequest \<Rightarrow> bool" where
  "scope_matches scope call request \<longleftrightarrow>
     sc_vision_id scope = ci_vision_id (c_caller call) \<and>
     option_matches (sc_node_id scope) (Some (tq_node_id request)) \<and>
     data_scope_matches call (tq_data_authority request) (sc_project_id scope)
       (sc_data_classification scope) \<and>
     option_matches (sc_resource_id scope) (tq_resource_id request) \<and>
     action_is_allowed (sc_allowed_actions scope) (tq_action request)"

definition toy_time_window_denial ::
  "Timestamp \<Rightarrow> ToyGrantConstraints \<Rightarrow> ToyGrantReasonCode option" where
  "toy_time_window_denial now constraints =
     (case expiry_decision now (tk_starts_at constraints) (tk_expires_at constraints) ER_Optional of
        ED_Open \<Rightarrow> None
      | ED_Expired \<Rightarrow> Some TR_ExpiredGrant
      | ED_NotYet \<Rightarrow> Some TR_PolicyDenied
      | ED_Missing \<Rightarrow> Some TR_PolicyDenied
      | ED_PresentButForbidden \<Rightarrow> Some TR_PolicyDenied)"

definition toy_token_expiry ::
  "jiff \<Rightarrow> MctCall \<Rightarrow> ToyGrantEvaluationRequest \<Rightarrow> ToyGrant \<Rightarrow> Timestamp option" where
  "toy_token_expiry J call request grant =
     (let expiry = ts_min (case tk_expires_at (tg_constraints grant) of
                             None \<Rightarrow> c_deadline call | Some e \<Rightarrow> e) (c_deadline call)
      in case tk_max_duration_ms (tg_constraints grant) of
           None \<Rightarrow> Some expiry
         | Some max_duration_ms \<Rightarrow>
             (case checked_add_milliseconds J (tq_now request) max_duration_ms of
                None \<Rightarrow> None
              | Some bound \<Rightarrow> Some (ts_min expiry bound)))"

section \<open>Evaluation\<close>

definition toy_route_denied ::
  "MctCall \<Rightarrow> ToyGrantEvaluationRequest \<Rightarrow> ToyGrant option \<Rightarrow> ToyGrantReasonCode \<Rightarrow> u64 \<Rightarrow> u64 \<Rightarrow>
   ToyGrantEvaluation" where
  "toy_route_denied call request grant reason_code policy_revision grants_revision =
     \<lparr>te_evaluation_id = tid_evaluation_id (tq_ids request), te_call_id = c_call_id call,
      te_decision_id = tid_decision_id (tq_ids request),
      te_grant_id = map_option tg_grant_id grant, te_toy_id = tq_toy_id request,
      te_subject_child_name = su_child_name (tq_subject request),
      te_verdict = TV_Denied, te_reason_code = reason_code,
      te_policy_revision = policy_revision, te_grants_revision = grants_revision,
      te_observation_id = tid_observation_id (tq_ids request)\<rparr>"

definition toy_denied ::
  "MctCall \<Rightarrow> ToyGrantEvaluationRequest \<Rightarrow> ToyGrant option \<Rightarrow> ToyGrantReasonCode \<Rightarrow> u64 \<Rightarrow> u64 \<Rightarrow>
   ToyGrantEvaluationResult" where
  "toy_denied call request grant reason_code policy_revision grants_revision =
     \<lparr>tr_evaluation =
        \<lparr>te_evaluation_id = tid_evaluation_id (tq_ids request), te_call_id = c_call_id call,
         te_decision_id = tid_decision_id (tq_ids request),
         te_grant_id = map_option tg_grant_id grant, te_toy_id = tq_toy_id request,
         te_subject_child_name = su_child_name (tq_subject request),
         te_verdict = TV_Denied, te_reason_code = reason_code,
         te_policy_revision = policy_revision, te_grants_revision = grants_revision,
         te_observation_id = tid_observation_id (tq_ids request)\<rparr>,
      tr_authorized = None\<rparr>"

text \<open>
  The two loops over the grants keep the last grant in a wrong state and the last with a wrong
  scope; \<open>toy_call_allow\<close> and \<open>toy_route_allow\<close> are the ends of their bodies, \<open>toy_call_finish\<close>
  and \<open>toy_route_finish\<close> the code after the loops.
\<close>

definition toy_call_finish ::
  "MctCall \<Rightarrow> ToyGrantEvaluationRequest \<Rightarrow> (ToyGrant \<times> ToyGrantReasonCode) option \<Rightarrow>
   ToyGrant option \<Rightarrow> ToyGrantEvaluationResult" where
  "toy_call_finish call request matching_wrong_state matching_wrong_scope =
     (case matching_wrong_scope of
        Some grant \<Rightarrow> toy_denied call request (Some grant) TR_WrongScope
                        (tg_policy_revision grant) (tg_grants_revision grant)
      | None \<Rightarrow>
        (case matching_wrong_state of
           Some (grant, reason) \<Rightarrow> toy_denied call request (Some grant) reason
                        (tg_policy_revision grant) (tg_grants_revision grant)
         | None \<Rightarrow> toy_denied call request None TR_MissingGrant
                     (ac_policy_revision (c_authority_context call))
                     (ga_generation (ac_expected_receiver_grants_authority
                        (c_authority_context call)))))"

definition toy_call_allow ::
  "jiff \<Rightarrow> MctCall \<Rightarrow> ToyGrantEvaluationRequest \<Rightarrow> CanonicalToyContract \<Rightarrow> ToyGrant \<Rightarrow>
   ToyGrantEvaluationResult" where
  "toy_call_allow J call request toy grant =
     (let evaluation =
        \<lparr>te_evaluation_id = tid_evaluation_id (tq_ids request), te_call_id = c_call_id call,
         te_decision_id = tid_decision_id (tq_ids request),
         te_grant_id = Some (tg_grant_id grant), te_toy_id = tq_toy_id request,
         te_subject_child_name = su_child_name (tq_subject request),
         te_verdict = TV_Allowed, te_reason_code = TR_ActiveGrant,
         te_policy_revision = tg_policy_revision grant,
         te_grants_revision = tg_grants_revision grant,
         te_observation_id = tid_observation_id (tq_ids request)\<rparr>
      in case toy_token_expiry J call request grant of
           None \<Rightarrow> toy_denied call request (Some grant) TR_PolicyDenied
                     (tg_policy_revision grant) (tg_grants_revision grant)
         | Some expires_at \<Rightarrow>
           \<lparr>tr_evaluation = evaluation,
            tr_authorized = Some
              \<lparr>tt_call_binding = icb_capture call,
               tt_authorized_toy_call_id = tid_authorized_toy_call_id (tq_ids request),
               tt_call_id = c_call_id call, tt_evaluation_id = te_evaluation_id evaluation,
               tt_grant_id = tg_grant_id grant, tt_toy_id = tq_toy_id request,
               tt_child_instance_id = tq_child_instance_id request,
               tt_resource_id = tq_resource_id request,
               tt_authority_decision_id = te_decision_id evaluation,
               tt_expires_at = expires_at, tt_policy_revision = tg_policy_revision grant,
               tt_grants_revision = tg_grants_revision grant,
               tt_local_execution_authority = None,
               tt_canonical_toy = toy, tt_canonical_grant = grant,
               tt_subject = tq_subject request, tt_action = tq_action request,
               tt_node_id = tq_node_id request,
               tt_vision_id = ci_vision_id (c_caller call),
               tt_project_id = ci_project_id (c_caller call),
               tt_data_classification = pm_data_classification (c_payload_metadata call)\<rparr>\<rparr>)"

fun toy_call_loop ::
  "jiff \<Rightarrow> MctCall \<Rightarrow> ToyGrantEvaluationRequest \<Rightarrow> CanonicalToyContract \<Rightarrow>
   (ToyGrant \<times> ToyGrantReasonCode) option \<Rightarrow> ToyGrant option \<Rightarrow> ToyGrant list \<Rightarrow>
   ToyGrantEvaluationResult" where
  "toy_call_loop J call request toy wrong_state wrong_scope [] =
     toy_call_finish call request wrong_state wrong_scope"
| "toy_call_loop J call request toy wrong_state wrong_scope (grant # grants) =
     (if \<not> subject_matches (tg_subject grant) (tq_subject request)
      then toy_call_loop J call request toy wrong_state wrong_scope grants
      else if tg_policy_revision grant \<noteq> ac_policy_revision (c_authority_context call)
      then toy_denied call request (Some grant) TR_StaleSnapshot
             (tg_policy_revision grant) (tg_grants_revision grant)
      else case tg_grant_state grant of
        GS_Expired \<Rightarrow> toy_call_loop J call request toy (Some (grant, TR_ExpiredGrant)) wrong_scope grants
      | GS_Revoked \<Rightarrow> toy_call_loop J call request toy (Some (grant, TR_RevokedGrant)) wrong_scope grants
      | GS_Superseded \<Rightarrow> toy_call_loop J call request toy (Some (grant, TR_RevokedGrant)) wrong_scope grants
      | GS_Denied \<Rightarrow> toy_call_loop J call request toy (Some (grant, TR_RevokedGrant)) wrong_scope grants
      | GS_Requested \<Rightarrow> toy_call_loop J call request toy (Some (grant, TR_PolicyDenied)) wrong_scope grants
      | GS_Active \<Rightarrow>
        (case toy_time_window_denial (tq_now request) (tg_constraints grant) of
           Some reason \<Rightarrow> toy_denied call request (Some grant) reason
                            (tg_policy_revision grant) (tg_grants_revision grant)
         | None \<Rightarrow>
           if \<not> scope_matches (tg_scope grant) call request
           then toy_call_loop J call request toy wrong_state (Some grant) grants
           else toy_call_allow J call request toy grant))"

definition evaluate_toy_grant_for_call ::
  "jiff \<Rightarrow> MctCall \<Rightarrow> ToyGrantEvaluationRequest \<Rightarrow> CanonicalToyContract list \<Rightarrow> ToyGrant list \<Rightarrow>
   ToyGrantEvaluationResult" where
  "evaluate_toy_grant_for_call J call request catalog grants =
     (let policy_revision = ac_policy_revision (c_authority_context call);
          generation = ga_generation (ac_expected_receiver_grants_authority
                         (c_authority_context call))
      in case List.find (\<lambda>toy. ct_toy_id toy = tq_toy_id request) catalog of
           None \<Rightarrow> toy_denied call request None TR_UnknownToy policy_revision generation
         | Some toy \<Rightarrow>
           if \<not> ct_authority_bearing toy
           then toy_denied call request None TR_PolicyDenied policy_revision generation
           else toy_call_loop J call request toy None None
                  (filter (\<lambda>grant. tg_toy_id grant = tq_toy_id request) grants))"

definition toy_route_finish ::
  "MctCall \<Rightarrow> ToyGrantEvaluationRequest \<Rightarrow> u64 \<Rightarrow> u64 \<Rightarrow> (ToyGrant \<times> ToyGrantReasonCode) option \<Rightarrow>
   ToyGrant option \<Rightarrow> ToyGrantEvaluation" where
  "toy_route_finish call request policy_revision generation wrong_state wrong_scope =
     (case wrong_scope of
        Some grant \<Rightarrow> toy_route_denied call request (Some grant) TR_WrongScope
                        policy_revision generation
      | None \<Rightarrow>
        (let (grant, reason) = (case wrong_state of
               None \<Rightarrow> (None, TR_MissingGrant)
             | Some (grant, reason) \<Rightarrow> (Some grant, reason))
         in toy_route_denied call request grant reason policy_revision generation))"

definition toy_route_allow ::
  "MctCall \<Rightarrow> ToyGrantEvaluationRequest \<Rightarrow> u64 \<Rightarrow> u64 \<Rightarrow> ToyGrant \<Rightarrow> ToyGrantEvaluation" where
  "toy_route_allow call request policy_revision generation grant =
     \<lparr>te_evaluation_id = tid_evaluation_id (tq_ids request), te_call_id = c_call_id call,
      te_decision_id = tid_decision_id (tq_ids request),
      te_grant_id = Some (tg_grant_id grant), te_toy_id = tq_toy_id request,
      te_subject_child_name = su_child_name (tq_subject request),
      te_verdict = TV_Allowed, te_reason_code = TR_ActiveGrant,
      te_policy_revision = policy_revision, te_grants_revision = generation,
      te_observation_id = tid_observation_id (tq_ids request)\<rparr>"

fun toy_route_loop ::
  "MctCall \<Rightarrow> ToyGrantEvaluationRequest \<Rightarrow> u64 \<Rightarrow> u64 \<Rightarrow>
   (ToyGrant \<times> ToyGrantReasonCode) option \<Rightarrow> ToyGrant option \<Rightarrow> ToyGrant list \<Rightarrow>
   ToyGrantEvaluation" where
  "toy_route_loop call request policy_revision generation wrong_state wrong_scope [] =
     toy_route_finish call request policy_revision generation wrong_state wrong_scope"
| "toy_route_loop call request policy_revision generation wrong_state wrong_scope (grant # grants) =
     (let continue = (\<lambda>st sc. toy_route_loop call request policy_revision generation st sc grants)
      in if \<not> subject_matches (tg_subject grant) (tq_subject request)
         then continue wrong_state wrong_scope
         else if tg_policy_revision grant \<noteq> policy_revision
         then toy_route_denied call request (Some grant) TR_StaleSnapshot policy_revision generation
         else case tg_grant_state grant of
           GS_Expired \<Rightarrow> continue (Some (grant, TR_ExpiredGrant)) wrong_scope
         | GS_Revoked \<Rightarrow> continue (Some (grant, TR_RevokedGrant)) wrong_scope
         | GS_Superseded \<Rightarrow> continue (Some (grant, TR_RevokedGrant)) wrong_scope
         | GS_Denied \<Rightarrow> continue (Some (grant, TR_RevokedGrant)) wrong_scope
         | GS_Requested \<Rightarrow> continue (Some (grant, TR_PolicyDenied)) wrong_scope
         | GS_Active \<Rightarrow>
           (case toy_time_window_denial (tq_now request) (tg_constraints grant) of
              Some reason \<Rightarrow> toy_route_denied call request (Some grant) reason
                               policy_revision generation
            | None \<Rightarrow>
              if \<not> scope_matches (tg_scope grant) call request
              then continue wrong_state (Some grant)
              else toy_route_allow call request policy_revision generation grant))"

definition evaluate_toy_grant_for_route_snapshot ::
  "MctCall \<Rightarrow> ToyGrantEvaluationRequest \<Rightarrow> CanonicalToyContract list \<Rightarrow> ToyGrant list \<Rightarrow> u64 \<Rightarrow> u64 \<Rightarrow>
   ToyGrantEvaluation" where
  "evaluate_toy_grant_for_route_snapshot call request catalog grants policy_revision generation =
     (case List.find (\<lambda>toy. ct_toy_id toy = tq_toy_id request) catalog of
        None \<Rightarrow> toy_route_denied call request None TR_UnknownToy policy_revision generation
      | Some toy \<Rightarrow>
        if \<not> ct_authority_bearing toy
        then toy_route_denied call request None TR_PolicyDenied policy_revision generation
        else toy_route_loop call request policy_revision generation None None
               (filter (\<lambda>grant. tg_toy_id grant = tq_toy_id request) grants))"

definition evaluate_toy_grant_for_snapshot ::
  "jiff \<Rightarrow> MctCall \<Rightarrow> ToyGrantEvaluationRequest \<Rightarrow> LocalExecutionAuthoritySnapshot \<Rightarrow>
   ToyGrantEvaluationResult" where
  "evaluate_toy_grant_for_snapshot J call request snapshot =
     (let policy_revision = ls_policy_revision snapshot;
          generation = lg_generation (lc_grants_authority (ls_canonical_grants snapshot));
          evaluation = evaluate_toy_grant_for_route_snapshot call request
            (lc_toy_catalog (ls_canonical_grants snapshot))
            (lc_toy_grants (ls_canonical_grants snapshot)) policy_revision generation;
          refused = \<lparr>tr_evaluation = evaluation, tr_authorized = None\<rparr>
      in if te_verdict evaluation \<noteq> TV_Allowed then refused
         else case te_grant_id evaluation of
           None \<Rightarrow> refused
         | Some grant_id \<Rightarrow>
         (case List.find (\<lambda>grant. tg_grant_id grant = grant_id)
                 (lc_toy_grants (ls_canonical_grants snapshot)) of
           None \<Rightarrow> refused
         | Some grant \<Rightarrow>
         (case List.find (\<lambda>toy. ct_toy_id toy = tq_toy_id request)
                 (lc_toy_catalog (ls_canonical_grants snapshot)) of
           None \<Rightarrow> refused
         | Some toy \<Rightarrow>
         (case toy_token_expiry J call request grant of
           None \<Rightarrow> \<lparr>tr_evaluation = toy_route_denied call request (Some grant) TR_PolicyDenied
                     policy_revision generation, tr_authorized = None\<rparr>
         | Some expires_at \<Rightarrow>
           \<lparr>tr_evaluation = evaluation,
            tr_authorized = Some
              \<lparr>tt_call_binding = icb_capture call,
               tt_authorized_toy_call_id = tid_authorized_toy_call_id (tq_ids request),
               tt_call_id = c_call_id call, tt_evaluation_id = te_evaluation_id evaluation,
               tt_grant_id = tg_grant_id grant, tt_toy_id = tq_toy_id request,
               tt_child_instance_id = tq_child_instance_id request,
               tt_resource_id = tq_resource_id request,
               tt_authority_decision_id = te_decision_id evaluation,
               tt_expires_at = expires_at, tt_policy_revision = policy_revision,
               tt_grants_revision = generation,
               tt_local_execution_authority = Some (execution_authority snapshot (c_deadline call)),
               tt_canonical_toy = toy, tt_canonical_grant = grant,
               tt_subject = tq_subject request, tt_action = tq_action request,
               tt_node_id = tq_node_id request,
               tt_vision_id = ci_vision_id (c_caller call),
               tt_project_id = ci_project_id (c_caller call),
               tt_data_classification = pm_data_classification (c_payload_metadata call)\<rparr>\<rparr>))))"

section \<open>Effect admission\<close>

text \<open>\<open>PartialEq\<close> of a grant, derived field by field; timestamps compare as instants.\<close>

definition toy_constraints_eq :: "ToyGrantConstraints \<Rightarrow> ToyGrantConstraints \<Rightarrow> bool" where
  "toy_constraints_eq a b \<longleftrightarrow>
     opt_ts_eq (tk_starts_at a) (tk_starts_at b) \<and> opt_ts_eq (tk_expires_at a) (tk_expires_at b) \<and>
     tk_max_uses a = tk_max_uses b \<and> tk_max_duration_ms a = tk_max_duration_ms b \<and>
     tk_locality_required a = tk_locality_required b"

definition toy_grant_eq :: "ToyGrant \<Rightarrow> ToyGrant \<Rightarrow> bool" where
  "toy_grant_eq a b \<longleftrightarrow>
     tg_grant_id a = tg_grant_id b \<and> tg_toy_id a = tg_toy_id b \<and>
     tg_subject a = tg_subject b \<and> tg_scope a = tg_scope b \<and>
     toy_constraints_eq (tg_constraints a) (tg_constraints b) \<and>
     tg_grant_state a = tg_grant_state b \<and> tg_issuer_id a = tg_issuer_id b \<and>
     tg_policy_revision a = tg_policy_revision b \<and> tg_grants_revision a = tg_grants_revision b \<and>
     tg_authority_observation_id a = tg_authority_observation_id b"

definition toy_admit_effect_with_snapshot ::
  "AuthorizedToyCall \<Rightarrow> MctCall \<Rightarrow> LocalExecutionAuthoritySnapshot \<Rightarrow>
   ToyEffectAdmissionDenyV1 + AdmittedToyEffect" where
  "toy_admit_effect_with_snapshot t call snapshot =
     and_then (ok_or (tt_local_execution_authority t) TD_LocalAuthorityUnavailable) (\<lambda>authority.
     if tt_call_id t \<noteq> c_call_id call then Inl TD_CallIdMismatch
     else if \<not> icb_matches_call (tt_call_binding t) call then Inl TD_CallDataMismatch
     else if \<not> ts_eq (lt_effective_deadline authority) (c_deadline call)
     then Inl TD_EffectiveDeadlineMismatch
     else if lt_policy_revision authority \<noteq> ls_policy_revision snapshot
          \<or> lt_vision_policy_revision authority \<noteq> ls_vision_policy_revision snapshot
     then Inl TD_PolicyAuthorityMismatch
     else if lt_grants_authority authority \<noteq> lc_grants_authority (ls_canonical_grants snapshot)
          \<or> lg_mother_node_id (lt_grants_authority authority)
            \<noteq> ls_executing_mother_node_id snapshot
     then Inl TD_GrantsAuthorityMismatch
     else let now = lk_evaluated_at (ls_mother_clock snapshot) in
     if tt_expires_at t \<le> now \<or> lt_effective_deadline authority \<le> now
     then Inl TD_TokenExpired
     else
     and_then (ok_or (List.find (\<lambda>toy. ct_toy_id toy = tt_toy_id t \<and> ct_authority_bearing toy)
                       (lc_toy_catalog (ls_canonical_grants snapshot))) TD_UnknownToy) (\<lambda>current_toy.
     if current_toy \<noteq> tt_canonical_toy t then Inl TD_ExactGrantMismatch
     else
     and_then (ok_or (List.find (\<lambda>grant. tg_grant_id grant = tt_grant_id t)
                       (lc_toy_grants (ls_canonical_grants snapshot))) TD_MissingExactGrant) (\<lambda>grant.
     if tg_grant_state grant \<noteq> GS_Active then Inl TD_InactiveGrant
     else if \<not> toy_grant_eq grant (tt_canonical_grant t)
          \<or> tg_toy_id grant \<noteq> tt_toy_id t
          \<or> tg_policy_revision grant \<noteq> ls_policy_revision snapshot
          \<or> \<not> subject_matches (tg_subject grant) (tt_subject t)
          \<or> sc_vision_id (tg_scope grant) \<noteq> tt_vision_id t
          \<or> \<not> option_matches (sc_node_id (tg_scope grant)) (Some (tt_node_id t))
          \<or> \<not> option_matches (sc_project_id (tg_scope grant)) (tt_project_id t)
          \<or> \<not> option_matches (sc_data_classification (tg_scope grant))
                (Some (tt_data_classification t))
          \<or> \<not> option_matches (sc_resource_id (tg_scope grant)) (tt_resource_id t)
          \<or> \<not> list_ex (\<lambda>action. action = tt_action t) (sc_allowed_actions (tg_scope grant))
     then Inl TD_ExactGrantMismatch
     else if (case tk_starts_at (tg_constraints grant) of
                None \<Rightarrow> False | Some starts_at \<Rightarrow> now < starts_at)
     then Inl TD_GrantNotStarted
     else if (case tk_expires_at (tg_constraints grant) of
                None \<Rightarrow> False | Some expires_at \<Rightarrow> expires_at \<le> now)
     then Inl TD_GrantExpired
     else if tk_max_uses (tg_constraints grant) \<noteq> None then Inl TD_ConsumptionStateUnavailable
     else Inr \<lparr>ate_authorized = t\<rparr>)))"

definition toy_admit_effect_for_call_at ::
  "AuthorizedToyCall \<Rightarrow> MctCall \<Rightarrow> Timestamp \<Rightarrow> AdmittedToyEffect option" where
  "toy_admit_effect_for_call_at t call executing_mother_now =
     (if tt_call_id t = c_call_id call \<and> icb_matches_call (tt_call_binding t) call \<and>
         executing_mother_now < tt_expires_at t
      then Some \<lparr>ate_authorized = t\<rparr> else None)"

section \<open>The contract of a grant scan\<close>

text \<open>
  Both loops treat one grant in one of four ways: ignore it, note it as in a wrong state or with
  a wrong scope and go on, or stop with a result. The first grant that stops decides.
\<close>

datatype 'r scan_step = Skip | NoteState ToyGrantReasonCode | NoteScope | Stop (stop_result: 'r)

locale grant_scan =
  fixes loop :: "(ToyGrant \<times> ToyGrantReasonCode) option \<Rightarrow> ToyGrant option \<Rightarrow> ToyGrant list \<Rightarrow> 'r"
    and classify :: "ToyGrant \<Rightarrow> 'r scan_step"
    and finish :: "(ToyGrant \<times> ToyGrantReasonCode) option \<Rightarrow> ToyGrant option \<Rightarrow> 'r"
  assumes loop_Nil: "loop st sc [] = finish st sc"
    and loop_Skip: "classify g = Skip \<Longrightarrow> loop st sc (g # gs) = loop st sc gs"
    and loop_NoteState: "classify g = NoteState r \<Longrightarrow> loop st sc (g # gs) = loop (Some (g, r)) sc gs"
    and loop_NoteScope: "classify g = NoteScope \<Longrightarrow> loop st sc (g # gs) = loop st (Some g) gs"
    and loop_Stop: "classify g = Stop x \<Longrightarrow> loop st sc (g # gs) = x"
begin

lemma loop_decided:
  "List.find (\<lambda>g. is_Stop (classify g)) gs = Some g \<Longrightarrow> loop st sc gs = stop_result (classify g)"
proof (induction gs arbitrary: st sc)
  case (Cons h gs)
  then show ?case
    by (cases "classify h")
      (auto simp: loop_Skip loop_NoteState loop_NoteScope loop_Stop split: if_splits)
qed simp

lemma loop_undecided:
  "List.find (\<lambda>g. is_Stop (classify g)) gs = None \<Longrightarrow> \<exists>st' sc'. loop st sc gs = finish st' sc'"
proof (induction gs arbitrary: st sc)
  case Nil
  then show ?case by (auto simp: loop_Nil)
next
  case (Cons h gs)
  then show ?case
    by (cases "classify h")
      (auto simp: loop_Skip loop_NoteState loop_NoteScope loop_Stop split: if_splits)
qed

end

definition toy_classify ::
  "u64 \<Rightarrow> MctCall \<Rightarrow> ToyGrantEvaluationRequest \<Rightarrow> (ToyGrant \<Rightarrow> ToyGrantReasonCode \<Rightarrow> 'r) \<Rightarrow>
   (ToyGrant \<Rightarrow> 'r) \<Rightarrow> ToyGrant \<Rightarrow> 'r scan_step" where
  "toy_classify policy_revision call request deny allow g =
     (if \<not> subject_matches (tg_subject g) (tq_subject request) then Skip
      else if tg_policy_revision g \<noteq> policy_revision then Stop (deny g TR_StaleSnapshot)
      else case tg_grant_state g of
        GS_Expired \<Rightarrow> NoteState TR_ExpiredGrant
      | GS_Revoked \<Rightarrow> NoteState TR_RevokedGrant
      | GS_Superseded \<Rightarrow> NoteState TR_RevokedGrant
      | GS_Denied \<Rightarrow> NoteState TR_RevokedGrant
      | GS_Requested \<Rightarrow> NoteState TR_PolicyDenied
      | GS_Active \<Rightarrow>
        (case toy_time_window_denial (tq_now request) (tg_constraints g) of
           Some r \<Rightarrow> Stop (deny g r)
         | None \<Rightarrow> if \<not> scope_matches (tg_scope g) call request then NoteScope else Stop (allow g)))"

interpretation call_scan: grant_scan
  "toy_call_loop J call request toy"
  "toy_classify (ac_policy_revision (c_authority_context call)) call request
     (\<lambda>g r. toy_denied call request (Some g) r (tg_policy_revision g) (tg_grants_revision g))
     (toy_call_allow J call request toy)"
  "toy_call_finish call request" for J call request toy
  by unfold_locales
    (auto simp: toy_classify_def split: if_splits ToyGrantState.splits option.splits)

interpretation route_scan: grant_scan
  "toy_route_loop call request policy_revision generation"
  "toy_classify policy_revision call request
     (\<lambda>g r. toy_route_denied call request (Some g) r policy_revision generation)
     (toy_route_allow call request policy_revision generation)"
  "toy_route_finish call request policy_revision generation"
  for call request policy_revision generation
  by unfold_locales
    (auto simp: toy_classify_def Let_def split: if_splits ToyGrantState.splits option.splits)

section \<open>Facts about evaluation\<close>

lemma toy_window_None [simp]:
  "toy_time_window_denial now c = None \<longleftrightarrow>
   started now (tk_starts_at c) \<and> unexpired now (tk_expires_at c)"
  unfolding expiry_open_optional [symmetric]
  by (simp add: toy_time_window_denial_def split: ExpiryDecision.split)

text \<open>A grant of the Toy and subject that is current, active, in its window and in scope.\<close>

definition toy_grant_ok ::
  "u64 \<Rightarrow> MctCall \<Rightarrow> ToyGrantEvaluationRequest \<Rightarrow> ToyGrant \<Rightarrow> bool" where
  "toy_grant_ok policy_revision call request g \<longleftrightarrow>
     tg_toy_id g = tq_toy_id request \<and> subject_matches (tg_subject g) (tq_subject request) \<and>
     tg_policy_revision g = policy_revision \<and> tg_grant_state g = GS_Active \<and>
     started (tq_now request) (tk_starts_at (tg_constraints g)) \<and>
     unexpired (tq_now request) (tk_expires_at (tg_constraints g)) \<and>
     scope_matches (tg_scope g) call request"

text \<open>
  A grant of the Toy and subject ends the search when it is stale, or active and either outside
  its window or in scope; other inactive or out-of-scope grants are passed over.
\<close>

definition toy_decides ::
  "u64 \<Rightarrow> MctCall \<Rightarrow> ToyGrantEvaluationRequest \<Rightarrow> ToyGrant \<Rightarrow> bool" where
  "toy_decides policy_revision call request g \<longleftrightarrow>
     tg_toy_id g = tq_toy_id request \<and> subject_matches (tg_subject g) (tq_subject request) \<and>
     (tg_policy_revision g \<noteq> policy_revision \<or>
      tg_grant_state g = GS_Active \<and>
      (\<not> started (tq_now request) (tk_starts_at (tg_constraints g)) \<or>
       \<not> unexpired (tq_now request) (tk_expires_at (tg_constraints g)) \<or>
       scope_matches (tg_scope g) call request))"

lemma toy_grant_ok_decides: "toy_grant_ok v call request g \<Longrightarrow> toy_decides v call request g"
  by (simp add: toy_grant_ok_def toy_decides_def)

lemma toy_classify_is_Stop:
  "tg_toy_id g = tq_toy_id request \<and> is_Stop (toy_classify v call request deny allow g) \<longleftrightarrow>
   toy_decides v call request g"
proof (cases "toy_time_window_denial (tq_now request) (tg_constraints g)")
  case None
  then show ?thesis
    by (auto simp: toy_classify_def toy_decides_def simp del: toy_window_None
        split: ToyGrantState.split) (simp_all)
next
  case (Some r)
  then have "\<not> (started (tq_now request) (tk_starts_at (tg_constraints g)) \<and>
      unexpired (tq_now request) (tk_expires_at (tg_constraints g)))"
    by (metis option.discI toy_window_None)
  with Some show ?thesis
    by (auto simp: toy_classify_def toy_decides_def split: ToyGrantState.split)
qed

lemma toy_classify_decided:
  assumes "toy_decides v call request g"
  shows "if toy_grant_ok v call request g
    then toy_classify v call request deny allow g = Stop (allow g)
    else \<exists>r. toy_classify v call request deny allow g = Stop (deny g r)"
proof (cases "toy_time_window_denial (tq_now request) (tg_constraints g)")
  case None
  then have "started (tq_now request) (tk_starts_at (tg_constraints g)) \<and>
      unexpired (tq_now request) (tk_expires_at (tg_constraints g))" by simp
  with assms None show ?thesis
    by (auto simp: toy_classify_def toy_decides_def toy_grant_ok_def simp del: toy_window_None)
next
  case (Some r)
  then have "\<not> (started (tq_now request) (tk_starts_at (tg_constraints g)) \<and>
      unexpired (tq_now request) (tk_expires_at (tg_constraints g)))"
    by (metis option.discI toy_window_None)
  with assms Some show ?thesis
    by (auto simp: toy_classify_def toy_decides_def toy_grant_ok_def)
qed

lemma toy_classify_ok:
  "toy_grant_ok v call request g \<Longrightarrow> toy_classify v call request deny allow g = Stop (allow g)"
  using toy_classify_decided [OF toy_grant_ok_decides, of v call request g deny allow] by simp

lemma toy_classify_refused:
  "toy_decides v call request g \<Longrightarrow> \<not> toy_grant_ok v call request g \<Longrightarrow>
   \<exists>r. toy_classify v call request deny allow g = Stop (deny g r)"
  using toy_classify_decided [of v call request g deny allow] by simp

lemma find_filter: "List.find P (filter Q xs) = List.find (\<lambda>x. Q x \<and> P x) xs"
  by (induction xs) auto

lemma find_toy_decides:
  "List.find (\<lambda>g. is_Stop (toy_classify v call request deny allow g))
     (filter (\<lambda>g. tg_toy_id g = tq_toy_id request) grants) =
   List.find (toy_decides v call request) grants"
  by (simp add: find_filter toy_classify_is_Stop)

definition toy_available :: "ToyGrantEvaluationRequest \<Rightarrow> CanonicalToyContract list \<Rightarrow>
  CanonicalToyContract \<Rightarrow> bool" where
  "toy_available request catalog toy \<longleftrightarrow>
     List.find (\<lambda>t. ct_toy_id t = tq_toy_id request) catalog = Some toy \<and> ct_authority_bearing toy"

named_theorems toy_simps \<open>projections of Toy denials\<close>

lemma toy_denied_simps [toy_simps]:
  "te_verdict (toy_route_denied call request g r v n) = TV_Denied"
  "te_verdict (tr_evaluation (toy_denied call request g r v n)) = TV_Denied"
  "tr_authorized (toy_denied call request g r v n) = None"
  by (simp_all add: toy_route_denied_def toy_denied_def)

lemma toy_finish_denied [toy_simps]:
  "te_verdict (toy_route_finish call request v n st sc) = TV_Denied"
  "te_verdict (tr_evaluation (toy_call_finish call request st sc)) = TV_Denied"
  "tr_authorized (toy_call_finish call request st sc) = None"
  by (auto simp: toy_route_finish_def toy_call_finish_def toy_simps Let_def split: option.split)

lemma toy_route_allow_simps [toy_simps]:
  "te_verdict (toy_route_allow call request v n g) = TV_Allowed"
  "te_grant_id (toy_route_allow call request v n g) = Some (tg_grant_id g)"
  by (simp_all add: toy_route_allow_def)

lemma toy_route_allowed_eq:
  assumes "toy_available request catalog toy" and "List.find (toy_decides v call request) grants = Some g"
    and "toy_grant_ok v call request g"
  shows "evaluate_toy_grant_for_route_snapshot call request catalog grants v n
    = toy_route_allow call request v n g"
proof -
  have "toy_route_loop call request v n None None
      (filter (\<lambda>g. tg_toy_id g = tq_toy_id request) grants) = toy_route_allow call request v n g"
    using route_scan.loop_decided assms(2) by (simp add: find_toy_decides toy_classify_ok [OF assms(3)])
  with assms(1) show ?thesis
    by (simp add: evaluate_toy_grant_for_route_snapshot_def toy_available_def)
qed

lemma toy_route_loop_denied:
  assumes "\<not> (\<exists>g. List.find (toy_decides v call request) grants = Some g \<and>
      toy_grant_ok v call request g)"
  shows "te_verdict (toy_route_loop call request v n None None
      (filter (\<lambda>g. tg_toy_id g = tq_toy_id request) grants)) = TV_Denied"
proof (cases "List.find (toy_decides v call request) grants")
  case None
  then have "\<exists>st sc. toy_route_loop call request v n None None
      (filter (\<lambda>g. tg_toy_id g = tq_toy_id request) grants) = toy_route_finish call request v n st sc"
    by (intro route_scan.loop_undecided) (simp only: find_toy_decides)
  then show ?thesis by (elim exE) (simp only: toy_simps)
next
  case (Some g)
  let ?deny = "\<lambda>g r. toy_route_denied call request (Some g) r v n"
  from Some assms have "toy_decides v call request g" "\<not> toy_grant_ok v call request g"
    by (auto dest: find_SomeD)
  from toy_classify_refused [OF this] obtain r where
    "toy_classify v call request ?deny (toy_route_allow call request v n) g = Stop (?deny g r)" by blast
  moreover have "toy_route_loop call request v n None None
      (filter (\<lambda>g. tg_toy_id g = tq_toy_id request) grants)
      = stop_result (toy_classify v call request ?deny (toy_route_allow call request v n) g)"
    by (rule route_scan.loop_decided) (simp only: find_toy_decides Some)
  ultimately show ?thesis by (simp only: scan_step.sel toy_simps)
qed

lemma toy_route_denied_otherwise:
  assumes "\<not> (\<exists>toy g. toy_available request catalog toy \<and>
      List.find (toy_decides v call request) grants = Some g \<and> toy_grant_ok v call request g)"
  shows "te_verdict (evaluate_toy_grant_for_route_snapshot call request catalog grants v n) = TV_Denied"
proof (cases "\<exists>toy. toy_available request catalog toy")
  case False
  then show ?thesis
    by (cases "List.find (\<lambda>t. ct_toy_id t = tq_toy_id request) catalog")
      (simp_all add: evaluate_toy_grant_for_route_snapshot_def toy_available_def toy_simps)
next
  case True
  then obtain toy where toy: "toy_available request catalog toy" by blast
  with assms have "te_verdict (toy_route_loop call request v n None None
      (filter (\<lambda>g. tg_toy_id g = tq_toy_id request) grants)) = TV_Denied"
    by (intro toy_route_loop_denied) blast
  with toy show ?thesis
    by (simp add: evaluate_toy_grant_for_route_snapshot_def toy_available_def)
qed

lemma toy_route_allowed_form:
  assumes "te_verdict (evaluate_toy_grant_for_route_snapshot call request catalog grants v n) = TV_Allowed"
  shows "\<exists>g. evaluate_toy_grant_for_route_snapshot call request catalog grants v n
    = toy_route_allow call request v n g"
proof (rule ccontr)
  assume no: "\<not> ?thesis"
  have "\<not> (\<exists>toy g. toy_available request catalog toy \<and>
      List.find (toy_decides v call request) grants = Some g \<and> toy_grant_ok v call request g)"
    using no toy_route_allowed_eq [where n = n] by metis
  from trans [OF assms [symmetric] toy_route_denied_otherwise [OF this]] show False by simp
qed

lemma toy_call_allowed_eq:
  assumes "toy_available request catalog toy"
    and "List.find (toy_decides (ac_policy_revision (c_authority_context call)) call request) grants = Some g"
    and "toy_grant_ok (ac_policy_revision (c_authority_context call)) call request g"
  shows "evaluate_toy_grant_for_call J call request catalog grants = toy_call_allow J call request toy g"
proof -
  have "toy_call_loop J call request toy None None
      (filter (\<lambda>g. tg_toy_id g = tq_toy_id request) grants) = toy_call_allow J call request toy g"
    using call_scan.loop_decided assms(2) by (simp add: find_toy_decides toy_classify_ok [OF assms(3)])
  with assms(1) show ?thesis
    by (simp add: evaluate_toy_grant_for_call_def toy_available_def)
qed

lemma toy_call_loop_denied:
  fixes J :: jiff and toy :: CanonicalToyContract
  assumes "\<not> (\<exists>g. List.find (toy_decides (ac_policy_revision (c_authority_context call)) call request) grants
      = Some g \<and> toy_grant_ok (ac_policy_revision (c_authority_context call)) call request g)"
  defines "loop \<equiv> toy_call_loop J call request toy None None
      (filter (\<lambda>g. tg_toy_id g = tq_toy_id request) grants)"
  shows "te_verdict (tr_evaluation loop) = TV_Denied \<and> tr_authorized loop = None"
proof (cases "List.find (toy_decides (ac_policy_revision (c_authority_context call)) call request) grants")
  case None
  then have "\<exists>st sc. loop = toy_call_finish call request st sc"
    unfolding loop_def by (intro call_scan.loop_undecided) (simp only: find_toy_decides)
  then show ?thesis by (elim exE) (simp only: toy_simps)
next
  case (Some g)
  let ?v = "ac_policy_revision (c_authority_context call)"
  let ?deny = "\<lambda>g r. toy_denied call request (Some g) r (tg_policy_revision g) (tg_grants_revision g)"
  from Some assms(1) have "toy_decides ?v call request g" "\<not> toy_grant_ok ?v call request g"
    by (auto dest: find_SomeD)
  from toy_classify_refused [OF this] obtain r where
    "toy_classify ?v call request ?deny (toy_call_allow J call request toy) g = Stop (?deny g r)" by blast
  moreover have "loop = stop_result (toy_classify ?v call request ?deny
      (toy_call_allow J call request toy) g)"
    unfolding loop_def by (rule call_scan.loop_decided) (simp only: find_toy_decides Some)
  ultimately show ?thesis by (simp only: scan_step.sel toy_simps)
qed

lemma toy_call_denied_otherwise:
  assumes "\<not> (\<exists>toy g. toy_available request catalog toy \<and>
      List.find (toy_decides (ac_policy_revision (c_authority_context call)) call request) grants = Some g \<and>
      toy_grant_ok (ac_policy_revision (c_authority_context call)) call request g)"
  shows "te_verdict (tr_evaluation (evaluate_toy_grant_for_call J call request catalog grants)) = TV_Denied
    \<and> tr_authorized (evaluate_toy_grant_for_call J call request catalog grants) = None"
proof (cases "\<exists>toy. toy_available request catalog toy")
  case False
  then show ?thesis
    by (cases "List.find (\<lambda>t. ct_toy_id t = tq_toy_id request) catalog")
      (simp_all add: evaluate_toy_grant_for_call_def toy_available_def toy_simps Let_def)
next
  case True
  then obtain toy where toy: "toy_available request catalog toy" by blast
  with assms have "\<not> (\<exists>g. List.find (toy_decides (ac_policy_revision (c_authority_context call)) call request)
      grants = Some g \<and> toy_grant_ok (ac_policy_revision (c_authority_context call)) call request g)"
    by blast
  from toy_call_loop_denied [OF this, of J toy] toy show ?thesis
    by (simp add: evaluate_toy_grant_for_call_def toy_available_def Let_def)
qed

lemma toy_expiry_bounds:
  assumes "toy_token_expiry J call request g = Some e"
  shows "e \<le> c_deadline call" "tk_expires_at (tg_constraints g) = Some x \<Longrightarrow> e \<le> x"
    "jiff_roundtrip J \<Longrightarrow> tk_max_duration_ms (tg_constraints g) = Some ms \<Longrightarrow>
     ts_ns e \<le> ts_ns (tq_now request) + uint ms * 1000000"
  using assms checked_add_milliseconds_ns [of J "tq_now request"]
  by (auto simp: toy_token_expiry_def ts_order ts_min_ns Let_def split: option.splits)

section \<open>Facts about effect admission\<close>

lemma toy_grant_eq_refl [simp]: "toy_grant_eq g g"
  by (simp add: toy_grant_eq_def toy_constraints_eq_def)

text \<open>The grant of a snapshot that keeps a minted token alive.\<close>

definition toy_still_backed ::
  "AuthorizedToyCall \<Rightarrow> LocalExecutionAuthoritySnapshot \<Rightarrow> ToyGrant \<Rightarrow> bool" where
  "toy_still_backed t s g \<longleftrightarrow>
     g \<in> set (lc_toy_grants (ls_canonical_grants s)) \<and>
     tt_canonical_toy t \<in> set (lc_toy_catalog (ls_canonical_grants s)) \<and>
     ct_authority_bearing (tt_canonical_toy t) \<and> ct_toy_id (tt_canonical_toy t) = tt_toy_id t \<and>
     tg_grant_id g = tt_grant_id t \<and> tg_toy_id g = tt_toy_id t \<and>
     toy_grant_eq g (tt_canonical_grant t) \<and> tg_grant_state g = GS_Active \<and>
     tg_policy_revision g = ls_policy_revision s \<and>
     subject_matches (tg_subject g) (tt_subject t) \<and>
     tt_action t \<in> set (sc_allowed_actions (tg_scope g)) \<and>
     option_matches (sc_resource_id (tg_scope g)) (tt_resource_id t) \<and>
     started (lk_evaluated_at (ls_mother_clock s)) (tk_starts_at (tg_constraints g)) \<and>
     unexpired (lk_evaluated_at (ls_mother_clock s)) (tk_expires_at (tg_constraints g)) \<and>
     tk_max_uses (tg_constraints g) = None"

lemma window_guards [simp]:
  "(case x of None \<Rightarrow> False | Some s \<Rightarrow> now < s) \<longleftrightarrow> \<not> started now x"
  "(case x of None \<Rightarrow> False | Some e \<Rightarrow> e \<le> now) \<longleftrightarrow> \<not> unexpired now x"
  by (auto simp: started_def unexpired_def split: option.split)

lemma toy_admit_currentD:
  assumes "toy_admit_effect_with_snapshot t call s = Inr e"
  shows "\<exists>a. tt_local_execution_authority t = Some a \<and> authority_current a call s \<and>
      tt_call_id t = c_call_id call \<and> icb_matches_call (tt_call_binding t) call"
  using assms unfolding toy_admit_effect_with_snapshot_def
  by (auto simp: result_simps authority_current_def Let_def split: if_split_asm)

lemma toy_admit_backedD:
  assumes "toy_admit_effect_with_snapshot t call s = Inr e"
  shows "ate_authorized e = t \<and> lk_evaluated_at (ls_mother_clock s) < tt_expires_at t \<and>
    (\<exists>g. toy_still_backed t s g)"
proof -
  from assms obtain toy g where
    "List.find (\<lambda>toy. ct_toy_id toy = tt_toy_id t \<and> ct_authority_bearing toy)
       (lc_toy_catalog (ls_canonical_grants s)) = Some toy" "toy = tt_canonical_toy t"
    "List.find (\<lambda>g. tg_grant_id g = tt_grant_id t) (lc_toy_grants (ls_canonical_grants s)) = Some g"
    and rest: "tg_grant_state g = GS_Active" "toy_grant_eq g (tt_canonical_grant t)"
    "tg_toy_id g = tt_toy_id t" "tg_policy_revision g = ls_policy_revision s"
    "subject_matches (tg_subject g) (tt_subject t)"
    "tt_action t \<in> set (sc_allowed_actions (tg_scope g))"
    "option_matches (sc_resource_id (tg_scope g)) (tt_resource_id t)"
    "started (lk_evaluated_at (ls_mother_clock s)) (tk_starts_at (tg_constraints g))"
    "unexpired (lk_evaluated_at (ls_mother_clock s)) (tk_expires_at (tg_constraints g))"
    "tk_max_uses (tg_constraints g) = None" "e = \<lparr>ate_authorized = t\<rparr>"
    "lk_evaluated_at (ls_mother_clock s) < tt_expires_at t"
    unfolding toy_admit_effect_with_snapshot_def
    by (auto simp: result_simps list_ex_iff Let_def split: if_split_asm)
  then show ?thesis
    by (auto simp: toy_still_backed_def dest!: find_SomeD intro!: exI [of _ g])
qed

interpretation toy_effect: effect_admission toy_admit_effect_with_snapshot
  tt_local_execution_authority tt_call_id tt_call_binding
  by unfold_locales (rule toy_admit_currentD)

text \<open>What an allowed evaluation over a snapshot minted, when grant identifiers are unique.\<close>

definition toy_snapshot_token ::
  "MctCall \<Rightarrow> ToyGrantEvaluationRequest \<Rightarrow> LocalExecutionAuthoritySnapshot \<Rightarrow> CanonicalToyContract \<Rightarrow>
   ToyGrant \<Rightarrow> Timestamp \<Rightarrow> AuthorizedToyCall" where
  "toy_snapshot_token call request s toy g expires_at =
     \<lparr>tt_call_binding = icb_capture call,
      tt_authorized_toy_call_id = tid_authorized_toy_call_id (tq_ids request),
      tt_call_id = c_call_id call, tt_evaluation_id = tid_evaluation_id (tq_ids request),
      tt_grant_id = tg_grant_id g, tt_toy_id = tq_toy_id request,
      tt_child_instance_id = tq_child_instance_id request,
      tt_resource_id = tq_resource_id request,
      tt_authority_decision_id = tid_decision_id (tq_ids request),
      tt_expires_at = expires_at, tt_policy_revision = ls_policy_revision s,
      tt_grants_revision = lg_generation (lc_grants_authority (ls_canonical_grants s)),
      tt_local_execution_authority = Some (execution_authority s (c_deadline call)),
      tt_canonical_toy = toy, tt_canonical_grant = g,
      tt_subject = tq_subject request, tt_action = tq_action request,
      tt_node_id = tq_node_id request, tt_vision_id = ci_vision_id (c_caller call),
      tt_project_id = ci_project_id (c_caller call),
      tt_data_classification = pm_data_classification (c_payload_metadata call)\<rparr>"

lemma toy_snapshot_mintedD:
  assumes "tr_authorized (evaluate_toy_grant_for_snapshot J call request s) = Some t"
    and "distinct (map tg_grant_id (lc_toy_grants (ls_canonical_grants s)))"
  obtains toy g expires_at where
    "toy_available request (lc_toy_catalog (ls_canonical_grants s)) toy"
    "g \<in> set (lc_toy_grants (ls_canonical_grants s))"
    "toy_grant_ok (ls_policy_revision s) call request g"
    "toy_token_expiry J call request g = Some expires_at"
    "t = toy_snapshot_token call request s toy g expires_at"
proof -
  let ?grants = "lc_toy_grants (ls_canonical_grants s)"
  let ?catalog = "lc_toy_catalog (ls_canonical_grants s)"
  let ?n = "lg_generation (lc_grants_authority (ls_canonical_grants s))"
  let ?eval = "evaluate_toy_grant_for_route_snapshot call request ?catalog ?grants
    (ls_policy_revision s) ?n"
  have verdict: "te_verdict ?eval = TV_Allowed"
    using assms(1) by (cases "te_verdict ?eval")
      (simp_all add: evaluate_toy_grant_for_snapshot_def Let_def)
  have "\<exists>toy g. toy_available request ?catalog toy \<and>
      List.find (toy_decides (ls_policy_revision s) call request) ?grants = Some g \<and>
      toy_grant_ok (ls_policy_revision s) call request g"
  proof (rule ccontr)
    assume "\<not> ?thesis"
    from trans [OF verdict [symmetric] toy_route_denied_otherwise [OF this]] show False by simp
  qed
  then obtain toy g where toy: "toy_available request ?catalog toy"
    and g: "List.find (toy_decides (ls_policy_revision s) call request) ?grants = Some g"
    and ok: "toy_grant_ok (ls_policy_revision s) call request g"
    by (elim exE conjE)
  from find_SomeD [OF g] have mem: "g \<in> set ?grants" ..
  from toy_route_allowed_eq [OF toy g ok, of ?n]
  have eval: "?eval = toy_route_allow call request (ls_policy_revision s) ?n g" .
  have find_g: "List.find (\<lambda>h. tg_grant_id h = tg_grant_id g) ?grants = Some g"
    by (rule find_map_distinct [OF assms(2) mem])
  have "tr_authorized (evaluate_toy_grant_for_snapshot J call request s) =
      map_option (toy_snapshot_token call request s toy g) (toy_token_expiry J call request g)"
    using toy unfolding evaluate_toy_grant_for_snapshot_def Let_def eval toy_simps
    by (simp add: find_g toy_available_def toy_snapshot_token_def toy_route_allow_def
        split: option.split)
  with assms(1) obtain expires_at where
    "toy_token_expiry J call request g = Some expires_at"
    "t = toy_snapshot_token call request s toy g expires_at"
    by auto
  with that [OF toy mem ok] show ?thesis .
qed

lemma started_mono: "started now x \<Longrightarrow> now \<le> later \<Longrightarrow> started later x"
  by (auto simp: started_def intro: order_trans split: option.splits)

lemma unexpired_below:
  assumes "now < e" and "\<And>x. expiry = Some x \<Longrightarrow> e \<le> x"
  shows "unexpired now expiry"
  using assms by (auto simp: unexpired_def intro: less_le_trans split: option.split)

lemma toy_admit_minted:
  assumes toy: "toy_available request (lc_toy_catalog (ls_canonical_grants s)) toy"
    and g: "g \<in> set (lc_toy_grants (ls_canonical_grants s))"
    and ok: "toy_grant_ok (ls_policy_revision s) call request g"
    and exp: "toy_token_expiry J call request g = Some e"
    and dist: "distinct (map tg_grant_id (lc_toy_grants (ls_canonical_grants s)))"
    and s': "ls_canonical_grants s' = ls_canonical_grants s"
      "ls_policy_revision s' = ls_policy_revision s"
      "ls_vision_policy_revision s' = ls_vision_policy_revision s"
      "ls_executing_mother_node_id s'
         = lg_mother_node_id (lc_grants_authority (ls_canonical_grants s))"
    and now: "tq_now request \<le> lk_evaluated_at (ls_mother_clock s')"
      "lk_evaluated_at (ls_mother_clock s') < e"
    and uses: "tk_max_uses (tg_constraints g) = None"
  shows "is_ok (toy_admit_effect_with_snapshot (toy_snapshot_token call request s toy g e) call s')"
proof -
  let ?t = "toy_snapshot_token call request s toy g e"
  have 1: "List.find (\<lambda>c. ct_toy_id c = tt_toy_id ?t \<and> ct_authority_bearing c)
      (lc_toy_catalog (ls_canonical_grants s)) = Some toy"
    by (rule find_strengthen [where P = "\<lambda>c. ct_toy_id c = tq_toy_id request"])
      (use toy in \<open>auto simp: toy_available_def toy_snapshot_token_def dest: find_SomeD\<close>)
  have 2: "List.find (\<lambda>h. tg_grant_id h = tt_grant_id ?t)
      (lc_toy_grants (ls_canonical_grants s)) = Some g"
    using find_map_distinct [OF dist g] by (simp add: toy_snapshot_token_def)
  have 3: "lk_evaluated_at (ls_mother_clock s') < c_deadline call"
    using now(2) toy_expiry_bounds(1) [OF exp] by (rule less_le_trans)
  have 4: "started (lk_evaluated_at (ls_mother_clock s')) (tk_starts_at (tg_constraints g))"
    "unexpired (lk_evaluated_at (ls_mother_clock s')) (tk_expires_at (tg_constraints g))"
    using ok started_mono [OF _ now(1)] unexpired_below [OF now(2) toy_expiry_bounds(2) [OF exp]]
    by (auto simp: toy_grant_ok_def)
  have 5: "option_matches (sc_project_id (tg_scope g)) (ci_project_id (c_caller call))"
    "option_matches (sc_data_classification (tg_scope g))
       (Some (pm_data_classification (c_payload_metadata call)))"
    using ok data_scope_matches_call by (auto simp: toy_grant_ok_def scope_matches_def)
  have auth: "tt_local_execution_authority ?t = Some (execution_authority s (c_deadline call))"
    by (simp add: toy_snapshot_token_def)
  show ?thesis
    using 1 2 3 4 5 ok uses now(2) s' unfolding toy_admit_effect_with_snapshot_def
    by (simp add: auth ok_or_def result_simps Let_def)
      (simp add: toy_snapshot_token_def execution_authority_def toy_grant_ok_def scope_matches_def
        list_ex_iff)
qed

section \<open>Properties\<close>

definition sample_toy_request :: ToyGrantEvaluationRequest where [sample_defs]:
  "sample_toy_request =
     \<lparr>tq_data_authority = None, tq_toy_id = ''toy'', tq_subject = sample_subject,
      tq_child_instance_id = ''inst'', tq_action = ''read'', tq_resource_id = None,
      tq_node_id = ''mother'', tq_now = sample_time 10,
      tq_ids = \<lparr>tid_evaluation_id = ''ev'', tid_decision_id = ''dec'', tid_observation_id = ''ob'',
                tid_authorized_toy_call_id = ''atc''\<rparr>\<rparr>"

lemma sample_toy_ok: "toy_grant_ok 7 sample_call sample_toy_request sample_grant"
  by (simp add: toy_grant_ok_def subject_matches_def scope_matches_def data_scope_matches_def
      started_def unexpired_def sample_defs)

lemma sample_toy_available: "toy_available sample_toy_request [sample_toy] sample_toy"
  by (simp add: toy_available_def sample_defs)

lemma sample_toy_expiry:
  "toy_token_expiry J sample_call sample_toy_request sample_grant = Some (sample_time 90)"
  by (simp add: toy_token_expiry_def ts_min_def sample_defs)

lemma sample_toy_minted:
  "tr_authorized (evaluate_toy_grant_for_snapshot J sample_call sample_toy_request sample_snapshot) =
   Some (toy_snapshot_token sample_call sample_toy_request sample_snapshot sample_toy sample_grant
     (sample_time 90))"
proof -
  have "evaluate_toy_grant_for_route_snapshot sample_call sample_toy_request [sample_toy]
      [sample_grant] 7 3 = toy_route_allow sample_call sample_toy_request 7 3 sample_grant"
    by (rule toy_route_allowed_eq [OF sample_toy_available])
      (use sample_toy_ok toy_grant_ok_decides in auto)
  then show ?thesis
    using sample_toy_available
    by (simp add: evaluate_toy_grant_for_snapshot_def Let_def toy_simps toy_available_def
        sample_toy_expiry toy_snapshot_token_def toy_route_allow_def)
qed

text \<open>
  A Toy is allowed for a route exactly when the catalog's entry for it bears authority and the
  first grant that decides the request, among those for this Toy and subject, is current, active,
  inside its window and in scope; the evaluation then cites that grant. A stale grant, or an
  active one outside its window, ends the search even if a usable grant follows it.
\<close>

lemma toy_route_allowed_iff:
  "te_verdict (evaluate_toy_grant_for_route_snapshot call request catalog grants v n) = TV_Allowed \<and>
   te_grant_id (evaluate_toy_grant_for_route_snapshot call request catalog grants v n) = Some i \<longleftrightarrow>
   (\<exists>toy g. toy_available request catalog toy \<and> toy_grant_ok v call request g \<and>
      List.find (toy_decides v call request) grants = Some g \<and> tg_grant_id g = i)"
  (is "?allowed \<longleftrightarrow> ?spec")
proof
  assume a: ?allowed
  have "\<exists>toy g. toy_available request catalog toy \<and>
      List.find (toy_decides v call request) grants = Some g \<and> toy_grant_ok v call request g"
  proof (rule ccontr)
    assume "\<not> ?thesis"
    from toy_route_denied_otherwise [OF this, of n] a show False by simp
  qed
  with a show ?spec using toy_route_allowed_eq [where n = n] by (auto simp: toy_simps)
next
  assume ?spec
  then show ?allowed using toy_route_allowed_eq [where n = n] by (auto simp: toy_simps)
qed

text \<open>
  Evaluating a Toy grant from the call's own revisions and from a local snapshot agree: when
  the snapshot has the call's policy revision and unique grant identifiers, the two mint the same
  token, except that the snapshot's token also carries the execution authority and the
  snapshot's grants generation; and one refuses exactly when the other does.
\<close>

lemma toy_snapshot_agrees_with_call:
  assumes rev: "ls_policy_revision s = ac_policy_revision (c_authority_context call)"
    and dist: "distinct (map tg_grant_id (lc_toy_grants (ls_canonical_grants s)))"
  shows "tr_authorized (evaluate_toy_grant_for_snapshot J call request s) =
    map_option (\<lambda>t. t\<lparr>tt_local_execution_authority := Some (execution_authority s (c_deadline call)),
        tt_grants_revision := lg_generation (lc_grants_authority (ls_canonical_grants s))\<rparr>)
      (tr_authorized (evaluate_toy_grant_for_call J call request
        (lc_toy_catalog (ls_canonical_grants s)) (lc_toy_grants (ls_canonical_grants s))))"
proof (cases "\<exists>toy g. toy_available request (lc_toy_catalog (ls_canonical_grants s)) toy \<and>
    List.find (toy_decides (ls_policy_revision s) call request)
      (lc_toy_grants (ls_canonical_grants s)) = Some g \<and>
    toy_grant_ok (ls_policy_revision s) call request g")
  case True
  then obtain toy g where toy: "toy_available request (lc_toy_catalog (ls_canonical_grants s)) toy"
    and g: "List.find (toy_decides (ls_policy_revision s) call request)
      (lc_toy_grants (ls_canonical_grants s)) = Some g"
    and ok: "toy_grant_ok (ls_policy_revision s) call request g" by (elim exE conjE)
  from find_map_distinct [OF dist] find_SomeD [OF g]
  have f: "List.find (\<lambda>h. tg_grant_id h = tg_grant_id g)
      (lc_toy_grants (ls_canonical_grants s)) = Some g" by blast
  have "tg_policy_revision g = ls_policy_revision s" using ok by (simp add: toy_grant_ok_def)
  then show ?thesis
    using toy toy_call_allowed_eq [OF toy g [unfolded rev] ok [unfolded rev], of J]
    unfolding evaluate_toy_grant_for_snapshot_def Let_def toy_route_allowed_eq [OF toy g ok] toy_simps
    by (simp add: f toy_available_def toy_call_allow_def toy_route_allow_def Let_def toy_simps
        split: option.split)
next
  case False
  from toy_route_denied_otherwise [OF False] toy_call_denied_otherwise [OF False [unfolded rev]]
  show ?thesis by (simp add: evaluate_toy_grant_for_snapshot_def Let_def)
qed

lemma toy_snapshot_agrees_with_call_witness:
  "tr_authorized (evaluate_toy_grant_for_snapshot plain_jiff sample_call sample_toy_request sample_snapshot) =
    map_option (\<lambda>t. t\<lparr>tt_local_execution_authority :=
          Some (execution_authority sample_snapshot (c_deadline sample_call)), tt_grants_revision := 3\<rparr>)
      (tr_authorized (evaluate_toy_grant_for_call plain_jiff sample_call sample_toy_request
        [sample_toy] [sample_grant])) \<and>
   tr_authorized (evaluate_toy_grant_for_snapshot plain_jiff sample_call sample_toy_request sample_snapshot) \<noteq> None"
proof
  show "tr_authorized (evaluate_toy_grant_for_snapshot plain_jiff sample_call sample_toy_request sample_snapshot) =
    map_option (\<lambda>t. t\<lparr>tt_local_execution_authority :=
          Some (execution_authority sample_snapshot (c_deadline sample_call)), tt_grants_revision := 3\<rparr>)
      (tr_authorized (evaluate_toy_grant_for_call plain_jiff sample_call sample_toy_request
        [sample_toy] [sample_grant]))"
    using toy_snapshot_agrees_with_call [of sample_snapshot sample_call plain_jiff sample_toy_request]
    by simp
  show "tr_authorized (evaluate_toy_grant_for_snapshot plain_jiff sample_call sample_toy_request
      sample_snapshot) \<noteq> None"
    by (simp add: sample_toy_minted)
qed

text \<open>
  C22: A token minted from a snapshot is honoured: while the grants, catalog, revisions and Mother
  stay the same and the clock does not run back, its effect is admitted exactly until the token
  expires, provided the grant has no usage limit. With a usage limit it is never admitted.
\<close>

theorem toy_minted_admitted_iff:
  assumes minted: "tr_authorized (evaluate_toy_grant_for_snapshot J call request s) = Some t"
    and dist: "distinct (map tg_grant_id (lc_toy_grants (ls_canonical_grants s)))"
    and s': "ls_canonical_grants s' = ls_canonical_grants s"
      "ls_policy_revision s' = ls_policy_revision s"
      "ls_vision_policy_revision s' = ls_vision_policy_revision s"
      "ls_executing_mother_node_id s'
         = lg_mother_node_id (lc_grants_authority (ls_canonical_grants s))"
    and now: "tq_now request \<le> lk_evaluated_at (ls_mother_clock s')"
  shows "is_ok (toy_admit_effect_with_snapshot t call s') \<longleftrightarrow>
    lk_evaluated_at (ls_mother_clock s') < tt_expires_at t \<and>
    tk_max_uses (tg_constraints (tt_canonical_grant t)) = None"
proof -
  obtain toy g e where m: "toy_available request (lc_toy_catalog (ls_canonical_grants s)) toy"
    "g \<in> set (lc_toy_grants (ls_canonical_grants s))"
    "toy_grant_ok (ls_policy_revision s) call request g"
    "toy_token_expiry J call request g = Some e"
    and t: "t = toy_snapshot_token call request s toy g e"
    by (rule toy_snapshot_mintedD [OF minted dist])
  have te: "tt_expires_at t = e" "tt_canonical_grant t = g"
    by (simp_all add: t toy_snapshot_token_def)
  show ?thesis
  proof
    assume "is_ok (toy_admit_effect_with_snapshot t call s')"
    then obtain a where "toy_admit_effect_with_snapshot t call s' = Inr a" by (auto simp: is_ok_iff)
    from toy_admit_backedD [OF this] show "lk_evaluated_at (ls_mother_clock s') < tt_expires_at t \<and>
        tk_max_uses (tg_constraints (tt_canonical_grant t)) = None"
      by (auto simp: toy_still_backed_def toy_grant_eq_def toy_constraints_eq_def)
  next
    assume "lk_evaluated_at (ls_mother_clock s') < tt_expires_at t \<and>
        tk_max_uses (tg_constraints (tt_canonical_grant t)) = None"
    then show "is_ok (toy_admit_effect_with_snapshot t call s')"
      using toy_admit_minted [OF m dist s' now] unfolding te by (simp add: t)
  qed
qed

theorem toy_minted_admitted_iff_witness:
  "is_ok (toy_admit_effect_with_snapshot
     (toy_snapshot_token sample_call sample_toy_request sample_snapshot sample_toy sample_grant (sample_time 90))
     sample_call (sample_snapshot\<lparr>ls_mother_clock :=
       \<lparr>lk_evaluated_at = sample_time 89, lk_provenance = ExecutingMotherClock\<rparr>\<rparr>))"
  by (subst toy_minted_admitted_iff [OF sample_toy_minted [of plain_jiff]])
    (simp_all add: toy_snapshot_token_def sample_defs)

text \<open>
  C10: A Toy effect is admitted only for the exact call of its token, before token expiry and
  deadline, on the same Mother, revisions and grants identity, and while the very grant it was
  minted from is still present, unchanged, active, inside its window, covers the action and
  resource, and has no usage limit.
\<close>

theorem toy_effect_admitted_sound:
  assumes "toy_admit_effect_with_snapshot t call s = Inr e"
  shows "ate_authorized e = t \<and> (\<exists>g. toy_still_backed t s g) \<and>
    lk_evaluated_at (ls_mother_clock s) < tt_expires_at t \<and>
    lk_evaluated_at (ls_mother_clock s) < c_deadline call \<and>
    tt_call_id t = c_call_id call \<and> icb_matches_call (tt_call_binding t) call \<and>
    (\<exists>a. tt_local_execution_authority t = Some a \<and> authority_current a call s)"
  using toy_admit_backedD [OF assms] toy_admit_currentD [OF assms]
    toy_effect.admit_before_deadline [OF assms] by auto

theorem toy_effect_admitted_sound_witness:
  "\<exists>g. toy_still_backed (toy_snapshot_token sample_call sample_toy_request sample_snapshot
     sample_toy sample_grant (sample_time 90)) sample_snapshot g"
proof -
  let ?t = "toy_snapshot_token sample_call sample_toy_request sample_snapshot sample_toy sample_grant
    (sample_time 90)"
  have "is_ok (toy_admit_effect_with_snapshot ?t sample_call sample_snapshot)"
    by (rule toy_admit_minted [where J = plain_jiff])
      (use sample_toy_available sample_toy_ok sample_toy_expiry in \<open>simp_all add: sample_defs\<close>)
  then obtain e where "toy_admit_effect_with_snapshot ?t sample_call sample_snapshot = Inr e"
    by (auto simp: is_ok_iff)
  from toy_effect_admitted_sound [OF this] show ?thesis by blast
qed

end
