(* ===== verification/MCT_Route.thy ===== *)
theory MCT_Route
  imports MCT_Child MCT_Toy
begin

text \<open>
  Routing (\<open>route.rs\<close>): candidates and route decisions, and the revalidation of a selected route
  immediately before execution, from the call's own revisions and from a local snapshot.
\<close>

section \<open>Data\<close>

record CandidateRoute =
  cn_candidate_id :: string
  cn_node_id :: MctNodeId
  cn_child_id :: "ChildId option"
  cn_runtime_kind :: RuntimeKind
  cn_network_path :: NetworkPathClass

datatype CandidateAuthorityOutcome = CA_Admissible | CA_Eliminated

datatype CandidateEliminationReason =
    ER_DataPolicyDenied | ER_VisionPolicyDenied | ER_PeerNotAdmitted | ER_ChildNotApproved
  | ER_ToyGrantMissing | ER_SecretScopeForbidden | ER_PolicyRevisionStale
  | ER_GrantsRevisionStale | ER_RouteMismatch | ER_CapabilityUnavailable

datatype CandidateEliminationClass = EC_Structural | EC_Temporal

fun CandidateEliminationClass_as_str :: "CandidateEliminationClass \<Rightarrow> string" where
  "CandidateEliminationClass_as_str EC_Structural = ''structural''"
| "CandidateEliminationClass_as_str EC_Temporal = ''temporal''"

fun denial_class :: "CandidateEliminationReason \<Rightarrow> CandidateEliminationClass" where
  "denial_class ER_CapabilityUnavailable = EC_Temporal"
| "denial_class ER_DataPolicyDenied = EC_Structural"
| "denial_class ER_VisionPolicyDenied = EC_Structural"
| "denial_class ER_PeerNotAdmitted = EC_Structural"
| "denial_class ER_ChildNotApproved = EC_Structural"
| "denial_class ER_ToyGrantMissing = EC_Structural"
| "denial_class ER_SecretScopeForbidden = EC_Structural"
| "denial_class ER_PolicyRevisionStale = EC_Structural"
| "denial_class ER_GrantsRevisionStale = EC_Structural"
| "denial_class ER_RouteMismatch = EC_Structural"

datatype RouteDecisionKind = RD_Initial | RD_Revalidation

datatype RouteRevalidationReason =
    RR_Revalidated | RR_InitialDecisionNotSelected | RR_CallIdMismatch
  | RR_SelectedRouteNotAdmissible | RR_SelectedChildMismatch | RR_ChildAuthorityDenied
  | RR_ToyGrantDenied | RR_PolicyRevisionStale | RR_GrantsRevisionStale

record CandidateAuthorityEvaluation =
  cae_candidate :: CandidateRoute
  cae_outcome :: CandidateAuthorityOutcome
  cae_reason :: "CandidateEliminationReason option"
  cae_safe_message :: string
  cae_policy_revision :: u64
  cae_grants_revision :: u64

datatype RouteDecisionOutcome = RDO_RouteSelected | RDO_NoRoute

record RouteDecision =
  rd_decision_id :: DecisionId
  rd_call_id :: CallId
  rd_decision_kind :: RouteDecisionKind
  rd_initial_decision_id :: "DecisionId option"
  rd_authority_evaluations :: "CandidateAuthorityEvaluation list"
  rd_selected_route :: "CandidateRoute option"
  rd_outcome :: RouteDecisionOutcome
  rd_no_route_reason :: "CandidateEliminationReason option"
  rd_safe_message :: string
  rd_observation_id :: ObservationId

record RouteDecisionIds =
  rdi_decision_id :: DecisionId
  rdi_observation_id :: ObservationId

record RouteRevalidationIds =
  rri_decision_id :: DecisionId
  rri_observation_id :: ObservationId
  rri_authorized_route_execution_id :: AuthorizedRouteExecutionId

record AuthorizedRouteExecution =
  re_authorized_route_execution_id :: AuthorizedRouteExecutionId
  re_call_id :: CallId
  re_initial_decision_id :: DecisionId
  re_revalidation_decision_id :: DecisionId
  re_route :: CandidateRoute
  re_child_invocation :: AuthorizedChildInvocation
  re_toy_calls :: "AuthorizedToyCall list"
  re_policy_revision :: u64
  re_grants_revision :: u64
  re_local_execution_authority :: "LocalExecutionAuthorityTokenV1 option"

record RouteRevalidationResult =
  rv_decision :: RouteDecision
  rv_reason :: RouteRevalidationReason
  rv_authorized :: "AuthorizedRouteExecution option"

definition route_is_authorized :: "RouteRevalidationResult \<Rightarrow> bool" where
  "route_is_authorized r \<longleftrightarrow> rv_reason r = RR_Revalidated \<and> rv_authorized r \<noteq> None"

section \<open>Decisions\<close>

definition candidate_admissible ::
  "CandidateRoute \<Rightarrow> u64 \<Rightarrow> u64 \<Rightarrow> CandidateAuthorityEvaluation" where
  "candidate_admissible candidate policy_revision grants_revision =
     \<lparr>cae_candidate = candidate, cae_outcome = CA_Admissible, cae_reason = None,
      cae_safe_message = ''admissible'', cae_policy_revision = policy_revision,
      cae_grants_revision = grants_revision\<rparr>"

definition candidate_eliminated ::
  "CandidateRoute \<Rightarrow> CandidateEliminationReason \<Rightarrow> u64 \<Rightarrow> u64 \<Rightarrow> CandidateAuthorityEvaluation" where
  "candidate_eliminated candidate reason policy_revision grants_revision =
     \<lparr>cae_candidate = candidate, cae_outcome = CA_Eliminated, cae_reason = Some reason,
      cae_safe_message = ''not authorized'', cae_policy_revision = policy_revision,
      cae_grants_revision = grants_revision\<rparr>"

definition route_selected ::
  "MctCall \<Rightarrow> CandidateRoute \<Rightarrow> CandidateAuthorityEvaluation list \<Rightarrow> RouteDecisionIds \<Rightarrow>
   RouteDecision" where
  "route_selected call selected_route authority_evaluations ids =
     \<lparr>rd_decision_id = rdi_decision_id ids, rd_call_id = c_call_id call,
      rd_decision_kind = RD_Initial, rd_initial_decision_id = None,
      rd_authority_evaluations = authority_evaluations,
      rd_selected_route = Some selected_route, rd_outcome = RDO_RouteSelected,
      rd_no_route_reason = None, rd_safe_message = ''route selected'',
      rd_observation_id = rdi_observation_id ids\<rparr>"

definition route_no_route ::
  "MctCall \<Rightarrow> CandidateAuthorityEvaluation list \<Rightarrow> CandidateEliminationReason \<Rightarrow> RouteDecisionIds \<Rightarrow>
   RouteDecision" where
  "route_no_route call authority_evaluations no_route_reason ids =
     \<lparr>rd_decision_id = rdi_decision_id ids, rd_call_id = c_call_id call,
      rd_decision_kind = RD_Initial, rd_initial_decision_id = None,
      rd_authority_evaluations = authority_evaluations,
      rd_selected_route = None, rd_outcome = RDO_NoRoute,
      rd_no_route_reason = Some no_route_reason, rd_safe_message = ''not authorized'',
      rd_observation_id = rdi_observation_id ids\<rparr>"

definition is_no_route :: "RouteDecision \<Rightarrow> bool" where
  "is_no_route d \<longleftrightarrow> rd_outcome d = RDO_NoRoute"

definition no_route_denied_result :: "MctCall \<Rightarrow> RouteDecision \<Rightarrow> AuditRef \<Rightarrow> MctResult" where
  "no_route_denied_result call decision audit_ref =
     \<lparr>mr_call_id = c_call_id call, mr_outcome = RO_Denied, mr_route_taken = None,
      mr_authority_decision_ref = rd_decision_id decision,
      mr_execution_summary =
        \<lparr>es_wall_time_ms = 0, es_execution_time_ms = None, es_queue_wait_ms = None,
         es_input_size_bytes = pm_size_bytes (c_payload_metadata call),
         es_output_size_bytes = None\<rparr>,
      mr_result_payload = EmptyPayload, mr_requester_message = rd_safe_message decision,
      mr_audit_ref = audit_ref\<rparr>"

section \<open>Revalidation\<close>

record RouteEvaluationRevisions =
  rer_policy :: u64
  rer_grants :: u64

definition initial_route_admitted_candidate :: "RouteDecision \<Rightarrow> CandidateRoute \<Rightarrow> bool" where
  "initial_route_admitted_candidate initial selected_route \<longleftrightarrow>
     list_ex (\<lambda>evaluation. cae_candidate evaluation = selected_route \<and>
                cae_outcome evaluation = CA_Admissible) (rd_authority_evaluations initial)"

definition revalidation_denied_with_revisions ::
  "MctCall \<Rightarrow> RouteDecision \<Rightarrow> CandidateRoute option \<Rightarrow> RouteRevalidationIds \<Rightarrow>
   RouteRevalidationReason \<Rightarrow> CandidateEliminationReason \<Rightarrow> RouteEvaluationRevisions \<Rightarrow>
   RouteRevalidationResult" where
  "revalidation_denied_with_revisions call initial selected_route ids reason elimination_reason
     revisions =
     \<lparr>rv_decision =
        \<lparr>rd_decision_id = rri_decision_id ids, rd_call_id = c_call_id call,
         rd_decision_kind = RD_Revalidation,
         rd_initial_decision_id = Some (rd_decision_id initial),
         rd_authority_evaluations = (case selected_route of
             None \<Rightarrow> []
           | Some candidate \<Rightarrow> [candidate_eliminated candidate elimination_reason
                                  (rer_policy revisions) (rer_grants revisions)]),
         rd_selected_route = None, rd_outcome = RDO_NoRoute,
         rd_no_route_reason = Some elimination_reason, rd_safe_message = ''not authorized'',
         rd_observation_id = rri_observation_id ids\<rparr>,
      rv_reason = reason, rv_authorized = None\<rparr>"

definition revalidation_denied ::
  "MctCall \<Rightarrow> RouteDecision \<Rightarrow> CandidateRoute option \<Rightarrow> RouteRevalidationIds \<Rightarrow>
   RouteRevalidationReason \<Rightarrow> CandidateEliminationReason \<Rightarrow> RouteRevalidationResult" where
  "revalidation_denied call initial selected_route ids reason elimination_reason =
     revalidation_denied_with_revisions call initial selected_route ids reason elimination_reason
       \<lparr>rer_policy = ac_policy_revision (c_authority_context call),
        rer_grants = ga_generation (ac_expected_receiver_grants_authority
                       (c_authority_context call))\<rparr>"

text \<open>The first Toy that fails, as the reason pair of the early return; otherwise the tokens.\<close>

fun revalidate_toys ::
  "MctCall \<Rightarrow> AuthorizedToyCall list \<Rightarrow> ToyGrantEvaluationResult list \<Rightarrow>
   (RouteRevalidationReason \<times> CandidateEliminationReason) + AuthorizedToyCall list" where
  "revalidate_toys call authorized_toys [] = Inr authorized_toys"
| "revalidate_toys call authorized_toys (toy # toys) =
     (if te_policy_revision (tr_evaluation toy) \<noteq> ac_policy_revision (c_authority_context call)
      then Inl (RR_PolicyRevisionStale, ER_PolicyRevisionStale)
      else if te_call_id (tr_evaluation toy) \<noteq> c_call_id call \<or> \<not> toy_is_allowed toy
      then Inl (RR_ToyGrantDenied, ER_ToyGrantMissing)
      else case tr_authorized toy of
        None \<Rightarrow> Inl (RR_ToyGrantDenied, ER_ToyGrantMissing)
      | Some authorized_toy \<Rightarrow> revalidate_toys call (authorized_toys @ [authorized_toy]) toys)"

text \<open>
  \<open>child.authorized.expect(..)\<close> cannot panic: \<open>is_allowed\<close> has just been checked. The branch is
  written as a denial that no input reaches.
\<close>

definition revalidate_route_for_execution ::
  "MctCall \<Rightarrow> RouteDecision \<Rightarrow> ChildCallAuthorityResult \<Rightarrow> ToyGrantEvaluationResult list \<Rightarrow>
   RouteRevalidationIds \<Rightarrow> RouteRevalidationResult" where
  "revalidate_route_for_execution call initial child toys ids =
     (let policy_revision = ac_policy_revision (c_authority_context call);
          generation = ga_generation (ac_expected_receiver_grants_authority
                         (c_authority_context call));
          deny = revalidation_denied call initial
      in if rd_call_id initial \<noteq> c_call_id call
         then deny None ids RR_CallIdMismatch ER_RouteMismatch
         else case rd_selected_route initial of
           None \<Rightarrow> deny None ids RR_InitialDecisionNotSelected ER_CapabilityUnavailable
         | Some selected_route \<Rightarrow>
           if rd_outcome initial \<noteq> RDO_RouteSelected
              \<or> \<not> initial_route_admitted_candidate initial selected_route
           then deny (Some selected_route) ids RR_SelectedRouteNotAdmissible
                  ER_CapabilityUnavailable
           else if ca_policy_revision (cr_evaluation child) \<noteq> policy_revision
           then deny (Some selected_route) ids RR_PolicyRevisionStale ER_PolicyRevisionStale
           else if ca_call_id (cr_evaluation child) \<noteq> c_call_id call \<or> \<not> child_is_allowed child
           then deny (Some selected_route) ids RR_ChildAuthorityDenied ER_ChildNotApproved
           else case cr_authorized child of
             None \<Rightarrow> deny (Some selected_route) ids RR_ChildAuthorityDenied ER_ChildNotApproved
           | Some child_invocation \<Rightarrow>
             if (case cn_child_id selected_route of
                   None \<Rightarrow> False | Some child_id \<Rightarrow> child_id \<noteq> ai_child_name child_invocation)
             then deny (Some selected_route) ids RR_SelectedChildMismatch ER_RouteMismatch
             else case revalidate_toys call [] toys of
               Inl (reason, elimination) \<Rightarrow> deny (Some selected_route) ids reason elimination
             | Inr authorized_toys \<Rightarrow>
               \<lparr>rv_decision =
                  \<lparr>rd_decision_id = rri_decision_id ids, rd_call_id = c_call_id call,
                   rd_decision_kind = RD_Revalidation,
                   rd_initial_decision_id = Some (rd_decision_id initial),
                   rd_authority_evaluations =
                     [candidate_admissible selected_route policy_revision generation],
                   rd_selected_route = Some selected_route, rd_outcome = RDO_RouteSelected,
                   rd_no_route_reason = None, rd_safe_message = ''route revalidated'',
                   rd_observation_id = rri_observation_id ids\<rparr>,
                rv_reason = RR_Revalidated,
                rv_authorized = Some
                  \<lparr>re_authorized_route_execution_id = rri_authorized_route_execution_id ids,
                   re_call_id = c_call_id call, re_initial_decision_id = rd_decision_id initial,
                   re_revalidation_decision_id = rri_decision_id ids,
                   re_route = selected_route, re_child_invocation = child_invocation,
                   re_toy_calls = authorized_toys, re_policy_revision = policy_revision,
                   re_grants_revision = generation,
                   re_local_execution_authority = None\<rparr>\<rparr>)"

fun revalidate_required_toys ::
  "MctCall \<Rightarrow> u64 \<Rightarrow> u64 \<Rightarrow> ToyGrantEvaluation list \<Rightarrow>
   (RouteRevalidationReason \<times> CandidateEliminationReason) option" where
  "revalidate_required_toys call policy_revision generation [] = None"
| "revalidate_required_toys call policy_revision generation (toy # toys) =
     (if te_policy_revision toy \<noteq> policy_revision
      then Some (RR_PolicyRevisionStale, ER_PolicyRevisionStale)
      else if te_grants_revision toy \<noteq> generation
      then Some (RR_GrantsRevisionStale, ER_GrantsRevisionStale)
      else if te_call_id toy \<noteq> c_call_id call \<or> te_verdict toy \<noteq> TV_Allowed
      then Some (RR_ToyGrantDenied, ER_ToyGrantMissing)
      else revalidate_required_toys call policy_revision generation toys)"

definition revalidate_route_for_execution_with_snapshot ::
  "MctCall \<Rightarrow> RouteDecision \<Rightarrow> ChildCallAuthorityResult \<Rightarrow> ToyGrantEvaluation list \<Rightarrow>
   LocalExecutionAuthoritySnapshot \<Rightarrow> RouteRevalidationIds \<Rightarrow> RouteRevalidationResult" where
  "revalidate_route_for_execution_with_snapshot call initial child required_toys snapshot ids =
     (let policy_revision = ls_policy_revision snapshot;
          generation = lg_generation (lc_grants_authority (ls_canonical_grants snapshot));
          deny = (\<lambda>route reason elimination.
            revalidation_denied_with_revisions call initial route ids reason elimination
              \<lparr>rer_policy = policy_revision, rer_grants = generation\<rparr>)
      in if rd_call_id initial \<noteq> c_call_id call
         then deny None RR_CallIdMismatch ER_RouteMismatch
         else case rd_selected_route initial of
           None \<Rightarrow> deny None RR_InitialDecisionNotSelected ER_CapabilityUnavailable
         | Some selected_route \<Rightarrow>
           if rd_outcome initial \<noteq> RDO_RouteSelected
              \<or> \<not> initial_route_admitted_candidate initial selected_route
           then deny (Some selected_route) RR_SelectedRouteNotAdmissible ER_CapabilityUnavailable
           else if ca_policy_revision (cr_evaluation child) \<noteq> policy_revision
           then deny (Some selected_route) RR_PolicyRevisionStale ER_PolicyRevisionStale
           else if ca_call_id (cr_evaluation child) \<noteq> c_call_id call \<or> \<not> child_is_allowed child
           then deny (Some selected_route) RR_ChildAuthorityDenied ER_ChildNotApproved
           else case cr_authorized child of
             None \<Rightarrow> deny (Some selected_route) RR_ChildAuthorityDenied ER_ChildNotApproved
           | Some child_invocation \<Rightarrow>
             if (case cn_child_id selected_route of
                   None \<Rightarrow> False | Some child_id \<Rightarrow> child_id \<noteq> ai_child_name child_invocation)
             then deny (Some selected_route) RR_SelectedChildMismatch ER_RouteMismatch
             else case revalidate_required_toys call policy_revision generation required_toys of
               Some (reason, elimination) \<Rightarrow> deny (Some selected_route) reason elimination
             | None \<Rightarrow>
               (let authority = execution_authority snapshot (c_deadline call);
                    child_invocation =
                      child_bind_local_execution_authority child_invocation authority
                in \<lparr>rv_decision =
                      \<lparr>rd_decision_id = rri_decision_id ids, rd_call_id = c_call_id call,
                       rd_decision_kind = RD_Revalidation,
                       rd_initial_decision_id = Some (rd_decision_id initial),
                       rd_authority_evaluations =
                         [candidate_admissible selected_route policy_revision generation],
                       rd_selected_route = Some selected_route, rd_outcome = RDO_RouteSelected,
                       rd_no_route_reason = None, rd_safe_message = ''route revalidated'',
                       rd_observation_id = rri_observation_id ids\<rparr>,
                    rv_reason = RR_Revalidated,
                    rv_authorized = Some
                      \<lparr>re_authorized_route_execution_id = rri_authorized_route_execution_id ids,
                       re_call_id = c_call_id call,
                       re_initial_decision_id = rd_decision_id initial,
                       re_revalidation_decision_id = rri_decision_id ids,
                       re_route = selected_route, re_child_invocation = child_invocation,
                       re_toy_calls = [], re_policy_revision = policy_revision,
                       re_grants_revision = generation,
                       re_local_execution_authority = Some authority\<rparr>\<rparr>))"

section \<open>Facts\<close>

lemma revalidation_denied_projections:
  "\<not> route_is_authorized (revalidation_denied_with_revisions call initial route ids r e v)"
  "rv_authorized (revalidation_denied_with_revisions call initial route ids r e v) = None"
  "is_no_route (rv_decision (revalidation_denied_with_revisions call initial route ids r e v))"
  "rd_selected_route (rv_decision (revalidation_denied_with_revisions call initial route ids r e v)) = None"
  by (simp_all add: revalidation_denied_with_revisions_def route_is_authorized_def is_no_route_def)

lemma revalidate_required_toys_None:
  "revalidate_required_toys call v n toys = None \<longleftrightarrow>
   (\<forall>toy \<in> set toys. te_policy_revision toy = v \<and> te_grants_revision toy = n \<and>
      te_call_id toy = c_call_id call \<and> te_verdict toy = TV_Allowed)"
  by (induction toys) auto

lemma revalidate_toys_Inr:
  "revalidate_toys call acc toys = Inr tokens \<longleftrightarrow>
   tokens = acc @ map (the \<circ> tr_authorized) toys \<and>
   (\<forall>toy \<in> set toys. te_policy_revision (tr_evaluation toy) = ac_policy_revision (c_authority_context call) \<and>
      te_call_id (tr_evaluation toy) = c_call_id call \<and> toy_is_allowed toy)"
  by (induction toys arbitrary: acc) (auto simp: toy_is_allowed_def split: option.split)

text \<open>
  What both revalidations require of the initial decision and the Child result: the same call, a
  selected and admissible route, and an allowed Child of the route's name at the revision.
\<close>

definition route_child_ok ::
  "MctCall \<Rightarrow> RouteDecision \<Rightarrow> ChildCallAuthorityResult \<Rightarrow> u64 \<Rightarrow> CandidateRoute \<Rightarrow>
   AuthorizedChildInvocation \<Rightarrow> bool" where
  "route_child_ok call initial child v route token \<longleftrightarrow>
     rd_call_id initial = c_call_id call \<and> rd_selected_route initial = Some route \<and>
     rd_outcome initial = RDO_RouteSelected \<and>
     (\<exists>e \<in> set (rd_authority_evaluations initial).
        cae_candidate e = route \<and> cae_outcome e = CA_Admissible) \<and>
     ca_policy_revision (cr_evaluation child) = v \<and>
     ca_call_id (cr_evaluation child) = c_call_id call \<and>
     ca_verdict (cr_evaluation child) = CV_Allowed \<and> cr_authorized child = Some token \<and>
     option_matches (cn_child_id route) (Some (ai_child_name token))"

lemmas revalidate_defs = revalidate_route_for_execution_def
  revalidate_route_for_execution_with_snapshot_def revalidation_denied_def
  initial_route_admitted_candidate_def child_is_allowed_def Let_def list_ex_iff

lemma route_snapshot_authorized_eq:
  assumes "route_child_ok call initial child (ls_policy_revision s) route token"
    and "revalidate_required_toys call (ls_policy_revision s)
      (lg_generation (lc_grants_authority (ls_canonical_grants s))) toys = None"
  shows "route_is_authorized (revalidate_route_for_execution_with_snapshot call initial child toys s ids) \<and>
    rv_authorized (revalidate_route_for_execution_with_snapshot call initial child toys s ids) =
      Some \<lparr>re_authorized_route_execution_id = rri_authorized_route_execution_id ids,
        re_call_id = c_call_id call, re_initial_decision_id = rd_decision_id initial,
        re_revalidation_decision_id = rri_decision_id ids, re_route = route,
        re_child_invocation = child_bind_local_execution_authority token
          (execution_authority s (c_deadline call)),
        re_toy_calls = [], re_policy_revision = ls_policy_revision s,
        re_grants_revision = lg_generation (lc_grants_authority (ls_canonical_grants s)),
        re_local_execution_authority = Some (execution_authority s (c_deadline call))\<rparr>"
  using assms by (simp add: route_child_ok_def revalidate_defs route_is_authorized_def)

lemma route_snapshot_refused:
  assumes "\<not> (\<exists>route token. route_child_ok call initial child (ls_policy_revision s) route token \<and>
      revalidate_required_toys call (ls_policy_revision s)
        (lg_generation (lc_grants_authority (ls_canonical_grants s))) toys = None)"
  shows "\<exists>route r e v. revalidate_route_for_execution_with_snapshot call initial child toys s ids
    = revalidation_denied_with_revisions call initial route ids r e v"
proof -
  define refused where "refused x \<longleftrightarrow> (\<exists>route r e v. x =
    revalidation_denied_with_revisions call initial route ids r e v)" for x
  have [simp]: "refused (revalidation_denied_with_revisions call initial route ids r e v)" for route r e v
    by (auto simp: refused_def)
  have "refused (revalidate_route_for_execution_with_snapshot call initial child toys s ids)"
  proof (rule ccontr)
    assume n: "\<not> refused (revalidate_route_for_execution_with_snapshot call initial child toys s ids)"
    have "\<exists>route token. route_child_ok call initial child (ls_policy_revision s) route token \<and>
      revalidate_required_toys call (ls_policy_revision s)
        (lg_generation (lc_grants_authority (ls_canonical_grants s))) toys = None"
      using n [unfolded revalidate_route_for_execution_with_snapshot_def Let_def]
      by (auto simp: route_child_ok_def initial_route_admitted_candidate_def child_is_allowed_def
            list_ex_iff option_matches_def split: if_split_asm option.split_asm)
    with assms show False by blast
  qed
  then show ?thesis by (simp add: refused_def)
qed

section \<open>Properties\<close>

text \<open>
  C23: Revalidation against a snapshot authorizes execution exactly when the initial decision is
  for this call and selected a route it had found admissible, the Child result allows this call
  at the snapshot's policy revision under the route's Child name, and every required Toy was
  allowed for this call at the snapshot's policy revision and grants generation. Otherwise the
  decision is no-route and carries no token.
\<close>

theorem route_snapshot_authorized_iff:
  "let n = lg_generation (lc_grants_authority (ls_canonical_grants s));
       result = revalidate_route_for_execution_with_snapshot call initial child toys s ids
   in (route_is_authorized result \<longleftrightarrow>
        (\<exists>route token. route_child_ok call initial child (ls_policy_revision s) route token) \<and>
        list_all (\<lambda>toy. te_policy_revision toy = ls_policy_revision s \<and> te_grants_revision toy = n \<and>
           te_call_id toy = c_call_id call \<and> te_verdict toy = TV_Allowed) toys) \<and>
      (route_is_authorized result \<or>
        rv_authorized result = None \<and> is_no_route (rv_decision result) \<and>
        rd_selected_route (rv_decision result) = None)"
proof -
  let ?n = "lg_generation (lc_grants_authority (ls_canonical_grants s))"
  let ?result = "revalidate_route_for_execution_with_snapshot call initial child toys s ids"
  have toys: "list_all (\<lambda>toy. te_policy_revision toy = ls_policy_revision s \<and>
      te_grants_revision toy = ?n \<and> te_call_id toy = c_call_id call \<and> te_verdict toy = TV_Allowed) toys
      \<longleftrightarrow> revalidate_required_toys call (ls_policy_revision s) ?n toys = None"
    by (simp add: revalidate_required_toys_None list_all_iff)
  show ?thesis
  proof (cases "\<exists>route token. route_child_ok call initial child (ls_policy_revision s) route token \<and>
      revalidate_required_toys call (ls_policy_revision s) ?n toys = None")
    case True
    then obtain route token where *: "route_child_ok call initial child (ls_policy_revision s) route token"
      "revalidate_required_toys call (ls_policy_revision s) ?n toys = None" by (elim exE conjE)
    from route_snapshot_authorized_eq [OF *, of ids] have "route_is_authorized ?result" ..
    with * show ?thesis unfolding Let_def toys by blast
  next
    case False
    from route_snapshot_refused [OF False, of ids] obtain route r e v where
      "?result = revalidation_denied_with_revisions call initial route ids r e v" by (elim exE)
    then have "\<not> route_is_authorized ?result" "rv_authorized ?result = None"
      "is_no_route (rv_decision ?result)" "rd_selected_route (rv_decision ?result) = None"
      by (simp_all add: revalidation_denied_projections)
    with False show ?thesis unfolding Let_def toys by blast
  qed
qed

end
