(* ===== verification/MCT_Crypto.thy ===== *)
theory MCT_Crypto
  imports MCT_Base
begin

text \<open>
  The cryptographic and encoding crates the sources call: \<open>ed25519-dalek\<close>,
  \<open>libcrux-ml-dsa\<close>, \<open>p256\<close>, \<open>const-hex\<close>, \<open>base64\<close>, \<open>blake3\<close>, \<open>sha2\<close>. They are one
  parameter, a record of the operations called; the predicates below name what a theorem
  relies on. A key is its encoded bytes.
\<close>

record Crypto =
  cy_ed_point :: "string \<Rightarrow> string option"
  cy_ed_is_weak :: "string \<Rightarrow> bool"
  cy_ed_verify :: "string \<Rightarrow> string \<Rightarrow> string \<Rightarrow> bool"
  cy_ed_verify_strict :: "string \<Rightarrow> string \<Rightarrow> string \<Rightarrow> bool"
  cy_ed_public :: "string \<Rightarrow> string"
  cy_ed_sign :: "string \<Rightarrow> string \<Rightarrow> string"
  cy_pq_public :: "string \<Rightarrow> string"
  cy_pq_sign :: "string \<Rightarrow> string \<Rightarrow> string \<Rightarrow> string"
  cy_pq_verify :: "string \<Rightarrow> string \<Rightarrow> string \<Rightarrow> string \<Rightarrow> bool"
  cy_p256_key :: "string \<Rightarrow> bool"
  cy_p256_der :: "string \<Rightarrow> bool"
  cy_p256_verify :: "string \<Rightarrow> string \<Rightarrow> string \<Rightarrow> bool"
  cy_hex_encode :: "string \<Rightarrow> string"
  cy_hex_decode :: "string \<Rightarrow> string option"
  cy_b64_encode :: "string \<Rightarrow> string"
  cy_b64_decode :: "string \<Rightarrow> string option"
  cy_blake3 :: "string \<Rightarrow> string"
  cy_blake3_hex :: "string \<Rightarrow> string"
  cy_sha256 :: "string \<Rightarrow> string"

text \<open>
  \<open>cy_ed_point b\<close> is \<open>VerifyingKey::from_bytes\<close> followed by \<open>to_edwards().compress()\<close>: the
  canonical encoding of the point \<open>b\<close> denotes, if it denotes one. A seed stands for the
  signing key made from it.

  What the documentation of these crates promises: signing makes signatures of the stated
  size that the public key of the same seed verifies, public keys are canonical points, and
  hexadecimal text decodes to what was encoded and never starts with the prefix \<open>0x\<close> unless
  the caller asked for it.
\<close>

definition ed25519_signs :: "Crypto \<Rightarrow> bool" where
  "ed25519_signs C \<longleftrightarrow>
     (\<forall>seed msg. length (cy_ed_sign C seed msg) = 64 \<and>
        cy_ed_point C (cy_ed_public C seed) = Some (cy_ed_public C seed) \<and>
        length (cy_ed_public C seed) = 32 \<and>
        cy_ed_verify C (cy_ed_public C seed) msg (cy_ed_sign C seed msg))"

definition ml_dsa65_signs :: "Crypto \<Rightarrow> bool" where
  "ml_dsa65_signs C \<longleftrightarrow>
     (\<forall>seed msg ctx. length (cy_pq_sign C seed msg ctx) = 3309 \<and>
        length (cy_pq_public C seed) = 1952 \<and>
        cy_pq_verify C (cy_pq_public C seed) msg ctx (cy_pq_sign C seed msg ctx))"

definition hex_alphabet :: string where
  "hex_alphabet = ''0123456789abcdef''"

definition hex_roundtrip :: "Crypto \<Rightarrow> bool" where
  "hex_roundtrip C \<longleftrightarrow>
     (\<forall>b. cy_hex_decode C (cy_hex_encode C b) = Some b \<and>
        length (cy_hex_encode C b) = 2 * length b \<and>
        set (cy_hex_encode C b) \<subseteq> set hex_alphabet)"

text \<open>
  \<open>cy_blake3 b\<close> is \<open>blake3::hash(b)\<close> as bytes and \<open>cy_blake3_hex b\<close> the text \<open>to_hex()\<close>
  prints for it. A digest of fixed size has collisions; theorems that rely on collision
  resistance assume it of the two inputs they compare, and of no others.
\<close>

definition blake3_separates :: "Crypto \<Rightarrow> string \<Rightarrow> string \<Rightarrow> bool" where
  "blake3_separates C a b \<longleftrightarrow> (cy_blake3_hex C a = cy_blake3_hex C b \<longrightarrow> a = b)"

section \<open>Signed hexadecimal: the routine of admin\_key.rs\<close>

text \<open>
  \<open>hex_encode\<close>, \<open>hex_nibble\<close> and \<open>hex_decode_32\<close> of \<open>admin_key.rs\<close>, which do not use the
  crate. The table \<open>HEX\<close> and the byte arithmetic are written out; the error text is the
  constant \<open>NOT_ED25519_PUBLIC_KEY\<close>.
\<close>

definition NOT_ED25519_PUBLIC_KEY :: string where
  "NOT_ED25519_PUBLIC_KEY = ''admin key public half must be an Ed25519 verifying key''"

definition hex_digit :: "nat \<Rightarrow> char" where
  "hex_digit d = hex_alphabet ! d"

definition hex_encode :: "string \<Rightarrow> string" where
  "hex_encode bytes =
     concat (map (\<lambda>b. [hex_digit (of_char b div 16), hex_digit (of_char b mod 16)]) bytes)"

definition hex_nibble :: "char \<Rightarrow> string + nat" where
  "hex_nibble c =
     (let b = (of_char c :: nat) in
      if 48 \<le> b \<and> b \<le> 57 then Inr (b - 48)
      else if 97 \<le> b \<and> b \<le> 102 then Inr (b - 97 + 10)
      else if 65 \<le> b \<and> b \<le> 70 then Inr (b - 65 + 10)
      else Inl NOT_ED25519_PUBLIC_KEY)"

fun hex_pairs :: "string \<Rightarrow> string + string" where
  "hex_pairs (h # l # rest) =
     and_then (hex_nibble h) (\<lambda>high. and_then (hex_nibble l) (\<lambda>low.
       and_then (hex_pairs rest) (\<lambda>bytes. Inr (char_of (high * 16 + low) # bytes))))"
| "hex_pairs _ = Inr []"

definition hex_decode_32 :: "string \<Rightarrow> string + string" where
  "hex_decode_32 val =
     (if length val \<noteq> 64 then Inl NOT_ED25519_PUBLIC_KEY else hex_pairs val)"

lemma hex_nibble_digit: "d < 16 \<Longrightarrow> hex_nibble (hex_digit d) = Inr d"
proof -
  assume "d < 16"
  then have "d \<in> set [0 ..< 16]" by simp
  then show ?thesis by (auto simp: upt_rec hex_digit_def hex_nibble_def hex_alphabet_def)
qed

lemma of_char_lt_256: "(of_char c :: nat) < 256"
  using of_char_mod_256 [of c, where 'a = nat] by (metis mod_less_divisor zero_less_numeral)

lemma of_char_high_nibble: "(of_char c :: nat) div 16 < 16"
  by (rule less_mult_imp_div_less) (use of_char_lt_256 [of c] in simp)

lemma hex_pairs_encode: "hex_pairs (hex_encode bytes) = Inr bytes"
proof (induction bytes)
  case (Cons b bs)
  have d: "hex_nibble (hex_digit (of_char b div 16)) = Inr (of_char b div 16)"
    "hex_nibble (hex_digit (of_char b mod 16)) = Inr (of_char b mod 16)"
    by (simp_all add: hex_nibble_digit of_char_high_nibble)
  have "hex_encode (b # bs) =
      hex_digit (of_char b div 16) # hex_digit (of_char b mod 16) # hex_encode bs"
    by (simp add: hex_encode_def)
  with d Cons show ?case by (simp add: and_then_Inr)
qed (simp add: hex_encode_def)

lemma length_hex_encode [simp]: "length (hex_encode bytes) = 2 * length bytes"
  by (induction bytes) (simp_all add: hex_encode_def)

lemma hex_digit_visible: "d < 16 \<Longrightarrow> hex_digit d \<in> set hex_alphabet"
  unfolding hex_digit_def by (rule nth_mem) (simp add: hex_alphabet_def)

lemma set_hex_encode: "set (hex_encode bytes) \<subseteq> set hex_alphabet"
proof -
  have "hex_digit (of_char b div 16) \<in> set hex_alphabet"
    "hex_digit (of_char b mod 16) \<in> set hex_alphabet" for b
    by (simp_all only: hex_digit_visible of_char_high_nibble mod_less_divisor zero_less_numeral)
  then show ?thesis by (auto simp: hex_encode_def)
qed

lemma hex_decode_32_encode: "length bytes = 32 \<Longrightarrow> hex_decode_32 (hex_encode bytes) = Inr bytes"
  by (simp add: hex_decode_32_def hex_pairs_encode)

lemma hex_pairs_length: "hex_pairs s = Inr bytes \<Longrightarrow> length bytes = length s div 2"
  by (induction s arbitrary: bytes rule: hex_pairs.induct) (auto simp: result_simps)

lemma hex_decode_32_length: "hex_decode_32 s = Inr bytes \<Longrightarrow> length bytes = 32"
  by (auto simp: hex_decode_32_def dest: hex_pairs_length split: if_splits)

section \<open>A concrete instance\<close>

text \<open>
  An instance that satisfies the named predicates: a signature repeats a byte of the
  message length, a key is a padded seed, digests are the identity. It shows that the
  predicates can hold together and instantiates the parameter in examples.
\<close>

definition plain_ed_public :: "string \<Rightarrow> string" where
  "plain_ed_public seed = take 32 (seed @ replicate 32 (CHR ''k''))"

definition plain_hex_decode :: "string \<Rightarrow> string option" where
  "plain_hex_decode s = (case hex_pairs s of Inl _ \<Rightarrow> None | Inr b \<Rightarrow> Some b)"

definition plain_crypto :: Crypto where
  "plain_crypto =
     \<lparr>cy_ed_point = (\<lambda>b. if length b = 32 then Some b else None),
      cy_ed_is_weak = (\<lambda>b. take 1 b = [CHR 0x00]),
      cy_ed_verify = (\<lambda>k m s. s = take 64 (k @ k)),
      cy_ed_verify_strict = (\<lambda>k m s. s = take 64 (k @ k)),
      cy_ed_public = plain_ed_public,
      cy_ed_sign = (\<lambda>seed m. plain_ed_public seed @ plain_ed_public seed),
      cy_pq_public = (\<lambda>seed. replicate 1952 (CHR ''p'')),
      cy_pq_sign = (\<lambda>seed m c. replicate 3309 (CHR ''q'')),
      cy_pq_verify = (\<lambda>k m c s. s = replicate 3309 (CHR ''q'')),
      cy_p256_key = (\<lambda>k. length k = 65),
      cy_p256_der = (\<lambda>s. s \<noteq> []),
      cy_p256_verify = (\<lambda>k m s. s = take 8 k),
      cy_hex_encode = hex_encode,
      cy_hex_decode = plain_hex_decode,
      cy_b64_encode = id,
      cy_b64_decode = Some,
      cy_blake3 = id,
      cy_blake3_hex = hex_encode,
      cy_sha256 = id\<rparr>"

lemma length_plain_ed_public [simp]: "length (plain_ed_public seed) = 32"
  by (simp add: plain_ed_public_def min_def)

lemma plain_crypto_signs: "ed25519_signs plain_crypto" "ml_dsa65_signs plain_crypto"
  by (simp_all add: ed25519_signs_def ml_dsa65_signs_def plain_crypto_def)

lemma plain_crypto_hex: "hex_roundtrip plain_crypto"
  using set_hex_encode
  by (simp add: hex_roundtrip_def plain_crypto_def plain_hex_decode_def hex_pairs_encode)

lemma hex_encode_inj: "hex_encode a = hex_encode b \<Longrightarrow> a = b"
  by (metis hex_pairs_encode sum.inject(2))

lemma plain_blake3_hex: "cy_blake3_hex plain_crypto = hex_encode"
  by (simp add: plain_crypto_def)

lemma plain_crypto_separates: "blake3_separates plain_crypto a b"
  unfolding blake3_separates_def plain_blake3_hex using hex_encode_inj by blast

end
