(* ===== verification/MCT_Admin_Key.thy ===== *)
theory MCT_Admin_Key
  imports MCT_Toy MCT_Crypto
begin

text \<open>
  Admin-key grants: route scopes, public halves, the shape of a grant, the grant check for
  routes and revocations (\<open>admin_key.rs\<close>), issuance under a ceiling (\<open>admin_issuance.rs\<close>)
  and the dispatch between Toy and admin-key subjects (\<open>grant_check.rs\<close>).
\<close>

named_theorems admin_simps \<open>admin-key checks as predicates\<close>

section \<open>Scopes\<close>

datatype AdminKeyScopeV1 =
    ApproveChild | ArtifactScope | AuthorityImport | AuthorizeSecret | AuthorizeSlate | BlobScope
  | KeyManage | LifecycleScope | PandoRecord | PeerAdd | PeerProof | PeerRemove | PeerRevoke
  | RegistryScope | RevokeChild | StartupGate | StatusScope | TriggerScope | WatchGrantScope
  | WatchRevokeScope

fun action_name :: "AdminKeyScopeV1 \<Rightarrow> string" where
  "action_name ApproveChild = ''approve_child''"
| "action_name ArtifactScope = ''artifact''"
| "action_name AuthorityImport = ''authority_import''"
| "action_name AuthorizeSecret = ''authorize_secret''"
| "action_name AuthorizeSlate = ''authorize_slate''"
| "action_name BlobScope = ''blob''"
| "action_name KeyManage = ''key_manage''"
| "action_name LifecycleScope = ''lifecycle''"
| "action_name PandoRecord = ''pando_record''"
| "action_name PeerAdd = ''peer_add''"
| "action_name PeerProof = ''peer_proof''"
| "action_name PeerRemove = ''peer_remove''"
| "action_name PeerRevoke = ''peer_revoke''"
| "action_name RegistryScope = ''registry''"
| "action_name RevokeChild = ''revoke_child''"
| "action_name StartupGate = ''startup_gate''"
| "action_name StatusScope = ''status''"
| "action_name TriggerScope = ''trigger''"
| "action_name WatchGrantScope = ''watch_grant''"
| "action_name WatchRevokeScope = ''watch_revoke''"

text \<open>The derived order is the order of declaration.\<close>

definition all_scopes :: "AdminKeyScopeV1 list" where
  "all_scopes =
     [ApproveChild, ArtifactScope, AuthorityImport, AuthorizeSecret, AuthorizeSlate, BlobScope,
      KeyManage, LifecycleScope, PandoRecord, PeerAdd, PeerProof, PeerRemove, PeerRevoke,
      RegistryScope, RevokeChild, StartupGate, StatusScope, TriggerScope, WatchGrantScope,
      WatchRevokeScope]"

fun scope_rank :: "AdminKeyScopeV1 \<Rightarrow> nat" where
  "scope_rank ApproveChild = 0" | "scope_rank ArtifactScope = 1"
| "scope_rank AuthorityImport = 2" | "scope_rank AuthorizeSecret = 3"
| "scope_rank AuthorizeSlate = 4" | "scope_rank BlobScope = 5"
| "scope_rank KeyManage = 6" | "scope_rank LifecycleScope = 7"
| "scope_rank PandoRecord = 8" | "scope_rank PeerAdd = 9"
| "scope_rank PeerProof = 10" | "scope_rank PeerRemove = 11"
| "scope_rank PeerRevoke = 12" | "scope_rank RegistryScope = 13"
| "scope_rank RevokeChild = 14" | "scope_rank StartupGate = 15"
| "scope_rank StatusScope = 16" | "scope_rank TriggerScope = 17"
| "scope_rank WatchGrantScope = 18" | "scope_rank WatchRevokeScope = 19"

lemma all_scopes_rank: "all_scopes ! scope_rank s = s"
  by (cases s) (simp_all add: all_scopes_def)

lemma scope_rank_inj: "scope_rank a = scope_rank b \<Longrightarrow> a = b"
  using all_scopes_rank by metis

instantiation AdminKeyScopeV1 :: linorder
begin

definition less_eq_AdminKeyScopeV1 :: "AdminKeyScopeV1 \<Rightarrow> AdminKeyScopeV1 \<Rightarrow> bool" where
  "less_eq_AdminKeyScopeV1 a b \<longleftrightarrow> scope_rank a \<le> scope_rank b"

definition less_AdminKeyScopeV1 :: "AdminKeyScopeV1 \<Rightarrow> AdminKeyScopeV1 \<Rightarrow> bool" where
  "less_AdminKeyScopeV1 a b \<longleftrightarrow> scope_rank a < scope_rank b"

instance
  by standard (auto simp: less_eq_AdminKeyScopeV1_def less_AdminKeyScopeV1_def dest: scope_rank_inj)

end

definition recovery_grant_scopes :: "AdminKeyScopeV1 list" where
  "recovery_grant_scopes = [KeyManage, StartupGate]"

section \<open>Public halves\<close>

type_synonym Ed25519VerifyingKey = string
type_synonym MlDsa65PublicKey = string

datatype AdminKeySchemeV1 = AKS_Ed25519

datatype AdminKeyPublicHalf = APH_Ed25519 Ed25519VerifyingKey

definition ed25519_from_bytes :: "Crypto \<Rightarrow> string \<Rightarrow> string + AdminKeyPublicHalf" where
  "ed25519_from_bytes C bytes =
     and_then (ok_or (cy_ed_point C bytes) NOT_ED25519_PUBLIC_KEY) (\<lambda>canonical.
     and_then (ensure (canonical = bytes) NOT_ED25519_PUBLIC_KEY) (\<lambda>_.
     Inr (APH_Ed25519 bytes)))"

definition ed25519_from_hex :: "Crypto \<Rightarrow> string \<Rightarrow> string + AdminKeyPublicHalf" where
  "ed25519_from_hex C hex = and_then (hex_decode_32 hex) (ed25519_from_bytes C)"

fun public_half_scheme :: "AdminKeyPublicHalf \<Rightarrow> AdminKeySchemeV1" where
  "public_half_scheme (APH_Ed25519 _) = AKS_Ed25519"

fun to_ed25519_bytes :: "AdminKeyPublicHalf \<Rightarrow> string" where
  "to_ed25519_bytes (APH_Ed25519 key) = key"

definition public_half_to_hex :: "AdminKeyPublicHalf \<Rightarrow> string" where
  "public_half_to_hex half = hex_encode (to_ed25519_bytes half)"

record AdminKeyPublicHalf_Wire =
  aw_scheme :: string
  aw_public_key :: string

definition public_half_serialize :: "AdminKeyPublicHalf \<Rightarrow> AdminKeyPublicHalf_Wire" where
  "public_half_serialize half =
     \<lparr>aw_scheme = ''ed25519'', aw_public_key = public_half_to_hex half\<rparr>"

definition public_half_deserialize ::
  "Crypto \<Rightarrow> AdminKeyPublicHalf_Wire \<Rightarrow> string + AdminKeyPublicHalf" where
  "public_half_deserialize C wire =
     (if aw_scheme wire \<noteq> ''ed25519''
      then Inl ''admin key public half scheme is not ed25519''
      else ed25519_from_hex C (aw_public_key wire))"

definition admin_key_public_half_error :: "Crypto \<Rightarrow> string \<Rightarrow> string option" where
  "admin_key_public_half_error C hex =
     (case ed25519_from_hex C hex of Inl e \<Rightarrow> Some e | Inr _ \<Rightarrow> None)"

section \<open>Grants\<close>

datatype AdminKeyGrantClassV1 = DayToDay | Recovery

datatype AdminKeyGrantStateV1 = AGS_Active | AGS_Revoked

record AdminIssuanceCeilingV1 =
  ic_scopes :: "AdminKeyScopeV1 list"

definition ceiling_is_canonical :: "AdminIssuanceCeilingV1 \<Rightarrow> bool" where
  "ceiling_is_canonical c \<longleftrightarrow> StartupGate \<notin> set (ic_scopes c) \<and> successively (<) (ic_scopes c)"

record AdminKeyGrantV1 =
  ag_grant_id :: string
  ag_public_half :: AdminKeyPublicHalf
  ag_ml_dsa65_public_key :: "MlDsa65PublicKey option"
  ag_class :: AdminKeyGrantClassV1
  ag_scopes :: "AdminKeyScopeV1 list"
  ag_expires_at :: "Timestamp option"
  ag_grant_state :: AdminKeyGrantStateV1
  ag_issuance_ceiling :: "AdminIssuanceCeilingV1 option"

definition non_empty_token :: "string \<Rightarrow> bool" where
  "non_empty_token val \<longleftrightarrow> val \<noteq> [] \<and> \<not> has_whitespace (utf8_bytes val)"

definition admin_key_scopes_are_canonical :: "AdminKeyScopeV1 list \<Rightarrow> bool" where
  "admin_key_scopes_are_canonical scopes \<longleftrightarrow> scopes \<noteq> [] \<and> successively (<) scopes"

definition admin_key_grant_shape_error :: "AdminKeyGrantV1 \<Rightarrow> string option" where
  "admin_key_grant_shape_error grant =
     (if \<not> non_empty_token (ag_grant_id grant) then Some ''admin key grant id is empty''
      else if public_half_scheme (ag_public_half grant) \<noteq> AKS_Ed25519
      then Some ''admin key public half scheme is not ed25519''
      else if \<not> admin_key_scopes_are_canonical (ag_scopes grant)
      then Some ''admin key scopes are empty or not strictly ordered''
      else if (case ag_issuance_ceiling grant of None \<Rightarrow> False
               | Some ceiling \<Rightarrow> ag_class grant \<noteq> DayToDay \<or> KeyManage \<notin> set (ag_scopes grant) \<or>
                   \<not> ceiling_is_canonical ceiling)
      then Some ''issuance ceiling requires day key-manage, ordered unique non-startup scopes''
      else case ag_class grant of
        DayToDay \<Rightarrow>
          (if ag_expires_at grant = None then Some ''day-to-day admin key grant requires expiry''
           else if StartupGate \<in> set (ag_scopes grant)
           then Some ''day-to-day admin key grant cannot carry the startup gate''
           else None)
      | Recovery \<Rightarrow>
          (if ag_expires_at grant \<noteq> None
           then Some ''recovery grant is not a day-to-day key and does not carry an expiry''
           else if ag_scopes grant \<noteq> recovery_grant_scopes
           then Some ''recovery grant is the startup gate plus key-manage''
           else None))"

section \<open>The grant check\<close>

datatype AdminKeyCheckAction = AKA_Route AdminKeyScopeV1 | AKA_Revoke string

record AdminKeyGrantCheckRequest =
  ar_public_half :: AdminKeyPublicHalf
  ar_action :: AdminKeyCheckAction
  ar_now :: Timestamp
  ar_presented_generation :: u64
  ar_current_generation :: u64

datatype AdminKeyGrantVerdict = AKV_Allowed | AKV_Denied

datatype AdminKeyGrantReason =
    AKR_ActiveGrant | AKR_MissingGrant | AKR_WrongKey | AKR_ExpiredGrant | AKR_RevokedGrant
  | AKR_WrongScope | AKR_StaleGeneration | AKR_RecoveryGrantLocked | AKR_PolicyDenied

record AdminKeyGrantCheckResult =
  ak_verdict :: AdminKeyGrantVerdict
  ak_reason :: AdminKeyGrantReason
  ak_grant_id :: "string option"
  ak_admitted_scope :: "AdminKeyScopeV1 option"

definition ak_is_allowed :: "AdminKeyGrantCheckResult \<Rightarrow> bool" where
  "ak_is_allowed r \<longleftrightarrow>
     ak_verdict r = AKV_Allowed \<and> ak_grant_id r \<noteq> None \<and> ak_admitted_scope r \<noteq> None"

definition ak_deny :: "AdminKeyGrantReason \<Rightarrow> string option \<Rightarrow> AdminKeyGrantCheckResult" where
  "ak_deny reason grant_id =
     \<lparr>ak_verdict = AKV_Denied, ak_reason = reason, ak_grant_id = grant_id,
      ak_admitted_scope = None\<rparr>"

definition ak_allow :: "string \<Rightarrow> AdminKeyScopeV1 \<Rightarrow> AdminKeyGrantCheckResult" where
  "ak_allow grant_id scope =
     \<lparr>ak_verdict = AKV_Allowed, ak_reason = AKR_ActiveGrant, ak_grant_id = Some grant_id,
      ak_admitted_scope = Some scope\<rparr>"

fun class_expiry_requirement :: "AdminKeyGrantClassV1 \<Rightarrow> ExpiryRequirement" where
  "class_expiry_requirement DayToDay = ER_Mandatory"
| "class_expiry_requirement Recovery = ER_Forbidden"

definition expiry_requirement :: "AdminKeyGrantV1 \<Rightarrow> ExpiryRequirement" where
  "expiry_requirement grant = class_expiry_requirement (ag_class grant)"

definition scope_allowed :: "AdminKeyScopeV1 list \<Rightarrow> AdminKeyScopeV1 \<Rightarrow> bool" where
  "scope_allowed scopes scope = action_is_allowed (map action_name scopes) (action_name scope)"

definition grant_authorizes :: "AdminKeyGrantV1 \<Rightarrow> AdminKeyScopeV1 \<Rightarrow> Timestamp \<Rightarrow> bool" where
  "grant_authorizes grant scope now \<longleftrightarrow>
     admin_key_grant_shape_error grant = None \<and>
     ag_grant_state grant = AGS_Active \<and>
     expiry_decision now None (ag_expires_at grant) (expiry_requirement grant) = ED_Open \<and>
     scope_allowed (ag_scopes grant) scope"

text \<open>The loop of \<open>classify_route_deny\<close>, with its two accumulators.\<close>

fun classify_loop ::
  "AdminKeyScopeV1 \<Rightarrow> Timestamp \<Rightarrow> string option \<Rightarrow> string option \<Rightarrow> AdminKeyGrantV1 list \<Rightarrow>
   AdminKeyGrantReason \<times> string option" where
  "classify_loop scope now revoked_id malformed_id [] =
     (case malformed_id of
        Some i \<Rightarrow> (AKR_PolicyDenied, Some i)
      | None \<Rightarrow> (case revoked_id of
                   Some i \<Rightarrow> (AKR_RevokedGrant, Some i)
                 | None \<Rightarrow> (AKR_MissingGrant, None)))"
| "classify_loop scope now revoked_id malformed_id (grant # rest) =
     (if admin_key_grant_shape_error grant \<noteq> None
      then classify_loop scope now revoked_id (Some (ag_grant_id grant)) rest
      else if ag_grant_state grant \<noteq> AGS_Active
      then classify_loop scope now (Some (ag_grant_id grant)) malformed_id rest
      else case expiry_decision now None (ag_expires_at grant) (expiry_requirement grant) of
        ED_Expired \<Rightarrow> (AKR_ExpiredGrant, Some (ag_grant_id grant))
      | ED_Missing \<Rightarrow> (AKR_PolicyDenied, Some (ag_grant_id grant))
      | ED_PresentButForbidden \<Rightarrow> (AKR_PolicyDenied, Some (ag_grant_id grant))
      | ED_NotYet \<Rightarrow> (AKR_PolicyDenied, Some (ag_grant_id grant))
      | ED_Open \<Rightarrow>
          (if \<not> scope_allowed (ag_scopes grant) scope
           then (AKR_WrongScope, Some (ag_grant_id grant))
           else classify_loop scope now revoked_id malformed_id rest))"

definition classify_route_deny ::
  "AdminKeyGrantV1 list \<Rightarrow> AdminKeyScopeV1 \<Rightarrow> Timestamp \<Rightarrow>
   AdminKeyGrantReason \<times> string option" where
  "classify_route_deny candidates scope now = classify_loop scope now None None candidates"

definition decide_route ::
  "AdminKeyGrantCheckRequest \<Rightarrow> AdminKeyGrantV1 list \<Rightarrow> AdminKeyScopeV1 \<Rightarrow>
   AdminKeyGrantCheckResult" where
  "decide_route request grants scope =
     (let candidates = filter (\<lambda>grant. ag_public_half grant = ar_public_half request) grants in
      if candidates = [] then ak_deny AKR_WrongKey None
      else case List.find (\<lambda>grant. grant_authorizes grant scope (ar_now request)) candidates of
        Some grant \<Rightarrow> ak_allow (ag_grant_id grant) scope
      | None \<Rightarrow>
          (case classify_route_deny candidates scope (ar_now request) of
             (reason, grant_id) \<Rightarrow> ak_deny reason grant_id))"

definition decide_revoke ::
  "AdminKeyGrantCheckResult \<Rightarrow> AdminKeyGrantV1 list \<Rightarrow> AdminKeyPublicHalf \<Rightarrow> string \<Rightarrow>
   AdminKeyGrantCheckResult" where
  "decide_revoke presenter grants presenter_public_half target_grant_id =
     (case ak_grant_id presenter of
        None \<Rightarrow> ak_deny AKR_PolicyDenied None
      | Some presenter_grant_id \<Rightarrow>
          (case List.find (\<lambda>grant. ag_grant_id grant = target_grant_id) grants of
             None \<Rightarrow> ak_deny AKR_MissingGrant None
           | Some target \<Rightarrow>
               if ag_class target = Recovery
               then ak_deny AKR_RecoveryGrantLocked (Some (ag_grant_id target))
               else if ag_public_half target = presenter_public_half
               then ak_deny AKR_PolicyDenied (Some (ag_grant_id target))
               else if ag_grant_state target \<noteq> AGS_Active
               then ak_deny AKR_RevokedGrant (Some (ag_grant_id target))
               else if admin_key_grant_shape_error target \<noteq> None
               then ak_deny AKR_PolicyDenied (Some (ag_grant_id target))
               else ak_allow presenter_grant_id KeyManage))"

definition evaluate_admin_key_grant ::
  "AdminKeyGrantCheckRequest \<Rightarrow> AdminKeyGrantV1 list \<Rightarrow> AdminKeyGrantCheckResult" where
  "evaluate_admin_key_grant request grants =
     (if ar_presented_generation request \<noteq> ar_current_generation request
      then ak_deny AKR_StaleGeneration None
      else
        let route_scope = (case ar_action request of AKA_Route scope \<Rightarrow> scope
                           | AKA_Revoke _ \<Rightarrow> KeyManage);
            presenter = decide_route request grants route_scope
        in case ar_action request of
             AKA_Route _ \<Rightarrow> presenter
           | AKA_Revoke target_grant_id \<Rightarrow>
               if \<not> ak_is_allowed presenter then presenter
               else decide_revoke presenter grants (ar_public_half request) target_grant_id)"

section \<open>Issuance\<close>

datatype AdminIssuanceError =
    AIE_Malformed | AIE_InactiveIssuer | AIE_ExpiredIssuer | AIE_NotKeyManager
  | AIE_MissingCeiling | AIE_CeilingExceeded | AIE_ExpiryExceeded | AIE_RecoveryGrantLocked
  | AIE_RecoveryCredentialReuse

definition half_is_weak :: "Crypto \<Rightarrow> AdminKeyPublicHalf \<Rightarrow> bool" where
  "half_is_weak C half = (case half of APH_Ed25519 key \<Rightarrow> cy_ed_is_weak C key)"

definition evaluate_admin_key_issuance ::
  "Crypto \<Rightarrow> AdminKeyGrantV1 \<Rightarrow> AdminKeyGrantV1 \<Rightarrow> Timestamp \<Rightarrow> AdminIssuanceError + unit" where
  "evaluate_admin_key_issuance C issuer recipient now =
     (if admin_key_grant_shape_error issuer \<noteq> None \<or>
         admin_key_grant_shape_error recipient \<noteq> None \<or>
         list_ex (\<lambda>g. half_is_weak C (ag_public_half g)) [issuer, recipient] \<or>
         ag_grant_state recipient \<noteq> AGS_Active
      then Inl AIE_Malformed
      else if ag_grant_state issuer \<noteq> AGS_Active then Inl AIE_InactiveIssuer
      else if (case ag_expires_at issuer of None \<Rightarrow> False | Some expires \<Rightarrow> expires \<le> now)
      then Inl AIE_ExpiredIssuer
      else if KeyManage \<notin> set (ag_scopes issuer) then Inl AIE_NotKeyManager
      else if ag_class recipient \<noteq> DayToDay then Inl AIE_RecoveryGrantLocked
      else case ag_expires_at recipient of
        None \<Rightarrow> Inl AIE_ExpiryExceeded
      | Some expires \<Rightarrow>
          if expires \<le> now \<or>
             (case ag_expires_at issuer of None \<Rightarrow> False | Some limit \<Rightarrow> limit < expires)
          then Inl AIE_ExpiryExceeded
          else if KeyManage \<in> set (ag_scopes recipient) \<and> ag_issuance_ceiling recipient = None
          then Inl AIE_MissingCeiling
          else if ag_class issuer = Recovery
          then (if ag_public_half issuer = ag_public_half recipient \<or>
                   (case ag_ml_dsa65_public_key issuer of None \<Rightarrow> False
                    | Some pq \<Rightarrow> ag_ml_dsa65_public_key recipient = Some pq)
                then Inl AIE_RecoveryCredentialReuse else Inr ())
          else case ag_issuance_ceiling issuer of
            None \<Rightarrow> Inl AIE_MissingCeiling
          | Some ceiling \<Rightarrow>
              if list_ex (\<lambda>scope. scope \<notin> set (ic_scopes ceiling)) (ag_scopes recipient) \<or>
                 (case ag_issuance_ceiling recipient of None \<Rightarrow> False
                  | Some delegated \<Rightarrow>
                      list_ex (\<lambda>scope. scope \<notin> set (ic_scopes ceiling)) (ic_scopes delegated))
              then Inl AIE_CeilingExceeded
              else Inr ())"

section \<open>One check for both subjects (grant\_check.rs)\<close>

datatype GrantCheckSubject =
    GCS_Child MctCall ToyGrantEvaluationRequest "CanonicalToyContract list" "ToyGrant list"
  | GCS_AdminKey AdminKeyGrantCheckRequest "AdminKeyGrantV1 list"

datatype GrantCheckOutcome =
    GCO_Child ToyGrantEvaluationResult
  | GCO_AdminKey AdminKeyGrantCheckResult

fun evaluate_grant_subject :: "jiff \<Rightarrow> GrantCheckSubject \<Rightarrow> GrantCheckOutcome" where
  "evaluate_grant_subject J (GCS_Child call request catalog grants) =
     GCO_Child (evaluate_toy_grant_for_call J call request catalog grants)"
| "evaluate_grant_subject J (GCS_AdminKey request grants) =
     GCO_AdminKey (evaluate_admin_key_grant request grants)"

section \<open>Facts about scopes, keys and shapes\<close>

lemma action_name_inj: "action_name a = action_name b \<longleftrightarrow> a = b"
proof
  have "distinct (map action_name all_scopes)" by (simp add: all_scopes_def)
  moreover have "s \<in> set all_scopes" for s by (cases s) (simp_all add: all_scopes_def)
  moreover assume "action_name a = action_name b"
  ultimately show "a = b" by (simp add: distinct_map inj_on_def)
qed simp

lemma scope_allowed_iff [admin_simps]: "scope_allowed scopes scope \<longleftrightarrow> scope \<in> set scopes"
  by (auto simp: scope_allowed_def action_name_inj)

lemma successively_less_iff: "successively (<) (xs :: AdminKeyScopeV1 list) \<longleftrightarrow> sorted_wrt (<) xs"
  by (rule successively_conv_sorted_wrt) (auto intro: transpI)

text \<open>A well-formed public half is a canonical point; it survives printing and parsing.\<close>

definition half_is_canonical :: "Crypto \<Rightarrow> AdminKeyPublicHalf \<Rightarrow> bool" where
  "half_is_canonical C half \<longleftrightarrow>
     length (to_ed25519_bytes half) = 32 \<and>
     cy_ed_point C (to_ed25519_bytes half) = Some (to_ed25519_bytes half)"

lemma ed25519_from_bytes_ok:
  "ed25519_from_bytes C bytes = Inr half \<longleftrightarrow>
   cy_ed_point C bytes = Some bytes \<and> half = APH_Ed25519 bytes"
  by (auto simp: ed25519_from_bytes_def result_simps)

lemma ed25519_from_hex_canonical: "ed25519_from_hex C hex = Inr half \<Longrightarrow> half_is_canonical C half"
  by (auto simp: ed25519_from_hex_def result_simps ed25519_from_bytes_ok half_is_canonical_def
      dest: hex_decode_32_length)

lemma ed25519_hex_roundtrip:
  "half_is_canonical C half \<Longrightarrow> ed25519_from_hex C (public_half_to_hex half) = Inr half"
  by (cases half) (auto simp: half_is_canonical_def ed25519_from_hex_def public_half_to_hex_def
      hex_decode_32_encode result_simps ed25519_from_bytes_ok)

text \<open>The shape check as a predicate.\<close>

definition well_shaped :: "AdminKeyGrantV1 \<Rightarrow> bool" where
  "well_shaped g \<longleftrightarrow>
     non_empty_token (ag_grant_id g) \<and> ag_scopes g \<noteq> [] \<and> sorted_wrt (<) (ag_scopes g) \<and>
     (\<forall>c. ag_issuance_ceiling g = Some c \<longrightarrow>
        ag_class g = DayToDay \<and> KeyManage \<in> set (ag_scopes g) \<and>
        StartupGate \<notin> set (ic_scopes c) \<and> sorted_wrt (<) (ic_scopes c)) \<and>
     (case ag_class g of
        DayToDay \<Rightarrow> ag_expires_at g \<noteq> None \<and> StartupGate \<notin> set (ag_scopes g)
      | Recovery \<Rightarrow> ag_expires_at g = None \<and> ag_scopes g = recovery_grant_scopes)"

lemma public_half_scheme_only [simp]: "public_half_scheme h = AKS_Ed25519"
  by (cases h) simp

lemma shape_ok_iff [admin_simps]: "admin_key_grant_shape_error g = None \<longleftrightarrow> well_shaped g"
  by (auto simp: admin_key_grant_shape_error_def well_shaped_def admin_key_scopes_are_canonical_def
      ceiling_is_canonical_def successively_less_iff
      split: AdminKeyGrantClassV1.split option.split)

text \<open>What a grant must be for its key to exercise a scope at an instant.\<close>

definition grant_current :: "AdminKeyGrantV1 \<Rightarrow> Timestamp \<Rightarrow> bool" where
  "grant_current g now \<longleftrightarrow>
     well_shaped g \<and> ag_grant_state g = AGS_Active \<and>
     (case ag_expires_at g of None \<Rightarrow> ag_class g = Recovery
      | Some e \<Rightarrow> ag_class g = DayToDay \<and> now < e)"

lemma grant_authorizes_iff [admin_simps]:
  "grant_authorizes g scope now \<longleftrightarrow> grant_current g now \<and> scope \<in> set (ag_scopes g)"
  by (cases "ag_class g")
    (auto simp: grant_authorizes_def admin_simps expiry_requirement_def expiry_open started_def
      grant_current_def well_shaped_def split: option.splits)

lemma ak_deny_not_allowed [simp]: "\<not> ak_is_allowed (ak_deny r g)"
  by (simp add: ak_is_allowed_def ak_deny_def)

lemma ak_allow_allowed [simp]: "ak_is_allowed (ak_allow g s)"
  by (simp add: ak_is_allowed_def ak_allow_def)

lemma ak_allow_sel [simp]:
  "ak_grant_id (ak_allow g s) = Some g" "ak_admitted_scope (ak_allow g s) = Some s"
  "ak_allow g s = ak_allow g' s' \<longleftrightarrow> g = g' \<and> s = s'"
  by (auto simp: ak_allow_def)

lemma decide_route_cases:
  obtains (allow) g where "g \<in> set grants" "ag_public_half g = ar_public_half request"
      "grant_current g (ar_now request)" "scope \<in> set (ag_scopes g)"
      "decide_route request grants scope = ak_allow (ag_grant_id g) scope"
  | (deny) r i where "decide_route request grants scope = ak_deny r i"
      "\<forall>g \<in> set grants. ag_public_half g = ar_public_half request \<longrightarrow>
         \<not> (grant_current g (ar_now request) \<and> scope \<in> set (ag_scopes g))"
proof -
  let ?c = "filter (\<lambda>g. ag_public_half g = ar_public_half request) grants"
  let ?f = "List.find (\<lambda>g. grant_authorizes g scope (ar_now request)) ?c"
  show thesis
  proof (cases ?f)
    case (Some g)
    from find_SomeD [OF this] have "g \<in> set ?c" "grant_authorizes g scope (ar_now request)"
      by simp_all
    moreover from this(1) have "?c \<noteq> []" by (metis empty_iff empty_set)
    then have "decide_route request grants scope = ak_allow (ag_grant_id g) scope"
      using Some by (simp only: decide_route_def Let_def if_False option.case)
    ultimately show thesis using allow [of g] by (simp add: admin_simps)
  next
    case None
    then have "\<forall>g \<in> set ?c. \<not> grant_authorizes g scope (ar_now request)"
      by (simp add: find_None_iff)
    moreover have "\<exists>r i. decide_route request grants scope = ak_deny r i"
      using None by (auto simp: decide_route_def Let_def split: prod.splits)
    ultimately show thesis using deny by (auto simp: admin_simps)
  qed
qed

lemma decide_route_allowed_iff:
  "ak_is_allowed (decide_route request grants scope) \<longleftrightarrow>
   (\<exists>g \<in> set grants. ag_public_half g = ar_public_half request \<and>
      grant_current g (ar_now request) \<and> scope \<in> set (ag_scopes g))"
  by (rule decide_route_cases [of grants request scope]) auto

definition revocable :: "AdminKeyPublicHalf \<Rightarrow> AdminKeyGrantV1 \<Rightarrow> bool" where
  "revocable presenter target \<longleftrightarrow>
     ag_class target = DayToDay \<and> ag_public_half target \<noteq> presenter \<and>
     ag_grant_state target = AGS_Active \<and> well_shaped target"

lemma class_not_recovery [simp]: "c \<noteq> Recovery \<longleftrightarrow> c = DayToDay"
  by (cases c) simp_all

lemma decide_revoke_allowed_iff:
  "ak_is_allowed (decide_revoke presenter grants half target_id) \<longleftrightarrow>
   ak_grant_id presenter \<noteq> None \<and>
   (\<exists>target. List.find (\<lambda>g. ag_grant_id g = target_id) grants = Some target \<and>
      revocable half target)"
  by (auto simp: decide_revoke_def revocable_def admin_simps split: option.split)

section \<open>Properties\<close>

text \<open>
  C32: A route request is allowed exactly when it presents the current generation and some
  grant of the presented key is well shaped, active, inside its window (a day-to-day grant
  before its mandatory expiry, the recovery grant without one) and names the requested
  scope. The order of the grants and other, unusable grants of the same key do not matter.
\<close>

theorem admin_route_allowed_iff:
  "ak_is_allowed (evaluate_admin_key_grant
     \<lparr>ar_public_half = half, ar_action = AKA_Route scope, ar_now = now,
      ar_presented_generation = presented, ar_current_generation = current\<rparr> grants) \<longleftrightarrow>
   presented = current \<and>
   (\<exists>g \<in> set grants. ag_public_half g = half \<and> grant_current g now \<and> scope \<in> set (ag_scopes g))"
  by (simp add: evaluate_admin_key_grant_def Let_def decide_route_allowed_iff)

text \<open>
  A revocation is allowed exactly when the presenter holds a current grant with
  key-manage at the current generation and the first grant with the target identifier is an
  active, well-shaped day-to-day grant of another key. So nothing revokes the recovery
  grant, no key revokes itself, and a revoked grant is not revoked again.
\<close>

lemma admin_revoke_allowed_iff:
  "ak_is_allowed (evaluate_admin_key_grant
     \<lparr>ar_public_half = half, ar_action = AKA_Revoke target_id, ar_now = now,
      ar_presented_generation = presented, ar_current_generation = current\<rparr> grants) \<longleftrightarrow>
   presented = current \<and>
   (\<exists>g \<in> set grants. ag_public_half g = half \<and> grant_current g now \<and>
      KeyManage \<in> set (ag_scopes g)) \<and>
   (\<exists>target. List.find (\<lambda>g. ag_grant_id g = target_id) grants = Some target \<and>
      revocable half target)"
proof -
  let ?r = "\<lparr>ar_public_half = half, ar_action = AKA_Revoke target_id, ar_now = now,
      ar_presented_generation = presented, ar_current_generation = current\<rparr>"
  show ?thesis
    using decide_route_allowed_iff [of ?r grants KeyManage]
    by (auto simp: evaluate_admin_key_grant_def Let_def decide_revoke_allowed_iff
        ak_is_allowed_def [of "decide_route _ _ _"])
qed

section \<open>Issuance\<close>

lemma issuance_ok:
  assumes "evaluate_admin_key_issuance C issuer recipient now = Inr ()"
  shows "well_shaped issuer \<and> well_shaped recipient \<and> ag_grant_state issuer = AGS_Active \<and>
    ag_grant_state recipient = AGS_Active \<and> KeyManage \<in> set (ag_scopes issuer) \<and>
    ag_class recipient = DayToDay \<and> unexpired now (ag_expires_at issuer) \<and>
    (\<exists>e. ag_expires_at recipient = Some e \<and> now < e \<and>
      (\<forall>limit. ag_expires_at issuer = Some limit \<longrightarrow> e \<le> limit)) \<and>
    (ag_class issuer = DayToDay \<longrightarrow>
      (\<exists>c. ag_issuance_ceiling issuer = Some c \<and>
        set (ag_scopes recipient) \<subseteq> set (ic_scopes c) \<and>
        (\<forall>d. ag_issuance_ceiling recipient = Some d \<longrightarrow> set (ic_scopes d) \<subseteq> set (ic_scopes c)))) \<and>
    (KeyManage \<in> set (ag_scopes recipient) \<longrightarrow> ag_issuance_ceiling recipient \<noteq> None)"
  using assms
  by (auto simp: evaluate_admin_key_issuance_def admin_simps unexpired_def list_ex_iff
      split: if_split_asm option.split_asm)

definition issues :: "Crypto \<Rightarrow> AdminKeyGrantV1 \<Rightarrow> AdminKeyGrantV1 \<Rightarrow> bool" where
  "issues C issuer recipient \<longleftrightarrow>
     (\<exists>now. evaluate_admin_key_issuance C issuer recipient now = Inr ())"

text \<open>
  What a grant issued below another may hold. The bound is the issuer's ceiling, not the scopes
  it exercises itself: a manager may hand out scopes of its ceiling that it does not hold.
\<close>

definition attenuated :: "AdminKeyGrantV1 \<Rightarrow> AdminKeyGrantV1 \<Rightarrow> bool" where
  "attenuated root g \<longleftrightarrow>
     ag_class g = DayToDay \<and> well_shaped g \<and>
     (\<exists>e. ag_expires_at g = Some e \<and> (\<forall>limit. ag_expires_at root = Some limit \<longrightarrow> e \<le> limit)) \<and>
     (ag_class root = DayToDay \<longrightarrow>
       (\<exists>c. ag_issuance_ceiling root = Some c \<and> set (ag_scopes g) \<subseteq> set (ic_scopes c) \<and>
          (\<forall>d. ag_issuance_ceiling g = Some d \<longrightarrow> set (ic_scopes d) \<subseteq> set (ic_scopes c))))"

lemma issues_attenuated:
  assumes "issues C issuer recipient"
  shows "attenuated issuer recipient"
proof -
  from assms obtain now where "evaluate_admin_key_issuance C issuer recipient now = Inr ()"
    by (auto simp: issues_def)
  from issuance_ok [OF this] show ?thesis by (auto simp: attenuated_def)
qed

lemma attenuated_issues:
  assumes "attenuated root issuer" and "issues C issuer recipient"
  shows "attenuated root recipient"
proof -
  have r: "attenuated issuer recipient" by (rule issues_attenuated [OF assms(2)])
  from assms(1) obtain e where e: "ag_class issuer = DayToDay" "ag_expires_at issuer = Some e"
    "\<And>limit. ag_expires_at root = Some limit \<Longrightarrow> e \<le> limit"
    by (auto simp: attenuated_def)
  from r e(1,2) obtain e' where "ag_expires_at recipient = Some e'" "e' \<le> e"
    by (auto simp: attenuated_def)
  with e(3) have "\<exists>e'. ag_expires_at recipient = Some e' \<and>
      (\<forall>limit. ag_expires_at root = Some limit \<longrightarrow> e' \<le> limit)"
    by (blast intro: order_trans)
  moreover from r have "ag_class recipient = DayToDay" "well_shaped recipient"
    by (simp_all add: attenuated_def)
  moreover have "\<exists>c. ag_issuance_ceiling root = Some c \<and> set (ag_scopes recipient) \<subseteq> set (ic_scopes c) \<and>
      (\<forall>d. ag_issuance_ceiling recipient = Some d \<longrightarrow> set (ic_scopes d) \<subseteq> set (ic_scopes c))"
    if root: "ag_class root = DayToDay"
  proof -
    from r e(1) obtain m where m: "ag_issuance_ceiling issuer = Some m"
      "set (ag_scopes recipient) \<subseteq> set (ic_scopes m)"
      "\<And>d. ag_issuance_ceiling recipient = Some d \<Longrightarrow> set (ic_scopes d) \<subseteq> set (ic_scopes m)"
      unfolding attenuated_def by blast
    moreover from assms(1) root m(1) obtain c where "ag_issuance_ceiling root = Some c"
      "set (ic_scopes m) \<subseteq> set (ic_scopes c)"
      unfolding attenuated_def by blast
    ultimately show ?thesis by blast
  qed
  ultimately show ?thesis unfolding attenuated_def by blast
qed

text \<open>
  C21: However long a chain of issuances is, every grant issued on it is a well-shaped day-to-day
  grant with an expiry, and neither exercises nor delegates the startup gate. It expires no later
  than any earlier grant of the chain. Below a day-to-day grant it exercises and delegates only
  scopes of that grant's issuance ceiling, so each day-to-day grant on the way up bounds it. The
  recovery grant, which has neither expiry nor ceiling, may only start a chain.
\<close>

theorem issuance_chain_attenuates:
  assumes "(issues C)\<^sup>+\<^sup>+ root g"
  shows "ag_class g = DayToDay \<and> well_shaped g \<and> StartupGate \<notin> set (ag_scopes g) \<and>
    (\<exists>e. ag_expires_at g = Some e \<and> (\<forall>limit. ag_expires_at root = Some limit \<longrightarrow> e \<le> limit)) \<and>
    (\<forall>d. ag_issuance_ceiling g = Some d \<longrightarrow> StartupGate \<notin> set (ic_scopes d)) \<and>
    (ag_class root = DayToDay \<longrightarrow>
       (\<exists>c. ag_issuance_ceiling root = Some c \<and> set (ag_scopes g) \<subseteq> set (ic_scopes c) \<and>
          (\<forall>d. ag_issuance_ceiling g = Some d \<longrightarrow> set (ic_scopes d) \<subseteq> set (ic_scopes c))))"
proof -
  have "attenuated root g"
    using assms by (induction rule: tranclp_induct) (auto intro: issues_attenuated attenuated_issues)
  then show ?thesis by (auto simp: attenuated_def well_shaped_def)
qed

definition sample_manager :: "string \<Rightarrow> nat \<Rightarrow> AdminKeyScopeV1 list \<Rightarrow> AdminKeyGrantV1" where
  "sample_manager name expiry scopes =
     \<lparr>ag_grant_id = name, ag_public_half = APH_Ed25519 name, ag_ml_dsa65_public_key = None,
      ag_class = DayToDay, ag_scopes = [KeyManage, StatusScope],
      ag_expires_at = Some (Timestamp ''t'' (int expiry)), ag_grant_state = AGS_Active,
      ag_issuance_ceiling = Some \<lparr>ic_scopes = scopes\<rparr>\<rparr>"

lemma sample_manager_issues:
  "issues plain_crypto (sample_manager ''root'' 30 [BlobScope, KeyManage, StatusScope])
     (sample_manager ''deputy'' 20 [KeyManage, StatusScope])"
  "issues plain_crypto (sample_manager ''deputy'' 20 [KeyManage, StatusScope])
     (sample_manager ''clerk'' 10 [])"
  unfolding issues_def
  by (rule exI [of _ "Timestamp ''t'' 5"],
      simp add: evaluate_admin_key_issuance_def admin_key_grant_shape_error_def sample_manager_def
        admin_key_scopes_are_canonical_def ceiling_is_canonical_def less_AdminKeyScopeV1_def
        non_empty_token_def utf8_bytes_def plain_crypto_def half_is_weak_def less_eq_Timestamp_def
        less_Timestamp_def ws3_def)+

theorem issuance_chain_attenuates_witness:
  "ag_class (sample_manager ''clerk'' 10 []) = DayToDay \<and>
   StartupGate \<notin> set (ag_scopes (sample_manager ''clerk'' 10 [])) \<and>
   (\<exists>c. ag_issuance_ceiling (sample_manager ''root'' 30 [BlobScope, KeyManage, StatusScope]) = Some c \<and>
      set (ag_scopes (sample_manager ''clerk'' 10 [])) \<subseteq> set (ic_scopes c))"
proof -
  have "(issues plain_crypto)\<^sup>+\<^sup>+ (sample_manager ''root'' 30 [BlobScope, KeyManage, StatusScope])
      (sample_manager ''clerk'' 10 [])"
    using sample_manager_issues by (rule tranclp.trancl_into_trancl [OF tranclp.r_into_trancl])
  from issuance_chain_attenuates [OF this]
  have "ag_class (sample_manager ''root'' 30 [BlobScope, KeyManage, StatusScope]) = DayToDay \<Longrightarrow> ?thesis"
    by blast
  then show ?thesis by (simp add: sample_manager_def)
qed

text \<open>
  Public halves survive their wire form: a half whose bytes are a canonical point is
  restored from its serialized scheme and hexadecimal text, and whatever deserializes is
  such a half, so no other text, armored secrets included, becomes a public half.
\<close>

lemma public_half_roundtrip:
  "(half_is_canonical C half \<longleftrightarrow> public_half_deserialize C (public_half_serialize half) = Inr half) \<and>
   (\<forall>wire. is_ok (public_half_deserialize C wire) \<longleftrightarrow>
      aw_scheme wire = ''ed25519'' \<and>
      (\<exists>half'. half_is_canonical C half' \<and> hex_decode_32 (aw_public_key wire) = Inr (to_ed25519_bytes half')))"
proof -
  have canon: "half_is_canonical C h" if "public_half_deserialize C w = Inr h" for w h
    using that ed25519_from_hex_canonical by (auto simp: public_half_deserialize_def split: if_splits)
  have "is_ok (ed25519_from_hex C hex) \<longleftrightarrow>
      (\<exists>h. half_is_canonical C h \<and> hex_decode_32 hex = Inr (to_ed25519_bytes h))" for hex
  proof
    assume "is_ok (ed25519_from_hex C hex)"
    then obtain h where h: "ed25519_from_hex C hex = Inr h" by (auto simp: is_ok_iff)
    then have "hex_decode_32 hex = Inr (to_ed25519_bytes h)"
      by (auto simp: ed25519_from_hex_def result_simps ed25519_from_bytes_ok)
    with ed25519_from_hex_canonical [OF h] show
      "\<exists>h. half_is_canonical C h \<and> hex_decode_32 hex = Inr (to_ed25519_bytes h)" by blast
  next
    assume "\<exists>h. half_is_canonical C h \<and> hex_decode_32 hex = Inr (to_ed25519_bytes h)"
    then show "is_ok (ed25519_from_hex C hex)"
      by (auto simp: ed25519_from_hex_def result_simps half_is_canonical_def is_ok_iff
          ed25519_from_bytes_ok)
  qed
  then have "is_ok (public_half_deserialize C w) \<longleftrightarrow> aw_scheme w = ''ed25519'' \<and>
      (\<exists>h. half_is_canonical C h \<and> hex_decode_32 (aw_public_key w) = Inr (to_ed25519_bytes h))" for w
    by (simp add: public_half_deserialize_def)
  moreover have "half_is_canonical C half \<longleftrightarrow>
      public_half_deserialize C (public_half_serialize half) = Inr half"
    using canon [of "public_half_serialize half" half] ed25519_hex_roundtrip by (auto simp: public_half_deserialize_def public_half_serialize_def)
  ultimately show ?thesis by blast
qed

end
