(* ===== verification/MCT_Admin_Sig.thy ===== *)
theory MCT_Admin_Sig
  imports MCT_Admin_Key
begin

text \<open>
  Hybrid admin signatures (\<open>admin_sig.rs\<close>): the bytes an admin signs for one change, the
  signature of an Ed25519 and an ML-DSA-65 key over them, and its verification.
\<close>

definition ADMIN_SIG_CONTEXT :: string where
  "ADMIN_SIG_CONTEXT = ''mct-admin-sig/ed25519+mldsa65/v1''"

definition ADMIN_SIGNED_MESSAGE_DOMAIN :: string where
  "ADMIN_SIGNED_MESSAGE_DOMAIN = ''mct-admin-signed-change''"

definition ADMIN_SCHEME_VERSION :: string where
  "ADMIN_SCHEME_VERSION = ''v1''"

definition ADMIN_SIG_V1_TAG :: char where
  "ADMIN_SIG_V1_TAG = CHR 0x48"

definition ML_DSA65_PUBLIC_KEY_LEN :: nat where
  "ML_DSA65_PUBLIC_KEY_LEN = 1952"

definition ML_DSA65_SIGNATURE_LEN :: nat where
  "ML_DSA65_SIGNATURE_LEN = 3309"

definition ADMIN_HYBRID_SIGNATURE_LEN :: nat where
  "ADMIN_HYBRID_SIGNATURE_LEN = 1 + 64 + ML_DSA65_SIGNATURE_LEN"

datatype AdminSignatureError =
  ASE_Malformed | ASE_MalformedPublicKey | ASE_Ed25519Invalid | ASE_MlDsaInvalid

text \<open>Strict hexadecimal: the crate would accept a prefix \<open>0x\<close>, the caller does not.\<close>

definition strict_hex_decode :: "Crypto \<Rightarrow> string \<Rightarrow> string option" where
  "strict_hex_decode C hex =
     (if take 2 hex = ''0x'' \<or> take 2 hex = ''0X'' then None else cy_hex_decode C hex)"

definition MlDsa65PublicKey_from_bytes :: "string \<Rightarrow> AdminSignatureError + MlDsa65PublicKey" where
  "MlDsa65PublicKey_from_bytes bytes =
     (if length bytes \<noteq> ML_DSA65_PUBLIC_KEY_LEN then Inl ASE_MalformedPublicKey else Inr bytes)"

definition MlDsa65PublicKey_from_hex ::
  "Crypto \<Rightarrow> string \<Rightarrow> AdminSignatureError + MlDsa65PublicKey" where
  "MlDsa65PublicKey_from_hex C hex =
     and_then (ok_or (strict_hex_decode C hex) ASE_MalformedPublicKey) MlDsa65PublicKey_from_bytes"

definition MlDsa65PublicKey_to_hex :: "Crypto \<Rightarrow> MlDsa65PublicKey \<Rightarrow> string" where
  "MlDsa65PublicKey_to_hex C key = cy_hex_encode C key"

datatype AdminSignatureSchemeV1 = Ed25519MlDsa65V1 | SchemeWebAuthnP256DayKeyV1 | SchemeEd25519DayKeyV1

fun scheme_name :: "AdminSignatureSchemeV1 \<Rightarrow> string" where
  "scheme_name Ed25519MlDsa65V1 = ''ed25519+mldsa65/v1''"
| "scheme_name SchemeWebAuthnP256DayKeyV1 = ''webauthn-p256-day-key/v1''"
| "scheme_name SchemeEd25519DayKeyV1 = ''ed25519-day-key/v1''"

fun scheme_version :: "AdminSignatureSchemeV1 \<Rightarrow> string" where
  "scheme_version Ed25519MlDsa65V1 = ADMIN_SCHEME_VERSION"
| "scheme_version SchemeWebAuthnP256DayKeyV1 = ''webauthn-p256-day-key/v1''"
| "scheme_version SchemeEd25519DayKeyV1 = ''ed25519-day-key/v1''"

record AdminSignatureV1 =
  as_scheme :: AdminSignatureSchemeV1
  as_signer_grant_id :: string
  as_nonce :: u64
  as_signature :: string

record AdminSignedMessageParts =
  sm_scheme :: AdminSignatureSchemeV1
  sm_mother_node_id :: string
  sm_ledger_id :: string
  sm_nonce :: u64
  sm_signer_grant_canonical :: string
  sm_command_canonical :: string

definition admin_signed_fields :: "AdminSignedMessageParts \<Rightarrow> string list" where
  "admin_signed_fields parts =
     [ADMIN_SIGNED_MESSAGE_DOMAIN, scheme_version (sm_scheme parts), sm_mother_node_id parts,
      sm_ledger_id parts, u64_be_bytes (unat (sm_nonce parts)), sm_signer_grant_canonical parts,
      sm_command_canonical parts]"

definition admin_signed_message :: "AdminSignedMessageParts \<Rightarrow> string" where
  "admin_signed_message parts = frame u64_be_bytes (admin_signed_fields parts)"

text \<open>
  The signing key is its two seeds. The conversions that \<open>expect\<close> a result return \<open>None\<close>
  where the source panics.
\<close>

record AdminHybridSigningKey =
  hk_ed :: string
  hk_pq :: string

definition hybrid_public_half :: "Crypto \<Rightarrow> AdminHybridSigningKey \<Rightarrow> AdminKeyPublicHalf option" where
  "hybrid_public_half C key =
     (case ed25519_from_bytes C (cy_ed_public C (hk_ed key)) of Inl _ \<Rightarrow> None | Inr h \<Rightarrow> Some h)"

definition hybrid_ml_dsa65_public_key :: "Crypto \<Rightarrow> AdminHybridSigningKey \<Rightarrow> MlDsa65PublicKey" where
  "hybrid_ml_dsa65_public_key C key = cy_pq_public C (hk_pq key)"

definition hybrid_sign :: "Crypto \<Rightarrow> AdminHybridSigningKey \<Rightarrow> string \<Rightarrow> string" where
  "hybrid_sign C key msg =
     ADMIN_SIG_V1_TAG # cy_ed_sign C (hk_ed key) (ADMIN_SIG_CONTEXT @ msg) @
     cy_pq_sign C (hk_pq key) msg ADMIN_SIG_CONTEXT"

definition hybrid_sign_hex :: "Crypto \<Rightarrow> AdminHybridSigningKey \<Rightarrow> string \<Rightarrow> string" where
  "hybrid_sign_hex C key msg = cy_hex_encode C (hybrid_sign C key msg)"

definition verify_admin_hybrid_signature ::
  "Crypto \<Rightarrow> AdminKeyPublicHalf \<Rightarrow> MlDsa65PublicKey \<Rightarrow> string \<Rightarrow> string \<Rightarrow>
   AdminSignatureError + unit" where
  "verify_admin_hybrid_signature C ed25519 ml_dsa65 msg signature_hex =
     and_then (ok_or (strict_hex_decode C signature_hex) ASE_Malformed) (\<lambda>bytes.
     if length bytes \<noteq> ADMIN_HYBRID_SIGNATURE_LEN \<or> bytes ! 0 \<noteq> ADMIN_SIG_V1_TAG
     then Inl ASE_Malformed
     else
       let ed_sig = take 64 (drop 1 bytes); prefixed = ADMIN_SIG_CONTEXT @ msg in
       and_then (ok_or (cy_ed_point C (to_ed25519_bytes ed25519)) ASE_Ed25519Invalid) (\<lambda>_.
       and_then (ensure (cy_ed_verify C (to_ed25519_bytes ed25519) prefixed ed_sig)
                   ASE_Ed25519Invalid) (\<lambda>_.
       if \<not> cy_pq_verify C ml_dsa65 msg ADMIN_SIG_CONTEXT (drop 65 bytes)
       then Inl ASE_MlDsaInvalid
       else Inr ())))"

section \<open>Facts\<close>

lemma strict_hex_encode:
  assumes "hex_roundtrip C"
  shows "strict_hex_decode C (cy_hex_encode C b) = Some b"
proof -
  from assms have r: "cy_hex_decode C (cy_hex_encode C b) = Some b"
    and s: "set (cy_hex_encode C b) \<subseteq> set hex_alphabet"
    by (simp_all add: hex_roundtrip_def)
  have "CHR ''x'' \<notin> set hex_alphabet" "CHR ''X'' \<notin> set hex_alphabet"
    by (simp_all add: hex_alphabet_def)
  moreover from s have "set (take 2 (cy_hex_encode C b)) \<subseteq> set hex_alphabet"
    using set_take_subset by (rule order_trans [rotated])
  ultimately have "take 2 (cy_hex_encode C b) \<noteq> ''0x''" "take 2 (cy_hex_encode C b) \<noteq> ''0X''"
    by auto
  with r show ?thesis by (simp add: strict_hex_decode_def)
qed

lemma u64_be_bytes_nonce:
  "u64_be_bytes (unat a) = u64_be_bytes (unat b) \<Longrightarrow> a = (b :: u64)"
  using u64_be.len_bytes_inj [of "unat a" "unat b"] unsigned_less [of a] unsigned_less [of b]
  by (auto intro: unsigned_word_eqI)

lemma scheme_version_inj: "scheme_version a = scheme_version b \<longleftrightarrow> a = b"
  by (cases a; cases b) (simp_all add: ADMIN_SCHEME_VERSION_def)

text \<open>
  C34: The bytes an admin signs determine the change: two parts with the same signed message
  agree in scheme, Mother, ledger, nonce, signer grant and command, so a signature made for
  one of them cannot be carried over to another Mother, ledger, nonce, grant or command.
\<close>

theorem admin_signed_message_inj:
  assumes "addressable (admin_signed_fields p)" and "addressable (admin_signed_fields q)"
    and "admin_signed_message p = admin_signed_message q"
  shows "p = q"
proof -
  from u64_be.frame_inj [OF assms(1,2)] assms(3) have "admin_signed_fields p = admin_signed_fields q"
    by (simp add: admin_signed_message_def)
  then show ?thesis
    by (auto simp: admin_signed_fields_def scheme_version_inj dest!: u64_be_bytes_nonce)
qed

definition sample_signed_parts :: AdminSignedMessageParts where
  "sample_signed_parts =
     \<lparr>sm_scheme = Ed25519MlDsa65V1, sm_mother_node_id = ''m'', sm_ledger_id = ''l'', sm_nonce = 7,
      sm_signer_grant_canonical = ''g'', sm_command_canonical = ''c''\<rparr>"

theorem admin_signed_message_inj_witness:
  "admin_signed_message sample_signed_parts \<noteq> admin_signed_message (sample_signed_parts\<lparr>sm_nonce := 8\<rparr>)"
proof
  assume "admin_signed_message sample_signed_parts = admin_signed_message (sample_signed_parts\<lparr>sm_nonce := 8\<rparr>)"
  moreover have "addressable (admin_signed_fields sample_signed_parts)"
    "addressable (admin_signed_fields (sample_signed_parts\<lparr>sm_nonce := 8\<rparr>))"
    by (simp_all add: addressable_def admin_signed_fields_def sample_signed_parts_def u64_be_bytes_def
        ADMIN_SIGNED_MESSAGE_DOMAIN_def ADMIN_SCHEME_VERSION_def)
  ultimately have "sample_signed_parts = sample_signed_parts\<lparr>sm_nonce := 8\<rparr>"
    by (intro admin_signed_message_inj)
  then show False by (simp add: sample_signed_parts_def)
qed

text \<open>What acceptance means: both halves verified, over the prefixed and the plain message.\<close>

definition hybrid_verifies ::
  "Crypto \<Rightarrow> AdminKeyPublicHalf \<Rightarrow> MlDsa65PublicKey \<Rightarrow> string \<Rightarrow> string \<Rightarrow> bool" where
  "hybrid_verifies C ed pq msg bytes \<longleftrightarrow>
     length bytes = ADMIN_HYBRID_SIGNATURE_LEN \<and> bytes ! 0 = ADMIN_SIG_V1_TAG \<and>
     cy_ed_point C (to_ed25519_bytes ed) \<noteq> None \<and>
     cy_ed_verify C (to_ed25519_bytes ed) (ADMIN_SIG_CONTEXT @ msg) (take 64 (drop 1 bytes)) \<and>
     cy_pq_verify C pq msg ADMIN_SIG_CONTEXT (drop 65 bytes)"

lemma verify_hybrid_iff:
  "verify_admin_hybrid_signature C ed pq msg hex = Inr u \<longleftrightarrow>
   (\<exists>bytes. strict_hex_decode C hex = Some bytes \<and> hybrid_verifies C ed pq msg bytes)"
  by (auto simp: verify_admin_hybrid_signature_def hybrid_verifies_def result_simps Let_def)

text \<open>
  C33: A signature made with a hybrid key is accepted under the two public keys of that key,
  through its hexadecimal text.
\<close>

theorem hybrid_sign_verify:
  assumes "ed25519_signs C" and "ml_dsa65_signs C" and "hex_roundtrip C"
  shows "\<exists>half. hybrid_public_half C key = Some half \<and>
    verify_admin_hybrid_signature C half (hybrid_ml_dsa65_public_key C key) msg
      (hybrid_sign_hex C key msg) = Inr ()"
proof -
  from assms(1) have half: "hybrid_public_half C key = Some (APH_Ed25519 (cy_ed_public C (hk_ed key)))"
    by (simp add: hybrid_public_half_def ed25519_from_bytes_def ed25519_signs_def result_simps
        ok_or_def ensure_def)
  have "hybrid_verifies C (APH_Ed25519 (cy_ed_public C (hk_ed key)))
      (hybrid_ml_dsa65_public_key C key) msg (hybrid_sign C key msg)"
    using assms(1,2)
    by (simp add: hybrid_verifies_def hybrid_sign_def ed25519_signs_def ml_dsa65_signs_def
        ADMIN_HYBRID_SIGNATURE_LEN_def ML_DSA65_SIGNATURE_LEN_def hybrid_ml_dsa65_public_key_def)
  with half strict_hex_encode [OF assms(3)] show ?thesis
    by (auto simp: verify_hybrid_iff hybrid_sign_hex_def)
qed

theorem hybrid_sign_verify_witness:
  "\<exists>half. hybrid_public_half plain_crypto \<lparr>hk_ed = ''e'', hk_pq = ''p''\<rparr> = Some half \<and>
    verify_admin_hybrid_signature plain_crypto half
      (hybrid_ml_dsa65_public_key plain_crypto \<lparr>hk_ed = ''e'', hk_pq = ''p''\<rparr>) ''msg''
      (hybrid_sign_hex plain_crypto \<lparr>hk_ed = ''e'', hk_pq = ''p''\<rparr> ''msg'') = Inr ()"
  by (intro hybrid_sign_verify plain_crypto_signs plain_crypto_hex)

end
