(* ===== verification/MCT_Passkey.thy ===== *)
theory MCT_Passkey
  imports MCT_Admin_Sig
begin

unbundle bit_operations_syntax

text \<open>
  Passkey-rooted administration: the registered WebAuthn credential, day-key leases, signed
  intents and the administrative state (\<open>admin_key/passkey.rs\<close>), the two proof schemes and
  the transition of the state by a proved request (\<open>admin_sig/day_key.rs\<close>).

  The crates \<open>url\<close>, \<open>serde_json\<close> and \<open>ciborium\<close> are parameters collected in \<open>Web\<close>. Errors
  are their texts.
\<close>

section \<open>Parameters\<close>

record UrlParts =
  up_host :: "string option"
  up_scheme :: string
  up_ascii_origin :: string

record ClientData =
  cl_kind :: string
  cl_challenge :: string
  cl_origin :: string
  cl_cross_origin :: bool
  cl_top_origin :: "string option"

datatype CborValue = CB_Integer int | CB_Bytes string | CB_Map "(CborValue \<times> CborValue) list" | CB_Other string

section \<open>Registered credential (passkey.rs)\<close>

type_synonym DayKeyAdminError = string

definition DAY_KEY_LIFETIME_SECONDS :: u64 where
  "DAY_KEY_LIFETIME_SECONDS = 24 * 60 * 60"

definition ADMIN_INTENT_LIFETIME_SECONDS :: u64 where
  "ADMIN_INTENT_LIFETIME_SECONDS = 5 * 60"

definition valid_admin_id :: "string \<Rightarrow> bool" where
  "valid_admin_id ident \<longleftrightarrow>
     ident \<noteq> [] \<and> length ident \<le> 128 \<and>
     list_all (\<lambda>b. is_ascii_alphanumeric b \<or> b \<in> set ''-_.:'') ident"

definition instant :: "jiff \<Rightarrow> Timestamp \<Rightarrow> DayKeyAdminError + int" where
  "instant J t = (case jf_parse J (ts_value t) of Inl _ \<Rightarrow> Inl ''invalid time'' | Inr n \<Rightarrow> Inr n)"

text \<open>\<open>jiff::Timestamp::checked_add\<close> of whole seconds.\<close>

definition instant_add_seconds :: "jiff \<Rightarrow> int \<Rightarrow> u64 \<Rightarrow> string \<Rightarrow> DayKeyAdminError + int" where
  "instant_add_seconds J n seconds e =
     (let m = n + uint seconds * 1000000000 in if jf_in_range J m then Inr m else Inl e)"

record WebAuthnP256DayKeyV1 =
  wk_credential_id :: string
  wk_public_key_sec1 :: string
  wk_rp_id :: string
  wk_origin :: string

definition rp_label_ok :: "string \<Rightarrow> bool" where
  "rp_label_ok label \<longleftrightarrow>
     label \<noteq> [] \<and> length label \<le> 63 \<and> hd label \<noteq> CHR ''-'' \<and> last label \<noteq> CHR ''-'' \<and>
     list_all (\<lambda>b. is_ascii_lowercase b \<or> is_ascii_digit b \<or> b = CHR ''-'') label"

definition WebAuthnP256DayKeyV1_validate ::
  "Crypto \<Rightarrow> (string \<Rightarrow> UrlParts option) \<Rightarrow> WebAuthnP256DayKeyV1 \<Rightarrow> DayKeyAdminError + unit" where
  "WebAuthnP256DayKeyV1_validate C url k =
     and_then (ok_or (cy_b64_decode C (wk_credential_id k)) ''invalid credential id'') (\<lambda>credential.
     and_then (ok_or (cy_hex_decode C (wk_public_key_sec1 k)) ''invalid P-256 public key'') (\<lambda>key.
     if credential = [] \<or> 1024 < length credential \<or>
        cy_b64_encode C credential \<noteq> wk_credential_id k \<or> length key \<noteq> 65 \<or>
        key ! 0 \<noteq> CHR 0x04 \<or> cy_hex_encode C key \<noteq> wk_public_key_sec1 k \<or> \<not> cy_p256_key C key
     then Inl ''invalid registered credential''
     else and_then (ok_or (url (wk_origin k)) ''invalid origin'') (\<lambda>origin.
          and_then (ok_or (up_host origin) ''missing origin host'') (\<lambda>host.
          if 253 < length (wk_rp_id k) \<or> CHR ''.'' \<notin> set (wk_rp_id k) \<or>
             list_ex (\<lambda>label. \<not> rp_label_ok label) (split_on (CHR ''.'') (wk_rp_id k)) \<or>
             512 < length (wk_origin k) \<or> up_scheme origin \<noteq> ''https'' \<or>
             up_ascii_origin origin \<noteq> wk_origin k \<or>
             \<not> (host = wk_rp_id k \<or> ends_with host (CHR ''.'' # wk_rp_id k))
          then Inl ''origin and RP ID disagree''
          else Inr ()))))"

text \<open>Normalizing a COSE key: exactly five integer-keyed entries, no duplicates.\<close>

fun cose_fields :: "(CborValue \<times> CborValue) list \<Rightarrow> (int \<rightharpoonup> CborValue) \<Rightarrow> (int \<rightharpoonup> CborValue) option" where
  "cose_fields [] known = Some known"
| "cose_fields ((k, v) # rest) known =
     (case k of
        CB_Integer i \<Rightarrow> if known i \<noteq> None then None else cose_fields rest (known(i \<mapsto> v))
      | _ \<Rightarrow> None)"

definition cose_coordinate :: "(int \<rightharpoonup> CborValue) \<Rightarrow> int \<Rightarrow> string option" where
  "cose_coordinate known key =
     (case known key of
        Some (CB_Bytes bytes) \<Rightarrow> if length bytes \<noteq> 32 then None else Some bytes
      | _ \<Rightarrow> None)"

definition sec1_from_cose ::
  "Crypto \<Rightarrow> (string \<Rightarrow> (CborValue \<times> nat) option) \<Rightarrow> string \<Rightarrow> DayKeyAdminError + string" where
  "sec1_from_cose C cbor cose =
     (let bad = ''invalid ES256 COSE key'' in
      if 512 < length cose then Inl bad
      else case cbor cose of
        Some (CB_Map entries, consumed) \<Rightarrow>
          if consumed \<noteq> length cose \<or> length entries \<noteq> 5 then Inl bad
          else (case cose_fields entries Map.empty of
             None \<Rightarrow> Inl bad
           | Some known \<Rightarrow>
               if list_ex (\<lambda>(key, expected). known key \<noteq> Some (CB_Integer expected))
                    [(1, 2), (3, - 7), (- 1, 1)]
               then Inl bad
               else and_then (ok_or (cose_coordinate known (- 2)) bad) (\<lambda>x.
                    and_then (ok_or (cose_coordinate known (- 3)) bad) (\<lambda>y.
                    let sec1 = CHR 0x04 # x @ y in
                    if \<not> cy_p256_key C sec1 then Inl bad else Inr (cy_hex_encode C sec1))))
      | _ \<Rightarrow> Inl bad)"

section \<open>Day-key leases, intents and state (passkey.rs)\<close>

record Ed25519DayKeyV1 =
  dk_mother_node_id :: string
  dk_ledger_id :: string
  dk_issued_at :: Timestamp
  dk_grant :: AdminKeyGrantV1

definition Ed25519DayKeyV1_validate ::
  "Crypto \<Rightarrow> jiff \<Rightarrow> Ed25519DayKeyV1 \<Rightarrow> DayKeyAdminError + unit" where
  "Ed25519DayKeyV1_validate C J k =
     and_then (instant J (dk_issued_at k)) (\<lambda>issued.
     and_then (ok_or (ag_expires_at (dk_grant k)) ''missing lease expiry'') (\<lambda>e.
     and_then (instant J e) (\<lambda>expires.
     and_then (instant_add_seconds J issued DAY_KEY_LIFETIME_SECONDS ''lease time overflow'') (\<lambda>maximum.
     if \<not> valid_admin_id (ag_grant_id (dk_grant k)) \<or> \<not> valid_admin_id (dk_mother_node_id k) \<or>
        \<not> valid_admin_id (dk_ledger_id k) \<or> ag_class (dk_grant k) \<noteq> DayToDay \<or>
        ag_ml_dsa65_public_key (dk_grant k) \<noteq> None \<or> ag_issuance_ceiling (dk_grant k) \<noteq> None \<or>
        admin_key_grant_shape_error (dk_grant k) \<noteq> None \<or>
        half_is_weak C (ag_public_half (dk_grant k)) \<or> expires \<le> issued \<or> maximum < expires
     then Inl ''invalid 24-hour day-key lease''
     else Inr ()))))"

definition day_key_authorizes ::
  "Crypto \<Rightarrow> jiff \<Rightarrow> Ed25519DayKeyV1 \<Rightarrow> AdminKeyScopeV1 \<Rightarrow> Timestamp \<Rightarrow> bool" where
  "day_key_authorizes C J k scope now \<longleftrightarrow>
     is_ok (Ed25519DayKeyV1_validate C J k) \<and>
     ag_grant_state (dk_grant k) = AGS_Active \<and>
     scope \<in> set (ag_scopes (dk_grant k)) \<and>
     (case instant J now of
        Inl _ \<Rightarrow> False
      | Inr now' \<Rightarrow>
          (case instant J (dk_issued_at k) of Inl _ \<Rightarrow> False | Inr start \<Rightarrow> start \<le> now') \<and>
          (case ag_expires_at (dk_grant k) of
             None \<Rightarrow> False
           | Some e \<Rightarrow> (case instant J e of Inl _ \<Rightarrow> False | Inr finish \<Rightarrow> now' < finish)))"

datatype PasskeyAdminActionV1 =
    PA_Bootstrap WebAuthnP256DayKeyV1 string
  | PA_IssueDayKey string AdminKeyPublicHalf "AdminKeyScopeV1 list" Timestamp
  | PA_RevokeDayKey string
  | PA_Command AdminKeyScopeV1 string string

record PasskeyAdminIntentV1 =
  pi_mother_node_id :: string
  pi_ledger_id :: string
  pi_epoch :: string
  pi_generation :: u64
  pi_authority_observation_id :: string
  pi_nonce :: string
  pi_issued_at :: Timestamp
  pi_expires_at :: Timestamp
  pi_action :: PasskeyAdminActionV1

definition PasskeyAdminIntentV1_validate ::
  "jiff \<Rightarrow> PasskeyAdminIntentV1 \<Rightarrow> Timestamp \<Rightarrow> DayKeyAdminError + unit" where
  "PasskeyAdminIntentV1_validate J i now =
     (let bad = ''invalid target, nonce or intent window'' in
      and_then (instant J (pi_issued_at i)) (\<lambda>start.
      and_then (instant J (pi_expires_at i)) (\<lambda>finish.
      and_then (instant J now) (\<lambda>now'.
      if \<not> valid_admin_id (pi_mother_node_id i) \<or> \<not> valid_admin_id (pi_ledger_id i) \<or>
         128 < length (pi_epoch i) \<or> 256 < length (pi_authority_observation_id i) \<or>
         length (pi_nonce i) \<noteq> 64 \<or> \<not> list_all is_lower_hex (pi_nonce i) \<or> now' < start \<or> finish \<le> now'
      then Inl bad
      else and_then (instant_add_seconds J start ADMIN_INTENT_LIFETIME_SECONDS ''intent time overflow'')
        (\<lambda>latest.
         if latest < finish then Inl bad
         else case pi_action i of
           PA_Command _ route body \<Rightarrow>
             if 256 < length route \<or> take 1 route \<noteq> ''/'' \<or> 64 * 1024 < length body
             then Inl ''admin command exceeds bounds'' else Inr ()
         | _ \<Rightarrow> Inr ())))))"

record PasskeyAdminStateV1 =
  ps_mother_node_id :: string
  ps_ledger_id :: string
  ps_root :: WebAuthnP256DayKeyV1
  ps_day_keys :: "string \<rightharpoonup> Ed25519DayKeyV1"
  ps_used_nonces :: "(string \<times> string) set"
  ps_last_decided_at :: Timestamp

section \<open>Proofs (day\_key.rs)\<close>

datatype DayKeyAdminProofV1 =
    DP_WebAuthn string string string string
  | DP_Ed25519 string string

fun signer_ref :: "DayKeyAdminProofV1 \<Rightarrow> string" where
  "signer_ref (DP_WebAuthn credential_id _ _ _) = ''webauthn:'' @ credential_id"
| "signer_ref (DP_Ed25519 grant_id _) = ''ed25519:'' @ grant_id"

record PasskeyAdminRequestV1 =
  pr_intent :: PasskeyAdminIntentV1
  pr_proof :: DayKeyAdminProofV1

text \<open>
  The parameters of this component. \<open>wb_intent_json\<close> encodes the domain, the signer and the
  intent as one JSON value.
\<close>

record Web =
  wb_url :: "string \<Rightarrow> UrlParts option"
  wb_intent_json :: "string \<Rightarrow> string \<Rightarrow> PasskeyAdminIntentV1 \<Rightarrow> string option"
  wb_client_data :: "string \<Rightarrow> ClientData option"

definition day_key_signing_message ::
  "Web \<Rightarrow> PasskeyAdminIntentV1 \<Rightarrow> string \<Rightarrow> DayKeyAdminError + string" where
  "day_key_signing_message W intent signer =
     ok_or (wb_intent_json W ''mct-passkey-administration/v1'' signer intent) ''cannot encode intent''"

definition webauthn_admin_challenge ::
  "Crypto \<Rightarrow> Web \<Rightarrow> PasskeyAdminIntentV1 \<Rightarrow> string \<Rightarrow> DayKeyAdminError + string" where
  "webauthn_admin_challenge C W intent credential_id =
     and_then (day_key_signing_message W intent (''webauthn:'' @ credential_id)) (\<lambda>m.
     Inr (cy_b64_encode C (cy_sha256 C m)))"

definition assertion_decode :: "Crypto \<Rightarrow> string \<Rightarrow> nat \<Rightarrow> DayKeyAdminError + string" where
  "assertion_decode C val max_len =
     (if max_len * 2 < length val then Inl ''assertion exceeds bounds''
      else and_then (ok_or (cy_b64_decode C val) ''invalid assertion encoding'') (\<lambda>bytes.
        if max_len < length bytes \<or> cy_b64_encode C bytes \<noteq> val
        then Inl ''noncanonical assertion encoding'' else Inr bytes))"

definition authenticator_flags_ok :: "nat \<Rightarrow> bool" where
  "authenticator_flags_ok flags \<longleftrightarrow>
     flags AND 0x05 = 0x05 \<and> flags AND 0xE2 = 0 \<and>
     \<not> (flags AND 0x10 \<noteq> 0 \<and> flags AND 0x08 = 0)"

definition verify_webauthn_admin_signature ::
  "Crypto \<Rightarrow> Web \<Rightarrow> WebAuthnP256DayKeyV1 \<Rightarrow> PasskeyAdminRequestV1 \<Rightarrow> DayKeyAdminError + unit" where
  "verify_webauthn_admin_signature C W root request =
     and_then (WebAuthnP256DayKeyV1_validate C (wb_url W) root) (\<lambda>_.
     case pr_proof request of
       DP_Ed25519 _ _ \<Rightarrow> Inl ''passkey proof required''
     | DP_WebAuthn credential_id authenticator_data client_data_json signature \<Rightarrow>
         if credential_id \<noteq> wk_credential_id root then Inl ''unregistered credential''
         else
           and_then (assertion_decode C authenticator_data 37) (\<lambda>auth.
           and_then (assertion_decode C client_data_json 4096) (\<lambda>client.
           and_then (assertion_decode C signature 72) (\<lambda>signature'.
           and_then (ok_or (wb_client_data W client) ''invalid client data'') (\<lambda>data.
           let denied = ''WebAuthn relying-party or user-verification binding denied'' in
           if length auth \<noteq> 37 \<or> take 32 auth \<noteq> cy_sha256 C (wk_rp_id root) \<or>
              \<not> authenticator_flags_ok (of_char (auth ! 32)) \<or>
              cl_kind data \<noteq> ''webauthn.get'' \<or> cl_origin data \<noteq> wk_origin root \<or>
              cl_cross_origin data \<or> cl_top_origin data \<noteq> None
           then Inl denied
           else and_then (webauthn_admin_challenge C W (pr_intent request) credential_id) (\<lambda>challenge.
             if cl_challenge data \<noteq> challenge then Inl denied
             else
               let signed = auth @ cy_sha256 C client in
               and_then (ok_or (cy_hex_decode C (wk_public_key_sec1 root)) ''invalid P-256 key'') (\<lambda>public.
               and_then (ensure (cy_p256_key C public) ''invalid P-256 key'') (\<lambda>_.
               and_then (ensure (cy_p256_der C signature') ''invalid ES256 signature'') (\<lambda>_.
               ensure (cy_p256_verify C public signed signature') ''ES256 signature denied'')))))))))"

definition verify_ed25519_day_key_signature ::
  "Crypto \<Rightarrow> Web \<Rightarrow> Ed25519DayKeyV1 \<Rightarrow> PasskeyAdminRequestV1 \<Rightarrow> DayKeyAdminError + unit" where
  "verify_ed25519_day_key_signature C W key request =
     (case pr_proof request of
        DP_WebAuthn _ _ _ _ \<Rightarrow> Inl ''day-key proof required''
      | DP_Ed25519 grant_id signature \<Rightarrow>
          if grant_id \<noteq> ag_grant_id (dk_grant key) \<or> length signature \<noteq> 128
          then Inl ''wrong signer or signature size''
          else
            and_then (ok_or (cy_hex_decode C signature) ''invalid Ed25519 signature'') (\<lambda>bytes.
            if cy_hex_encode C bytes \<noteq> signature then Inl ''noncanonical Ed25519 signature''
            else
              and_then (ensure (length bytes = 64) ''invalid Ed25519 signature'') (\<lambda>_.
              and_then (day_key_signing_message W (pr_intent request) (signer_ref (pr_proof request)))
                (\<lambda>message.
                 ensure (cy_ed_verify_strict C (to_ed25519_bytes (ag_public_half (dk_grant key)))
                           message bytes)
                   ''Ed25519 signature denied''))))"

section \<open>The transition (day\_key.rs)\<close>

definition issue_lease ::
  "PasskeyAdminIntentV1 \<Rightarrow> Timestamp \<Rightarrow> string \<Rightarrow> AdminKeyPublicHalf \<Rightarrow> AdminKeyScopeV1 list \<Rightarrow>
   Timestamp \<Rightarrow> Ed25519DayKeyV1" where
  "issue_lease intent now grant_id public_half scopes expires_at =
     \<lparr>dk_mother_node_id = pi_mother_node_id intent, dk_ledger_id = pi_ledger_id intent,
      dk_issued_at = now,
      dk_grant =
        \<lparr>ag_grant_id = grant_id, ag_public_half = public_half, ag_ml_dsa65_public_key = None,
         ag_class = DayToDay, ag_scopes = scopes, ag_expires_at = Some expires_at,
         ag_grant_state = AGS_Active, ag_issuance_ceiling = None\<rparr>\<rparr>"

definition revoke_lease :: "Ed25519DayKeyV1 \<Rightarrow> Ed25519DayKeyV1" where
  "revoke_lease k = k\<lparr>dk_grant := (dk_grant k)\<lparr>ag_grant_state := AGS_Revoked\<rparr>\<rparr>"

definition passkey_required_scope :: "PasskeyAdminActionV1 \<Rightarrow> DayKeyAdminError + AdminKeyScopeV1" where
  "passkey_required_scope action =
     (case action of
        PA_Bootstrap _ _ \<Rightarrow> Inl ''genesis is immutable''
      | PA_IssueDayKey _ _ _ _ \<Rightarrow> Inr KeyManage
      | PA_RevokeDayKey _ \<Rightarrow> Inr KeyManage
      | PA_Command scope _ _ \<Rightarrow> Inr scope)"

definition is_issue :: "PasskeyAdminActionV1 \<Rightarrow> bool" where
  "is_issue action = (case action of PA_IssueDayKey _ _ _ _ \<Rightarrow> True | _ \<Rightarrow> False)"

definition passkey_check_proof ::
  "Crypto \<Rightarrow> jiff \<Rightarrow> Web \<Rightarrow> PasskeyAdminStateV1 \<Rightarrow> PasskeyAdminRequestV1 \<Rightarrow> AdminKeyScopeV1 \<Rightarrow>
   Timestamp \<Rightarrow> DayKeyAdminError + unit" where
  "passkey_check_proof C J W state request required_scope now =
     (case pr_proof request of
        DP_WebAuthn _ _ _ _ \<Rightarrow> verify_webauthn_admin_signature C W (ps_root state) request
      | DP_Ed25519 grant_id _ \<Rightarrow>
          if is_issue (pi_action (pr_intent request))
          then Inl ''only the passkey root may issue leases''
          else
            and_then (ok_or (ps_day_keys state grant_id) ''unknown day key'') (\<lambda>key.
            if dk_mother_node_id key \<noteq> pi_mother_node_id (pr_intent request) \<or>
               dk_ledger_id key \<noteq> pi_ledger_id (pr_intent request) \<or>
               \<not> day_key_authorizes C J key required_scope now
            then Inl ''expired, revoked or wrong-scope day key''
            else verify_ed25519_day_key_signature C W key request))"

definition passkey_apply_action ::
  "Crypto \<Rightarrow> jiff \<Rightarrow> PasskeyAdminStateV1 \<Rightarrow> PasskeyAdminIntentV1 \<Rightarrow> Timestamp \<Rightarrow>
   DayKeyAdminError + (string \<rightharpoonup> Ed25519DayKeyV1)" where
  "passkey_apply_action C J state intent now =
     (case pi_action intent of
        PA_IssueDayKey grant_id public_half scopes expires_at \<Rightarrow>
          if ps_day_keys state grant_id \<noteq> None
          then Inl ''grant ids cannot be replaced or resurrected''
          else
            let lease = issue_lease intent now grant_id public_half scopes expires_at in
            and_then (Ed25519DayKeyV1_validate C J lease) (\<lambda>_.
            Inr ((ps_day_keys state)(grant_id \<mapsto> lease)))
      | PA_RevokeDayKey grant_id \<Rightarrow>
          and_then (ok_or (ps_day_keys state grant_id) ''revocation target is not a day key'') (\<lambda>k.
          Inr ((ps_day_keys state)(grant_id \<mapsto> revoke_lease k)))
      | _ \<Rightarrow> Inr (ps_day_keys state))"

definition evaluate_passkey_admin_transition ::
  "Crypto \<Rightarrow> jiff \<Rightarrow> Web \<Rightarrow> PasskeyAdminStateV1 option \<Rightarrow> PasskeyAdminRequestV1 \<Rightarrow> Timestamp \<Rightarrow>
   DayKeyAdminError + PasskeyAdminStateV1" where
  "evaluate_passkey_admin_transition C J W state request now =
     and_then (PasskeyAdminIntentV1_validate J (pr_intent request) now) (\<lambda>_.
     let intent = pr_intent request;
         nonce = (signer_ref (pr_proof request), pi_nonce intent) in
     case state of
       None \<Rightarrow>
         (case pi_action intent of
            PA_Bootstrap root _ \<Rightarrow>
              and_then (verify_webauthn_admin_signature C W root request) (\<lambda>_.
              Inr \<lparr>ps_mother_node_id = pi_mother_node_id intent, ps_ledger_id = pi_ledger_id intent,
                   ps_root = root, ps_day_keys = Map.empty, ps_used_nonces = {nonce},
                   ps_last_decided_at = now\<rparr>)
          | _ \<Rightarrow> Inl ''missing passkey genesis'')
     | Some s \<Rightarrow>
         let denied = ''wrong target, consumed nonce or clock rollback'' in
         if ps_mother_node_id s \<noteq> pi_mother_node_id intent \<or> ps_ledger_id s \<noteq> pi_ledger_id intent \<or>
            nonce \<in> ps_used_nonces s
         then Inl denied
         else
           and_then (instant J now) (\<lambda>now'.
           and_then (instant J (ps_last_decided_at s)) (\<lambda>last_decided.
           if now' < last_decided then Inl denied
           else
             and_then (passkey_required_scope (pi_action intent)) (\<lambda>required_scope.
             and_then (passkey_check_proof C J W s request required_scope now) (\<lambda>_.
             and_then (passkey_apply_action C J s intent now) (\<lambda>day_keys.
             Inr (s\<lparr>ps_day_keys := day_keys, ps_used_nonces := insert nonce (ps_used_nonces s),
                    ps_last_decided_at := now\<rparr>)))))))"

section \<open>Histories\<close>

definition passkey_init :: "Crypto \<Rightarrow> jiff \<Rightarrow> Web \<Rightarrow> PasskeyAdminStateV1 \<Rightarrow> bool" where
  "passkey_init C J W s \<longleftrightarrow>
     (\<exists>request now. evaluate_passkey_admin_transition C J W None request now = Inr s)"

inductive passkey_step ::
  "Crypto \<Rightarrow> jiff \<Rightarrow> Web \<Rightarrow> PasskeyAdminStateV1 \<Rightarrow> PasskeyAdminStateV1 \<Rightarrow> bool"
  for C J W where
  passkey_step: "evaluate_passkey_admin_transition C J W (Some s) request now = Inr t \<Longrightarrow>
     passkey_step C J W s t"

inductive_cases passkey_stepE: "passkey_step C J W s t"

text \<open>The effect of an accepted action on one lease.\<close>

definition lease_after :: "Ed25519DayKeyV1 option \<Rightarrow> Ed25519DayKeyV1 option \<Rightarrow> bool" where
  "lease_after before after \<longleftrightarrow>
     (case before of None \<Rightarrow> True | Some k \<Rightarrow> after = Some k \<or> after = Some (revoke_lease k))"

definition passkey_inv :: "Crypto \<Rightarrow> jiff \<Rightarrow> PasskeyAdminStateV1 \<Rightarrow> bool" where
  "passkey_inv C J s \<longleftrightarrow>
     (\<forall>g k. ps_day_keys s g = Some k \<longrightarrow>
        ag_grant_id (dk_grant k) = g \<and> dk_mother_node_id k = ps_mother_node_id s \<and>
        dk_ledger_id k = ps_ledger_id s \<and> Ed25519DayKeyV1_validate C J k = Inr ())"

lemma revoke_lease_simps [simp]:
  "dk_mother_node_id (revoke_lease k) = dk_mother_node_id k"
  "dk_ledger_id (revoke_lease k) = dk_ledger_id k"
  "dk_issued_at (revoke_lease k) = dk_issued_at k"
  "dk_grant (revoke_lease k) = (dk_grant k)\<lparr>ag_grant_state := AGS_Revoked\<rparr>"
  "revoke_lease (revoke_lease k) = revoke_lease k"
  by (simp_all add: revoke_lease_def)

lemma shape_error_state [simp]:
  "admin_key_grant_shape_error (g\<lparr>ag_grant_state := st\<rparr>) = admin_key_grant_shape_error g"
  by (cases g) (simp only: admin_key_grant_shape_error_def AdminKeyGrantV1.simps)

lemma validate_revoke_lease [simp]:
  "Ed25519DayKeyV1_validate C J (revoke_lease k) = Ed25519DayKeyV1_validate C J k"
  by (simp add: Ed25519DayKeyV1_validate_def)

lemma lease_after_refl [simp]: "lease_after x x"
  by (simp add: lease_after_def split: option.split)

lemma lease_after_trans: "lease_after x y \<Longrightarrow> lease_after y z \<Longrightarrow> lease_after x z"
  by (auto simp: lease_after_def split: option.splits)

lemma apply_action_lease_after:
  "passkey_apply_action C J s intent now = Inr m \<Longrightarrow> lease_after (ps_day_keys s g) (m g)"
  by (auto simp: passkey_apply_action_def lease_after_def result_simps Let_def
      split: PasskeyAdminActionV1.split_asm if_split_asm option.split)

lemma apply_action_inv:
  assumes "passkey_apply_action C J s intent now = Inr m" and "passkey_inv C J s"
    and "pi_mother_node_id intent = ps_mother_node_id s" and "pi_ledger_id intent = ps_ledger_id s"
  shows "m g = Some k \<Longrightarrow>
    ag_grant_id (dk_grant k) = g \<and> dk_mother_node_id k = ps_mother_node_id s \<and>
    dk_ledger_id k = ps_ledger_id s \<and> Ed25519DayKeyV1_validate C J k = Inr ()"
  using assms
  by (auto simp: passkey_apply_action_def passkey_inv_def result_simps Let_def issue_lease_def
      split: PasskeyAdminActionV1.split_asm if_split_asm)

lemma passkey_accepted:
  assumes "evaluate_passkey_admin_transition C J W (Some s) request now = Inr t"
  obtains scope m where
    "(signer_ref (pr_proof request), pi_nonce (pr_intent request)) \<notin> ps_used_nonces s"
    "ps_used_nonces t =
       insert (signer_ref (pr_proof request), pi_nonce (pr_intent request)) (ps_used_nonces s)"
    "pi_mother_node_id (pr_intent request) = ps_mother_node_id s"
    "pi_ledger_id (pr_intent request) = ps_ledger_id s"
    "ps_mother_node_id t = ps_mother_node_id s" "ps_ledger_id t = ps_ledger_id s"
    "ps_root t = ps_root s" "ps_day_keys t = m"
    "passkey_required_scope (pi_action (pr_intent request)) = Inr scope"
    "passkey_check_proof C J W s request scope now = Inr ()"
    "passkey_apply_action C J s (pr_intent request) now = Inr m"
  using assms
  by (auto simp: evaluate_passkey_admin_transition_def result_simps Let_def split: if_split_asm)

lemma passkey_genesis:
  "evaluate_passkey_admin_transition C J W None request now = Inr s \<Longrightarrow> ps_day_keys s = Map.empty"
  by (cases "pi_action (pr_intent request)")
    (auto simp: evaluate_passkey_admin_transition_def Let_def result_simps)

lemma passkey_step_lease_after: "passkey_step C J W s t \<Longrightarrow> lease_after (ps_day_keys s g) (ps_day_keys t g)"
  by (erule passkey_stepE, erule passkey_accepted) (simp add: apply_action_lease_after)

lemma passkey_steps_lease_after:
  "(passkey_step C J W)\<^sup>*\<^sup>* s t \<Longrightarrow> lease_after (ps_day_keys s g) (ps_day_keys t g)"
  by (induction rule: rtranclp_induct) (auto intro: lease_after_trans passkey_step_lease_after)

lemma passkey_steps_nonces: "(passkey_step C J W)\<^sup>*\<^sup>* s t \<Longrightarrow> ps_used_nonces s \<subseteq> ps_used_nonces t"
  by (induction rule: rtranclp_induct) (auto elim!: passkey_stepE passkey_accepted)

interpretation passkey: invariant_system "passkey_init C J W" "passkey_step C J W" "passkey_inv C J"
  for C J W
proof
  show "passkey_init C J W s \<Longrightarrow> passkey_inv C J s" for s
    by (auto simp: passkey_init_def passkey_inv_def dest: passkey_genesis)
  show "passkey_inv C J s \<Longrightarrow> passkey_step C J W s t \<Longrightarrow> passkey_inv C J t" for s t
    by (erule passkey_stepE, erule passkey_accepted, unfold passkey_inv_def [of C J t])
      (metis apply_action_inv)
qed

section \<open>Properties\<close>

text \<open>
  A concrete history: a genesis, a day key issued by the passkey root, and its revocation by
  the root. The parameters answer with fixed texts that fit together.
\<close>

definition sample_ts :: "int \<Rightarrow> Timestamp" where
  "sample_ts n = Timestamp (plain_show n) n"

definition sample_rp_id :: string where
  "sample_rp_id = ''mct.example-mother-node.internal''"

definition sample_point :: string where
  "sample_point = CHR 0x04 # replicate 64 (CHR ''k'')"

definition sample_passkey_root :: WebAuthnP256DayKeyV1 where
  "sample_passkey_root =
     \<lparr>wk_credential_id = ''cred'', wk_public_key_sec1 = hex_encode sample_point,
      wk_rp_id = sample_rp_id, wk_origin = ''https://o''\<rparr>"

definition sample_web :: Web where
  "sample_web =
     \<lparr>wb_url = (\<lambda>u. Some \<lparr>up_host = Some sample_rp_id, up_scheme = ''https'', up_ascii_origin = u\<rparr>),
      wb_intent_json = (\<lambda>d signer i. Some ''json''),
      wb_client_data = (\<lambda>c. Some \<lparr>cl_kind = ''webauthn.get'', cl_challenge = ''json'',
        cl_origin = ''https://o'', cl_cross_origin = False, cl_top_origin = None\<rparr>)\<rparr>"

definition sample_passkey_request :: "char \<Rightarrow> PasskeyAdminActionV1 \<Rightarrow> PasskeyAdminRequestV1" where
  "sample_passkey_request c action =
     \<lparr>pr_intent =
        \<lparr>pi_mother_node_id = ''m'', pi_ledger_id = ''l'', pi_epoch = [], pi_generation = 1,
         pi_authority_observation_id = [], pi_nonce = replicate 64 c,
         pi_issued_at = sample_ts 0, pi_expires_at = sample_ts 100, pi_action = action\<rparr>,
      pr_proof = DP_WebAuthn ''cred'' (sample_rp_id @ [CHR 0x05] @ replicate 4 (CHR 0x00)) ''client''
        (take 8 sample_point)\<rparr>"

definition sample_bootstrap :: PasskeyAdminRequestV1 where
  "sample_bootstrap = sample_passkey_request (CHR ''a'') (PA_Bootstrap sample_passkey_root [])"

definition sample_issue :: PasskeyAdminRequestV1 where
  "sample_issue = sample_passkey_request (CHR ''b'')
     (PA_IssueDayKey ''day'' (APH_Ed25519 ''key'') [BlobScope] (sample_ts 1000))"

definition sample_revoke :: PasskeyAdminRequestV1 where
  "sample_revoke = sample_passkey_request (CHR ''c'') (PA_RevokeDayKey ''day'')"

definition sample_lease :: Ed25519DayKeyV1 where
  "sample_lease = issue_lease (pr_intent sample_issue) (sample_ts 10) ''day'' (APH_Ed25519 ''key'')
     [BlobScope] (sample_ts 1000)"

definition sample_passkey_state ::
  "(string \<rightharpoonup> Ed25519DayKeyV1) \<Rightarrow> string \<Rightarrow> PasskeyAdminStateV1" where
  "sample_passkey_state keys nonces =
     \<lparr>ps_mother_node_id = ''m'', ps_ledger_id = ''l'', ps_root = sample_passkey_root,
      ps_day_keys = keys, ps_used_nonces = (\<lambda>c. (''webauthn:cred'', replicate 64 c)) ` set nonces,
      ps_last_decided_at = sample_ts 10\<rparr>"

lemma plain_jiff_instant [simp]: "instant plain_jiff (sample_ts n) = Inr n"
  by (simp add: instant_def plain_jiff_def sample_ts_def plain_parse_show)

lemma plain_jiff_add [simp]:
  "n + uint k * 1000000000 \<in> {0 ..< 2 ^ 68} \<Longrightarrow>
   instant_add_seconds plain_jiff n k e = Inr (n + uint k * 1000000000)"
  by (simp add: instant_add_seconds_def plain_jiff_def)

lemma plain_hex_decode_encode [simp]: "plain_hex_decode (hex_encode b) = Some b"
  by (simp add: plain_hex_decode_def hex_pairs_encode)

lemma sample_root_valid: "WebAuthnP256DayKeyV1_validate plain_crypto (wb_url sample_web) sample_passkey_root = Inr ()"
  by (simp add: WebAuthnP256DayKeyV1_validate_def sample_passkey_root_def sample_web_def
      plain_crypto_def sample_point_def sample_rp_id_def rp_label_ok_def is_ascii_lowercase_def
      is_ascii_digit_def ok_or_def and_then_def)

lemma sample_proof_valid:
  "verify_webauthn_admin_signature plain_crypto sample_web sample_passkey_root
     (sample_passkey_request c action) = Inr ()"
  unfolding verify_webauthn_admin_signature_def sample_root_valid
  by (simp add: sample_passkey_request_def sample_passkey_root_def assertion_decode_def
      plain_crypto_def sample_web_def sample_rp_id_def authenticator_flags_ok_def
      webauthn_admin_challenge_def day_key_signing_message_def sample_point_def Let_def
      ok_or_def and_then_def ensure_def)

lemma sample_intent_valid:
  "is_lower_hex c \<Longrightarrow> (case action of PA_Command _ _ _ \<Rightarrow> False | _ \<Rightarrow> True) \<Longrightarrow>
   PasskeyAdminIntentV1_validate plain_jiff (pr_intent (sample_passkey_request c action)) (sample_ts 10) =
   Inr ()"
  by (cases action) (simp_all add: PasskeyAdminIntentV1_validate_def sample_passkey_request_def
      valid_admin_id_def is_ascii_alphanumeric_def is_ascii_lowercase_def and_then_def Let_def
      ADMIN_INTENT_LIFETIME_SECONDS_def list_all_iff)

lemma sample_lease_valid: "Ed25519DayKeyV1_validate plain_crypto plain_jiff sample_lease = Inr ()"
  by (simp add: Ed25519DayKeyV1_validate_def sample_lease_def issue_lease_def sample_issue_def
      sample_passkey_request_def valid_admin_id_def is_ascii_alphanumeric_def is_ascii_lowercase_def
      DAY_KEY_LIFETIME_SECONDS_def admin_key_grant_shape_error_def admin_key_scopes_are_canonical_def
      non_empty_token_def utf8_bytes_def ws3_def half_is_weak_def plain_crypto_def and_then_def ok_or_def)

lemmas sample_passkey_defs = sample_bootstrap_def sample_issue_def sample_revoke_def

lemma sample_hex_nonce: "is_lower_hex (CHR ''a'')" "is_lower_hex (CHR ''b'')" "is_lower_hex (CHR ''c'')"
  by (simp_all add: is_lower_hex_def)

lemma sample_request_sel:
  "pr_proof (sample_passkey_request c action) =
   DP_WebAuthn ''cred'' (sample_rp_id @ [CHR 0x05] @ replicate 4 (CHR 0x00)) ''client'' (take 8 sample_point)"
  "pi_nonce (pr_intent (sample_passkey_request c action)) = replicate 64 c"
  "pi_action (pr_intent (sample_passkey_request c action)) = action"
  "pi_mother_node_id (pr_intent (sample_passkey_request c action)) = ''m''"
  "pi_ledger_id (pr_intent (sample_passkey_request c action)) = ''l''"
  by (simp_all add: sample_passkey_request_def)

lemma sample_state_sel:
  "ps_mother_node_id (sample_passkey_state keys nonces) = ''m''"
  "ps_ledger_id (sample_passkey_state keys nonces) = ''l''"
  "ps_root (sample_passkey_state keys nonces) = sample_passkey_root"
  "ps_day_keys (sample_passkey_state keys nonces) = keys"
  "ps_last_decided_at (sample_passkey_state keys nonces) = sample_ts 10"
  "(''webauthn:cred'', replicate 64 c) \<in> ps_used_nonces (sample_passkey_state keys nonces) \<longleftrightarrow> c \<in> set nonces"
  by (auto simp: sample_passkey_state_def dest: arg_cong [where f = hd])

lemma sample_accept:
  assumes "is_lower_hex c" and "c \<notin> set nonces"
    and "passkey_required_scope action = Inr scope" and "case action of PA_Command _ _ _ \<Rightarrow> False | _ \<Rightarrow> True"
    and "passkey_apply_action plain_crypto plain_jiff (sample_passkey_state keys nonces)
           (pr_intent (sample_passkey_request c action)) (sample_ts 10) = Inr keys'"
  shows "evaluate_passkey_admin_transition plain_crypto plain_jiff sample_web
     (Some (sample_passkey_state keys nonces)) (sample_passkey_request c action) (sample_ts 10) =
   Inr (sample_passkey_state keys' (c # nonces))"
  using assms
  by (simp add: evaluate_passkey_admin_transition_def sample_intent_valid sample_request_sel
      sample_state_sel passkey_check_proof_def sample_proof_valid and_then_Inr Let_def)
    (simp add: sample_passkey_state_def)

lemma sample_requests:
  "evaluate_passkey_admin_transition plain_crypto plain_jiff sample_web None sample_bootstrap (sample_ts 10) =
   Inr (sample_passkey_state Map.empty ''a'')"
  "evaluate_passkey_admin_transition plain_crypto plain_jiff sample_web
     (Some (sample_passkey_state Map.empty ''a'')) sample_issue (sample_ts 10) =
   Inr (sample_passkey_state [''day'' \<mapsto> sample_lease] ''ba'')"
  "evaluate_passkey_admin_transition plain_crypto plain_jiff sample_web
     (Some (sample_passkey_state [''day'' \<mapsto> sample_lease] ''ba'')) sample_revoke (sample_ts 10) =
   Inr (sample_passkey_state [''day'' \<mapsto> revoke_lease sample_lease] ''cba'')"
proof -
  show "evaluate_passkey_admin_transition plain_crypto plain_jiff sample_web None sample_bootstrap
      (sample_ts 10) = Inr (sample_passkey_state Map.empty ''a'')"
    by (simp add: evaluate_passkey_admin_transition_def sample_bootstrap_def sample_intent_valid
        sample_hex_nonce sample_request_sel sample_proof_valid and_then_Inr Let_def sample_passkey_state_def)
  show "evaluate_passkey_admin_transition plain_crypto plain_jiff sample_web
     (Some (sample_passkey_state Map.empty ''a'')) sample_issue (sample_ts 10) =
   Inr (sample_passkey_state [''day'' \<mapsto> sample_lease] ''ba'')"
    unfolding sample_issue_def
    by (rule sample_accept)
      (simp_all add: sample_hex_nonce passkey_required_scope_def passkey_apply_action_def
        sample_request_sel sample_state_sel sample_lease_valid and_then_Inr Let_def
        flip: sample_lease_def [unfolded sample_issue_def])
  show "evaluate_passkey_admin_transition plain_crypto plain_jiff sample_web
     (Some (sample_passkey_state [''day'' \<mapsto> sample_lease] ''ba'')) sample_revoke (sample_ts 10) =
   Inr (sample_passkey_state [''day'' \<mapsto> revoke_lease sample_lease] ''cba'')"
    unfolding sample_revoke_def
    by (rule sample_accept)
      (simp_all add: sample_hex_nonce passkey_required_scope_def passkey_apply_action_def
        sample_request_sel sample_state_sel and_then_Inr ok_or_def)
qed

text \<open>
  C28: In every administrative state reached from a passkey genesis, each day key is a lease
  of this Mother and ledger under its own grant identifier, a day-to-day grant without
  startup gate, ML-DSA key or issuance ceiling, that expires after it was issued and at most
  24 hours later.
\<close>

theorem passkey_leases_bounded:
  assumes "reach (passkey_init C J W) (passkey_step C J W) s" and "ps_day_keys s g = Some k"
  shows "ag_grant_id (dk_grant k) = g \<and> dk_mother_node_id k = ps_mother_node_id s \<and>
    dk_ledger_id k = ps_ledger_id s \<and> well_shaped (dk_grant k) \<and> ag_class (dk_grant k) = DayToDay \<and>
    ag_ml_dsa65_public_key (dk_grant k) = None \<and> ag_issuance_ceiling (dk_grant k) = None \<and>
    (\<exists>e issued expires. ag_expires_at (dk_grant k) = Some e \<and> instant J (dk_issued_at k) = Inr issued \<and>
      instant J e = Inr expires \<and> issued < expires \<and>
      expires \<le> issued + 24 * 60 * 60 * 1000000000)"
proof -
  from passkey.reach_inv [OF assms(1)] assms(2)
  have "ag_grant_id (dk_grant k) = g" "dk_mother_node_id k = ps_mother_node_id s"
    "dk_ledger_id k = ps_ledger_id s" and v: "Ed25519DayKeyV1_validate C J k = Inr ()"
    by (auto simp: passkey_inv_def)
  with v show ?thesis
    by (auto simp: Ed25519DayKeyV1_validate_def result_simps admin_simps instant_add_seconds_def
        DAY_KEY_LIFETIME_SECONDS_def Let_def split: if_split_asm)
qed

theorem passkey_leases_bounded_witness:
  "\<exists>issued expires. instant plain_jiff (dk_issued_at sample_lease) = Inr issued \<and> issued < expires \<and>
     expires \<le> issued + 24 * 60 * 60 * 1000000000"
proof -
  have "reach (passkey_init plain_crypto plain_jiff sample_web)
      (passkey_step plain_crypto plain_jiff sample_web)
      (sample_passkey_state [''day'' \<mapsto> sample_lease] ''ba'')"
    using sample_requests by (meson passkey_init_def passkey_step reach.intros)
  moreover have "ps_day_keys (sample_passkey_state [''day'' \<mapsto> sample_lease] ''ba'') ''day'' = Some sample_lease"
    by (simp add: sample_state_sel)
  ultimately show ?thesis using passkey_leases_bounded by blast
qed

text \<open>
  C20: An accepted request is never accepted again: in whatever state later requests lead to,
  at whatever time, a request with the same signer and nonce is refused.
\<close>

theorem passkey_no_replay:
  assumes "evaluate_passkey_admin_transition C J W (Some s) request now = Inr t"
    and "(passkey_step C J W)\<^sup>*\<^sup>* t u"
    and "signer_ref (pr_proof again) = signer_ref (pr_proof request)"
    and "pi_nonce (pr_intent again) = pi_nonce (pr_intent request)"
  shows "\<exists>e. evaluate_passkey_admin_transition C J W (Some u) again later = Inl e"
proof -
  from assms(1) have "(signer_ref (pr_proof request), pi_nonce (pr_intent request)) \<in> ps_used_nonces t"
    by (elim passkey_accepted) simp
  with passkey_steps_nonces [OF assms(2)] assms(3,4)
  have "(signer_ref (pr_proof again), pi_nonce (pr_intent again)) \<in> ps_used_nonces u" by auto
  then show ?thesis
    by (cases "evaluate_passkey_admin_transition C J W (Some u) again later")
      (auto elim: passkey_accepted)
qed

theorem passkey_no_replay_witness:
  "\<exists>e. evaluate_passkey_admin_transition plain_crypto plain_jiff sample_web
     (Some (sample_passkey_state [''day'' \<mapsto> revoke_lease sample_lease] ''cba'')) sample_issue
     (sample_ts 10) = Inl e"
  by (rule passkey_no_replay [OF sample_requests(2), where again = sample_issue])
    (simp_all add: r_into_rtranclp passkey_step [OF sample_requests(3)])

text \<open>
  C27: Revocation is permanent: once a day key is revoked, no later state accepts a request
  proved by it, whatever its action and time.
\<close>

theorem passkey_revoked_forever:
  assumes "ps_day_keys s g = Some k" and "ag_grant_state (dk_grant k) = AGS_Revoked"
    and "(passkey_step C J W)\<^sup>*\<^sup>* s t" and "pr_proof request = DP_Ed25519 g signature"
  shows "\<exists>e. evaluate_passkey_admin_transition C J W (Some t) request now = Inl e"
proof -
  from passkey_steps_lease_after [OF assms(3), of g] assms(1,2)
  obtain k' where k': "ps_day_keys t g = Some k'" "ag_grant_state (dk_grant k') = AGS_Revoked"
    by (auto simp: lease_after_def)
  have "\<not> day_key_authorizes C J k' scope now" for scope
    using k'(2) by (simp add: day_key_authorizes_def)
  with k'(1) assms(4) have "passkey_check_proof C J W t request scope now \<noteq> Inr ()" for scope
    by (auto simp: passkey_check_proof_def result_simps)
  then show ?thesis
    by (cases "evaluate_passkey_admin_transition C J W (Some t) request now")
      (auto elim: passkey_accepted)
qed

theorem passkey_revoked_forever_witness:
  "\<exists>e. evaluate_passkey_admin_transition plain_crypto plain_jiff sample_web
     (Some (sample_passkey_state [''day'' \<mapsto> revoke_lease sample_lease] ''cba''))
     (sample_issue\<lparr>pr_proof := DP_Ed25519 ''day'' ''sig''\<rparr>) (sample_ts 10) = Inl e"
  by (rule passkey_revoked_forever [of "sample_passkey_state [''day'' \<mapsto> revoke_lease sample_lease] ''cba''"
        "''day''" "revoke_lease sample_lease" _ _ _ _ _ "''sig''"])
    (simp_all add: sample_state_sel)

end
