(* ===== verification/MCT_Recovery.thy ===== *)
theory MCT_Recovery
  imports MCT_Passkey "HOL-Library.Char_ord" "HOL-Library.List_Lexorder"
begin

text \<open>
  Guardian recovery, the records and their checks (\<open>recovery/mod.rs\<close>, \<open>recovery/internal.rs\<close>):
  hybrid recovery keys, the Voice genesis, owner bindings, the fixed 2-of-3 guardian policy,
  replacement intents, guardian approvals and the verification of a quorum.

  Transcripts are the JSON of a record framed with a domain. Serialization is the parameter
  \<open>Serde\<close>, one function per serialized record type.
\<close>

named_theorems recovery_simps \<open>recovery checks as predicates\<close>

section \<open>Records (mod.rs)\<close>

definition RECOVERY_APPROVAL_MAX_MS :: u64 where
  "RECOVERY_APPROVAL_MAX_MS = 600000"

definition RECOVERY_DELAY_MS :: u64 where
  "RECOVERY_DELAY_MS = 86400000"

definition RECOVERY_COMPLETION_WINDOW_MS :: u64 where
  "RECOVERY_COMPLETION_WINDOW_MS = 604800000"

datatype RecoveryError =
    RE_Malformed | RE_SignatureInvalid | RE_PolicyInvalid | RE_VoiceMismatch
  | RE_DuplicatePrincipal | RE_StaleAuthority | RE_ReplacementNotFresh | RE_TimeInvalid
  | RE_QuorumInvalid | RE_UnappointedGuardian

type_synonym 'a recovery_result = "RecoveryError + 'a"
type_synonym RecoverySignatureV1 = string
type_synonym VoiceIdV1 = string
type_synonym RecoveryDigestV1 = string

record RecoveryPublicKeyV1 =
  rk_ed25519 :: AdminKeyPublicHalf
  rk_ml_dsa65 :: MlDsa65PublicKey

record VoiceGenesisV1 =
  vg_public_key :: RecoveryPublicKeyV1
  vg_possession :: RecoverySignatureV1

record OwnerBindingV1 =
  ob_mother_node_id :: MctNodeId
  ob_ledger_id :: string
  ob_epoch_id :: string
  ob_binding_id :: string
  ob_voice_id :: VoiceIdV1
  ob_root_generation :: u64
  ob_root_key :: RecoveryPublicKeyV1

record RecoveryGuardianV1 =
  rg_mother_node_id :: MctNodeId
  rg_owner_binding_id :: string
  rg_owner_binding_generation :: u64
  rg_voice_id :: VoiceIdV1
  rg_signing_key :: RecoveryPublicKeyV1

record GuardianRecoveryPolicyV1 =
  gp_generation :: u64
  gp_target :: OwnerBindingV1
  gp_guardians :: "RecoveryGuardianV1 array3"

record RecoveryIntentV1 =
  ri_request_id :: string
  ri_target :: OwnerBindingV1
  ri_policy_generation :: u64
  ri_policy_digest :: RecoveryDigestV1
  ri_replacement_key :: RecoveryPublicKeyV1
  ri_not_before :: Timestamp
  ri_expires_at :: Timestamp

record RecoveryRequestV1 =
  rr_intent :: RecoveryIntentV1
  rr_replacement_possession :: RecoverySignatureV1

datatype RecoveryApprovalPurposeV1 = RP_Initiate | RP_Cancel | RP_Complete string

record GuardianRecoveryApprovalV1 =
  gv_guardian_node_id :: MctNodeId
  gv_issued_at :: Timestamp
  gv_expires_at :: Timestamp
  gv_signature :: RecoverySignatureV1

record GuardianApprovalMessageV1 =
  gm_policy :: GuardianRecoveryPolicyV1
  gm_intent :: RecoveryIntentV1
  gm_purpose :: RecoveryApprovalPurposeV1
  gm_guardian_node_id :: MctNodeId
  gm_issued_at :: Timestamp
  gm_expires_at :: Timestamp

record ApprovalStatement =
  st_policy_digest :: RecoveryDigestV1
  st_intent_digest :: RecoveryDigestV1
  st_guardian :: RecoveryGuardianV1
  st_purpose :: RecoveryApprovalPurposeV1
  st_issued_at :: Timestamp
  st_expires_at :: Timestamp

record RecoveryQuorumEvidenceV1 =
  qe_intent_digest :: RecoveryDigestV1
  qe_policy_digest :: RecoveryDigestV1
  qe_purpose :: RecoveryApprovalPurposeV1
  qe_guardians :: "MctNodeId list"
  qe_valid_until :: Timestamp

record Serde =
  rj_key :: "RecoveryPublicKeyV1 \<Rightarrow> string option"
  rj_policy :: "GuardianRecoveryPolicyV1 \<Rightarrow> string option"
  rj_intent :: "RecoveryIntentV1 \<Rightarrow> string option"
  rj_statement :: "ApprovalStatement \<Rightarrow> string option"

section \<open>Codecs (internal.rs)\<close>

definition RecoverySignatureV1_try_from :: "Crypto \<Rightarrow> string \<Rightarrow> RecoverySignatureV1 recovery_result" where
  "RecoverySignatureV1_try_from C val =
     (if length val \<noteq> ADMIN_HYBRID_SIGNATURE_LEN * 2 then Inl RE_Malformed
      else and_then (ok_or (cy_hex_decode C val) RE_Malformed) (\<lambda>bytes.
        if length bytes \<noteq> ADMIN_HYBRID_SIGNATURE_LEN \<or> bytes ! 0 \<noteq> ADMIN_SIG_V1_TAG
        then Inl RE_Malformed else Inr (cy_hex_encode C bytes)))"

text \<open>\<open>digest_codec!\<close>, for the two prefixes it is used with.\<close>

definition VOICE_PREFIX :: string where
  "VOICE_PREFIX = ''mct-voice-v1:''"

definition DIGEST_PREFIX :: string where
  "DIGEST_PREFIX = ''mct-recovery-digest-v1:''"

definition digest_serialize :: "Crypto \<Rightarrow> string \<Rightarrow> string \<Rightarrow> string" where
  "digest_serialize C prefix bytes = prefix @ cy_hex_encode C bytes"

definition digest_deserialize :: "Crypto \<Rightarrow> string \<Rightarrow> string \<Rightarrow> string + string" where
  "digest_deserialize C prefix s =
     and_then (ok_or (strip_prefix prefix s) ''wrong digest domain'') (\<lambda>hex.
     if length hex \<noteq> 64 \<or> \<not> list_all is_lower_hex hex then Inl ''invalid canonical digest''
     else case cy_hex_decode C hex of
       Some bytes \<Rightarrow> if length bytes = 32 then Inr bytes else Inl ''invalid hex''
     | None \<Rightarrow> Inl ''invalid hex'')"

section \<open>Checks (internal.rs)\<close>

definition transcript :: "string \<Rightarrow> string option \<Rightarrow> string recovery_result" where
  "transcript domain to_json =
     and_then (ok_or to_json RE_Malformed) (\<lambda>json. Inr (frame u64_be_bytes [domain, json]))"

definition recovery_digest :: "Crypto \<Rightarrow> string \<Rightarrow> string option \<Rightarrow> RecoveryDigestV1 recovery_result" where
  "recovery_digest C domain to_json =
     and_then (transcript domain to_json) (\<lambda>bytes. Inr (cy_blake3 C bytes))"

definition validate_key :: "Crypto \<Rightarrow> RecoveryPublicKeyV1 \<Rightarrow> unit recovery_result" where
  "validate_key C key = (if half_is_weak C (rk_ed25519 key) then Inl RE_Malformed else Inr ())"

definition verify_signature ::
  "Crypto \<Rightarrow> RecoveryPublicKeyV1 \<Rightarrow> string \<Rightarrow> RecoverySignatureV1 \<Rightarrow> unit recovery_result" where
  "verify_signature C key message signature =
     and_then (validate_key C key) (\<lambda>_.
     case verify_admin_hybrid_signature C (rk_ed25519 key) (rk_ml_dsa65 key) message signature of
       Inl _ \<Rightarrow> Inl RE_SignatureInvalid | Inr _ \<Rightarrow> Inr ())"

definition genesis_message :: "Crypto \<Rightarrow> Serde \<Rightarrow> RecoveryPublicKeyV1 \<Rightarrow> string recovery_result" where
  "genesis_message C S key =
     and_then (validate_key C key) (\<lambda>_. transcript ''mct-voice-genesis/v1'' (rj_key S key))"

definition VoiceGenesisV1_verify :: "Crypto \<Rightarrow> Serde \<Rightarrow> VoiceGenesisV1 \<Rightarrow> VoiceIdV1 recovery_result" where
  "VoiceGenesisV1_verify C S g =
     and_then (genesis_message C S (vg_public_key g)) (\<lambda>message.
     and_then (verify_signature C (vg_public_key g) message (vg_possession g)) (\<lambda>_.
     Inr (cy_blake3 C message)))"

definition validate_id :: "string \<Rightarrow> unit recovery_result" where
  "validate_id ident =
     (if ident = [] \<or> 128 < length ident \<or>
         \<not> list_all (\<lambda>b. is_ascii_alphanumeric b \<or> b \<in> set ''-_.:'') ident
      then Inl RE_Malformed else Inr ())"

fun validate_ids :: "string list \<Rightarrow> unit recovery_result" where
  "validate_ids [] = Inr ()"
| "validate_ids (ident # rest) = and_then (validate_id ident) (\<lambda>_. validate_ids rest)"

definition validate_binding :: "Crypto \<Rightarrow> OwnerBindingV1 \<Rightarrow> unit recovery_result" where
  "validate_binding C b =
     and_then (validate_ids [ob_mother_node_id b, ob_ledger_id b, ob_epoch_id b, ob_binding_id b]) (\<lambda>_.
     if ob_root_generation b = 0 then Inl RE_Malformed else validate_key C (ob_root_key b))"

definition shares_key_half :: "RecoveryPublicKeyV1 \<Rightarrow> RecoveryPublicKeyV1 \<Rightarrow> bool" where
  "shares_key_half a b \<longleftrightarrow> rk_ed25519 a = rk_ed25519 b \<or> rk_ml_dsa65 a = rk_ml_dsa65 b"

text \<open>The loop over guardians; \<open>prior\<close> is the slice before the current index.\<close>

fun validate_guardians ::
  "Crypto \<Rightarrow> OwnerBindingV1 \<Rightarrow> RecoveryGuardianV1 list \<Rightarrow> RecoveryGuardianV1 list \<Rightarrow>
   unit recovery_result" where
  "validate_guardians C target prior [] = Inr ()"
| "validate_guardians C target prior (g # rest) =
     and_then (validate_id (rg_mother_node_id g)) (\<lambda>_.
     and_then (validate_id (rg_owner_binding_id g)) (\<lambda>_.
     and_then (validate_key C (rg_signing_key g)) (\<lambda>_.
     if rg_owner_binding_generation g = 0 then Inl RE_PolicyInvalid
     else if rg_voice_id g \<noteq> ob_voice_id target then Inl RE_VoiceMismatch
     else if rg_mother_node_id g = ob_mother_node_id target \<or>
             shares_key_half (rg_signing_key g) (ob_root_key target) \<or>
             list_ex (\<lambda>p. rg_mother_node_id p = rg_mother_node_id g \<or>
                          shares_key_half (rg_signing_key p) (rg_signing_key g)) prior
     then Inl RE_DuplicatePrincipal
     else if prior \<noteq> [] \<and> rg_mother_node_id g \<le> rg_mother_node_id (last prior)
     then Inl RE_PolicyInvalid
     else validate_guardians C target (prior @ [g]) rest)))"

definition validate_policy :: "Crypto \<Rightarrow> GuardianRecoveryPolicyV1 \<Rightarrow> unit recovery_result" where
  "validate_policy C policy =
     and_then (validate_binding C (gp_target policy)) (\<lambda>_.
     if gp_generation policy = 0 then Inl RE_PolicyInvalid
     else validate_guardians C (gp_target policy) [] (array3_list (gp_guardians policy)))"

definition policy_digest :: "Crypto \<Rightarrow> Serde \<Rightarrow> GuardianRecoveryPolicyV1 \<Rightarrow> RecoveryDigestV1 recovery_result" where
  "policy_digest C S policy =
     and_then (validate_policy C policy) (\<lambda>_.
     recovery_digest C ''mct-guardian-policy/v1'' (rj_policy S policy))"

definition validate_interval :: "jiff \<Rightarrow> Timestamp \<Rightarrow> Timestamp \<Rightarrow> u64 \<Rightarrow> unit recovery_result" where
  "validate_interval J start finish max_ms =
     and_then (ok_or (checked_add_milliseconds J start max_ms) RE_TimeInvalid) (\<lambda>upper.
     if finish \<le> start \<or> upper < finish then Inl RE_TimeInvalid else Inr ())"

definition validate_intent_shape :: "Crypto \<Rightarrow> jiff \<Rightarrow> RecoveryIntentV1 \<Rightarrow> unit recovery_result" where
  "validate_intent_shape C J intent =
     and_then (validate_id (ri_request_id intent)) (\<lambda>_.
     and_then (validate_binding C (ri_target intent)) (\<lambda>_.
     and_then (validate_key C (ri_replacement_key intent)) (\<lambda>_.
     if ri_policy_generation intent = 0 then Inl RE_PolicyInvalid
     else validate_interval J (ri_not_before intent) (ri_expires_at intent)
            (RECOVERY_DELAY_MS + RECOVERY_COMPLETION_WINDOW_MS))))"

definition intent_signing_message ::
  "Crypto \<Rightarrow> jiff \<Rightarrow> Serde \<Rightarrow> RecoveryIntentV1 \<Rightarrow> string recovery_result" where
  "intent_signing_message C J S intent =
     and_then (validate_intent_shape C J intent) (\<lambda>_.
     transcript ''mct-recovery-replacement-possession/v1'' (rj_intent S intent))"

definition intent_digest ::
  "Crypto \<Rightarrow> jiff \<Rightarrow> Serde \<Rightarrow> RecoveryIntentV1 \<Rightarrow> RecoveryDigestV1 recovery_result" where
  "intent_digest C J S intent =
     and_then (validate_intent_shape C J intent) (\<lambda>_.
     recovery_digest C ''mct-recovery-intent/v1'' (rj_intent S intent))"

definition validate_intent_policy ::
  "Crypto \<Rightarrow> jiff \<Rightarrow> Serde \<Rightarrow> RecoveryIntentV1 \<Rightarrow> GuardianRecoveryPolicyV1 \<Rightarrow> unit recovery_result" where
  "validate_intent_policy C J S intent policy =
     and_then (validate_intent_shape C J intent) (\<lambda>_.
     if ri_target intent \<noteq> gp_target policy \<or> ri_policy_generation intent \<noteq> gp_generation policy
     then Inl RE_StaleAuthority
     else and_then (policy_digest C S policy) (\<lambda>d.
       if ri_policy_digest intent \<noteq> d then Inl RE_StaleAuthority
       else if shares_key_half (ri_replacement_key intent) (ob_root_key (gp_target policy)) \<or>
               list_ex (\<lambda>g. shares_key_half (ri_replacement_key intent) (rg_signing_key g))
                 (array3_list (gp_guardians policy))
       then Inl RE_ReplacementNotFresh else Inr ()))"

definition validate_purpose :: "RecoveryApprovalPurposeV1 \<Rightarrow> unit recovery_result" where
  "validate_purpose purpose =
     (case purpose of RP_Complete challenge \<Rightarrow> validate_id challenge | _ \<Rightarrow> Inr ())"

definition find_guardian :: "GuardianRecoveryPolicyV1 \<Rightarrow> MctNodeId \<Rightarrow> RecoveryGuardianV1 recovery_result" where
  "find_guardian policy node =
     ok_or (List.find (\<lambda>g. rg_mother_node_id g = node) (array3_list (gp_guardians policy)))
       RE_UnappointedGuardian"

definition approval_message ::
  "Crypto \<Rightarrow> jiff \<Rightarrow> Serde \<Rightarrow> GuardianApprovalMessageV1 \<Rightarrow> string recovery_result" where
  "approval_message C J S parts =
     and_then (validate_intent_policy C J S (gm_intent parts) (gm_policy parts)) (\<lambda>_.
     and_then (validate_purpose (gm_purpose parts)) (\<lambda>_.
     and_then (validate_interval J (gm_issued_at parts) (gm_expires_at parts) RECOVERY_APPROVAL_MAX_MS) (\<lambda>_.
     if gm_issued_at parts < ri_not_before (gm_intent parts) \<or>
        ri_expires_at (gm_intent parts) < gm_expires_at parts
     then Inl RE_TimeInvalid
     else
       and_then (find_guardian (gm_policy parts) (gm_guardian_node_id parts)) (\<lambda>guardian.
       and_then (policy_digest C S (gm_policy parts)) (\<lambda>pd.
       and_then (intent_digest C J S (gm_intent parts)) (\<lambda>idg.
       transcript ''mct-guardian-recovery-approval/v1''
         (rj_statement S
            \<lparr>st_policy_digest = pd, st_intent_digest = idg, st_guardian = guardian,
             st_purpose = gm_purpose parts, st_issued_at = gm_issued_at parts,
             st_expires_at = gm_expires_at parts\<rparr>)))))))"

definition approval_parts ::
  "GuardianRecoveryPolicyV1 \<Rightarrow> RecoveryIntentV1 \<Rightarrow> RecoveryApprovalPurposeV1 \<Rightarrow>
   GuardianRecoveryApprovalV1 \<Rightarrow> GuardianApprovalMessageV1" where
  "approval_parts policy intent purpose approval =
     \<lparr>gm_policy = policy, gm_intent = intent, gm_purpose = purpose,
      gm_guardian_node_id = gv_guardian_node_id approval, gm_issued_at = gv_issued_at approval,
      gm_expires_at = gv_expires_at approval\<rparr>"

text \<open>The loop over approvals, with its two accumulators.\<close>

fun quorum_loop ::
  "Crypto \<Rightarrow> jiff \<Rightarrow> Serde \<Rightarrow> GuardianRecoveryPolicyV1 \<Rightarrow> RecoveryIntentV1 \<Rightarrow>
   RecoveryApprovalPurposeV1 \<Rightarrow> Timestamp \<Rightarrow> MctNodeId list \<Rightarrow> Timestamp \<Rightarrow>
   GuardianRecoveryApprovalV1 list \<Rightarrow> (MctNodeId list \<times> Timestamp) recovery_result" where
  "quorum_loop C J S policy intent purpose now guardians valid_until [] = Inr (guardians, valid_until)"
| "quorum_loop C J S policy intent purpose now guardians valid_until (approval # rest) =
     (if gv_guardian_node_id approval \<in> set guardians then Inl RE_DuplicatePrincipal
      else if now < gv_issued_at approval \<or> gv_expires_at approval \<le> now then Inl RE_TimeInvalid
      else
        and_then (approval_message C J S (approval_parts policy intent purpose approval)) (\<lambda>message.
        and_then (find_guardian policy (gv_guardian_node_id approval)) (\<lambda>guardian.
        and_then (verify_signature C (rg_signing_key guardian) message (gv_signature approval)) (\<lambda>_.
        quorum_loop C J S policy intent purpose now (guardians @ [gv_guardian_node_id approval])
          (ts_min valid_until (gv_expires_at approval)) rest))))"

definition verify_recovery_quorum ::
  "Crypto \<Rightarrow> jiff \<Rightarrow> Serde \<Rightarrow> OwnerBindingV1 \<Rightarrow> GuardianRecoveryPolicyV1 \<Rightarrow> RecoveryRequestV1 \<Rightarrow>
   RecoveryApprovalPurposeV1 \<Rightarrow> GuardianRecoveryApprovalV1 list \<Rightarrow> Timestamp \<Rightarrow>
   RecoveryQuorumEvidenceV1 recovery_result" where
  "verify_recovery_quorum C J S current_binding policy request purpose approvals now =
     and_then (validate_policy C policy) (\<lambda>_.
     if current_binding \<noteq> gp_target policy then Inl RE_StaleAuthority
     else
       and_then (validate_intent_policy C J S (rr_intent request) policy) (\<lambda>_.
       and_then (validate_purpose purpose) (\<lambda>_.
       if now < ri_not_before (rr_intent request) \<or> ri_expires_at (rr_intent request) \<le> now
       then Inl RE_TimeInvalid
       else if \<not> (2 \<le> length approvals \<and> length approvals \<le> 3) then Inl RE_QuorumInvalid
       else
         and_then (intent_signing_message C J S (rr_intent request)) (\<lambda>message.
         and_then (verify_signature C (ri_replacement_key (rr_intent request)) message
                     (rr_replacement_possession request)) (\<lambda>_.
         and_then (quorum_loop C J S policy (rr_intent request) purpose now []
                     (ri_expires_at (rr_intent request)) approvals) (\<lambda>(guardians, valid_until).
         and_then (intent_digest C J S (rr_intent request)) (\<lambda>idg.
         and_then (policy_digest C S policy) (\<lambda>pd.
         Inr \<lparr>qe_intent_digest = idg, qe_policy_digest = pd, qe_purpose = purpose,
              qe_guardians = sort guardians, qe_valid_until = valid_until\<rparr>))))))))"

section \<open>The checks as predicates\<close>

lemma validate_key_ok [recovery_simps]: "validate_key C k = Inr u \<longleftrightarrow> \<not> half_is_weak C (rk_ed25519 k)"
  by (simp add: validate_key_def)

lemma validate_id_ok [recovery_simps]: "validate_id s = Inr u \<longleftrightarrow> valid_admin_id s"
  by (auto simp: validate_id_def valid_admin_id_def)

lemma shares_key_half_sym: "shares_key_half a b \<longleftrightarrow> shares_key_half b a"
  by (auto simp: shares_key_half_def)

text \<open>A key signed a message: it is not weak and both halves verify.\<close>

definition signed_by :: "Crypto \<Rightarrow> RecoveryPublicKeyV1 \<Rightarrow> string \<Rightarrow> RecoverySignatureV1 \<Rightarrow> bool" where
  "signed_by C key message signature \<longleftrightarrow>
     \<not> half_is_weak C (rk_ed25519 key) \<and>
     (\<exists>bytes. strict_hex_decode C signature = Some bytes \<and>
        hybrid_verifies C (rk_ed25519 key) (rk_ml_dsa65 key) message bytes)"

lemma verify_signature_ok [recovery_simps]:
  "verify_signature C key message signature = Inr u \<longleftrightarrow> signed_by C key message signature"
  unfolding verify_signature_def signed_by_def
    verify_hybrid_iff [of C "rk_ed25519 key" "rk_ml_dsa65 key" message signature "()", symmetric]
  by (auto simp: recovery_simps result_simps split: sum.split)

lemma validate_interval_ok [recovery_simps]:
  "validate_interval J start finish ms = Inr u \<longleftrightarrow>
   (\<exists>upper. checked_add_milliseconds J start ms = Some upper \<and> start < finish \<and> finish \<le> upper)"
  by (auto simp: validate_interval_def result_simps)

lemma find_guardian_ok [recovery_simps]:
  "find_guardian policy node = Inr g \<longleftrightarrow>
   List.find (\<lambda>g. rg_mother_node_id g = node) (array3_list (gp_guardians policy)) = Some g"
  by (simp add: find_guardian_def result_simps)

definition binding_ok :: "Crypto \<Rightarrow> OwnerBindingV1 \<Rightarrow> bool" where
  "binding_ok C b \<longleftrightarrow>
     list_all valid_admin_id [ob_mother_node_id b, ob_ledger_id b, ob_epoch_id b, ob_binding_id b] \<and>
     ob_root_generation b \<noteq> 0 \<and> \<not> half_is_weak C (rk_ed25519 (ob_root_key b))"

lemma validate_binding_ok [recovery_simps]: "validate_binding C b = Inr u \<longleftrightarrow> binding_ok C b"
  by (auto simp: validate_binding_def binding_ok_def result_simps recovery_simps)

definition guardian_ok :: "Crypto \<Rightarrow> OwnerBindingV1 \<Rightarrow> RecoveryGuardianV1 \<Rightarrow> bool" where
  "guardian_ok C target g \<longleftrightarrow>
     valid_admin_id (rg_mother_node_id g) \<and> valid_admin_id (rg_owner_binding_id g) \<and>
     \<not> half_is_weak C (rk_ed25519 (rg_signing_key g)) \<and> rg_owner_binding_generation g \<noteq> 0 \<and>
     rg_voice_id g = ob_voice_id target \<and> rg_mother_node_id g \<noteq> ob_mother_node_id target \<and>
     \<not> shares_key_half (rg_signing_key g) (ob_root_key target)"

definition guardians_ordered :: "RecoveryGuardianV1 \<Rightarrow> RecoveryGuardianV1 \<Rightarrow> bool" where
  "guardians_ordered a b \<longleftrightarrow>
     rg_mother_node_id a < rg_mother_node_id b \<and> \<not> shares_key_half (rg_signing_key a) (rg_signing_key b)"

definition policy_ok :: "Crypto \<Rightarrow> GuardianRecoveryPolicyV1 \<Rightarrow> bool" where
  "policy_ok C p \<longleftrightarrow>
     binding_ok C (gp_target p) \<and> gp_generation p \<noteq> 0 \<and>
     list_all (guardian_ok C (gp_target p)) (array3_list (gp_guardians p)) \<and>
     sorted_wrt guardians_ordered (array3_list (gp_guardians p))"

lemma validate_policy_ok [recovery_simps]: "validate_policy C p = Inr u \<longleftrightarrow> policy_ok C p"
proof -
  obtain a b c where g: "gp_guardians p = Array3 a b c" by (cases "gp_guardians p")
  show ?thesis
    by (auto simp: validate_policy_def policy_ok_def g result_simps recovery_simps guardian_ok_def
        guardians_ordered_def list_ex_iff not_le dest: order.strict_trans split: if_split_asm)
qed

lemma policy_guardians_distinct:
  "policy_ok C p \<Longrightarrow> distinct (map rg_mother_node_id (array3_list (gp_guardians p)))"
  by (cases "gp_guardians p") (auto simp: policy_ok_def guardians_ordered_def)

text \<open>What a verified quorum rests on.\<close>

definition approval_verified ::
  "Crypto \<Rightarrow> jiff \<Rightarrow> Serde \<Rightarrow> GuardianRecoveryPolicyV1 \<Rightarrow> RecoveryIntentV1 \<Rightarrow>
   RecoveryApprovalPurposeV1 \<Rightarrow> Timestamp \<Rightarrow> GuardianRecoveryApprovalV1 \<Rightarrow> bool" where
  "approval_verified C J S policy intent purpose now a \<longleftrightarrow>
     gv_issued_at a \<le> now \<and> now < gv_expires_at a \<and>
     (\<exists>g message. g \<in> set (array3_list (gp_guardians policy)) \<and>
        rg_mother_node_id g = gv_guardian_node_id a \<and>
        approval_message C J S (approval_parts policy intent purpose a) = Inr message \<and>
        signed_by C (rg_signing_key g) message (gv_signature a))"

lemma quorum_loop_ok:
  assumes "quorum_loop C J S policy intent purpose now seen valid_until approvals = Inr (gs, v)"
    and "distinct seen"
  shows "gs = seen @ map gv_guardian_node_id approvals \<and> distinct gs \<and>
    (\<forall>a \<in> set approvals. approval_verified C J S policy intent purpose now a \<and> v \<le> gv_expires_at a) \<and>
    v \<le> valid_until"
  using assms
proof (induction approvals arbitrary: seen valid_until)
  case (Cons a as)
  from Cons.prems(1) obtain message g where
    fresh: "gv_guardian_node_id a \<notin> set seen" and
    time: "gv_issued_at a \<le> now" "now < gv_expires_at a" and
    msg: "approval_message C J S (approval_parts policy intent purpose a) = Inr message" and
    g: "List.find (\<lambda>g. rg_mother_node_id g = gv_guardian_node_id a)
          (array3_list (gp_guardians policy)) = Some g" and
    sig: "signed_by C (rg_signing_key g) message (gv_signature a)" and
    rest: "quorum_loop C J S policy intent purpose now (seen @ [gv_guardian_node_id a])
          (ts_min valid_until (gv_expires_at a)) as = Inr (gs, v)"
    by (auto simp: result_simps recovery_simps split: if_split_asm)
  have "approval_verified C J S policy intent purpose now a"
    using time msg sig find_SomeD [OF g] by (auto simp: approval_verified_def)
  moreover from Cons.prems(2) fresh have "distinct (seen @ [gv_guardian_node_id a])" by simp
  note Cons.IH [OF rest this]
  moreover have "v \<le> gv_expires_at a \<and> v \<le> valid_until"
    if "v \<le> ts_min valid_until (gv_expires_at a)"
    using that ts_min_le by (meson order_trans)
  ultimately show ?case by (elim conjE) (simp add: Ball_def)
qed simp

definition intent_fits :: "Crypto \<Rightarrow> jiff \<Rightarrow> Serde \<Rightarrow> RecoveryIntentV1 \<Rightarrow> GuardianRecoveryPolicyV1 \<Rightarrow> bool" where
  "intent_fits C J S intent policy \<longleftrightarrow>
     ri_target intent = gp_target policy \<and> ri_policy_generation intent = gp_generation policy \<and>
     policy_digest C S policy = Inr (ri_policy_digest intent) \<and>
     valid_admin_id (ri_request_id intent) \<and>
     \<not> half_is_weak C (rk_ed25519 (ri_replacement_key intent)) \<and>
     \<not> shares_key_half (ri_replacement_key intent) (ob_root_key (gp_target policy)) \<and>
     (\<forall>g \<in> set (array3_list (gp_guardians policy)).
        \<not> shares_key_half (ri_replacement_key intent) (rg_signing_key g))"

lemma validate_intent_policy_ok:
  "validate_intent_policy C J S intent policy = Inr u \<Longrightarrow> intent_fits C J S intent policy"
  by (auto simp: validate_intent_policy_def validate_intent_shape_def intent_fits_def result_simps
      recovery_simps list_ex_iff split: if_split_asm)

definition quorum_verified ::
  "Crypto \<Rightarrow> jiff \<Rightarrow> Serde \<Rightarrow> GuardianRecoveryPolicyV1 \<Rightarrow> RecoveryRequestV1 \<Rightarrow>
   RecoveryApprovalPurposeV1 \<Rightarrow> GuardianRecoveryApprovalV1 list \<Rightarrow> Timestamp \<Rightarrow> bool" where
  "quorum_verified C J S policy request purpose approvals now \<longleftrightarrow>
     policy_ok C policy \<and> intent_fits C J S (rr_intent request) policy \<and>
     ri_not_before (rr_intent request) \<le> now \<and> now < ri_expires_at (rr_intent request) \<and>
     (\<exists>message. intent_signing_message C J S (rr_intent request) = Inr message \<and>
        signed_by C (ri_replacement_key (rr_intent request)) message (rr_replacement_possession request)) \<and>
     2 \<le> length approvals \<and> length approvals \<le> 3 \<and>
     distinct (map gv_guardian_node_id approvals) \<and>
     (\<forall>a \<in> set approvals. approval_verified C J S policy (rr_intent request) purpose now a)"

lemma verify_recovery_quorum_ok:
  assumes "verify_recovery_quorum C J S b policy request purpose approvals now = Inr e"
  shows "b = gp_target policy \<and> quorum_verified C J S policy request purpose approvals now \<and>
    qe_purpose e = purpose \<and> set (qe_guardians e) = gv_guardian_node_id ` set approvals \<and>
    sorted (qe_guardians e) \<and> qe_valid_until e \<le> ri_expires_at (rr_intent request)"
proof -
  from assms obtain gs v m where
    q: "quorum_loop C J S policy (rr_intent request) purpose now [] (ri_expires_at (rr_intent request))
          approvals = Inr (gs, v)" and
    m: "intent_signing_message C J S (rr_intent request) = Inr m"
       "signed_by C (ri_replacement_key (rr_intent request)) m (rr_replacement_possession request)" and
    rest: "policy_ok C policy" "b = gp_target policy"
      "validate_intent_policy C J S (rr_intent request) policy = Inr ()"
      "ri_not_before (rr_intent request) \<le> now" "now < ri_expires_at (rr_intent request)"
      "2 \<le> length approvals" "length approvals \<le> 3" and
    e: "qe_purpose e = purpose" "qe_guardians e = sort gs" "qe_valid_until e = v"
    by (auto simp: verify_recovery_quorum_def result_simps recovery_simps split: if_split_asm)
  from quorum_loop_ok [OF q] have "gs = map gv_guardian_node_id approvals"
    "distinct (map gv_guardian_node_id approvals)" "v \<le> ri_expires_at (rr_intent request)"
    "\<forall>a \<in> set approvals. approval_verified C J S policy (rr_intent request) purpose now a"
    by auto
  with m rest e validate_intent_policy_ok [OF rest(3)] show ?thesis
    by (simp add: quorum_verified_def)
qed

text \<open>
  Every approval of a quorum comes from a guardian of the policy, so the approvals name at
  least two distinct guardians.
\<close>

lemma quorum_guardians:
  assumes "quorum_verified C J S policy request purpose approvals now"
  shows "2 \<le> card (gv_guardian_node_id ` set approvals) \<and>
    gv_guardian_node_id ` set approvals \<subseteq> rg_mother_node_id ` set (array3_list (gp_guardians policy))"
proof -
  from assms have "card (gv_guardian_node_id ` set approvals) = length approvals"
    by (metis distinct_card length_map list.set_map quorum_verified_def)
  moreover have "gv_guardian_node_id a \<in> rg_mother_node_id ` set (array3_list (gp_guardians policy))"
    if "a \<in> set approvals" for a
  proof -
    from assms that have "approval_verified C J S policy (rr_intent request) purpose now a"
      by (simp add: quorum_verified_def)
    then show ?thesis unfolding approval_verified_def by (elim conjE exE) (rule image_eqI, erule sym, assumption)
  qed
  ultimately show ?thesis using assms by (auto simp: quorum_verified_def)
qed

text \<open>Transcripts of different domains differ.\<close>

lemma transcript_inj:
  assumes "transcript d j = Inr m" and "transcript d' j' = Inr m"
    and "j = Some t \<Longrightarrow> addressable [d, t]" and "j' = Some t' \<Longrightarrow> addressable [d', t']"
    and "j = Some t" and "j' = Some t'"
  shows "d = d' \<and> t = t'"
  using assms u64_be.frame_inj [of "[d, t]" "[d', t']"]
  by (auto simp: transcript_def result_simps)

end
