(* ===== verification/MCT_Recovery_Lifecycle.thy ===== *)
theory MCT_Recovery_Lifecycle
  imports MCT_Recovery
begin

text \<open>
  The guardian recovery state machine: enrollment, protected edits of the guardian roster
  (\<open>recovery/policy.rs\<close>) and the transition evaluator (\<open>recovery/lifecycle.rs\<close>).

  A \<open>BTreeSet<String>\<close> is a set, \<open>[T; 3]\<close> an \<open>array3\<close>. A function that updates
  \<open>next: &mut State\<close> returns the updated state.
\<close>

section \<open>Records\<close>

record GuardianEnrollmentV1 =
  ge_genesis :: VoiceGenesisV1
  ge_policy :: GuardianRecoveryPolicyV1
  ge_guardian_bindings :: "OwnerBindingV1 array3"
  ge_genesis_authorization :: RecoverySignatureV1
  ge_owner_authorization :: RecoverySignatureV1
  ge_guardian_owner_acceptances :: "RecoverySignatureV1 array3"
  ge_guardian_acceptances :: "RecoverySignatureV1 array3"

record RecoveryClockV1 =
  rc_writer_epoch :: string
  rc_wall_time :: Timestamp
  rc_monotonic_ms :: u64

record RecoveryChallengeV1 =
  ch_value :: string
  ch_issued_at :: Timestamp
  ch_expires_at :: Timestamp

record PendingGuardianRecoveryV1 =
  pg_request :: RecoveryRequestV1
  pg_wait_origin :: RecoveryClockV1
  pg_deadline :: Timestamp
  pg_challenge :: "RecoveryChallengeV1 option"

record GuardianPolicyEditV1 =
  pe_edit_id :: string
  pe_policy :: GuardianRecoveryPolicyV1
  pe_guardian_bindings :: "OwnerBindingV1 array3"
  pe_enabled :: bool
  pe_issued_at :: Timestamp
  pe_expires_at :: Timestamp

record GuardianPolicyAcceptanceV1 =
  pc_guardian_node_id :: MctNodeId
  pc_owner_signature :: RecoverySignatureV1
  pc_guardian_signature :: RecoverySignatureV1

record GuardianPolicyProposalV1 =
  pp_edit :: GuardianPolicyEditV1
  pp_owner_signature :: RecoverySignatureV1
  pp_acceptances :: "GuardianPolicyAcceptanceV1 list"
  pp_approvals :: "GuardianRecoveryApprovalV1 list"

datatype GuardianPolicyApprovalPurposeV1 = PAP_Propose | PAP_Cancel

record PendingGuardianPolicyV1 =
  pn_edit :: GuardianPolicyEditV1
  pn_wait_origin :: RecoveryClockV1

record GuardianPolicyStateV1 =
  py_enabled :: bool
  py_guardian_bindings :: "OwnerBindingV1 array3"
  py_pending :: "PendingGuardianPolicyV1 option"
  py_consumed_edit_ids :: "string set"
  py_retired_guardian_keys :: "RecoveryPublicKeyV1 list"

record GuardianRecoveryStateV1 =
  rs_enrollment :: GuardianEnrollmentV1
  rs_binding :: OwnerBindingV1
  rs_policy :: GuardianRecoveryPolicyV1
  rs_revision :: u64
  rs_clock :: RecoveryClockV1
  rs_pending :: "PendingGuardianRecoveryV1 option"
  rs_consumed_request_ids :: "string set"
  rs_consumed_challenges :: "string set"
  rs_retired_root_keys :: "RecoveryPublicKeyV1 list"
  rs_maintenance :: bool
  rs_policy_edits :: "GuardianPolicyStateV1 option"

datatype GuardianRecoveryActionV1 =
    ProposePolicy GuardianPolicyProposalV1
  | CancelPolicy "RecoverySignatureV1 option" "GuardianRecoveryApprovalV1 list"
  | ActivatePolicy
  | Enroll GuardianEnrollmentV1
  | Initiate RecoveryRequestV1 "GuardianRecoveryApprovalV1 list"
  | RebaseWait
  | IssueChallenge string
  | CancelRecovery "GuardianRecoveryApprovalV1 list"
  | ExpireRecovery
  | CompleteRecovery "GuardianRecoveryApprovalV1 list"
  | Resume string RecoverySignatureV1

record GuardianRecoveryCommandV1 =
  gc_expected_state :: "RecoveryDigestV1 option"
  gc_action :: GuardianRecoveryActionV1

record StateSerde =
  ss_serde :: Serde
  ss_enrollment :: "VoiceGenesisV1 \<Rightarrow> GuardianRecoveryPolicyV1 \<Rightarrow> OwnerBindingV1 array3 \<Rightarrow> string option"
  ss_state :: "GuardianRecoveryStateV1 \<Rightarrow> string option"
  ss_resume :: "RecoveryDigestV1 \<Rightarrow> string \<Rightarrow> string option"
  ss_edit :: "RecoveryDigestV1 \<Rightarrow> GuardianPolicyEditV1 \<Rightarrow> string option"
  ss_acceptance :: "RecoveryDigestV1 \<Rightarrow> GuardianPolicyEditV1 \<Rightarrow> MctNodeId \<Rightarrow> string option"
  ss_vote :: "RecoveryDigestV1 \<Rightarrow> GuardianPolicyEditV1 \<Rightarrow> GuardianPolicyApprovalPurposeV1 \<Rightarrow>
    RecoveryGuardianV1 \<Rightarrow> Timestamp \<Rightarrow> Timestamp \<Rightarrow> string option"

section \<open>Enrollment (lifecycle.rs)\<close>

definition enrollment_signing_message ::
  "StateSerde \<Rightarrow> VoiceGenesisV1 \<Rightarrow> GuardianRecoveryPolicyV1 \<Rightarrow> OwnerBindingV1 array3 \<Rightarrow>
   string recovery_result" where
  "enrollment_signing_message S genesis policy bindings =
     transcript ''mct-guardian-enrollment/v1'' (ss_enrollment S genesis policy bindings)"

definition binding_matches_guardian :: "VoiceIdV1 \<Rightarrow> RecoveryGuardianV1 \<Rightarrow> OwnerBindingV1 \<Rightarrow> bool" where
  "binding_matches_guardian voice guardian binding \<longleftrightarrow>
     rg_mother_node_id guardian = ob_mother_node_id binding \<and>
     rg_owner_binding_id guardian = ob_binding_id binding \<and>
     rg_owner_binding_generation guardian = ob_root_generation binding \<and>
     ob_voice_id binding = voice"

fun enrollment_loop ::
  "Crypto \<Rightarrow> VoiceIdV1 \<Rightarrow> string \<Rightarrow> RecoveryPublicKeyV1 list \<Rightarrow>
   (RecoveryGuardianV1 \<times> OwnerBindingV1 \<times> RecoverySignatureV1 \<times> RecoverySignatureV1) list \<Rightarrow>
   RecoveryPublicKeyV1 list recovery_result" where
  "enrollment_loop C voice message keys [] = Inr keys"
| "enrollment_loop C voice message keys ((guardian, binding, owner_sig, guardian_sig) # rest) =
     and_then (validate_binding C binding) (\<lambda>_.
     if \<not> binding_matches_guardian voice guardian binding then Inl RE_StaleAuthority
     else
       and_then (verify_signature C (ob_root_key binding) message owner_sig) (\<lambda>_.
       and_then (verify_signature C (rg_signing_key guardian) message guardian_sig) (\<lambda>_.
       enrollment_loop C voice message (keys @ [ob_root_key binding, rg_signing_key guardian]) rest)))"

text \<open>The final loop of \<open>verify\<close> and of \<open>validate_bindings\<close>: no key shares a half with an earlier one.\<close>

fun keys_unshared :: "RecoveryPublicKeyV1 list \<Rightarrow> RecoveryPublicKeyV1 list \<Rightarrow> unit recovery_result" where
  "keys_unshared prior [] = Inr ()"
| "keys_unshared prior (key # rest) =
     (if list_ex (\<lambda>p. shares_key_half p key) prior then Inl RE_DuplicatePrincipal
      else keys_unshared (prior @ [key]) rest)"

definition GuardianEnrollmentV1_verify ::
  "Crypto \<Rightarrow> StateSerde \<Rightarrow> GuardianEnrollmentV1 \<Rightarrow> unit recovery_result" where
  "GuardianEnrollmentV1_verify C S e =
     and_then (validate_policy C (ge_policy e)) (\<lambda>_.
     and_then (VoiceGenesisV1_verify C (ss_serde S) (ge_genesis e)) (\<lambda>voice.
     if voice \<noteq> ob_voice_id (gp_target (ge_policy e)) then Inl RE_VoiceMismatch
     else if gp_generation (ge_policy e) \<noteq> 1 \<or> ob_root_generation (gp_target (ge_policy e)) \<noteq> 1
     then Inl RE_StaleAuthority
     else
       and_then (enrollment_signing_message S (ge_genesis e) (ge_policy e) (ge_guardian_bindings e)) (\<lambda>message.
       and_then (verify_signature C (vg_public_key (ge_genesis e)) message (ge_genesis_authorization e)) (\<lambda>_.
       and_then (verify_signature C (ob_root_key (gp_target (ge_policy e))) message (ge_owner_authorization e)) (\<lambda>_.
       and_then (enrollment_loop C (ob_voice_id (gp_target (ge_policy e))) message
                   [vg_public_key (ge_genesis e), ob_root_key (gp_target (ge_policy e))]
                   (zip (array3_list (gp_guardians (ge_policy e)))
                      (zip (array3_list (ge_guardian_bindings e))
                         (zip (array3_list (ge_guardian_owner_acceptances e))
                            (array3_list (ge_guardian_acceptances e)))))) (\<lambda>keys.
       keys_unshared [] keys))))))"

section \<open>Policy state (policy.rs)\<close>

definition recovery_enabled :: "GuardianRecoveryStateV1 \<Rightarrow> bool" where
  "recovery_enabled s = (case rs_policy_edits s of None \<Rightarrow> True | Some edits \<Rightarrow> py_enabled edits)"

definition guardian_bindings :: "GuardianRecoveryStateV1 \<Rightarrow> OwnerBindingV1 array3" where
  "guardian_bindings s =
     (case rs_policy_edits s of None \<Rightarrow> ge_guardian_bindings (rs_enrollment s)
      | Some edits \<Rightarrow> py_guardian_bindings edits)"

definition pending_policy_edit :: "GuardianRecoveryStateV1 \<Rightarrow> PendingGuardianPolicyV1 option" where
  "pending_policy_edit s = (case rs_policy_edits s of None \<Rightarrow> None | Some edits \<Rightarrow> py_pending edits)"

definition state_digest :: "Crypto \<Rightarrow> StateSerde \<Rightarrow> GuardianRecoveryStateV1 \<Rightarrow> RecoveryDigestV1 recovery_result" where
  "state_digest C S s = recovery_digest C ''mct-guardian-recovery-state/v1'' (ss_state S s)"

definition policy_cancel_signing_message ::
  "Crypto \<Rightarrow> StateSerde \<Rightarrow> GuardianRecoveryStateV1 \<Rightarrow> string recovery_result" where
  "policy_cancel_signing_message C S s =
     (if recovery_enabled s then Inl RE_PolicyInvalid
      else
        and_then (ok_or (pending_policy_edit s) RE_StaleAuthority) (\<lambda>pending.
        and_then (state_digest C S s) (\<lambda>d.
        transcript ''mct-guardian-policy-owner-cancel/v1'' (ss_edit S d (pn_edit pending)))))"

fun binding_loop ::
  "Crypto \<Rightarrow> VoiceIdV1 \<Rightarrow> RecoveryPublicKeyV1 list \<Rightarrow> (RecoveryGuardianV1 \<times> OwnerBindingV1) list \<Rightarrow>
   RecoveryPublicKeyV1 list recovery_result" where
  "binding_loop C voice keys [] = Inr keys"
| "binding_loop C voice keys ((guardian, binding) # rest) =
     and_then (validate_binding C binding) (\<lambda>_.
     if \<not> binding_matches_guardian voice guardian binding then Inl RE_StaleAuthority
     else binding_loop C voice (keys @ [rg_signing_key guardian, ob_root_key binding]) rest)"

definition validate_bindings ::
  "Crypto \<Rightarrow> GuardianRecoveryStateV1 \<Rightarrow> GuardianRecoveryPolicyV1 \<Rightarrow> OwnerBindingV1 array3 \<Rightarrow>
   unit recovery_result" where
  "validate_bindings C s policy bindings =
     and_then (validate_policy C policy) (\<lambda>_.
     and_then (binding_loop C (ob_voice_id (rs_binding s))
                 [vg_public_key (ge_genesis (rs_enrollment s)), ob_root_key (rs_binding s)]
                 (zip (array3_list (gp_guardians policy)) (array3_list bindings))) (\<lambda>keys.
     keys_unshared [] keys))"

definition GuardianPolicyEditV1_validate ::
  "Crypto \<Rightarrow> jiff \<Rightarrow> GuardianPolicyEditV1 \<Rightarrow> GuardianRecoveryStateV1 \<Rightarrow> unit recovery_result" where
  "GuardianPolicyEditV1_validate C J edit current =
     and_then (validate_id (pe_edit_id edit)) (\<lambda>_.
     and_then (validate_interval J (pe_issued_at edit) (pe_expires_at edit) RECOVERY_APPROVAL_MAX_MS) (\<lambda>_.
     if gp_target (pe_policy edit) \<noteq> rs_binding current \<or>
        checked_add_u64 (gp_generation (rs_policy current)) 1 \<noteq> Some (gp_generation (pe_policy edit))
     then Inl RE_StaleAuthority
     else
       and_then (validate_bindings C current (pe_policy edit) (pe_guardian_bindings edit)) (\<lambda>_.
       if pe_enabled edit = recovery_enabled current \<and>
          gp_guardians (pe_policy edit) = gp_guardians (rs_policy current) \<and>
          pe_guardian_bindings edit = guardian_bindings current
       then Inl RE_PolicyInvalid
       else if \<not> pe_enabled edit \<and>
          (\<not> recovery_enabled current \<or>
           gp_guardians (pe_policy edit) \<noteq> gp_guardians (rs_policy current) \<or>
           pe_guardian_bindings edit \<noteq> guardian_bindings current)
       then Inl RE_PolicyInvalid
       else Inr ())))"

definition owner_signing_message ::
  "Crypto \<Rightarrow> jiff \<Rightarrow> StateSerde \<Rightarrow> GuardianPolicyEditV1 \<Rightarrow> GuardianRecoveryStateV1 \<Rightarrow>
   string recovery_result" where
  "owner_signing_message C J S edit current =
     and_then (GuardianPolicyEditV1_validate C J edit current) (\<lambda>_.
     and_then (state_digest C S current) (\<lambda>d.
     transcript ''mct-guardian-policy-owner-proposal/v1'' (ss_edit S d edit)))"

definition acceptance_signing_message ::
  "Crypto \<Rightarrow> jiff \<Rightarrow> StateSerde \<Rightarrow> GuardianPolicyEditV1 \<Rightarrow> GuardianRecoveryStateV1 \<Rightarrow> MctNodeId \<Rightarrow>
   string recovery_result" where
  "acceptance_signing_message C J S edit current guardian =
     and_then (GuardianPolicyEditV1_validate C J edit current) (\<lambda>_.
     if \<not> list_ex (\<lambda>g. rg_mother_node_id g = guardian) (array3_list (gp_guardians (pe_policy edit)))
     then Inl RE_UnappointedGuardian
     else
       and_then (state_digest C S current) (\<lambda>d.
       transcript ''mct-guardian-policy-acceptance/v1'' (ss_acceptance S d edit guardian)))"

definition guardian_policy_approval_message ::
  "Crypto \<Rightarrow> jiff \<Rightarrow> StateSerde \<Rightarrow> GuardianRecoveryStateV1 \<Rightarrow> GuardianPolicyEditV1 \<Rightarrow>
   GuardianPolicyApprovalPurposeV1 \<Rightarrow> MctNodeId \<Rightarrow> Timestamp \<Rightarrow> Timestamp \<Rightarrow> string recovery_result" where
  "guardian_policy_approval_message C J S current edit purpose guardian issued_at expires_at =
     (if \<not> recovery_enabled current then Inl RE_PolicyInvalid
      else
        and_then (GuardianPolicyEditV1_validate C J edit current) (\<lambda>_.
        and_then (validate_interval J issued_at expires_at RECOVERY_APPROVAL_MAX_MS) (\<lambda>_.
        if purpose = PAP_Propose \<and> (issued_at < pe_issued_at edit \<or> pe_expires_at edit < expires_at)
        then Inl RE_TimeInvalid
        else
          and_then (find_guardian (rs_policy current) guardian) (\<lambda>member.
          and_then (state_digest C S current) (\<lambda>d.
          transcript ''mct-guardian-policy-quorum/v1''
            (ss_vote S d edit purpose member issued_at expires_at))))))"

fun votes_loop ::
  "Crypto \<Rightarrow> jiff \<Rightarrow> StateSerde \<Rightarrow> GuardianRecoveryStateV1 \<Rightarrow> GuardianPolicyEditV1 \<Rightarrow>
   GuardianPolicyApprovalPurposeV1 \<Rightarrow> Timestamp \<Rightarrow> MctNodeId set \<Rightarrow>
   GuardianRecoveryApprovalV1 list \<Rightarrow> unit recovery_result" where
  "votes_loop C J S current edit purpose now seen [] = Inr ()"
| "votes_loop C J S current edit purpose now seen (approval # rest) =
     (if gv_guardian_node_id approval \<in> seen then Inl RE_DuplicatePrincipal
      else if now < gv_issued_at approval \<or> gv_expires_at approval \<le> now then Inl RE_TimeInvalid
      else
        and_then (guardian_policy_approval_message C J S current edit purpose
                    (gv_guardian_node_id approval) (gv_issued_at approval) (gv_expires_at approval)) (\<lambda>message.
        and_then (find_guardian (rs_policy current) (gv_guardian_node_id approval)) (\<lambda>guardian.
        and_then (verify_signature C (rg_signing_key guardian) message (gv_signature approval)) (\<lambda>_.
        votes_loop C J S current edit purpose now (insert (gv_guardian_node_id approval) seen) rest))))"

definition verify_votes ::
  "Crypto \<Rightarrow> jiff \<Rightarrow> StateSerde \<Rightarrow> GuardianRecoveryStateV1 \<Rightarrow> GuardianPolicyEditV1 \<Rightarrow>
   GuardianPolicyApprovalPurposeV1 \<Rightarrow> GuardianRecoveryApprovalV1 list \<Rightarrow> Timestamp \<Rightarrow>
   unit recovery_result" where
  "verify_votes C J S current edit purpose approvals now =
     (if \<not> (2 \<le> length approvals \<and> length approvals \<le> 3) then Inl RE_QuorumInvalid
      else votes_loop C J S current edit purpose now {} approvals)"

fun acceptance_loop ::
  "Crypto \<Rightarrow> jiff \<Rightarrow> StateSerde \<Rightarrow> GuardianRecoveryStateV1 \<Rightarrow> GuardianPolicyEditV1 \<Rightarrow> MctNodeId set \<Rightarrow>
   GuardianPolicyAcceptanceV1 list \<Rightarrow> MctNodeId set recovery_result" where
  "acceptance_loop C J S current edit accepted [] = Inr accepted"
| "acceptance_loop C J S current edit accepted (acceptance # rest) =
     (if pc_guardian_node_id acceptance \<in> accepted then Inl RE_DuplicatePrincipal
      else
        and_then (ok_or (position (\<lambda>g. rg_mother_node_id g = pc_guardian_node_id acceptance)
                    (array3_list (gp_guardians (pe_policy edit)))) RE_UnappointedGuardian) (\<lambda>index.
        and_then (acceptance_signing_message C J S edit current (pc_guardian_node_id acceptance)) (\<lambda>bytes.
        and_then (verify_signature C (ob_root_key (array3_list (pe_guardian_bindings edit) ! index)) bytes
                    (pc_owner_signature acceptance)) (\<lambda>_.
        and_then (verify_signature C (rg_signing_key (array3_list (gp_guardians (pe_policy edit)) ! index)) bytes
                    (pc_guardian_signature acceptance)) (\<lambda>_.
        acceptance_loop C J S current edit (insert (pc_guardian_node_id acceptance) accepted) rest)))))"

text \<open>A guardian that stays needs no new acceptance: same record and same owner binding.\<close>

definition guardian_unchanged ::
  "GuardianRecoveryStateV1 \<Rightarrow> RecoveryGuardianV1 \<Rightarrow> OwnerBindingV1 \<Rightarrow> bool" where
  "guardian_unchanged current guardian binding \<longleftrightarrow>
     recovery_enabled current \<and>
     list_ex (\<lambda>(old, old_binding). old = guardian \<and> old_binding = binding)
       (zip (array3_list (gp_guardians (rs_policy current))) (array3_list (guardian_bindings current)))"

definition roster_accepted :: "GuardianRecoveryStateV1 \<Rightarrow> GuardianPolicyEditV1 \<Rightarrow> MctNodeId set \<Rightarrow> bool" where
  "roster_accepted current edit accepted \<longleftrightarrow>
     list_all (\<lambda>(guardian, binding). guardian_unchanged current guardian binding \<or>
                 rg_mother_node_id guardian \<in> accepted)
       (zip (array3_list (gp_guardians (pe_policy edit))) (array3_list (pe_guardian_bindings edit)))"

definition policy_propose ::
  "Crypto \<Rightarrow> jiff \<Rightarrow> StateSerde \<Rightarrow> GuardianRecoveryStateV1 \<Rightarrow> GuardianRecoveryStateV1 \<Rightarrow>
   GuardianPolicyProposalV1 \<Rightarrow> RecoveryClockV1 \<Rightarrow> GuardianRecoveryStateV1 recovery_result" where
  "policy_propose C J S current next proposal clock =
     (let edit = pp_edit proposal in
      if rs_maintenance current \<or> rs_pending current \<noteq> None \<or> pending_policy_edit current \<noteq> None \<or>
         (case rs_policy_edits current of None \<Rightarrow> False
          | Some edits \<Rightarrow> pe_edit_id edit \<in> py_consumed_edit_ids edits)
      then Inl RE_StaleAuthority
      else
        and_then (GuardianPolicyEditV1_validate C J edit current) (\<lambda>_.
        if rc_wall_time clock < pe_issued_at edit \<or> pe_expires_at edit \<le> rc_wall_time clock
        then Inl RE_TimeInvalid
        else
          and_then (owner_signing_message C J S edit current) (\<lambda>message.
          and_then (verify_signature C (ob_root_key (rs_binding current)) message
                      (pp_owner_signature proposal)) (\<lambda>_.
          and_then (if recovery_enabled current
                    then verify_votes C J S current edit PAP_Propose (pp_approvals proposal)
                           (rc_wall_time clock)
                    else ensure (pp_approvals proposal = []) RE_QuorumInvalid) (\<lambda>_.
          and_then (ensure (length (pp_acceptances proposal) \<le> 3) RE_QuorumInvalid) (\<lambda>_.
          and_then (acceptance_loop C J S current edit {} (pp_acceptances proposal)) (\<lambda>accepted.
          if pe_enabled edit \<and> \<not> roster_accepted current edit accepted then Inl RE_QuorumInvalid
          else
            let edits = (case rs_policy_edits next of
                  None \<Rightarrow> \<lparr>py_enabled = True, py_guardian_bindings = guardian_bindings current,
                           py_pending = None, py_consumed_edit_ids = {},
                           py_retired_guardian_keys = []\<rparr>
                | Some edits \<Rightarrow> edits)
            in Inr (next\<lparr>rs_policy_edits := Some (edits\<lparr>
                 py_consumed_edit_ids := insert (pe_edit_id edit) (py_consumed_edit_ids edits),
                 py_pending := Some \<lparr>pn_edit = edit, pn_wait_origin = clock\<rparr>\<rparr>)\<rparr>))))))))"

definition clear_pending_policy :: "GuardianRecoveryStateV1 \<Rightarrow> GuardianRecoveryStateV1 recovery_result" where
  "clear_pending_policy next =
     and_then (ok_or (rs_policy_edits next) RE_StaleAuthority) (\<lambda>edits.
     Inr (next\<lparr>rs_policy_edits := Some (edits\<lparr>py_pending := None\<rparr>)\<rparr>))"

definition policy_cancel ::
  "Crypto \<Rightarrow> jiff \<Rightarrow> StateSerde \<Rightarrow> GuardianRecoveryStateV1 \<Rightarrow> GuardianRecoveryStateV1 \<Rightarrow>
   RecoverySignatureV1 option \<Rightarrow> GuardianRecoveryApprovalV1 list \<Rightarrow> RecoveryClockV1 \<Rightarrow>
   GuardianRecoveryStateV1 recovery_result" where
  "policy_cancel C J S current next owner_signature approvals clock =
     and_then (ok_or (pending_policy_edit current) RE_StaleAuthority) (\<lambda>pending.
     and_then
       (if recovery_enabled current
        then if owner_signature \<noteq> None then Inl RE_PolicyInvalid
             else verify_votes C J S current (pn_edit pending) PAP_Cancel approvals (rc_wall_time clock)
        else if approvals \<noteq> [] then Inl RE_QuorumInvalid
             else
               and_then (policy_cancel_signing_message C S current) (\<lambda>message.
               and_then (ok_or owner_signature RE_SignatureInvalid) (\<lambda>signature.
               verify_signature C (ob_root_key (rs_binding current)) message signature))) (\<lambda>_.
     clear_pending_policy next))"

definition push_new :: "RecoveryPublicKeyV1 list \<Rightarrow> RecoveryPublicKeyV1 \<Rightarrow> RecoveryPublicKeyV1 list" where
  "push_new keys key = (if key \<in> set keys then keys else keys @ [key])"

definition delay_elapsed :: "jiff \<Rightarrow> RecoveryClockV1 \<Rightarrow> RecoveryClockV1 \<Rightarrow> unit recovery_result" where
  "delay_elapsed J origin clock =
     (if rc_writer_epoch origin \<noteq> rc_writer_epoch clock \<or>
         (case checked_sub_u64 (rc_monotonic_ms clock) (rc_monotonic_ms origin) of
            None \<Rightarrow> True | Some elapsed \<Rightarrow> elapsed < RECOVERY_DELAY_MS)
      then Inl RE_TimeInvalid
      else
        and_then (ok_or (checked_add_milliseconds J (rc_wall_time origin) RECOVERY_DELAY_MS) RE_TimeInvalid)
          (\<lambda>earliest. if rc_wall_time clock < earliest then Inl RE_TimeInvalid else Inr ()))"

definition policy_activate ::
  "jiff \<Rightarrow> GuardianRecoveryStateV1 \<Rightarrow> RecoveryClockV1 \<Rightarrow> GuardianRecoveryStateV1 recovery_result" where
  "policy_activate J next clock =
     and_then (ok_or (pending_policy_edit next) RE_StaleAuthority) (\<lambda>pending.
     and_then (delay_elapsed J (pn_wait_origin pending) clock) (\<lambda>_.
     let edit = pn_edit pending; old_bindings = guardian_bindings next in
     and_then (ok_or (rs_policy_edits next) RE_StaleAuthority) (\<lambda>extension.
     let retired = foldl push_new (py_retired_guardian_keys extension)
           (map rg_signing_key (array3_list (gp_guardians (rs_policy next))) @
            map ob_root_key (array3_list old_bindings))
     in Inr (next\<lparr>rs_policy_edits := Some (extension\<lparr>
               py_retired_guardian_keys := retired, py_enabled := pe_enabled edit,
               py_guardian_bindings := pe_guardian_bindings edit, py_pending := None\<rparr>),
             rs_policy := pe_policy edit\<rparr>))))"

definition guardian_policy_state_is_consistent ::
  "Crypto \<Rightarrow> jiff \<Rightarrow> GuardianRecoveryStateV1 \<Rightarrow> unit recovery_result" where
  "guardian_policy_state_is_consistent C J s =
     (if gp_generation (rs_policy s) < ob_root_generation (rs_binding s) then Inl RE_StaleAuthority
      else
        and_then (validate_bindings C s (rs_policy s) (guardian_bindings s)) (\<lambda>_.
        if (case rs_policy_edits s of None \<Rightarrow> False | Some edits \<Rightarrow> py_consumed_edit_ids edits = {})
        then Inl RE_Malformed
        else if \<not> recovery_enabled s \<and> (rs_pending s \<noteq> None \<or> rs_maintenance s)
        then Inl RE_PolicyInvalid
        else case pending_policy_edit s of
          None \<Rightarrow> Inr ()
        | Some pending \<Rightarrow>
            if rs_maintenance s \<or> rs_pending s \<noteq> None \<or>
               \<not> (case rs_policy_edits s of None \<Rightarrow> False
                  | Some edits \<Rightarrow> pe_edit_id (pn_edit pending) \<in> py_consumed_edit_ids edits)
            then Inl RE_PolicyInvalid
            else GuardianPolicyEditV1_validate C J (pn_edit pending) s))"

section \<open>Transitions (lifecycle.rs)\<close>

definition resume_signing_message ::
  "Crypto \<Rightarrow> StateSerde \<Rightarrow> GuardianRecoveryStateV1 \<Rightarrow> string \<Rightarrow> string recovery_result" where
  "resume_signing_message C S s snapshot =
     (if length snapshot \<noteq> 64 \<or> \<not> list_all is_lower_hex snapshot then Inl RE_Malformed
      else
        and_then (state_digest C S s) (\<lambda>d.
        transcript ''mct-guardian-recovery-resume/v1'' (ss_resume S d snapshot)))"

definition checked_deadline :: "jiff \<Rightarrow> Timestamp \<Rightarrow> u64 \<Rightarrow> Timestamp recovery_result" where
  "checked_deadline J time ms = ok_or (checked_add_milliseconds J time ms) RE_TimeInvalid"

definition wait_finished ::
  "jiff \<Rightarrow> PendingGuardianRecoveryV1 \<Rightarrow> RecoveryClockV1 \<Rightarrow> unit recovery_result" where
  "wait_finished J pending clock =
     and_then (delay_elapsed J (pg_wait_origin pending) clock) (\<lambda>_.
     if pg_deadline pending \<le> rc_wall_time clock then Inl RE_TimeInvalid else Inr ())"

definition replacement_reused :: "GuardianRecoveryStateV1 \<Rightarrow> RecoveryPublicKeyV1 \<Rightarrow> bool" where
  "replacement_reused s key \<longleftrightarrow>
     list_ex (\<lambda>k. shares_key_half k key) (rs_retired_root_keys s) \<or>
     shares_key_half (vg_public_key (ge_genesis (rs_enrollment s))) key \<or>
     list_ex (\<lambda>b. shares_key_half (ob_root_key b) key) (array3_list (guardian_bindings s)) \<or>
     (case rs_policy_edits s of None \<Rightarrow> False
      | Some edits \<Rightarrow> list_ex (\<lambda>k. shares_key_half k key) (py_retired_guardian_keys edits))"

definition act_initiate ::
  "Crypto \<Rightarrow> jiff \<Rightarrow> StateSerde \<Rightarrow> GuardianRecoveryStateV1 \<Rightarrow> RecoveryRequestV1 \<Rightarrow>
   GuardianRecoveryApprovalV1 list \<Rightarrow> RecoveryClockV1 \<Rightarrow> GuardianRecoveryStateV1 recovery_result" where
  "act_initiate C J S next request approvals clock =
     (if \<not> recovery_enabled next \<or> pending_policy_edit next \<noteq> None \<or> rs_pending next \<noteq> None \<or>
         ri_request_id (rr_intent request) \<in> rs_consumed_request_ids next
      then Inl RE_StaleAuthority
      else if replacement_reused next (ri_replacement_key (rr_intent request))
      then Inl RE_ReplacementNotFresh
      else
        and_then (verify_recovery_quorum C J (ss_serde S) (rs_binding next) (rs_policy next) request
                    RP_Initiate approvals (rc_wall_time clock)) (\<lambda>_.
        and_then (checked_deadline J (rc_wall_time clock) RECOVERY_DELAY_MS) (\<lambda>earliest.
        and_then (checked_deadline J earliest RECOVERY_COMPLETION_WINDOW_MS) (\<lambda>latest.
        let deadline = ts_min latest (ri_expires_at (rr_intent request)) in
        if deadline \<le> earliest then Inl RE_TimeInvalid
        else Inr (next\<lparr>
          rs_consumed_request_ids :=
            insert (ri_request_id (rr_intent request)) (rs_consumed_request_ids next),
          rs_pending := Some \<lparr>pg_request = request, pg_wait_origin = clock, pg_deadline = deadline,
                             pg_challenge = None\<rparr>,
          rs_maintenance := True\<rparr>)))))"

definition act_rebase_wait ::
  "GuardianRecoveryStateV1 \<Rightarrow> bool \<Rightarrow> RecoveryClockV1 \<Rightarrow> GuardianRecoveryStateV1 recovery_result" where
  "act_rebase_wait next new_tenure clock =
     (if \<not> new_tenure then Inl RE_TimeInvalid
      else Inr (next\<lparr>
        rs_pending := map_option (\<lambda>p. p\<lparr>pg_wait_origin := clock, pg_challenge := None\<rparr>) (rs_pending next),
        rs_policy_edits := map_option (\<lambda>e. e\<lparr>py_pending :=
          map_option (\<lambda>p. p\<lparr>pn_wait_origin := clock\<rparr>) (py_pending e)\<rparr>) (rs_policy_edits next)\<rparr>))"

definition act_issue_challenge ::
  "jiff \<Rightarrow> GuardianRecoveryStateV1 \<Rightarrow> string \<Rightarrow> RecoveryClockV1 \<Rightarrow> GuardianRecoveryStateV1 recovery_result" where
  "act_issue_challenge J next challenge clock =
     and_then (validate_id challenge) (\<lambda>_.
     and_then (ok_or (rs_pending next) RE_StaleAuthority) (\<lambda>pending.
     and_then (wait_finished J pending clock) (\<lambda>_.
     if (case pg_challenge pending of None \<Rightarrow> False
         | Some old \<Rightarrow> rc_wall_time clock < ch_expires_at old) \<or>
        challenge \<in> rs_consumed_challenges next
     then Inl RE_StaleAuthority
     else
       and_then (checked_deadline J (rc_wall_time clock) RECOVERY_APPROVAL_MAX_MS) (\<lambda>limit.
       Inr (next\<lparr>
         rs_consumed_challenges := insert challenge (rs_consumed_challenges next),
         rs_pending := Some (pending\<lparr>pg_challenge :=
           Some \<lparr>ch_value = challenge, ch_issued_at = rc_wall_time clock,
                 ch_expires_at = ts_min limit (pg_deadline pending)\<rparr>\<rparr>)\<rparr>)))))"

definition act_cancel ::
  "Crypto \<Rightarrow> jiff \<Rightarrow> StateSerde \<Rightarrow> GuardianRecoveryStateV1 \<Rightarrow> GuardianRecoveryApprovalV1 list \<Rightarrow>
   RecoveryClockV1 \<Rightarrow> GuardianRecoveryStateV1 recovery_result" where
  "act_cancel C J S next approvals clock =
     and_then (ok_or (rs_pending next) RE_StaleAuthority) (\<lambda>pending.
     and_then (verify_recovery_quorum C J (ss_serde S) (rs_binding next) (rs_policy next)
                 (pg_request pending) RP_Cancel approvals (rc_wall_time clock)) (\<lambda>_.
     Inr (next\<lparr>rs_pending := None\<rparr>)))"

definition act_expire ::
  "GuardianRecoveryStateV1 \<Rightarrow> RecoveryClockV1 \<Rightarrow> GuardianRecoveryStateV1 recovery_result" where
  "act_expire next clock =
     and_then (ok_or (rs_pending next) RE_StaleAuthority) (\<lambda>pending.
     if rc_wall_time clock < pg_deadline pending then Inl RE_TimeInvalid
     else Inr (next\<lparr>rs_pending := None\<rparr>))"

definition act_complete ::
  "Crypto \<Rightarrow> jiff \<Rightarrow> StateSerde \<Rightarrow> GuardianRecoveryStateV1 \<Rightarrow> GuardianRecoveryApprovalV1 list \<Rightarrow>
   RecoveryClockV1 \<Rightarrow> GuardianRecoveryStateV1 recovery_result" where
  "act_complete C J S next approvals clock =
     and_then (ok_or (rs_pending next) RE_StaleAuthority) (\<lambda>pending.
     and_then (wait_finished J pending clock) (\<lambda>_.
     and_then (ok_or (pg_challenge pending) RE_StaleAuthority) (\<lambda>challenge.
     if ch_expires_at challenge \<le> rc_wall_time clock \<or>
        list_ex (\<lambda>a. gv_issued_at a < ch_issued_at challenge \<or> ch_expires_at challenge < gv_expires_at a)
          approvals
     then Inl RE_TimeInvalid
     else
       and_then (verify_recovery_quorum C J (ss_serde S) (rs_binding next) (rs_policy next)
                   (pg_request pending) (RP_Complete (ch_value challenge)) approvals
                   (rc_wall_time clock)) (\<lambda>_.
       and_then (ok_or (checked_add_u64 (ob_root_generation (rs_binding next)) 1) RE_Malformed) (\<lambda>generation.
       let binding = (rs_binding next)\<lparr>ob_root_generation := generation,
             ob_root_key := ri_replacement_key (rr_intent (pg_request pending))\<rparr> in
       and_then (ok_or (checked_add_u64 (gp_generation (rs_policy next)) 1) RE_Malformed) (\<lambda>policy_generation.
       Inr (next\<lparr>
         rs_retired_root_keys := rs_retired_root_keys next @ [ob_root_key (rs_binding next)],
         rs_binding := binding,
         rs_policy := (rs_policy next)\<lparr>gp_target := binding, gp_generation := policy_generation\<rparr>,
         rs_pending := None\<rparr>)))))))"

definition act_resume ::
  "Crypto \<Rightarrow> StateSerde \<Rightarrow> GuardianRecoveryStateV1 \<Rightarrow> GuardianRecoveryStateV1 \<Rightarrow> string \<Rightarrow>
   RecoverySignatureV1 \<Rightarrow> string \<Rightarrow> GuardianRecoveryStateV1 recovery_result" where
  "act_resume C S current next expected signature authority_snapshot =
     (if rs_pending next \<noteq> None \<or> \<not> rs_maintenance next \<or> expected \<noteq> authority_snapshot
      then Inl RE_StaleAuthority
      else
        and_then (resume_signing_message C S current expected) (\<lambda>message.
        and_then (verify_signature C (ob_root_key (rs_binding current)) message signature) (\<lambda>_.
        Inr (next\<lparr>rs_maintenance := False\<rparr>))))"

definition enrolled_state :: "GuardianEnrollmentV1 \<Rightarrow> RecoveryClockV1 \<Rightarrow> GuardianRecoveryStateV1" where
  "enrolled_state enrollment clock =
     \<lparr>rs_enrollment = enrollment, rs_binding = gp_target (ge_policy enrollment),
      rs_policy = ge_policy enrollment, rs_revision = 1, rs_clock = clock, rs_pending = None,
      rs_consumed_request_ids = {}, rs_consumed_challenges = {}, rs_retired_root_keys = [],
      rs_maintenance = False, rs_policy_edits = None\<rparr>"

definition apply_action ::
  "Crypto \<Rightarrow> jiff \<Rightarrow> StateSerde \<Rightarrow> GuardianRecoveryStateV1 \<Rightarrow> GuardianRecoveryStateV1 \<Rightarrow>
   GuardianRecoveryActionV1 \<Rightarrow> RecoveryClockV1 \<Rightarrow> bool \<Rightarrow> string \<Rightarrow>
   GuardianRecoveryStateV1 recovery_result" where
  "apply_action C J S current next action clock new_tenure authority_snapshot =
     (case action of
        ProposePolicy proposal \<Rightarrow> policy_propose C J S current next proposal clock
      | CancelPolicy owner_signature approvals \<Rightarrow>
          policy_cancel C J S current next owner_signature approvals clock
      | ActivatePolicy \<Rightarrow> policy_activate J next clock
      | Enroll _ \<Rightarrow> Inl RE_StaleAuthority
      | Initiate request approvals \<Rightarrow> act_initiate C J S next request approvals clock
      | RebaseWait \<Rightarrow> act_rebase_wait next new_tenure clock
      | IssueChallenge challenge \<Rightarrow> act_issue_challenge J next challenge clock
      | CancelRecovery approvals \<Rightarrow> act_cancel C J S next approvals clock
      | ExpireRecovery \<Rightarrow> act_expire next clock
      | CompleteRecovery approvals \<Rightarrow> act_complete C J S next approvals clock
      | Resume expected signature \<Rightarrow> act_resume C S current next expected signature authority_snapshot)"

definition evaluate_guardian_recovery ::
  "Crypto \<Rightarrow> jiff \<Rightarrow> StateSerde \<Rightarrow> GuardianRecoveryStateV1 option \<Rightarrow> GuardianRecoveryCommandV1 \<Rightarrow>
   RecoveryClockV1 \<Rightarrow> string \<Rightarrow> GuardianRecoveryStateV1 recovery_result" where
  "evaluate_guardian_recovery C J S current command clock authority_snapshot =
     and_then (validate_id (rc_writer_epoch clock)) (\<lambda>_.
     and_then (case current of None \<Rightarrow> Inr None
               | Some s \<Rightarrow> and_then (state_digest C S s) (\<lambda>d. Inr (Some d))) (\<lambda>digest.
     if gc_expected_state command \<noteq> digest then Inl RE_StaleAuthority
     else case current of
       None \<Rightarrow>
         (case gc_action command of
            Enroll enrollment \<Rightarrow>
              and_then (GuardianEnrollmentV1_verify C S enrollment) (\<lambda>_.
              Inr (enrolled_state enrollment clock))
          | _ \<Rightarrow> Inl RE_StaleAuthority)
     | Some s \<Rightarrow>
         let new_tenure = rc_writer_epoch clock \<noteq> rc_writer_epoch (rs_clock s) in
         if rc_wall_time clock < rc_wall_time (rs_clock s) \<or>
            \<not> new_tenure \<and> rc_monotonic_ms clock < rc_monotonic_ms (rs_clock s) \<or>
            new_tenure \<and> gc_action command \<noteq> RebaseWait
         then Inl RE_TimeInvalid
         else
           and_then (ok_or (checked_add_u64 (rs_revision s) 1) RE_Malformed) (\<lambda>revision.
           and_then (apply_action C J S s (s\<lparr>rs_revision := revision\<rparr>) (gc_action command) clock
                       new_tenure authority_snapshot) (\<lambda>next.
           Inr (next\<lparr>rs_clock := clock\<rparr>)))))"

end
