(* ===== verification/MCT_Recovery_Safety.thy ===== *)
theory MCT_Recovery_Safety
  imports MCT_Recovery_Lifecycle
begin

text \<open>
  What the guardian recovery state machine guarantees: the invariant of its reachable states,
  the shape of accepted transitions, and the history behind a replaced root key.
\<close>

section \<open>Keys that share no half\<close>

definition unshared :: "RecoveryPublicKeyV1 list \<Rightarrow> bool" where
  "unshared ks \<longleftrightarrow> distinct (map rk_ed25519 ks) \<and> distinct (map rk_ml_dsa65 ks)"

lemma unshared_Nil [simp]: "unshared []"
  by (simp add: unshared_def)

lemma unshared_Cons [simp]:
  "unshared (k # ks) \<longleftrightarrow> (\<forall>j \<in> set ks. \<not> shares_key_half k j) \<and> unshared ks"
  by (auto simp: unshared_def shares_key_half_def)

lemma unshared_append:
  "unshared (xs @ ys) \<longleftrightarrow>
   unshared xs \<and> unshared ys \<and> (\<forall>x \<in> set xs. \<forall>y \<in> set ys. \<not> shares_key_half x y)"
  by (induction xs) auto

lemma unshared_snoc: "unshared (xs @ [y]) \<longleftrightarrow> unshared xs \<and> (\<forall>x \<in> set xs. \<not> shares_key_half x y)"
  by (auto simp: unshared_append)

lemma keys_unshared_ok:
  "keys_unshared prior ks = Inr u \<longleftrightarrow>
   unshared ks \<and> (\<forall>p \<in> set prior. \<forall>k \<in> set ks. \<not> shares_key_half p k)"
  by (induction ks arbitrary: prior) (auto simp: list_ex_iff)

lemma keys_unshared_Nil [recovery_simps]: "keys_unshared [] ks = Inr u \<longleftrightarrow> unshared ks"
  by (simp add: keys_unshared_ok)

section \<open>Rosters\<close>

definition pair_keys :: "RecoveryGuardianV1 \<times> OwnerBindingV1 \<Rightarrow> RecoveryPublicKeyV1 list" where
  "pair_keys = (\<lambda>(g, b). [rg_signing_key g, ob_root_key b])"

definition pair_ok :: "Crypto \<Rightarrow> VoiceIdV1 \<Rightarrow> RecoveryGuardianV1 \<times> OwnerBindingV1 \<Rightarrow> bool" where
  "pair_ok C voice = (\<lambda>(g, b). binding_ok C b \<and> binding_matches_guardian voice g b)"

abbreviation roster_pairs ::
  "GuardianRecoveryPolicyV1 \<Rightarrow> OwnerBindingV1 array3 \<Rightarrow> (RecoveryGuardianV1 \<times> OwnerBindingV1) list" where
  "roster_pairs policy bindings \<equiv> zip (array3_list (gp_guardians policy)) (array3_list bindings)"

definition roster_ok ::
  "Crypto \<Rightarrow> RecoveryPublicKeyV1 \<Rightarrow> OwnerBindingV1 \<Rightarrow> GuardianRecoveryPolicyV1 \<Rightarrow>
   OwnerBindingV1 array3 \<Rightarrow> bool" where
  "roster_ok C genesis owner policy bindings \<longleftrightarrow>
     policy_ok C policy \<and> list_all (pair_ok C (ob_voice_id owner)) (roster_pairs policy bindings) \<and>
     unshared (genesis # ob_root_key owner # concat (map pair_keys (roster_pairs policy bindings)))"

abbreviation genesis_key :: "GuardianRecoveryStateV1 \<Rightarrow> RecoveryPublicKeyV1" where
  "genesis_key s \<equiv> vg_public_key (ge_genesis (rs_enrollment s))"

lemma binding_loop_ok:
  "binding_loop C voice keys ps = Inr ks \<longleftrightarrow>
   list_all (pair_ok C voice) ps \<and> ks = keys @ concat (map pair_keys ps)"
  by (induction ps arbitrary: keys)
    (auto simp: result_simps recovery_simps pair_ok_def pair_keys_def split: if_split_asm)

lemma validate_bindings_ok [recovery_simps]:
  "validate_bindings C s policy bindings = Inr u \<longleftrightarrow>
   roster_ok C (genesis_key s) (rs_binding s) policy bindings"
  by (auto simp: validate_bindings_def roster_ok_def result_simps recovery_simps binding_loop_ok)

lemma roster_ok_replace_root:
  assumes "roster_ok C genesis owner policy bindings"
    and "gp_target policy = owner"
    and "\<not> shares_key_half genesis (ob_root_key owner')"
    and "\<forall>g \<in> set (array3_list (gp_guardians policy)). \<not> shares_key_half (ob_root_key owner') (rg_signing_key g)"
    and "\<forall>b \<in> set (array3_list bindings). \<not> shares_key_half (ob_root_key b) (ob_root_key owner')"
    and "binding_ok C owner'" and "ob_voice_id owner' = ob_voice_id owner"
    and "ob_mother_node_id owner' = ob_mother_node_id owner" and "generation \<noteq> 0"
  shows "roster_ok C genesis owner' (policy\<lparr>gp_target := owner', gp_generation := generation\<rparr>) bindings"
proof -
  obtain a b c where g: "gp_guardians policy = Array3 a b c" by (cases "gp_guardians policy")
  obtain x y z where d: "bindings = Array3 x y z" by (cases bindings)
  from assms show ?thesis
    by (auto simp: roster_ok_def policy_ok_def guardian_ok_def g d pair_keys_def shares_key_half_sym)
qed

lemma enrollment_loop_ok:
  "enrollment_loop C voice message keys ps = Inr ks \<Longrightarrow>
   list_all (\<lambda>(g, b, s, t). pair_ok C voice (g, b)) ps \<and>
   ks = keys @ concat (map (\<lambda>(g, b, s, t). [ob_root_key b, rg_signing_key g]) ps)"
proof (induction ps arbitrary: keys)
  case (Cons p ps)
  obtain g b s t where p: "p = (g, b, s, t)" by (cases p)
  from Cons.prems have "pair_ok C voice (g, b)"
    and "enrollment_loop C voice message (keys @ [ob_root_key b, rg_signing_key g]) ps = Inr ks"
    by (auto simp: p result_simps recovery_simps pair_ok_def split: if_split_asm)
  from this(1) Cons.IH [OF this(2)] show ?case by (simp add: p)
qed simp

lemma enrollment_roster:
  assumes "GuardianEnrollmentV1_verify C S e = Inr u"
  shows "roster_ok C (vg_public_key (ge_genesis e)) (gp_target (ge_policy e)) (ge_policy e)
      (ge_guardian_bindings e)" and "ob_root_generation (gp_target (ge_policy e)) = 1"
    and "gp_generation (ge_policy e) = 1"
proof -
  obtain a b c where g: "gp_guardians (ge_policy e) = Array3 a b c" by (cases "gp_guardians (ge_policy e)")
  obtain x y z where d: "ge_guardian_bindings e = Array3 x y z" by (cases "ge_guardian_bindings e")
  obtain s1 s2 s3 where s: "ge_guardian_owner_acceptances e = Array3 s1 s2 s3"
    by (cases "ge_guardian_owner_acceptances e")
  obtain t1 t2 t3 where t: "ge_guardian_acceptances e = Array3 t1 t2 t3"
    by (cases "ge_guardian_acceptances e")
  let ?v = "ob_voice_id (gp_target (ge_policy e))"
  let ?k = "[vg_public_key (ge_genesis e), ob_root_key (gp_target (ge_policy e))]"
  let ?z = "zip (array3_list (gp_guardians (ge_policy e))) (zip (array3_list (ge_guardian_bindings e))
      (zip (array3_list (ge_guardian_owner_acceptances e)) (array3_list (ge_guardian_acceptances e))))"
  from assms obtain m keys where pol: "policy_ok C (ge_policy e)"
    and loop: "enrollment_loop C ?v m ?k ?z = Inr keys" and un: "unshared keys"
    unfolding GuardianEnrollmentV1_verify_def
    by (simp only: and_then_eq_Inr keys_unshared_Nil validate_policy_ok verify_signature_ok split: if_split_asm)
      blast+
  from enrollment_loop_ok [OF loop] have "list_all (pair_ok C ?v) [(a, x), (b, y), (c, z)]"
    and "keys = ?k @ [ob_root_key x, rg_signing_key a, ob_root_key y, rg_signing_key b,
           ob_root_key z, rg_signing_key c]"
    by (simp_all add: g d s t)
  with pol un show "roster_ok C (vg_public_key (ge_genesis e)) (gp_target (ge_policy e)) (ge_policy e)
      (ge_guardian_bindings e)"
    by (simp add: roster_ok_def g d pair_keys_def) (simp add: shares_key_half_sym conj_ac)
  from assms show "ob_root_generation (gp_target (ge_policy e)) = 1" "gp_generation (ge_policy e) = 1"
    by (auto simp: GuardianEnrollmentV1_verify_def result_simps split: if_split_asm)
qed

section \<open>The invariant\<close>

lemma state_view_updates [simp]:
  "recovery_enabled (s\<lparr>rs_revision := r\<rparr>) = recovery_enabled s"
  "recovery_enabled (s\<lparr>rs_clock := c\<rparr>) = recovery_enabled s"
  "recovery_enabled (s\<lparr>rs_pending := p\<rparr>) = recovery_enabled s"
  "recovery_enabled (s\<lparr>rs_consumed_request_ids := i\<rparr>) = recovery_enabled s"
  "recovery_enabled (s\<lparr>rs_consumed_challenges := i\<rparr>) = recovery_enabled s"
  "recovery_enabled (s\<lparr>rs_retired_root_keys := k\<rparr>) = recovery_enabled s"
  "recovery_enabled (s\<lparr>rs_maintenance := m\<rparr>) = recovery_enabled s"
  "recovery_enabled (s\<lparr>rs_binding := b\<rparr>) = recovery_enabled s"
  "recovery_enabled (s\<lparr>rs_policy := y\<rparr>) = recovery_enabled s"
  "guardian_bindings (s\<lparr>rs_revision := r\<rparr>) = guardian_bindings s"
  "guardian_bindings (s\<lparr>rs_clock := c\<rparr>) = guardian_bindings s"
  "guardian_bindings (s\<lparr>rs_pending := p\<rparr>) = guardian_bindings s"
  "guardian_bindings (s\<lparr>rs_consumed_request_ids := i\<rparr>) = guardian_bindings s"
  "guardian_bindings (s\<lparr>rs_consumed_challenges := i\<rparr>) = guardian_bindings s"
  "guardian_bindings (s\<lparr>rs_retired_root_keys := k\<rparr>) = guardian_bindings s"
  "guardian_bindings (s\<lparr>rs_maintenance := m\<rparr>) = guardian_bindings s"
  "guardian_bindings (s\<lparr>rs_binding := b\<rparr>) = guardian_bindings s"
  "guardian_bindings (s\<lparr>rs_policy := y\<rparr>) = guardian_bindings s"
  "pending_policy_edit (s\<lparr>rs_revision := r\<rparr>) = pending_policy_edit s"
  "pending_policy_edit (s\<lparr>rs_clock := c\<rparr>) = pending_policy_edit s"
  "pending_policy_edit (s\<lparr>rs_pending := p\<rparr>) = pending_policy_edit s"
  "pending_policy_edit (s\<lparr>rs_consumed_request_ids := i\<rparr>) = pending_policy_edit s"
  "pending_policy_edit (s\<lparr>rs_consumed_challenges := i\<rparr>) = pending_policy_edit s"
  "pending_policy_edit (s\<lparr>rs_retired_root_keys := k\<rparr>) = pending_policy_edit s"
  "pending_policy_edit (s\<lparr>rs_maintenance := m\<rparr>) = pending_policy_edit s"
  "pending_policy_edit (s\<lparr>rs_binding := b\<rparr>) = pending_policy_edit s"
  "pending_policy_edit (s\<lparr>rs_policy := y\<rparr>) = pending_policy_edit s"
  by (simp_all add: recovery_enabled_def guardian_bindings_def pending_policy_edit_def split: option.split)

text \<open>What the check of a policy edit looks at.\<close>

definition policy_view ::
  "GuardianRecoveryStateV1 \<Rightarrow>
   RecoveryPublicKeyV1 \<times> OwnerBindingV1 \<times> GuardianRecoveryPolicyV1 \<times> bool \<times> OwnerBindingV1 array3" where
  "policy_view s = (genesis_key s, rs_binding s, rs_policy s, recovery_enabled s, guardian_bindings s)"

lemma edit_validate_view:
  "policy_view s = policy_view t \<Longrightarrow>
   GuardianPolicyEditV1_validate C J edit s = GuardianPolicyEditV1_validate C J edit t"
  by (simp add: GuardianPolicyEditV1_validate_def validate_bindings_def policy_view_def)

lemma edit_validate_ok:
  assumes "GuardianPolicyEditV1_validate C J edit s = Inr u"
  shows "gp_target (pe_policy edit) = rs_binding s \<and>
    checked_add_u64 (gp_generation (rs_policy s)) 1 = Some (gp_generation (pe_policy edit)) \<and>
    roster_ok C (genesis_key s) (rs_binding s) (pe_policy edit) (pe_guardian_bindings edit)"
  using assms
  by (auto simp: GuardianPolicyEditV1_validate_def result_simps recovery_simps split: if_split_asm)

text \<open>What the policy edits of a state have used up; nothing before the first edit.\<close>

definition consumed_edit_ids :: "GuardianRecoveryStateV1 \<Rightarrow> string set" where
  "consumed_edit_ids s = (case rs_policy_edits s of None \<Rightarrow> {} | Some edits \<Rightarrow> py_consumed_edit_ids edits)"

definition retired_guardian_keys :: "GuardianRecoveryStateV1 \<Rightarrow> RecoveryPublicKeyV1 list" where
  "retired_guardian_keys s =
     (case rs_policy_edits s of None \<Rightarrow> [] | Some edits \<Rightarrow> py_retired_guardian_keys edits)"

definition fresh_root :: "GuardianRecoveryStateV1 \<Rightarrow> RecoveryPublicKeyV1 \<Rightarrow> bool" where
  "fresh_root s key \<longleftrightarrow>
     (\<forall>k \<in> set (rs_retired_root_keys s). \<not> shares_key_half k key) \<and>
     \<not> shares_key_half (genesis_key s) key \<and>
     (\<forall>b \<in> set (array3_list (guardian_bindings s)). \<not> shares_key_half (ob_root_key b) key) \<and>
     (\<forall>k \<in> set (retired_guardian_keys s). \<not> shares_key_half k key)"

definition keys_inv :: "Crypto \<Rightarrow> GuardianRecoveryStateV1 \<Rightarrow> bool" where
  "keys_inv C s \<longleftrightarrow>
     roster_ok C (genesis_key s) (rs_binding s) (rs_policy s) (guardian_bindings s) \<and>
     gp_target (rs_policy s) = rs_binding s \<and>
     ob_root_generation (rs_binding s) \<le> gp_generation (rs_policy s) \<and>
     unat (ob_root_generation (rs_binding s)) = Suc (length (rs_retired_root_keys s)) \<and>
     unshared (genesis_key s # rs_retired_root_keys s @ [ob_root_key (rs_binding s)])"

definition pending_inv :: "GuardianRecoveryStateV1 \<Rightarrow> bool" where
  "pending_inv s \<longleftrightarrow>
     (\<forall>p. rs_pending s = Some p \<longrightarrow>
        rs_maintenance s \<and> pending_policy_edit s = None \<and> recovery_enabled s \<and>
        ri_request_id (rr_intent (pg_request p)) \<in> rs_consumed_request_ids s \<and>
        fresh_root s (ri_replacement_key (rr_intent (pg_request p))))"

definition edits_inv :: "Crypto \<Rightarrow> jiff \<Rightarrow> GuardianRecoveryStateV1 \<Rightarrow> bool" where
  "edits_inv C J s \<longleftrightarrow>
     (\<forall>e. rs_policy_edits s = Some e \<longrightarrow>
        py_consumed_edit_ids e \<noteq> {} \<and>
        (\<forall>p. py_pending e = Some p \<longrightarrow>
           \<not> rs_maintenance s \<and> rs_pending s = None \<and> pe_edit_id (pn_edit p) \<in> py_consumed_edit_ids e \<and>
           GuardianPolicyEditV1_validate C J (pn_edit p) s = Inr ()))"

definition recovery_inv :: "Crypto \<Rightarrow> jiff \<Rightarrow> GuardianRecoveryStateV1 \<Rightarrow> bool" where
  "recovery_inv C J s \<longleftrightarrow>
     keys_inv C s \<and> pending_inv s \<and> edits_inv C J s \<and> (recovery_enabled s \<or> \<not> rs_maintenance s)"

lemma recovery_inv_consistent:
  assumes "recovery_inv C J s"
  shows "guardian_policy_state_is_consistent C J s = Inr ()"
proof -
  from assms have vb: "validate_bindings C s (rs_policy s) (guardian_bindings s) = Inr ()"
    and gen: "\<not> gp_generation (rs_policy s) < ob_root_generation (rs_binding s)"
    and en: "recovery_enabled s \<or> rs_pending s = None \<and> \<not> rs_maintenance s"
    by (auto simp: recovery_inv_def keys_inv_def recovery_simps pending_inv_def)
  from assms have ed: "edits_inv C J s" by (simp add: recovery_inv_def)
  show ?thesis
    using en ed unfolding guardian_policy_state_is_consistent_def vb and_then_Inr
    by (cases "rs_policy_edits s") (auto simp: gen edits_inv_def pending_policy_edit_def split: option.split)
qed

section \<open>Every transition preserves it\<close>

lemma inv_views [simp]:
  "keys_inv C (s\<lparr>rs_revision := r\<rparr>) = keys_inv C s" "keys_inv C (s\<lparr>rs_clock := c\<rparr>) = keys_inv C s"
  "keys_inv C (s\<lparr>rs_pending := p\<rparr>) = keys_inv C s" "keys_inv C (s\<lparr>rs_maintenance := m\<rparr>) = keys_inv C s"
  "keys_inv C (s\<lparr>rs_consumed_request_ids := i\<rparr>) = keys_inv C s"
  "keys_inv C (s\<lparr>rs_consumed_challenges := i\<rparr>) = keys_inv C s"
  "fresh_root (s\<lparr>rs_revision := r\<rparr>) = fresh_root s" "fresh_root (s\<lparr>rs_clock := c\<rparr>) = fresh_root s"
  "fresh_root (s\<lparr>rs_pending := p\<rparr>) = fresh_root s" "fresh_root (s\<lparr>rs_maintenance := m\<rparr>) = fresh_root s"
  "fresh_root (s\<lparr>rs_consumed_request_ids := i\<rparr>) = fresh_root s"
  "fresh_root (s\<lparr>rs_consumed_challenges := i\<rparr>) = fresh_root s"
  by (simp_all add: keys_inv_def fresh_root_def retired_guardian_keys_def fun_eq_iff)

lemma view_updates [simp]:
  "policy_view (s\<lparr>rs_revision := r\<rparr>) = policy_view s" "policy_view (s\<lparr>rs_clock := c\<rparr>) = policy_view s"
  "policy_view (s\<lparr>rs_pending := p\<rparr>) = policy_view s" "policy_view (s\<lparr>rs_maintenance := m\<rparr>) = policy_view s"
  "policy_view (s\<lparr>rs_consumed_request_ids := i\<rparr>) = policy_view s"
  "policy_view (s\<lparr>rs_consumed_challenges := i\<rparr>) = policy_view s"
  by (simp_all add: policy_view_def)

lemma edits_inv_view:
  assumes "edits_inv C J s" and "policy_view t = policy_view s"
    and "rs_policy_edits t = rs_policy_edits s"
    and "pending_policy_edit s \<noteq> None \<Longrightarrow> rs_maintenance t = rs_maintenance s \<and> rs_pending t = rs_pending s"
  shows "edits_inv C J t"
  using assms edit_validate_view [OF assms(2)]
  by (auto simp: edits_inv_def pending_policy_edit_def)

lemma recovery_inv_revision [simp]: "recovery_inv C J (s\<lparr>rs_revision := r\<rparr>) = recovery_inv C J s"
  using edits_inv_view [of C J s "s\<lparr>rs_revision := r\<rparr>"] edits_inv_view [of C J "s\<lparr>rs_revision := r\<rparr>" s]
  by (auto simp: recovery_inv_def pending_inv_def)

lemma recovery_inv_clock [simp]: "recovery_inv C J (s\<lparr>rs_clock := c\<rparr>) = recovery_inv C J s"
  using edits_inv_view [of C J s "s\<lparr>rs_clock := c\<rparr>"] edits_inv_view [of C J "s\<lparr>rs_clock := c\<rparr>" s]
  by (auto simp: recovery_inv_def pending_inv_def)

lemma inv_enrolled:
  assumes "GuardianEnrollmentV1_verify C S e = Inr u"
  shows "recovery_inv C J (enrolled_state e clock)"
  using enrollment_roster [OF assms]
  by (simp add: recovery_inv_def keys_inv_def pending_inv_def edits_inv_def enrolled_state_def
      guardian_bindings_def recovery_enabled_def roster_ok_def)

definition initiated ::
  "GuardianRecoveryStateV1 \<Rightarrow> RecoveryRequestV1 \<Rightarrow> RecoveryClockV1 \<Rightarrow> Timestamp \<Rightarrow>
   GuardianRecoveryStateV1" where
  "initiated s request clock deadline =
     s\<lparr>rs_consumed_request_ids := insert (ri_request_id (rr_intent request)) (rs_consumed_request_ids s),
       rs_pending := Some \<lparr>pg_request = request, pg_wait_origin = clock, pg_deadline = deadline,
                          pg_challenge = None\<rparr>,
       rs_maintenance := True\<rparr>"

text \<open>
  The deadline of a recovery: seven days after its 24 hours of delay, or the expiry of the request
  if that is earlier.
\<close>

definition recovery_deadline :: "jiff \<Rightarrow> RecoveryRequestV1 \<Rightarrow> RecoveryClockV1 \<Rightarrow> Timestamp \<Rightarrow> bool" where
  "recovery_deadline J request clock deadline \<longleftrightarrow>
     (\<exists>earliest latest.
        checked_add_milliseconds J (rc_wall_time clock) RECOVERY_DELAY_MS = Some earliest \<and>
        checked_add_milliseconds J earliest RECOVERY_COMPLETION_WINDOW_MS = Some latest \<and>
        deadline = ts_min latest (ri_expires_at (rr_intent request)))"

lemma recovery_deadline_ns:
  assumes "recovery_deadline J request clock deadline" and "jiff_roundtrip J"
  shows "deadline \<le> ri_expires_at (rr_intent request) \<and>
    ts_ns deadline \<le> ts_ns (rc_wall_time clock) + (86400000 + 604800000) * 1000000"
proof -
  from assms(1) obtain earliest latest where
    e: "checked_add_milliseconds J (rc_wall_time clock) RECOVERY_DELAY_MS = Some earliest"
      "checked_add_milliseconds J earliest RECOVERY_COMPLETION_WINDOW_MS = Some latest"
    and d: "deadline = ts_min latest (ri_expires_at (rr_intent request))"
    by (auto simp: recovery_deadline_def)
  have "uint RECOVERY_DELAY_MS = 86400000" "uint RECOVERY_COMPLETION_WINDOW_MS = 604800000"
    by (simp_all add: RECOVERY_DELAY_MS_def RECOVERY_COMPLETION_WINDOW_MS_def)
  then show ?thesis
    using checked_add_milliseconds_ns [OF assms(2) e(1)] checked_add_milliseconds_ns [OF assms(2) e(2)]
    by (simp add: d ts_min_ns)
qed

lemma act_initiate_ok:
  assumes "act_initiate C J S s request approvals clock = Inr t"
  obtains deadline where "recovery_enabled s" "pending_policy_edit s = None" "rs_pending s = None"
    "ri_request_id (rr_intent request) \<notin> rs_consumed_request_ids s"
    "fresh_root s (ri_replacement_key (rr_intent request))"
    "quorum_verified C J (ss_serde S) (rs_policy s) request RP_Initiate approvals (rc_wall_time clock)"
    "recovery_deadline J request clock deadline" "t = initiated s request clock deadline"
proof -
  from assms obtain e earliest latest where
    guards: "recovery_enabled s" "pending_policy_edit s = None" "rs_pending s = None"
      "ri_request_id (rr_intent request) \<notin> rs_consumed_request_ids s"
      "\<not> replacement_reused s (ri_replacement_key (rr_intent request))" and
    q: "verify_recovery_quorum C J (ss_serde S) (rs_binding s) (rs_policy s) request RP_Initiate approvals
          (rc_wall_time clock) = Inr e" and
    late: "checked_add_milliseconds J (rc_wall_time clock) RECOVERY_DELAY_MS = Some earliest"
      "checked_add_milliseconds J earliest RECOVERY_COMPLETION_WINDOW_MS = Some latest" and
    t: "t = initiated s request clock (ts_min latest (ri_expires_at (rr_intent request)))"
    by (auto simp: act_initiate_def initiated_def checked_deadline_def result_simps Let_def
        split: if_split_asm)
  from late have "recovery_deadline J request clock (ts_min latest (ri_expires_at (rr_intent request)))"
    by (auto simp: recovery_deadline_def)
  moreover from guards(5) have "fresh_root s (ri_replacement_key (rr_intent request))"
    by (auto simp: replacement_reused_def fresh_root_def retired_guardian_keys_def list_ex_iff
        split: option.splits)
  moreover from verify_recovery_quorum_ok [OF q] have
    "quorum_verified C J (ss_serde S) (rs_policy s) request RP_Initiate approvals (rc_wall_time clock)"
    by simp
  ultimately show thesis using guards(1-4) t by (intro that)
qed

lemma inv_initiate:
  assumes "act_initiate C J S s request approvals clock = Inr t" and "recovery_inv C J s"
  shows "recovery_inv C J t"
  using assms(1)
proof (rule act_initiate_ok)
  fix deadline
  assume g: "recovery_enabled s" "pending_policy_edit s = None"
      "fresh_root s (ri_replacement_key (rr_intent request))" and
    t: "t = initiated s request clock deadline"
  have "edits_inv C J t"
    by (rule edits_inv_view [of C J s]) (use g(2) assms(2) in \<open>simp_all add: t initiated_def recovery_inv_def\<close>)
  with g assms(2) show ?thesis by (simp add: t initiated_def recovery_inv_def pending_inv_def)
qed

text \<open>Transitions that only drop or rewrite the wait of a pending recovery.\<close>

lemma inv_pending_update:
  assumes "recovery_inv C J s" and "rs_pending s = Some p"
    and "p' = None \<or> (\<exists>q. p' = Some q \<and> pg_request q = pg_request p)"
  shows "recovery_inv C J (s\<lparr>rs_consumed_challenges := i, rs_pending := p'\<rparr>)"
proof -
  from assms have "pending_policy_edit s = None" by (simp add: recovery_inv_def pending_inv_def)
  note idle = this
  have "edits_inv C J (s\<lparr>rs_consumed_challenges := i, rs_pending := p'\<rparr>)"
    by (rule edits_inv_view [of C J s]) (use assms(1) idle in \<open>simp_all add: recovery_inv_def\<close>)
  with assms show ?thesis by (auto simp: recovery_inv_def pending_inv_def)
qed

lemma inv_issue_challenge:
  "act_issue_challenge J s challenge clock = Inr t \<Longrightarrow> recovery_inv C J s \<Longrightarrow> recovery_inv C J t"
  by (auto simp: act_issue_challenge_def result_simps elim: inv_pending_update split: if_split_asm)

lemma inv_cancel:
  "act_cancel C J S s approvals clock = Inr t \<Longrightarrow> recovery_inv C J s \<Longrightarrow> recovery_inv C J t"
  using inv_pending_update [where i = "rs_consumed_challenges s" and p' = None, of C J s]
  by (auto simp: act_cancel_def result_simps)

lemma inv_expire: "act_expire s clock = Inr t \<Longrightarrow> recovery_inv C J s \<Longrightarrow> recovery_inv C J t"
  using inv_pending_update [where i = "rs_consumed_challenges s" and p' = None, of C J s]
  by (auto simp: act_expire_def result_simps split: if_split_asm)

lemma inv_resume:
  assumes "act_resume C S s (s\<lparr>rs_revision := r\<rparr>) expected signature snapshot = Inr t"
    and "recovery_inv C J s"
  shows "recovery_inv C J t"
proof -
  from assms(1) have t: "t = s\<lparr>rs_revision := r, rs_maintenance := False\<rparr>" "rs_pending s = None"
    "rs_maintenance s"
    by (auto simp: act_resume_def result_simps split: if_split_asm)
  have "edits_inv C J t"
    by (rule edits_inv_view [of C J s])
      (use assms(2) t(2,3) in \<open>auto simp: t(1) recovery_inv_def edits_inv_def pending_policy_edit_def
        split: option.split_asm\<close>)
  with assms(2) t(2) show ?thesis by (simp add: t(1) recovery_inv_def pending_inv_def)
qed

lemma act_complete_ok:
  assumes "act_complete C J S s approvals clock = Inr t"
  obtains p ch generation policy_generation where
    "rs_pending s = Some p" "pg_challenge p = Some ch" "wait_finished J p clock = Inr ()"
    "rc_wall_time clock < ch_expires_at ch"
    "\<forall>a \<in> set approvals. ch_issued_at ch \<le> gv_issued_at a \<and> gv_expires_at a \<le> ch_expires_at ch"
    "quorum_verified C J (ss_serde S) (rs_policy s) (pg_request p) (RP_Complete (ch_value ch)) approvals
       (rc_wall_time clock)"
    "checked_add_u64 (ob_root_generation (rs_binding s)) 1 = Some generation"
    "checked_add_u64 (gp_generation (rs_policy s)) 1 = Some policy_generation"
    "t = s\<lparr>rs_retired_root_keys := rs_retired_root_keys s @ [ob_root_key (rs_binding s)],
           rs_binding := (rs_binding s)\<lparr>ob_root_generation := generation,
             ob_root_key := ri_replacement_key (rr_intent (pg_request p))\<rparr>,
           rs_policy := (rs_policy s)\<lparr>gp_target := (rs_binding s)\<lparr>ob_root_generation := generation,
             ob_root_key := ri_replacement_key (rr_intent (pg_request p))\<rparr>,
             gp_generation := policy_generation\<rparr>,
           rs_pending := None\<rparr>"
  using assms
  by (auto simp: act_complete_def result_simps Let_def list_ex_iff split: if_split_asm
      dest!: verify_recovery_quorum_ok)

lemma checked_add_nonzero: "checked_add_u64 a 1 = Some b \<Longrightarrow> b \<noteq> 0"
  by (drule checked_add_u64_Some) auto

lemma inv_complete:
  assumes "act_complete C J S s approvals clock = Inr t" and inv: "recovery_inv C J s"
  shows "recovery_inv C J t"
  using assms(1)
proof (rule act_complete_ok)
  fix p ch generation policy_generation
  assume p: "rs_pending s = Some p"
    and q: "quorum_verified C J (ss_serde S) (rs_policy s) (pg_request p) (RP_Complete (ch_value ch)) approvals
       (rc_wall_time clock)"
    and g: "checked_add_u64 (ob_root_generation (rs_binding s)) 1 = Some generation"
    and pg: "checked_add_u64 (gp_generation (rs_policy s)) 1 = Some policy_generation"
    and t: "t = s\<lparr>rs_retired_root_keys := rs_retired_root_keys s @ [ob_root_key (rs_binding s)],
           rs_binding := (rs_binding s)\<lparr>ob_root_generation := generation,
             ob_root_key := ri_replacement_key (rr_intent (pg_request p))\<rparr>,
           rs_policy := (rs_policy s)\<lparr>gp_target := (rs_binding s)\<lparr>ob_root_generation := generation,
             ob_root_key := ri_replacement_key (rr_intent (pg_request p))\<rparr>,
             gp_generation := policy_generation\<rparr>,
           rs_pending := None\<rparr>"
  let ?k = "ri_replacement_key (rr_intent (pg_request p))"
  let ?b = "(rs_binding s)\<lparr>ob_root_generation := generation, ob_root_key := ?k\<rparr>"
  from inv p have fresh: "fresh_root s ?k" and idle: "pending_policy_edit s = None"
    and keys: "keys_inv C s" and en: "recovery_enabled s"
    by (simp_all add: recovery_inv_def pending_inv_def)
  from keys have tgt: "gp_target (rs_policy s) = rs_binding s" by (simp add: keys_inv_def)
  from q have fits: "intent_fits C J (ss_serde S) (rr_intent (pg_request p)) (rs_policy s)"
    by (simp add: quorum_verified_def)
  from keys have "policy_ok C (rs_policy s)" by (simp add: keys_inv_def roster_ok_def)
  with tgt have "binding_ok C (rs_binding s)" by (simp add: policy_ok_def)
  then have "binding_ok C ?b"
    using fits checked_add_nonzero [OF g] by (simp add: binding_ok_def intent_fits_def)
  then have "roster_ok C (genesis_key s) ?b
      ((rs_policy s)\<lparr>gp_target := ?b, gp_generation := policy_generation\<rparr>) (guardian_bindings s)"
    using keys tgt fits fresh checked_add_nonzero [OF pg]
    by (intro roster_ok_replace_root [of _ _ "rs_binding s"])
      (auto simp: keys_inv_def intent_fits_def fresh_root_def)
  moreover from keys g pg have "generation \<le> policy_generation"
    by (auto simp: keys_inv_def word_le_nat_alt dest!: checked_add_u64_Some)
  moreover from keys g have "unat generation = Suc (Suc (length (rs_retired_root_keys s)))"
    by (auto simp: keys_inv_def dest!: checked_add_u64_Some)
  moreover from keys fresh fits tgt have
    "unshared (genesis_key s # (rs_retired_root_keys s @ [ob_root_key (rs_binding s)]) @ [?k])"
    by (simp add: keys_inv_def fresh_root_def intent_fits_def unshared_append)
      (metis shares_key_half_sym)
  ultimately have "keys_inv C t" by (simp add: t keys_inv_def)
  moreover have "edits_inv C J t"
    using inv idle by (auto simp: t recovery_inv_def edits_inv_def pending_policy_edit_def)
  ultimately show ?thesis using en by (simp add: t recovery_inv_def pending_inv_def)
qed

lemma inv_rebase_wait:
  assumes "act_rebase_wait s tenure clock = Inr t" and "recovery_inv C J s"
  shows "recovery_inv C J t"
proof -
  from assms(1) have t: "t = s\<lparr>
      rs_pending := map_option (\<lambda>p. p\<lparr>pg_wait_origin := clock, pg_challenge := None\<rparr>) (rs_pending s),
      rs_policy_edits := map_option (\<lambda>e. e\<lparr>py_pending :=
        map_option (\<lambda>p. p\<lparr>pn_wait_origin := clock\<rparr>) (py_pending e)\<rparr>) (rs_policy_edits s)\<rparr>"
    by (simp add: act_rebase_wait_def split: if_split_asm)
  have views: "recovery_enabled t = recovery_enabled s" "guardian_bindings t = guardian_bindings s"
    "pending_policy_edit t = None \<longleftrightarrow> pending_policy_edit s = None"
    "retired_guardian_keys t = retired_guardian_keys s"
    by (auto simp: t recovery_enabled_def guardian_bindings_def pending_policy_edit_def
        retired_guardian_keys_def split: option.split)
  then have "policy_view t = policy_view s" by (simp add: policy_view_def) (simp add: t)
  note same = edit_validate_view [OF this, of C J]
  from assms(2) have "edits_inv C J s" by (simp add: recovery_inv_def)
  then have "edits_inv C J t" unfolding edits_inv_def same by (auto simp: t)
  moreover from assms(2) views have "keys_inv C t" by (simp add: recovery_inv_def keys_inv_def) (simp add: t)
  moreover have "fresh_root t = fresh_root s"
    using views by (simp add: fresh_root_def fun_eq_iff) (simp add: t)
  with assms(2) views have "pending_inv t"
    by (auto simp: recovery_inv_def pending_inv_def) (auto simp: t)
  ultimately show ?thesis using assms(2) views by (simp add: recovery_inv_def) (simp add: t)
qed

lemma inv_policy_cancel:
  assumes "policy_cancel C J S s (s\<lparr>rs_revision := r\<rparr>) sig approvals clock = Inr t" and "recovery_inv C J s"
  shows "recovery_inv C J t"
proof -
  from assms(1) obtain e where e: "rs_policy_edits s = Some e"
    and t: "t = s\<lparr>rs_revision := r, rs_policy_edits := Some (e\<lparr>py_pending := None\<rparr>)\<rparr>"
    by (auto simp: policy_cancel_def clear_pending_policy_def result_simps)
  have views: "recovery_enabled t = recovery_enabled s" "guardian_bindings t = guardian_bindings s"
    "pending_policy_edit t = None" "fresh_root t = fresh_root s"
    by (simp_all add: t e recovery_enabled_def guardian_bindings_def pending_policy_edit_def fresh_root_def
        retired_guardian_keys_def fun_eq_iff)
  with assms(2) have "keys_inv C t" "pending_inv t"
    by (simp_all add: recovery_inv_def keys_inv_def pending_inv_def) (simp_all add: t)
  moreover from assms(2) e have "edits_inv C J t" by (simp add: t recovery_inv_def edits_inv_def)
  ultimately show ?thesis using assms(2) views by (simp add: recovery_inv_def) (simp add: t)
qed

lemma inv_policy_activate:
  assumes "policy_activate J s clock = Inr t" and "recovery_inv C J s"
  shows "recovery_inv C J t"
proof -
  from assms(1) obtain e p retired where e: "rs_policy_edits s = Some e" "py_pending e = Some p"
    and t: "t = s\<lparr>rs_policy_edits := Some (e\<lparr>py_retired_guardian_keys := retired,
        py_enabled := pe_enabled (pn_edit p), py_guardian_bindings := pe_guardian_bindings (pn_edit p),
        py_pending := None\<rparr>), rs_policy := pe_policy (pn_edit p)\<rparr>"
    by (auto simp: policy_activate_def pending_policy_edit_def result_simps Let_def split: option.split_asm)
  from assms(2) e have idle: "\<not> rs_maintenance s" "rs_pending s = None"
    and ok: "GuardianPolicyEditV1_validate C J (pn_edit p) s = Inr ()" and con: "py_consumed_edit_ids e \<noteq> {}"
    by (simp_all add: recovery_inv_def edits_inv_def)
  from assms(2) have keys: "keys_inv C s" by (simp add: recovery_inv_def)
  from edit_validate_ok [OF ok] keys have "ob_root_generation (rs_binding s) \<le> gp_generation (pe_policy (pn_edit p))"
    by (auto simp: keys_inv_def word_le_nat_alt dest!: checked_add_u64_Some)
  with edit_validate_ok [OF ok] keys have "keys_inv C t"
    by (simp add: t keys_inv_def guardian_bindings_def)
  with idle con show ?thesis by (simp add: t recovery_inv_def pending_inv_def edits_inv_def)
qed

definition fresh_policy_edits :: "GuardianRecoveryStateV1 \<Rightarrow> GuardianPolicyStateV1" where
  "fresh_policy_edits s =
     (case rs_policy_edits s of
        None \<Rightarrow> \<lparr>py_enabled = True, py_guardian_bindings = guardian_bindings s, py_pending = None,
                 py_consumed_edit_ids = {}, py_retired_guardian_keys = []\<rparr>
      | Some edits \<Rightarrow> edits)"

definition proposed ::
  "GuardianRecoveryStateV1 \<Rightarrow> u64 \<Rightarrow> GuardianPolicyEditV1 \<Rightarrow> RecoveryClockV1 \<Rightarrow>
   GuardianRecoveryStateV1" where
  "proposed s r edit clock =
     s\<lparr>rs_revision := r, rs_policy_edits := Some ((fresh_policy_edits s)\<lparr>
       py_consumed_edit_ids := insert (pe_edit_id edit) (py_consumed_edit_ids (fresh_policy_edits s)),
       py_pending := Some \<lparr>pn_edit = edit, pn_wait_origin = clock\<rparr>\<rparr>)\<rparr>"

lemma policy_propose_ok:
  assumes "policy_propose C J S s (s\<lparr>rs_revision := r\<rparr>) proposal clock = Inr t"
  obtains accepted message where
    "\<not> rs_maintenance s" "rs_pending s = None" "pending_policy_edit s = None"
    "pe_edit_id (pp_edit proposal) \<notin> consumed_edit_ids s"
    "GuardianPolicyEditV1_validate C J (pp_edit proposal) s = Inr ()"
    "owner_signing_message C J S (pp_edit proposal) s = Inr message"
    "signed_by C (ob_root_key (rs_binding s)) message (pp_owner_signature proposal)"
    "recovery_enabled s \<Longrightarrow> verify_votes C J S s (pp_edit proposal) PAP_Propose (pp_approvals proposal)
       (rc_wall_time clock) = Inr ()"
    "acceptance_loop C J S s (pp_edit proposal) {} (pp_acceptances proposal) = Inr accepted"
    "pe_enabled (pp_edit proposal) \<Longrightarrow> roster_accepted s (pp_edit proposal) accepted"
    "t = proposed s r (pp_edit proposal) clock"
  using assms
  by (auto simp: policy_propose_def proposed_def fresh_policy_edits_def consumed_edit_ids_def
      result_simps recovery_simps Let_def split: if_split_asm option.splits)

lemma inv_policy_propose:
  assumes "policy_propose C J S s (s\<lparr>rs_revision := r\<rparr>) proposal clock = Inr t" and "recovery_inv C J s"
  shows "recovery_inv C J t"
  using assms(1)
proof (rule policy_propose_ok)
  assume idle: "\<not> rs_maintenance s" "rs_pending s = None"
    and ok: "GuardianPolicyEditV1_validate C J (pp_edit proposal) s = Inr ()"
    and t: "t = proposed s r (pp_edit proposal) clock"
  have views: "recovery_enabled t = recovery_enabled s" "guardian_bindings t = guardian_bindings s"
    by (simp_all add: t proposed_def fresh_policy_edits_def recovery_enabled_def guardian_bindings_def
        split: option.split)
  then have "policy_view t = policy_view s" by (simp add: policy_view_def) (simp add: t proposed_def)
  from edit_validate_view [OF this, of C J] ok idle have "edits_inv C J t"
    by (simp add: edits_inv_def) (simp add: t proposed_def)
  moreover from assms(2) views have "keys_inv C t"
    by (simp add: recovery_inv_def keys_inv_def) (simp add: t proposed_def)
  ultimately show ?thesis using idle by (simp add: recovery_inv_def pending_inv_def) (simp add: t proposed_def)
qed

section \<open>Accepted transitions\<close>

lemma evaluate_enroll:
  assumes "evaluate_guardian_recovery C J S None command clock snapshot = Inr t"
  obtains e where "gc_action command = Enroll e" "GuardianEnrollmentV1_verify C S e = Inr ()"
    "t = enrolled_state e clock"
  using assms
  by (cases "gc_action command")
    (auto simp: evaluate_guardian_recovery_def result_simps split: if_split_asm)

definition clock_accepted :: "RecoveryClockV1 \<Rightarrow> RecoveryClockV1 \<Rightarrow> GuardianRecoveryActionV1 \<Rightarrow> bool" where
  "clock_accepted before clock action \<longleftrightarrow>
     rc_wall_time before \<le> rc_wall_time clock \<and>
     (if rc_writer_epoch clock = rc_writer_epoch before
      then rc_monotonic_ms before \<le> rc_monotonic_ms clock else action = RebaseWait)"

lemma evaluate_step:
  assumes "evaluate_guardian_recovery C J S (Some s) command clock snapshot = Inr t"
  obtains d r u where "state_digest C S s = Inr d" "gc_expected_state command = Some d"
    "clock_accepted (rs_clock s) clock (gc_action command)"
    "checked_add_u64 (rs_revision s) 1 = Some r"
    "apply_action C J S s (s\<lparr>rs_revision := r\<rparr>) (gc_action command) clock
       (rc_writer_epoch clock \<noteq> rc_writer_epoch (rs_clock s)) snapshot = Inr u"
    "t = u\<lparr>rs_clock := clock\<rparr>"
proof -
  let ?bad = "rc_wall_time clock < rc_wall_time (rs_clock s) \<or>
    \<not> rc_writer_epoch clock \<noteq> rc_writer_epoch (rs_clock s) \<and>
      rc_monotonic_ms clock < rc_monotonic_ms (rs_clock s) \<or>
    rc_writer_epoch clock \<noteq> rc_writer_epoch (rs_clock s) \<and> gc_action command \<noteq> RebaseWait"
  have "clock_accepted (rs_clock s) clock (gc_action command) \<longleftrightarrow> \<not> ?bad"
    by (auto simp: clock_accepted_def)
  moreover from assms obtain d r u where "state_digest C S s = Inr d" "gc_expected_state command = Some d"
    "\<not> ?bad" "checked_add_u64 (rs_revision s) 1 = Some r"
    "apply_action C J S s (s\<lparr>rs_revision := r\<rparr>) (gc_action command) clock
       (rc_writer_epoch clock \<noteq> rc_writer_epoch (rs_clock s)) snapshot = Inr u"
    "t = u\<lparr>rs_clock := clock\<rparr>"
    unfolding evaluate_guardian_recovery_def Let_def option.case
    by (simp only: and_then_eq_Inr ok_or_eq_Inr split: if_split_asm) auto
  ultimately show thesis by (intro that) simp_all
qed

lemma evaluate_stepI:
  assumes "validate_id (rc_writer_epoch clock) = Inr ()" "state_digest C S s = Inr d"
    "gc_expected_state command = Some d" "clock_accepted (rs_clock s) clock (gc_action command)"
    "checked_add_u64 (rs_revision s) 1 = Some r"
    "apply_action C J S s (s\<lparr>rs_revision := r\<rparr>) (gc_action command) clock
       (rc_writer_epoch clock \<noteq> rc_writer_epoch (rs_clock s)) snapshot = Inr u"
  shows "evaluate_guardian_recovery C J S (Some s) command clock snapshot = Inr (u\<lparr>rs_clock := clock\<rparr>)"
  using assms
  by (auto simp: evaluate_guardian_recovery_def and_then_Inr clock_accepted_def ok_or_def split: if_split_asm)

lemma inv_apply_action:
  assumes "apply_action C J S s (s\<lparr>rs_revision := r\<rparr>) action clock tenure snapshot = Inr t"
    and inv: "recovery_inv C J s"
  shows "recovery_inv C J t"
proof -
  let ?n = "s\<lparr>rs_revision := r\<rparr>"
  from inv have n: "recovery_inv C J ?n" by simp
  note arm = assms(1) [unfolded apply_action_def]
  show ?thesis
  proof (cases action)
    case (ProposePolicy x1)
    with arm inv show ?thesis by (auto dest: inv_policy_propose)
  next
    case (CancelPolicy x1 x2)
    with arm inv show ?thesis by (auto dest: inv_policy_cancel)
  next
    case ActivatePolicy
    with arm n show ?thesis by (auto dest: inv_policy_activate)
  next
    case (Enroll x)
    with arm show ?thesis by simp
  next
    case (Initiate x1 x2)
    with arm n show ?thesis by (auto dest: inv_initiate)
  next
    case RebaseWait
    with arm n show ?thesis by (auto dest: inv_rebase_wait)
  next
    case (IssueChallenge x)
    with arm n show ?thesis by (auto dest: inv_issue_challenge)
  next
    case (CancelRecovery x)
    with arm n show ?thesis by (auto dest: inv_cancel)
  next
    case ExpireRecovery
    with arm n show ?thesis by (auto dest: inv_expire)
  next
    case (CompleteRecovery x)
    with arm n show ?thesis by (auto dest: inv_complete)
  next
    case (Resume x1 x2)
    with arm inv show ?thesis by (auto dest: inv_resume)
  qed
qed

section \<open>Histories\<close>

text \<open>
  A history is the list of accepted commands with the clock of each, oldest first; the state
  it leads to is the one the last of them proposed.
\<close>

type_synonym recovery_history = "(GuardianRecoveryCommandV1 \<times> RecoveryClockV1) list"

inductive recovery_init ::
  "Crypto \<Rightarrow> jiff \<Rightarrow> StateSerde \<Rightarrow> recovery_history \<times> GuardianRecoveryStateV1 \<Rightarrow> bool"
  for C J S where
  recovery_init: "evaluate_guardian_recovery C J S None command clock snapshot = Inr s \<Longrightarrow>
     recovery_init C J S ([(command, clock)], s)"

inductive recovery_step ::
  "Crypto \<Rightarrow> jiff \<Rightarrow> StateSerde \<Rightarrow> recovery_history \<times> GuardianRecoveryStateV1 \<Rightarrow>
   recovery_history \<times> GuardianRecoveryStateV1 \<Rightarrow> bool"
  for C J S where
  recovery_step: "evaluate_guardian_recovery C J S (Some s) command clock snapshot = Inr t \<Longrightarrow>
     recovery_step C J S (h, s) (h @ [(command, clock)], t)"

inductive_cases recovery_initE: "recovery_init C J S x"
inductive_cases recovery_stepE: "recovery_step C J S x y"

abbreviation recovery_reach ::
  "Crypto \<Rightarrow> jiff \<Rightarrow> StateSerde \<Rightarrow> recovery_history \<Rightarrow> GuardianRecoveryStateV1 \<Rightarrow> bool" where
  "recovery_reach C J S h s \<equiv> reach (recovery_init C J S) (recovery_step C J S) (h, s)"

interpretation recovery_states: invariant_system "recovery_init C J S" "recovery_step C J S"
  "\<lambda>(h, s). recovery_inv C J s"
  for C J S
proof
  show "case x of (h, s) \<Rightarrow> recovery_inv C J s" if "recovery_init C J S x" for x
    using that by (auto elim!: recovery_initE evaluate_enroll simp: inv_enrolled)
  show "case y of (h, s) \<Rightarrow> recovery_inv C J s"
    if "case x of (h, s) \<Rightarrow> recovery_inv C J s" "recovery_step C J S x y" for x y
    using that by (auto elim!: recovery_stepE evaluate_step dest: inv_apply_action)
qed

text \<open>
  Behind every pending recovery there is its initiation: a quorum of the current policy for
  exactly this request, which fixed the deadline. The present wait started at the initiation, or
  later at a rebase by a new writer.
\<close>

definition initiation_of ::
  "Crypto \<Rightarrow> jiff \<Rightarrow> StateSerde \<Rightarrow> GuardianRecoveryPolicyV1 \<Rightarrow> RecoveryRequestV1 \<Rightarrow> RecoveryClockV1 \<Rightarrow>
   Timestamp \<Rightarrow> recovery_history \<Rightarrow> bool" where
  "initiation_of C J S policy request origin deadline h \<longleftrightarrow>
     (\<exists>command clock approvals. (command, clock) \<in> set h \<and> gc_action command = Initiate request approvals \<and>
        quorum_verified C J (ss_serde S) policy request RP_Initiate approvals (rc_wall_time clock) \<and>
        recovery_deadline J request clock deadline \<and>
        rc_wall_time clock \<le> rc_wall_time origin \<and>
        (origin = clock \<or> (\<exists>rebase. (rebase, origin) \<in> set h \<and> gc_action rebase = RebaseWait)))"

lemma initiation_of_append:
  "initiation_of C J S policy request origin deadline h \<Longrightarrow>
   initiation_of C J S policy request origin deadline (h @ h')"
  unfolding initiation_of_def set_append Un_iff by blast

lemma initiation_of_rebase:
  assumes "initiation_of C J S policy request origin deadline h"
    and "rc_wall_time origin \<le> rc_wall_time clock" and "gc_action command = RebaseWait"
  shows "initiation_of C J S policy request clock deadline (h @ [(command, clock)])"
proof -
  from assms(1) obtain initiation clock0 approvals where i: "(initiation, clock0) \<in> set h"
    "gc_action initiation = Initiate request approvals"
    "quorum_verified C J (ss_serde S) policy request RP_Initiate approvals (rc_wall_time clock0)"
    "recovery_deadline J request clock0 deadline" "rc_wall_time clock0 \<le> rc_wall_time origin"
    by (auto simp: initiation_of_def)
  from i(5) assms(2) have "rc_wall_time clock0 \<le> rc_wall_time clock" by (rule order_trans)
  moreover have "(command, clock) \<in> set (h @ [(command, clock)])" "(initiation, clock0) \<in> set (h @ [(command, clock)])"
    using i(1) by simp_all
  ultimately show ?thesis using i(2-4) assms(3) unfolding initiation_of_def by blast
qed

text \<open>
  Behind the challenge of a pending recovery there is the command that issued it, after the full
  wait. A challenge lives for ten minutes, or until the deadline of the recovery.
\<close>

definition challenge_of ::
  "jiff \<Rightarrow> PendingGuardianRecoveryV1 \<Rightarrow> RecoveryChallengeV1 \<Rightarrow> Timestamp \<Rightarrow> recovery_history \<Rightarrow> bool" where
  "challenge_of J p ch now h \<longleftrightarrow>
     (\<exists>command clock limit. (command, clock) \<in> set h \<and> gc_action command = IssueChallenge (ch_value ch) \<and>
        delay_elapsed J (pg_wait_origin p) clock = Inr () \<and> rc_wall_time clock \<le> now \<and>
        ch_issued_at ch = rc_wall_time clock \<and>
        checked_add_milliseconds J (rc_wall_time clock) RECOVERY_APPROVAL_MAX_MS = Some limit \<and>
        ch_expires_at ch = ts_min limit (pg_deadline p))"

lemma challenge_of_mono:
  "challenge_of J q ch now h \<Longrightarrow> now \<le> now' \<Longrightarrow> pg_wait_origin p = pg_wait_origin q \<Longrightarrow>
   pg_deadline p = pg_deadline q \<Longrightarrow> challenge_of J p ch now' (h @ h')"
  unfolding challenge_of_def by (elim exE conjE, intro exI conjI) (auto intro: order_trans)

text \<open>The challenges a history has issued, in order.\<close>

fun issued_by :: "GuardianRecoveryActionV1 \<Rightarrow> string list" where
  "issued_by (IssueChallenge challenge) = [challenge]"
| "issued_by _ = []"

definition issued_challenges :: "recovery_history \<Rightarrow> string list" where
  "issued_challenges h = concat (map (\<lambda>(command, clock). issued_by (gc_action command)) h)"

lemma issued_challenges_simps [simp]:
  "issued_challenges [] = []"
  "issued_challenges ((command, clock) # h) = issued_by (gc_action command) @ issued_challenges h"
  "issued_challenges (h @ h') = issued_challenges h @ issued_challenges h'"
  by (simp_all add: issued_challenges_def)

lemma issued_by_mem [simp]: "challenge \<in> set (issued_by action) \<longleftrightarrow> action = IssueChallenge challenge"
  by (cases action) auto

lemma not_issued:
  "challenge \<notin> set (issued_challenges h) \<Longrightarrow>
   filter (\<lambda>(command, clock). gc_action command = IssueChallenge challenge) h = []"
  by (induction h) auto

lemma issued_once:
  assumes "distinct (issued_challenges h)" and "(command, clock) \<in> set h"
    and "gc_action command = IssueChallenge challenge"
  shows "filter (\<lambda>(command, clock). gc_action command = IssueChallenge challenge) h = [(command, clock)]"
  using assms
proof (induction h)
  case (Cons x h)
  obtain c k where x: "x = (c, k)" by fastforce
  have later: "challenge \<in> set (issued_challenges h)" if "(command, clock) \<in> set h"
    using that Cons.prems(3) by (auto simp: issued_challenges_def intro!: bexI [of _ "(command, clock)"])
  show ?case
  proof (cases "gc_action c = IssueChallenge challenge")
    case True
    with Cons.prems(1) x have "challenge \<notin> set (issued_challenges h)" by auto
    with later Cons.prems(2) True x not_issued [OF this] show ?thesis by auto
  next
    case False
    with Cons.prems x have "(command, clock) \<in> set h" "distinct (issued_challenges h)" by auto
    with Cons.IH Cons.prems(3) False x show ?thesis by simp
  qed
qed simp

text \<open>
  Behind every pending policy edit there is its proposal: signed by the root key of the
  binding, voted for by the roster it replaces unless guardians are disabled, and accepted by
  every newcomer.
\<close>

definition proposal_verified ::
  "Crypto \<Rightarrow> jiff \<Rightarrow> StateSerde \<Rightarrow> GuardianRecoveryStateV1 \<Rightarrow> GuardianPolicyProposalV1 \<Rightarrow> Timestamp \<Rightarrow> bool" where
  "proposal_verified C J S s proposal now \<longleftrightarrow>
     (\<exists>message. owner_signing_message C J S (pp_edit proposal) s = Inr message \<and>
        signed_by C (ob_root_key (rs_binding s)) message (pp_owner_signature proposal)) \<and>
     (recovery_enabled s \<longrightarrow>
        verify_votes C J S s (pp_edit proposal) PAP_Propose (pp_approvals proposal) now = Inr ()) \<and>
     (pe_enabled (pp_edit proposal) \<longrightarrow>
        (\<exists>accepted. acceptance_loop C J S s (pp_edit proposal) {} (pp_acceptances proposal) = Inr accepted \<and>
           roster_accepted s (pp_edit proposal) accepted))"

definition proposal_of ::
  "Crypto \<Rightarrow> jiff \<Rightarrow> StateSerde \<Rightarrow> GuardianRecoveryStateV1 \<Rightarrow> GuardianPolicyEditV1 \<Rightarrow> Timestamp \<Rightarrow>
   recovery_history \<Rightarrow> bool" where
  "proposal_of C J S s edit latest h \<longleftrightarrow>
     (\<exists>command clock proposal u. (command, clock) \<in> set h \<and> gc_action command = ProposePolicy proposal \<and>
        pp_edit proposal = edit \<and> policy_view u = policy_view s \<and>
        proposal_verified C J S u proposal (rc_wall_time clock) \<and> rc_wall_time clock \<le> latest)"

lemma proposal_of_mono:
  "proposal_of C J S s edit t h \<Longrightarrow> policy_view s' = policy_view s \<Longrightarrow> t \<le> t' \<Longrightarrow>
   proposal_of C J S s' edit t' (h @ h')"
  unfolding proposal_of_def by (elim exE conjE, intro exI conjI) (auto intro: order_trans)

definition wait_inv :: "Crypto \<Rightarrow> jiff \<Rightarrow> StateSerde \<Rightarrow> recovery_history \<times> GuardianRecoveryStateV1 \<Rightarrow> bool" where
  "wait_inv C J S = (\<lambda>(h, s). recovery_inv C J s \<and>
     (\<forall>p. rs_pending s = Some p \<longrightarrow>
        rc_wall_time (pg_wait_origin p) \<le> rc_wall_time (rs_clock s) \<and>
        initiation_of C J S (rs_policy s) (pg_request p) (pg_wait_origin p) (pg_deadline p) h \<and>
        (\<forall>ch. pg_challenge p = Some ch \<longrightarrow> challenge_of J p ch (rc_wall_time (rs_clock s)) h)) \<and>
     (\<forall>p. pending_policy_edit s = Some p \<longrightarrow>
        rc_wall_time (pn_wait_origin p) \<le> rc_wall_time (rs_clock s) \<and>
        proposal_of C J S s (pn_edit p) (rc_wall_time (pn_wait_origin p)) h) \<and>
     distinct (issued_challenges h) \<and> rs_consumed_challenges s = set (issued_challenges h))"

text \<open>How one action changes the two waits and the consumed challenges.\<close>

definition challenge_issued ::
  "jiff \<Rightarrow> PendingGuardianRecoveryV1 \<Rightarrow> string \<Rightarrow> RecoveryClockV1 \<Rightarrow> PendingGuardianRecoveryV1 \<Rightarrow> bool" where
  "challenge_issued J q challenge clock p \<longleftrightarrow>
     delay_elapsed J (pg_wait_origin q) clock = Inr () \<and>
     (\<exists>limit. checked_add_milliseconds J (rc_wall_time clock) RECOVERY_APPROVAL_MAX_MS = Some limit \<and>
        p = q\<lparr>pg_challenge := Some \<lparr>ch_value = challenge, ch_issued_at = rc_wall_time clock,
                ch_expires_at = ts_min limit (pg_deadline q)\<rparr>\<rparr>)"

lemma pending_after:
  assumes "apply_action C J S s (s\<lparr>rs_revision := r\<rparr>) action clock tenure snapshot = Inr t"
    and "recovery_inv C J s" and "rs_pending t = Some p"
  shows "rs_policy t = rs_policy s \<and>
    ((\<exists>approvals. action = Initiate (pg_request p) approvals \<and> pg_wait_origin p = clock \<and>
       pg_challenge p = None \<and> recovery_deadline J (pg_request p) clock (pg_deadline p) \<and>
       quorum_verified C J (ss_serde S) (rs_policy s) (pg_request p) RP_Initiate approvals (rc_wall_time clock)) \<or>
     (\<exists>q. rs_pending s = Some q \<and>
       (p = q \<or> action = RebaseWait \<and> p = q\<lparr>pg_wait_origin := clock, pg_challenge := None\<rparr> \<or>
        (\<exists>challenge. action = IssueChallenge challenge \<and> challenge_issued J q challenge clock p))))"
  using assms(1)
proof (cases action)
  case (ProposePolicy x)
  with assms(1,3) show ?thesis
    by (auto simp: apply_action_def proposed_def elim!: policy_propose_ok)
next
  case ActivatePolicy
  with assms(1) have *: "policy_activate J (s\<lparr>rs_revision := r\<rparr>) clock = Inr t" by (simp add: apply_action_def)
  then have "rs_pending t = rs_pending s" "pending_policy_edit s \<noteq> None"
    by (auto simp: policy_activate_def result_simps Let_def)
  with assms(2,3) show ?thesis by (simp add: recovery_inv_def pending_inv_def)
next
  case (Initiate x1 x2)
  with assms(1) have "act_initiate C J S (s\<lparr>rs_revision := r\<rparr>) x1 x2 clock = Inr t"
    by (simp add: apply_action_def)
  then show ?thesis
    by (rule act_initiate_ok) (use assms(3) Initiate in \<open>auto simp: initiated_def\<close>)
next
  case (IssueChallenge x)
  with assms(1) have "act_issue_challenge J (s\<lparr>rs_revision := r\<rparr>) x clock = Inr t"
    by (simp add: apply_action_def)
  then obtain q where "rs_pending s = Some q" "rs_policy t = rs_policy s" "\<exists>p. rs_pending t = Some p \<and> challenge_issued J q x clock p"
    by (auto simp: act_issue_challenge_def wait_finished_def checked_deadline_def challenge_issued_def
        result_simps split: if_split_asm)
  with IssueChallenge assms(3) show ?thesis by auto
next
  case (CompleteRecovery x)
  with assms(1) have "act_complete C J S (s\<lparr>rs_revision := r\<rparr>) x clock = Inr t"
    by (simp add: apply_action_def)
  then show ?thesis by (rule act_complete_ok) (use assms(3) in simp)
qed (use assms(3) in \<open>auto simp: apply_action_def policy_cancel_def clear_pending_policy_def
    act_rebase_wait_def act_cancel_def act_expire_def act_resume_def result_simps split: if_split_asm\<close>)

lemma challenges_after:
  assumes "apply_action C J S s (s\<lparr>rs_revision := r\<rparr>) action clock tenure snapshot = Inr t"
  shows "rs_consumed_challenges t = rs_consumed_challenges s \<union> set (issued_by action) \<and>
    distinct (issued_by action) \<and> rs_consumed_challenges s \<inter> set (issued_by action) = {}"
  using assms
  by (cases action)
    (auto simp: apply_action_def policy_propose_def policy_cancel_def clear_pending_policy_def
      policy_activate_def act_initiate_def act_rebase_wait_def act_issue_challenge_def act_cancel_def
      act_expire_def act_complete_def act_resume_def result_simps Let_def split: if_split_asm)

lemma pending_edit_after:
  assumes "apply_action C J S s (s\<lparr>rs_revision := r\<rparr>) action clock tenure snapshot = Inr t"
    and "recovery_inv C J s" and "pending_policy_edit t = Some p"
  shows "policy_view t = policy_view s \<and>
    ((\<exists>proposal. action = ProposePolicy proposal \<and> pn_edit p = pp_edit proposal \<and> pn_wait_origin p = clock \<and>
       proposal_verified C J S s proposal (rc_wall_time clock)) \<or>
     (\<exists>q. pending_policy_edit s = Some q \<and> pn_edit p = pn_edit q \<and>
       (pn_wait_origin p = pn_wait_origin q \<or> pn_wait_origin p = clock)))"
  using assms(1)
proof (cases action)
  case (ProposePolicy x)
  with assms(1) have "policy_propose C J S s (s\<lparr>rs_revision := r\<rparr>) x clock = Inr t"
    by (simp add: apply_action_def)
  then show ?thesis
  proof (rule policy_propose_ok)
    fix accepted message
    assume f: "owner_signing_message C J S (pp_edit x) s = Inr message"
      "signed_by C (ob_root_key (rs_binding s)) message (pp_owner_signature x)"
      "recovery_enabled s \<Longrightarrow> verify_votes C J S s (pp_edit x) PAP_Propose (pp_approvals x) (rc_wall_time clock) = Inr ()"
      "acceptance_loop C J S s (pp_edit x) {} (pp_acceptances x) = Inr accepted"
      "pe_enabled (pp_edit x) \<Longrightarrow> roster_accepted s (pp_edit x) accepted"
      and t: "t = proposed s r (pp_edit x) clock"
    from f have "proposal_verified C J S s x (rc_wall_time clock)" by (auto simp: proposal_verified_def)
    moreover have "policy_view t = policy_view s" "p = \<lparr>pn_edit = pp_edit x, pn_wait_origin = clock\<rparr>"
      using assms(3)
      by (auto simp: t proposed_def fresh_policy_edits_def policy_view_def recovery_enabled_def
          guardian_bindings_def pending_policy_edit_def split: option.split)
    ultimately show ?thesis using ProposePolicy by simp
  qed
next
  case (CompleteRecovery x)
  with assms(1) have "act_complete C J S (s\<lparr>rs_revision := r\<rparr>) x clock = Inr t"
    by (simp add: apply_action_def)
  then obtain q where "rs_pending s = Some q" "pending_policy_edit t = pending_policy_edit s"
    by (rule act_complete_ok) auto
  with assms(2,3) show ?thesis by (simp add: recovery_inv_def pending_inv_def)
next
  case RebaseWait
  with assms(1,3) show ?thesis
    by (auto simp: apply_action_def act_rebase_wait_def pending_policy_edit_def policy_view_def
        recovery_enabled_def guardian_bindings_def split: if_split_asm option.split)
qed (use assms(3) in \<open>auto simp: apply_action_def policy_cancel_def clear_pending_policy_def policy_activate_def
    act_initiate_def act_issue_challenge_def act_cancel_def act_expire_def act_resume_def
    pending_policy_edit_def [of "_\<lparr>rs_policy_edits := _\<rparr>"] pending_policy_edit_def [of "_\<lparr>rs_policy_edits := _, rs_policy := _\<rparr>"]
    result_simps Let_def split: if_split_asm\<close>)

lemma wait_inv_pending:
  assumes w: "wait_inv C J S (h, s)"
    and a: "apply_action C J S s (s\<lparr>rs_revision := r\<rparr>) (gc_action command) clock tenure snapshot = Inr u"
    and le: "rc_wall_time (rs_clock s) \<le> rc_wall_time clock" and p: "rs_pending u = Some p"
  shows "rc_wall_time (pg_wait_origin p) \<le> rc_wall_time clock \<and>
    initiation_of C J S (rs_policy u) (pg_request p) (pg_wait_origin p) (pg_deadline p) (h @ [(command, clock)]) \<and>
    (\<forall>ch. pg_challenge p = Some ch \<longrightarrow> challenge_of J p ch (rc_wall_time clock) (h @ [(command, clock)]))"
proof -
  from w have inv: "recovery_inv C J s" by (simp add: wait_inv_def)
  have same: "rs_policy u = rs_policy s" using pending_after [OF a inv p] ..
  note kept = w [unfolded wait_inv_def prod.case, THEN conjunct2, THEN conjunct1, rule_format]
  from pending_after [OF a inv p] consider
    (new) approvals where "gc_action command = Initiate (pg_request p) approvals" "pg_wait_origin p = clock"
      "pg_challenge p = None" "recovery_deadline J (pg_request p) clock (pg_deadline p)"
      "quorum_verified C J (ss_serde S) (rs_policy s) (pg_request p) RP_Initiate approvals (rc_wall_time clock)"
  | (same) "rs_pending s = Some p"
  | (rebase) q where "rs_pending s = Some q" "gc_action command = RebaseWait"
      "p = q\<lparr>pg_wait_origin := clock, pg_challenge := None\<rparr>"
  | (issue) q challenge where "rs_pending s = Some q" "gc_action command = IssueChallenge challenge"
      "challenge_issued J q challenge clock p"
    by blast
  then show ?thesis
  proof cases
    case new
    then show ?thesis by (auto simp: initiation_of_def same)
  next
    case same
    from kept [OF this] le show ?thesis
      by (auto simp: \<open>rs_policy u = rs_policy s\<close> intro: order_trans initiation_of_append challenge_of_mono)
  next
    case rebase
    from kept [OF rebase(1)] le have "rc_wall_time (pg_wait_origin q) \<le> rc_wall_time clock"
      by (blast intro: order_trans)
    with kept [OF rebase(1)] rebase(2) show ?thesis
      by (auto simp: rebase(3) same intro: initiation_of_rebase)
  next
    case issue
    from issue(3) obtain limit where i: "delay_elapsed J (pg_wait_origin q) clock = Inr ()"
      "checked_add_milliseconds J (rc_wall_time clock) RECOVERY_APPROVAL_MAX_MS = Some limit"
      "p = q\<lparr>pg_challenge := Some \<lparr>ch_value = challenge, ch_issued_at = rc_wall_time clock,
        ch_expires_at = ts_min limit (pg_deadline q)\<rparr>\<rparr>"
      by (auto simp: challenge_issued_def)
    from kept [OF issue(1)] le have "rc_wall_time (pg_wait_origin q) \<le> rc_wall_time clock"
      by (blast intro: order_trans)
    with kept [OF issue(1)] issue(2) i(1,2) show ?thesis
      by (auto simp: i(3) same challenge_of_def intro: initiation_of_append)
  qed
qed

lemma wait_inv_step:
  assumes w: "wait_inv C J S (h, s)"
    and e: "evaluate_guardian_recovery C J S (Some s) command clock snapshot = Inr t"
  shows "wait_inv C J S (h @ [(command, clock)], t)"
  using e
proof (rule evaluate_step)
  fix r u
  assume clk: "clock_accepted (rs_clock s) clock (gc_action command)" and t: "t = u\<lparr>rs_clock := clock\<rparr>"
    and a: "apply_action C J S s (s\<lparr>rs_revision := r\<rparr>) (gc_action command) clock
       (rc_writer_epoch clock \<noteq> rc_writer_epoch (rs_clock s)) snapshot = Inr u"
  from w have inv: "recovery_inv C J s" by (simp add: wait_inv_def)
  from clk have le: "rc_wall_time (rs_clock s) \<le> rc_wall_time clock" by (simp add: clock_accepted_def)
  have "rc_wall_time (pg_wait_origin p) \<le> rc_wall_time clock \<and>
      initiation_of C J S (rs_policy u) (pg_request p) (pg_wait_origin p) (pg_deadline p) (h @ [(command, clock)]) \<and>
      (\<forall>ch. pg_challenge p = Some ch \<longrightarrow> challenge_of J p ch (rc_wall_time clock) (h @ [(command, clock)]))"
    if p: "rs_pending u = Some p" for p
    using wait_inv_pending [OF w a le p] .
  moreover have "rc_wall_time (pn_wait_origin p) \<le> rc_wall_time clock \<and>
      proposal_of C J S u (pn_edit p) (rc_wall_time (pn_wait_origin p)) (h @ [(command, clock)])"
    if p: "pending_policy_edit u = Some p" for p
  proof -
    from pending_edit_after [OF a inv p] have same: "policy_view u = policy_view s" by simp
    from pending_edit_after [OF a inv p] consider
      (new) proposal where "gc_action command = ProposePolicy proposal" "pn_edit p = pp_edit proposal"
        "pn_wait_origin p = clock" "proposal_verified C J S s proposal (rc_wall_time clock)"
    | (kept) q where "pending_policy_edit s = Some q" "pn_edit p = pn_edit q"
        "pn_wait_origin p = pn_wait_origin q \<or> pn_wait_origin p = clock"
      by blast
    then show ?thesis
    proof cases
      case new
      then show ?thesis using same by (auto simp: proposal_of_def intro!: exI [of _ s])
    next
      case kept
      with w have "rc_wall_time (pn_wait_origin q) \<le> rc_wall_time (rs_clock s)"
        "proposal_of C J S s (pn_edit q) (rc_wall_time (pn_wait_origin q)) h"
        by (simp_all add: wait_inv_def)
      moreover from this(1) le kept(3) have "rc_wall_time (pn_wait_origin q) \<le> rc_wall_time (pn_wait_origin p)"
        "rc_wall_time (pn_wait_origin p) \<le> rc_wall_time clock" by (auto intro: order_trans)
      ultimately show ?thesis using kept(2) same by (simp add: proposal_of_mono)
    qed
  qed
  moreover have "proposal_of C J S t = proposal_of C J S u"
    by (simp add: t proposal_of_def fun_eq_iff)
  moreover from w have "distinct (issued_challenges h)" "rs_consumed_challenges s = set (issued_challenges h)"
    by (simp_all add: wait_inv_def)
  with challenges_after [OF a] have "distinct (issued_challenges (h @ [(command, clock)]))"
    "rs_consumed_challenges u = set (issued_challenges (h @ [(command, clock)]))" by auto
  ultimately show ?thesis
    using inv_apply_action [OF a inv] unfolding wait_inv_def prod.case by (simp add: t)
qed

interpretation recovery_waits: invariant_system "recovery_init C J S" "recovery_step C J S" "wait_inv C J S"
  for C J S
proof
  show "wait_inv C J S x" if "recovery_init C J S x" for x
    using that
    by (auto elim!: recovery_initE evaluate_enroll simp: wait_inv_def inv_enrolled)
      (auto simp: enrolled_state_def pending_policy_edit_def)
  show "wait_inv C J S y" if "wait_inv C J S x" "recovery_step C J S x y" for x y
    using that(2) by (rule recovery_stepE) (use that(1) wait_inv_step in blast)
qed

lemma delay_elapsed_ok:
  assumes "delay_elapsed J origin clock = Inr u" and "jiff_roundtrip J"
  shows "rc_writer_epoch origin = rc_writer_epoch clock \<and>
    unat (rc_monotonic_ms origin) + 86400000 \<le> unat (rc_monotonic_ms clock) \<and>
    ts_ns (rc_wall_time origin) + 86400000 * 1000000 \<le> ts_ns (rc_wall_time clock)"
proof -
  from assms(1) obtain elapsed earliest where
    e: "checked_sub_u64 (rc_monotonic_ms clock) (rc_monotonic_ms origin) = Some elapsed"
      "RECOVERY_DELAY_MS \<le> elapsed" and
    w: "checked_add_milliseconds J (rc_wall_time origin) RECOVERY_DELAY_MS = Some earliest"
      "earliest \<le> rc_wall_time clock" and
    epoch: "rc_writer_epoch origin = rc_writer_epoch clock"
    by (auto simp: delay_elapsed_def result_simps not_less split: if_split_asm option.split_asm)
  have "unat (86400000 :: u64) = 86400000" "uint (86400000 :: u64) = 86400000" by simp_all
  with e(2) checked_sub_u64_Some [OF e(1)] checked_add_milliseconds_ns [OF assms(2) w(1)] w(2) epoch
  show ?thesis by (simp add: RECOVERY_DELAY_MS_def word_le_nat_alt less_eq_Timestamp_def)
qed

lemma challenge_of_bounds:
  assumes "challenge_of J p ch now h" and "distinct (issued_challenges h)" and "jiff_roundtrip J"
  obtains issue clock1 where
    "filter (\<lambda>(c, k). gc_action c = IssueChallenge (ch_value ch)) h = [(issue, clock1)]"
    "rc_writer_epoch (pg_wait_origin p) = rc_writer_epoch clock1"
    "unat (rc_monotonic_ms (pg_wait_origin p)) + 86400000 \<le> unat (rc_monotonic_ms clock1)"
    "ts_ns (rc_wall_time (pg_wait_origin p)) + 86400000 * 1000000 \<le> ts_ns (rc_wall_time clock1)"
    "rc_wall_time clock1 \<le> now" "ch_issued_at ch = rc_wall_time clock1"
    "ts_ns (ch_expires_at ch) \<le> ts_ns (rc_wall_time clock1) + 600000 * 1000000"
proof -
  from assms(1) obtain issue clock1 limit where iss: "(issue, clock1) \<in> set h"
      "gc_action issue = IssueChallenge (ch_value ch)" "delay_elapsed J (pg_wait_origin p) clock1 = Inr ()"
      "rc_wall_time clock1 \<le> now" "ch_issued_at ch = rc_wall_time clock1"
    and lim: "checked_add_milliseconds J (rc_wall_time clock1) RECOVERY_APPROVAL_MAX_MS = Some limit"
      "ch_expires_at ch = ts_min limit (pg_deadline p)"
    by (auto simp: challenge_of_def)
  have "ts_ns (ch_expires_at ch) \<le> ts_ns (rc_wall_time clock1) + 600000 * 1000000"
    using checked_add_milliseconds_ns [OF assms(3) lim(1)]
    by (simp add: lim(2) ts_min_ns RECOVERY_APPROVAL_MAX_MS_def)
  with that [OF issued_once [OF assms(2) iss(1,2)]] delay_elapsed_ok [OF iss(3) assms(3)] iss(4,5)
  show thesis by blast
qed

text \<open>Which actions touch which part of the state.\<close>

lemmas act_defs = policy_propose_def policy_cancel_def clear_pending_policy_def policy_activate_def
  act_initiate_def act_rebase_wait_def act_issue_challenge_def act_cancel_def act_expire_def
  act_complete_def act_resume_def

lemma binding_after:
  "apply_action C J S s (s\<lparr>rs_revision := r\<rparr>) action clock tenure snapshot = Inr t \<Longrightarrow>
   rs_binding t \<noteq> rs_binding s \<Longrightarrow> \<exists>approvals. action = CompleteRecovery approvals"
  by (cases action) (auto simp: apply_action_def act_defs result_simps Let_def split: if_split_asm)

lemma root_changed:
  assumes "evaluate_guardian_recovery C J S (Some s) command clock snapshot = Inr t"
    and "ob_root_key (rs_binding t) \<noteq> ob_root_key (rs_binding s)"
  obtains approvals p ch where "gc_action command = CompleteRecovery approvals"
    "rs_pending s = Some p" "pg_challenge p = Some ch" "wait_finished J p clock = Inr ()"
    "rc_wall_time (rs_clock s) \<le> rc_wall_time clock" "rc_wall_time clock < ch_expires_at ch"
    "\<forall>a \<in> set approvals. ch_issued_at ch \<le> gv_issued_at a \<and> gv_expires_at a \<le> ch_expires_at ch"
    "quorum_verified C J (ss_serde S) (rs_policy s) (pg_request p) (RP_Complete (ch_value ch)) approvals
       (rc_wall_time clock)"
    "ob_root_key (rs_binding t) = ri_replacement_key (rr_intent (pg_request p))"
    "rs_retired_root_keys t = rs_retired_root_keys s @ [ob_root_key (rs_binding s)]"
  using assms(1)
proof (rule evaluate_step)
  fix r u
  assume t: "t = u\<lparr>rs_clock := clock\<rparr>"
    and clk: "clock_accepted (rs_clock s) clock (gc_action command)"
    and a: "apply_action C J S s (s\<lparr>rs_revision := r\<rparr>) (gc_action command) clock
       (rc_writer_epoch clock \<noteq> rc_writer_epoch (rs_clock s)) snapshot = Inr u"
  from assms(2) t have "rs_binding u \<noteq> rs_binding s" by auto
  from binding_after [OF a this] obtain approvals where c: "gc_action command = CompleteRecovery approvals" ..
  with a have "act_complete C J S (s\<lparr>rs_revision := r\<rparr>) approvals clock = Inr u"
    by (simp add: apply_action_def)
  then show thesis
    by (rule act_complete_ok) (use that [OF c] clk in \<open>simp add: t clock_accepted_def\<close>)
qed

lemma roster_after:
  assumes "apply_action C J S s (s\<lparr>rs_revision := r\<rparr>) action clock tenure snapshot = Inr t"
    and "action \<noteq> ActivatePolicy"
  shows "gp_guardians (rs_policy t) = gp_guardians (rs_policy s) \<and> guardian_bindings t = guardian_bindings s \<and>
   recovery_enabled t = recovery_enabled s"
  using assms(1)
proof (cases action)
  case (ProposePolicy x)
  with assms(1) have "policy_propose C J S s (s\<lparr>rs_revision := r\<rparr>) x clock = Inr t"
    by (simp add: apply_action_def)
  then show ?thesis
    by (rule policy_propose_ok) (auto simp: proposed_def fresh_policy_edits_def recovery_enabled_def
        guardian_bindings_def split: option.split)
next
  case (CancelPolicy x1 x2)
  with assms(1) obtain e where "rs_policy_edits s = Some e"
    "t = s\<lparr>rs_revision := r, rs_policy_edits := Some (e\<lparr>py_pending := None\<rparr>)\<rparr>"
    by (auto simp: apply_action_def policy_cancel_def clear_pending_policy_def result_simps)
  then show ?thesis by (simp add: recovery_enabled_def guardian_bindings_def)
next
  case RebaseWait
  with assms(1) show ?thesis
    by (auto simp: apply_action_def act_rebase_wait_def recovery_enabled_def guardian_bindings_def
        split: if_split_asm option.split)
qed (use assms(2) in \<open>auto simp: apply_action_def act_initiate_def act_issue_challenge_def act_cancel_def
    act_expire_def act_complete_def act_resume_def result_simps Let_def split: if_split_asm\<close>)

lemma maintenance_after:
  "apply_action C J S s (s\<lparr>rs_revision := r\<rparr>) action clock tenure snapshot = Inr t \<Longrightarrow>
   rs_maintenance s \<Longrightarrow> \<not> rs_maintenance t \<Longrightarrow> \<exists>expected signature. action = Resume expected signature"
  by (cases action) (auto simp: apply_action_def act_defs result_simps Let_def split: if_split_asm)

lemma push_new_set: "set (foldl push_new xs ys) = set xs \<union> set ys"
  by (induction ys arbitrary: xs) (auto simp: push_new_def)

lemma consumed_after:
  "apply_action C J S s (s\<lparr>rs_revision := r\<rparr>) action clock tenure snapshot = Inr t \<Longrightarrow>
   rs_revision t = r \<and> rs_enrollment t = rs_enrollment s \<and>
   rs_consumed_request_ids s \<subseteq> rs_consumed_request_ids t \<and>
   rs_consumed_challenges s \<subseteq> rs_consumed_challenges t \<and>
   set (rs_retired_root_keys s) \<subseteq> set (rs_retired_root_keys t)"
  by (cases action) (auto simp: apply_action_def act_defs result_simps Let_def split: if_split_asm)

lemma edits_after:
  assumes "apply_action C J S s (s\<lparr>rs_revision := r\<rparr>) action clock tenure snapshot = Inr t"
  shows "consumed_edit_ids s \<subseteq> consumed_edit_ids t \<and>
    set (retired_guardian_keys s) \<subseteq> set (retired_guardian_keys t)"
proof (cases "\<exists>proposal. action = ProposePolicy proposal")
  case True
  then obtain proposal where "action = ProposePolicy proposal" ..
  with assms have "policy_propose C J S s (s\<lparr>rs_revision := r\<rparr>) proposal clock = Inr t"
    by (simp add: apply_action_def)
  then show ?thesis
    by (rule policy_propose_ok) (auto simp: proposed_def fresh_policy_edits_def consumed_edit_ids_def
        retired_guardian_keys_def split: option.split)
next
  case False
  with assms show ?thesis
    by (cases action)
      (auto simp: apply_action_def act_defs consumed_edit_ids_def retired_guardian_keys_def push_new_set
        result_simps Let_def split: if_split_asm option.split)
qed

text \<open>What each action that consumes something or retires a key checks and records.\<close>

definition records_use ::
  "GuardianRecoveryStateV1 \<Rightarrow> GuardianRecoveryActionV1 \<Rightarrow> GuardianRecoveryStateV1 \<Rightarrow> bool" where
  "records_use s action t \<longleftrightarrow>
     (case action of
        Initiate request approvals \<Rightarrow>
          ri_request_id (rr_intent request) \<in> rs_consumed_request_ids t - rs_consumed_request_ids s
      | IssueChallenge challenge \<Rightarrow> challenge \<in> rs_consumed_challenges t - rs_consumed_challenges s
      | ProposePolicy proposal \<Rightarrow> pe_edit_id (pp_edit proposal) \<in> consumed_edit_ids t - consumed_edit_ids s
      | ActivatePolicy \<Rightarrow>
          rg_signing_key ` set (array3_list (gp_guardians (rs_policy s))) \<union>
            ob_root_key ` set (array3_list (guardian_bindings s)) \<subseteq> set (retired_guardian_keys t)
      | CompleteRecovery approvals \<Rightarrow> ob_root_key (rs_binding s) \<in> set (rs_retired_root_keys t)
      | _ \<Rightarrow> True)"

lemma records_use_after:
  assumes "apply_action C J S s (s\<lparr>rs_revision := r\<rparr>) action clock tenure snapshot = Inr t"
  shows "records_use s action t"
proof (cases action)
  case (ProposePolicy proposal)
  with assms have "policy_propose C J S s (s\<lparr>rs_revision := r\<rparr>) proposal clock = Inr t"
    by (simp add: apply_action_def)
  then show ?thesis
    by (rule policy_propose_ok) (simp add: ProposePolicy records_use_def proposed_def consumed_edit_ids_def)
qed (use assms in \<open>auto simp: records_use_def apply_action_def act_defs retired_guardian_keys_def push_new_set
    result_simps Let_def split: if_split_asm\<close>)

end
