(* ===== verification/MCT_Recovery_Properties.thy ===== *)
theory MCT_Recovery_Properties
  imports MCT_Recovery_Safety
begin

text \<open>
  The properties of guardian recovery, each applied to a concrete history: an enrollment, a
  recovery from initiation to completion, a roster edit from proposal to activation, and a
  resume.
\<close>

section \<open>A concrete history\<close>

text \<open>
  An enrollment, the initiation of a recovery, the challenge of the writer a day later and
  the completion, under the concrete parameters. Keys and signatures are repeated bytes.
\<close>

definition sample_key :: "char \<Rightarrow> RecoveryPublicKeyV1" where
  "sample_key c = \<lparr>rk_ed25519 = APH_Ed25519 (replicate 32 c), rk_ml_dsa65 = [c]\<rparr>"

definition sample_sig :: "char \<Rightarrow> RecoverySignatureV1" where
  "sample_sig c = hex_encode (ADMIN_SIG_V1_TAG # replicate 64 c @ replicate 3309 (CHR ''q''))"

definition sample_serde :: StateSerde where
  "sample_serde =
     \<lparr>ss_serde = \<lparr>rj_key = (\<lambda>_. Some ''j''), rj_policy = (\<lambda>_. Some ''j''), rj_intent = (\<lambda>_. Some ''j''),
        rj_statement = (\<lambda>_. Some ''j'')\<rparr>,
      ss_enrollment = (\<lambda>_ _ _. Some ''j''), ss_state = (\<lambda>_. Some ''j''), ss_resume = (\<lambda>_ _. Some ''j''),
      ss_edit = (\<lambda>_ _. Some ''j''), ss_acceptance = (\<lambda>_ _ _. Some ''j''),
      ss_vote = (\<lambda>_ _ _ _ _ _. Some ''j'')\<rparr>"

definition sample_transcript :: "string \<Rightarrow> string" where
  "sample_transcript domain = frame u64_be_bytes [domain, ''j'']"

definition sample_owner :: "string \<Rightarrow> char \<Rightarrow> OwnerBindingV1" where
  "sample_owner name c =
     \<lparr>ob_mother_node_id = name, ob_ledger_id = ''l'', ob_epoch_id = ''e'', ob_binding_id = ''b'',
      ob_voice_id = sample_transcript ''mct-voice-genesis/v1'', ob_root_generation = 1,
      ob_root_key = sample_key c\<rparr>"

definition sample_guardian :: "string \<Rightarrow> char \<Rightarrow> RecoveryGuardianV1" where
  "sample_guardian name c =
     \<lparr>rg_mother_node_id = name, rg_owner_binding_id = ''b'', rg_owner_binding_generation = 1,
      rg_voice_id = sample_transcript ''mct-voice-genesis/v1'', rg_signing_key = sample_key c\<rparr>"

definition sample_policy :: GuardianRecoveryPolicyV1 where
  "sample_policy =
     \<lparr>gp_generation = 1, gp_target = sample_owner ''m'' (CHR ''r''),
      gp_guardians = Array3 (sample_guardian ''n1'' (CHR ''a'')) (sample_guardian ''n2'' (CHR ''b''))
        (sample_guardian ''n3'' (CHR ''c''))\<rparr>"

definition sample_enrollment :: GuardianEnrollmentV1 where
  "sample_enrollment =
     \<lparr>ge_genesis = \<lparr>vg_public_key = sample_key (CHR ''v''), vg_possession = sample_sig (CHR ''v'')\<rparr>,
      ge_policy = sample_policy,
      ge_guardian_bindings = Array3 (sample_owner ''n1'' (CHR ''x'')) (sample_owner ''n2'' (CHR ''y''))
        (sample_owner ''n3'' (CHR ''z'')),
      ge_genesis_authorization = sample_sig (CHR ''v''), ge_owner_authorization = sample_sig (CHR ''r''),
      ge_guardian_owner_acceptances = Array3 (sample_sig (CHR ''x'')) (sample_sig (CHR ''y'')) (sample_sig (CHR ''z'')),
      ge_guardian_acceptances = Array3 (sample_sig (CHR ''a'')) (sample_sig (CHR ''b'')) (sample_sig (CHR ''c''))\<rparr>"

definition sample_day :: int where
  "sample_day = 86400000 * 1000000"

definition sample_intent :: RecoveryIntentV1 where
  "sample_intent =
     \<lparr>ri_request_id = ''req'', ri_target = gp_target sample_policy, ri_policy_generation = 1,
      ri_policy_digest = sample_transcript ''mct-guardian-policy/v1'', ri_replacement_key = sample_key (CHR ''k''),
      ri_not_before = sample_ts 0, ri_expires_at = sample_ts (3 * sample_day)\<rparr>"

definition sample_request :: RecoveryRequestV1 where
  "sample_request = \<lparr>rr_intent = sample_intent, rr_replacement_possession = sample_sig (CHR ''k'')\<rparr>"

definition sample_approvals :: "int \<Rightarrow> GuardianRecoveryApprovalV1 list" where
  "sample_approvals n =
     [\<lparr>gv_guardian_node_id = ''n1'', gv_issued_at = sample_ts n, gv_expires_at = sample_ts (n + 1000),
       gv_signature = sample_sig (CHR ''a'')\<rparr>,
      \<lparr>gv_guardian_node_id = ''n2'', gv_issued_at = sample_ts n, gv_expires_at = sample_ts (n + 1000),
       gv_signature = sample_sig (CHR ''b'')\<rparr>]"

definition sample_clock :: "int \<Rightarrow> u64 \<Rightarrow> RecoveryClockV1" where
  "sample_clock n ms = \<lparr>rc_writer_epoch = ''w'', rc_wall_time = sample_ts n, rc_monotonic_ms = ms\<rparr>"

definition sample_command :: "GuardianRecoveryActionV1 \<Rightarrow> GuardianRecoveryCommandV1" where
  "sample_command action =
     \<lparr>gc_expected_state = (case action of Enroll _ \<Rightarrow> None
        | _ \<Rightarrow> Some (sample_transcript ''mct-guardian-recovery-state/v1'')), gc_action = action\<rparr>"

lemma sample_sel [simp]:
  "ob_mother_node_id (sample_owner n c) = n" "ob_binding_id (sample_owner n c) = ''b''"
  "ob_voice_id (sample_owner n c) = sample_transcript ''mct-voice-genesis/v1''"
  "ob_root_generation (sample_owner n c) = 1" "ob_root_key (sample_owner n c) = sample_key c"
  "rg_mother_node_id (sample_guardian n c) = n" "rg_owner_binding_id (sample_guardian n c) = ''b''"
  "rg_owner_binding_generation (sample_guardian n c) = 1" "rg_signing_key (sample_guardian n c) = sample_key c"
  "rg_voice_id (sample_guardian n c) = sample_transcript ''mct-voice-genesis/v1''"
  "gp_generation sample_policy = 1" "gp_target sample_policy = sample_owner ''m'' (CHR ''r'')"
  "array3_list (gp_guardians sample_policy) = [sample_guardian ''n1'' (CHR ''a''),
     sample_guardian ''n2'' (CHR ''b''), sample_guardian ''n3'' (CHR ''c'')]"
  "ge_policy sample_enrollment = sample_policy" "vg_public_key (ge_genesis sample_enrollment) = sample_key (CHR ''v'')"
  "ri_request_id sample_intent = ''req''" "ri_target sample_intent = gp_target sample_policy"
  "ri_policy_generation sample_intent = 1"
  "ri_policy_digest sample_intent = sample_transcript ''mct-guardian-policy/v1''"
  "ri_replacement_key sample_intent = sample_key (CHR ''k'')" "ri_not_before sample_intent = sample_ts 0"
  "ri_expires_at sample_intent = sample_ts (3 * sample_day)"
  "rr_intent sample_request = sample_intent" "rr_replacement_possession sample_request = sample_sig (CHR ''k'')"
  "rc_writer_epoch (sample_clock i ms) = ''w''" "rc_wall_time (sample_clock i ms) = sample_ts i"
  "rc_monotonic_ms (sample_clock i ms) = ms" "gc_action (sample_command action) = action"
  by (simp_all add: sample_owner_def sample_guardian_def sample_policy_def sample_enrollment_def
      sample_intent_def sample_request_def sample_clock_def sample_command_def)

lemma sample_signed:
  assumes "c \<noteq> CHR 0x00"
  shows "signed_by plain_crypto (sample_key c) msg (sample_sig c)"
proof -
  let ?b = "ADMIN_SIG_V1_TAG # replicate 64 c @ replicate 3309 (CHR ''q'')"
  have "strict_hex_decode plain_crypto (sample_sig c) = Some ?b"
    using strict_hex_encode [OF plain_crypto_hex, of ?b] by (simp add: sample_sig_def plain_crypto_def)
  moreover have "replicate 32 c @ replicate 32 c = replicate 64 c"
    by (simp add: replicate_add [symmetric])
  then have "hybrid_verifies plain_crypto (rk_ed25519 (sample_key c)) (rk_ml_dsa65 (sample_key c)) msg ?b"
    by (simp add: hybrid_verifies_def sample_key_def plain_crypto_def ADMIN_HYBRID_SIGNATURE_LEN_def
        ML_DSA65_SIGNATURE_LEN_def)
  moreover have "\<not> half_is_weak plain_crypto (rk_ed25519 (sample_key c))"
    using assms by (simp add: half_is_weak_def sample_key_def plain_crypto_def numeral_eq_Suc)
  ultimately show ?thesis by (auto simp: signed_by_def)
qed

lemma sample_key_strong:
  "c \<noteq> CHR 0x00 \<Longrightarrow> \<not> half_is_weak plain_crypto (rk_ed25519 (sample_key c))"
  using sample_signed [of c "[]"] by (simp add: signed_by_def)

lemma sample_shares: "shares_key_half (sample_key c) (sample_key d) \<longleftrightarrow> c = d"
  by (auto simp: shares_key_half_def sample_key_def)

lemma i128_small: "0 \<le> k \<Longrightarrow> k < 2 ^ 68 \<Longrightarrow> i128_checked k = Some k"
  by (simp add: i128_checked_def)

lemma sample_verified [simp]:
  "c \<noteq> CHR 0x00 \<Longrightarrow> verify_signature plain_crypto (sample_key c) msg (sample_sig c) = Inr ()"
  by (simp add: recovery_simps sample_signed)

lemma plain_blake3 [simp]: "cy_blake3 plain_crypto m = m"
  by (simp add: plain_crypto_def)

lemma sample_add_ms:
  "n + uint ms * 1000000 \<in> {0 ..< 2 ^ 68} \<Longrightarrow> n \<in> {0 ..< 2 ^ 68} \<Longrightarrow>
   checked_add_milliseconds plain_jiff (sample_ts n) ms = Some (sample_ts (n + uint ms * 1000000))"
proof -
  assume a: "n + uint ms * 1000000 \<in> {0 ..< 2 ^ 68}" "n \<in> {0 ..< 2 ^ 68}"
  then have "i128_checked (uint ms * 1000000) = Some (uint ms * 1000000)"
    "i128_checked (n + uint ms * 1000000) = Some (n + uint ms * 1000000)"
    by (intro i128_small; simp)+
  then show ?thesis using a
    by (simp add: checked_add_milliseconds_def sample_ts_def plain_jiff_def Timestamp_new_def plain_parse_show)
qed

lemma sample_ts_order [simp]:
  "sample_ts a \<le> sample_ts b \<longleftrightarrow> a \<le> b" "sample_ts a < sample_ts b \<longleftrightarrow> a < b"
  "ts_min (sample_ts a) (sample_ts b) = sample_ts (min a b)"
  by (auto simp: sample_ts_def less_eq_Timestamp_def less_Timestamp_def ts_min_def min_def)

lemma sample_transcripts [simp]: "transcript domain (Some ''j'') = Inr (sample_transcript domain)"
  by (simp add: transcript_def sample_transcript_def result_simps ok_or_def)

lemma sample_digests [simp]: "recovery_digest plain_crypto domain (Some ''j'') = Inr (sample_transcript domain)"
  by (simp add: recovery_digest_def and_then_Inr plain_crypto_def)

lemma sample_serde_json [simp]:
  "rj_key (ss_serde sample_serde) k = Some ''j''" "rj_policy (ss_serde sample_serde) p = Some ''j''"
  "rj_intent (ss_serde sample_serde) i = Some ''j''" "rj_statement (ss_serde sample_serde) t = Some ''j''"
  "ss_enrollment sample_serde g p b = Some ''j''" "ss_state sample_serde s = Some ''j''"
  "ss_resume sample_serde d n = Some ''j''"
  by (simp_all add: sample_serde_def)

lemmas sample_id = valid_admin_id_def is_ascii_alphanumeric_def is_ascii_lowercase_def is_ascii_digit_def

lemma sample_binding_ok [simp]:
  "name \<in> {''m'', ''n1'', ''n2'', ''n3''} \<Longrightarrow> c \<noteq> CHR 0x00 \<Longrightarrow>
   validate_binding plain_crypto (sample_owner name c) = Inr ()"
  using sample_key_strong [of c] by (auto simp: recovery_simps binding_ok_def sample_owner_def sample_id)

lemma sample_key_valid [simp]: "c \<noteq> CHR 0x00 \<Longrightarrow> validate_key plain_crypto (sample_key c) = Inr ()"
  by (simp add: recovery_simps sample_key_strong)

lemma sample_id_valid [simp]:
  "validate_id ''m'' = Inr ()" "validate_id ''n1'' = Inr ()" "validate_id ''n2'' = Inr ()"
  "validate_id ''n3'' = Inr ()" "validate_id ''b'' = Inr ()" "validate_id ''req'' = Inr ()"
  "validate_id ''w'' = Inr ()" "validate_id ''ch'' = Inr ()"
  by (simp_all add: recovery_simps sample_id)

lemma sample_policy_valid [simp]: "validate_policy plain_crypto sample_policy = Inr ()"
  by (simp add: validate_policy_def sample_shares and_then_Inr)

lemma sample_policy_digest [simp]:
  "policy_digest plain_crypto (ss_serde sample_serde) sample_policy =
   Inr (sample_transcript ''mct-guardian-policy/v1'')"
  by (simp add: policy_digest_def and_then_Inr)

lemma sample_genesis:
  "VoiceGenesisV1_verify plain_crypto (ss_serde sample_serde) (ge_genesis sample_enrollment) =
   Inr (sample_transcript ''mct-voice-genesis/v1'')"
  by (simp add: VoiceGenesisV1_verify_def genesis_message_def and_then_Inr)
    (simp add: sample_enrollment_def and_then_Inr)

lemma sample_enrolled: "GuardianEnrollmentV1_verify plain_crypto sample_serde sample_enrollment = Inr ()"
  by (simp add: GuardianEnrollmentV1_verify_def sample_genesis enrollment_signing_message_def and_then_Inr)
    (simp add: sample_enrollment_def and_then_Inr sample_shares binding_matches_guardian_def)

lemma sample_recovery_intent_valid [simp]:
  "validate_intent_shape plain_crypto plain_jiff sample_intent = Inr ()"
  "validate_intent_policy plain_crypto plain_jiff (ss_serde sample_serde) sample_intent sample_policy = Inr ()"
  "intent_signing_message plain_crypto plain_jiff (ss_serde sample_serde) sample_intent =
   Inr (sample_transcript ''mct-recovery-replacement-possession/v1'')"
  "intent_digest plain_crypto plain_jiff (ss_serde sample_serde) sample_intent =
   Inr (sample_transcript ''mct-recovery-intent/v1'')"
proof -
  show 1: "validate_intent_shape plain_crypto plain_jiff sample_intent = Inr ()"
    by (simp add: validate_intent_shape_def and_then_Inr validate_interval_def sample_add_ms ok_or_def
        RECOVERY_DELAY_MS_def RECOVERY_COMPLETION_WINDOW_MS_def sample_day_def)
  show "validate_intent_policy plain_crypto plain_jiff (ss_serde sample_serde) sample_intent sample_policy = Inr ()"
    by (simp add: validate_intent_policy_def 1 and_then_Inr sample_shares)
  show "intent_signing_message plain_crypto plain_jiff (ss_serde sample_serde) sample_intent =
     Inr (sample_transcript ''mct-recovery-replacement-possession/v1'')"
    "intent_digest plain_crypto plain_jiff (ss_serde sample_serde) sample_intent =
     Inr (sample_transcript ''mct-recovery-intent/v1'')"
    by (simp_all add: intent_signing_message_def intent_digest_def 1 and_then_Inr)
qed

lemma sample_approval_message:
  "node \<in> {''n1'', ''n2''} \<Longrightarrow> validate_purpose purpose = Inr () \<Longrightarrow> 0 \<le> n \<Longrightarrow> n \<le> 2 * sample_day \<Longrightarrow>
   approval_message plain_crypto plain_jiff (ss_serde sample_serde)
     (approval_parts sample_policy sample_intent purpose
        \<lparr>gv_guardian_node_id = node, gv_issued_at = sample_ts n, gv_expires_at = sample_ts (n + 1000),
         gv_signature = signature\<rparr>) =
   Inr (sample_transcript ''mct-guardian-recovery-approval/v1'')"
  by (auto simp: approval_message_def approval_parts_def and_then_Inr validate_interval_def sample_add_ms ok_or_def
      RECOVERY_APPROVAL_MAX_MS_def sample_day_def find_guardian_def)

lemma sample_quorum:
  "validate_purpose purpose = Inr () \<Longrightarrow> 0 \<le> n \<Longrightarrow> n \<le> 2 * sample_day \<Longrightarrow>
   is_ok (verify_recovery_quorum plain_crypto plain_jiff (ss_serde sample_serde)
     (sample_owner ''m'' (CHR ''r'')) sample_policy sample_request purpose (sample_approvals n) (sample_ts n))"
  by (simp add: verify_recovery_quorum_def and_then_Inr sample_approvals_def sample_approval_message
      find_guardian_def ok_or_def)
    (simp add: sample_approval_message [unfolded sample_day_def] sample_day_def and_then_Inr)

text \<open>The four states of the history.\<close>

definition sample_s1 :: GuardianRecoveryStateV1 where
  "sample_s1 = enrolled_state sample_enrollment (sample_clock 0 0)"

definition sample_s2 :: GuardianRecoveryStateV1 where
  "sample_s2 = (initiated (sample_s1\<lparr>rs_revision := 2\<rparr>) sample_request (sample_clock 0 0)
     (sample_ts (3 * sample_day)))\<lparr>rs_clock := sample_clock 0 0\<rparr>"

definition sample_challenged :: PendingGuardianRecoveryV1 where
  "sample_challenged =
     \<lparr>pg_request = sample_request, pg_wait_origin = sample_clock 0 0, pg_deadline = sample_ts (3 * sample_day),
      pg_challenge = Some \<lparr>ch_value = ''ch'', ch_issued_at = sample_ts sample_day,
        ch_expires_at = sample_ts (sample_day + 600000 * 1000000)\<rparr>\<rparr>"

definition sample_s3 :: GuardianRecoveryStateV1 where
  "sample_s3 = sample_s2\<lparr>rs_revision := 3, rs_clock := sample_clock sample_day 86400000,
     rs_consumed_challenges := {''ch''}, rs_pending := Some sample_challenged\<rparr>"

lemma sample_s1_sel:
  "rs_binding sample_s1 = sample_owner ''m'' (CHR ''r'')" "rs_policy sample_s1 = sample_policy"
  "rs_revision sample_s1 = 1" "rs_clock sample_s1 = sample_clock 0 0" "rs_pending sample_s1 = None"
  "rs_consumed_request_ids sample_s1 = {}" "recovery_enabled sample_s1" "pending_policy_edit sample_s1 = None"
  by (simp_all add: sample_s1_def enrolled_state_def recovery_enabled_def pending_policy_edit_def)

lemma sample_digest_state [simp]:
  "state_digest plain_crypto sample_serde s = Inr (sample_transcript ''mct-guardian-recovery-state/v1'')"
  by (simp add: state_digest_def)

lemma sample_add_1 [simp]: "checked_add_u64 1 1 = Some 2" "checked_add_u64 2 1 = Some 3" "checked_add_u64 3 1 = Some 4"
  by (simp_all add: checked_add_u64_def)

lemma sample_expected [simp]:
  "(\<And>e. action \<noteq> Enroll e) \<Longrightarrow>
   gc_expected_state (sample_command action) = Some (sample_transcript ''mct-guardian-recovery-state/v1'')"
  by (cases action) (auto simp: sample_command_def)

lemma sample_run1:
  "evaluate_guardian_recovery plain_crypto plain_jiff sample_serde None
     (sample_command (Enroll sample_enrollment)) (sample_clock 0 0) snapshot = Inr sample_s1"
  by (simp add: evaluate_guardian_recovery_def sample_enrolled and_then_Inr sample_s1_def sample_command_def)

lemma sample_run2:
  "evaluate_guardian_recovery plain_crypto plain_jiff sample_serde (Some sample_s1)
     (sample_command (Initiate sample_request (sample_approvals 0))) (sample_clock 0 0) snapshot = Inr sample_s2"
proof -
  have q: "is_ok (verify_recovery_quorum plain_crypto plain_jiff (ss_serde sample_serde)
     (sample_owner ''m'' (CHR ''r'')) sample_policy sample_request RP_Initiate (sample_approvals 0) (sample_ts 0))"
    by (rule sample_quorum) (simp_all add: validate_purpose_def sample_day_def)
  then obtain e where e: "verify_recovery_quorum plain_crypto plain_jiff (ss_serde sample_serde)
     (sample_owner ''m'' (CHR ''r'')) sample_policy sample_request RP_Initiate (sample_approvals 0) (sample_ts 0)
     = Inr e" by (auto simp: is_ok_iff)
  have "\<not> replacement_reused (sample_s1\<lparr>rs_revision := 2\<rparr>) (sample_key (CHR ''k''))"
    by (simp add: replacement_reused_def sample_s1_def enrolled_state_def guardian_bindings_def sample_shares)
      (simp add: sample_enrollment_def sample_shares)
  with e have "act_initiate plain_crypto plain_jiff sample_serde (sample_s1\<lparr>rs_revision := 2\<rparr>) sample_request
      (sample_approvals 0) (sample_clock 0 0) =
    Inr (initiated (sample_s1\<lparr>rs_revision := 2\<rparr>) sample_request (sample_clock 0 0) (sample_ts (3 * sample_day)))"
    by (simp add: act_initiate_def sample_s1_sel and_then_Inr checked_deadline_def sample_add_ms ok_or_def
        RECOVERY_DELAY_MS_def RECOVERY_COMPLETION_WINDOW_MS_def sample_day_def initiated_def)
  then show ?thesis unfolding sample_s2_def
    by (intro evaluate_stepI [where r = 2])
      (simp_all add: clock_accepted_def sample_s1_sel apply_action_def)
qed

lemma sample_s2_sel:
  "rs_binding sample_s2 = sample_owner ''m'' (CHR ''r'')" "rs_policy sample_s2 = sample_policy"
  "rs_revision sample_s2 = 2" "rs_clock sample_s2 = sample_clock 0 0"
  "rs_pending sample_s2 = Some (sample_challenged\<lparr>pg_challenge := None\<rparr>)" "rs_consumed_challenges sample_s2 = {}"
  by (simp_all add: sample_s2_def initiated_def sample_s1_def enrolled_state_def sample_challenged_def)

lemma sample_wait: "wait_finished plain_jiff (sample_challenged\<lparr>pg_challenge := c\<rparr>) (sample_clock sample_day 86400000) = Inr ()"
  by (simp add: wait_finished_def delay_elapsed_def sample_challenged_def checked_sub_u64_def sample_add_ms
      and_then_Inr ok_or_def RECOVERY_DELAY_MS_def sample_day_def)

lemma sample_run3:
  "evaluate_guardian_recovery plain_crypto plain_jiff sample_serde (Some sample_s2)
     (sample_command (IssueChallenge ''ch'')) (sample_clock sample_day 86400000) snapshot = Inr sample_s3"
proof -
  have "act_issue_challenge plain_jiff (sample_s2\<lparr>rs_revision := 3\<rparr>) ''ch'' (sample_clock sample_day 86400000) =
    Inr (sample_s2\<lparr>rs_revision := 3, rs_consumed_challenges := {''ch''}, rs_pending := Some sample_challenged\<rparr>)"
    by (simp add: act_issue_challenge_def sample_s2_sel sample_wait ok_or_def and_then_Inr)
      (simp add: checked_deadline_def sample_add_ms ok_or_def and_then_Inr sample_challenged_def
        RECOVERY_APPROVAL_MAX_MS_def sample_day_def)
  then have "evaluate_guardian_recovery plain_crypto plain_jiff sample_serde (Some sample_s2)
     (sample_command (IssueChallenge ''ch'')) (sample_clock sample_day 86400000) snapshot =
     Inr (sample_s2\<lparr>rs_revision := 3, rs_consumed_challenges := {''ch''}, rs_pending := Some sample_challenged,
       rs_clock := sample_clock sample_day 86400000\<rparr>)"
    by (intro evaluate_stepI [where r = 3])
      (simp_all add: clock_accepted_def sample_s2_sel apply_action_def sample_day_def)
  then show ?thesis by (simp add: sample_s3_def)
qed

lemma sample_run4:
  "\<exists>t. evaluate_guardian_recovery plain_crypto plain_jiff sample_serde (Some sample_s3)
     (sample_command (CompleteRecovery (sample_approvals sample_day))) (sample_clock sample_day 86400000) snapshot =
   Inr t \<and> ob_root_key (rs_binding t) = sample_key (CHR ''k'')"
proof -
  have s3: "rs_pending sample_s3 = Some sample_challenged" "rs_binding sample_s3 = sample_owner ''m'' (CHR ''r'')"
    "rs_policy sample_s3 = sample_policy" "rs_revision sample_s3 = 3" "rs_clock sample_s3 = sample_clock sample_day 86400000"
    by (simp_all add: sample_s3_def sample_s2_sel)
  have "is_ok (verify_recovery_quorum plain_crypto plain_jiff (ss_serde sample_serde)
     (sample_owner ''m'' (CHR ''r'')) sample_policy sample_request (RP_Complete ''ch'')
     (sample_approvals sample_day) (sample_ts sample_day))"
    by (rule sample_quorum) (simp_all add: validate_purpose_def sample_day_def)
  then obtain e where e: "verify_recovery_quorum plain_crypto plain_jiff (ss_serde sample_serde)
     (sample_owner ''m'' (CHR ''r'')) sample_policy sample_request (RP_Complete ''ch'')
     (sample_approvals sample_day) (sample_ts sample_day) = Inr e" by (auto simp: is_ok_iff)
  have w: "wait_finished plain_jiff sample_challenged (sample_clock sample_day 86400000) = Inr ()"
    using sample_wait [of "pg_challenge sample_challenged"] by simp
  obtain u where u: "act_complete plain_crypto plain_jiff sample_serde (sample_s3\<lparr>rs_revision := 4\<rparr>)
      (sample_approvals sample_day) (sample_clock sample_day 86400000) = Inr u"
    "ob_root_key (rs_binding u) = sample_key (CHR ''k'')"
    using e
    by (simp add: act_complete_def s3 w ok_or_def and_then_Inr Let_def)
      (simp add: sample_challenged_def sample_approvals_def and_then_Inr s3 ok_or_def Let_def)
  then have "evaluate_guardian_recovery plain_crypto plain_jiff sample_serde (Some sample_s3)
     (sample_command (CompleteRecovery (sample_approvals sample_day))) (sample_clock sample_day 86400000) snapshot =
     Inr (u\<lparr>rs_clock := sample_clock sample_day 86400000\<rparr>)"
    by (intro evaluate_stepI [where r = 4]) (simp_all add: clock_accepted_def s3 apply_action_def)
  with u(2) show ?thesis by simp
qed

definition sample_history :: recovery_history where
  "sample_history =
     [(sample_command (Enroll sample_enrollment), sample_clock 0 0),
      (sample_command (Initiate sample_request (sample_approvals 0)), sample_clock 0 0),
      (sample_command (IssueChallenge ''ch''), sample_clock sample_day 86400000)]"

lemma sample_reach: "recovery_reach plain_crypto plain_jiff sample_serde sample_history sample_s3"
proof -
  let ?h = "[(sample_command (Enroll sample_enrollment), sample_clock 0 0)]"
  let ?h2 = "?h @ [(sample_command (Initiate sample_request (sample_approvals 0)), sample_clock 0 0)]"
  have "recovery_reach plain_crypto plain_jiff sample_serde ?h sample_s1"
    using recovery_init [OF sample_run1] by (rule reach_init)
  from reach_step [OF this recovery_step [OF sample_run2]]
  have "recovery_reach plain_crypto plain_jiff sample_serde ?h2 sample_s2" .
  from reach_step [OF this recovery_step [OF sample_run3]] show ?thesis by (simp add: sample_history_def)
qed

text \<open>A second history: the owner and two guardians disable recovery, active a day later.\<close>

definition sample_edit :: GuardianPolicyEditV1 where
  "sample_edit =
     \<lparr>pe_edit_id = ''ed'', pe_policy = sample_policy\<lparr>gp_generation := 2\<rparr>,
      pe_guardian_bindings = ge_guardian_bindings sample_enrollment, pe_enabled = False,
      pe_issued_at = sample_ts 0, pe_expires_at = sample_ts 1000\<rparr>"

definition sample_proposal :: GuardianPolicyProposalV1 where
  "sample_proposal =
     \<lparr>pp_edit = sample_edit, pp_owner_signature = sample_sig (CHR ''r''), pp_acceptances = [],
      pp_approvals = sample_approvals 0\<rparr>"

definition sample_d2 :: GuardianRecoveryStateV1 where
  "sample_d2 = (proposed sample_s1 2 sample_edit (sample_clock 0 0))\<lparr>rs_clock := sample_clock 0 0\<rparr>"

lemma sample_s1_roster: "validate_bindings plain_crypto sample_s1 (sample_policy\<lparr>gp_generation := 2\<rparr>)
    (ge_guardian_bindings sample_enrollment) = Inr ()"
proof -
  have "validate_policy plain_crypto (sample_policy\<lparr>gp_generation := 2\<rparr>) = Inr ()"
    by (simp add: validate_policy_def sample_shares and_then_Inr)
  then show ?thesis
    by (simp add: validate_bindings_def sample_s1_def enrolled_state_def and_then_Inr)
      (simp add: sample_enrollment_def and_then_Inr sample_shares binding_matches_guardian_def)
qed

lemma sample_edit_valid: "GuardianPolicyEditV1_validate plain_crypto plain_jiff sample_edit sample_s1 = Inr ()"
proof -
  have "validate_id ''ed'' = Inr ()" by (simp add: recovery_simps sample_id)
  moreover have "guardian_bindings sample_s1 = ge_guardian_bindings sample_enrollment"
    by (simp add: sample_s1_def enrolled_state_def guardian_bindings_def)
  ultimately show ?thesis
    by (simp add: GuardianPolicyEditV1_validate_def sample_edit_def sample_s1_roster sample_s1_sel and_then_Inr
        validate_interval_def sample_add_ms ok_or_def RECOVERY_APPROVAL_MAX_MS_def)
qed

lemma sample_votes:
  "verify_votes plain_crypto plain_jiff sample_serde sample_s1 sample_edit PAP_Propose (sample_approvals 0)
     (sample_ts 0) = Inr ()"
  by (simp add: verify_votes_def sample_approvals_def guardian_policy_approval_message_def sample_edit_valid
      sample_s1_sel and_then_Inr validate_interval_def sample_add_ms ok_or_def RECOVERY_APPROVAL_MAX_MS_def
      find_guardian_def)
    (simp add: sample_edit_def sample_serde_def and_then_Inr)

lemma sample_run_propose:
  "evaluate_guardian_recovery plain_crypto plain_jiff sample_serde (Some sample_s1)
     (sample_command (ProposePolicy sample_proposal)) (sample_clock 0 0) snapshot = Inr sample_d2"
proof -
  have e: "pp_edit sample_proposal = sample_edit" "pp_approvals sample_proposal = sample_approvals 0"
    "pp_acceptances sample_proposal = []" "pp_owner_signature sample_proposal = sample_sig (CHR ''r'')"
    "pe_issued_at sample_edit = sample_ts 0" "pe_expires_at sample_edit = sample_ts 1000" "\<not> pe_enabled sample_edit"
    "rs_policy_edits sample_s1 = None" "\<not> rs_maintenance sample_s1"
    by (simp_all add: sample_proposal_def sample_edit_def sample_s1_def enrolled_state_def)
  have m: "owner_signing_message plain_crypto plain_jiff sample_serde sample_edit sample_s1 =
      Inr (sample_transcript ''mct-guardian-policy-owner-proposal/v1'')"
    by (simp add: owner_signing_message_def sample_edit_valid and_then_Inr) (simp add: sample_serde_def)
  have "policy_propose plain_crypto plain_jiff sample_serde sample_s1 (sample_s1\<lparr>rs_revision := 2\<rparr>) sample_proposal
      (sample_clock 0 0) = Inr (proposed sample_s1 2 sample_edit (sample_clock 0 0))"
    by (simp add: policy_propose_def e m sample_s1_sel sample_edit_valid sample_votes and_then_Inr ensure_def Let_def
        proposed_def fresh_policy_edits_def)
  then show ?thesis unfolding sample_d2_def
    by (intro evaluate_stepI [where r = 2]) (simp_all add: clock_accepted_def sample_s1_sel apply_action_def)
qed




text \<open>A resume in a state under maintenance.\<close>

definition sample_snapshot_hash :: string where
  "sample_snapshot_hash = replicate 64 (CHR ''0'')"

lemma sample_run_resume:
  "\<exists>t. evaluate_guardian_recovery plain_crypto plain_jiff sample_serde (Some (sample_s1\<lparr>rs_maintenance := True\<rparr>))
     (sample_command (Resume sample_snapshot_hash (sample_sig (CHR ''r'')))) (sample_clock 0 0) sample_snapshot_hash =
   Inr t \<and> \<not> rs_maintenance t"
proof -
  let ?s = "sample_s1\<lparr>rs_maintenance := True\<rparr>"
  have "resume_signing_message plain_crypto sample_serde ?s sample_snapshot_hash =
      Inr (sample_transcript ''mct-guardian-recovery-resume/v1'')"
    by (simp add: resume_signing_message_def sample_snapshot_hash_def list_all_iff is_lower_hex_def is_ascii_digit_def
        and_then_Inr)
  then have "act_resume plain_crypto sample_serde ?s (?s\<lparr>rs_revision := 2\<rparr>) sample_snapshot_hash
      (sample_sig (CHR ''r'')) sample_snapshot_hash = Inr (sample_s1\<lparr>rs_revision := 2, rs_maintenance := False\<rparr>)"
    by (simp add: act_resume_def sample_s1_sel and_then_Inr)
  then have "evaluate_guardian_recovery plain_crypto plain_jiff sample_serde (Some ?s)
     (sample_command (Resume sample_snapshot_hash (sample_sig (CHR ''r'')))) (sample_clock 0 0) sample_snapshot_hash =
     Inr (sample_s1\<lparr>rs_revision := 2, rs_maintenance := False, rs_clock := sample_clock 0 0\<rparr>)"
    by (intro evaluate_stepI [where r = 2]) (simp_all add: clock_accepted_def sample_s1_sel apply_action_def)
  then show ?thesis by simp
qed

section \<open>Properties\<close>

text \<open>
  C14: Every reachable recovery state passes the consistency check of the code, its root
  generation counts the retired root keys, and neither half of the current root key was ever
  a half of a retired root key or of the Voice genesis key; no two retired keys share a half.
  While a recovery is pending, the Mother is in maintenance, recovery is enabled, no roster edit
  is pending, the request identifier is consumed, and neither half of the replacement key is a half
  of a retired root key, the genesis key, a guardian owner's root key or a retired guardian key.
\<close>

theorem recovery_state_consistent:
  assumes "recovery_reach C J S h s"
  shows "guardian_policy_state_is_consistent C J s = Inr () \<and>
    unat (ob_root_generation (rs_binding s)) = Suc (length (rs_retired_root_keys s)) \<and>
    unshared (genesis_key s # rs_retired_root_keys s @ [ob_root_key (rs_binding s)]) \<and>
    (\<forall>p. rs_pending s = Some p \<longrightarrow>
       rs_maintenance s \<and> recovery_enabled s \<and> pending_policy_edit s = None \<and>
       ri_request_id (rr_intent (pg_request p)) \<in> rs_consumed_request_ids s \<and>
       (\<forall>k \<in> set (genesis_key s # rs_retired_root_keys s @
              map ob_root_key (array3_list (guardian_bindings s)) @ retired_guardian_keys s).
          \<not> shares_key_half k (ri_replacement_key (rr_intent (pg_request p)))))"
  using recovery_states.reach_inv [OF assms] recovery_inv_consistent
  by (auto simp: recovery_inv_def keys_inv_def pending_inv_def fresh_root_def)

theorem recovery_state_consistent_witness:
  "guardian_policy_state_is_consistent plain_crypto plain_jiff sample_s3 = Inr () \<and>
   unat (ob_root_generation (rs_binding sample_s3)) = Suc (length (rs_retired_root_keys sample_s3)) \<and>
   unshared (genesis_key sample_s3 # rs_retired_root_keys sample_s3 @ [ob_root_key (rs_binding sample_s3)]) \<and>
   rs_maintenance sample_s3 \<and>
   ri_request_id (rr_intent (pg_request sample_challenged)) \<in> rs_consumed_request_ids sample_s3 \<and>
   \<not> shares_key_half (genesis_key sample_s3) (sample_key (CHR ''k''))"
proof -
  have "rs_pending sample_s3 = Some sample_challenged" "pg_request sample_challenged = sample_request"
    by (simp_all add: sample_s3_def sample_challenged_def)
  with recovery_state_consistent [OF sample_reach] show ?thesis by simp
qed


text \<open>
  C5: A root key is replaced only by completing a recovery that guardians initiated, and only to
  exactly the requested key; the old key is retired. At least two distinct guardians of the present
  policy approved the request at its initiation, with proof of possession of the new key, and at
  least two approved it again at completion. In between one writer tenure waited, from the
  initiation or from a later rebase by that writer: 24 hours passed on its wall clock and on its
  monotonic clock before it issued a challenge. The final approvals are for that challenge, were
  issued after it and expire with it; the history issued it exactly once, and it is at most ten
  minutes old at completion. Completion is before the request expires and at most eight days after
  the initiation.
\<close>

theorem root_replacement_sound:
  assumes "recovery_reach C J S h s" and "jiff_roundtrip J"
    and "evaluate_guardian_recovery C J S (Some s) command clock snapshot = Inr t"
    and "ob_root_key (rs_binding t) \<noteq> ob_root_key (rs_binding s)"
  shows "\<exists>initiation clock0 approvals0 request origin issue clock1 challenge approvals.
    (initiation, clock0) \<in> set h \<and> gc_action initiation = Initiate request approvals0 \<and>
    quorum_verified C J (ss_serde S) (rs_policy s) request RP_Initiate approvals0 (rc_wall_time clock0) \<and>
    2 \<le> card (gv_guardian_node_id ` set approvals0) \<and>
    rc_wall_time clock0 \<le> rc_wall_time origin \<and>
    (origin = clock0 \<or> (\<exists>rebase. (rebase, origin) \<in> set h \<and> gc_action rebase = RebaseWait)) \<and>
    filter (\<lambda>(c, k). gc_action c = IssueChallenge challenge) h = [(issue, clock1)] \<and>
    rc_writer_epoch origin = rc_writer_epoch clock1 \<and> rc_writer_epoch clock1 = rc_writer_epoch clock \<and>
    unat (rc_monotonic_ms origin) + 24 * 60 * 60 * 1000 \<le> unat (rc_monotonic_ms clock1) \<and>
    unat (rc_monotonic_ms origin) + 24 * 60 * 60 * 1000 \<le> unat (rc_monotonic_ms clock) \<and>
    ts_ns (rc_wall_time origin) + 24 * 60 * 60 * 1000000000 \<le> ts_ns (rc_wall_time clock1) \<and>
    rc_wall_time clock1 \<le> rc_wall_time clock \<and>
    ts_ns (rc_wall_time clock) < ts_ns (rc_wall_time clock1) + 10 * 60 * 1000000000 \<and>
    rc_wall_time clock < ri_expires_at (rr_intent request) \<and>
    ts_ns (rc_wall_time clock) < ts_ns (rc_wall_time clock0) + 8 * 24 * 60 * 60 * 1000000000 \<and>
    gc_action command = CompleteRecovery approvals \<and>
    quorum_verified C J (ss_serde S) (rs_policy s) request (RP_Complete challenge) approvals (rc_wall_time clock) \<and>
    2 \<le> card (gv_guardian_node_id ` set approvals) \<and>
    (\<forall>a \<in> set approvals. rc_wall_time clock1 \<le> gv_issued_at a \<and>
       ts_ns (gv_expires_at a) \<le> ts_ns (rc_wall_time clock1) + 10 * 60 * 1000000000) \<and>
    ob_root_key (rs_binding t) = ri_replacement_key (rr_intent request) \<and>
    rs_retired_root_keys t = rs_retired_root_keys s @ [ob_root_key (rs_binding s)]"
  using assms(3,4)
proof (rule root_changed)
  fix approvals p ch
  assume c: "gc_action command = CompleteRecovery approvals" and p: "rs_pending s = Some p" "pg_challenge p = Some ch"
    and wf: "wait_finished J p clock = Inr ()" and now: "rc_wall_time (rs_clock s) \<le> rc_wall_time clock"
    and ch: "rc_wall_time clock < ch_expires_at ch"
    and ap: "\<forall>a \<in> set approvals. ch_issued_at ch \<le> gv_issued_at a \<and> gv_expires_at a \<le> ch_expires_at ch"
    and q: "quorum_verified C J (ss_serde S) (rs_policy s) (pg_request p) (RP_Complete (ch_value ch)) approvals
      (rc_wall_time clock)"
    and keys: "ob_root_key (rs_binding t) = ri_replacement_key (rr_intent (pg_request p))"
      "rs_retired_root_keys t = rs_retired_root_keys s @ [ob_root_key (rs_binding s)]"
  from recovery_waits.reach_inv [OF assms(1)] p
  have i: "initiation_of C J S (rs_policy s) (pg_request p) (pg_wait_origin p) (pg_deadline p) h"
    and o: "challenge_of J p ch (rc_wall_time (rs_clock s)) h" "distinct (issued_challenges h)"
    by (simp_all add: wait_inv_def)
  from wf have w: "delay_elapsed J (pg_wait_origin p) clock = Inr ()" "rc_wall_time clock < pg_deadline p"
    by (auto simp: wait_finished_def result_simps split: if_split_asm)
  from i obtain initiation clock0 approvals0 where
    init: "(initiation, clock0) \<in> set h" "gc_action initiation = Initiate (pg_request p) approvals0"
      "rc_wall_time clock0 \<le> rc_wall_time (pg_wait_origin p)"
      "pg_wait_origin p = clock0 \<or> (\<exists>rebase. (rebase, pg_wait_origin p) \<in> set h \<and> gc_action rebase = RebaseWait)"
    and q0: "quorum_verified C J (ss_serde S) (rs_policy s) (pg_request p) RP_Initiate approvals0 (rc_wall_time clock0)"
    and dl: "recovery_deadline J (pg_request p) clock0 (pg_deadline p)"
    by (auto simp: initiation_of_def)
  obtain issue clock1 where iss:
    "filter (\<lambda>(c, k). gc_action c = IssueChallenge (ch_value ch)) h = [(issue, clock1)]"
    "rc_writer_epoch (pg_wait_origin p) = rc_writer_epoch clock1"
    "unat (rc_monotonic_ms (pg_wait_origin p)) + 86400000 \<le> unat (rc_monotonic_ms clock1)"
    "ts_ns (rc_wall_time (pg_wait_origin p)) + 86400000 * 1000000 \<le> ts_ns (rc_wall_time clock1)"
    "rc_wall_time clock1 \<le> rc_wall_time (rs_clock s)" "ch_issued_at ch = rc_wall_time clock1"
    "ts_ns (ch_expires_at ch) \<le> ts_ns (rc_wall_time clock1) + 600000 * 1000000"
    by (rule challenge_of_bounds [OF o assms(2)])
  have bounds: "unat (rc_monotonic_ms (pg_wait_origin p)) + 24 * 60 * 60 * 1000 \<le> unat (rc_monotonic_ms clock1)"
    "unat (rc_monotonic_ms (pg_wait_origin p)) + 24 * 60 * 60 * 1000 \<le> unat (rc_monotonic_ms clock)"
    "ts_ns (rc_wall_time (pg_wait_origin p)) + 24 * 60 * 60 * 1000000000 \<le> ts_ns (rc_wall_time clock1)"
    "ts_ns (rc_wall_time clock) < ts_ns (rc_wall_time clock1) + 10 * 60 * 1000000000"
    "rc_wall_time clock < ri_expires_at (rr_intent (pg_request p))"
    "ts_ns (rc_wall_time clock) < ts_ns (rc_wall_time clock0) + 8 * 24 * 60 * 60 * 1000000000"
    "rc_writer_epoch clock1 = rc_writer_epoch clock" "rc_wall_time clock1 \<le> rc_wall_time clock"
    using iss w(2) ch now delay_elapsed_ok [OF w(1) assms(2)] recovery_deadline_ns [OF dl assms(2)]
    by (simp_all add: ts_simps)
  have votes: "\<forall>a \<in> set approvals. rc_wall_time clock1 \<le> gv_issued_at a \<and>
      ts_ns (gv_expires_at a) \<le> ts_ns (rc_wall_time clock1) + 10 * 60 * 1000000000"
    using ap iss(6,7) by (fastforce simp: ts_simps)
  show ?thesis
    by (intro exI conjI)
      (rule init q0 quorum_guardians [OF q0, THEN conjunct1] iss(1,2) bounds c q
        quorum_guardians [OF q, THEN conjunct1] votes keys)+
qed

theorem root_replacement_sound_witness:
  "\<exists>clock0 origin issue clock1 challenge.
    (origin = clock0 \<or> (\<exists>rebase. (rebase, origin) \<in> set sample_history \<and> gc_action rebase = RebaseWait)) \<and>
    filter (\<lambda>(c, k). gc_action c = IssueChallenge challenge) sample_history = [(issue, clock1)] \<and>
    unat (rc_monotonic_ms origin) + 24 * 60 * 60 * 1000 \<le> unat (rc_monotonic_ms clock1) \<and>
    ts_ns (rc_wall_time origin) + 24 * 60 * 60 * 1000000000 \<le> ts_ns (rc_wall_time clock1)"
proof -
  obtain t where run: "evaluate_guardian_recovery plain_crypto plain_jiff sample_serde (Some sample_s3)
     (sample_command (CompleteRecovery (sample_approvals sample_day))) (sample_clock sample_day 86400000) [] = Inr t"
    and key: "ob_root_key (rs_binding t) = sample_key (CHR ''k'')"
    using sample_run4 by blast
  have "ob_root_key (rs_binding sample_s3) = sample_key (CHR ''r'')" by (simp add: sample_s3_def sample_s2_sel)
  with key have "ob_root_key (rs_binding t) \<noteq> ob_root_key (rs_binding sample_s3)" by (simp add: sample_key_def)
  from root_replacement_sound [OF sample_reach plain_jiff_roundtrip run this] show ?thesis by blast
qed





text \<open>
  C25: Maintenance ends only by a resume that names the current authority snapshot, with no
  recovery pending, signed by the current root key over that snapshot and this state.
\<close>

theorem maintenance_cleared_sound:
  assumes "evaluate_guardian_recovery C J S (Some s) command clock snapshot = Inr t"
    and "rs_maintenance s" and "\<not> rs_maintenance t"
  shows "\<exists>signature message. gc_action command = Resume snapshot signature \<and> rs_pending s = None \<and>
    resume_signing_message C S s snapshot = Inr message \<and>
    signed_by C (ob_root_key (rs_binding s)) message signature"
  using assms(1)
proof (rule evaluate_step)
  fix r u
  assume t: "t = u\<lparr>rs_clock := clock\<rparr>"
    and a: "apply_action C J S s (s\<lparr>rs_revision := r\<rparr>) (gc_action command) clock
       (rc_writer_epoch clock \<noteq> rc_writer_epoch (rs_clock s)) snapshot = Inr u"
  from maintenance_after [OF a] assms(2,3) t obtain expected signature
    where "gc_action command = Resume expected signature" by auto
  with a show ?thesis
    by (auto simp: apply_action_def act_resume_def result_simps recovery_simps split: if_split_asm)
qed

theorem maintenance_cleared_sound_witness:
  "\<exists>signature message. resume_signing_message plain_crypto sample_serde (sample_s1\<lparr>rs_maintenance := True\<rparr>)
      sample_snapshot_hash = Inr message \<and> signed_by plain_crypto (sample_key (CHR ''r'')) message signature"
proof -
  obtain t where run: "evaluate_guardian_recovery plain_crypto plain_jiff sample_serde
     (Some (sample_s1\<lparr>rs_maintenance := True\<rparr>))
     (sample_command (Resume sample_snapshot_hash (sample_sig (CHR ''r'')))) (sample_clock 0 0) sample_snapshot_hash =
     Inr t" "\<not> rs_maintenance t"
    using sample_run_resume by blast
  from maintenance_cleared_sound [OF run(1) _ run(2)] show ?thesis by (auto simp: sample_s1_sel)
qed


text \<open>
  C26: Every accepted command was issued for exactly the current state, advances the revision
  by one without overflow and the wall clock never backwards, and keeps what was consumed:
  request identifiers, challenges, edit identifiers, retired root keys and retired guardian keys
  are never forgotten. An initiation, a challenge and a proposal each use an identifier that was
  not consumed before and is consumed after; activating an edit retires every signing key and
  owner root key of the old roster, and completing a recovery retires the old root key.
\<close>

theorem recovery_step_monotone:
  assumes "evaluate_guardian_recovery C J S (Some s) command clock snapshot = Inr t"
  shows "(\<exists>d. state_digest C S s = Inr d \<and> gc_expected_state command = Some d) \<and>
    unat (rs_revision t) = Suc (unat (rs_revision s)) \<and>
    rc_wall_time (rs_clock s) \<le> rc_wall_time (rs_clock t) \<and>
    rs_consumed_request_ids s \<subseteq> rs_consumed_request_ids t \<and>
    rs_consumed_challenges s \<subseteq> rs_consumed_challenges t \<and>
    consumed_edit_ids s \<subseteq> consumed_edit_ids t \<and>
    set (rs_retired_root_keys s) \<subseteq> set (rs_retired_root_keys t) \<and>
    set (retired_guardian_keys s) \<subseteq> set (retired_guardian_keys t) \<and>
    rs_enrollment t = rs_enrollment s \<and>
    (\<forall>request approvals. gc_action command = Initiate request approvals \<longrightarrow>
       ri_request_id (rr_intent request) \<in> rs_consumed_request_ids t - rs_consumed_request_ids s) \<and>
    (\<forall>challenge. gc_action command = IssueChallenge challenge \<longrightarrow>
       challenge \<in> rs_consumed_challenges t - rs_consumed_challenges s) \<and>
    (\<forall>proposal. gc_action command = ProposePolicy proposal \<longrightarrow>
       pe_edit_id (pp_edit proposal) \<in> consumed_edit_ids t - consumed_edit_ids s) \<and>
    (gc_action command = ActivatePolicy \<longrightarrow>
       rg_signing_key ` set (array3_list (gp_guardians (rs_policy s))) \<union>
         ob_root_key ` set (array3_list (guardian_bindings s)) \<subseteq> set (retired_guardian_keys t)) \<and>
    (\<forall>approvals. gc_action command = CompleteRecovery approvals \<longrightarrow>
       ob_root_key (rs_binding s) \<in> set (rs_retired_root_keys t))"
  using assms
proof (rule evaluate_step)
  fix d r u
  assume d: "state_digest C S s = Inr d" "gc_expected_state command = Some d"
    and clk: "clock_accepted (rs_clock s) clock (gc_action command)"
    and r: "checked_add_u64 (rs_revision s) 1 = Some r" and t: "t = u\<lparr>rs_clock := clock\<rparr>"
    and a: "apply_action C J S s (s\<lparr>rs_revision := r\<rparr>) (gc_action command) clock
       (rc_writer_epoch clock \<noteq> rc_writer_epoch (rs_clock s)) snapshot = Inr u"
  have views: "consumed_edit_ids t = consumed_edit_ids u" "retired_guardian_keys t = retired_guardian_keys u"
    by (simp_all add: t consumed_edit_ids_def retired_guardian_keys_def)
  show ?thesis
    using d clk consumed_after [OF a] edits_after [OF a] records_use_after [OF a] checked_add_u64_Some [OF r]
    unfolding views by (auto simp: t clock_accepted_def records_use_def) blast+
qed

theorem recovery_step_monotone_witness:
  "unat (rs_revision sample_d2) = Suc (unat (rs_revision sample_s1)) \<and>
   ''ed'' \<in> consumed_edit_ids sample_d2 - consumed_edit_ids sample_s1"
  using recovery_step_monotone [OF sample_run_propose] by (simp add: sample_proposal_def sample_edit_def)

end
