(* ===== verification/MCT_Sealed.thy ===== *)
theory MCT_Sealed
  imports MCT_Crypto
begin

text \<open>
  Two interfaces that several records share: identities derived by hashing an injective
  joining of fields, and authority records sealed with the digest of their own fields.
\<close>

section \<open>Derived identities\<close>

text \<open>
  Identities are digests of an injective joining of fields. The interface names the joining
  a component uses; what its digests distinguish then follows.
\<close>

locale field_digest =
  fixes join :: "string list \<Rightarrow> string"
  assumes join_inj: "addressable fs \<Longrightarrow> addressable gs \<Longrightarrow> join fs = join gs \<Longrightarrow> fs = gs"
begin

lemma digest_inj:
  assumes "blake3_separates C (join fs) (join gs)" and "addressable fs" and "addressable gs"
    and "cy_blake3_hex C (join fs) = cy_blake3_hex C (join gs)"
  shows "fs = gs"
  using assms join_inj by (simp add: blake3_separates_def)

end

section \<open>Sealed records\<close>

text \<open>
  An authority record carries the digest of its other fields. The interface is what such a
  record offers: the digest expected of its material, sealing, and a validity that includes
  the comparison.
\<close>

locale sealed_record =
  fixes C :: Crypto and to_json :: "'m \<Rightarrow> string" and material :: "'r \<Rightarrow> 'm"
    and digest :: "'r \<Rightarrow> string" and expected :: "'r \<Rightarrow> string" and seal :: "'r \<Rightarrow> 'r"
    and valid :: "'r \<Rightarrow> bool"
  assumes expected_material: "expected r = ''blake3:'' @ cy_blake3_hex C (to_json (material r))"
    and material_seal: "material (seal r) = material r"
    and digest_seal: "digest (seal r) = expected r"
    and valid_digest: "valid r \<Longrightarrow> digest r = expected r"
begin

lemma sealed: "digest (seal r) = expected (seal r)"
  by (simp add: digest_seal expected_material material_seal)

lemma tamper_evident:
  assumes "valid r" and "digest r' = digest r" and "material r' \<noteq> material r"
    and "to_json (material r') = to_json (material r) \<longrightarrow> material r' = material r"
    and "blake3_separates C (to_json (material r')) (to_json (material r))"
  shows "\<not> valid r'"
proof
  assume "valid r'"
  with assms(1,2) have "expected r' = expected r" by (simp add: valid_digest [symmetric])
  with assms(5) have "to_json (material r') = to_json (material r)"
    by (simp add: expected_material blake3_separates_def)
  with assms(3,4) show False by simp
qed

end

end
