(* ===== verification/MCT_Watch.thy ===== *)
theory MCT_Watch
  imports MCT_Toy MCT_Sealed
begin

text \<open>
  Watching files (\<open>watch.rs\<close>): the scope a Child observes under and its sealed digest, the
  session composed from a scope and an authorized Toy call, the file roots and relative
  paths that are accepted, the disposition of an event, and the identities derived for
  batches, events and the calls they start.
\<close>

section \<open>Scopes\<close>

definition MCT_WATCH_TOY_ID :: string where
  "MCT_WATCH_TOY_ID = ''toy:mct:watch-observation''"

definition MCT_WATCH_MAX_EVENTS_PER_BATCH :: u32 where
  "MCT_WATCH_MAX_EVENTS_PER_BATCH = 128"

definition watch_invalid :: "string \<Rightarrow> string \<Rightarrow> 'a MctKernelResult" where
  "watch_invalid field reason = Inl (InvalidConstraint ''WatchObservationScope'' field reason)"

text \<open>The derived order of the event classes is the order of their declaration.\<close>

fun watch_class_rank :: "WatchEventClass \<Rightarrow> nat" where
  "watch_class_rank WC_Created = 0"
| "watch_class_rank WC_Modified = 1"
| "watch_class_rank WC_Deleted = 2"

lemma watch_class_rank_inj: "watch_class_rank a = watch_class_rank b \<Longrightarrow> a = b"
  by (cases a; cases b) simp_all

instantiation WatchEventClass :: linorder
begin

definition less_eq_WatchEventClass :: "WatchEventClass \<Rightarrow> WatchEventClass \<Rightarrow> bool" where
  "less_eq_WatchEventClass a b \<longleftrightarrow> watch_class_rank a \<le> watch_class_rank b"

definition less_WatchEventClass :: "WatchEventClass \<Rightarrow> WatchEventClass \<Rightarrow> bool" where
  "less_WatchEventClass a b \<longleftrightarrow> watch_class_rank a < watch_class_rank b"

instance
  by standard
    (auto simp: less_eq_WatchEventClass_def less_WatchEventClass_def intro: watch_class_rank_inj)

end

definition validate_canonical_file_root :: "string \<Rightarrow> unit MctKernelResult" where
  "validate_canonical_file_root root =
     and_then (ensure_non_blank ''WatchObservationScope'' ''canonical_root_ref'' root) (\<lambda>_.
     case strip_prefix ''file:///'' root of
       None \<Rightarrow> watch_invalid ''canonical_root_ref'' ''not canonical file URI''
     | Some path \<Rightarrow>
         if path = [] \<or> contains_str path ''@'' \<or> contains_str path ''?''
            \<or> contains_str path ''#'' \<or> contains_str path ''%'' \<or> contains_str path [CHR 0x5C]
            \<or> contains_str path ''//'' \<or> ends_with path ''/''
            \<or> list_ex (\<lambda>segment. segment = [] \<or> segment = ''.'' \<or> segment = ''..'')
                 (split_on (CHR ''/'') path)
         then watch_invalid ''canonical_root_ref'' ''credentialed, broad, or non-canonical root''
         else Inr ())"

definition CanonicalFileRoot_new :: "string \<Rightarrow> string MctKernelResult" where
  "CanonicalFileRoot_new v = and_then (validate_canonical_file_root v) (\<lambda>_. Inr v)"

definition WatchEventClasses_new :: "WatchEventClass list \<Rightarrow> WatchEventClass list MctKernelResult" where
  "WatchEventClasses_new classes =
     (if classes = [] then watch_invalid ''event_classes'' ''empty set''
      else if \<not> successively (<) classes
      then watch_invalid ''event_classes'' ''not unique canonical order''
      else Inr classes)"

record WatchScopeDigestMaterial =
  wd_watch_scope_id :: WatchObservationScopeId
  wd_observer_shape :: WatchObserverShape
  wd_observer_ref :: WatchObserverRef
  wd_scope_mode :: WatchScopeMode
  wd_canonical_root_ref :: string
  wd_traversal_scope :: WatchTraversalScope
  wd_event_classes :: "WatchEventClass list"
  wd_max_events_per_batch :: u32
  wd_coalescing_policy :: WatchCoalescingPolicy
  wd_starts_at :: Timestamp
  wd_expires_at :: Timestamp
  wd_scope_revision :: u64
  wd_policy_revision :: u64
  wd_authority_state :: WatchObservationScopeState
  wd_authority_observation_id :: ObservationId

text \<open>\<open>serde_json::to_vec\<close> on the material is the parameter \<open>to_json\<close>.\<close>

definition watch_digest_material :: "WatchObservationScope \<Rightarrow> WatchScopeDigestMaterial" where
  "watch_digest_material s =
     \<lparr>wd_watch_scope_id = ws_watch_scope_id s, wd_observer_shape = ws_observer_shape s,
      wd_observer_ref = ws_observer_ref s, wd_scope_mode = ws_scope_mode s,
      wd_canonical_root_ref = ws_canonical_root_ref s,
      wd_traversal_scope = ws_traversal_scope s, wd_event_classes = ws_event_classes s,
      wd_max_events_per_batch = ws_max_events_per_batch s,
      wd_coalescing_policy = ws_coalescing_policy s, wd_starts_at = ws_starts_at s,
      wd_expires_at = ws_expires_at s, wd_scope_revision = ws_scope_revision s,
      wd_policy_revision = ws_policy_revision s, wd_authority_state = ws_authority_state s,
      wd_authority_observation_id = ws_authority_observation_id s\<rparr>"

definition watch_expected_record_digest ::
  "Crypto \<Rightarrow> (WatchScopeDigestMaterial \<Rightarrow> string) \<Rightarrow> WatchObservationScope \<Rightarrow> string" where
  "watch_expected_record_digest C to_json s =
     ''blake3:'' @ cy_blake3_hex C (to_json (watch_digest_material s))"

definition watch_seal ::
  "Crypto \<Rightarrow> (WatchScopeDigestMaterial \<Rightarrow> string) \<Rightarrow> WatchObservationScope \<Rightarrow>
   WatchObservationScope" where
  "watch_seal C to_json s =
     s\<lparr>ws_canonical_record_digest := watch_expected_record_digest C to_json s\<rparr>"

definition WatchObservationScope_validate ::
  "Crypto \<Rightarrow> (WatchScopeDigestMaterial \<Rightarrow> string) \<Rightarrow> WatchObservationScope \<Rightarrow>
   unit MctKernelResult" where
  "WatchObservationScope_validate C to_json s =
     and_then (ensure_non_blank ''WatchObserverRef'' ''child_name''
                 (wo_child_name (ws_observer_ref s))) (\<lambda>_.
     and_then (ensure_non_blank ''WatchObserverRef'' ''artifact_version''
                 (wo_artifact_version (ws_observer_ref s))) (\<lambda>_.
     and_then (validate_canonical_file_root (ws_canonical_root_ref s)) (\<lambda>_.
     if ws_event_classes s = [] then watch_invalid ''event_classes'' ''empty set''
     else if \<not> successively (<) (ws_event_classes s)
     then watch_invalid ''event_classes'' ''not unique canonical order''
     else if \<not> (1 \<le> ws_max_events_per_batch s
                \<and> ws_max_events_per_batch s \<le> MCT_WATCH_MAX_EVENTS_PER_BATCH)
     then watch_invalid ''max_events_per_batch'' ''outside named ceiling''
     else if ws_expires_at s \<le> ws_starts_at s
     then watch_invalid ''expires_at'' ''not after starts_at''
     else if ws_policy_revision s = 0 then watch_invalid ''policy_revision'' ''must be non-zero''
     else if ws_canonical_record_digest s \<noteq> watch_expected_record_digest C to_json s
     then watch_invalid ''canonical_record_digest'' ''digest mismatch''
     else Inr ())))"

definition watch_is_current_at ::
  "Crypto \<Rightarrow> (WatchScopeDigestMaterial \<Rightarrow> string) \<Rightarrow> WatchObservationScope \<Rightarrow> Timestamp \<Rightarrow> bool" where
  "watch_is_current_at C to_json s now \<longleftrightarrow>
     is_ok (WatchObservationScope_validate C to_json s) \<and> ws_authority_state s = WS_Active \<and>
     ws_starts_at s \<le> now \<and> now < ws_expires_at s"

definition toy_resource_id :: "WatchObservationScope \<Rightarrow> string" where
  "toy_resource_id s =
     ''watch-scope:'' @ ws_watch_scope_id s @ '':'' @ dec_u64 (ws_scope_revision s)"

section \<open>Sessions\<close>

record WatchObservationSessionRequest =
  wq_current_observer :: WatchObserverRef
  wq_now :: Timestamp

record AuthorizedWatchObservationSession =
  wa_authorized_toy_call :: AuthorizedToyCall
  wa_scope :: WatchObservationScope

definition authorize_watch_observation_session ::
  "Crypto \<Rightarrow> (WatchScopeDigestMaterial \<Rightarrow> string) \<Rightarrow> AuthorizedToyCall \<Rightarrow> WatchObservationScope \<Rightarrow>
   WatchObservationSessionRequest \<Rightarrow> AuthorizedWatchObservationSession MctKernelResult" where
  "authorize_watch_observation_session C to_json authorized_toy_call scope request =
     (if tt_toy_id authorized_toy_call \<noteq> MCT_WATCH_TOY_ID
      then watch_invalid ''toy_id'' ''not canonical Watch Toy''
      else if tt_resource_id authorized_toy_call \<noteq> Some (toy_resource_id scope)
      then watch_invalid ''toy_resource'' ''scope revision mismatch''
      else if tt_expires_at authorized_toy_call \<le> wq_now request
      then watch_invalid ''toy_expiry'' ''authorized Toy call expired''
      else if ws_observer_ref scope \<noteq> wq_current_observer request
      then watch_invalid ''observer_ref'' ''not current exact observer''
      else if \<not> watch_is_current_at C to_json scope (wq_now request)
      then watch_invalid ''authority_state'' ''scope is not current''
      else Inr \<lparr>wa_authorized_toy_call = authorized_toy_call, wa_scope = scope\<rparr>)"

section \<open>Relative paths and dispositions\<close>

fun check_watch_segments :: "nat \<Rightarrow> string list \<Rightarrow> unit MctKernelResult" where
  "check_watch_segments index [] = Inr ()"
| "check_watch_segments index (segment # segments) =
     (if segment = [] \<or> segment = ''.'' \<or> segment = ''..''
      then watch_invalid ''relative_path'' ''non-canonical segment''
      else if index = 0 \<and> ends_with segment '':''
      then watch_invalid ''relative_path'' ''platform prefix''
      else check_watch_segments (Suc index) segments)"

definition validate_safe_watch_relative_path :: "string \<Rightarrow> unit MctKernelResult" where
  "validate_safe_watch_relative_path path =
     and_then (ensure_non_blank ''WatchEventEvidence'' ''relative_path'' path) (\<lambda>_.
     if starts_with path ''/'' \<or> starts_with path [CHR 0x5C] \<or> contains_str path [CHR 0x5C]
        \<or> contains_str path [CHR 0x00] \<or> contains_str path ''//''
     then watch_invalid ''relative_path'' ''absolute or ambiguous separator''
     else check_watch_segments 0 (split_on (CHR ''/'') path))"

datatype LegacyWatchCompatibilityValidation = LW_Matched | LW_MismatchRefused

definition validate_legacy_watch_paths ::
  "string \<Rightarrow> string \<Rightarrow> string \<Rightarrow> LegacyWatchCompatibilityValidation MctKernelResult" where
  "validate_legacy_watch_paths operation_package_interface absolute_path relative_path =
     (if \<not> starts_with operation_package_interface ''patina:watch/events@0.1.''
      then watch_invalid ''legacy_interface'' ''not exact 0.1.x dispatch''
      else and_then (validate_safe_watch_relative_path relative_path) (\<lambda>_.
           if absolute_path \<noteq> relative_path then Inr LW_MismatchRefused else Inr LW_Matched))"

record WatchEventBatchEvidence =
  wb_batch_id :: WatchEventBatchId
  wb_watch_scope_id :: WatchObservationScopeId
  wb_scope_revision :: u64
  wb_sequence :: u64
  wb_parent_call_id :: CallId
  wb_raw_event_count :: u32
  wb_eligible_event_count :: u32
  wb_coalesced_event_count :: u32
  wb_excluded_event_count :: u32
  wb_capacity_refused_event_count :: u32

record WatchEventEvidence =
  wn_event_id :: WatchEventId
  wn_batch_id :: WatchEventBatchId
  wn_batch_position :: u32
  wn_event_class :: WatchEventClass
  wn_relative_path :: string
  wn_causative_call_id :: CallId
  wn_causative_trigger_firing_id :: "CallTriggerFiringId option"
  wn_causative_adapter_observation_id :: "ObservationId option"

datatype WatchEventDisposition = WE_Fired | WE_Coalesced | WE_Suppressed | WE_CapacityRefused

record WatchEventDeliveryDisposition =
  wv_disposition_id :: WatchEventDeliveryDispositionId
  wv_event_id :: WatchEventId
  wv_disposition :: WatchEventDisposition
  wv_planned_call_id :: "CallId option"
  wv_compatibility_validation :: LegacyWatchCompatibilityValidation
  wv_disposition_observation_id :: ObservationId

definition WatchEventDeliveryDisposition_validate ::
  "WatchEventDeliveryDisposition \<Rightarrow> unit MctKernelResult" where
  "WatchEventDeliveryDisposition_validate d =
     (case (wv_disposition d, wv_planned_call_id d \<noteq> None) of
        (WE_Fired, True) \<Rightarrow> Inr ()
      | (WE_Fired, False) \<Rightarrow> watch_invalid ''planned_call_id'' ''missing for fired disposition''
      | (_, False) \<Rightarrow> Inr ()
      | (_, True) \<Rightarrow> watch_invalid ''planned_call_id'' ''present for non-fired disposition'')"

record WatchEventDeliveryEvidence =
  wy_delivery_id :: WatchEventDeliveryId
  wy_disposition_id :: WatchEventDeliveryDispositionId
  wy_target_call_id :: CallId
  wy_target_result_ref :: ResultRef
  wy_target_result_observation_id :: ObservationId
  wy_delivered :: bool

section \<open>Derived identities\<close>

definition watch_fields :: "string list \<Rightarrow> string" where
  "watch_fields parts = ''mct-watch-v1'' @ frame u64_be_bytes parts"

definition digest_fields :: "Crypto \<Rightarrow> string list \<Rightarrow> string" where
  "digest_fields C parts = cy_blake3_hex C (watch_fields parts)"

definition derive_watch_batch_id ::
  "Crypto \<Rightarrow> WatchObservationScopeId \<Rightarrow> u64 \<Rightarrow> u64 \<Rightarrow> CallId \<Rightarrow> WatchEventBatchId" where
  "derive_watch_batch_id C scope_id revision sequence parent_call_id =
     ''watch-batch:'' @ digest_fields C [scope_id, dec_u64 revision, dec_u64 sequence, parent_call_id]"

definition derive_watch_callout_event_id ::
  "Crypto \<Rightarrow> CallId \<Rightarrow> WatchEventBatchId \<Rightarrow> u32 \<Rightarrow> string \<Rightarrow> WatchEventId" where
  "derive_watch_callout_event_id C parent_call_id batch_id batch_position canonical_event_json =
     ''watch-event:'' @ digest_fields C
       [parent_call_id, batch_id, dec (unat batch_position), canonical_event_json]"

definition derive_watch_callout_call_id :: "WatchEventId \<Rightarrow> CallId" where
  "derive_watch_callout_call_id event_id = ''call-wasm-host:'' @ event_id"

definition derive_watch_callout_idempotency_key ::
  "Crypto \<Rightarrow> CallId \<Rightarrow> WatchEventId \<Rightarrow> string \<Rightarrow> string" where
  "derive_watch_callout_idempotency_key C parent_call_id event_id target_operation =
     ''wasm-host-v1:'' @ digest_fields C [parent_call_id, event_id, target_operation]"

section \<open>Roots and paths\<close>

definition plain_segment :: "string \<Rightarrow> bool" where
  "plain_segment seg \<longleftrightarrow> seg \<noteq> [] \<and> seg \<noteq> ''.'' \<and> seg \<noteq> ''..''"

lemma check_watch_segments_ok [result_simps]:
  "check_watch_segments n segs = Inr u \<longleftrightarrow>
     list_all plain_segment segs \<and> (n = 0 \<longrightarrow> segs = [] \<or> \<not> ends_with (hd segs) '':'')"
  by (induction n segs rule: check_watch_segments.induct)
    (auto simp: watch_invalid_def plain_segment_def)

lemma validate_safe_watch_relative_path_ok [result_simps]:
  "validate_safe_watch_relative_path path = Inr u \<longleftrightarrow>
     non_blank path \<and> CHR 0x5C \<notin> set path \<and> CHR 0x00 \<notin> set path \<and>
     list_all plain_segment (split_on (CHR ''/'') path) \<and>
     \<not> ends_with (hd (split_on (CHR ''/'') path)) '':''"
proof -
  have "list_all plain_segment (split_on (CHR ''/'') path) \<Longrightarrow>
      \<not> starts_with path ''/'' \<and> \<not> contains_str path ''//''"
    using split_on_empty_segment [of path "CHR ''/''"] by (auto simp: list_all_iff plain_segment_def)
  moreover have "starts_with path [CHR 0x5C] \<Longrightarrow> CHR 0x5C \<in> set path"
    by (cases path) (auto simp: starts_with_def)
  ultimately show ?thesis
    by (auto simp: validate_safe_watch_relative_path_def result_simps contains_str_char watch_invalid_def)
qed

lemma validate_canonical_file_root_ok [result_simps]:
  "validate_canonical_file_root root = Inr u \<longleftrightarrow>
     non_blank root \<and>
     (\<exists>path. root = ''file:///'' @ path \<and> path \<noteq> [] \<and>
        set path \<inter> set ''@?#%'' = {} \<and> CHR 0x5C \<notin> set path \<and>
        list_all plain_segment (split_on (CHR ''/'') path))"
proof (cases "strip_prefix ''file:///'' root")
  case None
  then have "root \<noteq> ''file:///'' @ path" for path
    using strip_prefix_Some [of "''file:///''" root path] by auto
  with None show ?thesis
    by (simp add: validate_canonical_file_root_def result_simps watch_invalid_def)
next
  case (Some path)
  have plain: "list_all plain_segment (split_on (CHR ''/'') path) \<Longrightarrow>
      \<not> ends_with path ''/'' \<and> \<not> contains_str path ''//''"
    using split_on_empty_segment [of path "CHR ''/''"] by (auto simp: list_all_iff plain_segment_def)
  from Some have root: "root = ''file:///'' @ path" by (simp only: strip_prefix_Some)
  have segs: "list_ex (\<lambda>segment. segment = [] \<or> segment = ''.'' \<or> segment = ''..'') segs \<longleftrightarrow>
      \<not> list_all plain_segment segs" for segs
    by (auto simp: list_ex_iff list_all_iff plain_segment_def)
  have "validate_canonical_file_root root = Inr u \<longleftrightarrow>
      non_blank root \<and> path \<noteq> [] \<and> set path \<inter> set ''@?#%'' = {} \<and> CHR 0x5C \<notin> set path \<and>
      list_all plain_segment (split_on (CHR ''/'') path)"
    unfolding validate_canonical_file_root_def Some segs using plain
    by (auto simp: result_simps contains_str_char watch_invalid_def)
  with root show ?thesis by simp
qed

text \<open>
  What a file system makes of a list of names: \<open>.\<close> and empty names stay, \<open>..\<close> goes up.
\<close>

fun walk :: "string list \<Rightarrow> string list \<Rightarrow> string list" where
  "walk here [] = here"
| "walk here (seg # segs) =
     (if seg = [] \<or> seg = ''.'' then walk here segs
      else if seg = ''..'' then walk (butlast here) segs
      else walk (here @ [seg]) segs)"

lemma walk_plain: "list_all plain_segment segs \<Longrightarrow> walk here segs = here @ segs"
  by (induction here segs rule: walk.induct) (auto simp: plain_segment_def)

section \<open>Sealing and sessions\<close>

lemma WatchObservationScope_validate_ok [result_simps]:
  "WatchObservationScope_validate C to_json s = Inr u \<longleftrightarrow>
     non_blank (wo_child_name (ws_observer_ref s)) \<and>
     non_blank (wo_artifact_version (ws_observer_ref s)) \<and>
     validate_canonical_file_root (ws_canonical_root_ref s) = Inr () \<and>
     ws_event_classes s \<noteq> [] \<and> successively (<) (ws_event_classes s) \<and>
     1 \<le> ws_max_events_per_batch s \<and> ws_max_events_per_batch s \<le> 128 \<and>
     ws_starts_at s < ws_expires_at s \<and> ws_policy_revision s \<noteq> 0 \<and>
     ws_canonical_record_digest s = watch_expected_record_digest C to_json s"
  unfolding WatchObservationScope_validate_def
  by (cases "validate_canonical_file_root (ws_canonical_root_ref s)")
    (auto simp: and_then_eq_Inr ensure_non_blank_ok watch_invalid_def MCT_WATCH_MAX_EVENTS_PER_BATCH_def)

interpretation watch_record: sealed_record C to_json watch_digest_material
  ws_canonical_record_digest "watch_expected_record_digest C to_json" "watch_seal C to_json"
  "\<lambda>s. is_ok (WatchObservationScope_validate C to_json s)" for C to_json
  by unfold_locales
    (auto simp: watch_expected_record_digest_def watch_seal_def watch_digest_material_def
      is_ok_unit WatchObservationScope_validate_ok)

text \<open>The digested material and the digest are the whole record.\<close>

lemma watch_digest_material_inj:
  assumes "watch_digest_material s' = watch_digest_material s"
    and "ws_canonical_record_digest s' = ws_canonical_record_digest s"
  shows "s' = s"
  using assms by (cases s; cases s') (simp add: watch_digest_material_def)

lemma toy_resource_id_inj:
  "toy_resource_id s = toy_resource_id s' \<longleftrightarrow>
     ws_watch_scope_id s = ws_watch_scope_id s' \<and> ws_scope_revision s = ws_scope_revision s'"
proof -
  have "rsplit_once (CHR '':'') (ws_watch_scope_id x @ '':'' @ dec_u64 (ws_scope_revision x)) =
      Some (ws_watch_scope_id x, dec_u64 (ws_scope_revision x))" for x
    by (simp add: rsplit_once_Some colon_notin_dec_u64)
  then show ?thesis unfolding toy_resource_id_def
    by (metis dec_u64_inj option.inject prod.inject same_append_eq)
qed

lemma authorize_watch_ok [result_simps]:
  "authorize_watch_observation_session C to_json t s r = Inr a \<longleftrightarrow>
     tt_toy_id t = MCT_WATCH_TOY_ID \<and> tt_resource_id t = Some (toy_resource_id s) \<and>
     wq_now r < tt_expires_at t \<and> ws_observer_ref s = wq_current_observer r \<and>
     watch_is_current_at C to_json s (wq_now r) \<and>
     a = \<lparr>wa_authorized_toy_call = t, wa_scope = s\<rparr>"
  by (auto simp: authorize_watch_observation_session_def watch_invalid_def)

section \<open>Identities\<close>

interpretation watch_identity: field_digest watch_fields
  by unfold_locales (auto simp: watch_fields_def intro: u64_be.frame_inj)

lemmas digest_fields_inj = watch_identity.digest_inj [folded digest_fields_def]

lemma dec_u32_short: "length (dec (unat (n :: u32))) < 2 ^ 64"
proof (rule dec_short)
  have "unat n < 2 ^ LENGTH(32)" by (rule unsigned_less)
  then show "unat n < 2 ^ 64" by simp
qed

lemma watch_call_identity:
  assumes "addressable [parent, batch, json]" and "addressable [parent', batch', json']"
    and "blake3_separates C (watch_fields [parent, batch, dec (unat n), json])
           (watch_fields [parent', batch', dec (unat n'), json'])"
    and "derive_watch_callout_call_id (derive_watch_callout_event_id C parent batch n json) =
         derive_watch_callout_call_id (derive_watch_callout_event_id C parent' batch' n' json')"
  shows "parent = parent' \<and> batch = batch' \<and> n = n' \<and> json = json'"
  using digest_fields_inj [OF assms(3)] assms(1,2,4) dec_u32_short [of n] dec_u32_short [of n']
  by (simp add: derive_watch_callout_call_id_def derive_watch_callout_event_id_def addressable_def
      dec_inj word_unat_eq_iff)

section \<open>Examples\<close>

text \<open>JSON stands for itself: a text that mentions the root and the revision of the scope.\<close>

definition sample_watch_json :: "WatchScopeDigestMaterial \<Rightarrow> string" where
  "sample_watch_json m =
     wd_canonical_root_ref m @ '':'' @ wd_watch_scope_id m @ '':'' @ dec_u64 (wd_scope_revision m)"

definition sample_watch_body :: WatchObservationScope where
  "sample_watch_body =
     \<lparr>ws_watch_scope_id = ''scope'', ws_observer_shape = WO_ChildToy,
      ws_observer_ref =
        \<lparr>wo_child_name = ''kid'', wo_artifact_id = ''art'', wo_artifact_version = ''1'',
         wo_assignment_id = ''asg''\<rparr>,
      ws_scope_mode = WM_Constrained, ws_canonical_root_ref = ''file:///srv/in'',
      ws_traversal_scope = WT_Recursive, ws_event_classes = [WC_Created, WC_Deleted],
      ws_max_events_per_batch = 16, ws_coalescing_policy = LastPerPath,
      ws_starts_at = Timestamp ''a'' 1, ws_expires_at = Timestamp ''z'' 100,
      ws_scope_revision = 2, ws_policy_revision = 7, ws_authority_state = WS_Active,
      ws_authority_observation_id = ''o9'', ws_canonical_record_digest = ''''\<rparr>"

definition sample_watch_scope :: WatchObservationScope where
  "sample_watch_scope = watch_seal plain_crypto sample_watch_json sample_watch_body"

lemma sample_root_ok: "validate_canonical_file_root ''file:///srv/in'' = Inr ()"
  by (simp add: validate_canonical_file_root_def and_then_def ensure_non_blank_def trim_is_empty_visible
      strip_prefix_def starts_with_def ends_with_def)

lemma sample_watch_valid:
  "WatchObservationScope_validate plain_crypto sample_watch_json sample_watch_scope = Inr ()"
proof -
  have "ws_canonical_record_digest sample_watch_scope =
      watch_expected_record_digest plain_crypto sample_watch_json sample_watch_scope"
    unfolding sample_watch_scope_def by (rule watch_record.sealed)
  then show ?thesis
    by (simp add: WatchObservationScope_validate_ok)
      (simp add: sample_watch_scope_def watch_seal_def sample_watch_body_def sample_root_ok
        less_WatchEventClass_def less_Timestamp_def)
qed

definition sample_watch_grant :: ToyGrant where [sample_defs]:
  "sample_watch_grant = sample_grant
     \<lparr>tg_toy_id := MCT_WATCH_TOY_ID,
      tg_scope := (tg_scope sample_grant)\<lparr>sc_allowed_actions := [''observe''],
        sc_resource_id := Some (toy_resource_id sample_watch_scope)\<rparr>\<rparr>"

definition sample_watch_toy :: CanonicalToyContract where [sample_defs]:
  "sample_watch_toy = sample_toy\<lparr>ct_toy_id := MCT_WATCH_TOY_ID\<rparr>"

definition sample_watch_request :: ToyGrantEvaluationRequest where [sample_defs]:
  "sample_watch_request = sample_toy_request\<lparr>tq_toy_id := MCT_WATCH_TOY_ID, tq_action := ''observe'',
     tq_resource_id := Some (toy_resource_id sample_watch_scope)\<rparr>"

definition sample_watch_snapshot :: LocalExecutionAuthoritySnapshot where
  "sample_watch_snapshot = assemble_local_execution_authority_snapshot
     (sample_parts\<lparr>xs_toy_catalog := [sample_watch_toy], xs_toy_grants := [sample_watch_grant]\<rparr>)"

lemma sample_watch_snapshot_fields [simp]:
  "ls_policy_revision sample_watch_snapshot = 7"
  "lg_generation (lc_grants_authority (ls_canonical_grants sample_watch_snapshot)) = 3"
  "lc_toy_catalog (ls_canonical_grants sample_watch_snapshot) = [sample_watch_toy]"
  "lc_toy_grants (ls_canonical_grants sample_watch_snapshot) = [sample_watch_grant]"
  by (simp_all add: sample_watch_snapshot_def assemble_local_execution_authority_snapshot_def
      sample_parts_def)

definition sample_watch_token :: AuthorizedToyCall where
  "sample_watch_token = toy_snapshot_token sample_call sample_watch_request sample_watch_snapshot
     sample_watch_toy sample_watch_grant (sample_time 90)"

lemma sample_watch_minted:
  "tr_authorized (evaluate_toy_grant_for_snapshot plain_jiff sample_call sample_watch_request
     sample_watch_snapshot) = Some sample_watch_token"
proof -
  have avail: "toy_available sample_watch_request [sample_watch_toy] sample_watch_toy"
    by (simp add: toy_available_def sample_defs)
  have ok: "toy_grant_ok 7 sample_call sample_watch_request sample_watch_grant"
    by (simp add: toy_grant_ok_def subject_matches_def scope_matches_def data_scope_matches_def
        started_def unexpired_def sample_defs)
  have e: "toy_token_expiry plain_jiff sample_call sample_watch_request sample_watch_grant =
      Some (sample_time 90)"
    by (simp add: toy_token_expiry_def ts_min_def sample_defs)
  have "evaluate_toy_grant_for_route_snapshot sample_call sample_watch_request [sample_watch_toy]
      [sample_watch_grant] 7 3 = toy_route_allow sample_call sample_watch_request 7 3 sample_watch_grant"
    by (rule toy_route_allowed_eq [OF avail]) (use ok toy_grant_ok_decides in auto)
  then show ?thesis
    using avail
    by (simp add: evaluate_toy_grant_for_snapshot_def Let_def toy_simps toy_available_def e
        toy_snapshot_token_def toy_route_allow_def sample_watch_token_def)
qed

lemma sample_watch_session:
  "authorize_watch_observation_session plain_crypto sample_watch_json sample_watch_token
     sample_watch_scope
     \<lparr>wq_current_observer = ws_observer_ref sample_watch_scope, wq_now = sample_time 20\<rparr> =
   Inr \<lparr>wa_authorized_toy_call = sample_watch_token, wa_scope = sample_watch_scope\<rparr>"
  by (simp add: authorize_watch_ok watch_is_current_at_def sample_watch_valid is_ok_def
      sample_watch_token_def toy_snapshot_token_def sample_watch_request_def)
    (simp add: sample_watch_scope_def watch_seal_def sample_watch_body_def sample_defs
      sample_time_def less_Timestamp_def less_eq_Timestamp_def)

section \<open>Properties\<close>

text \<open>
  C37: A sealed scope cannot be edited. Take a valid scope and any other scope with the same
  digest, whichever field differs: the observer, the root, the event classes, the window, a
  revision, the authority state or anything else. Validation rejects it. (The digest is assumed
  not to collide on the two records, and the JSON encoding to be injective on them.)
\<close>

theorem watch_scope_tamper_evident:
  assumes "is_ok (WatchObservationScope_validate C to_json s)"
    and "ws_canonical_record_digest s' = ws_canonical_record_digest s" and "s' \<noteq> s"
    and "to_json (watch_digest_material s') = to_json (watch_digest_material s) \<longrightarrow>
         watch_digest_material s' = watch_digest_material s"
    and "blake3_separates C (to_json (watch_digest_material s')) (to_json (watch_digest_material s))"
  shows "\<not> is_ok (WatchObservationScope_validate C to_json s')"
proof -
  from assms(2,3) have "watch_digest_material s' \<noteq> watch_digest_material s"
    using watch_digest_material_inj by blast
  with assms(1,2) show ?thesis using assms(4,5) by (rule watch_record.tamper_evident)
qed

theorem watch_scope_tamper_evident_witness:
  "\<not> is_ok (WatchObservationScope_validate plain_crypto sample_watch_json
        (sample_watch_scope\<lparr>ws_canonical_root_ref := ''file:///srv''\<rparr>))"
proof (rule watch_scope_tamper_evident [of plain_crypto sample_watch_json sample_watch_scope])
  have root: "ws_canonical_root_ref sample_watch_scope = ''file:///srv/in''"
    by (simp add: sample_watch_scope_def watch_seal_def sample_watch_body_def)
  then have "ws_canonical_root_ref (sample_watch_scope\<lparr>ws_canonical_root_ref := ''file:///srv''\<rparr>) \<noteq>
      ws_canonical_root_ref sample_watch_scope" by simp
  then show "sample_watch_scope\<lparr>ws_canonical_root_ref := ''file:///srv''\<rparr> \<noteq> sample_watch_scope"
    by metis
  show "sample_watch_json (watch_digest_material (sample_watch_scope\<lparr>ws_canonical_root_ref := ''file:///srv''\<rparr>)) =
      sample_watch_json (watch_digest_material sample_watch_scope) \<longrightarrow>
      watch_digest_material (sample_watch_scope\<lparr>ws_canonical_root_ref := ''file:///srv''\<rparr>) =
      watch_digest_material sample_watch_scope"
    using root by (simp add: sample_watch_json_def watch_digest_material_def)
qed (simp_all add: sample_watch_valid plain_crypto_separates)

text \<open>
  C35: A watch session rests on a grant and on the scope it names. If a Toy evaluation over an
  authority snapshot minted the token and a session was authorized with it, the snapshot holds a
  grant of the Watch Toy to the requesting subject that was active, of the current policy revision
  and inside its window when the token was minted, that allows the requested action and covers
  the requested resource, which is exactly this revision of this scope. The session starts before the grant's expiry and the call's
  deadline, for the observer the scope names, while the scope is sealed, active and inside its own
  window. The same token opens no session on another scope or on another revision of this one.
\<close>

theorem watch_session_sound:
  assumes "tr_authorized (evaluate_toy_grant_for_snapshot J call request snapshot) = Some t"
    and "distinct (map tg_grant_id (lc_toy_grants (ls_canonical_grants snapshot)))"
    and "authorize_watch_observation_session C to_json t s r = Inr session"
  shows "wa_scope session = s \<and> wa_authorized_toy_call session = t \<and>
    (\<exists>g \<in> set (lc_toy_grants (ls_canonical_grants snapshot)).
       tg_toy_id g = MCT_WATCH_TOY_ID \<and> subject_matches (tg_subject g) (tq_subject request) \<and>
       tg_grant_state g = GS_Active \<and> tg_policy_revision g = ls_policy_revision snapshot \<and>
       started (tq_now request) (tk_starts_at (tg_constraints g)) \<and>
       unexpired (tq_now request) (tk_expires_at (tg_constraints g)) \<and>
       unexpired (wq_now r) (tk_expires_at (tg_constraints g)) \<and>
       tq_action request \<in> set (sc_allowed_actions (tg_scope g)) \<and>
       option_matches (sc_resource_id (tg_scope g)) (Some (toy_resource_id s))) \<and>
    tq_resource_id request = Some (toy_resource_id s) \<and> wq_now r < c_deadline call \<and>
    ws_observer_ref s = wq_current_observer r \<and>
    ws_canonical_record_digest s = watch_expected_record_digest C to_json s \<and>
    ws_authority_state s = WS_Active \<and> ws_starts_at s \<le> wq_now r \<and> wq_now r < ws_expires_at s \<and>
    (\<forall>s' r'. is_ok (authorize_watch_observation_session C to_json t s' r') \<longrightarrow>
       ws_watch_scope_id s' = ws_watch_scope_id s \<and> ws_scope_revision s' = ws_scope_revision s)"
proof -
  obtain toy g e where g: "g \<in> set (lc_toy_grants (ls_canonical_grants snapshot))"
    "toy_grant_ok (ls_policy_revision snapshot) call request g"
    and e: "toy_token_expiry J call request g = Some e"
    and t: "t = toy_snapshot_token call request snapshot toy g e"
    by (rule toy_snapshot_mintedD [OF assms(1,2)])
  note session = assms(3) [unfolded authorize_watch_ok]
  from session t have now: "wq_now r < e" and res: "tq_resource_id request = Some (toy_resource_id s)"
    and watch: "tq_toy_id request = MCT_WATCH_TOY_ID"
    by (simp_all add: toy_snapshot_token_def)
  have deadline: "wq_now r < c_deadline call"
    using now toy_expiry_bounds(1) [OF e] by (rule less_le_trans)
  have "unexpired (wq_now r) (tk_expires_at (tg_constraints g))"
    using now toy_expiry_bounds(2) [OF e] by (rule unexpired_below)
  moreover have "ws_watch_scope_id s' = ws_watch_scope_id s \<and> ws_scope_revision s' = ws_scope_revision s"
    if "is_ok (authorize_watch_observation_session C to_json t s' r')" for s' r'
    using that session toy_resource_id_inj [of s' s]
    by (simp add: is_ok_iff [of "authorize_watch_observation_session _ _ _ _ _"] authorize_watch_ok)
  moreover have "ws_canonical_record_digest s = watch_expected_record_digest C to_json s"
    using session by (simp add: watch_is_current_at_def is_ok_unit WatchObservationScope_validate_ok)
  ultimately show ?thesis
    using g session deadline res watch
    by (auto simp: toy_grant_ok_def scope_matches_def watch_is_current_at_def list_ex_iff
        intro!: bexI [of _ g])
qed

theorem watch_session_sound_witness:
  "\<exists>g \<in> set [sample_watch_grant].
     tg_toy_id g = MCT_WATCH_TOY_ID \<and>
     option_matches (sc_resource_id (tg_scope g)) (Some (toy_resource_id sample_watch_scope))"
  using watch_session_sound [OF sample_watch_minted _ sample_watch_session] by auto

text \<open>
  The action of the Toy call plays no part in opening a session: the documented action of the Watch
  Toy is \<open>observe\<close>, but a token for any other action of the grant opens the same session.
\<close>

lemma watch_session_any_action:
  "is_ok (authorize_watch_observation_session C to_json (t\<lparr>tt_action := action\<rparr>) s r) \<longleftrightarrow>
   is_ok (authorize_watch_observation_session C to_json t s r)"
  by (simp add: authorize_watch_observation_session_def watch_invalid_def is_ok_def)

text \<open>
  C36: An accepted relative path stays below the root: from the directory that an accepted
  root names, following the path name by name leads to exactly the names of the root followed
  by the names of the path, of which there is at least one; and two accepted paths that lead
  to the same place are the same text.
\<close>

theorem watch_path_contained:
  assumes "validate_canonical_file_root (''file:///'' @ root) = Inr ()"
    and "validate_safe_watch_relative_path path = Inr ()"
  shows "walk (walk [] (split_on (CHR ''/'') root)) (split_on (CHR ''/'') path) =
           split_on (CHR ''/'') root @ split_on (CHR ''/'') path \<and>
         split_on (CHR ''/'') path \<noteq> [] \<and>
         (\<forall>path'. validate_safe_watch_relative_path path' = Inr () \<and>
            walk (split_on (CHR ''/'') root) (split_on (CHR ''/'') path') =
            walk (split_on (CHR ''/'') root) (split_on (CHR ''/'') path) \<longrightarrow> path' = path)"
  using assms
  by (auto simp: validate_canonical_file_root_ok validate_safe_watch_relative_path_ok walk_plain
      dest: split_on_inj)

theorem watch_path_contained_witness:
  "walk (walk [] (split_on (CHR ''/'') ''srv/in'')) (split_on (CHR ''/'') ''a/b'') =
     [''srv'', ''in'', ''a'', ''b'']"
  using watch_path_contained [of "''srv/in''" "''a/b''"] sample_root_ok
  by (simp add: validate_safe_watch_relative_path_def and_then_def ensure_non_blank_def
      trim_is_empty_visible starts_with_def ends_with_def)

end
