(* ===== verification/MCT_Trigger.thy ===== *)
theory MCT_Trigger
  imports MCT_Call MCT_Sealed
begin

text \<open>
  Standing call triggers (\<open>trigger.rs\<close>): the sealed authority record, what is done with
  missed occurrences and with occurrences that overlap an active call, and the identities
  derived for occurrences, firings, pending work and calls.
\<close>

section \<open>Authority records\<close>

definition MCT_TRIGGER_MIN_INTERVAL_MS :: u64 where
  "MCT_TRIGGER_MIN_INTERVAL_MS = 100"

datatype CallTriggerClass = TC_Temporal | TC_Event

datatype MissedFirePolicy = MF_Skip | MF_CoalesceOne | MF_FireLateBounded

datatype OverlapPolicy = OP_Refuse | OP_CoalesceOne | OP_QueueBounded

datatype CallTriggerAuthorityState = CT_Active | CT_Revoked | CT_Superseded

datatype CallTriggerSource = TemporalSource Timestamp u64 | EventSource string

fun CallTriggerSource_class :: "CallTriggerSource \<Rightarrow> CallTriggerClass" where
  "CallTriggerSource_class (TemporalSource _ _) = TC_Temporal"
| "CallTriggerSource_class (EventSource _) = TC_Event"

fun CallTriggerSource_validate :: "CallTriggerSource \<Rightarrow> unit MctKernelResult" where
  "CallTriggerSource_validate (TemporalSource _ interval_ms) =
     (if interval_ms < MCT_TRIGGER_MIN_INTERVAL_MS
      then Inl (InvalidConstraint ''CallTriggerSource'' ''interval_ms'' ''below minimum'')
      else Inr ())"
| "CallTriggerSource_validate (EventSource event_source_ref) =
     ensure_non_blank ''CallTriggerSource'' ''event_source_ref'' event_source_ref"

record CallTriggerAuthority =
  tz_trigger_authority_id :: CallTriggerAuthorityId
  tz_mother_node_id :: MctNodeId
  tz_vision_id :: VisionId
  tz_canonical_caller :: CallerIdentity
  tz_target :: OperationTarget
  tz_payload_constraint :: MctCallPayloadHandle
  tz_trigger_source :: CallTriggerSource
  tz_trigger_source_ref :: string
  tz_missed_fire_policy :: MissedFirePolicy
  tz_overlap_policy :: OverlapPolicy
  tz_issuer_principal_ref :: string
  tz_record_revision :: u64
  tz_policy_revision :: u64
  tz_starts_at :: Timestamp
  tz_expires_at :: Timestamp
  tz_authority_state :: CallTriggerAuthorityState
  tz_authority_observation_id :: ObservationId
  tz_canonical_record_digest :: string

record CallTriggerAuthorityDigestMaterial =
  tm_trigger_authority_id :: CallTriggerAuthorityId
  tm_mother_node_id :: MctNodeId
  tm_vision_id :: VisionId
  tm_canonical_caller :: CallerIdentity
  tm_target :: OperationTarget
  tm_payload_constraint :: MctCallPayloadHandle
  tm_trigger_source :: CallTriggerSource
  tm_trigger_source_ref :: string
  tm_missed_fire_policy :: MissedFirePolicy
  tm_overlap_policy :: OverlapPolicy
  tm_issuer_principal_ref :: string
  tm_record_revision :: u64
  tm_policy_revision :: u64
  tm_starts_at :: Timestamp
  tm_expires_at :: Timestamp
  tm_authority_state :: CallTriggerAuthorityState
  tm_authority_observation_id :: ObservationId

text \<open>\<open>serde_json::to_vec\<close> on the material is the parameter \<open>to_json\<close>.\<close>

definition trigger_digest_material :: "CallTriggerAuthority \<Rightarrow> CallTriggerAuthorityDigestMaterial" where
  "trigger_digest_material a =
     \<lparr>tm_trigger_authority_id = tz_trigger_authority_id a,
      tm_mother_node_id = tz_mother_node_id a, tm_vision_id = tz_vision_id a,
      tm_canonical_caller = tz_canonical_caller a, tm_target = tz_target a,
      tm_payload_constraint = tz_payload_constraint a, tm_trigger_source = tz_trigger_source a,
      tm_trigger_source_ref = tz_trigger_source_ref a,
      tm_missed_fire_policy = tz_missed_fire_policy a, tm_overlap_policy = tz_overlap_policy a,
      tm_issuer_principal_ref = tz_issuer_principal_ref a,
      tm_record_revision = tz_record_revision a, tm_policy_revision = tz_policy_revision a,
      tm_starts_at = tz_starts_at a, tm_expires_at = tz_expires_at a,
      tm_authority_state = tz_authority_state a,
      tm_authority_observation_id = tz_authority_observation_id a\<rparr>"

definition trigger_expected_record_digest ::
  "Crypto \<Rightarrow> (CallTriggerAuthorityDigestMaterial \<Rightarrow> string) \<Rightarrow> CallTriggerAuthority \<Rightarrow> string" where
  "trigger_expected_record_digest C to_json a =
     ''blake3:'' @ cy_blake3_hex C (to_json (trigger_digest_material a))"

definition trigger_seal ::
  "Crypto \<Rightarrow> (CallTriggerAuthorityDigestMaterial \<Rightarrow> string) \<Rightarrow> CallTriggerAuthority \<Rightarrow>
   CallTriggerAuthority" where
  "trigger_seal C to_json a =
     a\<lparr>tz_canonical_record_digest := trigger_expected_record_digest C to_json a\<rparr>"

definition trigger_invalid :: "string \<Rightarrow> string \<Rightarrow> 'a MctKernelResult" where
  "trigger_invalid field reason = Inl (InvalidConstraint ''CallTriggerAuthority'' field reason)"

definition CallTriggerAuthority_validate ::
  "Crypto \<Rightarrow> (CallTriggerAuthorityDigestMaterial \<Rightarrow> string) \<Rightarrow> CallTriggerAuthority \<Rightarrow>
   unit MctKernelResult" where
  "CallTriggerAuthority_validate C to_json a =
     and_then (CallerIdentity_validate (tz_canonical_caller a)) (\<lambda>_.
     and_then (OperationTarget_validate (tz_target a)) (\<lambda>_.
     and_then (MctCallPayloadHandle_validate (tz_payload_constraint a)) (\<lambda>_.
     and_then (CallTriggerSource_validate (tz_trigger_source a)) (\<lambda>_.
     and_then (ensure_non_blank ''CallTriggerAuthority'' ''trigger_source_ref''
                 (tz_trigger_source_ref a)) (\<lambda>_.
     and_then (ensure_non_blank ''CallTriggerAuthority'' ''issuer_principal_ref''
                 (tz_issuer_principal_ref a)) (\<lambda>_.
     if tz_record_revision a = 0 then trigger_invalid ''record_revision'' ''must start at one''
     else if tz_policy_revision a = 0 then trigger_invalid ''policy_revision'' ''must start at one''
     else if tz_expires_at a \<le> tz_starts_at a
     then trigger_invalid ''expires_at'' ''must follow starts_at''
     else if ci_node_id (tz_canonical_caller a) \<noteq> tz_mother_node_id a
          \<or> ci_vision_id (tz_canonical_caller a) \<noteq> tz_vision_id a
     then trigger_invalid ''canonical_caller'' ''must match Mother and Vision scope''
     else if (case tz_trigger_source a of TemporalSource anchor_at _ \<Rightarrow> tz_expires_at a \<le> anchor_at
              | EventSource _ \<Rightarrow> False)
     then trigger_invalid ''anchor_at'' ''must admit an occurrence before expiry''
     else if \<not> (case tz_payload_constraint a of ContentAddressedBlob _ _ _ _ \<Rightarrow> True
                | EmptyPayload \<Rightarrow> True | _ \<Rightarrow> False)
     then trigger_invalid ''payload_constraint'' ''must be local content-addressed or empty''
     else if tz_canonical_record_digest a \<noteq> trigger_expected_record_digest C to_json a
     then trigger_invalid ''canonical_record_digest'' ''digest mismatch''
     else Inr ()))))))"

definition trigger_is_current_at ::
  "Crypto \<Rightarrow> (CallTriggerAuthorityDigestMaterial \<Rightarrow> string) \<Rightarrow> CallTriggerAuthority \<Rightarrow>
   Timestamp \<Rightarrow> bool" where
  "trigger_is_current_at C to_json a now \<longleftrightarrow>
     tz_authority_state a = CT_Active \<and> tz_starts_at a \<le> now \<and> now < tz_expires_at a \<and>
     is_ok (CallTriggerAuthority_validate C to_json a)"

section \<open>Occurrences\<close>

record CallTriggerRepresentedSet =
  rs_first_occurrence_id :: CallTriggerOccurrenceId
  rs_last_occurrence_id :: CallTriggerOccurrenceId
  rs_count :: u64
  rs_represented_set_ref :: string

record KnownCallTriggerOccurrence =
  ko_occurrence_id :: CallTriggerOccurrenceId
  ko_nominal_at :: Timestamp

record CallTriggerOccurrenceCandidate =
  oc_occurrence_id :: CallTriggerOccurrenceId
  oc_represented_set :: CallTriggerRepresentedSet

datatype CallTriggerTerminalDispositionKind = TK_Skipped | TK_Suppressed | TK_CapacityRefused

record CallTriggerTerminalDisposition =
  td_kind :: CallTriggerTerminalDispositionKind
  td_represented_set :: CallTriggerRepresentedSet

record CallTriggerMissedFireDecision =
  md_candidates :: "CallTriggerOccurrenceCandidate list"
  md_terminal :: "CallTriggerTerminalDisposition list"

datatype CallTriggerPendingReason = OverlapCoalesced | OverlapQueued

datatype CallTriggerOverlapDecision =
  OD_FireNow
| OD_Suppressed
| OD_Pending CallTriggerPendingReason
| OD_CoalescedInto CallTriggerPendingOccurrenceId
| OD_CapacityRefused

section \<open>Derived identities\<close>

definition hash_segments :: "Crypto \<Rightarrow> string \<Rightarrow> string list \<Rightarrow> string" where
  "hash_segments C domain segments = cy_blake3_hex C (frame u64_le_bytes (domain # segments))"

definition derive_temporal_occurrence_identity ::
  "Crypto \<Rightarrow> string \<Rightarrow> u64 \<Rightarrow> string \<Rightarrow> CallTriggerOccurrenceId" where
  "derive_temporal_occurrence_identity C trigger_authority_id record_revision nominal_at =
     ''occurrence:'' @ hash_segments C ''mct-trigger-occurrence-v1''
       [trigger_authority_id, dec_u64 record_revision, ''temporal'', nominal_at]"

definition derive_represented_set_ref ::
  "Crypto \<Rightarrow> string \<Rightarrow> u64 \<Rightarrow> CallTriggerOccurrenceId \<Rightarrow> CallTriggerOccurrenceId \<Rightarrow> u64 \<Rightarrow> string" where
  "derive_represented_set_ref C trigger_authority_id record_revision first' last' count =
     ''represented-set:'' @ hash_segments C ''mct-trigger-represented-set-v1''
       [trigger_authority_id, dec_u64 record_revision, first', last', dec_u64 count]"

definition trigger_represented_set_from_bounds ::
  "Crypto \<Rightarrow> CallTriggerAuthorityId \<Rightarrow> u64 \<Rightarrow> CallTriggerOccurrenceId \<Rightarrow> CallTriggerOccurrenceId \<Rightarrow>
   u64 \<Rightarrow> CallTriggerRepresentedSet MctKernelResult" where
  "trigger_represented_set_from_bounds C trigger_authority_id record_revision first' last' count =
     (if count = 0
      then Inl (InvalidConstraint ''CallTriggerRepresentedSet'' ''count'' ''must be positive'')
      else Inr \<lparr>rs_first_occurrence_id = first', rs_last_occurrence_id = last', rs_count = count,
                rs_represented_set_ref =
                  derive_represented_set_ref C trigger_authority_id record_revision first' last' count\<rparr>)"

definition derive_coalesced_occurrence_identity ::
  "Crypto \<Rightarrow> CallTriggerRepresentedSet \<Rightarrow> CallTriggerOccurrenceId" where
  "derive_coalesced_occurrence_identity C represented =
     ''occurrence-coalesced:'' @ hash_segments C ''mct-trigger-coalesced-occurrence-v1''
       [rs_represented_set_ref represented]"

definition derive_trigger_firing_identity :: "CallTriggerOccurrenceId \<Rightarrow> CallTriggerFiringId" where
  "derive_trigger_firing_identity occurrence_id = ''firing:'' @ occurrence_id"

definition derive_trigger_call_identity :: "CallTriggerOccurrenceId \<Rightarrow> CallId" where
  "derive_trigger_call_identity occurrence_id = ''call-trigger:'' @ occurrence_id"

definition derive_trigger_pending_identity ::
  "CallTriggerOccurrenceId \<Rightarrow> CallTriggerPendingOccurrenceId" where
  "derive_trigger_pending_identity occurrence_id = ''pending:'' @ occurrence_id"

definition derive_trigger_idempotency_key ::
  "Crypto \<Rightarrow> CallTriggerAuthorityId \<Rightarrow> u64 \<Rightarrow> CallTriggerOccurrenceId \<Rightarrow> string" where
  "derive_trigger_idempotency_key C trigger_authority_id record_revision occurrence_id =
     ''trigger-v1:'' @ hash_segments C ''mct-trigger-idempotency-v1''
       [trigger_authority_id, dec_u64 record_revision, occurrence_id]"

section \<open>Missed occurrences and overlap\<close>

definition represented_set ::
  "Crypto \<Rightarrow> CallTriggerAuthorityId \<Rightarrow> u64 \<Rightarrow> KnownCallTriggerOccurrence list \<Rightarrow>
   CallTriggerRepresentedSet option" where
  "represented_set C trigger_authority_id record_revision known =
     (if known = [] then None
      else let first' = ko_occurrence_id (hd known); last' = ko_occurrence_id (last known);
               count = (of_nat (length known) :: u64)
           in Some \<lparr>rs_first_occurrence_id = first', rs_last_occurrence_id = last', rs_count = count,
                    rs_represented_set_ref =
                      derive_represented_set_ref C trigger_authority_id record_revision
                        first' last' count\<rparr>)"

definition evaluate_missed_fire_policy ::
  "Crypto \<Rightarrow> CallTriggerAuthorityId \<Rightarrow> u64 \<Rightarrow> MissedFirePolicy \<Rightarrow> KnownCallTriggerOccurrence list \<Rightarrow>
   u64 \<Rightarrow> CallTriggerMissedFireDecision" where
  "evaluate_missed_fire_policy C trigger_authority_id record_revision policy known fire_late_limit =
     (if known = [] then \<lparr>md_candidates = [], md_terminal = []\<rparr>
      else case policy of
        MF_Skip \<Rightarrow>
          \<lparr>md_candidates = [],
           md_terminal =
             [\<lparr>td_kind = TK_Skipped,
               td_represented_set = the (represented_set C trigger_authority_id record_revision known)\<rparr>]\<rparr>
      | MF_CoalesceOne \<Rightarrow>
          (let represented = the (represented_set C trigger_authority_id record_revision known);
               occurrence_id = derive_coalesced_occurrence_identity C represented
           in \<lparr>md_candidates =
                 [\<lparr>oc_occurrence_id = occurrence_id, oc_represented_set = represented\<rparr>],
               md_terminal = []\<rparr>)
      | MF_FireLateBounded \<Rightarrow>
          (let admitted = min (length known) (unat fire_late_limit) in
           \<lparr>md_candidates =
              map (\<lambda>occurrence.
                \<lparr>oc_occurrence_id = ko_occurrence_id occurrence,
                 oc_represented_set =
                   the (represented_set C trigger_authority_id record_revision [occurrence])\<rparr>)
                (take admitted known),
            md_terminal =
              (case represented_set C trigger_authority_id record_revision (drop admitted known) of
                 None \<Rightarrow> []
               | Some represented \<Rightarrow>
                   [\<lparr>td_kind = TK_CapacityRefused, td_represented_set = represented\<rparr>])\<rparr>))"

definition evaluate_overlap_policy ::
  "OverlapPolicy \<Rightarrow> bool \<Rightarrow> u64 \<Rightarrow> u64 \<Rightarrow> CallTriggerPendingOccurrenceId option \<Rightarrow>
   CallTriggerOverlapDecision" where
  "evaluate_overlap_policy policy has_active_call pending_count pending_limit existing =
     (if \<not> has_active_call then OD_FireNow
      else case policy of
        OP_Refuse \<Rightarrow> OD_Suppressed
      | OP_CoalesceOne \<Rightarrow>
          (case existing of
             Some pending_occurrence_id \<Rightarrow> OD_CoalescedInto pending_occurrence_id
           | None \<Rightarrow>
               if pending_count < pending_limit then OD_Pending OverlapCoalesced
               else OD_CapacityRefused)
      | OP_QueueBounded \<Rightarrow>
          if pending_count < pending_limit then OD_Pending OverlapQueued else OD_CapacityRefused)"

section \<open>Sealing\<close>

lemma CallTriggerAuthority_validate_digest:
  assumes "CallTriggerAuthority_validate C to_json a = Inr u"
  shows "tz_canonical_record_digest a = trigger_expected_record_digest C to_json a"
  using assms unfolding CallTriggerAuthority_validate_def
  by (simp add: and_then_eq_Inr trigger_invalid_def split: if_split_asm)

interpretation trigger_record: sealed_record C to_json trigger_digest_material
  tz_canonical_record_digest "trigger_expected_record_digest C to_json" "trigger_seal C to_json"
  "\<lambda>a. is_ok (CallTriggerAuthority_validate C to_json a)" for C to_json
proof
  fix r
  show "trigger_digest_material (trigger_seal C to_json r) = trigger_digest_material r"
    by (simp add: trigger_seal_def trigger_digest_material_def)
  show "is_ok (CallTriggerAuthority_validate C to_json r) \<Longrightarrow>
      tz_canonical_record_digest r = trigger_expected_record_digest C to_json r"
    by (simp add: is_ok_unit CallTriggerAuthority_validate_digest)
qed (simp_all add: trigger_expected_record_digest_def trigger_seal_def)

section \<open>Identities\<close>

interpretation trigger_identity: field_digest "frame u64_le_bytes"
  by unfold_locales (rule u64_le.frame_inj)

lemma hash_segments_inj:
  assumes "blake3_separates C (frame u64_le_bytes (d # fs)) (frame u64_le_bytes (d' # gs))"
    and "addressable (d # fs)" and "addressable (d' # gs)"
    and "hash_segments C d fs = hash_segments C d' gs"
  shows "d = d' \<and> fs = gs"
  using trigger_identity.digest_inj [OF assms(1-3)] assms(4) by (simp add: hash_segments_def)

section \<open>Properties\<close>

lemma represented_set_None: "represented_set C tid revision known = None \<longleftrightarrow> known = []"
  by (simp add: represented_set_def Let_def)

lemma the_represented_set:
  "known \<noteq> [] \<Longrightarrow>
     Some (the (represented_set C tid revision known)) = represented_set C tid revision known"
  by (simp add: represented_set_def Let_def)

lemma concat_singletons: "concat (map (\<lambda>x. [x]) xs) = xs"
  by (induction xs) auto

text \<open>
  The pieces a decision cuts the known occurrences into, in order.
\<close>

fun missed_fire_pieces :: "MissedFirePolicy \<Rightarrow> 'a list \<Rightarrow> nat \<Rightarrow> 'a list list" where
  "missed_fire_pieces MF_FireLateBounded known limit =
     map (\<lambda>x. [x]) (take limit known) @ (if drop limit known = [] then [] else [drop limit known])"
| "missed_fire_pieces _ known limit = (if known = [] then [] else [known])"

lemma missed_fire_pieces_concat:
  "concat (missed_fire_pieces policy known limit) = known"
  "[] \<notin> set (missed_fire_pieces policy known limit)"
  by (cases policy; auto simp: concat_singletons)+

lemma evaluate_missed_fire_policy_pieces:
  fixes C tid revision policy known limit
  defines "d \<equiv> evaluate_missed_fire_policy C tid revision policy known limit"
  shows "map Some (map oc_represented_set (md_candidates d) @ map td_represented_set (md_terminal d)) =
     map (represented_set C tid revision) (missed_fire_pieces policy known (unat limit))"
proof (cases "known = []")
  case False
  have "take (min (length known) n) known = take n known"
    "drop (min (length known) n) known = drop n known" for n
    by (simp_all add: min_def)
  with False show ?thesis
    by (cases policy)
      (auto simp: d_def evaluate_missed_fire_policy_def Let_def the_represented_set comp_def
        represented_set_None represented_set_def [of _ _ _ "[]"] split: option.split)
qed (cases policy; simp add: d_def evaluate_missed_fire_policy_def)

text \<open>
  C38: Missed occurrences are neither lost nor counted twice: whatever the policy, the sets
  that the candidates and the terminal dispositions represent are, in this order, the
  represented sets of consecutive non-empty pieces that together make up the known
  occurrences; skipping creates no candidate, coalescing one, and firing late at most the
  limit, each for one occurrence under its own identity, the earliest first.
\<close>

theorem missed_fire_partition:
  "\<exists>pieces. concat pieces = known \<and> [] \<notin> set pieces \<and>
     map Some
       (map oc_represented_set
          (md_candidates (evaluate_missed_fire_policy C tid revision policy known limit)) @
        map td_represented_set
          (md_terminal (evaluate_missed_fire_policy C tid revision policy known limit))) =
     map (represented_set C tid revision) pieces \<and>
     (case policy of
        MF_Skip \<Rightarrow> md_candidates (evaluate_missed_fire_policy C tid revision policy known limit) = []
      | MF_CoalesceOne \<Rightarrow>
          length (md_candidates (evaluate_missed_fire_policy C tid revision policy known limit)) =
            (if known = [] then 0 else 1)
      | MF_FireLateBounded \<Rightarrow>
          map oc_occurrence_id
            (md_candidates (evaluate_missed_fire_policy C tid revision policy known limit)) =
          map ko_occurrence_id (take (unat limit) known))"
proof (rule exI [where x = "missed_fire_pieces policy known (unat limit)"], intro conjI)
  show "case policy of
        MF_Skip \<Rightarrow> md_candidates (evaluate_missed_fire_policy C tid revision policy known limit) = []
      | MF_CoalesceOne \<Rightarrow>
          length (md_candidates (evaluate_missed_fire_policy C tid revision policy known limit)) =
            (if known = [] then 0 else 1)
      | MF_FireLateBounded \<Rightarrow>
          map oc_occurrence_id
            (md_candidates (evaluate_missed_fire_policy C tid revision policy known limit)) =
          map ko_occurrence_id (take (unat limit) known)"
    by (cases policy) (auto simp: evaluate_missed_fire_policy_def Let_def comp_def min_def)
qed (rule missed_fire_pieces_concat evaluate_missed_fire_policy_pieces)+

lemma temporal_identity_inj:
  assumes "addressable [tid, nominal]" and "addressable [tid', nominal']"
    and "blake3_separates C
           (frame u64_le_bytes [''mct-trigger-occurrence-v1'', tid, dec_u64 revision, ''temporal'', nominal])
           (frame u64_le_bytes [''mct-trigger-occurrence-v1'', tid', dec_u64 revision', ''temporal'', nominal'])"
    and "derive_temporal_occurrence_identity C tid revision nominal =
         derive_temporal_occurrence_identity C tid' revision' nominal'"
  shows "tid = tid' \<and> revision = revision' \<and> nominal = nominal'"
  using hash_segments_inj [OF assms(3)] assms(1,2,4) dec_u64_short [of revision] dec_u64_short [of revision']
  by (simp add: derive_temporal_occurrence_identity_def addressable_def dec_u64_inj)

text \<open>
  C39: The call a temporal trigger makes is identified by the record, its revision and the
  nominal time: two occurrences give the same call id, or the same firing, exactly if they
  are the same occurrence of the same revision, so a retried occurrence repeats its identity
  and no other occurrence can take it. (The digest is assumed not to collide on the two.)
\<close>

theorem trigger_call_identity:
  assumes "addressable [tid, nominal]" and "addressable [tid', nominal']"
    and "blake3_separates C
           (frame u64_le_bytes [''mct-trigger-occurrence-v1'', tid, dec_u64 revision, ''temporal'', nominal])
           (frame u64_le_bytes [''mct-trigger-occurrence-v1'', tid', dec_u64 revision', ''temporal'', nominal'])"
  shows "(derive_trigger_call_identity (derive_temporal_occurrence_identity C tid revision nominal) =
          derive_trigger_call_identity (derive_temporal_occurrence_identity C tid' revision' nominal')
          \<longleftrightarrow> tid = tid' \<and> revision = revision' \<and> nominal = nominal') \<and>
         (derive_trigger_firing_identity (derive_temporal_occurrence_identity C tid revision nominal) =
          derive_trigger_firing_identity (derive_temporal_occurrence_identity C tid' revision' nominal')
          \<longleftrightarrow> tid = tid' \<and> revision = revision' \<and> nominal = nominal')"
  using temporal_identity_inj [OF assms]
  by (auto simp: derive_trigger_call_identity_def derive_trigger_firing_identity_def)

theorem trigger_call_identity_witness:
  "derive_trigger_call_identity (derive_temporal_occurrence_identity plain_crypto ''a'' 1 ''2026'') \<noteq>
   derive_trigger_call_identity (derive_temporal_occurrence_identity plain_crypto ''a'' 2 ''2026'')"
  using trigger_call_identity [of "''a''" "''2026''" "''a''" "''2026''" plain_crypto 1 2]
    plain_crypto_separates by (simp add: addressable_def)

end
