(* ===== verification/MCT_Artifact.thy ===== *)
theory MCT_Artifact
  imports MCT_Base
begin

text \<open>
  Artifact acquisition (\<open>artifact.rs\<close>): standing sources, operator-pointed decisions, the
  evidence of an attempt, and the evaluation that admits one filesystem acquisition.
\<close>

section \<open>Records\<close>

datatype ArtifactSourceScopeMode = SM_Constrained | SM_ExplicitBroad

record ArtifactSourceScope =
  ss_scope_mode :: ArtifactSourceScopeMode
  ss_artifact_scope :: "string list"
  ss_publisher_scope :: "string list"
  ss_namespace_scope :: "string list"
  ss_allowed_actions :: "string list"

datatype ArtifactSourceAuthorityState =
  SA_Pending | SA_Active | SA_Revoked | SA_Expired | SA_Superseded

record ArtifactSourceAuthority =
  sa_source_authority_id :: ArtifactSourceAuthorityId
  sa_source_ref :: string
  sa_scope :: ArtifactSourceScope
  sa_integrity_policy_ref :: string
  sa_provenance_policy_ref :: "string option"
  sa_issuer_principal_ref :: string
  sa_policy_revision :: u64
  sa_authority_state :: ArtifactSourceAuthorityState
  sa_issued_at :: Timestamp
  sa_expires_at :: Timestamp
  sa_authority_observation_id :: ObservationId

datatype OperatorPointedAcquisitionState = OA_Active | OA_Consumed | OA_Revoked | OA_Expired

record OperatorPointedArtifactAcquisitionDecision =
  oa_decision_id :: ArtifactAcquisitionDecisionId
  oa_source_ref :: string
  oa_claimed_child_name :: string
  oa_claimed_artifact_version :: string
  oa_expected_digest :: "string option"
  oa_expected_manifest_digest :: "string option"
  oa_issuer_principal_ref :: string
  oa_policy_revision :: u64
  oa_decision_state :: OperatorPointedAcquisitionState
  oa_authority_observation_id :: ObservationId

datatype ArtifactAcquisitionAuthorityPath = StandingSource | OperatorPointed

datatype ArtifactAcquisitionOutcome = AO_Acquired | AO_Failed

datatype ArtifactVerificationOutcome = AV_Verified | AV_Rejected | AV_NotReached

record ArtifactAcquisition =
  aq_acquisition_id :: ArtifactAcquisitionId
  aq_authority_path :: ArtifactAcquisitionAuthorityPath
  aq_standing_source_authority_id :: "ArtifactSourceAuthorityId option"
  aq_operator_pointed_decision_id :: "ArtifactAcquisitionDecisionId option"
  aq_adapter_effect_authority_ref :: string
  aq_source_ref :: string
  aq_claimed_child_name :: string
  aq_claimed_artifact_version :: string
  aq_observed_size_bytes :: "u64 option"
  aq_observed_digest :: "string option"
  aq_acquisition_outcome :: ArtifactAcquisitionOutcome
  aq_verification_outcome :: ArtifactVerificationOutcome
  aq_verification_observation_id :: "ObservationId option"
  aq_acquisition_observation_id :: ObservationId
  aq_component_artifact_id :: "ComponentArtifactId option"

record FilesystemAcquisitionEffectAuthority =
  fe_authority_ref :: ObservationId
  fe_adapter_ref :: string
  fe_authenticated_uid :: u32
  fe_source_ref :: string
  fe_allowed_action :: string
  fe_policy_revision :: u64
  fe_attempt_id :: ArtifactAcquisitionId
  fe_expires_at :: Timestamp

record ArtifactAcquisitionAuthorityRequest =
  aa_source_ref :: string
  aa_artifact :: string
  aa_publisher :: "string option"
  aa_expected_digest :: "string option"
  aa_expected_manifest_digest :: "string option"
  aa_authenticated_uid :: u32
  aa_namespaces :: "string list"
  aa_action :: string
  aa_policy_revision :: u64
  aa_now :: Timestamp
  aa_attempt_id :: ArtifactAcquisitionId
  aa_authorized_id :: AuthorizedArtifactAcquisitionId

datatype ArtifactAcquisitionAuthorityReason =
  IncompleteDigestBinding
| AcquisitionAllowed
| MissingSourceAuthority
| AmbiguousSourceAuthority
| StandingSourceNotCurrentOrInScope
| OperatorDecisionNotCurrentOrMatching
| AdapterEffectAuthorityNotCurrentOrMatching

record AuthorizedFilesystemArtifactAcquisition =
  af_authorized_id :: AuthorizedArtifactAcquisitionId
  af_acquisition_id :: ArtifactAcquisitionId
  af_source_ref :: string
  af_authority_ref :: ObservationId
  af_policy_revision :: u64

record ArtifactAcquisitionAuthorityResult =
  ax_reason :: ArtifactAcquisitionAuthorityReason
  ax_authorized :: "AuthorizedFilesystemArtifactAcquisition option"

section \<open>Evaluation\<close>

definition permit :: "ArtifactSourceScope \<Rightarrow> string list \<Rightarrow> string \<Rightarrow> bool" where
  "permit scope vals val \<longleftrightarrow>
     list_ex (\<lambda>candidate. candidate = val) vals \<or>
     (ss_scope_mode scope = SM_ExplicitBroad \<and> list_ex (\<lambda>candidate. candidate = ''*'') vals)"

definition artifact_scope_matches ::
  "ArtifactSourceScope \<Rightarrow> ArtifactAcquisitionAuthorityRequest \<Rightarrow> string \<Rightarrow> bool" where
  "artifact_scope_matches scope request publisher \<longleftrightarrow>
     (if ss_artifact_scope scope = [] \<or> ss_publisher_scope scope = []
         \<or> ss_namespace_scope scope = [] \<or> ss_allowed_actions scope = []
      then False
      else permit scope (ss_artifact_scope scope) (aa_artifact request) \<and>
           permit scope (ss_publisher_scope scope) publisher \<and>
           aa_namespaces request \<noteq> [] \<and>
           list_all (\<lambda>namespace. permit scope (ss_namespace_scope scope) namespace)
             (aa_namespaces request) \<and>
           list_ex (\<lambda>action. action = aa_action request) (ss_allowed_actions scope))"

definition standing_source_allows ::
  "ArtifactSourceAuthority \<Rightarrow> ArtifactAcquisitionAuthorityRequest \<Rightarrow> string \<Rightarrow> bool" where
  "standing_source_allows source request publisher \<longleftrightarrow>
     sa_authority_state source = SA_Active \<and> sa_source_ref source = aa_source_ref request \<and>
     sa_policy_revision source = aa_policy_revision request \<and>
     sa_issued_at source \<le> aa_now request \<and> aa_now request < sa_expires_at source \<and>
     sa_integrity_policy_ref source = ''sha256-sidecars-v1'' \<and>
     artifact_scope_matches (sa_scope source) request publisher"

definition acquisition_denied ::
  "ArtifactAcquisitionAuthorityReason \<Rightarrow> ArtifactAcquisitionAuthorityResult" where
  "acquisition_denied reason = \<lparr>ax_reason = reason, ax_authorized = None\<rparr>"

definition evaluate_artifact_acquisition_authority ::
  "ArtifactAcquisitionAuthorityRequest \<Rightarrow> ArtifactSourceAuthority option \<Rightarrow>
   OperatorPointedArtifactAcquisitionDecision option \<Rightarrow>
   FilesystemAcquisitionEffectAuthority option \<Rightarrow> ArtifactAcquisitionAuthorityResult" where
  "evaluate_artifact_acquisition_authority request standing operator effect =
     (if (aa_expected_digest request \<noteq> None) \<noteq> (aa_expected_manifest_digest request \<noteq> None)
      then acquisition_denied IncompleteDigestBinding
      else
      let source_paths = (if standing \<noteq> None then 1 else 0) + (if operator \<noteq> None then 1 else (0 :: nat)) in
      if source_paths = 0 then acquisition_denied MissingSourceAuthority
      else if source_paths \<noteq> 1 then acquisition_denied AmbiguousSourceAuthority
      else
      let source_allowed =
            (case standing of
               Some source \<Rightarrow>
                 (case aa_publisher request of
                    None \<Rightarrow> False
                  | Some publisher \<Rightarrow> standing_source_allows source request publisher)
             | None \<Rightarrow>
                 (case operator of
                    Some decision \<Rightarrow>
                      oa_decision_state decision = OA_Active \<and>
                      oa_source_ref decision = aa_source_ref request \<and>
                      oa_claimed_child_name decision @ ''@'' @ oa_claimed_artifact_version decision =
                        aa_artifact request \<and>
                      oa_expected_digest decision = aa_expected_digest request \<and>
                      oa_expected_manifest_digest decision = aa_expected_manifest_digest request \<and>
                      oa_policy_revision decision = aa_policy_revision request
                  | None \<Rightarrow> False)) in
      if \<not> source_allowed
      then acquisition_denied
             (if standing \<noteq> None then StandingSourceNotCurrentOrInScope
              else OperatorDecisionNotCurrentOrMatching)
      else (case effect of
        None \<Rightarrow> acquisition_denied AdapterEffectAuthorityNotCurrentOrMatching
      | Some effect \<Rightarrow>
          if \<not> (fe_adapter_ref effect = ''mct:artifact-acquisition/filesystem@1'' \<and>
                 fe_authenticated_uid effect = aa_authenticated_uid request \<and>
                 fe_source_ref effect = aa_source_ref request \<and>
                 fe_allowed_action effect = ''read_and_stage'' \<and>
                 fe_policy_revision effect = aa_policy_revision request \<and>
                 fe_attempt_id effect = aa_attempt_id request \<and>
                 aa_now request < fe_expires_at effect)
          then acquisition_denied AdapterEffectAuthorityNotCurrentOrMatching
          else \<lparr>ax_reason = AcquisitionAllowed,
                ax_authorized =
                  Some \<lparr>af_authorized_id = aa_authorized_id request,
                        af_acquisition_id = fe_attempt_id effect,
                        af_source_ref = aa_source_ref request,
                        af_authority_ref = fe_authority_ref effect,
                        af_policy_revision = aa_policy_revision request\<rparr>\<rparr>))"

section \<open>Properties\<close>

text \<open>
  The specification. A scope list stands for a set of names: the names it lists, or every name
  when the scope is explicitly broad and the list has the wildcard. A wildcard in a constrained
  scope is an ordinary name.
\<close>

definition scope_set :: "ArtifactSourceScope \<Rightarrow> string list \<Rightarrow> string set" where
  "scope_set scope vals =
     (if ss_scope_mode scope = SM_ExplicitBroad \<and> ''*'' \<in> set vals then UNIV else set vals)"

definition source_trusted ::
  "ArtifactAcquisitionAuthorityRequest \<Rightarrow> ArtifactSourceAuthority option \<Rightarrow>
   OperatorPointedArtifactAcquisitionDecision option \<Rightarrow> bool" where
  "source_trusted request standing operator \<longleftrightarrow>
     (\<exists>source publisher.
        standing = Some source \<and> operator = None \<and> aa_publisher request = Some publisher \<and>
        sa_authority_state source = SA_Active \<and> sa_source_ref source = aa_source_ref request \<and>
        sa_policy_revision source = aa_policy_revision request \<and>
        sa_issued_at source \<le> aa_now request \<and> aa_now request < sa_expires_at source \<and>
        sa_integrity_policy_ref source = ''sha256-sidecars-v1'' \<and>
        aa_artifact request \<in> scope_set (sa_scope source) (ss_artifact_scope (sa_scope source)) \<and>
        publisher \<in> scope_set (sa_scope source) (ss_publisher_scope (sa_scope source)) \<and>
        aa_namespaces request \<noteq> [] \<and>
        set (aa_namespaces request) \<subseteq>
          scope_set (sa_scope source) (ss_namespace_scope (sa_scope source)) \<and>
        aa_action request \<in> set (ss_allowed_actions (sa_scope source))) \<or>
     (\<exists>decision.
        standing = None \<and> operator = Some decision \<and> oa_decision_state decision = OA_Active \<and>
        oa_source_ref decision = aa_source_ref request \<and>
        aa_artifact request =
          oa_claimed_child_name decision @ ''@'' @ oa_claimed_artifact_version decision \<and>
        oa_expected_digest decision = aa_expected_digest request \<and>
        oa_expected_manifest_digest decision = aa_expected_manifest_digest request \<and>
        oa_policy_revision decision = aa_policy_revision request)"

definition effect_current ::
  "ArtifactAcquisitionAuthorityRequest \<Rightarrow> FilesystemAcquisitionEffectAuthority \<Rightarrow> bool" where
  "effect_current request e \<longleftrightarrow>
     fe_adapter_ref e = ''mct:artifact-acquisition/filesystem@1'' \<and>
     fe_authenticated_uid e = aa_authenticated_uid request \<and>
     fe_source_ref e = aa_source_ref request \<and> fe_allowed_action e = ''read_and_stage'' \<and>
     fe_policy_revision e = aa_policy_revision request \<and>
     fe_attempt_id e = aa_attempt_id request \<and> aa_now request < fe_expires_at e"

text \<open>One standing source gives at most what another gives.\<close>

definition source_narrows :: "ArtifactSourceAuthority \<Rightarrow> ArtifactSourceAuthority \<Rightarrow> bool" where
  "source_narrows narrow wide \<longleftrightarrow>
     sa_authority_state wide = SA_Active \<and> sa_source_ref narrow = sa_source_ref wide \<and>
     sa_policy_revision narrow = sa_policy_revision wide \<and>
     sa_integrity_policy_ref narrow = sa_integrity_policy_ref wide \<and>
     sa_issued_at wide \<le> sa_issued_at narrow \<and> sa_expires_at narrow \<le> sa_expires_at wide \<and>
     scope_set (sa_scope narrow) (ss_artifact_scope (sa_scope narrow)) \<subseteq>
       scope_set (sa_scope wide) (ss_artifact_scope (sa_scope wide)) \<and>
     scope_set (sa_scope narrow) (ss_publisher_scope (sa_scope narrow)) \<subseteq>
       scope_set (sa_scope wide) (ss_publisher_scope (sa_scope wide)) \<and>
     scope_set (sa_scope narrow) (ss_namespace_scope (sa_scope narrow)) \<subseteq>
       scope_set (sa_scope wide) (ss_namespace_scope (sa_scope wide)) \<and>
     set (ss_allowed_actions (sa_scope narrow)) \<subseteq> set (ss_allowed_actions (sa_scope wide))"

lemma permit_iff: "permit scope vals val \<longleftrightarrow> val \<in> scope_set scope vals"
  by (auto simp: permit_def scope_set_def list_ex_iff)

lemma scope_set_Nil [simp]: "scope_set scope [] = {}"
  by (simp add: scope_set_def)

lemma artifact_scope_matches_iff:
  "artifact_scope_matches scope request publisher \<longleftrightarrow>
     aa_artifact request \<in> scope_set scope (ss_artifact_scope scope) \<and>
     publisher \<in> scope_set scope (ss_publisher_scope scope) \<and>
     aa_namespaces request \<noteq> [] \<and>
     set (aa_namespaces request) \<subseteq> scope_set scope (ss_namespace_scope scope) \<and>
     aa_action request \<in> set (ss_allowed_actions scope)"
  by (auto simp: artifact_scope_matches_def permit_iff list_all_iff list_ex_iff neq_Nil_conv)

lemma source_narrows_trusted:
  assumes "source_trusted request (Some narrow) None" and "source_narrows narrow wide"
  shows "source_trusted request (Some wide) None"
proof -
  have "sa_issued_at wide \<le> aa_now request" "aa_now request < sa_expires_at wide"
    using assms unfolding source_trusted_def source_narrows_def
    by (auto elim: order_trans less_le_trans)
  with assms show ?thesis
    unfolding source_trusted_def source_narrows_def by (simp; blast)
qed

lemma artifact_acquisition_iff:
  "ax_authorized (evaluate_artifact_acquisition_authority request standing operator effect) = Some a
    \<longleftrightarrow>
    (aa_expected_digest request = None \<longleftrightarrow> aa_expected_manifest_digest request = None) \<and>
    source_trusted request standing operator \<and>
    (\<exists>e. effect = Some e \<and> effect_current request e \<and>
       a = \<lparr>af_authorized_id = aa_authorized_id request, af_acquisition_id = aa_attempt_id request,
            af_source_ref = aa_source_ref request, af_authority_ref = fe_authority_ref e,
            af_policy_revision = aa_policy_revision request\<rparr>)"
  by (cases standing; cases operator; cases effect)
    (auto simp: evaluate_artifact_acquisition_authority_def source_trusted_def effect_current_def
      acquisition_denied_def standing_source_allows_def artifact_scope_matches_iff Let_def
      split: option.splits)

text \<open>A source and one that lists a second Child, with an attempt at the first.\<close>

definition sample_source :: "nat \<Rightarrow> string list \<Rightarrow> ArtifactSourceAuthority" where
  "sample_source expiry artifacts =
     \<lparr>sa_source_authority_id = ''src'', sa_source_ref = ''file:///srv/kids'',
      sa_scope =
        \<lparr>ss_scope_mode = SM_Constrained, ss_artifact_scope = artifacts, ss_publisher_scope = [''pub''],
         ss_namespace_scope = [''demo''], ss_allowed_actions = [''acquire'']\<rparr>,
      sa_integrity_policy_ref = ''sha256-sidecars-v1'', sa_provenance_policy_ref = None,
      sa_issuer_principal_ref = ''root'', sa_policy_revision = 7, sa_authority_state = SA_Active,
      sa_issued_at = Timestamp ''a'' 1, sa_expires_at = Timestamp ''z'' (int expiry),
      sa_authority_observation_id = ''o1''\<rparr>"

definition sample_acquisition :: ArtifactAcquisitionAuthorityRequest where
  "sample_acquisition =
     \<lparr>aa_source_ref = ''file:///srv/kids'', aa_artifact = ''kid@1'', aa_publisher = Some ''pub'',
      aa_expected_digest = None, aa_expected_manifest_digest = None, aa_authenticated_uid = 1000,
      aa_namespaces = [''demo''], aa_action = ''acquire'', aa_policy_revision = 7,
      aa_now = Timestamp ''n'' 10, aa_attempt_id = ''try'', aa_authorized_id = ''ok''\<rparr>"

definition sample_effect :: FilesystemAcquisitionEffectAuthority where
  "sample_effect =
     \<lparr>fe_authority_ref = ''o2'', fe_adapter_ref = ''mct:artifact-acquisition/filesystem@1'',
      fe_authenticated_uid = 1000, fe_source_ref = ''file:///srv/kids'',
      fe_allowed_action = ''read_and_stage'', fe_policy_revision = 7, fe_attempt_id = ''try'',
      fe_expires_at = Timestamp ''z'' 20\<rparr>"

definition sample_capability :: AuthorizedFilesystemArtifactAcquisition where
  "sample_capability =
     \<lparr>af_authorized_id = ''ok'', af_acquisition_id = ''try'', af_source_ref = ''file:///srv/kids'',
      af_authority_ref = ''o2'', af_policy_revision = 7\<rparr>"

lemma sample_acquisition_allowed:
  "ax_authorized (evaluate_artifact_acquisition_authority sample_acquisition
     (Some (sample_source 50 [''kid@1''])) None (Some sample_effect)) = Some sample_capability"
  unfolding artifact_acquisition_iff
  by (simp add: source_trusted_def effect_current_def scope_set_def sample_source_def
      sample_acquisition_def sample_effect_def sample_capability_def less_Timestamp_def
      less_eq_Timestamp_def)

text \<open>
  C40: An acquisition is authorized exactly when three things hold. The component and the manifest
  are pinned together or not at all. One source path and only one is supplied and trusts the
  request: an active standing source of this policy revision, inside its window and under the
  sidecar integrity policy, whose scope sets have the artifact, the publisher, every one of at
  least one namespace and the action; or an active operator decision for exactly this source,
  artifact, revision and pair of digests. A current effect authority names this attempt, operator,
  source and revision. The capability repeats what was checked. So narrowing a standing source
  never gives more: whatever is authorized under a source whose sets and window are smaller is
  authorized, with the same capability, under the wider one.
\<close>

theorem artifact_acquisition_attenuates:
  "(ax_authorized (evaluate_artifact_acquisition_authority request standing operator effect) = Some a
    \<longleftrightarrow>
    (aa_expected_digest request = None \<longleftrightarrow> aa_expected_manifest_digest request = None) \<and>
    source_trusted request standing operator \<and>
    (\<exists>e. effect = Some e \<and> effect_current request e \<and>
       a = \<lparr>af_authorized_id = aa_authorized_id request, af_acquisition_id = aa_attempt_id request,
            af_source_ref = aa_source_ref request, af_authority_ref = fe_authority_ref e,
            af_policy_revision = aa_policy_revision request\<rparr>)) \<and>
   (ax_authorized (evaluate_artifact_acquisition_authority request (Some narrow) None effect) = Some a \<and>
    source_narrows narrow wide \<longrightarrow>
    ax_authorized (evaluate_artifact_acquisition_authority request (Some wide) None effect) = Some a)"
  using source_narrows_trusted by (auto simp: artifact_acquisition_iff)

theorem artifact_acquisition_attenuates_witness:
  "ax_authorized (evaluate_artifact_acquisition_authority sample_acquisition
     (Some (sample_source 90 [''kid@1'', ''kid@2''])) None (Some sample_effect)) = Some sample_capability"
proof -
  have "source_narrows (sample_source 50 [''kid@1'']) (sample_source 90 [''kid@1'', ''kid@2''])"
    by (simp add: source_narrows_def sample_source_def scope_set_def less_eq_Timestamp_def)
  with sample_acquisition_allowed show ?thesis
    using artifact_acquisition_attenuates [THEN conjunct2, rule_format] by blast
qed

end
