(* ===== verification/MCT_Observation.thy ===== *)
theory MCT_Observation
  imports MCT_Route
begin

text \<open>
  Observation facts (\<open>observation.rs\<close>): the record every decision is written down as, and the
  projections that make it from a hello, a binding, a candidate, a route decision, a call
  protocol evaluation, the Child records, a Child or Toy evaluation, or an adapter failure.

  The details are formatted with \<open>{:?}\<close>; the derived \<open>Debug\<close> of an enumeration prints the
  name of the variant, written out in the \<open>debug\<close> functions.
\<close>

section \<open>Records\<close>

record ObservationTraceRef =
  tf_trace_id :: TraceId
  tf_span_id :: "SpanId option"
  tf_parent_span_id :: "SpanId option"
  tf_external_trace_id :: "string option"

datatype (plugins only: code size) ObservationKind =
    OK_CallReceived | OK_CallRejected | OK_CallConstructed | OK_CallAuthorized | OK_CallDenied
  | OK_CandidateConsidered | OK_CandidateEliminated | OK_RouteSelected | OK_NoRouteRecorded
  | OK_RouteRevalidated | OK_ResultRecorded | OK_ArtifactVerified | OK_ArtifactRejected
  | OK_ChildApproved | OK_ChildRevoked | OK_ChildAssigned | OK_ChildAssignmentRevoked
  | OK_ChildInstanceLoading | OK_ChildInstanceReady | OK_ChildInstanceDegraded
  | OK_ChildInstanceDraining | OK_ChildInstanceStopped | OK_ChildInstanceFailed
  | OK_ChildInvoked | OK_ToyGrantAllowed | OK_ToyGrantDenied | OK_ToyGrantExpired
  | OK_ToyGrantRevoked | OK_ToyCallStarted | OK_ToyCallCompleted | OK_ToyCallFailed
  | OK_DataMovementAllowed | OK_DataMovementDenied | OK_SecretAccessAllowed
  | OK_SecretAccessDenied | OK_PeerConnected | OK_PeerHelloReceived | OK_PeerProtocolNegotiated
  | OK_PeerHelloResponded | OK_PeerBindingRecorded | OK_PeerBindingRevoked
  | OK_PeerBindingExpired | OK_PeerAdmitted | OK_PeerRejected | OK_PeerCallSent
  | OK_PeerCallReceived | OK_PeerCallMalformed | OK_PeerCallReplied | OK_PeerStreamOpened
  | OK_PeerStreamReset | OK_IrohPathObserved | OK_RuntimeExecutionStarted
  | OK_RuntimeExecutionCompleted | OK_RuntimeExecutionFailed | OK_RuntimeExecutionTrapped
  | OK_RuntimeExecutionTimedOut | OK_AdapterEffectStarted | OK_AdapterEffectCompleted
  | OK_AdapterEffectFailed | OK_StorageAppendSucceeded | OK_StorageAppendFailed
  | OK_ObservationBackpressureApplied | OK_LifecycleTransitionRecorded | OK_NodeHealthReported
  | OK_OperatorActionRecorded | OK_TelemetryExported

datatype SourcePlane =
    SP_Kernel | SP_Adapter | SP_Peer | SP_Child | SP_Toy | SP_Storage | SP_Operator

datatype ObservationOutcome =
    OO_Allowed | OO_Denied | OO_Started | OO_Completed | OO_Failed | OO_TimedOut | OO_Cancelled
  | OO_Informational

datatype ObservationVisibility =
    OV_CallerSafe | OV_VisionOperator | OV_NodeOperator | OV_SystemOperator | OV_InternalOnly

record MctObservation =
  mo_observation_id :: ObservationId
  mo_observed_at :: Timestamp
  mo_kind :: ObservationKind
  mo_source_plane :: SourcePlane
  mo_trace :: ObservationTraceRef
  mo_call_id :: "CallId option"
  mo_decision_id :: "DecisionId option"
  mo_subject_id :: "string option"
  mo_resource_id :: "string option"
  mo_policy_revision :: "u64 option"
  mo_grants_revision :: "u64 option"
  mo_outcome :: ObservationOutcome
  mo_visibility :: ObservationVisibility
  mo_safe_message :: string
  mo_detail_ref :: "string option"

datatype AdapterDiagnosticKind =
    AD_IrohStreamReset | AD_WasmTrap | AD_WasmMissingExport | AD_WasmMissingHostImport
  | AD_WasmValueConversionFailure | AD_ProcessExitFailure | AD_JvmTimeout
  | AD_StorageAppendFailure

record AdapterDiagnosticObservationInput =
  ad_observation_id :: ObservationId
  ad_observed_at :: Timestamp
  ad_diagnostic_kind :: AdapterDiagnosticKind
  ad_trace :: ObservationTraceRef
  ad_call_id :: "CallId option"
  ad_decision_id :: "DecisionId option"
  ad_subject_id :: "string option"
  ad_resource_id :: "string option"
  ad_policy_revision :: "u64 option"
  ad_grants_revision :: "u64 option"
  ad_detail_ref :: "string option"

text \<open>A trace reference with nothing but the trace identifier, which most projections use.\<close>

definition trace_only :: "TraceId \<Rightarrow> ObservationTraceRef" where
  "trace_only trace_id =
     \<lparr>tf_trace_id = trace_id, tf_span_id = None, tf_parent_span_id = None,
      tf_external_trace_id = None\<rparr>"

definition trace_in_span :: "TraceId \<Rightarrow> SpanId \<Rightarrow> ObservationTraceRef" where
  "trace_in_span trace_id span_id = (trace_only trace_id)\<lparr>tf_span_id := Some span_id\<rparr>"

section \<open>Printing of enumerations\<close>

fun debug_hello_reason :: "HelloReason \<Rightarrow> string" where
  "debug_hello_reason HR_ActiveBinding = ''ActiveBinding''"
| "debug_hello_reason HR_EndpointMismatch = ''EndpointMismatch''"
| "debug_hello_reason HR_MissingBinding = ''MissingBinding''"
| "debug_hello_reason HR_BindingPending = ''BindingPending''"
| "debug_hello_reason HR_BindingRevoked = ''BindingRevoked''"
| "debug_hello_reason HR_BindingExpired = ''BindingExpired''"
| "debug_hello_reason HR_VisionNotAllowed = ''VisionNotAllowed''"
| "debug_hello_reason HR_AlpnNotAllowed = ''AlpnNotAllowed''"
| "debug_hello_reason HR_VersionUnsupported = ''VersionUnsupported''"
| "debug_hello_reason HR_PolicyRevisionStale = ''PolicyRevisionStale''"
| "debug_hello_reason HR_CapabilityInvalid = ''CapabilityInvalid''"
| "debug_hello_reason HR_RelayAccessDenied = ''RelayAccessDenied''"
| "debug_hello_reason HR_TemporaryUnavailable = ''TemporaryUnavailable''"

fun debug_binding_state :: "BindingState \<Rightarrow> string" where
  "debug_binding_state BS_Pending = ''Pending''"
| "debug_binding_state BS_Admitted = ''Admitted''"
| "debug_binding_state BS_Denied = ''Denied''"
| "debug_binding_state BS_Expired = ''Expired''"
| "debug_binding_state BS_Revoked = ''Revoked''"

fun debug_runtime_kind :: "RuntimeKind \<Rightarrow> string" where
  "debug_runtime_kind RK_Process = ''Process''"
| "debug_runtime_kind RK_JvmChild = ''JvmChild''"
| "debug_runtime_kind RK_WasmComponent = ''WasmComponent''"
| "debug_runtime_kind RK_RemotePeer = ''RemotePeer''"
| "debug_runtime_kind RK_Internal = ''Internal''"

fun debug_network_path :: "NetworkPathClass \<Rightarrow> string" where
  "debug_network_path NP_Direct = ''Direct''"
| "debug_network_path NP_Relayed = ''Relayed''"
| "debug_network_path NP_Local = ''Local''"
| "debug_network_path NP_Unknown = ''Unknown''"

fun debug_elimination_reason :: "CandidateEliminationReason \<Rightarrow> string" where
  "debug_elimination_reason ER_DataPolicyDenied = ''DataPolicyDenied''"
| "debug_elimination_reason ER_VisionPolicyDenied = ''VisionPolicyDenied''"
| "debug_elimination_reason ER_PeerNotAdmitted = ''PeerNotAdmitted''"
| "debug_elimination_reason ER_ChildNotApproved = ''ChildNotApproved''"
| "debug_elimination_reason ER_ToyGrantMissing = ''ToyGrantMissing''"
| "debug_elimination_reason ER_SecretScopeForbidden = ''SecretScopeForbidden''"
| "debug_elimination_reason ER_PolicyRevisionStale = ''PolicyRevisionStale''"
| "debug_elimination_reason ER_GrantsRevisionStale = ''GrantsRevisionStale''"
| "debug_elimination_reason ER_RouteMismatch = ''RouteMismatch''"
| "debug_elimination_reason ER_CapabilityUnavailable = ''CapabilityUnavailable''"

fun debug_call_reason :: "CallProtocolReason \<Rightarrow> string" where
  "debug_call_reason CPR_HelloNotAdmitted = ''HelloNotAdmitted''"
| "debug_call_reason CPR_AlpnNotAdmitted = ''AlpnNotAdmitted''"
| "debug_call_reason CPR_EndpointMismatch = ''EndpointMismatch''"
| "debug_call_reason CPR_BindingMismatch = ''BindingMismatch''"
| "debug_call_reason CPR_CallerMismatch = ''CallerMismatch''"
| "debug_call_reason CPR_OriginMismatch = ''OriginMismatch''"
| "debug_call_reason CPR_VisionMismatch = ''VisionMismatch''"
| "debug_call_reason CPR_BindingRevoked = ''BindingRevoked''"
| "debug_call_reason CPR_BindingExpired = ''BindingExpired''"
| "debug_call_reason CPR_PolicyRevisionStale = ''PolicyRevisionStale''"
| "debug_call_reason CPR_ExpectedReceiverAuthorityStale = ''ExpectedReceiverAuthorityStale''"
| "debug_call_reason CPR_ReceiverAuthorityUnavailable = ''ReceiverAuthorityUnavailable''"
| "debug_call_reason CPR_CallDeadlineExpired = ''CallDeadlineExpired''"
| "debug_call_reason CPR_MalformedCall = ''MalformedCall''"
| "debug_call_reason CPR_PayloadMetadataMismatch = ''PayloadMetadataMismatch''"
| "debug_call_reason CPR_PayloadDeclaredTooLarge = ''PayloadDeclaredTooLarge''"
| "debug_call_reason CPR_PayloadActualTooLarge = ''PayloadActualTooLarge''"
| "debug_call_reason CPR_PayloadSizeMismatch = ''PayloadSizeMismatch''"
| "debug_call_reason CPR_PayloadDigestMismatch = ''PayloadDigestMismatch''"
| "debug_call_reason CPR_PayloadMissingInlineBytes = ''PayloadMissingInlineBytes''"
| "debug_call_reason CPR_PayloadUnexpectedInlineBytes = ''PayloadUnexpectedInlineBytes''"
| "debug_call_reason CPR_PayloadBlobUnavailable = ''PayloadBlobUnavailable''"
| "debug_call_reason CPR_InvalidPayloadDigest = ''InvalidPayloadDigest''"
| "debug_call_reason CPR_ChildPayloadContentTypeUnsupported = ''ChildPayloadContentTypeUnsupported''"
| "debug_call_reason CPR_ResultPayloadTooLarge = ''ResultPayloadTooLarge''"
| "debug_call_reason CPR_ResultPayloadIntegrityMismatch = ''ResultPayloadIntegrityMismatch''"
| "debug_call_reason CPR_IdempotencyKeyReuseMismatch = ''IdempotencyKeyReuseMismatch''"
| "debug_call_reason CPR_IdempotencyBudgetFull = ''IdempotencyBudgetFull''"
| "debug_call_reason CPR_IdempotencyInProgress = ''IdempotencyInProgress''"
| "debug_call_reason CPR_IdempotencyReplayCompleted = ''IdempotencyReplayCompleted''"
| "debug_call_reason CPR_AuthorityDenied = ''AuthorityDenied''"
| "debug_call_reason CPR_NoRoute = ''NoRoute''"
| "debug_call_reason CPR_ExecutionFailed = ''ExecutionFailed''"
| "debug_call_reason CPR_ExecutionTimedOut = ''ExecutionTimedOut''"
| "debug_call_reason CPR_ExecutionInterrupted = ''ExecutionInterrupted''"
| "debug_call_reason CPR_AcceptedForRouting = ''AcceptedForRouting''"
| "debug_call_reason CPR_ResultRecorded = ''ResultRecorded''"

fun debug_approval_state :: "ChildApprovalState \<Rightarrow> string" where
  "debug_approval_state AP_Candidate = ''Candidate''"
| "debug_approval_state AP_Approved = ''Approved''"
| "debug_approval_state AP_Blocked = ''Blocked''"
| "debug_approval_state AP_Revoked = ''Revoked''"
| "debug_approval_state AP_Deprecated = ''Deprecated''"

fun debug_assignment_state :: "ChildAssignmentState \<Rightarrow> string" where
  "debug_assignment_state AS_Active = ''Active''"
| "debug_assignment_state AS_Revoked = ''Revoked''"

fun debug_instance_state :: "ChildInstanceState \<Rightarrow> string" where
  "debug_instance_state CI_Loading = ''Loading''"
| "debug_instance_state CI_Ready = ''Ready''"
| "debug_instance_state CI_Degraded = ''Degraded''"
| "debug_instance_state CI_Draining = ''Draining''"
| "debug_instance_state CI_Stopped = ''Stopped''"
| "debug_instance_state CI_Failed = ''Failed''"

fun debug_child_reason :: "ChildCallReasonCode \<Rightarrow> string" where
  "debug_child_reason CC_ReadyAuthorizedInstance = ''ReadyAuthorizedInstance''"
| "debug_child_reason CC_UnknownInstance = ''UnknownInstance''"
| "debug_child_reason CC_MissingAssignment = ''MissingAssignment''"
| "debug_child_reason CC_AssignmentRevoked = ''AssignmentRevoked''"
| "debug_child_reason CC_MissingApproval = ''MissingApproval''"
| "debug_child_reason CC_ApprovalNotApproved = ''ApprovalNotApproved''"
| "debug_child_reason CC_ApprovalScopeMismatch = ''ApprovalScopeMismatch''"
| "debug_child_reason CC_ArtifactMissing = ''ArtifactMissing''"
| "debug_child_reason CC_ArtifactRejected = ''ArtifactRejected''"
| "debug_child_reason CC_UnsupportedLocalRuntime = ''UnsupportedLocalRuntime''"
| "debug_child_reason CC_OperationNotExported = ''OperationNotExported''"
| "debug_child_reason CC_InstanceNotReady = ''InstanceNotReady''"
| "debug_child_reason CC_WrongNode = ''WrongNode''"
| "debug_child_reason CC_WrongProject = ''WrongProject''"
| "debug_child_reason CC_StalePolicy = ''StalePolicy''"
| "debug_child_reason CC_VersionMismatch = ''VersionMismatch''"

fun debug_toy_reason :: "ToyGrantReasonCode \<Rightarrow> string" where
  "debug_toy_reason TR_ActiveGrant = ''ActiveGrant''"
| "debug_toy_reason TR_MissingGrant = ''MissingGrant''"
| "debug_toy_reason TR_ExpiredGrant = ''ExpiredGrant''"
| "debug_toy_reason TR_RevokedGrant = ''RevokedGrant''"
| "debug_toy_reason TR_WrongScope = ''WrongScope''"
| "debug_toy_reason TR_UnknownToy = ''UnknownToy''"
| "debug_toy_reason TR_PolicyDenied = ''PolicyDenied''"
| "debug_toy_reason TR_StaleSnapshot = ''StaleSnapshot''"

section \<open>Projections\<close>

definition observation_informational ::
  "ObservationId \<Rightarrow> Timestamp \<Rightarrow> ObservationKind \<Rightarrow> TraceId \<Rightarrow> string \<Rightarrow> MctObservation" where
  "observation_informational observation_id observed_at kind trace_id safe_message =
     \<lparr>mo_observation_id = observation_id, mo_observed_at = observed_at, mo_kind = kind,
      mo_source_plane = SP_Kernel, mo_trace = trace_only trace_id, mo_call_id = None,
      mo_decision_id = None, mo_subject_id = None, mo_resource_id = None,
      mo_policy_revision = None, mo_grants_revision = None, mo_outcome = OO_Informational,
      mo_visibility = OV_InternalOnly, mo_safe_message = safe_message, mo_detail_ref = None\<rparr>"

fun adapter_diagnostic_fields ::
  "AdapterDiagnosticKind \<Rightarrow> ObservationKind \<times> SourcePlane \<times> ObservationOutcome \<times> string" where
  "adapter_diagnostic_fields AD_IrohStreamReset =
     (OK_PeerStreamReset, SP_Adapter, OO_Failed, ''peer stream reset'')"
| "adapter_diagnostic_fields AD_WasmTrap =
     (OK_RuntimeExecutionTrapped, SP_Adapter, OO_Failed, ''wasm execution trapped'')"
| "adapter_diagnostic_fields AD_WasmMissingExport =
     (OK_RuntimeExecutionFailed, SP_Adapter, OO_Failed, ''wasm export missing'')"
| "adapter_diagnostic_fields AD_WasmMissingHostImport =
     (OK_RuntimeExecutionFailed, SP_Adapter, OO_Failed, ''wasm host import missing'')"
| "adapter_diagnostic_fields AD_WasmValueConversionFailure =
     (OK_RuntimeExecutionFailed, SP_Adapter, OO_Failed, ''wasm value conversion failed'')"
| "adapter_diagnostic_fields AD_ProcessExitFailure =
     (OK_RuntimeExecutionFailed, SP_Adapter, OO_Failed, ''process execution failed'')"
| "adapter_diagnostic_fields AD_JvmTimeout =
     (OK_RuntimeExecutionTimedOut, SP_Adapter, OO_TimedOut, ''jvm execution timed out'')"
| "adapter_diagnostic_fields AD_StorageAppendFailure =
     (OK_StorageAppendFailed, SP_Storage, OO_Failed, ''storage append failed'')"

definition adapter_diagnostic_observation ::
  "AdapterDiagnosticObservationInput \<Rightarrow> MctObservation" where
  "adapter_diagnostic_observation i =
     (let (kind, source_plane, outcome, safe_message) =
        adapter_diagnostic_fields (ad_diagnostic_kind i)
      in \<lparr>mo_observation_id = ad_observation_id i, mo_observed_at = ad_observed_at i,
          mo_kind = kind, mo_source_plane = source_plane, mo_trace = ad_trace i,
          mo_call_id = ad_call_id i, mo_decision_id = ad_decision_id i,
          mo_subject_id = ad_subject_id i, mo_resource_id = ad_resource_id i,
          mo_policy_revision = ad_policy_revision i, mo_grants_revision = ad_grants_revision i,
          mo_outcome = outcome, mo_visibility = OV_InternalOnly, mo_safe_message = safe_message,
          mo_detail_ref = ad_detail_ref i\<rparr>)"

fun safe_hello_message :: "SafeHelloReason \<Rightarrow> string" where
  "safe_hello_message SH_Admitted = ''admitted''"
| "safe_hello_message SH_NotAuthorized = ''not authorized''"
| "safe_hello_message SH_UnsupportedVersion = ''unsupported version''"
| "safe_hello_message SH_RetryLater = ''retry later''"

definition hello_evaluation_observation ::
  "TraceId \<Rightarrow> Timestamp \<Rightarrow> MctHelloAdmissionEvaluation \<Rightarrow> MctObservation" where
  "hello_evaluation_observation trace_id observed_at evaluation =
     (let admitted = he_is_admitted evaluation in
      \<lparr>mo_observation_id = he_observation_id evaluation, mo_observed_at = observed_at,
       mo_kind = (if admitted then OK_PeerAdmitted else OK_PeerRejected),
       mo_source_plane = SP_Kernel, mo_trace = trace_only trace_id, mo_call_id = None,
       mo_decision_id = Some (he_decision_id evaluation),
       mo_subject_id = he_selected_binding_id evaluation, mo_resource_id = None,
       mo_policy_revision = None, mo_grants_revision = None,
       mo_outcome = (if admitted then OO_Allowed else OO_Denied),
       mo_visibility = OV_InternalOnly,
       mo_safe_message = safe_hello_message (he_safe_reason evaluation),
       mo_detail_ref = Some (''hello_reason:'' @ debug_hello_reason (he_reason evaluation))\<rparr>)"

fun binding_state_fields :: "BindingState \<Rightarrow> ObservationKind \<times> ObservationOutcome \<times> string" where
  "binding_state_fields BS_Admitted =
     (OK_PeerBindingRecorded, OO_Allowed, ''peer binding admitted'')"
| "binding_state_fields BS_Pending =
     (OK_PeerBindingRecorded, OO_Informational, ''peer binding pending'')"
| "binding_state_fields BS_Denied = (OK_PeerRejected, OO_Denied, ''not authorized'')"
| "binding_state_fields BS_Expired = (OK_PeerBindingExpired, OO_Denied, ''not authorized'')"
| "binding_state_fields BS_Revoked = (OK_PeerBindingRevoked, OO_Denied, ''not authorized'')"

definition peer_binding_state_observation ::
  "TraceId \<Rightarrow> Timestamp \<Rightarrow> MctPeerBinding \<Rightarrow> MctObservation" where
  "peer_binding_state_observation trace_id observed_at binding =
     (let (kind, outcome, safe_message) = binding_state_fields (pb_binding_state binding) in
      \<lparr>mo_observation_id =
         (case pb_superseded_by_observation_id binding of
            Some i \<Rightarrow> i | None \<Rightarrow> pb_created_by_observation_id binding),
       mo_observed_at = observed_at, mo_kind = kind, mo_source_plane = SP_Kernel,
       mo_trace = trace_only trace_id, mo_call_id = None, mo_decision_id = None,
       mo_subject_id = Some (pb_binding_id binding),
       mo_resource_id = Some (pb_iroh_endpoint_id binding),
       mo_policy_revision = Some (pb_policy_revision binding), mo_grants_revision = None,
       mo_outcome = outcome, mo_visibility = OV_InternalOnly, mo_safe_message = safe_message,
       mo_detail_ref =
         Some (''binding_state:'' @ debug_binding_state (pb_binding_state binding))\<rparr>)"

definition candidate_considered_observation ::
  "TraceId \<Rightarrow> Timestamp \<Rightarrow> MctCall \<Rightarrow> CandidateRoute \<Rightarrow> ObservationId \<Rightarrow> u64 \<Rightarrow> u64 \<Rightarrow>
   MctObservation" where
  "candidate_considered_observation trace_id observed_at call candidate observation_id
       policy_revision grants_revision =
     \<lparr>mo_observation_id = observation_id, mo_observed_at = observed_at,
      mo_kind = OK_CandidateConsidered, mo_source_plane = SP_Kernel,
      mo_trace = trace_in_span trace_id (tc_span_id (c_trace_context call)),
      mo_call_id = Some (c_call_id call), mo_decision_id = None,
      mo_subject_id = cn_child_id candidate, mo_resource_id = Some (cn_candidate_id candidate),
      mo_policy_revision = Some policy_revision, mo_grants_revision = Some grants_revision,
      mo_outcome = OO_Informational, mo_visibility = OV_InternalOnly,
      mo_safe_message = ''candidate considered'',
      mo_detail_ref = Some
        (''candidate:'' @ cn_candidate_id candidate @ '';node:'' @ cn_node_id candidate @
         '';runtime:'' @ debug_runtime_kind (cn_runtime_kind candidate) @
         '';network:'' @ debug_network_path (cn_network_path candidate))\<rparr>"

definition candidate_eliminated_observation ::
  "TraceId \<Rightarrow> Timestamp \<Rightarrow> MctCall \<Rightarrow> CandidateAuthorityEvaluation \<Rightarrow> ObservationId \<Rightarrow>
   MctObservation" where
  "candidate_eliminated_observation trace_id observed_at call evaluation observation_id =
     (let reason = (case cae_reason evaluation of None \<Rightarrow> ER_RouteMismatch | Some r \<Rightarrow> r) in
      \<lparr>mo_observation_id = observation_id, mo_observed_at = observed_at,
       mo_kind = OK_CandidateEliminated, mo_source_plane = SP_Kernel,
       mo_trace = trace_in_span trace_id (tc_span_id (c_trace_context call)),
       mo_call_id = Some (c_call_id call), mo_decision_id = None,
       mo_subject_id = cn_child_id (cae_candidate evaluation),
       mo_resource_id = Some (cn_candidate_id (cae_candidate evaluation)),
       mo_policy_revision = Some (cae_policy_revision evaluation),
       mo_grants_revision = Some (cae_grants_revision evaluation),
       mo_outcome = OO_Denied, mo_visibility = OV_InternalOnly,
       mo_safe_message = cae_safe_message evaluation,
       mo_detail_ref = Some
         (''elimination_reason:'' @ debug_elimination_reason reason @ '';denial_class:'' @
          CandidateEliminationClass_as_str (denial_class reason))\<rparr>)"

text \<open>\<open>Iterator::max\<close>: no value for no element.\<close>

definition iter_max :: "u64 list \<Rightarrow> u64 option" where
  "iter_max xs = (case xs of [] \<Rightarrow> None | x # rest \<Rightarrow> Some (foldl max x rest))"

definition route_decision_detail_ref :: "RouteDecision \<Rightarrow> string option" where
  "route_decision_detail_ref decision =
     (let initial =
        (case rd_initial_decision_id decision of None \<Rightarrow> ''missing'' | Some d \<Rightarrow> d)
      in case (rd_decision_kind decision, rd_no_route_reason decision) of
        (RD_Initial, Some reason) \<Rightarrow> Some (''no_route_reason:'' @ debug_elimination_reason reason)
      | (RD_Initial, None) \<Rightarrow> None
      | (RD_Revalidation, Some reason) \<Rightarrow>
          Some (''initial_decision:'' @ initial @ '';revalidation_no_route_reason:'' @
                debug_elimination_reason reason)
      | (RD_Revalidation, None) \<Rightarrow> Some (''initial_decision:'' @ initial @ '';revalidated''))"

fun route_decision_fields ::
  "RouteDecisionKind \<Rightarrow> RouteDecisionOutcome \<Rightarrow> ObservationKind \<times> ObservationOutcome" where
  "route_decision_fields RD_Initial RDO_RouteSelected = (OK_RouteSelected, OO_Allowed)"
| "route_decision_fields RD_Revalidation RDO_RouteSelected = (OK_RouteRevalidated, OO_Allowed)"
| "route_decision_fields _ RDO_NoRoute = (OK_NoRouteRecorded, OO_Denied)"

definition route_decision_observation ::
  "TraceId \<Rightarrow> Timestamp \<Rightarrow> RouteDecision \<Rightarrow> MctObservation" where
  "route_decision_observation trace_id observed_at decision =
     (let (kind, outcome) =
        route_decision_fields (rd_decision_kind decision) (rd_outcome decision)
      in \<lparr>mo_observation_id = rd_observation_id decision, mo_observed_at = observed_at,
          mo_kind = kind, mo_source_plane = SP_Kernel, mo_trace = trace_only trace_id,
          mo_call_id = Some (rd_call_id decision),
          mo_decision_id = Some (rd_decision_id decision), mo_subject_id = None,
          mo_resource_id = map_option cn_candidate_id (rd_selected_route decision),
          mo_policy_revision =
            iter_max (map cae_policy_revision (rd_authority_evaluations decision)),
          mo_grants_revision =
            iter_max (map cae_grants_revision (rd_authority_evaluations decision)),
          mo_outcome = outcome, mo_visibility = OV_InternalOnly,
          mo_safe_message = rd_safe_message decision,
          mo_detail_ref = route_decision_detail_ref decision\<rparr>)"

fun call_protocol_fields :: "CallProtocolOutcome \<Rightarrow> ObservationKind \<times> ObservationOutcome" where
  "call_protocol_fields CPO_AcceptedForRouting = (OK_CallAuthorized, OO_Allowed)"
| "call_protocol_fields CPO_Completed = (OK_CallAuthorized, OO_Allowed)"
| "call_protocol_fields CPO_Malformed = (OK_PeerCallMalformed, OO_Denied)"
| "call_protocol_fields CPO_Denied = (OK_CallDenied, OO_Denied)"
| "call_protocol_fields CPO_Failed = (OK_AdapterEffectFailed, OO_Failed)"
| "call_protocol_fields CPO_TimedOut = (OK_AdapterEffectFailed, OO_TimedOut)"
| "call_protocol_fields CPO_Cancelled = (OK_ResultRecorded, OO_Cancelled)"

definition call_protocol_evaluation_observation ::
  "TraceId \<Rightarrow> Timestamp \<Rightarrow> MctCallProtocolEvaluation \<Rightarrow> MctObservation" where
  "call_protocol_evaluation_observation trace_id observed_at evaluation =
     (let (kind, outcome) = call_protocol_fields (ce_outcome evaluation) in
      \<lparr>mo_observation_id = ce_observation_id evaluation, mo_observed_at = observed_at,
       mo_kind = kind, mo_source_plane = SP_Kernel, mo_trace = trace_only trace_id,
       mo_call_id = ce_call_id evaluation, mo_decision_id = Some (ce_decision_id evaluation),
       mo_subject_id = None, mo_resource_id = Some (ce_protocol_request_id evaluation),
       mo_policy_revision = None, mo_grants_revision = None, mo_outcome = outcome,
       mo_visibility = OV_InternalOnly, mo_safe_message = ce_safe_message evaluation,
       mo_detail_ref = Some (''call_reason:'' @ debug_call_reason (ce_reason evaluation))\<rparr>)"

fun child_approval_fields ::
  "ChildApprovalState \<Rightarrow> ObservationKind \<times> ObservationOutcome \<times> string" where
  "child_approval_fields AP_Approved = (OK_ChildApproved, OO_Allowed, ''child approved'')"
| "child_approval_fields AP_Blocked = (OK_ChildRevoked, OO_Denied, ''not authorized'')"
| "child_approval_fields AP_Revoked = (OK_ChildRevoked, OO_Denied, ''not authorized'')"
| "child_approval_fields AP_Candidate =
     (OK_LifecycleTransitionRecorded, OO_Informational, ''child approval state recorded'')"
| "child_approval_fields AP_Deprecated =
     (OK_LifecycleTransitionRecorded, OO_Informational, ''child approval state recorded'')"

definition child_approval_observation ::
  "TraceId \<Rightarrow> Timestamp \<Rightarrow> ChildApproval \<Rightarrow> MctObservation" where
  "child_approval_observation trace_id observed_at approval =
     (let (kind, outcome, safe_message) = child_approval_fields (ap_approval_state approval) in
      \<lparr>mo_observation_id = ap_authority_observation_id approval, mo_observed_at = observed_at,
       mo_kind = kind, mo_source_plane = SP_Kernel, mo_trace = trace_only trace_id,
       mo_call_id = None, mo_decision_id = None, mo_subject_id = Some (ap_child_name approval),
       mo_resource_id = Some (ap_artifact_id approval),
       mo_policy_revision = Some (ap_policy_revision approval), mo_grants_revision = None,
       mo_outcome = outcome, mo_visibility = OV_InternalOnly, mo_safe_message = safe_message,
       mo_detail_ref =
         Some (''child_approval_state:'' @ debug_approval_state (ap_approval_state approval))\<rparr>)"

fun child_assignment_fields ::
  "ChildAssignmentState \<Rightarrow> ObservationKind \<times> ObservationOutcome \<times> string" where
  "child_assignment_fields AS_Active = (OK_ChildAssigned, OO_Allowed, ''child assigned'')"
| "child_assignment_fields AS_Revoked = (OK_ChildAssignmentRevoked, OO_Denied, ''not authorized'')"

definition child_assignment_observation ::
  "TraceId \<Rightarrow> Timestamp \<Rightarrow> ChildAssignment \<Rightarrow> MctObservation" where
  "child_assignment_observation trace_id observed_at assignment =
     (let (kind, outcome, safe_message) =
        child_assignment_fields (as_assignment_state assignment)
      in \<lparr>mo_observation_id = as_assignment_observation_id assignment,
          mo_observed_at = observed_at, mo_kind = kind, mo_source_plane = SP_Kernel,
          mo_trace = trace_only trace_id, mo_call_id = None, mo_decision_id = None,
          mo_subject_id = Some (as_child_name assignment),
          mo_resource_id = Some (as_assignment_id assignment),
          mo_policy_revision = None, mo_grants_revision = None, mo_outcome = outcome,
          mo_visibility = OV_InternalOnly, mo_safe_message = safe_message,
          mo_detail_ref = Some (''child_assignment_state:'' @
            debug_assignment_state (as_assignment_state assignment))\<rparr>)"

fun child_instance_fields ::
  "ChildInstanceState \<Rightarrow> ObservationKind \<times> ObservationOutcome \<times> string" where
  "child_instance_fields CI_Loading =
     (OK_ChildInstanceLoading, OO_Started, ''child instance loading'')"
| "child_instance_fields CI_Ready = (OK_ChildInstanceReady, OO_Allowed, ''child instance ready'')"
| "child_instance_fields CI_Degraded =
     (OK_ChildInstanceDegraded, OO_Failed, ''child instance degraded'')"
| "child_instance_fields CI_Draining =
     (OK_ChildInstanceDraining, OO_Started, ''child instance draining'')"
| "child_instance_fields CI_Stopped =
     (OK_ChildInstanceStopped, OO_Completed, ''child instance stopped'')"
| "child_instance_fields CI_Failed = (OK_ChildInstanceFailed, OO_Failed, ''child instance failed'')"

definition child_instance_observation ::
  "TraceId \<Rightarrow> Timestamp \<Rightarrow> ChildInstance \<Rightarrow> MctObservation" where
  "child_instance_observation trace_id observed_at inst =
     (let (kind, outcome, safe_message) = child_instance_fields (in_instance_state inst) in
      \<lparr>mo_observation_id = in_last_lifecycle_observation_id inst, mo_observed_at = observed_at,
       mo_kind = kind, mo_source_plane = SP_Kernel, mo_trace = trace_only trace_id,
       mo_call_id = None, mo_decision_id = None, mo_subject_id = Some (in_child_name inst),
       mo_resource_id = Some (in_instance_id inst),
       mo_policy_revision = None, mo_grants_revision = None, mo_outcome = outcome,
       mo_visibility = OV_InternalOnly, mo_safe_message = safe_message,
       mo_detail_ref =
         Some (''child_instance_state:'' @ debug_instance_state (in_instance_state inst))\<rparr>)"

definition child_call_authority_observation ::
  "TraceId \<Rightarrow> Timestamp \<Rightarrow> ChildCallAuthorityEvaluation \<Rightarrow> MctObservation" where
  "child_call_authority_observation trace_id observed_at evaluation =
     (let allowed = (ca_verdict evaluation = CV_Allowed) in
      \<lparr>mo_observation_id = ca_observation_id evaluation, mo_observed_at = observed_at,
       mo_kind = (if allowed then OK_RouteRevalidated else OK_CallDenied),
       mo_source_plane = SP_Kernel, mo_trace = trace_only trace_id,
       mo_call_id = Some (ca_call_id evaluation),
       mo_decision_id = Some (ca_decision_id evaluation),
       mo_subject_id = ca_child_name evaluation,
       mo_resource_id = or_else (ca_instance_id evaluation) (ca_artifact_id evaluation),
       mo_policy_revision = Some (ca_policy_revision evaluation), mo_grants_revision = None,
       mo_outcome = (if allowed then OO_Allowed else OO_Denied),
       mo_visibility = OV_InternalOnly,
       mo_safe_message = (if allowed then ''child call authorized'' else ''not authorized''),
       mo_detail_ref =
         Some (''child_call_reason:'' @ debug_child_reason (ca_reason_code evaluation))\<rparr>)"

definition toy_grant_kind :: "ToyGrantVerdict \<Rightarrow> ToyGrantReasonCode \<Rightarrow> ObservationKind" where
  "toy_grant_kind verdict reason =
     (case verdict of
        TV_Allowed \<Rightarrow> OK_ToyGrantAllowed
      | TV_Denied \<Rightarrow>
          (case reason of
             TR_ExpiredGrant \<Rightarrow> OK_ToyGrantExpired
           | TR_RevokedGrant \<Rightarrow> OK_ToyGrantRevoked
           | _ \<Rightarrow> OK_ToyGrantDenied))"

definition toy_grant_evaluation_observation ::
  "TraceId \<Rightarrow> Timestamp \<Rightarrow> ToyGrantEvaluation \<Rightarrow> MctObservation" where
  "toy_grant_evaluation_observation trace_id observed_at evaluation =
     \<lparr>mo_observation_id = te_observation_id evaluation, mo_observed_at = observed_at,
      mo_kind = toy_grant_kind (te_verdict evaluation) (te_reason_code evaluation),
      mo_source_plane = SP_Kernel, mo_trace = trace_only trace_id,
      mo_call_id = Some (te_call_id evaluation),
      mo_decision_id = Some (te_decision_id evaluation),
      mo_subject_id = Some (te_subject_child_name evaluation),
      mo_resource_id = Some (te_toy_id evaluation),
      mo_policy_revision = Some (te_policy_revision evaluation),
      mo_grants_revision = Some (te_grants_revision evaluation),
      mo_outcome = (case te_verdict evaluation of TV_Allowed \<Rightarrow> OO_Allowed | TV_Denied \<Rightarrow> OO_Denied),
      mo_visibility = OV_InternalOnly,
      mo_safe_message =
        (case te_verdict evaluation of
           TV_Allowed \<Rightarrow> ''toy grant allowed'' | TV_Denied \<Rightarrow> ''not authorized''),
      mo_detail_ref =
        Some (''toy_grant_reason:'' @ debug_toy_reason (te_reason_code evaluation))\<rparr>"

text \<open>
  The derived \<open>==\<close> on observations: equal fields, the time compared by its instant.
\<close>

definition observation_eq :: "MctObservation \<Rightarrow> MctObservation \<Rightarrow> bool" where
  "observation_eq a b \<longleftrightarrow>
     ts_eq (mo_observed_at a) (mo_observed_at b) \<and> b\<lparr>mo_observed_at := mo_observed_at a\<rparr> = a"

lemma observation_eq_refl [simp]: "observation_eq a a"
  by (simp add: observation_eq_def)

lemma observation_eq_sel:
  "observation_eq a b \<Longrightarrow> mo_observation_id a = mo_observation_id b"
  "observation_eq a b \<Longrightarrow> mo_detail_ref a = mo_detail_ref b"
  by (cases a; cases b; auto simp: observation_eq_def)+

end
