(* ===== verification/MCT_Facts.thy ===== *)
theory MCT_Facts
  imports MCT_Observation MCT_Watch MCT_Recovery_Lifecycle "HOL-Library.Finite_Map"
begin

text \<open>
  The types of the ledger crate (\<open>mct-observation/src/lib.rs\<close>, \<open>admin_issuance.rs\<close>,
  \<open>admin_genesis.rs\<close>, \<open>passkey_admin.rs\<close>): the canonical authority state, the changes that
  edit it, the facts recorded for them, ledger entries, errors and their texts, and the
  canonical JSON encoding of facts.

  A \<open>BTreeMap\<close> that is iterated is a finite map over strings, whose order is the byte order of
  the source; \<open>values()\<close> lists it by ascending key. \<open>serde\<close> is the parameter \<open>Codec\<close>: one
  function per serialized type into JSON values, one per deserialized type, and the printer
  of values. Where the source unwraps a serialization, the model returns its error.
\<close>

section \<open>Ordered maps\<close>

definition fm_values :: "(string, 'a) fmap \<Rightarrow> 'a list" where
  "fm_values m = map snd (sorted_list_of_fmap m)"

lemma set_fm_values: "set (fm_values m) = fmran' m"
proof -
  have "set (sorted_list_of_fmap m) = {(k, v). fmlookup m k = Some v}"
    by (auto simp: sorted_list_of_fmap_def fmlookup_dom_iff image_iff)
  then show ?thesis
    by (force simp: fm_values_def fmran'_def ran_def fmlookup_ran'_iff image_iff)
qed

lemma fm_values_ex: "list_ex P (fm_values m) \<longleftrightarrow> (\<exists>k v. fmlookup m k = Some v \<and> P v)"
  unfolding list_ex_iff set_fm_values Bex_def fmlookup_ran'_iff by blast

lemma fm_values_all: "list_all P (fm_values m) \<longleftrightarrow> (\<forall>k v. fmlookup m k = Some v \<longrightarrow> P v)"
  unfolding list_all_iff set_fm_values Ball_def fmlookup_ran'_iff by blast

lemma fm_values_empty [simp]: "fm_values fmempty = []"
  by (simp add: fm_values_def sorted_list_of_fmap_def sorted_list_of_fset.rep_eq)

text \<open>A loop over the entries of a map that returns the first error.\<close>

fun try_all :: "('a \<Rightarrow> 'e + unit) \<Rightarrow> 'a list \<Rightarrow> 'e + unit" where
  "try_all f [] = Inr ()"
| "try_all f (x # xs) = and_then (f x) (\<lambda>_. try_all f xs)"

lemma try_all_ok [result_simps]: "try_all f xs = Inr u \<longleftrightarrow> (\<forall>x \<in> set xs. f x = Inr ())"
  by (induction xs) (auto simp: result_simps)

lemma set_sorted_fmap: "set (sorted_list_of_fmap m) = {(k, v). fmlookup m k = Some v}"
  by (auto simp: sorted_list_of_fmap_def fmlookup_dom_iff image_iff)

lemma try_all_fmap [result_simps]:
  "try_all f (sorted_list_of_fmap m) = Inr u \<longleftrightarrow>
     (\<forall>k v. fmlookup m k = Some v \<longrightarrow> f (k, v) = Inr ())"
  by (auto simp: try_all_ok set_sorted_fmap)

section \<open>JSON values\<close>

text \<open>
  An object lists its members by ascending key, as \<open>serde_json::Map\<close> without the feature
  \<open>preserve_order\<close> does. Numbers keep their text.
\<close>

datatype Json =
    JNull
  | JBool bool
  | JNumber string
  | JString string
  | JArray "Json list"
  | JObject "(string \<times> Json) list"

fun json_insert :: "string \<Rightarrow> Json \<Rightarrow> (string \<times> Json) list \<Rightarrow> (string \<times> Json) list" where
  "json_insert k v [] = [(k, v)]"
| "json_insert k v ((k', v') # rest) =
     (if k < k' then (k, v) # (k', v') # rest
      else if k = k' then (k, v) # rest
      else (k', v') # json_insert k v rest)"

definition json_collect :: "(string \<times> Json) list \<Rightarrow> (string \<times> Json) list" where
  "json_collect members = foldl (\<lambda>acc kv. json_insert (fst kv) (snd kv) acc) [] members"

fun canonicalize :: "Json \<Rightarrow> Json" where
  "canonicalize (JObject object) =
     JObject (json_collect (map (\<lambda>kv. (fst kv, canonicalize (snd kv))) object))"
| "canonicalize (JArray values) = JArray (map canonicalize values)"
| "canonicalize v = v"

text \<open>Serialization of a sequence: the first error, or the array.\<close>

fun seq_values :: "(string + Json) list \<Rightarrow> string + Json list" where
  "seq_values [] = Inr []"
| "seq_values (x # xs) = and_then x (\<lambda>v. and_then (seq_values xs) (\<lambda>vs. Inr (v # vs)))"

definition json_seq :: "('a \<Rightarrow> string + Json) \<Rightarrow> 'a list \<Rightarrow> string + Json" where
  "json_seq f xs = and_then (seq_values (map f xs)) (\<lambda>vs. Inr (JArray vs))"

definition json_option :: "('a \<Rightarrow> string + Json) \<Rightarrow> 'a option \<Rightarrow> string + Json" where
  "json_option f x = (case x of None \<Rightarrow> Inr JNull | Some y \<Rightarrow> f y)"

definition json_map :: "('a \<Rightarrow> string + Json) \<Rightarrow> (string, 'a) fmap \<Rightarrow> string + Json" where
  "json_map f m =
     and_then (seq_values (map f (fm_values m))) (\<lambda>vs.
     Inr (JObject (zip (map fst (sorted_list_of_fmap m)) vs)))"

section \<open>Authority records\<close>

definition AUTHORITY_FACT_DETAIL_PREFIX :: string where
  "AUTHORITY_FACT_DETAIL_PREFIX = ''mct-authority-fact-v1:''"

definition AUTHORITY_FACT_SCHEMA_V1 :: string where
  "AUTHORITY_FACT_SCHEMA_V1 = ''mct-authority-fact/v1''"

definition AUTHORITY_EPOCH_PREFIX_V1 :: string where
  "AUTHORITY_EPOCH_PREFIX_V1 = ''mct-authority-epoch-v1:''"

record GrantsAuthorityIdentityV1 =
  gi_mother_node_id :: string
  gi_authority_epoch :: string
  gi_generation :: u64
  gi_source_authority_observation_id :: string

datatype AuthorityEpochPredecessorV1 =
  NoneForVirgin | NoneAfterOperatorReinitialization | ValidatedHead u64 string

datatype AuthorityStartupClassV1 =
  Virgin | OrdinaryReopen | LegacyLedgerUpgrade | OperatorGatedNonvirgin

record AuthorityTenureStartupEvidenceV1 =
  sv_startup_class :: AuthorityStartupClassV1
  sv_expected_predecessor :: AuthorityEpochPredecessorV1
  sv_expected_prior_authority :: "GrantsAuthorityIdentityV1 option"
  sv_expected_authority_state_hash :: string
  sv_inventory_hash :: string
  sv_operator_gate_decision_id :: "string option"
  sv_authenticated_principal_ref :: "string option"

record WriterTenureEstablishmentV1 =
  wt_started_at :: string
  wt_startup_class :: AuthorityStartupClassV1
  wt_operator_gate_decision_id :: "string option"
  wt_authenticated_principal_ref :: "string option"

record EpochEstablishedFactV1 =
  ef_mother_node_id :: string
  ef_ledger_id :: string
  ef_authority_epoch :: string
  ef_predecessor :: AuthorityEpochPredecessorV1
  ef_generation_baseline :: u64
  ef_prior_authority :: "GrantsAuthorityIdentityV1 option"
  ef_resulting_authority :: GrantsAuthorityIdentityV1
  ef_grant_state_hash :: string
  ef_establishment :: WriterTenureEstablishmentV1

datatype GrantShapingCommandKindV1 = AuthorizeSlate | AuthorizeSecret | CatalogChange | GrantChange

datatype GrantShapingSourceV1 =
    OperatorDecision string string GrantShapingCommandKindV1
  | ChildApprovalSource string string string string
  | ChildAssignmentSource string string
  | AdminKeySource AdminKeyPublicHalf

datatype PairingTicketStateV1 = TicketIssued | TicketConsumed

record PairingTicketV1 =
  pt_ticket_hash :: string
  pt_state :: PairingTicketStateV1
  pt_peer_endpoint_id :: "string option"
  pt_window_starts_at :: "Timestamp option"
  pt_window_expires_at :: "Timestamp option"

record PairingTicketAdmissionV1 =
  pq_authenticated_peer_endpoint_id :: string
  pq_admitted_at :: Timestamp

record AuthorityStateReferenceV1 =
  sr_grants_authority :: GrantsAuthorityIdentityV1
  sr_authority_state_hash :: string

record AdminKeyIssueIntentV1 =
  xi_issuance_id :: string
  xi_ledger_id :: string
  xi_expected_authority :: AuthorityStateReferenceV1
  xi_issuer_grant_id :: string
  xi_grant :: AdminKeyGrantV1

record AdminKeyIssueRequestV1 =
  xq_intent :: AdminKeyIssueIntentV1
  xq_signature :: AdminSignatureV1

record AdminKeyIssuanceRecordV1 =
  xc_intent :: AdminKeyIssueIntentV1
  xc_issuer_at_acceptance :: AdminKeyGrantV1
  xc_decided_at :: Timestamp

text \<open>
  The arguments of a change are in the order of the source's fields. A catalog put has the Toy,
  its contract, whether it bears authority, the catalog revision and the observation that
  admitted it; a grant put the grant, Toy, subject, scope, constraints, state, issuer, policy
  revision, source grants revision and authority observation.
\<close>

datatype AuthorityChangeV1 =
    AdminKeyIssue AdminKeyIssueRequestV1 Timestamp
  | GuardianRecovery GuardianRecoveryCommandV1 RecoveryClockV1
  | ToyCatalogPut string ToyContractIdentity bool u64 string
  | ToyCatalogRemove string
  | ToyGrantPut string string ToyGrantSubject ToyGrantScope ToyGrantConstraints ToyGrantState
      string u64 u64 string
  | ToyGrantRemove string
  | WatchScopePut WatchObservationScope
  | AdminKeyGrantPut AdminKeyGrantV1 "AdminSignatureV1 option"
  | AdminKeyGrantRevoke string "AdminSignatureV1 option"
  | PairingTicketIssued string "string option" "Timestamp option" "Timestamp option"
      "AdminSignatureV1 option"
  | PairingTicketConsumed string "PairingTicketAdmissionV1 option" "AdminSignatureV1 option"

record AuthorityMutationFactV1 =
  mf_mutation_id :: string
  mf_mutation_intent_hash :: string
  mf_mother_node_id :: string
  mf_ledger_id :: string
  mf_authority_epoch :: string
  mf_prior_state :: AuthorityStateReferenceV1
  mf_changes :: "AuthorityChangeV1 list"
  mf_grant_shaping_sources :: "GrantShapingSourceV1 list"
  mf_resulting_state :: AuthorityStateReferenceV1
  mf_decided_at :: string

record CommittedAuthorityMutationV1 =
  cm_fact :: AuthorityMutationFactV1
  cm_entry_sequence :: u64
  cm_entry_hash :: string

record AuthorityMutationRequestV1 =
  mq_mutation_id :: string
  mq_changes :: "AuthorityChangeV1 list"
  mq_grant_shaping_sources :: "GrantShapingSourceV1 list"
  mq_decided_at :: string

definition LEGACY_AUTHORITY_IMPORT_CONFIRMATION_V1 :: string where
  "LEGACY_AUTHORITY_IMPORT_CONFIRMATION_V1 = ''import-existing-toy-authority-as-canonical-v1''"

record LegacyAuthorityImportRequestV1 =
  iq_schema :: string
  iq_import_id :: string
  iq_expected_mother_node_id :: string
  iq_expected_ledger_id :: string
  iq_expected_config_authority_hash :: string
  iq_expected_sqlite_authority_hash :: string
  iq_confirmation :: string

record LegacyImportOperatorDecisionV1 =
  io_decision_id :: string
  io_authenticated_principal_ref :: string
  io_confirmation :: string
  io_decided_at :: string

record LegacyImportSourceEvidenceV1 =
  ise_config_authority_hash :: string
  ise_sqlite_authority_hash :: string

record AdminGenesisIntentV1 =
  gn_bootstrap_id :: string
  gn_mother_node_id :: string
  gn_ledger_id :: string
  gn_birth_epoch :: string
  gn_inventory_hash :: string
  gn_root :: AdminKeyGrantV1

record AdminGenesisRequestV1 =
  gq_intent :: AdminGenesisIntentV1
  gq_signature :: AdminSignatureV1

record AdminGenesisFactV1 =
  gf_request :: AdminGenesisRequestV1
  gf_decided_at :: Timestamp

record PasskeyAdminFactV1 =
  kf_request :: PasskeyAdminRequestV1
  kf_decided_at :: Timestamp

record PasskeyAdminCanonicalV1 =
  kc_genesis :: PasskeyAdminFactV1
  kc_state :: PasskeyAdminStateV1

record AuthorityStateV1 =
  sta_toy_catalog :: "(string, CanonicalToyContract) fmap"
  sta_toy_grants :: "(string, ToyGrant) fmap"
  sta_watch_scopes :: "(string, WatchObservationScope) fmap"
  sta_admin_key_grants :: "(string, AdminKeyGrantV1) fmap"
  sta_pairing_tickets :: "(string, PairingTicketV1) fmap"
  sta_guardian_recovery :: "GuardianRecoveryStateV1 option"
  sta_admin_issuance :: "(string, AdminKeyIssuanceRecordV1) fmap"
  sta_admin_genesis :: "AdminGenesisFactV1 option"
  sta_passkey_admin :: "PasskeyAdminCanonicalV1 option"

definition AuthorityStateV1_default :: AuthorityStateV1 where
  "AuthorityStateV1_default =
     \<lparr>sta_toy_catalog = fmempty, sta_toy_grants = fmempty, sta_watch_scopes = fmempty,
      sta_admin_key_grants = fmempty, sta_pairing_tickets = fmempty,
      sta_guardian_recovery = None, sta_admin_issuance = fmempty, sta_admin_genesis = None,
      sta_passkey_admin = None\<rparr>"

record LegacyAuthorityImportFactV1 =
  li_import_id :: string
  li_mother_node_id :: string
  li_ledger_id :: string
  li_authority_epoch :: string
  li_operator_decision :: LegacyImportOperatorDecisionV1
  li_source_evidence :: LegacyImportSourceEvidenceV1
  li_imported_state :: AuthorityStateV1
  li_prior_state :: AuthorityStateReferenceV1
  li_resulting_state :: AuthorityStateReferenceV1

record CommittedLegacyAuthorityImportV1 =
  cim_fact :: LegacyAuthorityImportFactV1
  cim_entry_sequence :: u64
  cim_entry_hash :: string

record AuthorityCanonicalFactRecordV1 =
  fr_fact_id :: string
  fr_fact_kind :: string
  fr_source_sequence :: u64
  fr_source_entry_hash :: string
  fr_canonical_payload :: string

record AuthorityReplayV1 =
  ry_state :: AuthorityStateV1
  ry_current_authority :: "GrantsAuthorityIdentityV1 option"
  ry_imported :: bool
  ry_import :: "CommittedLegacyAuthorityImportV1 option"
  ry_mutations :: "string \<rightharpoonup> CommittedAuthorityMutationV1"
  ry_facts :: "AuthorityCanonicalFactRecordV1 list"
  ry_canonical_fact_count :: nat
  ry_admin_signature_nonces :: "(string \<times> u64) set"
  ry_admin_grant_ids :: "string set"
  ry_tail_recovery_only :: bool

datatype DurabilityClass = BeforeEffect | Buffered | ProjectionOnly

datatype ExportStatus = ES_NotRequired | ES_Pending | ES_Exported | ES_Failed

record MctObservationLedgerEntry =
  le_ledger_id :: string
  le_mother_node_id :: string
  le_local_sequence :: u64
  le_observation :: MctObservation
  le_previous_entry_hash :: "string option"
  le_entry_hash :: string
  le_appended_at :: string
  le_durability_class :: DurabilityClass
  le_export_status :: ExportStatus

record CanonicalAuthorityEnvelopeV1 =
  ev_schema :: string
  ev_fact_kind :: string
  ev_fact_id :: string
  ev_body :: Json

datatype AuthorityProjectionStatusV1 =
  Projection_Rebuilding | Projection_Current | Projection_Stale | Projection_Quarantined

record AuthorityProjectionHashInputV1 =
  ph_source_mother_node_id :: string
  ph_source_ledger_id :: string
  ph_through_sequence :: u64
  ph_through_observation_id :: string
  ph_through_entry_hash :: string
  ph_grants_authority :: GrantsAuthorityIdentityV1
  ph_authority_state_hash :: string
  ph_projection_status :: AuthorityProjectionStatusV1

section \<open>Errors and their texts\<close>

datatype AppendFailureStage = FailedWrite | FailedDurability | FailedAcknowledgement

datatype LedgerFailureClass =
    TerminatedMalformedFrame | EntryHashMismatch | PreviousHashMismatch | SequenceDiscontinuity
  | LF_ForeignLineage

record LedgerQuarantineStatus =
  lq_ledger_path :: string
  lq_failure_class :: LedgerFailureClass
  lq_first_bad_sequence :: "u64 option"
  lq_first_bad_offset :: u64
  lq_expected :: "string option"
  lq_observed :: "string option"
  lq_preserved_ledger_path :: "string option"
  lq_diagnostic_record_path :: "string option"

datatype AuthorityReplayError =
    ReplayMalformed u64 string
  | ReplayUnknownSchema u64 string
  | ReplayUnknownFactKind u64 string
  | ReplayIncoherent u64 string

record BatchPartialCommitOutcome =
  bo_acknowledged_committed_prefix :: "MctObservationLedgerEntry list"
  bo_failed_index :: nat
  bo_commit_unknown :: bool
  bo_failure :: string

text \<open>
  Paths and the errors of the operating system and of \<open>serde\<close> are texts. The arguments are in
  the order of the source's fields.
\<close>

datatype ObservationLedgerError =
    ReservedAuthorityDetail
  | LE_Io string string
  | LE_Json string string
  | BrokenHashChain u64
  | LedgerIdentityMismatch u64 string string string string
  | LedgerDiscontinuity u64
  | SequenceMismatch u64 u64
  | UnterminatedTail string u64 u64 string
  | LE_Quarantined LedgerQuarantineStatus
  | LE_ForeignLineage LedgerQuarantineStatus
  | WriterContended string
  | WriterLock string string
  | AppendCommitUnknown string AppendFailureStage string
  | WriterPoisoned string
  | AuthorityReplayFailed string
  | BatchPartiallyCommitted BatchPartialCommitOutcome
  | LedgerChanged string u64 u64
  | SegmentRejected string
  | SegmentsDisabled

type_synonym 'a ledger_result = "ObservationLedgerError + 'a"
type_synonym 'a replay_result = "AuthorityReplayError + 'a"

text \<open>
  The \<open>Display\<close> texts that are carried into other errors. The sources format only errors of
  serialization and of the authority replay this way; the text of any other ledger error does
  not reach another value and is left out.
\<close>

fun InvalidFieldReason_display :: "InvalidFieldReason \<Rightarrow> string" where
  "InvalidFieldReason_display IFR_Empty = ''empty''"
| "InvalidFieldReason_display IFR_Blank = ''blank''"

fun MctKernelError_display :: "MctKernelError \<Rightarrow> string" where
  "MctKernelError_display (InvalidField rec field reason) =
     ''invalid '' @ rec @ ''.'' @ field @ '': '' @ InvalidFieldReason_display reason"
| "MctKernelError_display (InvalidTimestamp val reason) =
     ''invalid Timestamp '' @ [CHR 0x27] @ val @ [CHR 0x27] @ '': '' @ reason"
| "MctKernelError_display (PayloadSizeMismatch a b) =
     ''MCT call payload metadata size '' @ dec_u64 a @ '' does not match payload handle size '' @
     dec_u64 b"
| "MctKernelError_display (InvalidConstraint rec field reason) =
     ''invalid '' @ rec @ ''.'' @ field @ '': '' @ reason"
| "MctKernelError_display (EncodeCallProtocolJson source) =
     ''failed to encode MCT call protocol JSON edge value: '' @ source"
| "MctKernelError_display (InvalidRouteTakenPresence rec outcome) =
     ''invalid '' @ rec @ ''.route_taken for '' @ outcome @ '' reply outcome''"
| "MctKernelError_display (InvalidReplyReasonPresence rec outcome) =
     ''invalid '' @ rec @ ''.reason for '' @ outcome @ '' reply outcome''"
| "MctKernelError_display (DecodeCallProtocolJson source) =
     ''failed to decode MCT call protocol JSON edge value: '' @ source"

fun RecoveryError_display :: "RecoveryError \<Rightarrow> string" where
  "RecoveryError_display RE_Malformed = ''malformed recovery record''"
| "RecoveryError_display RE_SignatureInvalid = ''invalid hybrid recovery signature''"
| "RecoveryError_display RE_PolicyInvalid = ''invalid recovery policy''"
| "RecoveryError_display RE_VoiceMismatch = ''recovery Voice does not match''"
| "RecoveryError_display RE_DuplicatePrincipal = ''duplicate recovery principal or key''"
| "RecoveryError_display RE_StaleAuthority = ''recovery binding or policy is stale''"
| "RecoveryError_display RE_ReplacementNotFresh = ''replacement key is not fresh''"
| "RecoveryError_display RE_TimeInvalid = ''recovery evidence is outside its validity interval''"
| "RecoveryError_display RE_QuorumInvalid = ''recovery quorum is insufficient or oversized''"
| "RecoveryError_display RE_UnappointedGuardian = ''recovery signer is not appointed''"

fun AdminIssuanceError_display :: "AdminIssuanceError \<Rightarrow> string" where
  "AdminIssuanceError_display AIE_Malformed = ''malformed issuance grant or weak key''"
| "AdminIssuanceError_display AIE_InactiveIssuer = ''issuer is not active''"
| "AdminIssuanceError_display AIE_ExpiredIssuer = ''issuer is expired''"
| "AdminIssuanceError_display AIE_NotKeyManager = ''issuer lacks key-manage''"
| "AdminIssuanceError_display AIE_MissingCeiling = ''day key issuance ceiling is absent''"
| "AdminIssuanceError_display AIE_CeilingExceeded =
     ''recipient execution or delegation exceeds issuer ceiling''"
| "AdminIssuanceError_display AIE_ExpiryExceeded =
     ''recipient expiry is invalid or exceeds issuer expiry''"
| "AdminIssuanceError_display AIE_RecoveryGrantLocked =
     ''ordinary issuance cannot create a recovery grant''"
| "AdminIssuanceError_display AIE_RecoveryCredentialReuse =
     ''recovery credentials cannot be reused as a day key''"

fun AdminSignatureError_display :: "AdminSignatureError \<Rightarrow> string" where
  "AdminSignatureError_display ASE_Malformed = ''admin signature is malformed''"
| "AdminSignatureError_display ASE_MalformedPublicKey = ''ml-dsa-65 public key is malformed''"
| "AdminSignatureError_display ASE_Ed25519Invalid =
     ''admin signature ed25519 half does not verify''"
| "AdminSignatureError_display ASE_MlDsaInvalid =
     ''admin signature ml-dsa-65 half does not verify''"

fun AuthorityReplayError_display :: "AuthorityReplayError \<Rightarrow> string" where
  "AuthorityReplayError_display (ReplayMalformed sequence detail) =
     ''canonical authority fact JSON is malformed at sequence '' @ dec_u64 sequence @ '': '' @ detail"
| "AuthorityReplayError_display (ReplayUnknownSchema sequence schema) =
     ''unknown canonical authority fact schema '' @ [CHR 0x27] @ schema @ [CHR 0x27] @
     '' at sequence '' @ dec_u64 sequence"
| "AuthorityReplayError_display (ReplayUnknownFactKind sequence fact_kind) =
     ''unknown canonical authority fact kind '' @ [CHR 0x27] @ fact_kind @ [CHR 0x27] @
     '' at sequence '' @ dec_u64 sequence"
| "AuthorityReplayError_display (ReplayIncoherent sequence detail) =
     ''canonical authority fact is incoherent at sequence '' @ dec_u64 sequence @ '': '' @ detail"

fun ledger_error_display :: "ObservationLedgerError \<Rightarrow> string" where
  "ledger_error_display (LE_Json path source) =
     ''observation ledger json error at '' @ path @ '': '' @ source"
| "ledger_error_display (AuthorityReplayFailed detail) =
     ''canonical authority replay failed: '' @ detail"
| "ledger_error_display _ = []"

definition authority_incoherent :: "string \<Rightarrow> AuthorityReplayError" where
  "authority_incoherent detail = ReplayIncoherent 0 detail"

definition map_err :: "('e \<Rightarrow> 'f) \<Rightarrow> 'e + 'a \<Rightarrow> 'f + 'a" where
  "map_err f r = (case r of Inl e \<Rightarrow> Inl (f e) | Inr x \<Rightarrow> Inr x)"

lemma map_err_ok [result_simps]: "map_err f r = Inr x \<longleftrightarrow> r = Inr x"
  by (cases r) (simp_all add: map_err_def)

lemma map_err_Inr [result_simps]: "map_err f (Inr x) = Inr x"
  by (simp add: map_err_def)

lemma is_ok_map_err [simp]: "is_ok (map_err f r) = is_ok r"
  by (cases r) (simp_all add: map_err_def)

section \<open>Serialization\<close>

record Codec =
  jc_to_vec :: "Json \<Rightarrow> string + string"
  jc_change :: "AuthorityChangeV1 \<Rightarrow> string + Json"
  jc_source :: "GrantShapingSourceV1 \<Rightarrow> string + Json"
  jc_contract :: "CanonicalToyContract \<Rightarrow> string + Json"
  jc_toy_grant :: "ToyGrant \<Rightarrow> string + Json"
  jc_watch_scope :: "WatchObservationScope \<Rightarrow> string + Json"
  jc_grant :: "AdminKeyGrantV1 \<Rightarrow> string + Json"
  jc_ticket :: "PairingTicketV1 \<Rightarrow> string + Json"
  jc_recovery :: "GuardianRecoveryStateV1 \<Rightarrow> string + Json"
  jc_issuance :: "AdminKeyIssuanceRecordV1 \<Rightarrow> string + Json"
  jc_issue_intent :: "AdminKeyIssueIntentV1 \<Rightarrow> string + Json"
  jc_genesis_intent :: "AdminGenesisIntentV1 \<Rightarrow> string + Json"
  jc_passkey_request :: "PasskeyAdminRequestV1 \<Rightarrow> string + Json"
  jc_state :: "AuthorityStateV1 \<Rightarrow> string + Json"
  jc_projection_input :: "AuthorityProjectionHashInputV1 \<Rightarrow> string + Json"
  jc_epoch_fact :: "EpochEstablishedFactV1 \<Rightarrow> string + Json"
  jc_mutation_fact :: "AuthorityMutationFactV1 \<Rightarrow> string + Json"
  jc_import_fact :: "LegacyAuthorityImportFactV1 \<Rightarrow> string + Json"
  jc_genesis_fact :: "AdminGenesisFactV1 \<Rightarrow> string + Json"
  jc_passkey_fact :: "PasskeyAdminFactV1 \<Rightarrow> string + Json"
  jd_envelope :: "string \<Rightarrow> string + CanonicalAuthorityEnvelopeV1"
  jd_epoch_fact :: "Json \<Rightarrow> string + EpochEstablishedFactV1"
  jd_mutation_fact :: "Json \<Rightarrow> string + AuthorityMutationFactV1"
  jd_import_fact :: "Json \<Rightarrow> string + LegacyAuthorityImportFactV1"
  jd_genesis_fact :: "Json \<Rightarrow> string + AdminGenesisFactV1"
  jd_passkey_fact :: "Json \<Rightarrow> string + PasskeyAdminFactV1"

definition CANONICAL_FACT_PATH :: string where
  "CANONICAL_FACT_PATH = ''<canonical-authority-fact>''"

definition canonical_json_bytes :: "Codec \<Rightarrow> string + Json \<Rightarrow> string ledger_result" where
  "canonical_json_bytes K val =
     and_then (map_err (LE_Json CANONICAL_FACT_PATH) val) (\<lambda>v.
     map_err (LE_Json CANONICAL_FACT_PATH) (jc_to_vec K (canonicalize v)))"

definition envelope_json :: "string \<Rightarrow> string \<Rightarrow> Json \<Rightarrow> Json" where
  "envelope_json fact_kind fact_id body =
     JObject [(''body'', body), (''fact_id'', JString fact_id), (''fact_kind'', JString fact_kind),
              (''schema'', JString AUTHORITY_FACT_SCHEMA_V1)]"

definition encode_authority_fact ::
  "Codec \<Rightarrow> string \<Rightarrow> string \<Rightarrow> string + Json \<Rightarrow> string ledger_result" where
  "encode_authority_fact K fact_kind fact_id f =
     and_then (canonical_json_bytes K
       (and_then f (\<lambda>body. Inr (envelope_json fact_kind fact_id body)))) (\<lambda>bytes.
     Inr (AUTHORITY_FACT_DETAIL_PREFIX @ bytes))"

definition encode_epoch_fact :: "Codec \<Rightarrow> string \<Rightarrow> EpochEstablishedFactV1 \<Rightarrow> string ledger_result" where
  "encode_epoch_fact K fact_id f =
     encode_authority_fact K ''epoch_established'' fact_id (jc_epoch_fact K f)"

text \<open>
  A tuple serializes as an array; the first component of the tuples below is a domain tag.
\<close>

definition tagged :: "string \<Rightarrow> (string + Json) list \<Rightarrow> string + Json" where
  "tagged tag parts = and_then (seq_values parts) (\<lambda>vs. Inr (JArray (JString tag # vs)))"

definition blake3_of :: "Crypto \<Rightarrow> Codec \<Rightarrow> string + Json \<Rightarrow> string ledger_result" where
  "blake3_of C K val =
     and_then (canonical_json_bytes K val) (\<lambda>bytes. Inr (cy_blake3_hex C bytes))"

definition authority_projection_hash ::
  "Crypto \<Rightarrow> Codec \<Rightarrow> AuthorityProjectionHashInputV1 \<Rightarrow> string ledger_result" where
  "authority_projection_hash C K i =
     blake3_of C K (and_then (jc_projection_input K i) (\<lambda>v.
       Inr (JObject [(''input'', v), (''schema_version'', JNumber ''1'')])))"

end
