(* ===== verification/MCT_Authority_State.thy ===== *)
theory MCT_Authority_State
  imports MCT_Facts
begin

text \<open>
  The canonical authority state (\<open>mct-observation/src/lib.rs\<close>, \<open>admin_issuance.rs\<close>,
  \<open>admin_genesis.rs\<close>, \<open>guardian_recovery.rs\<close>): its validation and hash, the admin signatures
  over changes, and the application of changes.

  A function that edits \<open>state: &mut AuthorityStateV1\<close> returns the edited state; on an error the
  caller drops the state, so none is returned. \<open>Env\<close> collects the parameters.
\<close>

record Env =
  en_crypto :: Crypto
  en_jiff :: jiff
  en_serde :: StateSerde
  en_web :: Web
  en_watch_json :: "WatchScopeDigestMaterial \<Rightarrow> string"
  en_codec :: Codec

section \<open>Small helpers\<close>

text \<open>\<open>Iterator::max\<close> over times: the last of the latest.\<close>

definition ts_max :: "Timestamp list \<Rightarrow> Timestamp option" where
  "ts_max ts =
     (case ts of [] \<Rightarrow> None
      | t # rest \<Rightarrow> Some (foldl (\<lambda>m x. if x < m then m else x) t rest))"

text \<open>The derived \<open>==\<close> on grants compares the expiry by its instant.\<close>

definition admin_grant_eq :: "AdminKeyGrantV1 \<Rightarrow> AdminKeyGrantV1 \<Rightarrow> bool" where
  "admin_grant_eq a b \<longleftrightarrow>
     opt_ts_eq (ag_expires_at a) (ag_expires_at b) \<and> b\<lparr>ag_expires_at := ag_expires_at a\<rparr> = a"

lemma admin_grant_eq_refl [simp]: "admin_grant_eq a a"
  by (simp add: admin_grant_eq_def)

definition is_digest64 :: "string \<Rightarrow> bool" where
  "is_digest64 val \<longleftrightarrow> length val = 64 \<and> list_all is_lower_hex val"

definition pairing_ticket_hash_ok :: "string \<Rightarrow> bool" where
  "pairing_ticket_hash_ok val \<longleftrightarrow> val \<noteq> [] \<and> list_all is_lower_hex val"

definition RECOVERED_ROOT_GRANT_PREFIX :: string where
  "RECOVERED_ROOT_GRANT_PREFIX = ''recovered:''"

section \<open>Strict genesis (admin\_genesis.rs)\<close>

definition genesis_failure :: "string \<Rightarrow> ObservationLedgerError" where
  "genesis_failure detail = AuthorityReplayFailed detail"

definition genesis_signing_message :: "Env \<Rightarrow> AdminGenesisRequestV1 \<Rightarrow> string ledger_result" where
  "genesis_signing_message E request =
     (let intent = gq_intent request; K = en_codec E in
      and_then (canonical_json_bytes K (jc_grant K (gn_root intent))) (\<lambda>grant.
      and_then (canonical_json_bytes K
                  (tagged ''mct-admin-genesis/v1'' [jc_genesis_intent K intent])) (\<lambda>command.
      Inr (admin_signed_message
        \<lparr>sm_scheme = Ed25519MlDsa65V1, sm_mother_node_id = gn_mother_node_id intent,
         sm_ledger_id = gn_ledger_id intent, sm_nonce = 0, sm_signer_grant_canonical = grant,
         sm_command_canonical = command\<rparr>))))"

definition genesis_validate :: "Env \<Rightarrow> AdminGenesisRequestV1 \<Rightarrow> unit ledger_result" where
  "genesis_validate E request =
     (let i = gq_intent request; root = gn_root i; signature = gq_signature request in
      if \<not> valid_admin_id (gn_bootstrap_id i) \<or> \<not> valid_admin_id (ag_grant_id root) \<or>
         starts_with (ag_grant_id root) RECOVERED_ROOT_GRANT_PREFIX \<or>
         trim_is_empty (gn_mother_node_id i) \<or> trim_is_empty (gn_ledger_id i) \<or>
         \<not> (case strip_prefix AUTHORITY_EPOCH_PREFIX_V1 (gn_birth_epoch i) of
              None \<Rightarrow> False | Some rest \<Rightarrow> is_digest64 rest) \<or>
         \<not> is_digest64 (gn_inventory_hash i) \<or> admin_key_grant_shape_error root \<noteq> None \<or>
         ag_class root \<noteq> Recovery \<or> ag_grant_state root \<noteq> AGS_Active \<or>
         half_is_weak (en_crypto E) (ag_public_half root) \<or>
         as_signer_grant_id signature \<noteq> ag_grant_id root \<or> as_nonce signature \<noteq> 0 \<or>
         as_scheme signature \<noteq> Ed25519MlDsa65V1 \<or>
         length (as_signature signature) \<noteq> ADMIN_HYBRID_SIGNATURE_LEN * 2
      then Inl (genesis_failure ''malformed strict administrative genesis'')
      else
        and_then (ok_or (ag_ml_dsa65_public_key root)
                    (genesis_failure ''genesis requires both public keys'')) (\<lambda>pq.
        and_then (genesis_signing_message E request) (\<lambda>msg.
        map_err (\<lambda>_. genesis_failure ''genesis hybrid signature denied'')
          (verify_admin_hybrid_signature (en_crypto E) (ag_public_half root) pq msg
             (as_signature signature)))))"

definition genesis_validate_state :: "Env \<Rightarrow> AuthorityStateV1 \<Rightarrow> unit ledger_result" where
  "genesis_validate_state E state =
     (case sta_admin_genesis state of
        None \<Rightarrow> Inr ()
      | Some genesis \<Rightarrow>
          and_then (genesis_validate E (gf_request genesis)) (\<lambda>_.
          and_then (ok_or (List.find (\<lambda>grant. ag_class grant = Recovery \<and>
                                              ag_grant_state grant = AGS_Active)
                             (fm_values (sta_admin_key_grants state)))
                      (genesis_failure ''strict profile has no active root'')) (\<lambda>current.
          let recovered = (case sta_guardian_recovery state of None \<Rightarrow> False
                           | Some r \<Rightarrow> 1 < ob_root_generation (rs_binding r));
              intent = gq_intent (gf_request genesis) in
          if \<not> recovered \<and> \<not> admin_grant_eq current (gn_root intent)
          then Inl (genesis_failure ''strict root differs from genesis without guardian replacement'')
          else if (case sta_guardian_recovery state of None \<Rightarrow> False
                   | Some r \<Rightarrow> ob_mother_node_id (rs_binding r) \<noteq> gn_mother_node_id intent \<or>
                       ob_ledger_id (rs_binding r) \<noteq> gn_ledger_id intent)
          then Inl (genesis_failure ''guardian binding and strict origin target disagree'')
          else Inr ())))"

section \<open>Validation and hash of a state (lib.rs)\<close>

definition validate_watch_scope_state :: "Env \<Rightarrow> AuthorityStateV1 \<Rightarrow> string + unit" where
  "validate_watch_scope_state E state =
     try_all (\<lambda>(scope_id, scope).
       if scope_id \<noteq> ws_watch_scope_id scope
       then Inl ''Watch scope map key does not match complete value identity''
       else map_err (\<lambda>e. ''invalid Watch scope authority value: '' @ MctKernelError_display e)
              (WatchObservationScope_validate (en_crypto E) (en_watch_json E) scope))
       (sorted_list_of_fmap (sta_watch_scopes state))"

definition validate_admin_key_grant_shape :: "AdminKeyGrantV1 \<Rightarrow> string + unit" where
  "validate_admin_key_grant_shape grant =
     (case admin_key_grant_shape_error grant of Some detail \<Rightarrow> Inl detail | None \<Rightarrow> Inr ())"

definition validate_admin_authority_state :: "AuthorityStateV1 \<Rightarrow> string + unit" where
  "validate_admin_authority_state state =
     and_then (try_all (\<lambda>(grant_id, grant).
         if grant_id \<noteq> ag_grant_id grant
         then Inl ''admin key grant map key does not match grant id''
         else and_then (validate_admin_key_grant_shape grant) (\<lambda>_.
           if ag_class grant = Recovery \<and> ag_grant_state grant \<noteq> AGS_Active
           then Inl ''recovery grant cannot be revoked'' else Inr ()))
       (sorted_list_of_fmap (sta_admin_key_grants state))) (\<lambda>_.
     if 1 < length (filter (\<lambda>grant. ag_class grant = Recovery)
                      (fm_values (sta_admin_key_grants state)))
     then Inl ''a second recovery grant is not admitted''
     else try_all (\<lambda>(ticket_hash, ticket).
            if ticket_hash \<noteq> pt_ticket_hash ticket \<or> \<not> pairing_ticket_hash_ok ticket_hash
            then Inl ''pairing ticket map key does not match its hash'' else Inr ())
          (sorted_list_of_fmap (sta_pairing_tickets state)))"

text \<open>\<open>guardian_recovery::validate_state\<close> and \<open>admin_issuance::validate_state\<close>.\<close>

definition recovery_validate_state :: "Env \<Rightarrow> AuthorityStateV1 \<Rightarrow> string + unit" where
  "recovery_validate_state E state =
     (case sta_guardian_recovery state of
        None \<Rightarrow> Inr ()
      | Some recovery \<Rightarrow>
          and_then (map_err RecoveryError_display
                      (validate_policy (en_crypto E) (rs_policy recovery))) (\<lambda>_.
          and_then (map_err RecoveryError_display
                      (guardian_policy_state_is_consistent (en_crypto E) (en_jiff E) recovery)) (\<lambda>_.
          if rs_binding recovery \<noteq> gp_target (rs_policy recovery) \<or>
             ob_root_generation (rs_binding recovery) \<noteq>
               of_nat (length (rs_retired_root_keys recovery)) + 1 \<or>
             rs_pending recovery \<noteq> None \<and> \<not> rs_maintenance recovery \<or>
             \<not> list_ex (\<lambda>grant. ag_class grant = Recovery \<and> ag_grant_state grant = AGS_Active \<and>
                  ag_public_half grant = rk_ed25519 (ob_root_key (rs_binding recovery)) \<and>
                  ag_ml_dsa65_public_key grant =
                    Some (rk_ml_dsa65 (ob_root_key (rs_binding recovery))))
                (fm_values (sta_admin_key_grants state))
          then Inl ''recovery projection disagrees with canonical root/policy''
          else Inr ())))"

definition issuance_validate_state :: "Env \<Rightarrow> AuthorityStateV1 \<Rightarrow> string + unit" where
  "issuance_validate_state E state =
     and_then (try_all (\<lambda>(ident, rec).
         if ident \<noteq> ag_grant_id (xi_grant (xc_intent rec)) \<or>
            xi_issuer_grant_id (xc_intent rec) \<noteq> ag_grant_id (xc_issuer_at_acceptance rec)
         then Inl ''issuance provenance identity mismatch''
         else and_then (ok_or (fmlookup (sta_admin_key_grants state) ident)
                          ''issued grant missing from canonical state'') (\<lambda>current.
           if \<not> admin_grant_eq (current\<lparr>ag_grant_state := AGS_Active\<rparr>) (xi_grant (xc_intent rec))
           then Inl ''issued grant disagrees with provenance''
           else map_err AdminIssuanceError_display
                  (evaluate_admin_key_issuance (en_crypto E) (xc_issuer_at_acceptance rec)
                     (xi_grant (xc_intent rec)) (xc_decided_at rec))))
       (sorted_list_of_fmap (sta_admin_issuance state))) (\<lambda>_.
     try_all (\<lambda>grant.
         if ag_issuance_ceiling grant \<noteq> None \<and>
            fmlookup (sta_admin_issuance state) (ag_grant_id grant) = None
         then Inl ''ceiling lacks a canonical issuance fact'' else Inr ())
       (fm_values (sta_admin_key_grants state)))"

text \<open>
  The five shapes that are hashed. Members of an object that are skipped when empty are left
  out; an object lists its members by key.
\<close>

definition skip_empty :: "string \<Rightarrow> 'a list \<Rightarrow> ('a \<Rightarrow> string + Json) \<Rightarrow> string + (string \<times> Json) list" where
  "skip_empty key xs f =
     (if xs = [] then Inr [] else and_then (json_seq f xs) (\<lambda>v. Inr [(key, v)]))"

definition hashable_state :: "Codec \<Rightarrow> AuthorityStateV1 \<Rightarrow> string + Json" where
  "hashable_state K state =
     and_then (json_seq (jc_contract K) (fm_values (sta_toy_catalog state))) (\<lambda>catalog.
     and_then (json_seq (jc_toy_grant K) (fm_values (sta_toy_grants state))) (\<lambda>toys.
     and_then (skip_empty ''watch_scopes'' (fm_values (sta_watch_scopes state))
                 (jc_watch_scope K)) (\<lambda>scopes.
     and_then (skip_empty ''admin_key_grants'' (fm_values (sta_admin_key_grants state))
                 (jc_grant K)) (\<lambda>grants.
     and_then (skip_empty ''pairing_tickets'' (fm_values (sta_pairing_tickets state))
                 (jc_ticket K)) (\<lambda>tickets.
     Inr (JObject (grants @ tickets @
       [(''toy_catalog'', catalog), (''toy_grants'', toys)] @ scopes)))))))"

definition state_hash_input :: "Codec \<Rightarrow> AuthorityStateV1 \<Rightarrow> string + Json" where
  "state_hash_input K state =
     (let hashable = hashable_state K state;
          recovery = json_option (jc_recovery K) (sta_guardian_recovery state);
          issuance = json_map (jc_issuance K) (sta_admin_issuance state) in
      if sta_passkey_admin state \<noteq> None
      then tagged ''mct-passkey-authority-state/v1'' [jc_state K state]
      else if sta_admin_genesis state \<noteq> None
      then tagged ''mct-strict-admin-authority-state/v1''
             [hashable, recovery, issuance, json_option (jc_genesis_fact K) (sta_admin_genesis state)]
      else if sta_admin_issuance state \<noteq> fmempty
      then tagged ''mct-admin-issuance-authority-state/v1'' [hashable, recovery, issuance]
      else case sta_guardian_recovery state of
        None \<Rightarrow> hashable
      | Some r \<Rightarrow> tagged ''mct-guardian-authority-state/v1'' [hashable, jc_recovery K r])"

definition authority_state_hash :: "Env \<Rightarrow> AuthorityStateV1 \<Rightarrow> string ledger_result" where
  "authority_state_hash E state =
     and_then (map_err AuthorityReplayFailed (validate_watch_scope_state E state)) (\<lambda>_.
     and_then (map_err AuthorityReplayFailed (validate_admin_authority_state state)) (\<lambda>_.
     and_then (map_err AuthorityReplayFailed (recovery_validate_state E state)) (\<lambda>_.
     and_then (map_err AuthorityReplayFailed (issuance_validate_state E state)) (\<lambda>_.
     and_then (genesis_validate_state E state) (\<lambda>_.
     if sta_passkey_admin state \<noteq> None \<and>
        (sta_admin_genesis state \<noteq> None \<or> sta_guardian_recovery state \<noteq> None \<or>
         sta_admin_issuance state \<noteq> fmempty \<or> sta_admin_key_grants state \<noteq> fmempty)
     then Inl (AuthorityReplayFailed ''mixed passkey/legacy authority'')
     else blake3_of (en_crypto E) (en_codec E) (state_hash_input (en_codec E) state))))))"

section \<open>Signatures over changes (lib.rs)\<close>

fun change_signature :: "AuthorityChangeV1 \<Rightarrow> AdminSignatureV1 option" where
  "change_signature (AdminKeyIssue request _) = Some (xq_signature request)"
| "change_signature (AdminKeyGrantPut _ signature) = signature"
| "change_signature (AdminKeyGrantRevoke _ signature) = signature"
| "change_signature (PairingTicketIssued _ _ _ _ signature) = signature"
| "change_signature (PairingTicketConsumed _ _ signature) = signature"
| "change_signature _ = None"

fun command_without_signature :: "AuthorityChangeV1 \<Rightarrow> AuthorityChangeV1" where
  "command_without_signature (AdminKeyGrantPut grant _) = AdminKeyGrantPut grant None"
| "command_without_signature (AdminKeyGrantRevoke grant_id _) = AdminKeyGrantRevoke grant_id None"
| "command_without_signature (PairingTicketIssued h p s e _) = PairingTicketIssued h p s e None"
| "command_without_signature (PairingTicketConsumed h a _) = PairingTicketConsumed h a None"
| "command_without_signature change = change"

definition issuance_command_bytes :: "Codec \<Rightarrow> AdminKeyIssueRequestV1 \<Rightarrow> string ledger_result" where
  "issuance_command_bytes K request =
     canonical_json_bytes K (tagged ''mct-admin-key-issue/v1'' [jc_issue_intent K (xq_intent request)])"

definition unsigned_admin_command_bytes :: "Codec \<Rightarrow> AuthorityChangeV1 \<Rightarrow> string ledger_result" where
  "unsigned_admin_command_bytes K change =
     (case change of
        AdminKeyIssue request _ \<Rightarrow> issuance_command_bytes K request
      | _ \<Rightarrow> canonical_json_bytes K (jc_change K (command_without_signature change)))"

definition quoted :: "string \<Rightarrow> string" where
  "quoted s = [CHR 0x27] @ s @ [CHR 0x27]"

definition signer_grant ::
  "AuthorityStateV1 \<Rightarrow> AuthorityChangeV1 \<Rightarrow> string \<Rightarrow> string + AdminKeyGrantV1" where
  "signer_grant prior change signer_grant_id =
     (let in_ledger =
        (case fmlookup (sta_admin_key_grants prior) signer_grant_id of
           Some grant \<Rightarrow>
             if ag_grant_state grant = AGS_Active then Inr grant
             else Inl (''admin signature signer grant '' @ quoted signer_grant_id @ '' is not active'')
         | None \<Rightarrow>
             Inl (''admin signature signer grant '' @ quoted signer_grant_id @ '' is not in the ledger''))
      in case change of
           AdminKeyGrantPut grant _ \<Rightarrow>
             if ag_grant_id grant = signer_grant_id then Inr grant else in_ledger
         | _ \<Rightarrow> in_ledger)"

definition admin_change_signing_message ::
  "Codec \<Rightarrow> string \<Rightarrow> string \<Rightarrow> u64 \<Rightarrow> AdminKeyGrantV1 \<Rightarrow> AuthorityChangeV1 \<Rightarrow> string ledger_result" where
  "admin_change_signing_message K mother_node_id ledger_id nonce signer change =
     and_then (canonical_json_bytes K (jc_grant K signer)) (\<lambda>grant_bytes.
     and_then (unsigned_admin_command_bytes K change) (\<lambda>command_bytes.
     Inr (admin_signed_message
       \<lparr>sm_scheme = Ed25519MlDsa65V1, sm_mother_node_id = mother_node_id,
        sm_ledger_id = ledger_id, sm_nonce = nonce, sm_signer_grant_canonical = grant_bytes,
        sm_command_canonical = command_bytes\<rparr>)))"

fun is_issue_change :: "AuthorityChangeV1 \<Rightarrow> bool" where
  "is_issue_change (AdminKeyIssue _ _) = True"
| "is_issue_change _ = False"

fun is_recovery_change :: "AuthorityChangeV1 \<Rightarrow> bool" where
  "is_recovery_change (GuardianRecovery _ _) = True"
| "is_recovery_change _ = False"

definition verify_change_signature ::
  "Env \<Rightarrow> AuthorityStateV1 \<Rightarrow> string \<Rightarrow> string \<Rightarrow> AuthorityChangeV1 \<Rightarrow> AdminSignatureV1 \<Rightarrow>
   string + unit" where
  "verify_change_signature E prior mother_node_id ledger_id change signature =
     (let K = en_codec E in
      and_then (signer_grant prior change (as_signer_grant_id signature)) (\<lambda>grant.
      and_then (ok_or (ag_ml_dsa65_public_key grant)
        ''scheme v1 signature requires the ML-DSA-65 public key on the signer grant'') (\<lambda>ml_dsa.
      and_then (map_err ledger_error_display (canonical_json_bytes K (jc_grant K grant)))
        (\<lambda>grant_bytes.
      and_then (map_err ledger_error_display (unsigned_admin_command_bytes K change))
        (\<lambda>command_bytes.
      map_err AdminSignatureError_display
        (verify_admin_hybrid_signature (en_crypto E) (ag_public_half grant) ml_dsa
           (admin_signed_message
             \<lparr>sm_scheme = as_scheme signature, sm_mother_node_id = mother_node_id,
              sm_ledger_id = ledger_id, sm_nonce = as_nonce signature,
              sm_signer_grant_canonical = grant_bytes, sm_command_canonical = command_bytes\<rparr>)
           (as_signature signature)))))))"

fun verify_signatures_loop ::
  "Env \<Rightarrow> AuthorityStateV1 \<Rightarrow> (string \<times> u64) set \<Rightarrow> string \<Rightarrow> string \<Rightarrow> (string \<times> u64) set \<Rightarrow>
   AuthorityChangeV1 list \<Rightarrow> string + unit" where
  "verify_signatures_loop E prior used mother_node_id ledger_id seen [] = Inr ()"
| "verify_signatures_loop E prior used mother_node_id ledger_id seen (change # rest) =
     (case change_signature change of
        None \<Rightarrow> verify_signatures_loop E prior used mother_node_id ledger_id seen rest
      | Some signature \<Rightarrow>
          let nonce_key = (as_signer_grant_id signature, as_nonce signature) in
          if as_scheme signature \<noteq> Ed25519MlDsa65V1
          then Inl ''legacy commands require their original hybrid scheme''
          else if is_issue_change change \<and>
                  length (as_signature signature) \<noteq> ADMIN_HYBRID_SIGNATURE_LEN * 2
          then Inl ''issuance signature has invalid encoded length''
          else if nonce_key \<in> used \<or> nonce_key \<in> seen
          then Inl (''admin signature nonce '' @ dec_u64 (as_nonce signature) @
                    '' was already used for grant '' @ quoted (as_signer_grant_id signature))
          else and_then (verify_change_signature E prior mother_node_id ledger_id change signature)
            (\<lambda>_. verify_signatures_loop E prior used mother_node_id ledger_id
                   (insert nonce_key seen) rest))"

definition verify_admin_change_signatures ::
  "Env \<Rightarrow> AuthorityStateV1 \<Rightarrow> (string \<times> u64) set \<Rightarrow> string \<Rightarrow> string \<Rightarrow> AuthorityChangeV1 list \<Rightarrow>
   string + unit" where
  "verify_admin_change_signatures E prior used mother_node_id ledger_id changes =
     verify_signatures_loop E prior used mother_node_id ledger_id {} changes"

definition record_admin_signature_nonces ::
  "(string \<times> u64) set \<Rightarrow> AuthorityChangeV1 list \<Rightarrow> (string \<times> u64) set" where
  "record_admin_signature_nonces used changes =
     foldl (\<lambda>acc change. case change_signature change of
         None \<Rightarrow> acc
       | Some signature \<Rightarrow> insert (as_signer_grant_id signature, as_nonce signature) acc) used changes"

section \<open>Applying changes (lib.rs)\<close>

definition apply_admin_key_grant_put ::
  "AuthorityStateV1 \<Rightarrow> AdminKeyGrantV1 \<Rightarrow> AuthorityStateV1 replay_result" where
  "apply_admin_key_grant_put state grant =
     and_then (map_err authority_incoherent (validate_admin_key_grant_shape grant)) (\<lambda>_.
     if ag_grant_state grant \<noteq> AGS_Active
     then Inl (authority_incoherent ''admin key grant put must be active; a revoke is not a put'')
     else case fmlookup (sta_admin_key_grants state) (ag_grant_id grant) of
       Some existing \<Rightarrow>
         if ag_class existing = Recovery \<or> ag_class grant = Recovery
         then Inl (authority_incoherent ''recovery grant cannot be revoked or replaced'')
         else Inl (authority_incoherent ''admin key grant id cannot be put again'')
     | None \<Rightarrow>
         if ag_class grant = Recovery \<and>
            list_ex (\<lambda>existing. ag_class existing = Recovery) (fm_values (sta_admin_key_grants state))
         then Inl (authority_incoherent ''a second recovery grant is not admitted'')
         else Inr (state\<lparr>sta_admin_key_grants :=
                fmupd (ag_grant_id grant) grant (sta_admin_key_grants state)\<rparr>))"

definition apply_admin_key_grant_revoke ::
  "AuthorityStateV1 \<Rightarrow> string \<Rightarrow> AuthorityStateV1 replay_result" where
  "apply_admin_key_grant_revoke state grant_id =
     (if \<not> non_empty_token grant_id
      then Inl (authority_incoherent ''admin key grant id is empty'')
      else case fmlookup (sta_admin_key_grants state) grant_id of
        None \<Rightarrow> Inl (authority_incoherent
                  (''cannot revoke missing admin key grant '' @ quoted grant_id))
      | Some existing \<Rightarrow>
          if ag_class existing = Recovery
          then Inl (authority_incoherent ''recovery grant cannot be revoked'')
          else if ag_grant_state existing \<noteq> AGS_Active
          then Inl (authority_incoherent ''revoked admin key grant cannot be revoked again'')
          else Inr (state\<lparr>sta_admin_key_grants :=
                 fmupd grant_id (existing\<lparr>ag_grant_state := AGS_Revoked\<rparr>)
                   (sta_admin_key_grants state)\<rparr>))"

definition apply_pairing_ticket_issued ::
  "AuthorityStateV1 \<Rightarrow> string \<Rightarrow> string option \<Rightarrow> Timestamp option \<Rightarrow> Timestamp option \<Rightarrow> bool \<Rightarrow>
   AuthorityStateV1 replay_result" where
  "apply_pairing_ticket_issued state ticket_hash peer_endpoint_id window_starts_at window_expires_at
       is_signed =
     (if \<not> pairing_ticket_hash_ok ticket_hash
      then Inl (authority_incoherent ''pairing ticket fact stores a hash only'')
      else if is_signed \<and>
              \<not> non_empty_token (case peer_endpoint_id of None \<Rightarrow> [] | Some e \<Rightarrow> e)
      then Inl (authority_incoherent ''pairing ticket carries the peer endpoint id'')
      else if is_signed \<and>
              \<not> (case (window_starts_at, window_expires_at) of
                   (Some starts, Some expires) \<Rightarrow> starts < expires | _ \<Rightarrow> False)
      then Inl (authority_incoherent ''pairing ticket carries an expiry window'')
      else if fmlookup (sta_pairing_tickets state) ticket_hash \<noteq> None
      then Inl (authority_incoherent ''pairing ticket hash is already recorded'')
      else Inr (state\<lparr>sta_pairing_tickets :=
             fmupd ticket_hash
               \<lparr>pt_ticket_hash = ticket_hash, pt_state = TicketIssued,
                pt_peer_endpoint_id = peer_endpoint_id,
                pt_window_starts_at = window_starts_at,
                pt_window_expires_at = window_expires_at\<rparr>
               (sta_pairing_tickets state)\<rparr>))"

definition pairing_admission_valid ::
  "jiff \<Rightarrow> PairingTicketV1 \<Rightarrow> PairingTicketAdmissionV1 \<Rightarrow> bool" where
  "pairing_admission_valid J ticket admission \<longleftrightarrow>
     pt_state ticket = TicketIssued \<and>
     pt_peer_endpoint_id ticket = Some (pq_authenticated_peer_endpoint_id admission) \<and>
     (case (pt_window_starts_at ticket, pt_window_expires_at ticket) of
        (Some start, Some finish) \<Rightarrow>
          (case (jf_parse J (ts_value start), jf_parse J (ts_value finish),
                 jf_parse J (ts_value (pq_admitted_at admission))) of
             (Inr s, Inr f, Inr now) \<Rightarrow> s \<le> now \<and> now < f
           | _ \<Rightarrow> False)
      | _ \<Rightarrow> False)"

definition validate_pairing_admission ::
  "jiff \<Rightarrow> AuthorityStateV1 \<Rightarrow> string \<Rightarrow> PairingTicketAdmissionV1 \<Rightarrow> unit replay_result" where
  "validate_pairing_admission J state ticket_hash admission =
     (if (case fmlookup (sta_pairing_tickets state) ticket_hash of
            None \<Rightarrow> False | Some ticket \<Rightarrow> pairing_admission_valid J ticket admission)
      then Inr ()
      else Inl (authority_incoherent
        ''pairing ticket is unavailable for this authenticated peer and Mother time''))"

definition apply_pairing_ticket_consumed ::
  "jiff \<Rightarrow> AuthorityStateV1 \<Rightarrow> string \<Rightarrow> PairingTicketAdmissionV1 option \<Rightarrow>
   AuthorityStateV1 replay_result" where
  "apply_pairing_ticket_consumed J state ticket_hash admission =
     (if \<not> pairing_ticket_hash_ok ticket_hash
      then Inl (authority_incoherent ''pairing ticket fact stores a hash only'')
      else and_then (case admission of None \<Rightarrow> Inr ()
                     | Some a \<Rightarrow> validate_pairing_admission J state ticket_hash a) (\<lambda>_.
        case fmlookup (sta_pairing_tickets state) ticket_hash of
          None \<Rightarrow> Inl (authority_incoherent ''pairing ticket hash was not issued'')
        | Some ticket \<Rightarrow>
            (case pt_state ticket of
               TicketConsumed \<Rightarrow>
                 Inl (authority_incoherent ''pairing ticket hash was already consumed'')
             | TicketIssued \<Rightarrow>
                 Inr (state\<lparr>sta_pairing_tickets :=
                   fmupd ticket_hash (ticket\<lparr>pt_state := TicketConsumed\<rparr>)
                     (sta_pairing_tickets state)\<rparr>))))"

text \<open>Issuance of a day key (\<open>admin_issuance::apply\<close>).\<close>

definition issuance_prior_time :: "AuthorityStateV1 \<Rightarrow> Timestamp option" where
  "issuance_prior_time state =
     ts_max (map xc_decided_at (fm_values (sta_admin_issuance state)) @
       (case sta_admin_genesis state of None \<Rightarrow> [] | Some birth \<Rightarrow> [gf_decided_at birth]) @
       (case sta_guardian_recovery state of None \<Rightarrow> []
        | Some recovery \<Rightarrow> [rc_wall_time (rs_clock recovery)]))"

definition issuance_reuses_root :: "AuthorityStateV1 \<Rightarrow> AdminKeyGrantV1 \<Rightarrow> bool" where
  "issuance_reuses_root state recipient \<longleftrightarrow>
     list_ex (\<lambda>g. ag_class g = Recovery \<and>
         (ag_public_half g = ag_public_half recipient \<or>
          (case ag_ml_dsa65_public_key g of None \<Rightarrow> False
           | Some key \<Rightarrow> ag_ml_dsa65_public_key recipient = Some key)))
       (fm_values (sta_admin_key_grants state)) \<or>
     (case sta_guardian_recovery state of None \<Rightarrow> False
      | Some r \<Rightarrow> list_ex (\<lambda>key. rk_ed25519 key = ag_public_half recipient \<or>
            Some (rk_ml_dsa65 key) = ag_ml_dsa65_public_key recipient) (rs_retired_root_keys r))"

definition issuance_apply ::
  "Env \<Rightarrow> AuthorityStateV1 \<Rightarrow> AdminKeyIssueRequestV1 \<Rightarrow> Timestamp \<Rightarrow> AuthorityStateV1 replay_result" where
  "issuance_apply E state request decided_at =
     (let intent = xq_intent request; recipient = xi_grant intent in
      if (case issuance_prior_time state of None \<Rightarrow> False | Some floor_time \<Rightarrow> decided_at < floor_time)
      then Inl (authority_incoherent ''issuance decision clock regressed behind canonical authority'')
      else if \<not> valid_admin_id (xi_issuance_id intent) \<or> \<not> valid_admin_id (ag_grant_id recipient) \<or>
              starts_with (ag_grant_id recipient) RECOVERED_ROOT_GRANT_PREFIX \<or>
              as_signer_grant_id (xq_signature request) \<noteq> xi_issuer_grant_id intent \<or>
              fmlookup (sta_admin_key_grants state) (ag_grant_id recipient) \<noteq> None \<or>
              fmlookup (sta_admin_issuance state) (ag_grant_id recipient) \<noteq> None \<or>
              (case sta_guardian_recovery state of None \<Rightarrow> False | Some r \<Rightarrow> rs_maintenance r)
      then Inl (authority_incoherent
        ''invalid issuance identity, existing grant, signer mismatch or recovery maintenance'')
      else
        and_then (map_err (\<lambda>e. authority_incoherent (ledger_error_display e))
                    (authority_state_hash E state)) (\<lambda>current_hash.
        if current_hash \<noteq> sr_authority_state_hash (xi_expected_authority intent)
        then Inl (authority_incoherent ''issuance expected authority snapshot is stale'')
        else
          and_then (ok_or (fmlookup (sta_admin_key_grants state) (xi_issuer_grant_id intent))
                      (authority_incoherent ''issuer is not canonical'')) (\<lambda>issuer.
          and_then (map_err (\<lambda>e. authority_incoherent (AdminIssuanceError_display e))
                      (evaluate_admin_key_issuance (en_crypto E) issuer recipient decided_at)) (\<lambda>_.
          if ag_ml_dsa65_public_key issuer = None \<or> ag_ml_dsa65_public_key recipient = None \<or>
             length (as_signature (xq_signature request)) \<noteq> ADMIN_HYBRID_SIGNATURE_LEN * 2
          then Inl (authority_incoherent
            ''new issuance requires complete hybrid credentials and signature'')
          else if issuance_reuses_root state recipient
          then Inl (authority_incoherent ''root credentials cannot be issued as day keys'')
          else
            and_then (map_err authority_incoherent
                (verify_admin_change_signatures E state {}
                   (gi_mother_node_id (sr_grants_authority (xi_expected_authority intent)))
                   (xi_ledger_id intent) [AdminKeyIssue request decided_at])) (\<lambda>_.
            and_then (apply_admin_key_grant_put state recipient) (\<lambda>put.
            let proposed = put\<lparr>sta_admin_issuance :=
                  fmupd (ag_grant_id recipient)
                    \<lparr>xc_intent = intent, xc_issuer_at_acceptance = issuer,
                     xc_decided_at = decided_at\<rparr> (sta_admin_issuance put)\<rparr> in
            and_then (map_err (\<lambda>e. authority_incoherent (ledger_error_display e))
                        (authority_state_hash E proposed)) (\<lambda>_.
            Inr proposed)))))))"

text \<open>A recovery transition (\<open>guardian_recovery::apply\<close>).\<close>

fun is_complete_action :: "GuardianRecoveryActionV1 \<Rightarrow> bool" where
  "is_complete_action (CompleteRecovery _) = True"
| "is_complete_action _ = False"

definition recovery_clock_regressed :: "AuthorityStateV1 \<Rightarrow> RecoveryClockV1 \<Rightarrow> bool" where
  "recovery_clock_regressed state clock \<longleftrightarrow>
     (case sta_admin_genesis state of
        None \<Rightarrow> False
      | Some birth \<Rightarrow>
          (case ts_max (map xc_decided_at (fm_values (sta_admin_issuance state)) @
                        [gf_decided_at birth]) of
             None \<Rightarrow> False | Some floor_time \<Rightarrow> rc_wall_time clock < floor_time))"

definition replacement_credential_reused :: "AuthorityStateV1 \<Rightarrow> RecoveryPublicKeyV1 \<Rightarrow> bool" where
  "replacement_credential_reused state key \<longleftrightarrow>
     list_ex (\<lambda>grant. ag_public_half grant = rk_ed25519 key \<or>
         ag_ml_dsa65_public_key grant = Some (rk_ml_dsa65 key))
       (fm_values (sta_admin_key_grants state))"

definition recovered_grant_id :: "GuardianRecoveryStateV1 \<Rightarrow> string" where
  "recovered_grant_id next =
     RECOVERED_ROOT_GRANT_PREFIX @ ob_binding_id (rs_binding next) @ '':'' @
     dec_u64 (ob_root_generation (rs_binding next))"

definition replace_root ::
  "AuthorityStateV1 \<Rightarrow> AdminKeyGrantV1 \<Rightarrow> GuardianRecoveryStateV1 \<Rightarrow> AuthorityStateV1" where
  "replace_root state root next =
     state\<lparr>sta_admin_key_grants :=
         fmupd (recovered_grant_id next)
           \<lparr>ag_grant_id = recovered_grant_id next,
            ag_public_half = rk_ed25519 (ob_root_key (rs_binding next)),
            ag_ml_dsa65_public_key = Some (rk_ml_dsa65 (ob_root_key (rs_binding next))),
            ag_class = Recovery, ag_scopes = recovery_grant_scopes, ag_expires_at = None,
            ag_grant_state = AGS_Active, ag_issuance_ceiling = None\<rparr>
           (fmmap (\<lambda>grant. grant\<lparr>ag_grant_state := AGS_Revoked\<rparr>)
              (fmdrop (ag_grant_id root) (sta_admin_key_grants state))),
       sta_pairing_tickets :=
         fmmap (\<lambda>ticket. ticket\<lparr>pt_state := TicketConsumed\<rparr>) (sta_pairing_tickets state)\<rparr>"

definition recovery_apply ::
  "Env \<Rightarrow> AuthorityStateV1 \<Rightarrow> GuardianRecoveryCommandV1 \<Rightarrow> RecoveryClockV1 \<Rightarrow>
   AuthorityStateV1 replay_result" where
  "recovery_apply E state command clock =
     and_then (map_err (\<lambda>e. authority_incoherent (ledger_error_display e))
                 (authority_state_hash E state)) (\<lambda>before_hash.
     if recovery_clock_regressed state clock
     then Inl (authority_incoherent ''strict recovery clock regressed behind canonical authority'')
     else
       and_then (ok_or (List.find (\<lambda>grant. ag_class grant = Recovery)
                          (fm_values (sta_admin_key_grants state)))
                   (authority_incoherent ''recovery enrollment requires an existing canonical root'')) (\<lambda>root.
       if (case gc_action command of
             Enroll enrollment \<Rightarrow>
               ag_public_half root \<noteq> rk_ed25519 (ob_root_key (gp_target (ge_policy enrollment))) \<or>
               ag_ml_dsa65_public_key root \<noteq>
                 Some (rk_ml_dsa65 (ob_root_key (gp_target (ge_policy enrollment))))
           | _ \<Rightarrow> False)
       then Inl (authority_incoherent ''enrollment is not authorized by the canonical hybrid root'')
       else if (case gc_action command of
             Initiate request _ \<Rightarrow>
               replacement_credential_reused state (ri_replacement_key (rr_intent request))
           | _ \<Rightarrow> False)
       then Inl (authority_incoherent ''replacement reuses an existing administrative credential'')
       else
         and_then (map_err (\<lambda>e. authority_incoherent (RecoveryError_display e))
             (evaluate_guardian_recovery (en_crypto E) (en_jiff E) (en_serde E)
                (sta_guardian_recovery state) command clock before_hash)) (\<lambda>next.
         if is_complete_action (gc_action command) \<and>
            fmlookup (sta_admin_key_grants state) (recovered_grant_id next) \<noteq> None
         then Inl (authority_incoherent ''replacement root grant identity already exists'')
         else
           let proposed =
             (if is_complete_action (gc_action command) then replace_root state root next else state)
             \<lparr>sta_guardian_recovery := Some next\<rparr> in
           and_then (map_err (\<lambda>e. authority_incoherent (ledger_error_display e))
                       (authority_state_hash E proposed)) (\<lambda>_.
           Inr proposed))))"

text \<open>
  One change of the loop in \<open>apply_authority_changes\<close>. The two exclusive transitions never
  reach it; the source has \<open>unreachable!\<close> there.
\<close>

definition incoherent_kernel :: "MctKernelError \<Rightarrow> AuthorityReplayError" where
  "incoherent_kernel e = ReplayIncoherent 0 (MctKernelError_display e)"

definition apply_toy_grant_put ::
  "AuthorityStateV1 \<Rightarrow> string \<Rightarrow> string \<Rightarrow> ToyGrantSubject \<Rightarrow> ToyGrantScope \<Rightarrow> ToyGrantConstraints \<Rightarrow>
   ToyGrantState \<Rightarrow> string \<Rightarrow> u64 \<Rightarrow> u64 \<Rightarrow> string \<Rightarrow> AuthorityStateV1 replay_result" where
  "apply_toy_grant_put state grant_id toy_id subject scope constraints grant_state issuer_id
       policy_revision source_grants_revision authority_observation_id =
     (if fmlookup (sta_toy_catalog state) toy_id = None \<or> sc_allowed_actions scope = [] \<or>
         \<not> successively (<) (sc_allowed_actions scope)
      then Inl (ReplayIncoherent 0 ''Toy grant references missing catalog or noncanonical actions'')
      else
        and_then (map_err incoherent_kernel (string_id_new ''ToyGrantId'' grant_id)) (\<lambda>gid.
        and_then (map_err incoherent_kernel (string_id_new ''ToyId'' toy_id)) (\<lambda>tid.
        and_then (map_err incoherent_kernel
                    (string_id_new ''ObservationId'' authority_observation_id)) (\<lambda>oid.
        Inr (state\<lparr>sta_toy_grants :=
          fmupd grant_id
            \<lparr>tg_grant_id = gid, tg_toy_id = tid, tg_subject = subject, tg_scope = scope,
             tg_constraints = constraints, tg_grant_state = grant_state, tg_issuer_id = issuer_id,
             tg_policy_revision = policy_revision, tg_grants_revision = source_grants_revision,
             tg_authority_observation_id = oid\<rparr>
            (sta_toy_grants state)\<rparr>)))))"

definition apply_watch_scope_put ::
  "Env \<Rightarrow> AuthorityStateV1 \<Rightarrow> WatchObservationScope \<Rightarrow> AuthorityStateV1 replay_result" where
  "apply_watch_scope_put E state scope =
     and_then (map_err (\<lambda>e. ReplayIncoherent 0 (''invalid Watch scope: '' @ MctKernelError_display e))
                 (WatchObservationScope_validate (en_crypto E) (en_watch_json E) scope)) (\<lambda>_.
     and_then
       (case fmlookup (sta_watch_scopes state) (ws_watch_scope_id scope) of
          None \<Rightarrow>
            if ws_scope_revision scope \<noteq> 1 \<or> ws_authority_state scope \<noteq> WS_Active
            then Inl (ReplayIncoherent 0 ''first Watch scope put must be active revision one'')
            else Inr ()
        | Some current \<Rightarrow>
            if ws_authority_state current \<noteq> WS_Active
            then Inl (ReplayIncoherent 0 ''terminal Watch scope cannot be revised or resurrected'')
            else if checked_add_u64 (ws_scope_revision current) 1 \<noteq> Some (ws_scope_revision scope)
            then Inl (ReplayIncoherent 0 ''Watch scope revision is not exactly prior plus one'')
            else Inr ()) (\<lambda>_.
     Inr (state\<lparr>sta_watch_scopes :=
       fmupd (ws_watch_scope_id scope) scope (sta_watch_scopes state)\<rparr>)))"

definition apply_change ::
  "Env \<Rightarrow> AuthorityStateV1 \<Rightarrow> AuthorityChangeV1 \<Rightarrow> AuthorityStateV1 replay_result" where
  "apply_change E state change =
     (case change of
        GuardianRecovery _ _ \<Rightarrow> Inl (authority_incoherent ''unreachable'')
      | AdminKeyIssue _ _ \<Rightarrow> Inl (authority_incoherent ''unreachable'')
      | ToyCatalogPut toy_id contract authority_bearing catalog_revision observation \<Rightarrow>
          and_then (map_err incoherent_kernel (string_id_new ''ToyId'' toy_id)) (\<lambda>tid.
          and_then (map_err incoherent_kernel (string_id_new ''ObservationId'' observation)) (\<lambda>oid.
          Inr (state\<lparr>sta_toy_catalog :=
            fmupd toy_id
              \<lparr>ct_toy_id = tid, ct_contract = contract, ct_authority_bearing = authority_bearing,
               ct_catalog_revision = catalog_revision, ct_admitted_by_observation_id = oid\<rparr>
              (sta_toy_catalog state)\<rparr>)))
      | ToyCatalogRemove toy_id \<Rightarrow>
          if fmlookup (sta_toy_catalog state) toy_id = None
          then Inl (ReplayIncoherent 0 (''cannot remove missing Toy catalog value '' @ quoted toy_id))
          else Inr (state\<lparr>sta_toy_catalog := fmdrop toy_id (sta_toy_catalog state)\<rparr>)
      | ToyGrantPut grant_id toy_id subject scope constraints grant_state issuer_id policy_revision
          source_grants_revision observation \<Rightarrow>
          apply_toy_grant_put state grant_id toy_id subject scope constraints grant_state issuer_id
            policy_revision source_grants_revision observation
      | ToyGrantRemove grant_id \<Rightarrow>
          if fmlookup (sta_toy_grants state) grant_id = None
          then Inl (ReplayIncoherent 0 (''cannot remove missing Toy grant '' @ quoted grant_id))
          else Inr (state\<lparr>sta_toy_grants := fmdrop grant_id (sta_toy_grants state)\<rparr>)
      | WatchScopePut scope \<Rightarrow> apply_watch_scope_put E state scope
      | AdminKeyGrantPut grant signature \<Rightarrow>
          if ag_issuance_ceiling grant \<noteq> None
          then Inl (authority_incoherent ''legacy put cannot introduce an issuance ceiling'')
          else if signature \<noteq> None \<and> ag_ml_dsa65_public_key grant = None
          then Inl (authority_incoherent
            ''scheme v1 grant put records the ML-DSA-65 public key beside Ed25519'')
          else apply_admin_key_grant_put state grant
      | AdminKeyGrantRevoke grant_id _ \<Rightarrow> apply_admin_key_grant_revoke state grant_id
      | PairingTicketIssued ticket_hash peer_endpoint_id starts expires signature \<Rightarrow>
          apply_pairing_ticket_issued state ticket_hash peer_endpoint_id starts expires
            (signature \<noteq> None)
      | PairingTicketConsumed ticket_hash admission _ \<Rightarrow>
          apply_pairing_ticket_consumed (en_jiff E) state ticket_hash admission)"

fun apply_changes_loop ::
  "Env \<Rightarrow> AuthorityStateV1 \<Rightarrow> AuthorityChangeV1 list \<Rightarrow> AuthorityStateV1 replay_result" where
  "apply_changes_loop E state [] = Inr state"
| "apply_changes_loop E state (change # rest) =
     and_then (apply_change E state change) (\<lambda>state'. apply_changes_loop E state' rest)"

definition apply_authority_changes ::
  "Env \<Rightarrow> AuthorityStateV1 \<Rightarrow> AuthorityChangeV1 list \<Rightarrow> AuthorityStateV1 replay_result" where
  "apply_authority_changes E state changes =
     (if sta_passkey_admin state \<noteq> None
      then Inl (authority_incoherent ''legacy/hybrid changes cannot mutate passkey authority'')
      else if list_ex is_issue_change changes
      then (case changes of
              [AdminKeyIssue request decided_at] \<Rightarrow> issuance_apply E state request decided_at
            | _ \<Rightarrow> Inl (authority_incoherent ''issuance must be an exclusive authority transition''))
      else if list_ex is_recovery_change changes
      then (case changes of
              [GuardianRecovery command clock] \<Rightarrow> recovery_apply E state command clock
            | _ \<Rightarrow> Inl (authority_incoherent ''recovery must be an exclusive authority transition''))
      else if sta_guardian_recovery state \<noteq> None \<or> sta_admin_issuance state \<noteq> fmempty \<or>
              sta_admin_genesis state \<noteq> None
      then Inl (authority_incoherent ''enrolled recovery authority requires the new runtime path'')
      else apply_changes_loop E state changes)"

section \<open>Contexts and intent (lib.rs, admin\_issuance.rs, guardian\_recovery.rs)\<close>

definition issuance_validate_context ::
  "string set \<Rightarrow> AuthorityChangeV1 list \<Rightarrow> GrantsAuthorityIdentityV1 \<Rightarrow> string \<Rightarrow> string \<Rightarrow> string \<Rightarrow>
   string + unit" where
  "issuance_validate_context used_grant_ids changes authority ledger_id mutation_id decision_time =
     try_all (\<lambda>change. case change of
         AdminKeyIssue request decided_at \<Rightarrow>
           let intent = xq_intent request in
           if ag_grant_id (xi_grant intent) \<in> used_grant_ids \<or>
              sr_grants_authority (xi_expected_authority intent) \<noteq> authority \<or>
              xi_ledger_id intent \<noteq> ledger_id \<or> xi_issuance_id intent \<noteq> mutation_id \<or>
              ts_value decided_at \<noteq> decision_time
           then Inl ''issuance does not name the current target, epoch, generation and command''
           else Inr ()
       | _ \<Rightarrow> Inr ()) changes"

definition recovery_context_binding ::
  "AuthorityStateV1 \<Rightarrow> GuardianRecoveryActionV1 \<Rightarrow> string + OwnerBindingV1" where
  "recovery_context_binding state action =
     (case action of
        Enroll enrollment \<Rightarrow> Inr (gp_target (ge_policy enrollment))
      | _ \<Rightarrow> and_then (ok_or (sta_guardian_recovery state) ''recovery is not enrolled'') (\<lambda>r.
              Inr (rs_binding r)))"

fun is_enroll_action :: "GuardianRecoveryActionV1 \<Rightarrow> bool" where
  "is_enroll_action (Enroll _) = True"
| "is_enroll_action _ = False"

definition recovery_validate_context ::
  "AuthorityStateV1 \<Rightarrow> AuthorityChangeV1 list \<Rightarrow> GrantsAuthorityIdentityV1 \<Rightarrow> string \<Rightarrow> string \<Rightarrow>
   string + unit" where
  "recovery_validate_context state changes authority ledger_id decided_at =
     try_all (\<lambda>change. case change of
         GuardianRecovery command clock \<Rightarrow>
           if rc_writer_epoch clock \<noteq> gi_authority_epoch authority \<or>
              ts_value (rc_wall_time clock) \<noteq> decided_at
           then Inl ''recovery clock is not this canonical writer tenure/time''
           else and_then (recovery_context_binding state (gc_action command)) (\<lambda>binding.
             if ob_mother_node_id binding \<noteq> gi_mother_node_id authority \<or>
                ob_ledger_id binding \<noteq> ledger_id \<or>
                is_enroll_action (gc_action command) \<and>
                  ob_epoch_id binding \<noteq> gi_authority_epoch authority
             then Inl ''recovery targets a different Mother, ledger or enrollment epoch''
             else Inr ())
       | _ \<Rightarrow> Inr ()) changes"

fun authority_change_sort_key :: "AuthorityChangeV1 \<Rightarrow> string \<times> string" where
  "authority_change_sort_key (GuardianRecovery _ _) = (''guardian_recovery'', [])"
| "authority_change_sort_key (AdminKeyIssue request _) =
     (''admin_key_issue'', ag_grant_id (xi_grant (xq_intent request)))"
| "authority_change_sort_key (ToyCatalogPut toy_id _ _ _ _) = (''toy_catalog_put'', toy_id)"
| "authority_change_sort_key (ToyCatalogRemove toy_id) = (''toy_catalog_remove'', toy_id)"
| "authority_change_sort_key (ToyGrantPut grant_id _ _ _ _ _ _ _ _ _) = (''toy_grant_put'', grant_id)"
| "authority_change_sort_key (ToyGrantRemove grant_id) = (''toy_grant_remove'', grant_id)"
| "authority_change_sort_key (WatchScopePut scope) = (''watch_scope_put'', ws_watch_scope_id scope)"
| "authority_change_sort_key (AdminKeyGrantPut grant _) = (''admin_key_grant_put'', ag_grant_id grant)"
| "authority_change_sort_key (AdminKeyGrantRevoke grant_id _) = (''admin_key_grant_revoke'', grant_id)"
| "authority_change_sort_key (PairingTicketIssued ticket_hash _ _ _ _) =
     (''pairing_ticket_issued'', ticket_hash)"
| "authority_change_sort_key (PairingTicketConsumed ticket_hash _ _) =
     (''pairing_ticket_consumed'', ticket_hash)"

text \<open>The order of pairs is lexicographic.\<close>

definition sort_key_less :: "string \<times> string \<Rightarrow> string \<times> string \<Rightarrow> bool" where
  "sort_key_less a b \<longleftrightarrow> fst a < fst b \<or> fst a = fst b \<and> snd a < snd b"

fun grant_shaping_source_is_complete :: "GrantShapingSourceV1 \<Rightarrow> bool" where
  "grant_shaping_source_is_complete (AdminKeySource public_half) \<longleftrightarrow>
     public_half_scheme public_half = AKS_Ed25519"
| "grant_shaping_source_is_complete _ \<longleftrightarrow> True"

definition authority_mutation_intent_hash ::
  "Env \<Rightarrow> AuthorityMutationRequestV1 \<Rightarrow> string ledger_result" where
  "authority_mutation_intent_hash E request =
     (if trim_is_empty (mq_mutation_id request) \<or> mq_changes request = [] \<or>
         mq_grant_shaping_sources request = [] \<or>
         \<not> is_ok (Timestamp_new (en_jiff E) (mq_decided_at request)) \<or>
         list_ex (\<lambda>source. \<not> grant_shaping_source_is_complete source)
           (mq_grant_shaping_sources request)
      then Inl (AuthorityReplayFailed ''authority mutation request is incomplete'')
      else if \<not> successively sort_key_less (map authority_change_sort_key (mq_changes request))
      then Inl (AuthorityReplayFailed ''authority changes are not strictly canonically ordered'')
      else blake3_of (en_crypto E) (en_codec E)
        (and_then (json_seq (jc_change (en_codec E)) (mq_changes request)) (\<lambda>changes.
         and_then (json_seq (jc_source (en_codec E)) (mq_grant_shaping_sources request)) (\<lambda>sources.
         Inr (JObject [(''changes'', changes), (''grant_shaping_sources'', sources)])))))"

end
