(* ===== verification/MCT_Replay.thy ===== *)
theory MCT_Replay
  imports MCT_Authority_State
begin

text \<open>
  The replay of canonical authority facts (\<open>mct-observation/src/lib.rs\<close>, \<open>admin_genesis.rs\<close>,
  \<open>passkey_admin.rs\<close>): the recognition of tail-recovery entries, the validation of epoch, import,
  mutation, genesis and passkey facts against the replayed prefix, and the fold over the entries
  of a ledger.

  \<open>&mut replay\<close> and \<open>&mut used_epochs\<close> are passed and returned. An error ends a replay, and what
  was written before it is dropped. Identifiers built from a fixed non-blank prefix are taken as
  they are, since their constructor accepts them.
\<close>

section \<open>Tail recovery entries\<close>

definition TAIL_RECOVERY_SAFE_MESSAGE :: string where
  "TAIL_RECOVERY_SAFE_MESSAGE = ''observation ledger tail recovered''"

definition opt_starts_with :: "string option \<Rightarrow> string \<Rightarrow> bool" where
  "opt_starts_with s prefix = (case s of None \<Rightarrow> False | Some d \<Rightarrow> starts_with d prefix)"

definition is_tail_recovery_entry :: "MctObservationLedgerEntry \<Rightarrow> bool" where
  "is_tail_recovery_entry entry \<longleftrightarrow>
     (let ob = le_observation entry in
      starts_with (mo_observation_id ob) ''ledger-tail-recovery-'' \<and>
      mo_kind ob = OK_StorageAppendSucceeded \<and> mo_source_plane ob = SP_Storage \<and>
      opt_starts_with (mo_detail_ref ob) ''ledger-tail-recovery-v1:'')"

text \<open>\<open>str::parse\<close> of a \<open>u64\<close>: an optional plus sign, then at least one digit, in range.\<close>

definition digits_value :: "string \<Rightarrow> nat" where
  "digits_value s = foldl (\<lambda>n c. 10 * n + (of_char c - 48)) 0 s"

definition parse_u64 :: "string \<Rightarrow> u64 option" where
  "parse_u64 s =
     (let digits = (case s of c # rest \<Rightarrow> if c = CHR ''+'' then rest else s | [] \<Rightarrow> s) in
      if digits = [] \<or> \<not> list_all is_ascii_digit digits \<or> 2 ^ 64 \<le> digits_value digits then None
      else Some (of_nat (digits_value digits)))"

definition tail_recovery_identity :: "MctObservationLedgerEntry \<Rightarrow> (u64 \<times> string) option" where
  "tail_recovery_identity entry =
     (case strip_prefix ''ledger-tail-recovery-'' (mo_observation_id (le_observation entry)) of
        None \<Rightarrow> None
      | Some rest \<Rightarrow>
          (case split_once (CHR ''-'') rest of
             None \<Rightarrow> None
           | Some (offset_text, digest) \<Rightarrow>
               (case parse_u64 offset_text of
                  None \<Rightarrow> None
                | Some offset \<Rightarrow>
                    if dec_u64 offset = offset_text \<and> is_digest64 digest
                    then Some (offset, digest) else None)))"

definition is_valid_tail_recovery_entry :: "MctObservationLedgerEntry \<Rightarrow> bool" where
  "is_valid_tail_recovery_entry entry \<longleftrightarrow>
     (case tail_recovery_identity entry of
        None \<Rightarrow> False
      | Some (_, digest) \<Rightarrow>
          let ob = le_observation entry; trace = mo_trace ob in
          is_tail_recovery_entry entry \<and>
          mo_detail_ref ob = Some (''ledger-tail-recovery-v1:'' @ digest) \<and>
          tf_trace_id trace = ''trace-'' @ mo_observation_id ob \<and>
          tf_span_id trace = None \<and> tf_parent_span_id trace = None \<and>
          tf_external_trace_id trace = None \<and>
          mo_call_id ob = None \<and> mo_decision_id ob = None \<and>
          mo_subject_id ob = Some (le_mother_node_id entry) \<and>
          mo_resource_id ob = Some (le_ledger_id entry) \<and>
          mo_policy_revision ob = None \<and> mo_grants_revision ob = None \<and>
          mo_outcome ob = OO_Completed \<and> mo_visibility ob = OV_NodeOperator \<and>
          mo_safe_message ob = TAIL_RECOVERY_SAFE_MESSAGE \<and>
          ts_value (mo_observed_at ob) = le_appended_at entry \<and>
          le_durability_class entry = BeforeEffect \<and> le_export_status entry = ES_NotRequired)"

section \<open>Observations of canonical facts\<close>

text \<open>The fields every canonical fact sets the same way.\<close>

definition canonical_observation ::
  "string \<Rightarrow> Timestamp \<Rightarrow> ObservationKind \<Rightarrow> SourcePlane \<Rightarrow> string \<Rightarrow> string \<Rightarrow> string \<Rightarrow> u64 \<Rightarrow> string \<Rightarrow>
   string \<Rightarrow> MctObservation" where
  "canonical_observation ident at kind plane trace_id mother ledger revision msg detail =
     \<lparr>mo_observation_id = ident, mo_observed_at = at, mo_kind = kind, mo_source_plane = plane,
      mo_trace = trace_only trace_id, mo_call_id = None, mo_decision_id = None,
      mo_subject_id = Some mother, mo_resource_id = Some ledger, mo_policy_revision = None,
      mo_grants_revision = Some revision, mo_outcome = OO_Allowed,
      mo_visibility = OV_NodeOperator, mo_safe_message = msg, mo_detail_ref = Some detail\<rparr>"

definition mutation_fact_id :: "string \<Rightarrow> string" where
  "mutation_fact_id mutation_id = ''obs:authority-mutation:'' @ mutation_id"

definition authority_mutation_observation ::
  "jiff \<Rightarrow> string \<Rightarrow> AuthorityMutationFactV1 \<Rightarrow> string \<Rightarrow> MctObservation ledger_result" where
  "authority_mutation_observation J fact_id f detail_ref =
     and_then (map_err (\<lambda>e. AuthorityReplayFailed (MctKernelError_display e))
                 (Timestamp_new J (mf_decided_at f))) (\<lambda>at.
     Inr (canonical_observation fact_id at OK_OperatorActionRecorded SP_Kernel
       (''trace:authority-mutation:'' @ mf_mutation_id f) (mf_mother_node_id f) (mf_ledger_id f)
       (gi_generation (sr_grants_authority (mf_resulting_state f)))
       ''canonical authority mutation committed'' detail_ref))"

definition legacy_import_observation ::
  "jiff \<Rightarrow> string \<Rightarrow> LegacyAuthorityImportFactV1 \<Rightarrow> string \<Rightarrow> MctObservation ledger_result" where
  "legacy_import_observation J fact_id f detail_ref =
     and_then (map_err (\<lambda>e. AuthorityReplayFailed (MctKernelError_display e))
                 (Timestamp_new J (io_decided_at (li_operator_decision f)))) (\<lambda>at.
     Inr (canonical_observation fact_id at OK_OperatorActionRecorded SP_Operator
       (''trace:legacy-authority-import:'' @ li_import_id f) (li_mother_node_id f) (li_ledger_id f)
       (gi_generation (sr_grants_authority (li_resulting_state f)))
       ''legacy Toy authority imported as canonical'' detail_ref))"

definition genesis_fact_id :: "AdminGenesisFactV1 \<Rightarrow> string" where
  "genesis_fact_id f = ''obs:admin-genesis:'' @ gn_bootstrap_id (gq_intent (gf_request f))"

definition genesis_identity :: "AdminGenesisFactV1 \<Rightarrow> GrantsAuthorityIdentityV1" where
  "genesis_identity f =
     (let i = gq_intent (gf_request f) in
      \<lparr>gi_mother_node_id = gn_mother_node_id i, gi_authority_epoch = gn_birth_epoch i,
       gi_generation = 1, gi_source_authority_observation_id = genesis_fact_id f\<rparr>)"

definition genesis_observation :: "Codec \<Rightarrow> AdminGenesisFactV1 \<Rightarrow> MctObservation ledger_result" where
  "genesis_observation K f =
     (let i = gq_intent (gf_request f) in
      and_then (encode_authority_fact K ''admin_genesis'' (genesis_fact_id f) (jc_genesis_fact K f))
        (\<lambda>detail.
      Inr (canonical_observation (genesis_fact_id f) (gf_decided_at f) OK_OperatorActionRecorded
        SP_Kernel (''trace:admin-genesis:'' @ gn_bootstrap_id i) (gn_mother_node_id i)
        (gn_ledger_id i) 1 ''strict administrative genesis committed'' detail)))"

section \<open>Passkey facts (passkey\_admin.rs)\<close>

definition denied :: "string \<Rightarrow> ObservationLedgerError" where
  "denied detail = AuthorityReplayFailed detail"

definition passkey_fact_id :: "Env \<Rightarrow> PasskeyAdminFactV1 \<Rightarrow> string ledger_result" where
  "passkey_fact_id E f =
     and_then (blake3_of (en_crypto E) (en_codec E)
                 (jc_passkey_request (en_codec E) (kf_request f))) (\<lambda>h.
     Inr (''obs:passkey-admin:'' @ h))"

definition passkey_identity ::
  "Env \<Rightarrow> PasskeyAdminFactV1 \<Rightarrow> GrantsAuthorityIdentityV1 ledger_result" where
  "passkey_identity E f =
     (let i = pr_intent (kf_request f) in
      and_then (ok_or (checked_add_u64 (pi_generation i) 1) (denied ''generation overflow'')) (\<lambda>gen.
      and_then (passkey_fact_id E f) (\<lambda>ident.
      Inr \<lparr>gi_mother_node_id = pi_mother_node_id i, gi_authority_epoch = pi_epoch i,
           gi_generation = gen, gi_source_authority_observation_id = ident\<rparr>)))"

definition passkey_observation :: "Env \<Rightarrow> PasskeyAdminFactV1 \<Rightarrow> MctObservation ledger_result" where
  "passkey_observation E f =
     (let i = pr_intent (kf_request f) in
      and_then (passkey_fact_id E f) (\<lambda>ident.
      and_then (passkey_identity E f) (\<lambda>identity.
      and_then (encode_authority_fact (en_codec E) ''passkey_admin'' ident
                  (jc_passkey_fact (en_codec E) f)) (\<lambda>detail.
      Inr (canonical_observation ident (kf_decided_at f) OK_OperatorActionRecorded SP_Kernel
        (''trace:'' @ ident) (pi_mother_node_id i) (pi_ledger_id i) (gi_generation identity)
        ''passkey administration committed'' detail)))))"

definition passkey_transition ::
  "Env \<Rightarrow> AuthorityReplayV1 \<Rightarrow> PasskeyAdminFactV1 \<Rightarrow> PasskeyAdminCanonicalV1 ledger_result" where
  "passkey_transition E replay f =
     (let i = pr_intent (kf_request f);
          evaluate = (\<lambda>prior. map_err denied
            (evaluate_passkey_admin_transition (en_crypto E) (en_jiff E) (en_web E) prior
               (kf_request f) (kf_decided_at f))) in
      case sta_passkey_admin (ry_state replay) of
        Some prior \<Rightarrow>
          and_then (ok_or (ry_current_authority replay) (denied ''missing authority'')) (\<lambda>current.
          if pi_mother_node_id i \<noteq> gi_mother_node_id current \<or>
             pi_epoch i \<noteq> gi_authority_epoch current \<or> pi_generation i \<noteq> gi_generation current \<or>
             pi_authority_observation_id i \<noteq> gi_source_authority_observation_id current
          then Inl (denied ''stale or wrong authority snapshot'')
          else and_then (evaluate (Some (kc_state prior))) (\<lambda>state.
            Inr \<lparr>kc_genesis = kc_genesis prior, kc_state = state\<rparr>))
      | None \<Rightarrow>
          (case pi_action i of
             PA_Bootstrap _ inventory_hash \<Rightarrow>
               if ry_state replay \<noteq> AuthorityStateV1_default \<or> ry_current_authority replay \<noteq> None \<or>
                  ry_canonical_fact_count replay \<noteq> 0 \<or> pi_generation i \<noteq> 0 \<or>
                  pi_authority_observation_id i \<noteq> [] \<or>
                  \<not> (case strip_prefix AUTHORITY_EPOCH_PREFIX_V1 (pi_epoch i) of
                       None \<Rightarrow> False | Some rest \<Rightarrow> is_digest64 rest) \<or>
                  \<not> is_digest64 inventory_hash
               then Inl (denied ''legacy authority cannot promote into passkey genesis'')
               else and_then (evaluate None) (\<lambda>state.
                 Inr \<lparr>kc_genesis = f, kc_state = state\<rparr>)
           | _ \<Rightarrow> Inl (denied ''no passkey genesis'')))"

type_synonym replay_acc = "AuthorityReplayV1 \<times> string set"
type_synonym head = "(u64 \<times> string) option"

definition replay_fail :: "ObservationLedgerError \<Rightarrow> AuthorityReplayError" where
  "replay_fail e = authority_incoherent (ledger_error_display e)"

definition passkey_replay_fact ::
  "Env \<Rightarrow> AuthorityReplayV1 \<Rightarrow> string set \<Rightarrow> head \<Rightarrow> MctObservationLedgerEntry \<Rightarrow> PasskeyAdminFactV1 \<Rightarrow>
   replay_acc replay_result" where
  "passkey_replay_fact E replay used_epochs previous entry f =
     (let i = pr_intent (kf_request f);
          mismatch = Inl (authority_incoherent ''passkey fact envelope mismatch'') in
      if le_mother_node_id entry \<noteq> pi_mother_node_id i \<or> le_ledger_id entry \<noteq> pi_ledger_id i \<or>
         le_durability_class entry \<noteq> BeforeEffect \<or> le_appended_at entry \<noteq> ts_value (kf_decided_at f)
      then mismatch
      else and_then (map_err replay_fail (passkey_observation E f)) (\<lambda>ob.
        if \<not> observation_eq (le_observation entry) ob then mismatch
        else if sta_passkey_admin (ry_state replay) = None \<and>
                (previous \<noteq> None \<or> le_previous_entry_hash entry \<noteq> None \<or>
                 le_local_sequence entry \<noteq> 0 \<or> used_epochs \<noteq> {})
        then Inl (authority_incoherent ''passkey genesis must be the first physical frame'')
        else
          let used = (if sta_passkey_admin (ry_state replay) = None
                      then insert (pi_epoch i) used_epochs else used_epochs) in
          and_then (map_err replay_fail (passkey_transition E replay f)) (\<lambda>next.
          and_then (map_err replay_fail (passkey_identity E f)) (\<lambda>identity.
          Inr (replay\<lparr>ry_current_authority := Some identity,
                 ry_state := (ry_state replay)\<lparr>sta_passkey_admin := Some next\<rparr>,
                 ry_canonical_fact_count := ry_canonical_fact_count replay + 1\<rparr>, used)))))"

section \<open>Strict genesis (admin\_genesis.rs)\<close>

definition replay_genesis ::
  "Env \<Rightarrow> AuthorityReplayV1 \<Rightarrow> string set \<Rightarrow> head \<Rightarrow> MctObservationLedgerEntry \<Rightarrow> AdminGenesisFactV1 \<Rightarrow>
   replay_acc replay_result" where
  "replay_genesis E replay used_epochs previous entry f =
     (let i = gq_intent (gf_request f);
          late = Inl (authority_incoherent
            ''strict genesis must be the exact first canonical frame'') in
      and_then (map_err replay_fail (genesis_validate E (gf_request f))) (\<lambda>_.
      if previous \<noteq> None \<or> le_previous_entry_hash entry \<noteq> None \<or> le_local_sequence entry \<noteq> 0 \<or>
         ry_current_authority replay \<noteq> None \<or> ry_state replay \<noteq> AuthorityStateV1_default \<or>
         ry_canonical_fact_count replay \<noteq> 0 \<or> used_epochs \<noteq> {} \<or>
         le_mother_node_id entry \<noteq> gn_mother_node_id i \<or> le_ledger_id entry \<noteq> gn_ledger_id i \<or>
         le_durability_class entry \<noteq> BeforeEffect \<or> le_appended_at entry \<noteq> ts_value (gf_decided_at f)
      then late
      else and_then (map_err replay_fail (genesis_observation (en_codec E) f)) (\<lambda>ob.
        if \<not> observation_eq (le_observation entry) ob then late
        else Inr (replay\<lparr>ry_current_authority := Some (genesis_identity f),
          ry_admin_signature_nonces :=
            insert (ag_grant_id (gn_root i), 0) (ry_admin_signature_nonces replay),
          ry_state := (ry_state replay)
            \<lparr>sta_admin_key_grants :=
               fmupd (ag_grant_id (gn_root i)) (gn_root i) (sta_admin_key_grants (ry_state replay)),
             sta_admin_genesis := Some f\<rparr>,
          ry_canonical_fact_count := ry_canonical_fact_count replay + 1\<rparr>,
          insert (gn_birth_epoch i) used_epochs))))"

section \<open>Validation of epoch, import and mutation facts (lib.rs)\<close>

definition incoherent_at :: "MctObservationLedgerEntry \<Rightarrow> string \<Rightarrow> AuthorityReplayError" where
  "incoherent_at entry detail = ReplayIncoherent (le_local_sequence entry) detail"

definition opt_non_blank :: "string option \<Rightarrow> bool" where
  "opt_non_blank s = (case s of None \<Rightarrow> False | Some v \<Rightarrow> \<not> trim_is_empty v)"

definition startup_relation_valid :: "head \<Rightarrow> AuthorityReplayV1 \<Rightarrow> EpochEstablishedFactV1 \<Rightarrow> bool" where
  "startup_relation_valid previous replay f =
     (let establishment = ef_establishment f;
          validated_head = map_option (\<lambda>(sequence, entry_hash). ValidatedHead sequence entry_hash) previous;
          no_operator_evidence = (wt_operator_gate_decision_id establishment = None \<and>
            wt_authenticated_principal_ref establishment = None);
          complete_operator_evidence =
            (opt_non_blank (wt_operator_gate_decision_id establishment) \<and>
             opt_non_blank (wt_authenticated_principal_ref establishment)) in
      case (ry_current_authority replay, validated_head, wt_startup_class establishment) of
        (None, None, Virgin) \<Rightarrow> ef_predecessor f = NoneForVirgin \<and> no_operator_evidence
      | (None, None, OperatorGatedNonvirgin) \<Rightarrow>
          ef_predecessor f = NoneAfterOperatorReinitialization \<and> complete_operator_evidence
      | (None, Some _, OperatorGatedNonvirgin) \<Rightarrow>
          ry_tail_recovery_only replay \<and>
          ef_predecessor f = NoneAfterOperatorReinitialization \<and> complete_operator_evidence
      | (None, Some expected, LegacyLedgerUpgrade) \<Rightarrow>
          ef_predecessor f = expected \<and> no_operator_evidence
      | (Some _, Some expected, OrdinaryReopen) \<Rightarrow>
          ef_predecessor f = expected \<and> no_operator_evidence
      | _ \<Rightarrow> False)"

text \<open>The carrier fields of the entry, shared by the three validations.\<close>

definition carrier_ok ::
  "MctObservationLedgerEntry \<Rightarrow> ObservationKind \<Rightarrow> SourcePlane \<Rightarrow> u64 \<Rightarrow> bool" where
  "carrier_ok entry kind plane revision \<longleftrightarrow>
     (let ob = le_observation entry in
      mo_kind ob = kind \<and> mo_source_plane ob = plane \<and> le_durability_class entry = BeforeEffect \<and>
      mo_visibility ob = OV_NodeOperator \<and> mo_subject_id ob = Some (le_mother_node_id entry) \<and>
      mo_resource_id ob = Some (le_ledger_id entry) \<and> mo_grants_revision ob = Some revision)"

definition current_generation :: "AuthorityReplayV1 \<Rightarrow> u64" where
  "current_generation replay =
     (case ry_current_authority replay of None \<Rightarrow> 0 | Some identity \<Rightarrow> gi_generation identity)"

definition identity_of_entry ::
  "MctObservationLedgerEntry \<Rightarrow> string \<Rightarrow> u64 \<Rightarrow> GrantsAuthorityIdentityV1" where
  "identity_of_entry entry epoch generation =
     \<lparr>gi_mother_node_id = le_mother_node_id entry, gi_authority_epoch = epoch,
      gi_generation = generation,
      gi_source_authority_observation_id = mo_observation_id (le_observation entry)\<rparr>"

definition validate_epoch_fact ::
  "Env \<Rightarrow> head \<Rightarrow> MctObservationLedgerEntry \<Rightarrow> AuthorityReplayV1 \<Rightarrow> string set \<Rightarrow>
   EpochEstablishedFactV1 \<Rightarrow> unit replay_result" where
  "validate_epoch_fact E previous entry replay used_epochs f =
     and_then (map_err (\<lambda>e. incoherent_at entry (ledger_error_display e))
                 (authority_state_hash E (ry_state replay))) (\<lambda>expected_hash.
     if \<not> carrier_ok entry OK_LifecycleTransitionRecorded SP_Storage (ef_generation_baseline f)
     then Inl (incoherent_at entry ''epoch observation carrier fields do not match schema'')
     else if ef_mother_node_id f \<noteq> le_mother_node_id entry \<or> ef_ledger_id f \<noteq> le_ledger_id entry \<or>
             \<not> startup_relation_valid previous replay f \<or>
             \<not> is_ok (Timestamp_new (en_jiff E) (wt_started_at (ef_establishment f))) \<or>
             ef_generation_baseline f \<noteq> current_generation replay \<or>
             ef_prior_authority f \<noteq> ry_current_authority replay \<or>
             ef_grant_state_hash f \<noteq> expected_hash \<or> ef_authority_epoch f \<in> used_epochs \<or>
             \<not> starts_with (ef_authority_epoch f) AUTHORITY_EPOCH_PREFIX_V1 \<or>
             length (ef_authority_epoch f) \<noteq> length AUTHORITY_EPOCH_PREFIX_V1 + 64
     then Inl (incoherent_at entry ''epoch body does not match replayed predecessor state'')
     else if ef_resulting_authority f \<noteq>
             identity_of_entry entry (ef_authority_epoch f) (ef_generation_baseline f)
     then Inl (incoherent_at entry ''epoch resulting authority identity is invalid'')
     else Inr ())"

definition state_is_legacy :: "AuthorityStateV1 \<Rightarrow> bool" where
  "state_is_legacy state \<longleftrightarrow>
     sta_passkey_admin state = None \<and> sta_admin_genesis state = None \<and>
     sta_guardian_recovery state = None \<and> sta_admin_issuance state = fmempty"

definition validate_legacy_import_fact ::
  "Env \<Rightarrow> MctObservationLedgerEntry \<Rightarrow> AuthorityReplayV1 \<Rightarrow> LegacyAuthorityImportFactV1 \<Rightarrow>
   unit replay_result" where
  "validate_legacy_import_fact E entry replay f =
     (let hash_of = (\<lambda>state. map_err (\<lambda>e. incoherent_at entry (ledger_error_display e))
            (authority_state_hash E state)) in
      if \<not> state_is_legacy (ry_state replay) \<or> \<not> state_is_legacy (li_imported_state f)
      then Inl (incoherent_at entry
        ''legacy import cannot introduce or overwrite recovery authority'')
      else
        and_then (ok_or (ry_current_authority replay)
          (incoherent_at entry ''legacy import precedes epoch establishment'')) (\<lambda>prior_authority.
        and_then (hash_of (ry_state replay)) (\<lambda>prior_hash.
        and_then (map_err (incoherent_at entry)
                    (validate_watch_scope_state E (li_imported_state f))) (\<lambda>_.
        and_then (hash_of (li_imported_state f)) (\<lambda>imported_hash.
        and_then (ok_or (checked_add_u64 (gi_generation prior_authority) 1)
          (incoherent_at entry ''authority generation overflow'')) (\<lambda>expected_generation.
        if \<not> carrier_ok entry OK_OperatorActionRecorded SP_Operator expected_generation \<or>
           li_mother_node_id f \<noteq> le_mother_node_id entry \<or> li_ledger_id f \<noteq> le_ledger_id entry \<or>
           li_authority_epoch f \<noteq> gi_authority_epoch prior_authority \<or>
           io_confirmation (li_operator_decision f) \<noteq> LEGACY_AUTHORITY_IMPORT_CONFIRMATION_V1 \<or>
           sr_grants_authority (li_prior_state f) \<noteq> prior_authority \<or>
           sr_authority_state_hash (li_prior_state f) \<noteq> prior_hash \<or>
           sr_grants_authority (li_resulting_state f) \<noteq>
             identity_of_entry entry (gi_authority_epoch prior_authority) expected_generation \<or>
           sr_authority_state_hash (li_resulting_state f) \<noteq> imported_hash \<or>
           ise_sqlite_authority_hash (li_source_evidence f) \<noteq> imported_hash
        then Inl (incoherent_at entry ''legacy import does not match replayed prior/imported state'')
        else Inr ()))))))"

definition fact_request :: "AuthorityMutationFactV1 \<Rightarrow> AuthorityMutationRequestV1" where
  "fact_request f =
     \<lparr>mq_mutation_id = mf_mutation_id f, mq_changes = mf_changes f,
      mq_grant_shaping_sources = mf_grant_shaping_sources f, mq_decided_at = mf_decided_at f\<rparr>"

definition validate_authority_mutation_fact ::
  "Env \<Rightarrow> MctObservationLedgerEntry \<Rightarrow> AuthorityReplayV1 \<Rightarrow> AuthorityMutationFactV1 \<Rightarrow>
   AuthorityStateV1 replay_result" where
  "validate_authority_mutation_fact E entry replay f =
     (let at = incoherent_at entry;
          hash_of = (\<lambda>state. map_err (\<lambda>e. at (ledger_error_display e)) (authority_state_hash E state)) in
      and_then (ok_or (ry_current_authority replay)
        (at ''authority mutation precedes epoch establishment'')) (\<lambda>prior_authority.
      and_then (map_err (\<lambda>e. at (ledger_error_display e))
        (authority_mutation_intent_hash E (fact_request f))) (\<lambda>expected_intent.
      and_then (hash_of (ry_state replay)) (\<lambda>prior_hash.
      and_then (map_err at (verify_admin_change_signatures E (ry_state replay)
        (ry_admin_signature_nonces replay) (mf_mother_node_id f) (mf_ledger_id f)
        (mf_changes f))) (\<lambda>_.
      and_then (map_err at (issuance_validate_context (ry_admin_grant_ids replay) (mf_changes f)
        prior_authority (le_ledger_id entry) (mf_mutation_id f) (mf_decided_at f))) (\<lambda>_.
      and_then (map_err at (recovery_validate_context (ry_state replay) (mf_changes f)
        prior_authority (le_ledger_id entry) (mf_decided_at f))) (\<lambda>_.
      and_then (map_err (\<lambda>e. at (AuthorityReplayError_display e))
        (apply_authority_changes E (ry_state replay) (mf_changes f))) (\<lambda>resulting_state.
      and_then (hash_of resulting_state) (\<lambda>resulting_hash.
      and_then (ok_or (checked_add_u64 (gi_generation prior_authority) 1)
        (at ''authority generation overflow'')) (\<lambda>expected_generation.
      if \<not> carrier_ok entry OK_OperatorActionRecorded SP_Kernel expected_generation \<or>
         mf_mother_node_id f \<noteq> le_mother_node_id entry \<or> mf_ledger_id f \<noteq> le_ledger_id entry \<or>
         mf_authority_epoch f \<noteq> gi_authority_epoch prior_authority \<or>
         mf_mutation_intent_hash f \<noteq> expected_intent \<or>
         sr_grants_authority (mf_prior_state f) \<noteq> prior_authority \<or>
         sr_authority_state_hash (mf_prior_state f) \<noteq> prior_hash \<or>
         sr_grants_authority (mf_resulting_state f) \<noteq>
           identity_of_entry entry (gi_authority_epoch prior_authority) expected_generation \<or>
         sr_authority_state_hash (mf_resulting_state f) \<noteq> resulting_hash
      then Inl (at ''authority mutation does not match replayed prior/resulting state'')
      else Inr resulting_state))))))))))"

section \<open>The fold (lib.rs)\<close>

definition empty_authority_replay :: AuthorityReplayV1 where
  "empty_authority_replay =
     \<lparr>ry_state = AuthorityStateV1_default, ry_current_authority = None, ry_imported = False,
      ry_import = None, ry_mutations = Map.empty, ry_facts = [], ry_canonical_fact_count = 0,
      ry_admin_signature_nonces = {}, ry_admin_grant_ids = {}, ry_tail_recovery_only = True\<rparr>"

text \<open>The arms of the match on the kind of a fact.\<close>

definition fold_epoch ::
  "Env \<Rightarrow> AuthorityReplayV1 \<Rightarrow> string set \<Rightarrow> head \<Rightarrow> MctObservationLedgerEntry \<Rightarrow>
   EpochEstablishedFactV1 \<Rightarrow> replay_acc replay_result" where
  "fold_epoch E replay used_epochs previous entry f =
     and_then (validate_epoch_fact E previous entry replay used_epochs f) (\<lambda>_.
     Inr (replay\<lparr>ry_current_authority := Some (ef_resulting_authority f),
            ry_canonical_fact_count := ry_canonical_fact_count replay + 1\<rparr>,
          insert (ef_authority_epoch f) used_epochs))"

definition fold_mutation ::
  "Env \<Rightarrow> AuthorityReplayV1 \<Rightarrow> MctObservationLedgerEntry \<Rightarrow> AuthorityMutationFactV1 \<Rightarrow>
   AuthorityReplayV1 replay_result" where
  "fold_mutation E replay entry f =
     and_then (validate_authority_mutation_fact E entry replay f) (\<lambda>resulting_state.
     if ry_mutations replay (mf_mutation_id f) \<noteq> None
     then Inl (incoherent_at entry ''duplicate canonical authority mutation id'')
     else Inr (replay\<lparr>
       ry_admin_signature_nonces :=
         record_admin_signature_nonces (ry_admin_signature_nonces replay) (mf_changes f),
       ry_mutations := (ry_mutations replay)(mf_mutation_id f \<mapsto>
         \<lparr>cm_fact = f, cm_entry_sequence = le_local_sequence entry,
          cm_entry_hash = le_entry_hash entry\<rparr>),
       ry_state := resulting_state,
       ry_current_authority := Some (sr_grants_authority (mf_resulting_state f)),
       ry_canonical_fact_count := ry_canonical_fact_count replay + 1\<rparr>))"

definition fold_import ::
  "Env \<Rightarrow> AuthorityReplayV1 \<Rightarrow> MctObservationLedgerEntry \<Rightarrow> LegacyAuthorityImportFactV1 \<Rightarrow>
   AuthorityReplayV1 replay_result" where
  "fold_import E replay entry f =
     and_then (validate_legacy_import_fact E entry replay f) (\<lambda>_.
     if ry_imported replay \<or> ry_mutations replay \<noteq> Map.empty
     then Inl (incoherent_at entry ''legacy authority import is not one-time or precedes mutations'')
     else Inr (replay\<lparr>
       ry_state := li_imported_state f,
       ry_current_authority := Some (sr_grants_authority (li_resulting_state f)),
       ry_imported := True,
       ry_import := Some \<lparr>cim_fact = f, cim_entry_sequence = le_local_sequence entry,
                          cim_entry_hash = le_entry_hash entry\<rparr>,
       ry_canonical_fact_count := ry_canonical_fact_count replay + 1\<rparr>))"

definition fold_fact ::
  "Env \<Rightarrow> AuthorityReplayV1 \<Rightarrow> string set \<Rightarrow> head \<Rightarrow> MctObservationLedgerEntry \<Rightarrow>
   CanonicalAuthorityEnvelopeV1 \<Rightarrow> replay_acc replay_result" where
  "fold_fact E replay used_epochs previous entry envelope =
     (let K = en_codec E; kind = ev_fact_kind envelope; body = ev_body envelope in
      if kind = ''passkey_admin'' then
        and_then (map_err (ReplayMalformed (le_local_sequence entry)) (jd_passkey_fact K body)) (\<lambda>f.
        passkey_replay_fact E replay used_epochs previous entry f)
      else if kind = ''admin_genesis'' then
        and_then (map_err (ReplayMalformed (le_local_sequence entry)) (jd_genesis_fact K body)) (\<lambda>f.
        replay_genesis E replay used_epochs previous entry f)
      else if kind = ''epoch_established'' then
        and_then (map_err (ReplayMalformed (le_local_sequence entry)) (jd_epoch_fact K body)) (\<lambda>f.
        fold_epoch E replay used_epochs previous entry f)
      else if kind = ''authority_mutation'' then
        and_then (map_err (ReplayMalformed (le_local_sequence entry)) (jd_mutation_fact K body)) (\<lambda>f.
        and_then (fold_mutation E replay entry f) (\<lambda>replay'. Inr (replay', used_epochs)))
      else if kind = ''legacy_authority_import'' then
        and_then (map_err (ReplayMalformed (le_local_sequence entry)) (jd_import_fact K body)) (\<lambda>f.
        and_then (fold_import E replay entry f) (\<lambda>replay'. Inr (replay', used_epochs)))
      else Inl (ReplayUnknownFactKind (le_local_sequence entry) kind))"

definition authority_payload :: "MctObservationLedgerEntry \<Rightarrow> string option" where
  "authority_payload entry =
     (case mo_detail_ref (le_observation entry) of
        None \<Rightarrow> None | Some detail \<Rightarrow> strip_prefix AUTHORITY_FACT_DETAIL_PREFIX detail)"

definition fold_authority_entry_body ::
  "Env \<Rightarrow> AuthorityReplayV1 \<Rightarrow> string set \<Rightarrow> head \<Rightarrow> MctObservationLedgerEntry \<Rightarrow>
   replay_acc replay_result" where
  "fold_authority_entry_body E replay used_epochs previous entry =
     (case authority_payload entry of
        None \<Rightarrow> Inr (replay, used_epochs)
      | Some payload \<Rightarrow>
          and_then (map_err (ReplayMalformed (le_local_sequence entry))
                      (jd_envelope (en_codec E) payload)) (\<lambda>envelope.
          if ev_schema envelope \<noteq> AUTHORITY_FACT_SCHEMA_V1
          then Inl (ReplayUnknownSchema (le_local_sequence entry) (ev_schema envelope))
          else if ev_fact_id envelope \<noteq> mo_observation_id (le_observation entry)
          then Inl (incoherent_at entry ''fact_id does not match observation_id'')
          else and_then (fold_fact E replay used_epochs previous entry envelope) (\<lambda>(replay', used').
            Inr (replay'\<lparr>ry_facts := ry_facts replay' @
              [\<lparr>fr_fact_id = ev_fact_id envelope, fr_fact_kind = ev_fact_kind envelope,
                fr_source_sequence = le_local_sequence entry,
                fr_source_entry_hash = le_entry_hash entry,
                fr_canonical_payload = payload\<rparr>]\<rparr>, used'))))"

definition fold_authority_entry ::
  "Env \<Rightarrow> AuthorityReplayV1 \<Rightarrow> string set \<Rightarrow> head \<Rightarrow> MctObservationLedgerEntry \<Rightarrow>
   replay_acc replay_result" where
  "fold_authority_entry E replay used_epochs previous entry =
     and_then (fold_authority_entry_body E replay used_epochs previous entry) (\<lambda>(replay', used').
     Inr (replay'\<lparr>ry_tail_recovery_only :=
            ry_tail_recovery_only replay' \<and> is_valid_tail_recovery_entry entry,
          ry_admin_grant_ids := ry_admin_grant_ids replay' \<union>
            fset (fmdom (sta_admin_key_grants (ry_state replay')))\<rparr>, used'))"

fun replay_entries_loop ::
  "Env \<Rightarrow> AuthorityReplayV1 \<Rightarrow> string set \<Rightarrow> head \<Rightarrow> MctObservationLedgerEntry list \<Rightarrow>
   AuthorityReplayV1 replay_result" where
  "replay_entries_loop E replay used_epochs previous [] = Inr replay"
| "replay_entries_loop E replay used_epochs previous (entry # rest) =
     and_then (fold_authority_entry E replay used_epochs previous entry) (\<lambda>(replay', used').
     replay_entries_loop E replay' used' (Some (le_local_sequence entry, le_entry_hash entry)) rest)"

definition replay_authority_entries ::
  "Env \<Rightarrow> MctObservationLedgerEntry list \<Rightarrow> AuthorityReplayV1 replay_result" where
  "replay_authority_entries E entries =
     replay_entries_loop E empty_authority_replay {} None entries"

end
