(* ===== verification/MCT_Ledger.thy ===== *)
theory MCT_Ledger
  imports MCT_Replay
begin

text \<open>
  The hash-chained ledger file (\<open>mct-observation/src/lib.rs\<close>): frames, the scanner that
  classifies a file, the writer with its poisoning, the reading iterator, streaming
  verification, checkpoints and the process-local cache of verified heads.

  A file is its bytes. \<open>JsonlObservationLedger.file\<close> is the content of the open file, which only
  the holder of the writer lock extends. \<open>blake3::Hasher\<close> is the list of the bytes fed to it.
  Reading a file is an argument: its bytes or the error of the operating system. The outcome
  of a write is an argument too: success, a failure after some bytes, or a failed sync. The
  clock that only measures elapsed time is an argument of the operations that read it.
\<close>

record LEnv =
  ln_env :: Env
  ln_entry_to_vec :: "MctObservationLedgerEntry \<Rightarrow> string + string"
  ln_entry_from_slice :: "string \<Rightarrow> string + MctObservationLedgerEntry"
  ln_canonicalize :: "string \<Rightarrow> string"

type_synonym file_read = "string + string"

section \<open>Types\<close>

record LedgerRecoveryStatus =
  rv_ledger_path :: string
  rv_source_ledger_id :: string
  rv_source_mother_node_id :: string
  rv_residue_offset :: u64
  rv_residue_length :: u64
  rv_residue_digest :: string
  rv_last_committed_sequence :: "u64 option"
  rv_last_committed_hash :: "string option"
  rv_failure_class :: string
  rv_recovery_decision_id :: string
  rv_recovery_time :: string
  rv_preserved_bytes_path :: string
  rv_diagnostic_record_path :: string
  rv_recovery_complete :: bool

record LedgerScanState =
  ls_next_sequence :: u64
  ls_previous_hash :: "string option"
  ls_committed_len :: u64
  ls_recovery_observation_ids :: "string set"
  ls_authority_replay :: "string + AuthorityReplayV1"
  ls_used_epochs :: "string set"
  ls_prefix_hasher :: string
  ls_last_observation_id :: "string option"
  ls_last_frame_len :: u64

record LedgerTailResidue =
  lr_offset :: u64
  lr_bytes :: string
  lr_digest :: string
  lr_state :: LedgerScanState

datatype LedgerScan =
    ScanReady LedgerScanState
  | ScanResidue LedgerTailResidue
  | ScanQuarantine LedgerQuarantineStatus
  | ScanForeignLineage LedgerQuarantineStatus

record AuthorityWriterTenureV1 =
  tn_fact :: EpochEstablishedFactV1
  tn_entry :: MctObservationLedgerEntry

datatype LedgerWriterState = WriterReady | WriterIsPoisoned

record JsonlObservationLedger =
  jl_path :: string
  jl_file :: string
  jl_created_new :: bool
  jl_ledger_id :: string
  jl_mother_node_id :: string
  jl_next_sequence :: u64
  jl_previous_hash :: "string option"
  jl_recovery_status :: "LedgerRecoveryStatus option"
  jl_authority_tenure :: "AuthorityWriterTenureV1 option"
  jl_recovery_wait_offset_ms :: u64
  jl_writer_state :: LedgerWriterState
  jl_authority_replay :: "string + AuthorityReplayV1"
  jl_used_epochs :: "string set"
  jl_prefix_hasher :: string
  jl_prefix_len :: u64
  jl_last_observation_id :: "string option"
  jl_last_frame_len :: u64

record LedgerVerifiedHead =
  vh_local_sequence :: u64
  vh_entry_hash :: string
  vh_observation_id :: string
  vh_ledger_id :: string
  vh_mother_node_id :: string

record LedgerReplayCheckpoint =
  cp_through_sequence :: u64
  cp_through_entry_hash :: string
  cp_prefix_len :: u64
  cp_prefix_blake3 :: string
  cp_checkpoint_frame_len :: u64
  cp_replay :: AuthorityReplayV1
  cp_used_epochs :: "string set"

record VerifiedLedgerReplay =
  vr_head :: "LedgerVerifiedHead option"
  vr_replay :: AuthorityReplayV1
  vr_prefix_len :: u64
  vr_prefix_blake3 :: string
  vr_checkpoint :: "LedgerReplayCheckpoint option"

datatype CheckpointResume = Resumed VerifiedLedgerReplay | ResumeMismatch string

section \<open>Frames\<close>

definition NL :: char where
  "NL = CHR 0x0A"

text \<open>\<open>BufRead::read_until\<close> with a newline: the bytes up to and including it, and the rest.\<close>

fun read_until :: "string \<Rightarrow> string \<times> string" where
  "read_until [] = ([], [])"
| "read_until (c # cs) =
     (if c = NL then ([c], cs) else (case read_until cs of (frm, rest) \<Rightarrow> (c # frm, rest)))"

lemma read_until_length: "read_until s = (frm, rest) \<Longrightarrow> length s = length frm + length rest"
  by (induction s arbitrary: frm rest) (auto split: if_splits prod.splits)

lemma read_until_shorter: "read_until s = (frm, rest) \<Longrightarrow> frm \<noteq> [] \<Longrightarrow> length rest < length s"
  by (drule read_until_length) (cases frm; simp)

definition frame_terminated :: "string \<Rightarrow> bool" where
  "frame_terminated frm \<longleftrightarrow> ends_with frm [NL]"

definition usize_u64 :: "'a list \<Rightarrow> u64" where
  "usize_u64 xs = of_nat (length xs)"

definition entry_hash :: "LEnv \<Rightarrow> MctObservationLedgerEntry \<Rightarrow> string ledger_result" where
  "entry_hash L entry =
     and_then (map_err (LE_Json ''<entry>'') (ln_entry_to_vec L (entry\<lparr>le_entry_hash := []\<rparr>))) (\<lambda>bytes.
     Inr (cy_blake3_hex (en_crypto (ln_env L)) bytes))"

section \<open>Scanning\<close>

definition validate_ordinary_observation :: "MctObservation \<Rightarrow> unit ledger_result" where
  "validate_ordinary_observation ob =
     (if opt_starts_with (mo_detail_ref ob) ''mct-authority-'' \<or>
         opt_starts_with (mo_detail_ref ob) ''ledger-tail-recovery-''
      then Inl ReservedAuthorityDetail else Inr ())"

definition empty_scan_state :: LedgerScanState where
  "empty_scan_state =
     \<lparr>ls_next_sequence = 0, ls_previous_hash = None, ls_committed_len = 0,
      ls_recovery_observation_ids = {}, ls_authority_replay = Inr empty_authority_replay,
      ls_used_epochs = {}, ls_prefix_hasher = [], ls_last_observation_id = None,
      ls_last_frame_len = 0\<rparr>"

definition quarantine_status ::
  "string \<Rightarrow> LedgerFailureClass \<Rightarrow> u64 option \<Rightarrow> u64 \<Rightarrow> string option \<Rightarrow> string option \<Rightarrow>
   LedgerQuarantineStatus" where
  "quarantine_status path failure_class first_bad_sequence first_bad_offset expected observed =
     \<lparr>lq_ledger_path = path, lq_failure_class = failure_class,
      lq_first_bad_sequence = first_bad_sequence, lq_first_bad_offset = first_bad_offset,
      lq_expected = expected, lq_observed = observed, lq_preserved_ledger_path = None,
      lq_diagnostic_record_path = None\<rparr>"

text \<open>The link to the entry before: its sequence and hash, when there is one.\<close>

definition link :: "u64 \<Rightarrow> string option \<Rightarrow> head" where
  "link next_sequence previous_hash =
     (case (checked_sub_u64 next_sequence 1, previous_hash) of
        (Some sequence, Some h) \<Rightarrow> Some (sequence, h) | _ \<Rightarrow> None)"

text \<open>
  Folding one committed entry into a cached replay; a failed replay keeps its first error.
\<close>

definition fold_cached ::
  "Env \<Rightarrow> string + AuthorityReplayV1 \<Rightarrow> string set \<Rightarrow> head \<Rightarrow> MctObservationLedgerEntry \<Rightarrow>
   (string + AuthorityReplayV1) \<times> string set" where
  "fold_cached E cached used previous entry =
     (case cached of
        Inl e \<Rightarrow> (cached, used)
      | Inr replay \<Rightarrow>
          (case fold_authority_entry E replay used previous entry of
             Inl e \<Rightarrow> (Inl (AuthorityReplayError_display e), used)
           | Inr (replay', used') \<Rightarrow> (Inr replay', used')))"

text \<open>The counters are of type \<open>u64\<close> and wrap, as in a build without overflow checks.\<close>

definition remember_scanned_entry ::
  "LEnv \<Rightarrow> LedgerScanState \<Rightarrow> MctObservationLedgerEntry \<Rightarrow> string \<Rightarrow> LedgerScanState" where
  "remember_scanned_entry L state entry frm =
     (let folded = fold_cached (ln_env L) (ls_authority_replay state) (ls_used_epochs state)
            (link (ls_next_sequence state) (ls_previous_hash state)) entry;
          observation_id = mo_observation_id (le_observation entry) in
      state\<lparr>ls_authority_replay := fst folded, ls_used_epochs := snd folded,
        ls_recovery_observation_ids :=
          (if starts_with observation_id ''ledger-tail-recovery-''
           then insert observation_id (ls_recovery_observation_ids state)
           else ls_recovery_observation_ids state),
        ls_last_observation_id := Some observation_id,
        ls_last_frame_len := usize_u64 frm,
        ls_prefix_hasher := ls_prefix_hasher state @ frm,
        ls_next_sequence := ls_next_sequence state + 1,
        ls_previous_hash := Some (le_entry_hash entry),
        ls_committed_len := ls_committed_len state + usize_u64 frm\<rparr>)"

definition known_not_reached :: "head \<Rightarrow> u64 \<Rightarrow> u64 option" where
  "known_not_reached known next_sequence =
     (case known of None \<Rightarrow> None
      | Some (sequence, _) \<Rightarrow> if next_sequence \<le> sequence then Some sequence else None)"

text \<open>
  One frame: the early return of the scanner (\<open>Inl\<close>), or the state after the entry (\<open>Inr\<close>).
\<close>

definition scan_frame ::
  "LEnv \<Rightarrow> string \<Rightarrow> string \<Rightarrow> string \<Rightarrow> head \<Rightarrow> LedgerScanState \<Rightarrow> string \<Rightarrow>
   (LedgerScan + LedgerScanState) ledger_result" where
  "scan_frame L path ledger_id mother_node_id known state frm =
     (let offset = ls_committed_len state; next = ls_next_sequence state in
      if \<not> frame_terminated frm
      then (case known_not_reached known next of
              Some sequence \<Rightarrow> Inl (LedgerDiscontinuity sequence)
            | None \<Rightarrow> Inr (Inl (ScanResidue
                \<lparr>lr_offset = offset, lr_bytes = frm,
                 lr_digest = cy_blake3_hex (en_crypto (ln_env L)) frm, lr_state = state\<rparr>)))
      else case ln_entry_from_slice L (butlast frm) of
        Inl source \<Rightarrow>
          Inr (Inl (ScanQuarantine (quarantine_status path TerminatedMalformedFrame (Some next)
            offset (Some ''one complete JSON ledger entry'') (Some source))))
      | Inr entry \<Rightarrow>
          if le_local_sequence entry \<noteq> next
          then Inr (Inl (ScanQuarantine (quarantine_status path SequenceDiscontinuity (Some next)
            offset (Some (dec_u64 next)) (Some (dec_u64 (le_local_sequence entry))))))
          else if le_ledger_id entry \<noteq> ledger_id \<or> le_mother_node_id entry \<noteq> mother_node_id
          then Inr (Inl (ScanForeignLineage (quarantine_status path LF_ForeignLineage
            (Some (le_local_sequence entry)) offset (Some (ledger_id @ ''/'' @ mother_node_id))
            (Some (le_ledger_id entry @ ''/'' @ le_mother_node_id entry)))))
          else if le_previous_entry_hash entry \<noteq> ls_previous_hash state
          then Inr (Inl (ScanQuarantine (quarantine_status path PreviousHashMismatch
            (Some (le_local_sequence entry)) offset (ls_previous_hash state)
            (le_previous_entry_hash entry))))
          else and_then (entry_hash L entry) (\<lambda>expected_hash.
            if le_entry_hash entry \<noteq> expected_hash
            then Inr (Inl (ScanQuarantine (quarantine_status path EntryHashMismatch
              (Some (le_local_sequence entry)) offset (Some expected_hash)
              (Some (le_entry_hash entry)))))
            else case known of
              Some (sequence, h) \<Rightarrow>
                if le_local_sequence entry = sequence \<and> le_entry_hash entry \<noteq> h
                then Inl (LedgerDiscontinuity sequence)
                else Inr (Inr (remember_scanned_entry L state entry frm))
            | None \<Rightarrow> Inr (Inr (remember_scanned_entry L state entry frm))))"

function scan_loop ::
  "LEnv \<Rightarrow> string \<Rightarrow> string \<Rightarrow> string \<Rightarrow> head \<Rightarrow> LedgerScanState \<Rightarrow> string \<Rightarrow> LedgerScan ledger_result" where
  "scan_loop L path ledger_id mother_node_id known state bytes =
     (case read_until bytes of (frm, rest) \<Rightarrow>
      if frm = []
      then (case known_not_reached known (ls_next_sequence state) of
              Some sequence \<Rightarrow> Inl (LedgerDiscontinuity sequence)
            | None \<Rightarrow> Inr (ScanReady state))
      else case scan_frame L path ledger_id mother_node_id known state frm of
        Inl e \<Rightarrow> Inl e
      | Inr (Inl scan) \<Rightarrow> Inr scan
      | Inr (Inr state') \<Rightarrow> scan_loop L path ledger_id mother_node_id known state' rest)"
  by pat_completeness auto
termination
  by (relation "measure (\<lambda>(L, path, lid, mid, known, state, bytes). length bytes)")
     (auto dest: read_until_shorter [OF sym])

declare scan_loop.simps [simp del]

definition scan_existing ::
  "LEnv \<Rightarrow> string \<Rightarrow> string \<Rightarrow> string \<Rightarrow> head \<Rightarrow> file_read \<Rightarrow> LedgerScan ledger_result" where
  "scan_existing L path ledger_id mother_node_id known content =
     and_then (map_err (LE_Io path) content) (\<lambda>bytes.
     scan_loop L path ledger_id mother_node_id known empty_scan_state bytes)"

section \<open>The writer\<close>

datatype IoOutcome = IoOk | WriteFails nat string | SyncFails string

definition is_poisoned :: "JsonlObservationLedger \<Rightarrow> bool" where
  "is_poisoned w \<longleftrightarrow> jl_writer_state w = WriterIsPoisoned"

definition poisoned_append_error ::
  "JsonlObservationLedger \<Rightarrow> AppendFailureStage \<Rightarrow> string \<Rightarrow>
   JsonlObservationLedger \<times> 'a ledger_result" where
  "poisoned_append_error w stage source =
     (w\<lparr>jl_writer_state := WriterIsPoisoned\<rparr>, Inl (AppendCommitUnknown (jl_path w) stage source))"

text \<open>
  Writing bytes to the open file, then syncing it. A failed write leaves some of the bytes.
\<close>

definition append_frame ::
  "JsonlObservationLedger \<Rightarrow> string \<Rightarrow> IoOutcome \<Rightarrow> JsonlObservationLedger \<times> unit ledger_result" where
  "append_frame w frm outcome =
     (case outcome of
        WriteFails n source \<Rightarrow>
          poisoned_append_error (w\<lparr>jl_file := jl_file w @ take n frm\<rparr>) FailedWrite source
      | SyncFails source \<Rightarrow>
          poisoned_append_error (w\<lparr>jl_file := jl_file w @ frm\<rparr>) FailedDurability source
      | IoOk \<Rightarrow> (w\<lparr>jl_file := jl_file w @ frm\<rparr>, Inr ()))"

definition previous_link :: "JsonlObservationLedger \<Rightarrow> head" where
  "previous_link w = link (jl_next_sequence w) (jl_previous_hash w)"

definition record_committed_entry ::
  "LEnv \<Rightarrow> JsonlObservationLedger \<Rightarrow> head \<Rightarrow> MctObservationLedgerEntry \<Rightarrow> string \<Rightarrow>
   JsonlObservationLedger" where
  "record_committed_entry L w previous entry frm =
     (let folded = fold_cached (ln_env L) (jl_authority_replay w) (jl_used_epochs w) previous entry in
      w\<lparr>jl_prefix_hasher := jl_prefix_hasher w @ frm,
        jl_prefix_len := jl_prefix_len w + usize_u64 frm,
        jl_last_frame_len := usize_u64 frm,
        jl_last_observation_id := Some (mo_observation_id (le_observation entry)),
        jl_authority_replay := fst folded, jl_used_epochs := snd folded\<rparr>)"

definition unhashed_entry ::
  "JsonlObservationLedger \<Rightarrow> u64 \<Rightarrow> string option \<Rightarrow> MctObservation \<Rightarrow> string \<Rightarrow> DurabilityClass \<Rightarrow>
   ExportStatus \<Rightarrow> MctObservationLedgerEntry" where
  "unhashed_entry w sequence previous_hash ob appended_at durability_class export_status =
     \<lparr>le_ledger_id = jl_ledger_id w, le_mother_node_id = jl_mother_node_id w,
      le_local_sequence = sequence, le_observation = ob, le_previous_entry_hash = previous_hash,
      le_entry_hash = [], le_appended_at = appended_at, le_durability_class = durability_class,
      le_export_status = export_status\<rparr>"

definition seal_entry ::
  "LEnv \<Rightarrow> string \<Rightarrow> MctObservationLedgerEntry \<Rightarrow> (MctObservationLedgerEntry \<times> string) ledger_result" where
  "seal_entry L path unhashed =
     and_then (entry_hash L unhashed) (\<lambda>h.
     let entry = unhashed\<lparr>le_entry_hash := h\<rparr> in
     and_then (map_err (LE_Json path) (ln_entry_to_vec L entry)) (\<lambda>bytes.
     Inr (entry, bytes @ [NL])))"

definition append_canonical ::
  "LEnv \<Rightarrow> JsonlObservationLedger \<Rightarrow> MctObservation \<Rightarrow> string \<Rightarrow> DurabilityClass \<Rightarrow> ExportStatus \<Rightarrow>
   IoOutcome \<Rightarrow> JsonlObservationLedger \<times> MctObservationLedgerEntry ledger_result" where
  "append_canonical L w ob appended_at durability_class export_status outcome =
     (if is_poisoned w then (w, Inl (WriterPoisoned (jl_path w)))
      else case seal_entry L (jl_path w) (unhashed_entry w (jl_next_sequence w) (jl_previous_hash w)
             ob appended_at durability_class export_status) of
        Inl e \<Rightarrow> (w, Inl e)
      | Inr (entry, frm) \<Rightarrow>
          (case append_frame w frm outcome of
             (w', Inl e) \<Rightarrow> (w', Inl e)
           | (w', Inr _) \<Rightarrow>
               ((record_committed_entry L w' (previous_link w) entry frm)
                  \<lparr>jl_previous_hash := Some (le_entry_hash entry),
                   jl_next_sequence := jl_next_sequence w + 1\<rparr>, Inr entry)))"

definition append_canonical_before_effect ::
  "LEnv \<Rightarrow> JsonlObservationLedger \<Rightarrow> MctObservation \<Rightarrow> string \<Rightarrow> IoOutcome \<Rightarrow>
   JsonlObservationLedger \<times> MctObservationLedgerEntry ledger_result" where
  "append_canonical_before_effect L w ob at outcome =
     append_canonical L w ob at BeforeEffect ES_NotRequired outcome"

definition ledger_append ::
  "LEnv \<Rightarrow> JsonlObservationLedger \<Rightarrow> MctObservation \<Rightarrow> string \<Rightarrow> DurabilityClass \<Rightarrow> ExportStatus \<Rightarrow>
   IoOutcome \<Rightarrow> JsonlObservationLedger \<times> MctObservationLedgerEntry ledger_result" where
  "ledger_append L w ob appended_at durability_class export_status outcome =
     (case validate_ordinary_observation ob of
        Inl e \<Rightarrow> (w, Inl e)
      | Inr _ \<Rightarrow> append_canonical L w ob appended_at durability_class export_status outcome)"

definition append_before_effect ::
  "LEnv \<Rightarrow> JsonlObservationLedger \<Rightarrow> MctObservation \<Rightarrow> string \<Rightarrow> IoOutcome \<Rightarrow>
   JsonlObservationLedger \<times> MctObservationLedgerEntry ledger_result" where
  "append_before_effect L w ob appended_at outcome =
     ledger_append L w ob appended_at BeforeEffect ES_NotRequired outcome"

text \<open>The durable batch: all frames are prepared, then written, then acknowledged by one sync.\<close>

definition saturating_add_u64 :: "u64 \<Rightarrow> u64 \<Rightarrow> u64" where
  "saturating_add_u64 a b = (case checked_add_u64 a b of Some c \<Rightarrow> c | None \<Rightarrow> - 1)"

definition saturating_sub_u64 :: "u64 \<Rightarrow> u64 \<Rightarrow> u64" where
  "saturating_sub_u64 a b = (case checked_sub_u64 a b of Some c \<Rightarrow> c | None \<Rightarrow> 0)"

fun prepare_batch ::
  "LEnv \<Rightarrow> JsonlObservationLedger \<Rightarrow> string \<Rightarrow> DurabilityClass \<Rightarrow> ExportStatus \<Rightarrow> u64 \<Rightarrow> string option \<Rightarrow>
   MctObservation list \<Rightarrow> (MctObservationLedgerEntry \<times> string) list ledger_result" where
  "prepare_batch L w appended_at durability_class export_status sequence previous_hash [] = Inr []"
| "prepare_batch L w appended_at durability_class export_status sequence previous_hash (ob # obs) =
     and_then (validate_ordinary_observation ob) (\<lambda>_.
     and_then (seal_entry L (jl_path w) (unhashed_entry w sequence previous_hash ob appended_at
       durability_class export_status)) (\<lambda>(entry, frm).
     and_then (prepare_batch L w appended_at durability_class export_status
       (saturating_add_u64 sequence 1) (Some (le_entry_hash entry)) obs) (\<lambda>prepared.
     Inr ((entry, frm) # prepared))))"

definition acknowledge_entry ::
  "LEnv \<Rightarrow> JsonlObservationLedger \<Rightarrow> MctObservationLedgerEntry \<times> string \<Rightarrow> JsonlObservationLedger" where
  "acknowledge_entry L w p =
     (case p of (entry, frm) \<Rightarrow>
      (record_committed_entry L w
         (map_option (\<lambda>h. (saturating_sub_u64 (le_local_sequence entry) 1, h))
            (le_previous_entry_hash entry)) entry frm)
        \<lparr>jl_previous_hash := Some (le_entry_hash entry),
         jl_next_sequence := saturating_add_u64 (le_local_sequence entry) 1\<rparr>)"

definition append_durable_batch ::
  "LEnv \<Rightarrow> JsonlObservationLedger \<Rightarrow> MctObservation list \<Rightarrow> string \<Rightarrow> DurabilityClass \<Rightarrow> ExportStatus \<Rightarrow>
   IoOutcome \<Rightarrow> JsonlObservationLedger \<times> MctObservationLedgerEntry list ledger_result" where
  "append_durable_batch L w obs appended_at durability_class export_status outcome =
     (if is_poisoned w then (w, Inl (WriterPoisoned (jl_path w)))
      else case prepare_batch L w appended_at durability_class export_status (jl_next_sequence w)
                  (jl_previous_hash w) obs of
        Inl e \<Rightarrow> (w, Inl e)
      | Inr [] \<Rightarrow> (w, Inr [])
      | Inr prepared \<Rightarrow>
          (case append_frame w (concat (map snd prepared)) outcome of
             (w', Inl e) \<Rightarrow> (w', Inl e)
           | (w', Inr _) \<Rightarrow> (foldl (acknowledge_entry L) w' prepared, Inr (map fst prepared))))"

text \<open>
  The batch of single appends reports the acknowledged prefix when one fails. The outcomes
  are those of the writes in order.
\<close>

fun is_commit_unknown :: "ObservationLedgerError \<Rightarrow> bool" where
  "is_commit_unknown (AppendCommitUnknown _ _ _) = True"
| "is_commit_unknown _ = False"

fun append_batch_loop ::
  "LEnv \<Rightarrow> (ObservationLedgerError \<Rightarrow> string) \<Rightarrow> JsonlObservationLedger \<Rightarrow> string \<Rightarrow>
   MctObservationLedgerEntry list \<Rightarrow> (MctObservation \<times> IoOutcome) list \<Rightarrow>
   JsonlObservationLedger \<times> MctObservationLedgerEntry list ledger_result" where
  "append_batch_loop L show_error w appended_at acknowledged [] = (w, Inr acknowledged)"
| "append_batch_loop L show_error w appended_at acknowledged ((ob, outcome) # rest) =
     (case append_before_effect L w ob appended_at outcome of
        (w', Inr entry) \<Rightarrow>
          append_batch_loop L show_error w' appended_at (acknowledged @ [entry]) rest
      | (w', Inl e) \<Rightarrow>
          (w', Inl (BatchPartiallyCommitted
             \<lparr>bo_acknowledged_committed_prefix = acknowledged,
              bo_failed_index = length acknowledged, bo_commit_unknown = is_commit_unknown e,
              bo_failure = show_error e\<rparr>)))"

definition append_batch_before_effect ::
  "LEnv \<Rightarrow> (ObservationLedgerError \<Rightarrow> string) \<Rightarrow> JsonlObservationLedger \<Rightarrow>
   (MctObservation \<times> IoOutcome) list \<Rightarrow> string \<Rightarrow>
   JsonlObservationLedger \<times> MctObservationLedgerEntry list ledger_result" where
  "append_batch_before_effect L show_error w obs appended_at =
     append_batch_loop L show_error w appended_at [] obs"

definition cached_replay :: "JsonlObservationLedger \<Rightarrow> AuthorityReplayV1 ledger_result" where
  "cached_replay w = map_err AuthorityReplayFailed (jl_authority_replay w)"

definition head_predecessor ::
  "JsonlObservationLedger \<Rightarrow> AuthorityEpochPredecessorV1 ledger_result" where
  "head_predecessor w =
     and_then (ok_or (checked_sub_u64 (jl_next_sequence w) 1)
       (AuthorityReplayFailed ''ledger head is missing'')) (\<lambda>sequence.
     and_then (ok_or (jl_previous_hash w)
       (AuthorityReplayFailed ''ledger head hash is missing'')) (\<lambda>h.
     Inr (ValidatedHead sequence h)))"

definition verified_head :: "JsonlObservationLedger \<Rightarrow> LedgerVerifiedHead ledger_result" where
  "verified_head w =
     and_then (head_predecessor w) (\<lambda>predecessor.
     case predecessor of
       ValidatedHead sequence h \<Rightarrow>
         and_then (ok_or (jl_last_observation_id w)
           (AuthorityReplayFailed ''ledger head observation is missing'')) (\<lambda>observation_id.
         Inr \<lparr>vh_local_sequence = sequence, vh_entry_hash = h,
              vh_observation_id = observation_id, vh_ledger_id = jl_ledger_id w,
              vh_mother_node_id = jl_mother_node_id w\<rparr>)
     | _ \<Rightarrow> Inl (AuthorityReplayFailed ''ledger head is missing''))"

definition replay_checkpoint ::
  "LEnv \<Rightarrow> JsonlObservationLedger \<Rightarrow> LedgerReplayCheckpoint ledger_result" where
  "replay_checkpoint L w =
     and_then (verified_head w) (\<lambda>h.
     and_then (cached_replay w) (\<lambda>replay.
     Inr \<lparr>cp_through_sequence = vh_local_sequence h, cp_through_entry_hash = vh_entry_hash h,
          cp_prefix_len = jl_prefix_len w,
          cp_prefix_blake3 = cy_blake3_hex (en_crypto (ln_env L)) (jl_prefix_hasher w),
          cp_checkpoint_frame_len = jl_last_frame_len w, cp_replay = replay,
          cp_used_epochs = jl_used_epochs w\<rparr>))"

section \<open>Reading entries\<close>

text \<open>
  \<open>BufRead::lines\<close>: a line without its terminator, an error when it is not UTF-8.
\<close>

definition utf8_cont :: "nat \<Rightarrow> bool" where
  "utf8_cont b \<longleftrightarrow> 0x80 \<le> b \<and> b \<le> 0xBF"

fun utf8_valid :: "nat list \<Rightarrow> bool" where
  "utf8_valid [] = True"
| "utf8_valid [a] = (a < 0x80)"
| "utf8_valid [a, b] =
     (if a < 0x80 then b < 0x80 else 0xC2 \<le> a \<and> a \<le> 0xDF \<and> utf8_cont b)"
| "utf8_valid (a # b # c # rest) =
     (if a < 0x80 then utf8_valid (b # c # rest)
      else if a \<le> 0xDF then 0xC2 \<le> a \<and> utf8_cont b \<and> utf8_valid (c # rest)
      else if a \<le> 0xEF then
        utf8_cont b \<and> (a = 0xE0 \<longrightarrow> 0xA0 \<le> b) \<and> (a = 0xED \<longrightarrow> b \<le> 0x9F) \<and> utf8_cont c \<and>
        utf8_valid rest
      else a \<le> 0xF4 \<and> utf8_cont b \<and> (a = 0xF0 \<longrightarrow> 0x90 \<le> b) \<and> (a = 0xF4 \<longrightarrow> b \<le> 0x8F) \<and>
        utf8_cont c \<and> (case rest of [] \<Rightarrow> False | d # rest' \<Rightarrow> utf8_cont d \<and> utf8_valid rest'))"

definition strip_terminator :: "string \<Rightarrow> string" where
  "strip_terminator frm =
     (if frame_terminated frm
      then (let line = butlast frm in if ends_with line [CHR 0x0D] then butlast line else line)
      else frm)"

record LedgerEntryIter =
  it_path :: string
  it_ledger_id :: string
  it_mother_node_id :: string
  it_lines :: "string option"
  it_pending_error :: "ObservationLedgerError option"
  it_expected_sequence :: u64
  it_previous_hash :: "string option"

definition LedgerEntryIter_open ::
  "string \<Rightarrow> string \<Rightarrow> string \<Rightarrow> file_read \<Rightarrow> LedgerEntryIter" where
  "LedgerEntryIter_open path ledger_id mother_node_id content =
     \<lparr>it_path = path, it_ledger_id = ledger_id, it_mother_node_id = mother_node_id,
      it_lines = (case content of Inl _ \<Rightarrow> None | Inr bytes \<Rightarrow> Some bytes),
      it_pending_error = (case content of Inl source \<Rightarrow> Some (LE_Io path source) | Inr _ \<Rightarrow> None),
      it_expected_sequence = 0, it_previous_hash = None\<rparr>"

definition iter_validate_entry ::
  "LEnv \<Rightarrow> LedgerEntryIter \<Rightarrow> MctObservationLedgerEntry \<Rightarrow>
   LedgerEntryIter \<times> MctObservationLedgerEntry ledger_result" where
  "iter_validate_entry L it entry =
     (if le_local_sequence entry \<noteq> it_expected_sequence it
      then (it, Inl (SequenceMismatch (it_expected_sequence it) (le_local_sequence entry)))
      else if le_ledger_id entry \<noteq> it_ledger_id it \<or> le_mother_node_id entry \<noteq> it_mother_node_id it
      then (it, Inl (LedgerIdentityMismatch (le_local_sequence entry) (it_ledger_id it)
             (it_mother_node_id it) (le_ledger_id entry) (le_mother_node_id entry)))
      else if le_previous_entry_hash entry \<noteq> it_previous_hash it
      then (it, Inl (BrokenHashChain (le_local_sequence entry)))
      else case entry_hash L entry of
        Inl e \<Rightarrow> (it, Inl e)
      | Inr expected \<Rightarrow>
          if le_entry_hash entry \<noteq> expected
          then (it, Inl (BrokenHashChain (le_local_sequence entry)))
          else (it\<lparr>it_previous_hash := Some (le_entry_hash entry),
                   it_expected_sequence := it_expected_sequence it + 1\<rparr>, Inr entry))"

definition iter_fail ::
  "LedgerEntryIter \<Rightarrow> ObservationLedgerError \<Rightarrow>
   LedgerEntryIter \<times> MctObservationLedgerEntry ledger_result option" where
  "iter_fail it e = (it\<lparr>it_lines := None\<rparr>, Some (Inl e))"

definition iter_line ::
  "LEnv \<Rightarrow> LedgerEntryIter \<Rightarrow> string \<Rightarrow>
   LedgerEntryIter \<times> MctObservationLedgerEntry ledger_result option" where
  "iter_line L it line =
     (case ln_entry_from_slice L line of
        Inl source \<Rightarrow> iter_fail it (LE_Json (it_path it) source)
      | Inr entry \<Rightarrow>
          (case iter_validate_entry L it entry of
             (it', Inr entry') \<Rightarrow> (it', Some (Inr entry'))
           | (it', Inl e) \<Rightarrow> iter_fail it' e))"

function iter_lines ::
  "LEnv \<Rightarrow> LedgerEntryIter \<Rightarrow> string \<Rightarrow>
   LedgerEntryIter \<times> MctObservationLedgerEntry ledger_result option" where
  "iter_lines L it bytes =
     (case read_until bytes of (frm, rest) \<Rightarrow>
      if frm = [] then (it\<lparr>it_lines := Some []\<rparr>, None)
      else let line = strip_terminator frm in
        if \<not> utf8_valid (utf8_bytes frm)
        then iter_fail it (LE_Io (it_path it) ''stream did not contain valid UTF-8'')
        else if trim_is_empty line then iter_lines L it rest
        else iter_line L (it\<lparr>it_lines := Some rest\<rparr>) line)"
  by pat_completeness auto
termination
  by (relation "measure (\<lambda>(L, it, bytes). length bytes)") (auto dest: read_until_shorter [OF sym])

declare iter_lines.simps [simp del]

definition iter_next ::
  "LEnv \<Rightarrow> LedgerEntryIter \<Rightarrow> LedgerEntryIter \<times> MctObservationLedgerEntry ledger_result option" where
  "iter_next L it =
     (case it_pending_error it of
        Some e \<Rightarrow> (it\<lparr>it_pending_error := None\<rparr>, Some (Inl e))
      | None \<Rightarrow> (case it_lines it of None \<Rightarrow> (it, None) | Some bytes \<Rightarrow> iter_lines L it bytes))"

text \<open>Every entry consumes its line.\<close>

lemma iter_line_lines:
  "iter_line L it line = (it', Some (Inr entry)) \<Longrightarrow> it_lines it' = it_lines it"
  by (auto simp: iter_line_def iter_fail_def iter_validate_entry_def split: sum.splits if_splits)

lemma iter_lines_step:
  "read_until bytes = (frm, rest) \<Longrightarrow>
   iter_lines L it bytes = (it', Some (Inr entry)) \<Longrightarrow>
   frm \<noteq> [] \<and> utf8_valid (utf8_bytes frm) \<and>
   (if trim_is_empty (strip_terminator frm) then iter_lines L it rest = (it', Some (Inr entry))
    else iter_line L (it\<lparr>it_lines := Some rest\<rparr>) (strip_terminator frm) = (it', Some (Inr entry)))"
  by (subst (asm) iter_lines.simps) (auto simp: iter_fail_def Let_def split: if_split_asm)

lemma iter_lines_shorter:
  "iter_lines L it bytes = (it', Some (Inr entry)) \<Longrightarrow>
   \<exists>rest. it_lines it' = Some rest \<and> length rest < length bytes"
proof (induction "length bytes" arbitrary: bytes rule: less_induct)
  case less
  obtain frm rest where r: "read_until bytes = (frm, rest)" by fastforce
  note step = iter_lines_step [OF r less.prems]
  have short: "length rest < length bytes" using read_until_shorter [OF r] step by blast
  show ?case
  proof (cases "trim_is_empty (strip_terminator frm)")
    case True
    then show ?thesis using less.hyps [OF short] step short by fastforce
  next
    case False
    then show ?thesis using iter_line_lines step short by fastforce
  qed
qed

definition iter_size :: "LedgerEntryIter \<Rightarrow> nat" where
  "iter_size it = (case it_lines it of None \<Rightarrow> 0 | Some bytes \<Rightarrow> length bytes)"

lemma iter_next_smaller:
  "iter_next L it = (it', Some (Inr entry)) \<Longrightarrow> iter_size it' < iter_size it"
  by (auto simp: iter_next_def iter_size_def split: option.splits dest: iter_lines_shorter)

text \<open>
  \<open>iter_entries().collect()\<close>, \<open>by_trace\<close> and \<open>by_call\<close>: the items until the end or the first
  error.
\<close>

function collect_entries ::
  "LEnv \<Rightarrow> (MctObservationLedgerEntry \<Rightarrow> bool) \<Rightarrow> LedgerEntryIter \<Rightarrow>
   MctObservationLedgerEntry list ledger_result" where
  "collect_entries L keep it =
     (case iter_next L it of
        (it', None) \<Rightarrow> Inr []
      | (it', Some (Inl e)) \<Rightarrow> Inl e
      | (it', Some (Inr entry)) \<Rightarrow>
          and_then (collect_entries L keep it') (\<lambda>es. Inr (if keep entry then entry # es else es)))"
  by pat_completeness auto
termination
  by (relation "measure (\<lambda>(L, keep, it). iter_size it)") (auto dest: iter_next_smaller [OF sym])

declare collect_entries.simps [simp del]

definition ledger_entries ::
  "LEnv \<Rightarrow> string \<Rightarrow> string \<Rightarrow> string \<Rightarrow> file_read \<Rightarrow> MctObservationLedgerEntry list ledger_result" where
  "ledger_entries L path ledger_id mother_node_id content =
     collect_entries L (\<lambda>_. True) (LedgerEntryIter_open path ledger_id mother_node_id content)"

definition entries_by_trace ::
  "LEnv \<Rightarrow> string \<Rightarrow> string \<Rightarrow> string \<Rightarrow> file_read \<Rightarrow> string \<Rightarrow>
   MctObservationLedgerEntry list ledger_result" where
  "entries_by_trace L path ledger_id mother_node_id content trace_id =
     collect_entries L (\<lambda>entry. tf_trace_id (mo_trace (le_observation entry)) = trace_id)
       (LedgerEntryIter_open path ledger_id mother_node_id content)"

definition entries_by_call ::
  "LEnv \<Rightarrow> string \<Rightarrow> string \<Rightarrow> string \<Rightarrow> file_read \<Rightarrow> string \<Rightarrow>
   MctObservationLedgerEntry list ledger_result" where
  "entries_by_call L path ledger_id mother_node_id content call_id =
     collect_entries L (\<lambda>entry. mo_call_id (le_observation entry) = Some call_id)
       (LedgerEntryIter_open path ledger_id mother_node_id content)"

definition reader_open ::
  "LEnv \<Rightarrow> string \<Rightarrow> string \<Rightarrow> string \<Rightarrow> head \<Rightarrow> file_read \<Rightarrow> unit ledger_result" where
  "reader_open L path ledger_id mother_node_id known content =
     and_then (scan_existing L path ledger_id mother_node_id known content) (\<lambda>scan.
     case scan of
       ScanReady _ \<Rightarrow> Inr ()
     | ScanResidue residue \<Rightarrow>
         Inl (UnterminatedTail path (lr_offset residue) (usize_u64 (lr_bytes residue))
           (lr_digest residue))
     | ScanQuarantine status \<Rightarrow> Inl (LE_Quarantined status)
     | ScanForeignLineage status \<Rightarrow> Inl (LE_ForeignLineage status))"

section \<open>Streaming verification and checkpoints\<close>

definition assemble_verified ::
  "LedgerVerifiedHead option \<Rightarrow> AuthorityReplayV1 \<Rightarrow> string set \<Rightarrow> u64 \<Rightarrow> u64 \<Rightarrow> string \<Rightarrow>
   VerifiedLedgerReplay" where
  "assemble_verified h replay used_epochs prefix_len checkpoint_frame_len prefix_blake3 =
     \<lparr>vr_head = h, vr_replay = replay, vr_prefix_len = prefix_len,
      vr_prefix_blake3 = prefix_blake3,
      vr_checkpoint = map_option (\<lambda>hd.
        \<lparr>cp_through_sequence = vh_local_sequence hd, cp_through_entry_hash = vh_entry_hash hd,
         cp_prefix_len = prefix_len, cp_prefix_blake3 = prefix_blake3,
         cp_checkpoint_frame_len = checkpoint_frame_len, cp_replay = replay,
         cp_used_epochs = used_epochs\<rparr>) h\<rparr>"

definition verified_from_scan ::
  "LEnv \<Rightarrow> LedgerScanState \<Rightarrow> string \<Rightarrow> string \<Rightarrow> VerifiedLedgerReplay ledger_result" where
  "verified_from_scan L state ledger_id mother_node_id =
     and_then (map_err AuthorityReplayFailed (ls_authority_replay state)) (\<lambda>replay.
     let verified = (case (checked_sub_u64 (ls_next_sequence state) 1, ls_previous_hash state,
                    ls_last_observation_id state) of
         (Some sequence, Some h, Some observation_id) \<Rightarrow>
           Some \<lparr>vh_local_sequence = sequence, vh_entry_hash = h,
                 vh_observation_id = observation_id, vh_ledger_id = ledger_id,
                 vh_mother_node_id = mother_node_id\<rparr>
       | _ \<Rightarrow> None) in
     Inr (assemble_verified verified replay (ls_used_epochs state) (ls_committed_len state)
       (ls_last_frame_len state) (cy_blake3_hex (en_crypto (ln_env L)) (ls_prefix_hasher state))))"

definition verify_ledger_streaming ::
  "LEnv \<Rightarrow> string \<Rightarrow> string \<Rightarrow> string \<Rightarrow> head \<Rightarrow> file_read \<Rightarrow> VerifiedLedgerReplay ledger_result" where
  "verify_ledger_streaming L path ledger_id mother_node_id known content =
     and_then (scan_existing L path ledger_id mother_node_id known content) (\<lambda>scan.
     case scan of
       ScanReady state \<Rightarrow> verified_from_scan L state ledger_id mother_node_id
     | ScanResidue residue \<Rightarrow>
         Inl (UnterminatedTail path (lr_offset residue) (usize_u64 (lr_bytes residue))
           (lr_digest residue))
     | ScanQuarantine status \<Rightarrow> Inl (LE_Quarantined status)
     | ScanForeignLineage status \<Rightarrow> Inl (LE_ForeignLineage status))"

definition head_from_entry :: "MctObservationLedgerEntry \<Rightarrow> LedgerVerifiedHead" where
  "head_from_entry entry =
     \<lparr>vh_local_sequence = le_local_sequence entry, vh_entry_hash = le_entry_hash entry,
      vh_observation_id = mo_observation_id (le_observation entry),
      vh_ledger_id = le_ledger_id entry, vh_mother_node_id = le_mother_node_id entry\<rparr>"

text \<open>
  The bytes of the prefix are read in blocks; each byte goes to the carry, and a newline moves
  the carry to the last frame.
\<close>

definition carry_byte :: "string \<times> string \<Rightarrow> char \<Rightarrow> string \<times> string" where
  "carry_byte acc b =
     (case acc of (carry, last_frame) \<Rightarrow>
      if b = NL then ([], carry @ [b]) else (carry @ [b], last_frame))"

record SuffixState =
  sx_replay :: AuthorityReplayV1
  sx_used_epochs :: "string set"
  sx_expected_sequence :: u64
  sx_previous_hash :: "string option"
  sx_head :: LedgerVerifiedHead
  sx_prefix_len :: u64
  sx_last_frame_len :: u64
  sx_hasher :: string

definition resume_frame ::
  "LEnv \<Rightarrow> string \<Rightarrow> string \<Rightarrow> string \<Rightarrow> SuffixState \<Rightarrow> string \<Rightarrow> SuffixState ledger_result" where
  "resume_frame L path ledger_id mother_node_id s frm =
     (if \<not> frame_terminated frm
      then Inl (UnterminatedTail path (sx_prefix_len s) (usize_u64 frm)
        (cy_blake3_hex (en_crypto (ln_env L)) frm))
      else
        and_then (map_err (LE_Json path) (ln_entry_from_slice L (butlast frm))) (\<lambda>entry.
        if le_local_sequence entry \<noteq> sx_expected_sequence s
        then Inl (SequenceMismatch (sx_expected_sequence s) (le_local_sequence entry))
        else if le_ledger_id entry \<noteq> ledger_id \<or> le_mother_node_id entry \<noteq> mother_node_id
        then Inl (LedgerIdentityMismatch (le_local_sequence entry) ledger_id mother_node_id
          (le_ledger_id entry) (le_mother_node_id entry))
        else if le_previous_entry_hash entry \<noteq> sx_previous_hash s
        then Inl (BrokenHashChain (le_local_sequence entry))
        else and_then (entry_hash L entry) (\<lambda>expected.
          if le_entry_hash entry \<noteq> expected then Inl (BrokenHashChain (le_local_sequence entry))
          else
            let previous = Some (sx_expected_sequence s - 1,
                  (case sx_previous_hash s of None \<Rightarrow> [] | Some h \<Rightarrow> h)) in
            and_then (map_err (\<lambda>e. AuthorityReplayFailed (AuthorityReplayError_display e))
              (fold_authority_entry (ln_env L) (sx_replay s) (sx_used_epochs s) previous entry))
              (\<lambda>(replay, used).
            Inr (s\<lparr>sx_replay := replay, sx_used_epochs := used,
              sx_hasher := sx_hasher s @ frm,
              sx_prefix_len := sx_prefix_len s + usize_u64 frm,
              sx_last_frame_len := usize_u64 frm,
              sx_previous_hash := Some (le_entry_hash entry),
              sx_expected_sequence := sx_expected_sequence s + 1,
              sx_head := head_from_entry entry\<rparr>)))))"

function resume_loop ::
  "LEnv \<Rightarrow> string \<Rightarrow> string \<Rightarrow> string \<Rightarrow> SuffixState \<Rightarrow> string \<Rightarrow> SuffixState ledger_result" where
  "resume_loop L path ledger_id mother_node_id s bytes =
     (case read_until bytes of (frm, rest) \<Rightarrow>
      if frm = [] then Inr s
      else case resume_frame L path ledger_id mother_node_id s frm of
        Inl e \<Rightarrow> Inl e
      | Inr s' \<Rightarrow> resume_loop L path ledger_id mother_node_id s' rest)"
  by pat_completeness auto
termination
  by (relation "measure (\<lambda>(L, path, lid, mid, s, bytes). length bytes)")
     (auto dest: read_until_shorter [OF sym])

declare resume_loop.simps [simp del]

definition resume_suffix ::
  "LEnv \<Rightarrow> string \<Rightarrow> string \<Rightarrow> string \<Rightarrow> LedgerReplayCheckpoint \<Rightarrow> MctObservationLedgerEntry \<Rightarrow>
   string \<Rightarrow> string \<Rightarrow> CheckpointResume ledger_result" where
  "resume_suffix L path ledger_id mother_node_id checkpoint entry prefix suffix =
     and_then (ok_or (checked_add_u64 (cp_through_sequence checkpoint) 1)
       (SequenceMismatch (cp_through_sequence checkpoint) (- 1))) (\<lambda>expected_sequence.
     and_then (resume_loop L path ledger_id mother_node_id
       \<lparr>sx_replay = cp_replay checkpoint, sx_used_epochs = cp_used_epochs checkpoint,
        sx_expected_sequence = expected_sequence,
        sx_previous_hash = Some (cp_through_entry_hash checkpoint),
        sx_head = head_from_entry entry, sx_prefix_len = cp_prefix_len checkpoint,
        sx_last_frame_len = cp_checkpoint_frame_len checkpoint, sx_hasher = prefix\<rparr> suffix) (\<lambda>s.
     Inr (Resumed (assemble_verified (Some (sx_head s)) (sx_replay s) (sx_used_epochs s)
       (sx_prefix_len s) (sx_last_frame_len s)
       (cy_blake3_hex (en_crypto (ln_env L)) (sx_hasher s))))))"

definition resume_ledger_replay ::
  "LEnv \<Rightarrow> string \<Rightarrow> string \<Rightarrow> string \<Rightarrow> LedgerReplayCheckpoint \<Rightarrow> file_read \<Rightarrow>
   CheckpointResume ledger_result" where
  "resume_ledger_replay L path ledger_id mother_node_id checkpoint content =
     (if cp_prefix_len checkpoint = 0 \<or> cp_checkpoint_frame_len checkpoint = 0 \<or>
         cp_prefix_len checkpoint < cp_checkpoint_frame_len checkpoint
      then Inr (ResumeMismatch ''checkpoint does not name a committed entry'')
      else and_then (map_err (LE_Io path) content) (\<lambda>bytes.
        if usize_u64 bytes < cp_prefix_len checkpoint
        then Inr (ResumeMismatch ''ledger is shorter than the checkpoint prefix'')
        else
          let prefix = take (unat (cp_prefix_len checkpoint)) bytes in
          case foldl carry_byte ([], []) prefix of (carry, last_frame) \<Rightarrow>
          if carry \<noteq> [] \<or> usize_u64 last_frame \<noteq> cp_checkpoint_frame_len checkpoint
          then Inr (ResumeMismatch ''checkpoint prefix frame boundary moved'')
          else if cy_blake3_hex (en_crypto (ln_env L)) prefix \<noteq> cp_prefix_blake3 checkpoint
          then Inr (ResumeMismatch ''checkpoint prefix digest does not match the log'')
          else case ln_entry_from_slice L (butlast last_frame) of
            Inl _ \<Rightarrow> Inr (ResumeMismatch ''checkpoint entry is not a ledger frame'')
          | Inr entry \<Rightarrow>
              and_then (entry_hash L entry) (\<lambda>recomputed.
              if le_local_sequence entry \<noteq> cp_through_sequence checkpoint \<or>
                 le_entry_hash entry \<noteq> cp_through_entry_hash checkpoint \<or>
                 recomputed \<noteq> cp_through_entry_hash checkpoint \<or>
                 le_ledger_id entry \<noteq> ledger_id \<or> le_mother_node_id entry \<noteq> mother_node_id
              then Inr (ResumeMismatch ''checkpoint entry hash does not match the log'')
              else resume_suffix L path ledger_id mother_node_id checkpoint entry prefix
                     (drop (unat (cp_prefix_len checkpoint)) bytes))))"

section \<open>The process-local cache\<close>

type_synonym replay_cache = "string \<rightharpoonup> LedgerReplayCheckpoint"

definition replay_cache_key :: "LEnv \<Rightarrow> string \<Rightarrow> string \<Rightarrow> string \<Rightarrow> string" where
  "replay_cache_key L path ledger_id mother_node_id =
     ln_canonicalize L path @ ''|'' @ ledger_id @ ''|'' @ mother_node_id"

definition replay_cache_head :: "replay_cache \<Rightarrow> string \<Rightarrow> head" where
  "replay_cache_head cache key =
     map_option (\<lambda>cp. (cp_through_sequence cp, cp_through_entry_hash cp)) (cache key)"

definition replay_cache_store ::
  "replay_cache \<Rightarrow> string \<Rightarrow> LedgerReplayCheckpoint \<Rightarrow> replay_cache ledger_result" where
  "replay_cache_store cache key checkpoint =
     (case cache key of
        Some known \<Rightarrow>
          if cp_through_sequence checkpoint < cp_through_sequence known \<or>
             cp_through_sequence checkpoint = cp_through_sequence known \<and>
               cp_through_entry_hash checkpoint \<noteq> cp_through_entry_hash known
          then Inl (LedgerDiscontinuity (cp_through_sequence known))
          else Inr (cache(key \<mapsto> checkpoint))
      | None \<Rightarrow> Inr (cache(key \<mapsto> checkpoint)))"

definition store_verified ::
  "replay_cache \<Rightarrow> string \<Rightarrow> VerifiedLedgerReplay \<Rightarrow> replay_cache \<times> VerifiedLedgerReplay ledger_result" where
  "store_verified cache key verified =
     (case vr_checkpoint verified of
        None \<Rightarrow> (cache, Inr verified)
      | Some checkpoint \<Rightarrow>
          (case replay_cache_store cache key checkpoint of
             Inl e \<Rightarrow> (cache, Inl e)
           | Inr cache' \<Rightarrow> (cache', Inr verified)))"

definition load_verified_ledger_replay ::
  "LEnv \<Rightarrow> replay_cache \<Rightarrow> string \<Rightarrow> string \<Rightarrow> string \<Rightarrow> file_read \<Rightarrow>
   replay_cache \<times> VerifiedLedgerReplay ledger_result" where
  "load_verified_ledger_replay L cache path ledger_id mother_node_id content =
     (let key = replay_cache_key L path ledger_id mother_node_id;
          full = (case verify_ledger_streaming L path ledger_id mother_node_id
                         (replay_cache_head cache key) content of
              Inl e \<Rightarrow> (cache, Inl e)
            | Inr verified \<Rightarrow> store_verified cache key verified) in
      case cache key of
        None \<Rightarrow> full
      | Some checkpoint \<Rightarrow>
          (case resume_ledger_replay L path ledger_id mother_node_id checkpoint content of
             Inl e \<Rightarrow> (cache, Inl e)
           | Inr (Resumed verified) \<Rightarrow> store_verified cache key verified
           | Inr (ResumeMismatch _) \<Rightarrow> full))"

end
