(* ===== verification/MCT_Writer.thy ===== *)
theory MCT_Writer
  imports MCT_Ledger
begin

text \<open>
  The authority operations of the ledger writer (\<open>mct-observation/src/lib.rs\<close>,
  \<open>guardian_recovery.rs\<close>, \<open>admin_issuance.rs\<close>, \<open>admin_genesis.rs\<close>, \<open>passkey_admin.rs\<close>): writer
  tenure, authority mutations, pairing admission, legacy import, key issuance, guardian
  recovery, strict genesis and passkey administration.

  An operation returns the writer after it with its result. Time, entropy and the outcome of
  the write are arguments. \<open>legacy_projection_write\<close> is a function of the authority state. Where the
  source expects a checked text to be a timestamp, the model returns the error.
\<close>

section \<open>Results of mutations\<close>

datatype AuthorityMutationResolutionV1 = NewlyCommitted | ResolvedExistingFact

datatype AuthorityProjectionPendingReasonV1 =
  ProjectionNotAttempted | ProjectionFailed | ProjectionStale

datatype AuthorityMutationRejectionReasonV1 =
    MR_InvalidRequest | MR_ImportRequired | MR_AuthorityEpochUnavailable | MR_PriorStateMismatch
  | MR_MutationIdConflict | MR_WriterContended | MR_WriterPoisoned | MR_LegacySnapshotChanged
  | MR_AlreadyImported

datatype AuthorityMutationResultV1 =
    Committed string AuthorityMutationResolutionV1 u64 string GrantsAuthorityIdentityV1 string
  | CommittedProjectionPending string AuthorityMutationResolutionV1 u64 string
      GrantsAuthorityIdentityV1 AuthorityProjectionPendingReasonV1
  | CommitUnknown string string AppendFailureStage
  | RejectedBeforeCommit string AuthorityMutationRejectionReasonV1

type_synonym projection = "AuthorityStateV1 \<Rightarrow> string + string option"

definition finish_projected_mutation ::
  "AuthorityMutationFactV1 \<Rightarrow> u64 \<Rightarrow> string \<Rightarrow> AuthorityMutationResolutionV1 \<Rightarrow> string + string option \<Rightarrow>
   AuthorityMutationResultV1" where
  "finish_projected_mutation f fact_sequence fact_entry_hash resolution projected =
     (let authority = sr_grants_authority (mf_resulting_state f) in
      case projected of
        Inr (Some projection_hash) \<Rightarrow>
          Committed (mf_mutation_id f) resolution fact_sequence fact_entry_hash authority projection_hash
      | Inr None \<Rightarrow>
          CommittedProjectionPending (mf_mutation_id f) resolution fact_sequence fact_entry_hash
            authority ProjectionNotAttempted
      | Inl _ \<Rightarrow>
          CommittedProjectionPending (mf_mutation_id f) resolution fact_sequence fact_entry_hash
            authority ProjectionFailed)"

section \<open>Writer tenure\<close>

definition hex_digit :: "nat \<Rightarrow> char" where
  "hex_digit n = (if n < 10 then char_of (48 + n) else char_of (87 + n))"

definition byte_hex :: "char \<Rightarrow> string" where
  "byte_hex c = [hex_digit (of_char c div 16), hex_digit (of_char c mod 16)]"

text \<open>\<open>getrandom\<close> fills 32 bytes or fails.\<close>

definition fresh_authority_epoch :: "string + string \<Rightarrow> string ledger_result" where
  "fresh_authority_epoch entropy =
     and_then (map_err (LE_Io ''<authority-epoch-entropy>'') entropy) (\<lambda>bytes.
     Inr (AUTHORITY_EPOCH_PREFIX_V1 @ concat (map byte_hex bytes)))"

definition startup_matches ::
  "AuthorityTenureStartupEvidenceV1 \<Rightarrow> AuthorityReplayV1 \<Rightarrow> bool \<Rightarrow> AuthorityEpochPredecessorV1 \<Rightarrow> bool" where
  "startup_matches startup replay is_empty predecessor =
     (let no_operator_evidence = (sv_operator_gate_decision_id startup = None \<and>
            sv_authenticated_principal_ref startup = None);
          complete_operator_evidence = (opt_non_blank (sv_operator_gate_decision_id startup) \<and>
            opt_non_blank (sv_authenticated_principal_ref startup)) in
      case sv_startup_class startup of
        Virgin \<Rightarrow>
          is_empty \<and> ry_current_authority replay = None \<and>
          sv_expected_predecessor startup = NoneForVirgin \<and> no_operator_evidence
      | OperatorGatedNonvirgin \<Rightarrow>
          (is_empty \<or> ry_tail_recovery_only replay) \<and> ry_current_authority replay = None \<and>
          sv_expected_predecessor startup = NoneAfterOperatorReinitialization \<and>
          complete_operator_evidence
      | LegacyLedgerUpgrade \<Rightarrow>
          \<not> is_empty \<and> ry_current_authority replay = None \<and>
          sv_expected_predecessor startup = predecessor \<and> no_operator_evidence
      | OrdinaryReopen \<Rightarrow>
          \<not> is_empty \<and> ry_current_authority replay \<noteq> None \<and>
          sv_expected_predecessor startup = predecessor \<and> no_operator_evidence)"

definition actual_predecessor ::
  "JsonlObservationLedger \<Rightarrow> AuthorityEpochPredecessorV1 ledger_result" where
  "actual_predecessor w = (if jl_next_sequence w = 0 then Inr NoneForVirgin else head_predecessor w)"

definition epoch_fact_id :: "string \<Rightarrow> string" where
  "epoch_fact_id authority_epoch = ''obs:authority-epoch:'' @ authority_epoch"

definition epoch_fact ::
  "JsonlObservationLedger \<Rightarrow> AuthorityTenureStartupEvidenceV1 \<Rightarrow> AuthorityReplayV1 \<Rightarrow> string \<Rightarrow> string \<Rightarrow>
   string \<Rightarrow> EpochEstablishedFactV1" where
  "epoch_fact w startup replay authority_epoch grant_state_hash started_at =
     \<lparr>ef_mother_node_id = jl_mother_node_id w, ef_ledger_id = jl_ledger_id w,
      ef_authority_epoch = authority_epoch, ef_predecessor = sv_expected_predecessor startup,
      ef_generation_baseline = current_generation replay,
      ef_prior_authority = ry_current_authority replay,
      ef_resulting_authority =
        \<lparr>gi_mother_node_id = jl_mother_node_id w, gi_authority_epoch = authority_epoch,
         gi_generation = current_generation replay,
         gi_source_authority_observation_id = epoch_fact_id authority_epoch\<rparr>,
      ef_grant_state_hash = grant_state_hash,
      ef_establishment =
        \<lparr>wt_started_at = started_at, wt_startup_class = sv_startup_class startup,
         wt_operator_gate_decision_id = sv_operator_gate_decision_id startup,
         wt_authenticated_principal_ref = sv_authenticated_principal_ref startup\<rparr>\<rparr>"

definition epoch_observation ::
  "EpochEstablishedFactV1 \<Rightarrow> Timestamp \<Rightarrow> string \<Rightarrow> MctObservation" where
  "epoch_observation f at detail_ref =
     (canonical_observation (epoch_fact_id (ef_authority_epoch f)) at OK_LifecycleTransitionRecorded
        SP_Storage (''trace:authority-epoch:'' @ ef_authority_epoch f) (ef_mother_node_id f)
        (ef_ledger_id f) (ef_generation_baseline f) ''authority writer tenure established'' detail_ref)
     \<lparr>mo_outcome := OO_Completed\<rparr>"

text \<open>The checks and the fact of a new tenure, before anything is written.\<close>

definition tenure_plan ::
  "LEnv \<Rightarrow> JsonlObservationLedger \<Rightarrow> AuthorityTenureStartupEvidenceV1 \<Rightarrow> string + string \<Rightarrow> string \<Rightarrow>
   (EpochEstablishedFactV1 \<times> MctObservation) ledger_result" where
  "tenure_plan L w startup entropy started_at =
     (let E = ln_env L in
      and_then (cached_replay w) (\<lambda>replay.
      and_then (actual_predecessor w) (\<lambda>predecessor.
      and_then (authority_state_hash E (ry_state replay)) (\<lambda>actual_state_hash.
      if trim_is_empty (sv_inventory_hash startup) \<or>
         \<not> startup_matches startup replay (jl_next_sequence w = 0) predecessor \<or>
         sv_expected_prior_authority startup \<noteq> ry_current_authority replay \<or>
         sv_expected_authority_state_hash startup \<noteq> actual_state_hash
      then Inl (AuthorityReplayFailed
        ''explicit startup evidence does not match exclusive ledger rescan'')
      else
        and_then (fresh_authority_epoch entropy) (\<lambda>authority_epoch.
        let f = epoch_fact w startup replay authority_epoch actual_state_hash started_at in
        and_then (encode_epoch_fact (en_codec E) (epoch_fact_id authority_epoch) f) (\<lambda>detail_ref.
        and_then (map_err (\<lambda>e. AuthorityReplayFailed (MctKernelError_display e))
                    (Timestamp_new (en_jiff E) started_at)) (\<lambda>at.
        Inr (f, epoch_observation f at detail_ref))))))))"

definition begin_authority_tenure_with_startup ::
  "LEnv \<Rightarrow> JsonlObservationLedger \<Rightarrow> AuthorityTenureStartupEvidenceV1 \<Rightarrow> string + string \<Rightarrow> string \<Rightarrow>
   IoOutcome \<Rightarrow> JsonlObservationLedger \<times> unit ledger_result" where
  "begin_authority_tenure_with_startup L w startup entropy started_at outcome =
     (if jl_authority_tenure w \<noteq> None then (w, Inr ())
      else case tenure_plan L w startup entropy started_at of
        Inl e \<Rightarrow> (w, Inl e)
      | Inr (f, ob) \<Rightarrow>
          (case append_canonical_before_effect L w ob started_at outcome of
             (w', Inl e) \<Rightarrow> (w', Inl e)
           | (w', Inr entry) \<Rightarrow>
               (w'\<lparr>jl_authority_tenure := Some \<lparr>tn_fact = f, tn_entry = entry\<rparr>\<rparr>, Inr ())))"

definition inferred_startup ::
  "LEnv \<Rightarrow> JsonlObservationLedger \<Rightarrow> AuthorityTenureStartupEvidenceV1 ledger_result" where
  "inferred_startup L w =
     and_then (cached_replay w) (\<lambda>replay.
     and_then (actual_predecessor w) (\<lambda>predecessor.
     and_then (authority_state_hash (ln_env L) (ry_state replay)) (\<lambda>state_hash.
     Inr \<lparr>sv_startup_class =
            (if jl_next_sequence w = 0 then Virgin
             else if ry_current_authority replay \<noteq> None then OrdinaryReopen
             else LegacyLedgerUpgrade),
          sv_expected_predecessor = predecessor,
          sv_expected_prior_authority = ry_current_authority replay,
          sv_expected_authority_state_hash = state_hash,
          sv_inventory_hash = ''legacy-inferred-startup-evidence'',
          sv_operator_gate_decision_id = None, sv_authenticated_principal_ref = None\<rparr>)))"

definition begin_authority_tenure ::
  "LEnv \<Rightarrow> JsonlObservationLedger \<Rightarrow> string + string \<Rightarrow> string \<Rightarrow> IoOutcome \<Rightarrow>
   JsonlObservationLedger \<times> unit ledger_result" where
  "begin_authority_tenure L w entropy started_at outcome =
     (if jl_authority_tenure w \<noteq> None then (w, Inr ())
      else case inferred_startup L w of
        Inl e \<Rightarrow> (w, Inl e)
      | Inr startup \<Rightarrow> begin_authority_tenure_with_startup L w startup entropy started_at outcome)"

section \<open>Authority mutations\<close>

text \<open>
  What the checks of a mutation lead to: a fact that is already committed, or a new fact with
  its observation and the state it results in.
\<close>

datatype MutationPlan =
    ResolveExisting CommittedAuthorityMutationV1 AuthorityStateV1
  | CommitNew AuthorityMutationFactV1 MctObservation AuthorityStateV1

definition reject_err :: "AuthorityMutationRejectionReasonV1 \<Rightarrow> 'e + 'a \<Rightarrow> AuthorityMutationRejectionReasonV1 + 'a" where
  "reject_err reason r = map_err (\<lambda>_. reason) r"

fun is_consumed_change :: "AuthorityChangeV1 \<Rightarrow> bool" where
  "is_consumed_change (PairingTicketConsumed _ _ _) = True"
| "is_consumed_change _ = False"

definition mutation_fact ::
  "JsonlObservationLedger \<Rightarrow> AuthorityMutationRequestV1 \<Rightarrow> string \<Rightarrow> GrantsAuthorityIdentityV1 \<Rightarrow> string \<Rightarrow>
   string \<Rightarrow> u64 \<Rightarrow> AuthorityMutationFactV1" where
  "mutation_fact w request intent_hash prior_authority prior_hash resulting_hash generation =
     \<lparr>mf_mutation_id = mq_mutation_id request, mf_mutation_intent_hash = intent_hash,
      mf_mother_node_id = jl_mother_node_id w, mf_ledger_id = jl_ledger_id w,
      mf_authority_epoch = gi_authority_epoch prior_authority,
      mf_prior_state = \<lparr>sr_grants_authority = prior_authority, sr_authority_state_hash = prior_hash\<rparr>,
      mf_changes = mq_changes request, mf_grant_shaping_sources = mq_grant_shaping_sources request,
      mf_resulting_state =
        \<lparr>sr_grants_authority =
           \<lparr>gi_mother_node_id = jl_mother_node_id w,
            gi_authority_epoch = gi_authority_epoch prior_authority, gi_generation = generation,
            gi_source_authority_observation_id = mutation_fact_id (mq_mutation_id request)\<rparr>,
         sr_authority_state_hash = resulting_hash\<rparr>,
      mf_decided_at = mq_decided_at request\<rparr>"

definition new_mutation_plan ::
  "LEnv \<Rightarrow> JsonlObservationLedger \<Rightarrow> AuthorityMutationRequestV1 \<Rightarrow> string \<Rightarrow> AuthorityReplayV1 \<Rightarrow>
   AuthorityMutationRejectionReasonV1 + MutationPlan" where
  "new_mutation_plan L w request intent_hash replay =
     (let E = ln_env L; changes = mq_changes request in
      and_then (ok_or (ry_current_authority replay) MR_AuthorityEpochUnavailable) (\<lambda>prior_authority.
      and_then (reject_err MR_InvalidRequest (issuance_validate_context (ry_admin_grant_ids replay)
        changes prior_authority (jl_ledger_id w) (mq_mutation_id request) (mq_decided_at request))) (\<lambda>_.
      and_then (reject_err MR_InvalidRequest (recovery_validate_context (ry_state replay)
        changes prior_authority (jl_ledger_id w) (mq_decided_at request))) (\<lambda>_.
      and_then (reject_err MR_InvalidRequest (verify_admin_change_signatures E (ry_state replay)
        (ry_admin_signature_nonces replay) (jl_mother_node_id w) (jl_ledger_id w) changes)) (\<lambda>_.
      and_then (reject_err MR_InvalidRequest
        (apply_authority_changes E (ry_state replay) changes)) (\<lambda>resulting_state.
      and_then (reject_err MR_PriorStateMismatch (authority_state_hash E (ry_state replay))) (\<lambda>prior_hash.
      and_then (reject_err MR_InvalidRequest (authority_state_hash E resulting_state)) (\<lambda>resulting_hash.
      and_then (ok_or (checked_add_u64 (gi_generation prior_authority) 1) MR_InvalidRequest) (\<lambda>generation.
      let f = mutation_fact w request intent_hash prior_authority prior_hash resulting_hash generation;
          fact_id = mutation_fact_id (mq_mutation_id request) in
      and_then (reject_err MR_InvalidRequest (encode_authority_fact (en_codec E) ''authority_mutation''
        fact_id (jc_mutation_fact (en_codec E) f))) (\<lambda>detail_ref.
      and_then (reject_err MR_InvalidRequest
        (authority_mutation_observation (en_jiff E) fact_id f detail_ref)) (\<lambda>ob.
      Inr (CommitNew f ob resulting_state))))))))))))"

definition mutation_plan ::
  "LEnv \<Rightarrow> JsonlObservationLedger \<Rightarrow> AuthorityMutationRequestV1 \<Rightarrow> bool \<Rightarrow>
   AuthorityMutationRejectionReasonV1 + string \<times> MutationPlan" where
  "mutation_plan L w request typed_path =
     (let E = ln_env L; changes = mq_changes request in
      if \<not> typed_path \<and> list_ex (\<lambda>c. is_recovery_change c \<or> is_issue_change c) changes
      then Inl MR_InvalidRequest
      else if jl_authority_tenure w = None then Inl MR_AuthorityEpochUnavailable
      else if is_poisoned w then Inl MR_WriterPoisoned
      else
        and_then (reject_err MR_InvalidRequest (authority_mutation_intent_hash E request)) (\<lambda>intent_hash.
        and_then (reject_err MR_PriorStateMismatch (cached_replay w)) (\<lambda>replay.
        if sta_passkey_admin (ry_state replay) \<noteq> None \<or>
           \<not> typed_path \<and> (sta_guardian_recovery (ry_state replay) \<noteq> None \<or>
             sta_admin_issuance (ry_state replay) \<noteq> fmempty \<or>
             sta_admin_genesis (ry_state replay) \<noteq> None)
        then Inl MR_InvalidRequest
        else case ry_mutations replay (mq_mutation_id request) of
          Some existing \<Rightarrow>
            if mf_mutation_intent_hash (cm_fact existing) \<noteq> intent_hash
            then Inl MR_MutationIdConflict
            else Inr (intent_hash, ResolveExisting existing (ry_state replay))
        | None \<Rightarrow>
            and_then (new_mutation_plan L w request intent_hash replay) (\<lambda>plan.
            Inr (intent_hash, plan)))))"

text \<open>The answer to a failed append.\<close>

fun append_failure ::
  "string \<Rightarrow> string \<Rightarrow> ObservationLedgerError \<Rightarrow> AuthorityMutationResultV1" where
  "append_failure mutation_id attempted (AppendCommitUnknown _ stage _) =
     CommitUnknown mutation_id attempted stage"
| "append_failure mutation_id attempted (WriterPoisoned _) =
     RejectedBeforeCommit mutation_id MR_WriterPoisoned"
| "append_failure mutation_id attempted _ = RejectedBeforeCommit mutation_id MR_InvalidRequest"

definition execute_authority_mutation_validated ::
  "LEnv \<Rightarrow> JsonlObservationLedger \<Rightarrow> AuthorityMutationRequestV1 \<Rightarrow> projection \<Rightarrow> bool \<Rightarrow> IoOutcome \<Rightarrow>
   JsonlObservationLedger \<times> AuthorityMutationResultV1" where
  "execute_authority_mutation_validated L w request legacy_projection_write typed_path outcome =
     (let mutation_id = mq_mutation_id request in
      case mutation_plan L w request typed_path of
        Inl reason \<Rightarrow> (w, RejectedBeforeCommit mutation_id reason)
      | Inr (_, ResolveExisting existing state) \<Rightarrow>
          (w, finish_projected_mutation (cm_fact existing) (cm_entry_sequence existing)
                (cm_entry_hash existing) ResolvedExistingFact (legacy_projection_write state))
      | Inr (intent_hash, CommitNew f ob resulting_state) \<Rightarrow>
          (case append_canonical_before_effect L w ob (mf_decided_at f) outcome of
             (w', Inl e) \<Rightarrow> (w', append_failure mutation_id intent_hash e)
           | (w', Inr entry) \<Rightarrow>
               (w', finish_projected_mutation f (le_local_sequence entry) (le_entry_hash entry)
                      NewlyCommitted (legacy_projection_write resulting_state))))"

definition execute_authority_mutation_inner ::
  "LEnv \<Rightarrow> JsonlObservationLedger \<Rightarrow> AuthorityMutationRequestV1 \<Rightarrow> projection \<Rightarrow> bool \<Rightarrow> IoOutcome \<Rightarrow>
   JsonlObservationLedger \<times> AuthorityMutationResultV1" where
  "execute_authority_mutation_inner L w request legacy_projection_write typed_path outcome =
     (if list_ex is_consumed_change (mq_changes request)
      then (w, RejectedBeforeCommit (mq_mutation_id request) MR_InvalidRequest)
      else execute_authority_mutation_validated L w request legacy_projection_write typed_path outcome)"

definition execute_authority_mutation ::
  "LEnv \<Rightarrow> JsonlObservationLedger \<Rightarrow> AuthorityMutationRequestV1 \<Rightarrow> projection \<Rightarrow> IoOutcome \<Rightarrow>
   JsonlObservationLedger \<times> AuthorityMutationResultV1" where
  "execute_authority_mutation L w request legacy_projection_write outcome =
     execute_authority_mutation_inner L w request legacy_projection_write False outcome"

definition pairing_request_valid ::
  "LEnv \<Rightarrow> JsonlObservationLedger \<Rightarrow> AuthorityMutationRequestV1 \<Rightarrow> string \<Rightarrow> Timestamp \<Rightarrow> bool" where
  "pairing_request_valid L w request authenticated_peer mother_now \<longleftrightarrow>
     (case mq_changes request of
        [PairingTicketConsumed ticket_hash (Some admission) _] \<Rightarrow>
          pq_authenticated_peer_endpoint_id admission = authenticated_peer \<and>
          ts_eq (pq_admitted_at admission) mother_now \<and>
          mq_decided_at request = ts_value mother_now \<and>
          (case cached_replay w of
             Inl _ \<Rightarrow> False
           | Inr replay \<Rightarrow>
               is_ok (validate_pairing_admission (en_jiff (ln_env L)) (ry_state replay) ticket_hash
                 admission))
      | _ \<Rightarrow> False)"

definition execute_pairing_ticket_admission ::
  "LEnv \<Rightarrow> JsonlObservationLedger \<Rightarrow> AuthorityMutationRequestV1 \<Rightarrow> string \<Rightarrow> Timestamp \<Rightarrow> projection \<Rightarrow>
   IoOutcome \<Rightarrow> JsonlObservationLedger \<times> AuthorityMutationResultV1" where
  "execute_pairing_ticket_admission L w request authenticated_peer mother_now write_projection outcome =
     (if \<not> pairing_request_valid L w request authenticated_peer mother_now
      then (w, RejectedBeforeCommit (mq_mutation_id request) MR_InvalidRequest)
      else execute_authority_mutation_validated L w request write_projection True outcome)"

section \<open>Legacy import\<close>

definition import_fact_id :: "string \<Rightarrow> string" where
  "import_fact_id import_id = ''obs:legacy-authority-import:'' @ import_id"

definition import_fact ::
  "JsonlObservationLedger \<Rightarrow> LegacyAuthorityImportRequestV1 \<Rightarrow> string \<Rightarrow> AuthorityStateV1 \<Rightarrow> string \<Rightarrow>
   GrantsAuthorityIdentityV1 \<Rightarrow> string \<Rightarrow> string \<Rightarrow> u64 \<Rightarrow> LegacyAuthorityImportFactV1" where
  "import_fact w request principal_ref imported_state decided_at prior_authority prior_hash imported_hash
       generation =
     \<lparr>li_import_id = iq_import_id request, li_mother_node_id = jl_mother_node_id w,
      li_ledger_id = jl_ledger_id w, li_authority_epoch = gi_authority_epoch prior_authority,
      li_operator_decision =
        \<lparr>io_decision_id = ''decision:'' @ iq_import_id request,
         io_authenticated_principal_ref = principal_ref, io_confirmation = iq_confirmation request,
         io_decided_at = decided_at\<rparr>,
      li_source_evidence =
        \<lparr>ise_config_authority_hash = iq_expected_config_authority_hash request,
         ise_sqlite_authority_hash = iq_expected_sqlite_authority_hash request\<rparr>,
      li_imported_state = imported_state,
      li_prior_state = \<lparr>sr_grants_authority = prior_authority, sr_authority_state_hash = prior_hash\<rparr>,
      li_resulting_state =
        \<lparr>sr_grants_authority =
           \<lparr>gi_mother_node_id = jl_mother_node_id w,
            gi_authority_epoch = gi_authority_epoch prior_authority, gi_generation = generation,
            gi_source_authority_observation_id = import_fact_id (iq_import_id request)\<rparr>,
         sr_authority_state_hash = imported_hash\<rparr>\<rparr>"

definition import_plan ::
  "LEnv \<Rightarrow> JsonlObservationLedger \<Rightarrow> LegacyAuthorityImportRequestV1 \<Rightarrow> string \<Rightarrow> AuthorityStateV1 \<Rightarrow>
   string \<Rightarrow> AuthorityMutationRejectionReasonV1 + LegacyAuthorityImportFactV1 \<times> MctObservation" where
  "import_plan L w request principal_ref imported_state decided_at =
     (let E = ln_env L in
      if jl_authority_tenure w = None then Inl MR_AuthorityEpochUnavailable
      else if iq_schema request \<noteq> ''mct-legacy-authority-import-request/v1'' \<or>
              trim_is_empty (iq_import_id request) \<or>
              iq_expected_mother_node_id request \<noteq> jl_mother_node_id w \<or>
              iq_expected_ledger_id request \<noteq> jl_ledger_id w \<or>
              iq_confirmation request \<noteq> LEGACY_AUTHORITY_IMPORT_CONFIRMATION_V1 \<or>
              \<not> is_ok (Timestamp_new (en_jiff E) decided_at)
      then Inl MR_InvalidRequest
      else
        and_then (reject_err MR_PriorStateMismatch (cached_replay w)) (\<lambda>replay.
        if ry_imported replay then Inl MR_AlreadyImported
        else if ry_mutations replay \<noteq> Map.empty then Inl MR_PriorStateMismatch
        else
          and_then (ok_or (ry_current_authority replay) MR_AuthorityEpochUnavailable) (\<lambda>prior_authority.
          if \<not> state_is_legacy imported_state \<or> \<not> state_is_legacy (ry_state replay)
          then Inl MR_InvalidRequest
          else
            and_then (reject_err MR_InvalidRequest (authority_state_hash E imported_state)) (\<lambda>imported_hash.
            if imported_hash \<noteq> iq_expected_sqlite_authority_hash request
            then Inl MR_LegacySnapshotChanged
            else
              and_then (reject_err MR_PriorStateMismatch (authority_state_hash E (ry_state replay))) (\<lambda>prior_hash.
              and_then (ok_or (checked_add_u64 (gi_generation prior_authority) 1) MR_InvalidRequest) (\<lambda>generation.
              let f = import_fact w request principal_ref imported_state decided_at prior_authority
                        prior_hash imported_hash generation;
                  fact_id = import_fact_id (iq_import_id request) in
              and_then (reject_err MR_InvalidRequest (encode_authority_fact (en_codec E)
                ''legacy_authority_import'' fact_id (jc_import_fact (en_codec E) f))) (\<lambda>detail_ref.
              and_then (reject_err MR_InvalidRequest
                (legacy_import_observation (en_jiff E) fact_id f detail_ref)) (\<lambda>ob.
              Inr (f, ob)))))))))"

definition execute_legacy_authority_import ::
  "LEnv \<Rightarrow> JsonlObservationLedger \<Rightarrow> LegacyAuthorityImportRequestV1 \<Rightarrow> string \<Rightarrow> AuthorityStateV1 \<Rightarrow>
   string \<Rightarrow> IoOutcome \<Rightarrow> JsonlObservationLedger \<times> AuthorityMutationResultV1" where
  "execute_legacy_authority_import L w request principal_ref imported_state decided_at outcome =
     (let mutation_id = iq_import_id request in
      case import_plan L w request principal_ref imported_state decided_at of
        Inl reason \<Rightarrow> (w, RejectedBeforeCommit mutation_id reason)
      | Inr (f, ob) \<Rightarrow>
          (case append_canonical_before_effect L w ob decided_at outcome of
             (w', Inl e) \<Rightarrow>
               (w', append_failure mutation_id (sr_authority_state_hash (li_resulting_state f)) e)
           | (w', Inr entry) \<Rightarrow>
               (w', CommittedProjectionPending mutation_id NewlyCommitted (le_local_sequence entry)
                      (le_entry_hash entry) (sr_grants_authority (li_resulting_state f))
                      ProjectionNotAttempted)))"

section \<open>Equality of commands\<close>

text \<open>
  The derived \<open>==\<close> on values that contain times: equality after each time is replaced by its
  instant.
\<close>

definition instant_only :: "Timestamp \<Rightarrow> Timestamp" where
  "instant_only t = Timestamp [] (ts_ns t)"

definition instant_grant :: "AdminKeyGrantV1 \<Rightarrow> AdminKeyGrantV1" where
  "instant_grant g = g\<lparr>ag_expires_at := map_option instant_only (ag_expires_at g)\<rparr>"

definition issue_request_eq :: "AdminKeyIssueRequestV1 \<Rightarrow> AdminKeyIssueRequestV1 \<Rightarrow> bool" where
  "issue_request_eq a b \<longleftrightarrow>
     (let norm = (\<lambda>r. r\<lparr>xq_intent := (xq_intent r)\<lparr>xi_grant := instant_grant (xi_grant (xq_intent r))\<rparr>\<rparr>) in
      norm a = norm b)"

definition genesis_request_eq :: "AdminGenesisRequestV1 \<Rightarrow> AdminGenesisRequestV1 \<Rightarrow> bool" where
  "genesis_request_eq a b \<longleftrightarrow>
     (let norm = (\<lambda>r. r\<lparr>gq_intent := (gq_intent r)\<lparr>gn_root := instant_grant (gn_root (gq_intent r))\<rparr>\<rparr>) in
      norm a = norm b)"

fun instant_passkey_action :: "PasskeyAdminActionV1 \<Rightarrow> PasskeyAdminActionV1" where
  "instant_passkey_action (PA_IssueDayKey g h scopes e) = PA_IssueDayKey g h scopes (instant_only e)"
| "instant_passkey_action a = a"

definition instant_passkey_intent :: "PasskeyAdminIntentV1 \<Rightarrow> PasskeyAdminIntentV1" where
  "instant_passkey_intent i =
     i\<lparr>pi_issued_at := instant_only (pi_issued_at i), pi_expires_at := instant_only (pi_expires_at i),
       pi_action := instant_passkey_action (pi_action i)\<rparr>"

definition passkey_request_eq :: "PasskeyAdminRequestV1 \<Rightarrow> PasskeyAdminRequestV1 \<Rightarrow> bool" where
  "passkey_request_eq a b \<longleftrightarrow>
     pr_proof a = pr_proof b \<and>
     instant_passkey_intent (pr_intent a) = instant_passkey_intent (pr_intent b)"

definition instant_approval :: "GuardianRecoveryApprovalV1 \<Rightarrow> GuardianRecoveryApprovalV1" where
  "instant_approval a =
     a\<lparr>gv_issued_at := instant_only (gv_issued_at a), gv_expires_at := instant_only (gv_expires_at a)\<rparr>"

definition instant_recovery_request :: "RecoveryRequestV1 \<Rightarrow> RecoveryRequestV1" where
  "instant_recovery_request r =
     (let i = rr_intent r in
      r\<lparr>rr_intent := i\<lparr>ri_not_before := instant_only (ri_not_before i),
                       ri_expires_at := instant_only (ri_expires_at i)\<rparr>\<rparr>)"

definition instant_proposal :: "GuardianPolicyProposalV1 \<Rightarrow> GuardianPolicyProposalV1" where
  "instant_proposal p =
     (let e = pp_edit p in
      p\<lparr>pp_edit := e\<lparr>pe_issued_at := instant_only (pe_issued_at e),
                     pe_expires_at := instant_only (pe_expires_at e)\<rparr>,
        pp_approvals := map instant_approval (pp_approvals p)\<rparr>)"

fun instant_action :: "GuardianRecoveryActionV1 \<Rightarrow> GuardianRecoveryActionV1" where
  "instant_action (ProposePolicy p) = ProposePolicy (instant_proposal p)"
| "instant_action (CancelPolicy s as) = CancelPolicy s (map instant_approval as)"
| "instant_action (Initiate r as) = Initiate (instant_recovery_request r) (map instant_approval as)"
| "instant_action (CancelRecovery as) = CancelRecovery (map instant_approval as)"
| "instant_action (CompleteRecovery as) = CompleteRecovery (map instant_approval as)"
| "instant_action a = a"

definition recovery_command_eq :: "GuardianRecoveryCommandV1 \<Rightarrow> GuardianRecoveryCommandV1 \<Rightarrow> bool" where
  "recovery_command_eq a b \<longleftrightarrow>
     gc_expected_state a = gc_expected_state b \<and>
     instant_action (gc_action a) = instant_action (gc_action b)"

section \<open>Key issuance (admin\_issuance.rs)\<close>

definition issuance_sources ::
  "AuthorityReplayV1 \<Rightarrow> AdminKeyIssueRequestV1 \<Rightarrow> Timestamp \<Rightarrow>
   AuthorityMutationRejectionReasonV1 + Timestamp \<times> GrantShapingSourceV1 list" where
  "issuance_sources replay request now =
     (case ry_mutations replay (xi_issuance_id (xq_intent request)) of
        Some existing \<Rightarrow>
          (case mf_changes (cm_fact existing) of
             [AdminKeyIssue prior decided_at] \<Rightarrow>
               if issue_request_eq prior request
               then Inr (decided_at, mf_grant_shaping_sources (cm_fact existing))
               else Inl MR_MutationIdConflict
           | _ \<Rightarrow> Inl MR_MutationIdConflict)
      | None \<Rightarrow>
          and_then (ok_or (fmlookup (sta_admin_key_grants (ry_state replay))
                      (xi_issuer_grant_id (xq_intent request))) MR_InvalidRequest) (\<lambda>issuer.
          Inr (now, [AdminKeySource (ag_public_half issuer)])))"

definition execute_admin_key_issuance_at ::
  "LEnv \<Rightarrow> JsonlObservationLedger \<Rightarrow> AdminKeyIssueRequestV1 \<Rightarrow> Timestamp \<Rightarrow> IoOutcome \<Rightarrow>
   JsonlObservationLedger \<times> AuthorityMutationResultV1" where
  "execute_admin_key_issuance_at L w request now outcome =
     (let ident = xi_issuance_id (xq_intent request) in
      case and_then (reject_err MR_PriorStateMismatch (cached_replay w))
             (\<lambda>replay. issuance_sources replay request now) of
        Inl reason \<Rightarrow> (w, RejectedBeforeCommit ident reason)
      | Inr (decided_at, sources) \<Rightarrow>
          execute_authority_mutation_inner L w
            \<lparr>mq_mutation_id = ident, mq_changes = [AdminKeyIssue request decided_at],
             mq_grant_shaping_sources = sources, mq_decided_at = ts_value decided_at\<rparr>
            (\<lambda>_. Inr None) True outcome)"

section \<open>Guardian recovery (guardian\_recovery.rs)\<close>

text \<open>
  The wall clock, the milliseconds since the writer opened, and the same counter after the
  append are arguments; the last one measures the wait for durability.
\<close>

definition recovery_clock ::
  "JsonlObservationLedger \<Rightarrow> AuthorityWriterTenureV1 \<Rightarrow> Timestamp \<Rightarrow> u64 \<Rightarrow> RecoveryClockV1" where
  "recovery_clock w tenure wall_time monotonic_ms =
     \<lparr>rc_writer_epoch = ef_authority_epoch (tn_fact tenure), rc_wall_time = wall_time,
      rc_monotonic_ms = saturating_sub_u64 monotonic_ms (jl_recovery_wait_offset_ms w)\<rparr>"

definition resolved_clock ::
  "JsonlObservationLedger \<Rightarrow> string \<Rightarrow> GuardianRecoveryCommandV1 \<Rightarrow> RecoveryClockV1 \<Rightarrow>
   RecoveryClockV1 option" where
  "resolved_clock w mutation_id command clock =
     (case cached_replay w of
        Inl _ \<Rightarrow> Some clock
      | Inr replay \<Rightarrow>
          (case ry_mutations replay mutation_id of
             None \<Rightarrow> Some clock
           | Some existing \<Rightarrow>
               (case mf_changes (cm_fact existing) of
                  [GuardianRecovery old old_clock] \<Rightarrow>
                    if recovery_command_eq old command then Some old_clock else None
                | _ \<Rightarrow> None)))"

fun starts_wait :: "GuardianRecoveryActionV1 \<Rightarrow> bool" where
  "starts_wait (Initiate _ _) = True"
| "starts_wait (ProposePolicy _) = True"
| "starts_wait RebaseWait = True"
| "starts_wait _ = False"

fun newly_committed :: "AuthorityMutationResultV1 \<Rightarrow> bool" where
  "newly_committed (Committed _ NewlyCommitted _ _ _ _) = True"
| "newly_committed (CommittedProjectionPending _ NewlyCommitted _ _ _ _) = True"
| "newly_committed _ = False"

definition recovery_waiting :: "JsonlObservationLedger \<Rightarrow> bool" where
  "recovery_waiting w \<longleftrightarrow>
     (case cached_replay w of
        Inl _ \<Rightarrow> False
      | Inr replay \<Rightarrow>
          (case sta_guardian_recovery (ry_state replay) of
             None \<Rightarrow> False
           | Some r \<Rightarrow> rs_pending r \<noteq> None \<or> pending_policy_edit r \<noteq> None))"

definition execute_guardian_recovery_with_clock ::
  "LEnv \<Rightarrow> JsonlObservationLedger \<Rightarrow> string \<Rightarrow> GuardianRecoveryCommandV1 \<Rightarrow> Timestamp \<Rightarrow> u64 \<Rightarrow> u64 \<Rightarrow>
   IoOutcome \<Rightarrow> JsonlObservationLedger \<times> AuthorityMutationResultV1" where
  "execute_guardian_recovery_with_clock L w mutation_id command wall_time monotonic_ms elapsed_ms outcome =
     (case jl_authority_tenure w of
        None \<Rightarrow> (w, RejectedBeforeCommit mutation_id MR_AuthorityEpochUnavailable)
      | Some tenure \<Rightarrow>
          (case resolved_clock w mutation_id command (recovery_clock w tenure wall_time monotonic_ms) of
             None \<Rightarrow> (w, RejectedBeforeCommit mutation_id MR_MutationIdConflict)
           | Some clock \<Rightarrow>
               (case execute_authority_mutation_inner L w
                       \<lparr>mq_mutation_id = mutation_id, mq_changes = [GuardianRecovery command clock],
                        mq_grant_shaping_sources = [OperatorDecision mutation_id
                          ''verified-recovery-transcript'' GrantChange],
                        mq_decided_at = ts_value (rc_wall_time clock)\<rparr>
                       (\<lambda>_. Inr None) True outcome of
                  (w', result) \<Rightarrow>
                    if \<not> newly_committed result then (w', result)
                    else if \<not> recovery_waiting w' then (w'\<lparr>jl_recovery_wait_offset_ms := 0\<rparr>, result)
                    else if starts_wait (gc_action command)
                    then (w'\<lparr>jl_recovery_wait_offset_ms :=
                            saturating_add_u64 (jl_recovery_wait_offset_ms w')
                              (saturating_sub_u64 (saturating_add_u64 elapsed_ms 1) monotonic_ms)\<rparr>,
                          result)
                    else (w', result))))"

fun host_only_action :: "GuardianRecoveryActionV1 \<Rightarrow> bool" where
  "host_only_action RebaseWait = True"
| "host_only_action (IssueChallenge _) = True"
| "host_only_action ExpireRecovery = True"
| "host_only_action ActivatePolicy = True"
| "host_only_action _ = False"

definition execute_guardian_recovery ::
  "LEnv \<Rightarrow> JsonlObservationLedger \<Rightarrow> string \<Rightarrow> GuardianRecoveryCommandV1 \<Rightarrow> Timestamp \<Rightarrow> u64 \<Rightarrow> u64 \<Rightarrow>
   IoOutcome \<Rightarrow> JsonlObservationLedger \<times> AuthorityMutationResultV1" where
  "execute_guardian_recovery L w mutation_id command wall_time monotonic_ms elapsed_ms outcome =
     (if host_only_action (gc_action command)
      then (w, RejectedBeforeCommit mutation_id MR_InvalidRequest)
      else execute_guardian_recovery_with_clock L w mutation_id command wall_time monotonic_ms
             elapsed_ms outcome)"

text \<open>\<open>activate_guardian_policy\<close>, \<open>rebase_guardian_recovery_clock\<close> and \<open>expire_guardian_recovery\<close>.\<close>

definition host_recovery ::
  "GuardianRecoveryActionV1 \<Rightarrow> LEnv \<Rightarrow> JsonlObservationLedger \<Rightarrow> string \<Rightarrow> RecoveryDigestV1 \<Rightarrow> Timestamp \<Rightarrow>
   u64 \<Rightarrow> u64 \<Rightarrow> IoOutcome \<Rightarrow> JsonlObservationLedger \<times> AuthorityMutationResultV1" where
  "host_recovery action L w mutation_id expected_state wall_time monotonic_ms elapsed_ms outcome =
     execute_guardian_recovery_with_clock L w mutation_id
       \<lparr>gc_expected_state = Some expected_state, gc_action = action\<rparr> wall_time monotonic_ms
       elapsed_ms outcome"

definition activate_guardian_policy where
  "activate_guardian_policy = host_recovery ActivatePolicy"

definition rebase_guardian_recovery_clock where
  "rebase_guardian_recovery_clock = host_recovery RebaseWait"

definition expire_guardian_recovery where
  "expire_guardian_recovery = host_recovery ExpireRecovery"

definition challenge_context ::
  "LEnv \<Rightarrow> JsonlObservationLedger \<Rightarrow> (string \<times> string) option" where
  "challenge_context L w =
     (case cached_replay w of
        Inl _ \<Rightarrow> None
      | Inr replay \<Rightarrow>
          (case (authority_state_hash (ln_env L) (ry_state replay), ry_current_authority replay) of
             (Inr h, Some authority) \<Rightarrow> Some (h, gi_authority_epoch authority)
           | _ \<Rightarrow> None))"

definition issue_guardian_recovery_challenge ::
  "LEnv \<Rightarrow> JsonlObservationLedger \<Rightarrow> string \<Rightarrow> RecoveryDigestV1 \<Rightarrow> string + string \<Rightarrow> Timestamp \<Rightarrow> u64 \<Rightarrow>
   u64 \<Rightarrow> IoOutcome \<Rightarrow> JsonlObservationLedger \<times> AuthorityMutationResultV1" where
  "issue_guardian_recovery_challenge L w mutation_id expected_state entropy wall_time monotonic_ms
       elapsed_ms outcome =
     (case challenge_context L w of
        None \<Rightarrow> (w, RejectedBeforeCommit mutation_id MR_PriorStateMismatch)
      | Some (state_hash, epoch) \<Rightarrow>
          (case entropy of
             Inl _ \<Rightarrow> (w, RejectedBeforeCommit mutation_id MR_InvalidRequest)
           | Inr random \<Rightarrow>
               (case blake3_of (en_crypto (ln_env L)) (en_codec (ln_env L))
                       (tagged ''mct-recovery-writer-challenge/v1''
                          [Inr (JArray [JString state_hash, JString epoch]),
                           Inr (JArray (map (\<lambda>b. JNumber (dec (of_char b))) random))]) of
                  Inl _ \<Rightarrow> (w, RejectedBeforeCommit mutation_id MR_InvalidRequest)
                | Inr challenge \<Rightarrow>
                    host_recovery (IssueChallenge challenge) L w mutation_id expected_state wall_time
                      monotonic_ms elapsed_ms outcome)))"

section \<open>Strict genesis (admin\_genesis.rs)\<close>

record AdminGenesisSetupV1 =
  gs_mother_node_id :: string
  gs_ledger_id :: string
  gs_pinned_root :: RecoveryPublicKeyV1
  gs_inventory_hash :: string

text \<open>The first entry of the file, as the receipt of a committed birth.\<close>

definition birth_receipt ::
  "LEnv \<Rightarrow> JsonlObservationLedger \<Rightarrow> ObservationLedgerError \<Rightarrow> MctObservationLedgerEntry ledger_result" where
  "birth_receipt L w missing =
     and_then (ledger_entries L (jl_path w) (jl_ledger_id w) (jl_mother_node_id w) (Inr (jl_file w)))
       (\<lambda>entries. case entries of [] \<Rightarrow> Inl missing | entry # _ \<Rightarrow> Inr entry)"

definition execute_admin_genesis_at ::
  "LEnv \<Rightarrow> JsonlObservationLedger \<Rightarrow> AdminGenesisSetupV1 \<Rightarrow> AdminGenesisRequestV1 \<Rightarrow> Timestamp \<Rightarrow>
   IoOutcome \<Rightarrow> JsonlObservationLedger \<times> MctObservationLedgerEntry ledger_result" where
  "execute_admin_genesis_at L w setup request now outcome =
     (let i = gq_intent request; E = ln_env L in
      if is_poisoned w then (w, Inl (genesis_failure ''genesis writer is poisoned''))
      else case genesis_validate E request of
        Inl e \<Rightarrow> (w, Inl e)
      | Inr _ \<Rightarrow>
          if jl_mother_node_id w \<noteq> gs_mother_node_id setup \<or> jl_ledger_id w \<noteq> gs_ledger_id setup \<or>
             gn_mother_node_id i \<noteq> gs_mother_node_id setup \<or> gn_ledger_id i \<noteq> gs_ledger_id setup \<or>
             gn_inventory_hash i \<noteq> gs_inventory_hash setup \<or>
             ag_public_half (gn_root i) \<noteq> rk_ed25519 (gs_pinned_root setup) \<or>
             ag_ml_dsa65_public_key (gn_root i) \<noteq> Some (rk_ml_dsa65 (gs_pinned_root setup))
          then (w, Inl (genesis_failure ''genesis does not match independently pinned setup''))
          else case cached_replay w of
            Inl e \<Rightarrow> (w, Inl e)
          | Inr replay \<Rightarrow>
              (case sta_admin_genesis (ry_state replay) of
                 Some prior \<Rightarrow>
                   if \<not> genesis_request_eq (gf_request prior) request
                   then (w, Inl (genesis_failure ''genesis conflicts with committed birth''))
                   else (w, birth_receipt L w (genesis_failure ''genesis receipt missing''))
               | None \<Rightarrow>
                   if \<not> jl_created_new w \<or> jl_next_sequence w \<noteq> 0 \<or> jl_authority_tenure w \<noteq> None \<or>
                      ry_state replay \<noteq> AuthorityStateV1_default \<or>
                      ry_current_authority replay \<noteq> None \<or> jl_recovery_status w \<noteq> None
                   then (w, Inl (genesis_failure ''nonvirgin history cannot acquire strict genesis''))
                   else
                     let f = \<lparr>gf_request = request, gf_decided_at = now\<rparr> in
                     (case genesis_observation (en_codec E) f of
                        Inl e \<Rightarrow> (w, Inl e)
                      | Inr ob \<Rightarrow> append_canonical_before_effect L w ob (ts_value now) outcome)))"

section \<open>Passkey administration (passkey\_admin.rs)\<close>

record PasskeyGenesisSetupV1 =
  ks_mother_node_id :: string
  ks_ledger_id :: string
  ks_root :: WebAuthnP256DayKeyV1
  ks_inventory_hash :: string

definition from_registered_passkey ::
  "Env \<Rightarrow> string \<Rightarrow> string \<Rightarrow> WebAuthnP256DayKeyV1 \<Rightarrow> AuthorityTenureStartupEvidenceV1 \<Rightarrow>
   PasskeyGenesisSetupV1 ledger_result" where
  "from_registered_passkey E mother_node_id ledger_id root startup =
     and_then (map_err denied (WebAuthnP256DayKeyV1_validate (en_crypto E) (wb_url (en_web E)) root)) (\<lambda>_.
     let refuse = Inl (denied ''passkey genesis requires independent virgin startup'') in
     if sv_startup_class startup \<noteq> Virgin \<or> sv_expected_predecessor startup \<noteq> NoneForVirgin \<or>
        sv_expected_prior_authority startup \<noteq> None
     then refuse
     else and_then (authority_state_hash E AuthorityStateV1_default) (\<lambda>empty_hash.
       if sv_expected_authority_state_hash startup \<noteq> empty_hash \<or>
          sv_operator_gate_decision_id startup \<noteq> None \<or>
          sv_authenticated_principal_ref startup \<noteq> None \<or>
          \<not> is_digest64 (sv_inventory_hash startup)
       then refuse
       else Inr \<lparr>ks_mother_node_id = mother_node_id, ks_ledger_id = ledger_id, ks_root = root,
                 ks_inventory_hash = sv_inventory_hash startup\<rparr>))"

definition setup_validate_request ::
  "PasskeyGenesisSetupV1 \<Rightarrow> PasskeyAdminRequestV1 \<Rightarrow> unit ledger_result" where
  "setup_validate_request setup request =
     (let i = pr_intent request in
      case pi_action i of
        PA_Bootstrap root inventory_hash \<Rightarrow>
          if pi_mother_node_id i \<noteq> ks_mother_node_id setup \<or> pi_ledger_id i \<noteq> ks_ledger_id setup \<or>
             root \<noteq> ks_root setup \<or> inventory_hash \<noteq> ks_inventory_hash setup
          then Inl (denied ''genesis disagrees with trusted registration/setup'') else Inr ()
      | _ \<Rightarrow> Inl (denied ''not genesis''))"

definition commit_passkey_at ::
  "LEnv \<Rightarrow> JsonlObservationLedger \<Rightarrow> PasskeyAdminRequestV1 \<Rightarrow> Timestamp \<Rightarrow> IoOutcome \<Rightarrow>
   JsonlObservationLedger \<times> MctObservationLedgerEntry ledger_result" where
  "commit_passkey_at L w request time outcome =
     (let E = ln_env L; f = \<lparr>kf_request = request, kf_decided_at = time\<rparr> in
      if is_poisoned w \<or> pi_mother_node_id (pr_intent request) \<noteq> jl_mother_node_id w \<or>
         pi_ledger_id (pr_intent request) \<noteq> jl_ledger_id w
      then (w, Inl (denied ''writer unavailable or wrong target''))
      else case and_then (cached_replay w) (\<lambda>replay.
                and_then (passkey_transition E replay f) (\<lambda>_.
                and_then (passkey_identity E f) (\<lambda>_. passkey_observation E f))) of
        Inl e \<Rightarrow> (w, Inl e)
      | Inr ob \<Rightarrow> append_canonical_before_effect L w ob (ts_value time) outcome)"

definition execute_passkey_genesis_at ::
  "LEnv \<Rightarrow> JsonlObservationLedger \<Rightarrow> PasskeyGenesisSetupV1 \<Rightarrow> PasskeyAdminRequestV1 \<Rightarrow> Timestamp \<Rightarrow>
   IoOutcome \<Rightarrow> JsonlObservationLedger \<times> MctObservationLedgerEntry ledger_result" where
  "execute_passkey_genesis_at L w setup request time outcome =
     (case setup_validate_request setup request of
        Inl e \<Rightarrow> (w, Inl e)
      | Inr _ \<Rightarrow>
          if is_poisoned w \<or> jl_mother_node_id w \<noteq> ks_mother_node_id setup \<or>
             jl_ledger_id w \<noteq> ks_ledger_id setup
          then (w, Inl (denied ''genesis disagrees with trusted registration/setup''))
          else case cached_replay w of
            Inl e \<Rightarrow> (w, Inl e)
          | Inr replay \<Rightarrow>
              (case sta_passkey_admin (ry_state replay) of
                 Some prior \<Rightarrow>
                   if passkey_request_eq (kf_request (kc_genesis prior)) request
                   then (w, birth_receipt L w (denied ''missing birth receipt''))
                   else (w, Inl (denied ''conflicting passkey genesis''))
               | None \<Rightarrow>
                   if \<not> jl_created_new w \<or> jl_next_sequence w \<noteq> 0 \<or> jl_authority_tenure w \<noteq> None \<or>
                      jl_recovery_status w \<noteq> None
                   then (w, Inl (denied ''nonvirgin ledger cannot acquire passkey provenance''))
                   else commit_passkey_at L w request time outcome))"

fun is_lease_action :: "PasskeyAdminActionV1 \<Rightarrow> bool" where
  "is_lease_action (PA_IssueDayKey _ _ _ _) = True"
| "is_lease_action (PA_RevokeDayKey _) = True"
| "is_lease_action _ = False"

definition execute_passkey_admin_at ::
  "LEnv \<Rightarrow> JsonlObservationLedger \<Rightarrow> PasskeyAdminRequestV1 \<Rightarrow> Timestamp \<Rightarrow> IoOutcome \<Rightarrow>
   JsonlObservationLedger \<times> MctObservationLedgerEntry ledger_result" where
  "execute_passkey_admin_at L w request time outcome =
     (if \<not> is_lease_action (pi_action (pr_intent request))
      then (w, Inl (denied ''wrong administrative API''))
      else commit_passkey_at L w request time outcome)"

text \<open>The checks after the commit and before the effect, at a second reading of the clock.\<close>

definition passkey_effect_allowed ::
  "LEnv \<Rightarrow> JsonlObservationLedger \<Rightarrow> PasskeyAdminRequestV1 \<Rightarrow> AdminKeyScopeV1 \<Rightarrow> Timestamp \<Rightarrow>
   unit ledger_result" where
  "passkey_effect_allowed L w request scope time =
     (let E = ln_env L; J = en_jiff E in
      and_then (map_err denied (PasskeyAdminIntentV1_validate J (pr_intent request) time)) (\<lambda>_.
      and_then (cached_replay w) (\<lambda>replay.
      and_then (ok_or (sta_passkey_admin (ry_state replay)) (denied ''lost passkey provenance'')) (\<lambda>canonical.
      let state = kc_state canonical in
      and_then (map_err denied (jf_parse J (ts_value time))) (\<lambda>parsed.
      and_then (map_err denied (jf_parse J (ts_value (ps_last_decided_at state)))) (\<lambda>last.
      if parsed < last then Inl (denied ''clock rollback after admission'')
      else case pr_proof request of
        DP_Ed25519 grant_id _ \<Rightarrow>
          if (case ps_day_keys state grant_id of None \<Rightarrow> False
              | Some key \<Rightarrow> day_key_authorizes (en_crypto E) J key scope time)
          then Inr () else Inl (denied ''lease expired or revoked before effect'')
      | _ \<Rightarrow> Inr ()))))))"

definition execute_passkey_command_with_clock ::
  "LEnv \<Rightarrow> JsonlObservationLedger \<Rightarrow> PasskeyAdminRequestV1 \<Rightarrow> string \<Rightarrow> AdminKeyScopeV1 \<Rightarrow> Timestamp \<Rightarrow>
   Timestamp \<Rightarrow> (string \<Rightarrow> 'a ledger_result) \<Rightarrow> IoOutcome \<Rightarrow> JsonlObservationLedger \<times> 'a ledger_result" where
  "execute_passkey_command_with_clock L w request route scope first_time second_time effect outcome =
     (case pi_action (pr_intent request) of
        PA_Command signed_scope signed_route body \<Rightarrow>
          if signed_scope \<noteq> scope \<or> signed_route \<noteq> route
          then (w, Inl (denied ''route/scope substitution''))
          else (case commit_passkey_at L w request first_time outcome of
             (w', Inl e) \<Rightarrow> (w', Inl e)
           | (w', Inr _) \<Rightarrow>
               (w', and_then (passkey_effect_allowed L w' request scope second_time) (\<lambda>_. effect body)))
      | _ \<Rightarrow> (w, Inl (denied ''not a scoped command'')))"

end
