(* ===== verification/MCT_Ledger_Open.thy ===== *)
theory MCT_Ledger_Open
  imports MCT_Writer
begin

text \<open>
  Opening a ledger (\<open>mct-observation/src/lib.rs\<close>): the writer lock, the classification of the
  file, the recovery of an unterminated tail with its forensic record, the completion of an
  interrupted recovery, the preservation of a quarantined file, and the check of the forensics.

  A disk holds the bytes of files and the directories that exist. Every operation that can fail
  consumes one entry of a fault plan. A failed append may leave some of its bytes; a failed
  replacement or creation of a file may have taken place when only the sync of its directory failed;
  any other failed operation leaves the disk as it was. An operation of a disk returns the disk
  after it also when it fails. The hook between the stages of a recovery may fail as well. An
  \<open>expect\<close> that fails ends the process; it is an error value here, on the disk as it is. A ledger
  path ends in an ordinary file name, to which the name of the forensic directory appends.
\<close>

section \<open>Disk operations\<close>

datatype IoFault = NoFault | Fault nat string

record Disk =
  fs_files :: "(string, string) fmap"
  fs_dirs :: "string set"
  fs_ops :: nat

type_synonym plan = "nat \<Rightarrow> IoFault"
type_synonym 'a io = "Disk \<Rightarrow> Disk \<times> 'a ledger_result"

definition io_return :: "'a ledger_result \<Rightarrow> 'a io" where
  "io_return r = (\<lambda>d. (d, r))"

definition io_bind :: "'a io \<Rightarrow> ('a \<Rightarrow> 'b io) \<Rightarrow> 'b io" where
  "io_bind m k = (\<lambda>d. case m d of (d', Inl e) \<Rightarrow> (d', Inl e) | (d', Inr x) \<Rightarrow> k x d')"

text \<open>
  One operation that can fail at a path. \<open>partial\<close> is its effect when it fails, \<open>effect\<close> when it
  succeeds.
\<close>

definition io_op ::
  "plan \<Rightarrow> string \<Rightarrow> (nat \<Rightarrow> Disk \<Rightarrow> Disk) \<Rightarrow> (Disk \<Rightarrow> Disk \<times> 'a ledger_result) \<Rightarrow> 'a io" where
  "io_op plan path partial effect = (\<lambda>d.
     let d' = d\<lparr>fs_ops := Suc (fs_ops d)\<rparr> in
     case plan (fs_ops d) of
       Fault n e \<Rightarrow> (partial n d', Inl (LE_Io path e))
     | NoFault \<Rightarrow> effect d')"

definition set_file :: "string \<Rightarrow> string \<Rightarrow> Disk \<Rightarrow> Disk" where
  "set_file path bytes d = d\<lparr>fs_files := fmupd path bytes (fs_files d)\<rparr>"

definition file_of :: "string \<Rightarrow> Disk \<Rightarrow> string" where
  "file_of path d = (case fmlookup (fs_files d) path of None \<Rightarrow> [] | Some bytes \<Rightarrow> bytes)"

definition fs_read :: "plan \<Rightarrow> string \<Rightarrow> string io" where
  "fs_read plan path =
     io_op plan path (\<lambda>_ d. d) (\<lambda>d. (d,
       case fmlookup (fs_files d) path of
         None \<Rightarrow> Inl (LE_Io path ''entity not found'') | Some bytes \<Rightarrow> Inr bytes))"

definition sync_directory :: "plan \<Rightarrow> string \<Rightarrow> unit io" where
  "sync_directory plan path = io_op plan path (\<lambda>_ d. d) (\<lambda>d. (d, Inr ()))"

definition ensure_private_directory :: "plan \<Rightarrow> string \<Rightarrow> unit io" where
  "ensure_private_directory plan path =
     io_bind (io_op plan path (\<lambda>_ d. d) (\<lambda>d. (d\<lparr>fs_dirs := insert path (fs_dirs d)\<rparr>, Inr ())))
       (\<lambda>_. sync_directory plan path)"

text \<open>
  \<open>private_fs::write_atomic\<close> replaces the file or changes nothing. It fails before the rename
  (\<open>n = 0\<close>) or at the sync of the directory after it.
\<close>

definition write_bytes_durable :: "plan \<Rightarrow> string \<Rightarrow> string \<Rightarrow> unit io" where
  "write_bytes_durable plan path bytes =
     io_op plan path (\<lambda>n d. if n = 0 then d else set_file path bytes d)
       (\<lambda>d. (set_file path bytes d, Inr ()))"

definition write_bytes_once_durable :: "plan \<Rightarrow> string \<Rightarrow> string \<Rightarrow> unit io" where
  "write_bytes_once_durable plan path bytes = (\<lambda>d.
     if fmlookup (fs_files d) path \<noteq> None
     then io_bind (fs_read plan path) (\<lambda>existing. io_return
       (if existing = bytes then Inr ()
        else Inl (LedgerChanged path (usize_u64 bytes) (usize_u64 existing)))) d
     else write_bytes_durable plan path bytes d)"

definition file_set_len :: "plan \<Rightarrow> string \<Rightarrow> u64 \<Rightarrow> unit io" where
  "file_set_len plan path len =
     io_op plan path (\<lambda>_ d. d)
       (\<lambda>d. (set_file path (take (unat len) (file_of path d)) d, Inr ()))"

definition file_sync_data :: "plan \<Rightarrow> string \<Rightarrow> unit io" where
  "file_sync_data plan path = io_op plan path (\<lambda>_ d. d) (\<lambda>d. (d, Inr ()))"

definition file_write_all :: "plan \<Rightarrow> string \<Rightarrow> string \<Rightarrow> unit io" where
  "file_write_all plan path bytes =
     io_op plan path (\<lambda>n d. set_file path (file_of path d @ take n bytes) d)
       (\<lambda>d. (set_file path (file_of path d @ bytes) d, Inr ()))"

section \<open>Recovery of a tail\<close>

datatype RecoveryStage =
    ForensicDirectoryReady | SourceBytesPreserved | DiagnosticRecordPreserved | LedgerTruncated
  | RecoveryObservationAppended | DiagnosticRecordCompleted

record REnv =
  rn_ledger :: LEnv
  rn_status_to_vec :: "LedgerRecoveryStatus \<Rightarrow> string + string"
  rn_status_from_slice :: "string \<Rightarrow> string + LedgerRecoveryStatus"
  rn_quarantine_to_vec :: "LedgerQuarantineStatus \<Rightarrow> string + string"
  rn_plan :: plan
  rn_hook :: "RecoveryStage \<Rightarrow> string + unit"

definition call_recovery_hook :: "REnv \<Rightarrow> string \<Rightarrow> RecoveryStage \<Rightarrow> unit io" where
  "call_recovery_hook R path stage = io_return (map_err (LE_Io path) (rn_hook R stage))"

definition path_join :: "string \<Rightarrow> string \<Rightarrow> string" where
  "path_join a b = a @ ''/'' @ b"

definition forensic_root_path :: "string \<Rightarrow> string" where
  "forensic_root_path ledger_path = ledger_path @ ''.forensics''"

definition tail_case_dir :: "string \<Rightarrow> u64 \<Rightarrow> string \<Rightarrow> string" where
  "tail_case_dir path offset digest =
     path_join (forensic_root_path path) (''tail-'' @ dec_u64 offset @ ''-'' @ digest)"

definition write_json_durable :: "REnv \<Rightarrow> string \<Rightarrow> string + string \<Rightarrow> unit io" where
  "write_json_durable R path json =
     io_bind (io_return (map_err (LE_Json path) json)) (write_bytes_durable (rn_plan R) path)"

definition read_recovery_status :: "REnv \<Rightarrow> string \<Rightarrow> LedgerRecoveryStatus io" where
  "read_recovery_status R path =
     io_bind (fs_read (rn_plan R) path) (\<lambda>bytes.
     io_return (map_err (LE_Json path) (rn_status_from_slice R bytes)))"

definition new_recovery_status ::
  "string \<Rightarrow> string \<Rightarrow> string \<Rightarrow> LedgerTailResidue \<Rightarrow> string \<Rightarrow> LedgerRecoveryStatus" where
  "new_recovery_status path ledger_id mother_node_id residue now =
     (let case_dir = tail_case_dir path (lr_offset residue) (lr_digest residue) in
      \<lparr>rv_ledger_path = path, rv_source_ledger_id = ledger_id,
       rv_source_mother_node_id = mother_node_id, rv_residue_offset = lr_offset residue,
       rv_residue_length = usize_u64 (lr_bytes residue), rv_residue_digest = lr_digest residue,
       rv_last_committed_sequence = checked_sub_u64 (ls_next_sequence (lr_state residue)) 1,
       rv_last_committed_hash = ls_previous_hash (lr_state residue),
       rv_failure_class = ''unterminated_final_frame'',
       rv_recovery_decision_id =
         ''ledger-tail-recovery-'' @ dec_u64 (lr_offset residue) @ ''-'' @ lr_digest residue,
       rv_recovery_time = now, rv_preserved_bytes_path = path_join case_dir ''source.bin'',
       rv_diagnostic_record_path = path_join case_dir ''record.json'',
       rv_recovery_complete = False\<rparr>)"

definition ensure_residue_forensics ::
  "REnv \<Rightarrow> string \<Rightarrow> string \<Rightarrow> string \<Rightarrow> LedgerTailResidue \<Rightarrow> string \<Rightarrow> LedgerRecoveryStatus io" where
  "ensure_residue_forensics R path ledger_id mother_node_id residue now =
     (let plan = rn_plan R; case_dir = tail_case_dir path (lr_offset residue) (lr_digest residue);
          record_path = path_join case_dir ''record.json'' in
      io_bind (ensure_private_directory plan (forensic_root_path path)) (\<lambda>_.
      io_bind (ensure_private_directory plan case_dir) (\<lambda>_.
      io_bind (call_recovery_hook R path ForensicDirectoryReady) (\<lambda>_.
      io_bind (write_bytes_once_durable plan (path_join case_dir ''source.bin'') (lr_bytes residue)) (\<lambda>_.
      io_bind (call_recovery_hook R path SourceBytesPreserved) (\<lambda>_.
      io_bind (\<lambda>d. if fmlookup (fs_files d) record_path \<noteq> None
                   then read_recovery_status R record_path d
                   else (d, Inr (new_recovery_status path ledger_id mother_node_id residue now))) (\<lambda>status.
      io_bind (write_json_durable R record_path (rn_status_to_vec R status)) (\<lambda>_.
      io_bind (call_recovery_hook R path DiagnosticRecordPreserved) (\<lambda>_.
      io_return (Inr status))))))))))"

definition write_entry_durable ::
  "REnv \<Rightarrow> string \<Rightarrow> MctObservationLedgerEntry \<Rightarrow> string io" where
  "write_entry_durable R path entry =
     io_bind (io_return (map_err (LE_Json path) (ln_entry_to_vec (rn_ledger R) entry))) (\<lambda>bytes.
     let frm = bytes @ [NL] in
     io_bind (file_write_all (rn_plan R) path frm) (\<lambda>_.
     io_bind (file_sync_data (rn_plan R) path) (\<lambda>_.
     io_return (Inr frm))))"

definition recovery_observation ::
  "string \<Rightarrow> string \<Rightarrow> LedgerRecoveryStatus \<Rightarrow> Timestamp \<Rightarrow> MctObservation" where
  "recovery_observation ledger_id mother_node_id status at =
     \<lparr>mo_observation_id = rv_recovery_decision_id status, mo_observed_at = at,
      mo_kind = OK_StorageAppendSucceeded, mo_source_plane = SP_Storage,
      mo_trace = trace_only (''trace-'' @ rv_recovery_decision_id status),
      mo_call_id = None, mo_decision_id = None, mo_subject_id = Some mother_node_id,
      mo_resource_id = Some ledger_id, mo_policy_revision = None, mo_grants_revision = None,
      mo_outcome = OO_Completed, mo_visibility = OV_NodeOperator,
      mo_safe_message = TAIL_RECOVERY_SAFE_MESSAGE,
      mo_detail_ref = Some (''ledger-tail-recovery-v1:'' @ rv_residue_digest status)\<rparr>"

definition recovery_entry ::
  "string \<Rightarrow> string \<Rightarrow> LedgerRecoveryStatus \<Rightarrow> LedgerScanState \<Rightarrow> Timestamp \<Rightarrow>
   MctObservationLedgerEntry" where
  "recovery_entry ledger_id mother_node_id status state at =
     \<lparr>le_ledger_id = ledger_id, le_mother_node_id = mother_node_id,
      le_local_sequence = ls_next_sequence state,
      le_observation = recovery_observation ledger_id mother_node_id status at,
      le_previous_entry_hash = ls_previous_hash state, le_entry_hash = [],
      le_appended_at = rv_recovery_time status, le_durability_class = BeforeEffect,
      le_export_status = ES_NotRequired\<rparr>"

definition append_recovery_observation ::
  "REnv \<Rightarrow> string \<Rightarrow> string \<Rightarrow> string \<Rightarrow> LedgerRecoveryStatus \<Rightarrow> LedgerScanState \<Rightarrow>
   LedgerScanState io" where
  "append_recovery_observation R path ledger_id mother_node_id status state =
     (let L = rn_ledger R; panics = (\<lambda>e. AuthorityReplayFailed (MctKernelError_display e)) in
      io_bind (io_return (map_err panics
        (string_id_new ''ObservationId'' (rv_recovery_decision_id status)))) (\<lambda>observation_id.
      if observation_id \<in> ls_recovery_observation_ids state
      then io_return (Inr state)
      else
        io_bind (io_return (map_err panics
          (Timestamp_new (en_jiff (ln_env L)) (rv_recovery_time status)))) (\<lambda>at.
        let unhashed = recovery_entry ledger_id mother_node_id status state at in
        io_bind (io_return (entry_hash L unhashed)) (\<lambda>h.
        let entry = unhashed\<lparr>le_entry_hash := h\<rparr> in
        io_bind (write_entry_durable R path entry) (\<lambda>frm.
        io_return (Inr (remember_scanned_entry L state entry frm)))))))"

definition recover_tail ::
  "REnv \<Rightarrow> string \<Rightarrow> string \<Rightarrow> string \<Rightarrow> LedgerTailResidue \<Rightarrow> string \<Rightarrow>
   (LedgerScanState \<times> LedgerRecoveryStatus) io" where
  "recover_tail R path ledger_id mother_node_id residue now =
     (let plan = rn_plan R; truncated_len = ls_committed_len (lr_state residue) in
      io_bind (ensure_residue_forensics R path ledger_id mother_node_id residue now) (\<lambda>status.
      io_bind (file_set_len plan path truncated_len) (\<lambda>_.
      io_bind (file_sync_data plan path) (\<lambda>_.
      io_bind (call_recovery_hook R path LedgerTruncated) (\<lambda>_.
      io_bind (append_recovery_observation R path ledger_id mother_node_id status
        ((lr_state residue)\<lparr>ls_committed_len := truncated_len\<rparr>)) (\<lambda>state.
      io_bind (call_recovery_hook R path RecoveryObservationAppended) (\<lambda>_.
      let done_status = status\<lparr>rv_recovery_complete := True\<rparr> in
      io_bind (write_json_durable R (rv_diagnostic_record_path done_status)
        (rn_status_to_vec R done_status)) (\<lambda>_.
      io_bind (call_recovery_hook R path DiagnosticRecordCompleted) (\<lambda>_.
      io_return (Inr (state, done_status)))))))))))"

text \<open>
  The case directories below the forensic root that hold a record, by ascending name.
\<close>

definition record_case_name :: "string \<Rightarrow> string \<Rightarrow> string option" where
  "record_case_name root path =
     (case strip_prefix (root @ ''/'') path of
        None \<Rightarrow> None
      | Some rest \<Rightarrow>
          if ends_with rest ''/record.json'' \<and>
             CHR ''/'' \<notin> set (take (length rest - length ''/record.json'') rest)
          then Some (take (length rest - length ''/record.json'') rest) else None)"

definition record_paths :: "string \<Rightarrow> Disk \<Rightarrow> string list" where
  "record_paths root d =
     map (\<lambda>name. path_join (path_join root name) ''record.json'')
       (sort (List.map_filter (record_case_name root) (map fst (sorted_list_of_fmap (fs_files d)))))"

definition status_is_pending ::
  "string \<Rightarrow> string \<Rightarrow> string \<Rightarrow> LedgerRecoveryStatus \<Rightarrow> bool" where
  "status_is_pending path ledger_id mother_node_id status \<longleftrightarrow>
     rv_ledger_path status = path \<and> rv_source_ledger_id status = ledger_id \<and>
     rv_source_mother_node_id status = mother_node_id \<and> \<not> rv_recovery_complete status"

definition complete_record ::
  "REnv \<Rightarrow> string \<Rightarrow> string \<Rightarrow> string \<Rightarrow> string \<Rightarrow> LedgerRecoveryStatus \<Rightarrow> LedgerScanState \<Rightarrow>
   (LedgerScanState \<times> LedgerRecoveryStatus option) io" where
  "complete_record R path ledger_id mother_node_id record_path status state =
     io_bind (if rv_recovery_decision_id status \<in> ls_recovery_observation_ids state
              then io_return (Inr state)
              else io_bind (append_recovery_observation R path ledger_id mother_node_id status state)
                (\<lambda>state'. io_bind (call_recovery_hook R path RecoveryObservationAppended)
                  (\<lambda>_. io_return (Inr state')))) (\<lambda>state'.
     let done_status = status\<lparr>rv_recovery_complete := True\<rparr> in
     io_bind (write_json_durable R record_path (rn_status_to_vec R done_status)) (\<lambda>_.
     io_bind (call_recovery_hook R path DiagnosticRecordCompleted) (\<lambda>_.
     io_return (Inr (state', Some done_status)))))"

fun complete_records ::
  "REnv \<Rightarrow> string \<Rightarrow> string \<Rightarrow> string \<Rightarrow> LedgerScanState \<Rightarrow> string list \<Rightarrow>
   (LedgerScanState \<times> LedgerRecoveryStatus option) io" where
  "complete_records R path ledger_id mother_node_id state [] = io_return (Inr (state, None))"
| "complete_records R path ledger_id mother_node_id state (record_path # rest) = (\<lambda>d.
     case read_recovery_status R record_path d of
       (d', Inl _) \<Rightarrow> complete_records R path ledger_id mother_node_id state rest d'
     | (d', Inr status) \<Rightarrow>
         if \<not> status_is_pending path ledger_id mother_node_id status
         then complete_records R path ledger_id mother_node_id state rest d'
         else complete_record R path ledger_id mother_node_id record_path status state d')"

definition complete_pending_recovery ::
  "REnv \<Rightarrow> string \<Rightarrow> string \<Rightarrow> string \<Rightarrow> LedgerScanState \<Rightarrow>
   (LedgerScanState \<times> LedgerRecoveryStatus option) io" where
  "complete_pending_recovery R path ledger_id mother_node_id state = (\<lambda>d.
     let root = forensic_root_path path in
     if root \<notin> fs_dirs d then (d, Inr (state, None))
     else io_bind (io_op (rn_plan R) root (\<lambda>_ d. d) (\<lambda>d. (d, Inr (record_paths root d))))
       (complete_records R path ledger_id mother_node_id state) d)"

fun debug_LedgerFailureClass :: "LedgerFailureClass \<Rightarrow> string" where
  "debug_LedgerFailureClass TerminatedMalformedFrame = ''TerminatedMalformedFrame''"
| "debug_LedgerFailureClass EntryHashMismatch = ''EntryHashMismatch''"
| "debug_LedgerFailureClass PreviousHashMismatch = ''PreviousHashMismatch''"
| "debug_LedgerFailureClass SequenceDiscontinuity = ''SequenceDiscontinuity''"
| "debug_LedgerFailureClass LF_ForeignLineage = ''ForeignLineage''"

definition preserve_quarantine ::
  "REnv \<Rightarrow> string \<Rightarrow> LedgerQuarantineStatus \<Rightarrow> LedgerQuarantineStatus io" where
  "preserve_quarantine R path status =
     (let plan = rn_plan R; root = forensic_root_path path in
      io_bind (fs_read plan path) (\<lambda>bytes.
      let digest = cy_blake3_hex (en_crypto (ln_env (rn_ledger R))) bytes;
          case_dir = path_join root (''quarantine-'' @ dec_u64 (lq_first_bad_offset status) @ ''-'' @
            digest @ ''-'' @ debug_LedgerFailureClass (lq_failure_class status));
          status' = status\<lparr>lq_preserved_ledger_path := Some (path_join case_dir ''source.bin''),
            lq_diagnostic_record_path := Some (path_join case_dir ''record.json'')\<rparr> in
      io_bind (ensure_private_directory plan root) (\<lambda>_.
      io_bind (ensure_private_directory plan case_dir) (\<lambda>_.
      io_bind (write_bytes_once_durable plan (path_join case_dir ''source.bin'') bytes) (\<lambda>_.
      io_bind (write_json_durable R (path_join case_dir ''record.json'')
        (rn_quarantine_to_vec R status')) (\<lambda>_.
      io_return (Inr status')))))))"

section \<open>Opening a writer\<close>

datatype LockOutcome = LockAcquired | LockWouldBlock | LockError string

definition acquire_writer_lock :: "string \<Rightarrow> LockOutcome \<Rightarrow> unit ledger_result" where
  "acquire_writer_lock path lock =
     (case lock of
        LockAcquired \<Rightarrow> Inr ()
      | LockWouldBlock \<Rightarrow> Inl (WriterContended path)
      | LockError source \<Rightarrow> Inl (WriterLock path source))"

definition opened_ledger ::
  "string \<Rightarrow> string \<Rightarrow> string \<Rightarrow> bool \<Rightarrow> LedgerScanState \<Rightarrow> LedgerRecoveryStatus option \<Rightarrow> string \<Rightarrow>
   JsonlObservationLedger" where
  "opened_ledger path ledger_id mother_node_id created_new state status bytes =
     \<lparr>jl_path = path, jl_file = bytes, jl_created_new = created_new, jl_ledger_id = ledger_id,
      jl_mother_node_id = mother_node_id, jl_next_sequence = ls_next_sequence state,
      jl_previous_hash = ls_previous_hash state, jl_recovery_status = status,
      jl_authority_tenure = None, jl_recovery_wait_offset_ms = 0, jl_writer_state = WriterReady,
      jl_authority_replay = ls_authority_replay state, jl_used_epochs = ls_used_epochs state,
      jl_prefix_hasher = ls_prefix_hasher state, jl_prefix_len = ls_committed_len state,
      jl_last_observation_id = ls_last_observation_id state,
      jl_last_frame_len = ls_last_frame_len state\<rparr>"

definition scan_on_disk ::
  "REnv \<Rightarrow> string \<Rightarrow> string \<Rightarrow> string \<Rightarrow> head \<Rightarrow> LedgerScan io" where
  "scan_on_disk R path ledger_id mother_node_id known =
     io_bind (fs_read (rn_plan R) path) (\<lambda>bytes.
     io_return (scan_existing (rn_ledger R) path ledger_id mother_node_id known (Inr bytes)))"

definition open_file_with_recovery_hook ::
  "REnv \<Rightarrow> string \<Rightarrow> string \<Rightarrow> string \<Rightarrow> head \<Rightarrow> LockOutcome \<Rightarrow> string \<Rightarrow> bool \<Rightarrow>
   JsonlObservationLedger io" where
  "open_file_with_recovery_hook R path ledger_id mother_node_id known lock now created_new =
     io_bind (io_return (acquire_writer_lock path lock)) (\<lambda>_.
     io_bind (scan_on_disk R path ledger_id mother_node_id known) (\<lambda>scan.
     io_bind
       (case scan of
          ScanReady state \<Rightarrow> complete_pending_recovery R path ledger_id mother_node_id state
        | ScanResidue residue \<Rightarrow>
            io_bind (recover_tail R path ledger_id mother_node_id residue now) (\<lambda>(state, status).
            io_return (Inr (state, Some status)))
        | ScanQuarantine status \<Rightarrow>
            io_bind (preserve_quarantine R path status) (\<lambda>status'.
            io_return (Inl (LE_Quarantined status')))
        | ScanForeignLineage status \<Rightarrow>
            io_bind (preserve_quarantine R path status) (\<lambda>status'.
            io_return (Inl (LE_ForeignLineage status')))) (\<lambda>(state, status).
     (\<lambda>d. (d, Inr (opened_ledger path ledger_id mother_node_id created_new state status
                    (file_of path d)))))))"

text \<open>
  \<open>private_fs::open_or_create\<close>: the file exists afterwards, with whether it was created. A creation
  whose directory does not sync fails and leaves the empty file.
\<close>

definition open_or_create :: "plan \<Rightarrow> string \<Rightarrow> bool io" where
  "open_or_create plan path =
     io_op plan path
       (\<lambda>n d. if n = 0 \<or> fmlookup (fs_files d) path \<noteq> None then d else set_file path [] d) (\<lambda>d.
       if fmlookup (fs_files d) path = None then (set_file path [] d, Inr True) else (d, Inr False))"

definition open_with_recovery_hook ::
  "REnv \<Rightarrow> string \<Rightarrow> string \<Rightarrow> string \<Rightarrow> head \<Rightarrow> LockOutcome \<Rightarrow> string \<Rightarrow> JsonlObservationLedger io" where
  "open_with_recovery_hook R path ledger_id mother_node_id known lock now =
     io_bind (open_or_create (rn_plan R) path)
       (open_file_with_recovery_hook R path ledger_id mother_node_id known lock now)"

fun any_pending_record ::
  "REnv \<Rightarrow> string \<Rightarrow> string \<Rightarrow> string \<Rightarrow> string list \<Rightarrow> bool io" where
  "any_pending_record R path ledger_id mother_node_id [] = io_return (Inr False)"
| "any_pending_record R path ledger_id mother_node_id (record_path # rest) = (\<lambda>d.
     case read_recovery_status R record_path d of
       (d', Inl _) \<Rightarrow> any_pending_record R path ledger_id mother_node_id rest d'
     | (d', Inr status) \<Rightarrow>
         if status_is_pending path ledger_id mother_node_id status then (d', Inr True)
         else any_pending_record R path ledger_id mother_node_id rest d')"

definition pending_tail_recovery_exists ::
  "REnv \<Rightarrow> string \<Rightarrow> string \<Rightarrow> string \<Rightarrow> bool io" where
  "pending_tail_recovery_exists R path ledger_id mother_node_id =
     (let root = forensic_root_path path in
      io_bind (io_op (rn_plan R) root (\<lambda>_ d. d)
          (\<lambda>d. (d, Inr (if root \<in> fs_dirs d then record_paths root d else []))))
        (any_pending_record R path ledger_id mother_node_id))"

definition recover_residue_for_startup ::
  "REnv \<Rightarrow> string \<Rightarrow> string \<Rightarrow> string \<Rightarrow> head \<Rightarrow> LockOutcome \<Rightarrow> string \<Rightarrow>
   LedgerRecoveryStatus option io" where
  "recover_residue_for_startup R path ledger_id mother_node_id known lock now =
     io_bind (io_op (rn_plan R) path (\<lambda>_ d. d) (\<lambda>d. (d, Inr (fmlookup (fs_files d) path \<noteq> None)))) (\<lambda>is_file.
     if \<not> is_file then io_return (Inr None)
     else
       io_bind (scan_on_disk R path ledger_id mother_node_id known) (\<lambda>scan.
       io_bind (case scan of
            ScanResidue _ \<Rightarrow> io_return (Inr True)
          | ScanReady _ \<Rightarrow> pending_tail_recovery_exists R path ledger_id mother_node_id
          | _ \<Rightarrow> io_return (Inr False)) (\<lambda>needs_recovery.
       if \<not> needs_recovery then io_return (Inr None)
       else io_bind (open_with_recovery_hook R path ledger_id mother_node_id known lock now) (\<lambda>w.
         io_return (Inr (jl_recovery_status w))))))"

text \<open>\<open>open_authority\<close> and \<open>open_authority_with_startup\<close> open a ledger and begin a tenure.\<close>

definition open_authority ::
  "REnv \<Rightarrow> string \<Rightarrow> string \<Rightarrow> string \<Rightarrow> head \<Rightarrow> LockOutcome \<Rightarrow> string \<Rightarrow> string + string \<Rightarrow> IoOutcome \<Rightarrow>
   JsonlObservationLedger io" where
  "open_authority R path ledger_id mother_node_id known lock now entropy outcome =
     io_bind (open_with_recovery_hook R path ledger_id mother_node_id known lock now) (\<lambda>w.
     case begin_authority_tenure (rn_ledger R) w entropy now outcome of
       (w', r) \<Rightarrow> (\<lambda>d. (set_file path (jl_file w') d, and_then r (\<lambda>_. Inr w'))))"

definition open_authority_with_startup ::
  "REnv \<Rightarrow> string \<Rightarrow> string \<Rightarrow> string \<Rightarrow> head \<Rightarrow> LockOutcome \<Rightarrow> string \<Rightarrow>
   AuthorityTenureStartupEvidenceV1 \<Rightarrow> string + string \<Rightarrow> IoOutcome \<Rightarrow> JsonlObservationLedger io" where
  "open_authority_with_startup R path ledger_id mother_node_id known lock now startup entropy outcome =
     io_bind (open_with_recovery_hook R path ledger_id mother_node_id known lock now) (\<lambda>w.
     case begin_authority_tenure_with_startup (rn_ledger R) w startup entropy now outcome of
       (w', r) \<Rightarrow> (\<lambda>d. (set_file path (jl_file w') d, and_then r (\<lambda>_. Inr w'))))"

text \<open>A refused passkey genesis creates no file (\<open>passkey_admin.rs\<close>).\<close>

definition create_passkey_genesis_at ::
  "REnv \<Rightarrow> string \<Rightarrow> PasskeyGenesisSetupV1 \<Rightarrow> PasskeyAdminRequestV1 \<Rightarrow> Timestamp \<Rightarrow> head \<Rightarrow>
   LockOutcome \<Rightarrow> string \<Rightarrow> IoOutcome \<Rightarrow> MctObservationLedgerEntry io" where
  "create_passkey_genesis_at R path setup request time known lock now outcome =
     (let L = rn_ledger R in
      io_bind (io_return (setup_validate_request setup request)) (\<lambda>_.
      io_bind (io_return (passkey_transition (ln_env L) empty_authority_replay
        \<lparr>kf_request = request, kf_decided_at = time\<rparr>)) (\<lambda>_.
      io_bind (io_op (rn_plan R) path (\<lambda>_ d. d) (\<lambda>d.
          if fmlookup (fs_files d) path = None then (set_file path [] d, Inr ())
          else (d, Inl (LE_Io path ''File exists'')))) (\<lambda>_.
      io_bind (open_file_with_recovery_hook R path (ks_ledger_id setup) (ks_mother_node_id setup)
        known lock now True) (\<lambda>w.
      case execute_passkey_genesis_at L w setup request time outcome of
        (w', r) \<Rightarrow> (\<lambda>d. (set_file path (jl_file w') d, r)))))))"

section \<open>Checking the forensics of a recovery\<close>

definition recovery_status_matches ::
  "Crypto \<Rightarrow> string \<Rightarrow> string \<Rightarrow> string \<Rightarrow> MctObservationLedgerEntry \<Rightarrow> u64 \<Rightarrow> string \<Rightarrow> string \<Rightarrow>
   LedgerRecoveryStatus \<Rightarrow> string \<Rightarrow> bool" where
  "recovery_status_matches C ledger_path ledger_id mother_node_id entry offset digest source_path
       status bytes \<longleftrightarrow>
     rv_recovery_complete status \<and> rv_ledger_path status = ledger_path \<and>
     rv_source_ledger_id status = ledger_id \<and> rv_source_mother_node_id status = mother_node_id \<and>
     rv_residue_offset status = offset \<and> rv_residue_digest status = digest \<and>
     rv_recovery_decision_id status = mo_observation_id (le_observation entry) \<and>
     rv_recovery_time status = le_appended_at entry \<and> rv_preserved_bytes_path status = source_path \<and>
     rv_residue_length status = usize_u64 bytes \<and> cy_blake3_hex C bytes = digest"

definition tail_recovery_forensics_intact ::
  "REnv \<Rightarrow> string \<Rightarrow> string \<Rightarrow> string \<Rightarrow> MctObservationLedgerEntry \<Rightarrow> bool io" where
  "tail_recovery_forensics_intact R ledger_path ledger_id mother_node_id entry =
     (if \<not> is_valid_tail_recovery_entry entry \<or> le_ledger_id entry \<noteq> ledger_id \<or>
         le_mother_node_id entry \<noteq> mother_node_id
      then io_return (Inr False)
      else case tail_recovery_identity entry of
        None \<Rightarrow> io_return (Inr False)
      | Some (offset, digest) \<Rightarrow>
          let case_dir = tail_case_dir ledger_path offset digest;
              record_path = path_join case_dir ''record.json'';
              source_path = path_join case_dir ''source.bin'' in (\<lambda>d.
          if fmlookup (fs_files d) record_path = None \<or> fmlookup (fs_files d) source_path = None
          then (d, Inr False)
          else case read_recovery_status R record_path d of
            (d', Inl _) \<Rightarrow> (d', Inr False)
          | (d', Inr status) \<Rightarrow>
              io_bind (fs_read (rn_plan R) source_path) (\<lambda>bytes.
              io_return (Inr (recovery_status_matches (en_crypto (ln_env (rn_ledger R))) ledger_path
                ledger_id mother_node_id entry offset digest source_path status bytes))) d'))"

end
