(* ===== verification/MCT_Authority_Laws.thy ===== *)
theory MCT_Authority_Laws
  imports MCT_Authority_State
begin

text \<open>
  Laws of the canonical authority state: what its validation means, that every accepted change
  keeps a valid state valid, that revoked grants, consumed tickets and terminal Watch scopes are
  final, and that accepted signatures carry fresh nonces.
\<close>

named_theorems authority_simps \<open>what the validators and operations on the authority state mean\<close>

lemma if_Inl_ok: "(if b then Inl e else r) = Inr u \<longleftrightarrow> \<not> b \<and> r = Inr u"
  by simp

lemma and_then_unit: "and_then (r :: 'e + unit) k = Inr y \<longleftrightarrow> r = Inr () \<and> k () = Inr y"
  by (cases r) (simp_all add: and_then_def)

section \<open>Counting in maps\<close>

lemma fm_values_count:
  "length (filter P (fm_values m)) = card {k. \<exists>v. fmlookup m k = Some v \<and> P v}"
proof -
  let ?ks = "sorted_list_of_fset (fmdom m)"
  have d: "distinct ?ks" by (simp add: sorted_list_of_fset.rep_eq)
  have "filter P (fm_values m) = map (\<lambda>k. the (fmlookup m k)) (filter (\<lambda>k. P (the (fmlookup m k))) ?ks)"
    by (simp add: fm_values_def sorted_list_of_fmap_def filter_map comp_def)
  then have "length (filter P (fm_values m)) = card (set (filter (\<lambda>k. P (the (fmlookup m k))) ?ks))"
    using d by (metis distinct_card distinct_filter length_map)
  also have "set (filter (\<lambda>k. P (the (fmlookup m k))) ?ks) = {k. \<exists>v. fmlookup m k = Some v \<and> P v}"
    by (auto simp: fmlookup_dom_iff)
  finally show ?thesis .
qed

lemma fm_values_at_most_one:
  "length (filter P (fm_values m)) \<le> 1 \<longleftrightarrow>
   (\<forall>i j a b. fmlookup m i = Some a \<and> P a \<and> fmlookup m j = Some b \<and> P b \<longrightarrow> i = j)"
proof -
  let ?A = "{k. \<exists>v. fmlookup m k = Some v \<and> P v}"
  have "?A \<subseteq> fset (fmdom m)" by (auto simp: fmlookup_dom_iff)
  then have "finite ?A" by (rule finite_subset) simp
  then have "card ?A \<le> 1 \<longleftrightarrow> (\<forall>i \<in> ?A. \<forall>j \<in> ?A. i = j)"
    by (auto simp: card_le_Suc0_iff_eq)
  then show ?thesis by (auto simp: fm_values_count)
qed

section \<open>Valid states\<close>

definition watch_ok :: "Env \<Rightarrow> (string, WatchObservationScope) fmap \<Rightarrow> bool" where
  "watch_ok E m \<longleftrightarrow>
     (\<forall>k v. fmlookup m k = Some v \<longrightarrow> k = ws_watch_scope_id v \<and>
        WatchObservationScope_validate (en_crypto E) (en_watch_json E) v = Inr ())"

definition grant_ok :: "string \<Rightarrow> AdminKeyGrantV1 \<Rightarrow> bool" where
  "grant_ok k g \<longleftrightarrow> k = ag_grant_id g \<and> admin_key_grant_shape_error g = None \<and>
     (ag_class g = Recovery \<longrightarrow> ag_grant_state g = AGS_Active)"

definition recovery_at :: "(string, AdminKeyGrantV1) fmap \<Rightarrow> string \<Rightarrow> bool" where
  "recovery_at m k \<longleftrightarrow> (\<exists>g. fmlookup m k = Some g \<and> ag_class g = Recovery)"

definition grants_ok :: "(string, AdminKeyGrantV1) fmap \<Rightarrow> bool" where
  "grants_ok m \<longleftrightarrow>
     (\<forall>k g. fmlookup m k = Some g \<longrightarrow> grant_ok k g) \<and>
     (\<forall>i j. recovery_at m i \<and> recovery_at m j \<longrightarrow> i = j)"

definition tickets_ok :: "(string, PairingTicketV1) fmap \<Rightarrow> bool" where
  "tickets_ok m \<longleftrightarrow>
     (\<forall>k t. fmlookup m k = Some t \<longrightarrow> k = pt_ticket_hash t \<and> pairing_ticket_hash_ok k)"

lemma validate_watch_scope_state_ok [authority_simps]:
  "validate_watch_scope_state E s = Inr u \<longleftrightarrow> watch_ok E (sta_watch_scopes s)"
  unfolding validate_watch_scope_state_def try_all_fmap watch_ok_def prod.case if_Inl_ok map_err_ok
  by blast

lemma validate_admin_authority_state_ok [authority_simps]:
  "validate_admin_authority_state s = Inr u \<longleftrightarrow>
     grants_ok (sta_admin_key_grants s) \<and> tickets_ok (sta_pairing_tickets s)"
proof -
  have one: "\<not> 1 < length (filter (\<lambda>g. ag_class g = Recovery) (fm_values m)) \<longleftrightarrow>
      (\<forall>i j a b. fmlookup m i = Some a \<and> ag_class a = Recovery \<and>
        fmlookup m j = Some b \<and> ag_class b = Recovery \<longrightarrow> i = j)" for m
    using fm_values_at_most_one [of "\<lambda>g. ag_class g = Recovery" m] by (simp add: not_less)
  have shape: "validate_admin_key_grant_shape g = Inr x \<longleftrightarrow> admin_key_grant_shape_error g = None" for g x
    by (simp add: validate_admin_key_grant_shape_def split: option.split)
  show ?thesis
    unfolding validate_admin_authority_state_def and_then_eq_Inr try_all_fmap prod.case shape
      if_Inl_ok one grants_ok_def grant_ok_def recovery_at_def tickets_ok_def
    by blast
qed

definition state_ok :: "Env \<Rightarrow> AuthorityStateV1 \<Rightarrow> bool" where
  "state_ok E s \<longleftrightarrow>
     watch_ok E (sta_watch_scopes s) \<and> grants_ok (sta_admin_key_grants s) \<and>
     tickets_ok (sta_pairing_tickets s) \<and> recovery_validate_state E s = Inr () \<and>
     issuance_validate_state E s = Inr () \<and> genesis_validate_state E s = Inr () \<and>
     (sta_passkey_admin s \<noteq> None \<longrightarrow>
        sta_admin_genesis s = None \<and> sta_guardian_recovery s = None \<and>
        sta_admin_issuance s = fmempty \<and> sta_admin_key_grants s = fmempty)"

lemma authority_state_hash_ok [authority_simps]:
  "authority_state_hash E s = Inr h \<longleftrightarrow>
     state_ok E s \<and> blake3_of (en_crypto E) (en_codec E) (state_hash_input (en_codec E) s) = Inr h"
  unfolding authority_state_hash_def state_ok_def
  by (auto simp: result_simps authority_simps split: if_split_asm)

lemma state_ok_default: "state_ok E AuthorityStateV1_default"
  by (simp add: state_ok_def AuthorityStateV1_default_def watch_ok_def grants_ok_def recovery_at_def tickets_ok_def
      recovery_validate_state_def issuance_validate_state_def genesis_validate_state_def
      sorted_list_of_fmap_def sorted_list_of_fset.rep_eq result_simps)

text \<open>Without genesis, recovery and issuance, the special validators only forbid ceilings.\<close>

lemma state_ok_legacy:
  assumes "sta_passkey_admin s = None" and "sta_admin_genesis s = None"
    and "sta_guardian_recovery s = None" and "sta_admin_issuance s = fmempty"
  shows "state_ok E s \<longleftrightarrow>
     watch_ok E (sta_watch_scopes s) \<and> grants_ok (sta_admin_key_grants s) \<and>
     tickets_ok (sta_pairing_tickets s) \<and>
     (\<forall>k g. fmlookup (sta_admin_key_grants s) k = Some g \<longrightarrow> ag_issuance_ceiling g = None)"
proof -
  have "issuance_validate_state E s = Inr () \<longleftrightarrow>
      (\<forall>g \<in> fmran' (sta_admin_key_grants s). ag_issuance_ceiling g = None)"
    using assms(4) by (simp add: issuance_validate_state_def sorted_list_of_fmap_def
        sorted_list_of_fset.rep_eq result_simps set_fm_values split: if_split_asm)
  then show ?thesis
    using assms by (auto simp: state_ok_def recovery_validate_state_def genesis_validate_state_def
        fmlookup_ran'_iff)
qed

section \<open>What an accepted change does\<close>

lemma grant_put_ok [authority_simps]:
  "apply_admin_key_grant_put s g = Inr t \<longleftrightarrow>
     admin_key_grant_shape_error g = None \<and> ag_grant_state g = AGS_Active \<and>
     fmlookup (sta_admin_key_grants s) (ag_grant_id g) = None \<and>
     (ag_class g = Recovery \<longrightarrow>
        (\<forall>k x. fmlookup (sta_admin_key_grants s) k = Some x \<longrightarrow> ag_class x \<noteq> Recovery)) \<and>
     t = s\<lparr>sta_admin_key_grants := fmupd (ag_grant_id g) g (sta_admin_key_grants s)\<rparr>"
  by (auto simp: apply_admin_key_grant_put_def validate_admin_key_grant_shape_def result_simps
      fm_values_ex split: option.split_asm if_split_asm)

lemma not_recovery: "c \<noteq> Recovery \<longleftrightarrow> c = DayToDay"
  by (cases c) simp_all

lemma grant_revoke_ok [authority_simps]:
  "apply_admin_key_grant_revoke s i = Inr t \<longleftrightarrow>
     (\<exists>g. non_empty_token i \<and> fmlookup (sta_admin_key_grants s) i = Some g \<and> ag_class g = DayToDay \<and>
        ag_grant_state g = AGS_Active \<and>
        t = s\<lparr>sta_admin_key_grants :=
              fmupd i (g\<lparr>ag_grant_state := AGS_Revoked\<rparr>) (sta_admin_key_grants s)\<rparr>)"
  by (cases "fmlookup (sta_admin_key_grants s) i")
     (auto simp: apply_admin_key_grant_revoke_def not_recovery)

lemma ticket_issued_ok [authority_simps]:
  "apply_pairing_ticket_issued s h p a e b = Inr t \<Longrightarrow>
     pairing_ticket_hash_ok h \<and> fmlookup (sta_pairing_tickets s) h = None \<and>
     t = s\<lparr>sta_pairing_tickets := fmupd h
            \<lparr>pt_ticket_hash = h, pt_state = TicketIssued, pt_peer_endpoint_id = p,
             pt_window_starts_at = a, pt_window_expires_at = e\<rparr> (sta_pairing_tickets s)\<rparr>"
  by (auto simp: apply_pairing_ticket_issued_def split: if_split_asm)

lemma ticket_consumed_ok [authority_simps]:
  "apply_pairing_ticket_consumed J s h adm = Inr t \<longleftrightarrow>
     (\<exists>k. pairing_ticket_hash_ok h \<and>
        (\<forall>a. adm = Some a \<longrightarrow> validate_pairing_admission J s h a = Inr ()) \<and>
        fmlookup (sta_pairing_tickets s) h = Some k \<and> pt_state k = TicketIssued \<and>
        t = s\<lparr>sta_pairing_tickets := fmupd h (k\<lparr>pt_state := TicketConsumed\<rparr>) (sta_pairing_tickets s)\<rparr>)"
  by (cases adm) (auto simp: apply_pairing_ticket_consumed_def result_simps
      split: option.split_asm if_split_asm PairingTicketStateV1.split_asm)

lemma watch_put_ok [authority_simps]:
  "apply_watch_scope_put E s v = Inr t \<longleftrightarrow>
     WatchObservationScope_validate (en_crypto E) (en_watch_json E) v = Inr () \<and>
     (case fmlookup (sta_watch_scopes s) (ws_watch_scope_id v) of
        None \<Rightarrow> ws_scope_revision v = 1 \<and> ws_authority_state v = WS_Active
      | Some w \<Rightarrow> ws_authority_state w = WS_Active \<and>
          checked_add_u64 (ws_scope_revision w) 1 = Some (ws_scope_revision v)) \<and>
     t = s\<lparr>sta_watch_scopes := fmupd (ws_watch_scope_id v) v (sta_watch_scopes s)\<rparr>"
  unfolding apply_watch_scope_put_def and_then_eq_Inr map_err_ok
  by (auto split: option.split if_split_asm)

text \<open>
  The changes of an ordinary mutation touch one map each; the special parts of the state stay.
\<close>

definition legacy_part :: "AuthorityStateV1 \<Rightarrow> bool" where
  "legacy_part s \<longleftrightarrow> sta_passkey_admin s = None \<and> sta_admin_genesis s = None \<and>
     sta_guardian_recovery s = None \<and> sta_admin_issuance s = fmempty"

lemma recovery_at_upd: "recovery_at (fmupd i g m) k \<longleftrightarrow> (if i = k then ag_class g = Recovery else recovery_at m k)"
  by (simp add: recovery_at_def)

lemma grants_ok_upd:
  assumes "grants_ok m" and "grant_ok i g" and "ag_class g = Recovery \<Longrightarrow> \<forall>k. recovery_at m k \<longrightarrow> k = i"
  shows "grants_ok (fmupd i g m)"
  using assms unfolding grants_ok_def recovery_at_upd fmupd_lookup
  by (metis option.inject)

lemma grants_ok_put:
  assumes "grants_ok m" and "admin_key_grant_shape_error g = None" and "ag_grant_state g = AGS_Active"
    and "ag_class g = Recovery \<Longrightarrow> \<forall>k x. fmlookup m k = Some x \<longrightarrow> ag_class x \<noteq> Recovery"
  shows "grants_ok (fmupd (ag_grant_id g) g m)"
  using assms by (intro grants_ok_upd) (auto simp: grant_ok_def recovery_at_def)

lemma shape_ignores_state [simp]:
  "admin_key_grant_shape_error (g\<lparr>ag_grant_state := x\<rparr>) = admin_key_grant_shape_error g"
  by (cases g) (simp only: admin_key_grant_shape_error_def AdminKeyGrantV1.select_convs
      AdminKeyGrantV1.update_convs)

lemma grants_ok_revoke:
  assumes "grants_ok m" and "fmlookup m i = Some g" and "ag_class g = DayToDay"
  shows "grants_ok (fmupd i (g\<lparr>ag_grant_state := AGS_Revoked\<rparr>) m)"
proof -
  from assms have "grant_ok i g" by (simp add: grants_ok_def)
  with assms show ?thesis by (intro grants_ok_upd) (auto simp: grant_ok_def)
qed

lemma toy_grant_put_ok:
  "apply_toy_grant_put s i toy subject scope constraints st iss pol grev ob = Inr t \<Longrightarrow>
   \<exists>g. t = s\<lparr>sta_toy_grants := fmupd i g (sta_toy_grants s)\<rparr>"
  by (auto simp: apply_toy_grant_put_def result_simps split: if_split_asm)

text \<open>The effect of one accepted change of an ordinary mutation.\<close>

lemma apply_change_effect:
  assumes "apply_change E s c = Inr t"
  obtains (toys) "sta_watch_scopes t = sta_watch_scopes s"
      "sta_admin_key_grants t = sta_admin_key_grants s" "sta_pairing_tickets t = sta_pairing_tickets s"
      "sta_passkey_admin t = sta_passkey_admin s" "sta_admin_genesis t = sta_admin_genesis s"
      "sta_guardian_recovery t = sta_guardian_recovery s" "sta_admin_issuance t = sta_admin_issuance s"
  | (watch) v where
      "WatchObservationScope_validate (en_crypto E) (en_watch_json E) v = Inr ()"
      "case fmlookup (sta_watch_scopes s) (ws_watch_scope_id v) of
         None \<Rightarrow> ws_scope_revision v = 1 \<and> ws_authority_state v = WS_Active
       | Some w \<Rightarrow> ws_authority_state w = WS_Active \<and>
           checked_add_u64 (ws_scope_revision w) 1 = Some (ws_scope_revision v)"
      "t = s\<lparr>sta_watch_scopes := fmupd (ws_watch_scope_id v) v (sta_watch_scopes s)\<rparr>"
  | (put) g where "ag_issuance_ceiling g = None" "admin_key_grant_shape_error g = None"
      "ag_grant_state g = AGS_Active" "fmlookup (sta_admin_key_grants s) (ag_grant_id g) = None"
      "ag_class g = Recovery \<longrightarrow>
        (\<forall>k x. fmlookup (sta_admin_key_grants s) k = Some x \<longrightarrow> ag_class x \<noteq> Recovery)"
      "t = s\<lparr>sta_admin_key_grants := fmupd (ag_grant_id g) g (sta_admin_key_grants s)\<rparr>"
  | (revoke) i g where "fmlookup (sta_admin_key_grants s) i = Some g" "ag_class g = DayToDay"
      "ag_grant_state g = AGS_Active"
      "t = s\<lparr>sta_admin_key_grants :=
            fmupd i (g\<lparr>ag_grant_state := AGS_Revoked\<rparr>) (sta_admin_key_grants s)\<rparr>"
  | (issued) h k where "pairing_ticket_hash_ok h" "fmlookup (sta_pairing_tickets s) h = None"
      "pt_ticket_hash k = h" "pt_state k = TicketIssued"
      "t = s\<lparr>sta_pairing_tickets := fmupd h k (sta_pairing_tickets s)\<rparr>"
  | (consumed) h k where "pairing_ticket_hash_ok h" "fmlookup (sta_pairing_tickets s) h = Some k"
      "pt_state k = TicketIssued"
      "t = s\<lparr>sta_pairing_tickets := fmupd h (k\<lparr>pt_state := TicketConsumed\<rparr>) (sta_pairing_tickets s)\<rparr>"
proof (cases c)
  case (ToyCatalogPut x1 x2 x3 x4 x5)
  with assms show ?thesis by (intro toys) (auto simp: apply_change_def result_simps)
next
  case (ToyCatalogRemove x)
  with assms show ?thesis by (intro toys) (auto simp: apply_change_def split: if_split_asm)
next
  case (ToyGrantPut x1 x2 x3 x4 x5 x6 x7 x8 x9 x10)
  with assms have "apply_toy_grant_put s x1 x2 x3 x4 x5 x6 x7 x8 x9 x10 = Inr t"
    by (simp add: apply_change_def)
  from toy_grant_put_ok [OF this] show ?thesis by (intro toys) auto
next
  case (ToyGrantRemove x)
  with assms show ?thesis by (intro toys) (auto simp: apply_change_def split: if_split_asm)
next
  case (WatchScopePut v)
  with assms have "apply_watch_scope_put E s v = Inr t" by (simp add: apply_change_def)
  then show ?thesis unfolding watch_put_ok by (elim conjE) (rule watch)
next
  case (AdminKeyGrantPut g signature)
  with assms have "ag_issuance_ceiling g = None" "apply_admin_key_grant_put s g = Inr t"
    by (auto simp: apply_change_def split: if_split_asm)
  then show ?thesis unfolding grant_put_ok by (elim conjE) (rule put)
next
  case (AdminKeyGrantRevoke i signature)
  with assms have "apply_admin_key_grant_revoke s i = Inr t" by (simp add: apply_change_def)
  then show ?thesis unfolding grant_revoke_ok using revoke by blast
next
  case (PairingTicketIssued h p a e signature)
  with assms have "apply_pairing_ticket_issued s h p a e (signature \<noteq> None) = Inr t"
    by (simp add: apply_change_def)
  from ticket_issued_ok [OF this] show ?thesis by (elim conjE) (erule (1) issued, simp_all)
next
  case (PairingTicketConsumed h adm signature)
  with assms have "apply_pairing_ticket_consumed (en_jiff E) s h adm = Inr t"
    by (simp add: apply_change_def)
  then show ?thesis unfolding ticket_consumed_ok using consumed by blast
qed (use assms in \<open>simp_all add: apply_change_def\<close>)

lemma apply_change_special:
  "apply_change E s c = Inr t \<Longrightarrow>
   sta_passkey_admin t = sta_passkey_admin s \<and> sta_admin_genesis t = sta_admin_genesis s \<and>
   sta_guardian_recovery t = sta_guardian_recovery s \<and> sta_admin_issuance t = sta_admin_issuance s"
  by (erule apply_change_effect) simp_all

lemma apply_change_ok:
  assumes "apply_change E s c = Inr t" and "legacy_part s" and "state_ok E s"
  shows "legacy_part t \<and> state_ok E t"
proof -
  from assms(1,2) have l: "legacy_part t" using apply_change_special by (auto simp: legacy_part_def)
  note legacy = assms(2) [unfolded legacy_part_def] l [unfolded legacy_part_def]
  from assms(3) legacy have s: "watch_ok E (sta_watch_scopes s)" "grants_ok (sta_admin_key_grants s)"
    "tickets_ok (sta_pairing_tickets s)"
    "\<And>k g. fmlookup (sta_admin_key_grants s) k = Some g \<Longrightarrow> ag_issuance_ceiling g = None"
    by (simp_all add: state_ok_legacy)
  from assms(1) have "watch_ok E (sta_watch_scopes t) \<and> grants_ok (sta_admin_key_grants t) \<and>
    tickets_ok (sta_pairing_tickets t) \<and>
    (\<forall>k g. fmlookup (sta_admin_key_grants t) k = Some g \<longrightarrow> ag_issuance_ceiling g = None)"
  proof (cases rule: apply_change_effect)
    case (watch v)
    then have "watch_ok E (fmupd (ws_watch_scope_id v) v (sta_watch_scopes s))"
      using s(1) unfolding watch_ok_def by (metis fmupd_lookup option.inject)
    with watch s show ?thesis by simp
  next
    case (put g)
    then show ?thesis using s grants_ok_put [OF s(2), of g] by simp
  next
    case (revoke i g)
    then show ?thesis using s grants_ok_revoke [OF s(2), of i g] by simp
  qed (use s in \<open>auto simp: tickets_ok_def split: if_split_asm\<close>)
  with legacy have "state_ok E t" by (simp add: state_ok_legacy)
  with l show ?thesis ..
qed

section \<open>Accepted transitions keep the state valid\<close>

lemma apply_changes_loop_ok:
  "apply_changes_loop E s cs = Inr t \<Longrightarrow> legacy_part s \<Longrightarrow> state_ok E s \<Longrightarrow> legacy_part t \<and> state_ok E t"
proof (induction cs arbitrary: s)
  case (Cons c cs)
  then obtain u where "apply_change E s c = Inr u" and "apply_changes_loop E u cs = Inr t"
    by (auto simp: result_simps)
  with Cons show ?case using apply_change_ok by blast
qed simp

lemma issuance_apply_effect:
  assumes "issuance_apply E s request decided_at = Inr t"
  obtains issuer where
    "state_ok E s" "state_ok E t"
    "authority_state_hash E s = Inr (sr_authority_state_hash (xi_expected_authority (xq_intent request)))"
    "fmlookup (sta_admin_key_grants s) (xi_issuer_grant_id (xq_intent request)) = Some issuer"
    "evaluate_admin_key_issuance (en_crypto E) issuer (xi_grant (xq_intent request)) decided_at = Inr ()"
    "fmlookup (sta_admin_key_grants s) (ag_grant_id (xi_grant (xq_intent request))) = None"
    "fmlookup (sta_admin_issuance s) (ag_grant_id (xi_grant (xq_intent request))) = None"
    "t = s\<lparr>sta_admin_key_grants := fmupd (ag_grant_id (xi_grant (xq_intent request)))
            (xi_grant (xq_intent request)) (sta_admin_key_grants s),
          sta_admin_issuance := fmupd (ag_grant_id (xi_grant (xq_intent request)))
            \<lparr>xc_intent = xq_intent request, xc_issuer_at_acceptance = issuer,
             xc_decided_at = decided_at\<rparr> (sta_admin_issuance s)\<rparr>"
proof -
  from assms obtain h issuer put where
    a: "authority_state_hash E s = Inr h" "h = sr_authority_state_hash (xi_expected_authority (xq_intent request))"
    "fmlookup (sta_admin_key_grants s) (xi_issuer_grant_id (xq_intent request)) = Some issuer"
    "evaluate_admin_key_issuance (en_crypto E) issuer (xi_grant (xq_intent request)) decided_at = Inr ()"
    "fmlookup (sta_admin_issuance s) (ag_grant_id (xi_grant (xq_intent request))) = None"
    and p: "apply_admin_key_grant_put s (xi_grant (xq_intent request)) = Inr put"
    and t: "put\<lparr>sta_admin_issuance :=
                  fmupd (ag_grant_id (xi_grant (xq_intent request)))
                    \<lparr>xc_intent = xq_intent request, xc_issuer_at_acceptance = issuer,
                     xc_decided_at = decided_at\<rparr> (sta_admin_issuance put)\<rparr> = t"
    and h: "\<exists>k. authority_state_hash E (put\<lparr>sta_admin_issuance :=
                  fmupd (ag_grant_id (xi_grant (xq_intent request)))
                    \<lparr>xc_intent = xq_intent request, xc_issuer_at_acceptance = issuer,
                     xc_decided_at = decided_at\<rparr> (sta_admin_issuance put)\<rparr>) = Inr k"
    by (auto simp: issuance_apply_def Let_def and_then_unit result_simps split: if_split_asm)
  from p have "fmlookup (sta_admin_key_grants s) (ag_grant_id (xi_grant (xq_intent request))) = None"
    "put = s\<lparr>sta_admin_key_grants := fmupd (ag_grant_id (xi_grant (xq_intent request)))
        (xi_grant (xq_intent request)) (sta_admin_key_grants s)\<rparr>"
    by (simp_all add: grant_put_ok)
  moreover from a(1) h [unfolded t] have "state_ok E s" "state_ok E t" by (auto simp: authority_state_hash_ok)
  ultimately show thesis using a t [symmetric] by (intro that) simp_all
qed

lemma recovery_apply_effect:
  assumes "recovery_apply E s command clock = Inr t"
  obtains h root nxt where
    "state_ok E s" "state_ok E t" "authority_state_hash E s = Inr h"
    "List.find (\<lambda>grant. ag_class grant = Recovery) (fm_values (sta_admin_key_grants s)) = Some root"
    "evaluate_guardian_recovery (en_crypto E) (en_jiff E) (en_serde E) (sta_guardian_recovery s)
       command clock h = Inr nxt"
    "is_complete_action (gc_action command) \<Longrightarrow>
       fmlookup (sta_admin_key_grants s) (recovered_grant_id nxt) = None"
    "t = (if is_complete_action (gc_action command) then replace_root s root nxt else s)
           \<lparr>sta_guardian_recovery := Some nxt\<rparr>"
proof -
  from assms obtain h root nxt where
    a: "authority_state_hash E s = Inr h"
    "List.find (\<lambda>grant. ag_class grant = Recovery) (fm_values (sta_admin_key_grants s)) = Some root"
    "evaluate_guardian_recovery (en_crypto E) (en_jiff E) (en_serde E) (sta_guardian_recovery s)
       command clock h = Inr nxt"
    "\<not> (is_complete_action (gc_action command) \<and>
       fmlookup (sta_admin_key_grants s) (recovered_grant_id nxt) \<noteq> None)"
    and t: "(if is_complete_action (gc_action command) then replace_root s root nxt else s)
           \<lparr>sta_guardian_recovery := Some nxt\<rparr> = t"
    and h: "\<exists>k. authority_state_hash E ((if is_complete_action (gc_action command) then replace_root s root nxt else s)
           \<lparr>sta_guardian_recovery := Some nxt\<rparr>) = Inr k"
    by (auto simp: recovery_apply_def Let_def result_simps split: if_split_asm)
  from a(1) h [unfolded t] have "state_ok E s" "state_ok E t" by (auto simp: authority_state_hash_ok)
  with a t show thesis by (intro that) blast+
qed

text \<open>The three shapes of an accepted transition.\<close>

lemma apply_authority_changes_cases:
  assumes "apply_authority_changes E s cs = Inr t"
  obtains (issue) request decided_at where "cs = [AdminKeyIssue request decided_at]"
      "issuance_apply E s request decided_at = Inr t"
  | (recover) command clock where "cs = [GuardianRecovery command clock]"
      "recovery_apply E s command clock = Inr t"
  | (ordinary) "legacy_part s" "apply_changes_loop E s cs = Inr t"
proof (cases "list_ex is_issue_change cs")
  case True
  with assms have "(case cs of [AdminKeyIssue request decided_at] \<Rightarrow> issuance_apply E s request decided_at
      | _ \<Rightarrow> Inl (authority_incoherent ''issuance must be an exclusive authority transition'')) = Inr t"
    by (simp add: apply_authority_changes_def split: if_split_asm)
  then show ?thesis by (auto split: list.split_asm AuthorityChangeV1.split_asm intro: issue)
next
  case no_issue: False
  show ?thesis
  proof (cases "list_ex is_recovery_change cs")
    case True
    with assms no_issue have "(case cs of [GuardianRecovery command clock] \<Rightarrow> recovery_apply E s command clock
        | _ \<Rightarrow> Inl (authority_incoherent ''recovery must be an exclusive authority transition'')) = Inr t"
      by (simp add: apply_authority_changes_def split: if_split_asm)
    then show ?thesis by (auto split: list.split_asm AuthorityChangeV1.split_asm intro: recover)
  next
    case False
    with assms no_issue show ?thesis
      by (intro ordinary) (auto simp: apply_authority_changes_def legacy_part_def split: if_split_asm)
  qed
qed

lemma apply_authority_changes_ok:
  assumes "apply_authority_changes E s cs = Inr t" and "state_ok E s"
  shows "state_ok E t"
  using assms(1)
proof (cases rule: apply_authority_changes_cases)
  case (ordinary)
  then show ?thesis using apply_changes_loop_ok assms(2) by blast
qed (blast elim: issuance_apply_effect recovery_apply_effect)+

section \<open>What is final\<close>

text \<open>
  Systems whose steps only move up in an order: what holds of one step holds of a history. The
  order may need an invariant of the state before the step.
\<close>

locale monotone_system = invariant_system +
  fixes le :: "'s \<Rightarrow> 's \<Rightarrow> bool"
  assumes le_refl: "le s s"
    and le_trans: "le s t \<Longrightarrow> le t u \<Longrightarrow> le s u"
    and le_step: "inv s \<Longrightarrow> step s t \<Longrightarrow> le s t"
begin

lemma steps_le: "step\<^sup>*\<^sup>* s t \<Longrightarrow> inv s \<Longrightarrow> le s t"
proof (induction rule: rtranclp.induct)
  case (rtrancl_into_rtrancl a b c)
  then show ?case using le_trans le_step steps_inv by blast
qed (rule le_refl)

lemma reach_le: "reach init step s \<Longrightarrow> step\<^sup>*\<^sup>* s t \<Longrightarrow> le s t"
  by (rule steps_le) (auto intro: reach_inv)

end

definition map_le_by :: "('a \<Rightarrow> 'a \<Rightarrow> bool) \<Rightarrow> (string, 'a) fmap \<Rightarrow> (string, 'a) fmap \<Rightarrow> bool" where
  "map_le_by R m n \<longleftrightarrow> (\<forall>i x. fmlookup m i = Some x \<longrightarrow> (\<exists>y. fmlookup n i = Some y \<and> R x y))"

definition ticket_le :: "PairingTicketV1 \<Rightarrow> PairingTicketV1 \<Rightarrow> bool" where
  "ticket_le k l \<longleftrightarrow> l = k \<or> l = k\<lparr>pt_state := TicketConsumed\<rparr>"

definition watch_le :: "WatchObservationScope \<Rightarrow> WatchObservationScope \<Rightarrow> bool" where
  "watch_le v w \<longleftrightarrow> ws_scope_revision v \<le> ws_scope_revision w \<and>
     (ws_authority_state v \<noteq> WS_Active \<longrightarrow> w = v)"

definition grant_le :: "(string, AdminKeyGrantV1) fmap \<Rightarrow> (string, AdminKeyGrantV1) fmap \<Rightarrow> bool" where
  "grant_le m n \<longleftrightarrow>
     (\<forall>i g. fmlookup m i = Some g \<and> ag_grant_state g = AGS_Revoked \<longrightarrow> fmlookup n i = Some g)"

definition state_le :: "AuthorityStateV1 \<Rightarrow> AuthorityStateV1 \<Rightarrow> bool" where
  "state_le s t \<longleftrightarrow>
     map_le_by ticket_le (sta_pairing_tickets s) (sta_pairing_tickets t) \<and>
     grant_le (sta_admin_key_grants s) (sta_admin_key_grants t) \<and>
     map_le_by watch_le (sta_watch_scopes s) (sta_watch_scopes t)"

lemma map_le_by_refl: "(\<And>x. R x x) \<Longrightarrow> map_le_by R m m"
  by (simp add: map_le_by_def)

lemma map_le_by_trans:
  "map_le_by R l m \<Longrightarrow> map_le_by R m n \<Longrightarrow> (\<And>x y z. R x y \<Longrightarrow> R y z \<Longrightarrow> R x z) \<Longrightarrow> map_le_by R l n"
  unfolding map_le_by_def by blast

lemma map_le_by_upd:
  "(\<And>x. R x x) \<Longrightarrow> (\<And>y. fmlookup m i = Some y \<Longrightarrow> R y x) \<Longrightarrow> map_le_by R m (fmupd i x m)"
  by (simp add: map_le_by_def)

lemma ticket_le_refl [simp]: "ticket_le k k" by (simp add: ticket_le_def)
lemma watch_le_refl [simp]: "watch_le v v" by (simp add: watch_le_def)
lemma grant_le_refl [simp]: "grant_le m m" by (simp add: grant_le_def)

lemma ticket_le_trans: "ticket_le j k \<Longrightarrow> ticket_le k l \<Longrightarrow> ticket_le j l"
  by (auto simp: ticket_le_def)

lemma watch_le_trans: "watch_le u v \<Longrightarrow> watch_le v w \<Longrightarrow> watch_le u w"
  by (auto simp: watch_le_def)

lemma state_le_refl: "state_le s s" by (simp add: state_le_def map_le_by_refl)

lemma state_le_trans: "state_le s t \<Longrightarrow> state_le t u \<Longrightarrow> state_le s u"
  unfolding state_le_def grant_le_def
  using map_le_by_trans [of ticket_le] map_le_by_trans [of watch_le] ticket_le_trans watch_le_trans
  by metis

lemma apply_change_le: "apply_change E s c = Inr t \<Longrightarrow> state_le s t"
proof (erule apply_change_effect)
  fix v
  assume "case fmlookup (sta_watch_scopes s) (ws_watch_scope_id v) of
         None \<Rightarrow> ws_scope_revision v = 1 \<and> ws_authority_state v = WS_Active
       | Some w \<Rightarrow> ws_authority_state w = WS_Active \<and>
           checked_add_u64 (ws_scope_revision w) 1 = Some (ws_scope_revision v)"
    and t: "t = s\<lparr>sta_watch_scopes := fmupd (ws_watch_scope_id v) v (sta_watch_scopes s)\<rparr>"
  then have "map_le_by watch_le (sta_watch_scopes s)
      (fmupd (ws_watch_scope_id v) v (sta_watch_scopes s))"
    by (intro map_le_by_upd) (auto simp: watch_le_def dest: checked_add_u64_1_less less_imp_le)
  then show ?thesis by (simp add: state_le_def t map_le_by_refl)
qed (auto simp: state_le_def map_le_by_refl grant_le_def ticket_le_def intro!: map_le_by_upd)

lemma apply_changes_loop_le: "apply_changes_loop E s cs = Inr t \<Longrightarrow> state_le s t"
proof (induction cs arbitrary: s)
  case (Cons c cs)
  then show ?case using apply_change_le state_le_trans by (fastforce simp: result_simps)
qed (simp add: state_le_refl)

lemma replace_root_le:
  assumes "grants_ok (sta_admin_key_grants s)"
    and root: "List.find (\<lambda>g. ag_class g = Recovery) (fm_values (sta_admin_key_grants s)) = Some root"
    and fresh: "fmlookup (sta_admin_key_grants s) (recovered_grant_id n) = None"
  shows "state_le s (replace_root s root n)"
proof -
  from root have "root \<in> fmran' (sta_admin_key_grants s)" "ag_class root = Recovery"
    by (auto simp: find_Some_iff set_fm_values [symmetric])
  with assms(1) have r: "fmlookup (sta_admin_key_grants s) (ag_grant_id root) = Some root"
    "ag_grant_state root = AGS_Active"
    by (auto simp: grants_ok_def grant_ok_def fmlookup_ran'_iff)
  have "grant_le (sta_admin_key_grants s) (sta_admin_key_grants (replace_root s root n))"
    unfolding grant_le_def
  proof (intro allI impI, elim conjE)
    fix i g
    assume g: "fmlookup (sta_admin_key_grants s) i = Some g" "ag_grant_state g = AGS_Revoked"
    with r fresh have "i \<noteq> ag_grant_id root" "i \<noteq> recovered_grant_id n" by auto
    moreover from g(2) have "g\<lparr>ag_grant_state := AGS_Revoked\<rparr> = g" by (cases g) simp
    ultimately show "fmlookup (sta_admin_key_grants (replace_root s root n)) i = Some g"
      using g by (simp add: replace_root_def)
  qed
  then show ?thesis by (simp add: state_le_def replace_root_def map_le_by_def ticket_le_def)
qed

lemma issuance_apply_le: "issuance_apply E s request decided_at = Inr t \<Longrightarrow> state_le s t"
  by (erule issuance_apply_effect) (auto simp: state_le_def grant_le_def map_le_by_refl)

lemma recovery_apply_le: "recovery_apply E s command clock = Inr t \<Longrightarrow> state_le s t"
proof (erule recovery_apply_effect)
  fix h root n
  assume a: "state_ok E s"
    "List.find (\<lambda>g. ag_class g = Recovery) (fm_values (sta_admin_key_grants s)) = Some root"
    "is_complete_action (gc_action command) \<Longrightarrow>
       fmlookup (sta_admin_key_grants s) (recovered_grant_id n) = None"
    and t: "t = (if is_complete_action (gc_action command) then replace_root s root n else s)
           \<lparr>sta_guardian_recovery := Some n\<rparr>"
  show ?thesis
  proof (cases "is_complete_action (gc_action command)")
    case True
    with a have "state_le s (replace_root s root n)" by (intro replace_root_le) (auto simp: state_ok_def)
    with True t show ?thesis by (simp add: state_le_def)
  qed (simp add: t state_le_def map_le_by_refl)
qed

lemma apply_authority_changes_le: "apply_authority_changes E s cs = Inr t \<Longrightarrow> state_le s t"
  by (erule apply_authority_changes_cases)
     (blast intro: issuance_apply_le recovery_apply_le apply_changes_loop_le)+

text \<open>Histories of accepted transitions from a valid state.\<close>

inductive authority_step :: "Env \<Rightarrow> AuthorityStateV1 \<Rightarrow> AuthorityStateV1 \<Rightarrow> bool" for E where
  authority_step: "apply_authority_changes E s cs = Inr t \<Longrightarrow> authority_step E s t"

inductive_cases authority_stepE: "authority_step E s t"

interpretation authority: monotone_system "state_ok E" "authority_step E" "state_ok E" state_le
  by unfold_locales
    (auto elim!: authority_stepE intro: apply_authority_changes_ok apply_authority_changes_le
      state_le_refl state_le_trans)

section \<open>Signatures\<close>

definition change_nonces :: "AuthorityChangeV1 list \<Rightarrow> (string \<times> u64) set" where
  "change_nonces cs =
     {(as_signer_grant_id g, as_nonce g) | g. \<exists>c \<in> set cs. change_signature c = Some g}"

lemma change_nonces_Nil [simp]: "change_nonces [] = {}" by (simp add: change_nonces_def)

lemma change_nonces_Cons:
  "change_nonces (c # cs) =
     (case change_signature c of None \<Rightarrow> {} | Some g \<Rightarrow> {(as_signer_grant_id g, as_nonce g)}) \<union>
     change_nonces cs"
  by (auto simp: change_nonces_def split: option.split)

lemma record_nonces: "record_admin_signature_nonces used cs = used \<union> change_nonces cs"
  unfolding record_admin_signature_nonces_def
  by (induction cs arbitrary: used) (auto simp: change_nonces_Cons split: option.split)

lemma verify_signatures_fresh:
  "verify_signatures_loop E prior used m l seen cs = Inr u \<Longrightarrow> change_nonces cs \<inter> (used \<union> seen) = {}"
proof (induction cs arbitrary: seen)
  case (Cons c cs)
  then show ?case
    by (fastforce simp: change_nonces_Cons Let_def result_simps split: option.split_asm if_split_asm)
qed simp

text \<open>Every signature that was accepted verified under the grant it names.\<close>

lemma verify_signatures_each:
  "verify_signatures_loop E prior used m l seen cs = Inr u \<Longrightarrow> c \<in> set cs \<Longrightarrow>
   change_signature c = Some g \<Longrightarrow>
   as_scheme g = Ed25519MlDsa65V1 \<and> verify_change_signature E prior m l c g = Inr ()"
  by (induction cs arbitrary: seen)
     (auto simp: Let_def result_simps split: option.split_asm if_split_asm)

lemma change_nonces_list:
  "(\<lambda>g. (as_signer_grant_id g, as_nonce g)) ` set (List.map_filter change_signature cs) = change_nonces cs"
  by (induction cs) (auto simp: map_filter_simps change_nonces_Cons split: option.split)

lemma verify_signatures_distinct:
  "verify_signatures_loop E prior used m l seen cs = Inr u \<Longrightarrow>
   distinct (map (\<lambda>g. (as_signer_grant_id g, as_nonce g)) (List.map_filter change_signature cs))"
proof (induction cs arbitrary: seen)
  case (Cons c cs)
  show ?case
  proof (cases "change_signature c")
    case (Some g)
    let ?k = "(as_signer_grant_id g, as_nonce g)"
    from Cons.prems Some have v: "verify_signatures_loop E prior used m l (insert ?k seen) cs = Inr u"
      by (auto simp: Let_def result_simps split: if_split_asm)
    from verify_signatures_fresh [OF this] have "?k \<notin> change_nonces cs" by auto
    then have "?k \<notin> set (map (\<lambda>g. (as_signer_grant_id g, as_nonce g)) (List.map_filter change_signature cs))"
      by (simp add: change_nonces_list)
    with Cons.IH [OF v] Some show ?thesis by (simp add: map_filter_simps)
  qed (use Cons in \<open>simp add: map_filter_simps\<close>)
qed (simp add: map_filter_simps)

end
