(* ===== verification/MCT_Replay_Laws.thy ===== *)
theory MCT_Replay_Laws
  imports MCT_Replay MCT_Authority_Laws
begin

text \<open>
  The shape of an entry the replay accepts, and what each kind of canonical fact does to it.
\<close>

section \<open>Accepted entries\<close>

lemma fold_body_cases:
  assumes "fold_authority_entry_body E r u p e = Inr (r', u')"
  obtains (ordinary) "authority_payload e = None" "r' = r" "u' = u"
  | (canonical) payload env r0 rec where "authority_payload e = Some payload"
      "jd_envelope (en_codec E) payload = Inr env" "ev_schema env = AUTHORITY_FACT_SCHEMA_V1"
      "ev_fact_id env = mo_observation_id (le_observation e)"
      "fold_fact E r u p e env = Inr (r0, u')"
      "r' = r0\<lparr>ry_facts := ry_facts r0 @ [rec]\<rparr>"
  using assms unfolding fold_authority_entry_body_def
  by (auto simp: result_simps split: option.split_asm if_split_asm)

lemma fold_fact_cases:
  assumes "fold_fact E r u p e env = Inr (r', u')"
  obtains (passkey) f where "ev_fact_kind env = ''passkey_admin''"
      "jd_passkey_fact (en_codec E) (ev_body env) = Inr f"
      "passkey_replay_fact E r u p e f = Inr (r', u')"
  | (genesis) f where "ev_fact_kind env = ''admin_genesis''"
      "jd_genesis_fact (en_codec E) (ev_body env) = Inr f"
      "replay_genesis E r u p e f = Inr (r', u')"
  | (epoch) f where "ev_fact_kind env = ''epoch_established''"
      "jd_epoch_fact (en_codec E) (ev_body env) = Inr f"
      "fold_epoch E r u p e f = Inr (r', u')"
  | (mutation) f where "ev_fact_kind env = ''authority_mutation''"
      "jd_mutation_fact (en_codec E) (ev_body env) = Inr f"
      "fold_mutation E r e f = Inr r'" "u' = u"
  | (imported) f where "ev_fact_kind env = ''legacy_authority_import''"
      "jd_import_fact (en_codec E) (ev_body env) = Inr f"
      "fold_import E r e f = Inr r'" "u' = u"
  using assms unfolding fold_fact_def Let_def
  by (auto simp: result_simps split: if_split_asm)

text \<open>What each arm does to the replay.\<close>

lemma fold_epoch_effect:
  assumes "fold_epoch E r u p e f = Inr (r', u')"
  shows "r' = r\<lparr>ry_current_authority := Some (ef_resulting_authority f),
            ry_canonical_fact_count := ry_canonical_fact_count r + 1\<rparr>"
    and "u' = insert (ef_authority_epoch f) u" and "ef_authority_epoch f \<notin> u"
    and "gi_generation (ef_resulting_authority f) = current_generation r"
    and "gi_authority_epoch (ef_resulting_authority f) = ef_authority_epoch f"
  using assms unfolding fold_epoch_def validate_epoch_fact_def
  by (auto simp: result_simps identity_of_entry_def split: if_split_asm)

lemma validate_mutation_effect:
  assumes "validate_authority_mutation_fact E e r f = Inr t"
  obtains authority h where "ry_current_authority r = Some authority"
    "verify_admin_change_signatures E (ry_state r) (ry_admin_signature_nonces r)
       (mf_mother_node_id f) (mf_ledger_id f) (mf_changes f) = Inr ()"
    "issuance_validate_context (ry_admin_grant_ids r) (mf_changes f) authority (le_ledger_id e)
       (mf_mutation_id f) (mf_decided_at f) = Inr ()"
    "apply_authority_changes E (ry_state r) (mf_changes f) = Inr t"
    "authority_state_hash E t = Inr h" "sr_authority_state_hash (mf_resulting_state f) = h"
    "unat (gi_generation (sr_grants_authority (mf_resulting_state f))) = unat (gi_generation authority) + 1"
    "gi_authority_epoch (sr_grants_authority (mf_resulting_state f)) = gi_authority_epoch authority"
  using assms unfolding validate_authority_mutation_fact_def Let_def
  by (auto simp: result_simps and_then_unit identity_of_entry_def dest!: checked_add_u64_Some
      split: if_split_asm)

lemma fold_mutation_effect:
  assumes "fold_mutation E r e f = Inr r'"
  obtains t where "validate_authority_mutation_fact E e r f = Inr t"
    "ry_mutations r (mf_mutation_id f) = None"
    "r' = r\<lparr>ry_admin_signature_nonces := ry_admin_signature_nonces r \<union> change_nonces (mf_changes f),
       ry_mutations := (ry_mutations r)(mf_mutation_id f \<mapsto>
         \<lparr>cm_fact = f, cm_entry_sequence = le_local_sequence e, cm_entry_hash = le_entry_hash e\<rparr>),
       ry_state := t, ry_current_authority := Some (sr_grants_authority (mf_resulting_state f)),
       ry_canonical_fact_count := ry_canonical_fact_count r + 1\<rparr>"
  using assms unfolding fold_mutation_def record_nonces
  by (auto simp: result_simps split: if_split_asm)

lemma fold_import_effect:
  assumes "fold_import E r e f = Inr r'"
  obtains authority h c where "ry_current_authority r = Some authority" "\<not> ry_imported r"
    "ry_mutations r = Map.empty" "state_is_legacy (ry_state r)" "state_is_legacy (li_imported_state f)"
    "authority_state_hash E (li_imported_state f) = Inr h"
    "unat (gi_generation (sr_grants_authority (li_resulting_state f))) = unat (gi_generation authority) + 1"
    "r' = r\<lparr>ry_state := li_imported_state f,
       ry_current_authority := Some (sr_grants_authority (li_resulting_state f)), ry_imported := True,
       ry_import := Some c, ry_canonical_fact_count := ry_canonical_fact_count r + 1\<rparr>"
  using assms unfolding fold_import_def validate_legacy_import_fact_def Let_def
  by (auto simp: result_simps identity_of_entry_def dest!: checked_add_u64_Some split: if_split_asm)

lemma replay_genesis_effect:
  assumes "replay_genesis E r u p e f = Inr (r', u')"
  obtains "genesis_validate E (gf_request f) = Inr ()" "ry_current_authority r = None"
    "ry_state r = AuthorityStateV1_default" "u = {}"
    "r' = r\<lparr>ry_current_authority := Some (genesis_identity f),
      ry_admin_signature_nonces :=
        insert (ag_grant_id (gn_root (gq_intent (gf_request f))), 0) (ry_admin_signature_nonces r),
      ry_state := AuthorityStateV1_default
        \<lparr>sta_admin_key_grants := fmupd (ag_grant_id (gn_root (gq_intent (gf_request f))))
           (gn_root (gq_intent (gf_request f))) fmempty,
         sta_admin_genesis := Some f\<rparr>,
      ry_canonical_fact_count := ry_canonical_fact_count r + 1\<rparr>"
    "u' = {gn_birth_epoch (gq_intent (gf_request f))}"
proof -
  have e: "sta_admin_key_grants AuthorityStateV1_default = fmempty"
    by (simp add: AuthorityStateV1_default_def)
  from assms show thesis
    unfolding replay_genesis_def Let_def
    by (auto simp: result_simps and_then_unit e split: if_split_asm intro!: that)
qed

lemma passkey_replay_effect:
  assumes "passkey_replay_fact E r u p e f = Inr (r', u')"
  obtains nxt identity where "passkey_transition E r f = Inr nxt"
    "passkey_identity E f = Inr identity"
    "r' = r\<lparr>ry_current_authority := Some identity,
       ry_state := (ry_state r)\<lparr>sta_passkey_admin := Some nxt\<rparr>,
       ry_canonical_fact_count := ry_canonical_fact_count r + 1\<rparr>"
    "u \<subseteq> u'"
  using assms unfolding passkey_replay_fact_def Let_def
  by (auto simp: result_simps split: if_split_asm)

end
