(* ===== verification/MCT_Replay_History.thy ===== *)
theory MCT_Replay_History
  imports MCT_Replay_Laws
begin

text \<open>
  Whole histories: every replayable ledger leaves a valid authority state, facts are only added,
  revocations and consumed tickets are final, and no signature nonce is accepted twice.
\<close>

section \<open>The invariant of a replay\<close>

lemma genesis_validate_ok:
  "genesis_validate E q = Inr () \<Longrightarrow>
     admin_key_grant_shape_error (gn_root (gq_intent q)) = None \<and>
     ag_class (gn_root (gq_intent q)) = Recovery \<and> ag_grant_state (gn_root (gq_intent q)) = AGS_Active"
  by (cases "ag_class (gn_root (gq_intent q))")
     (simp_all add: genesis_validate_def Let_def split: if_split_asm)

lemma recovery_shape_no_ceiling:
  "admin_key_grant_shape_error g = None \<Longrightarrow> ag_class g = Recovery \<Longrightarrow> ag_issuance_ceiling g = None"
  by (auto simp: admin_key_grant_shape_error_def split: if_split_asm option.split_asm)

lemma fm_values_single [simp]: "fm_values (fmupd k v fmempty) = [v]"
  by (simp add: fm_values_def sorted_list_of_fmap_def sorted_list_of_fset.rep_eq)

lemma state_ok_genesis:
  assumes "genesis_validate E (gf_request f) = Inr ()"
  shows "state_ok E (AuthorityStateV1_default
     \<lparr>sta_admin_key_grants := fmupd (ag_grant_id (gn_root (gq_intent (gf_request f))))
        (gn_root (gq_intent (gf_request f))) fmempty, sta_admin_genesis := Some f\<rparr>)"
  using genesis_validate_ok [OF assms] recovery_shape_no_ceiling
  by (auto simp: state_ok_def AuthorityStateV1_default_def watch_ok_def grants_ok_def grant_ok_def
      recovery_at_def tickets_ok_def recovery_validate_state_def issuance_validate_state_def
      genesis_validate_state_def assms sorted_list_of_fmap_def sorted_list_of_fset.rep_eq result_simps
      split: if_split_asm)

lemma validators_ignore_passkey [simp]:
  "recovery_validate_state E (s\<lparr>sta_passkey_admin := n\<rparr>) = recovery_validate_state E s"
  "issuance_validate_state E (s\<lparr>sta_passkey_admin := n\<rparr>) = issuance_validate_state E s"
  "genesis_validate_state E (s\<lparr>sta_passkey_admin := n\<rparr>) = genesis_validate_state E s"
  by (simp_all add: recovery_validate_state_def issuance_validate_state_def genesis_validate_state_def
      cong: option.case_cong if_cong)

lemma state_ok_passkey:
  assumes "state_ok E s" and "sta_passkey_admin s = None \<Longrightarrow> s = AuthorityStateV1_default"
  shows "state_ok E (s\<lparr>sta_passkey_admin := Some n\<rparr>)"
proof -
  from assms have "sta_admin_genesis s = None \<and> sta_guardian_recovery s = None \<and>
      sta_admin_issuance s = fmempty \<and> sta_admin_key_grants s = fmempty"
    by (cases "sta_passkey_admin s") (simp_all add: state_ok_def AuthorityStateV1_default_def)
  with assms(1) show ?thesis by (simp add: state_ok_def)
qed

definition replay_inv :: "Env \<Rightarrow> replay_acc \<Rightarrow> bool" where
  "replay_inv E acc \<longleftrightarrow>
     (case acc of (r, used) \<Rightarrow>
       state_ok E (ry_state r) \<and>
       fset (fmdom (sta_admin_key_grants (ry_state r))) \<subseteq> ry_admin_grant_ids r \<and>
       (\<forall>i c. ry_mutations r i = Some c \<longrightarrow> mf_mutation_id (cm_fact c) = i) \<and>
       ry_canonical_fact_count r = of_nat (length (ry_facts r)) \<and>
       (ry_mutations r = Map.empty \<and> \<not> ry_imported r \<and> state_is_legacy (ry_state r) \<longrightarrow>
          ry_state r = AuthorityStateV1_default))"

definition mutations_le :: "(string \<Rightarrow> 'a option) \<Rightarrow> (string \<Rightarrow> 'a option) \<Rightarrow> bool" where
  "mutations_le m n \<longleftrightarrow> (\<forall>i c. m i = Some c \<longrightarrow> n i = Some c)"

definition replay_le :: "replay_acc \<Rightarrow> replay_acc \<Rightarrow> bool" where
  "replay_le a b \<longleftrightarrow>
     (case (a, b) of ((r, used), (r', used')) \<Rightarrow>
       used \<subseteq> used' \<and> ry_admin_signature_nonces r \<subseteq> ry_admin_signature_nonces r' \<and>
       ry_admin_grant_ids r \<subseteq> ry_admin_grant_ids r' \<and> mutations_le (ry_mutations r) (ry_mutations r') \<and>
       current_generation r \<le> current_generation r' \<and> state_le (ry_state r) (ry_state r') \<and>
       (\<exists>more. ry_facts r' = ry_facts r @ more))"

lemma replay_le_refl: "replay_le a a"
  by (cases a) (auto simp: replay_le_def mutations_le_def state_le_refl)

lemma replay_le_trans: "replay_le a b \<Longrightarrow> replay_le b c \<Longrightarrow> replay_le a c"
  by (cases a; cases b; cases c) (fastforce simp: replay_le_def mutations_le_def intro: state_le_trans)

lemma state_le_default: "state_le AuthorityStateV1_default s"
  by (simp add: state_le_def AuthorityStateV1_default_def map_le_by_def grant_le_def)

lemma unat_Suc_less: "unat (b :: u64) = unat a + 1 \<Longrightarrow> a \<le> b"
  by (simp add: word_le_nat_alt)

lemma passkey_transition_state:
  "passkey_transition E r f = Inr n \<Longrightarrow> sta_passkey_admin (ry_state r) = None \<Longrightarrow>
   ry_state r = AuthorityStateV1_default"
  by (auto simp: passkey_transition_def Let_def split: PasskeyAdminActionV1.split_asm if_split_asm)

lemma passkey_transition_generation:
  assumes "passkey_transition E r f = Inr n" and "passkey_identity E f = Inr identity"
  shows "unat (gi_generation identity) = unat (current_generation r) + 1"
proof -
  from assms(1) have "pi_generation (pr_intent (kf_request f)) = current_generation r"
    by (auto simp: passkey_transition_def Let_def result_simps current_generation_def
        split: PasskeyAdminActionV1.split_asm if_split_asm option.split_asm)
  with assms(2) show ?thesis
    by (auto simp: passkey_identity_def Let_def result_simps dest!: checked_add_u64_Some)
qed

text \<open>
  One accepted fact: the state it leaves, what it adds, and its generation. An establishment of an
  epoch keeps the generation, every other fact increments it.
\<close>

definition fact_effect :: "Env \<Rightarrow> replay_acc \<Rightarrow> replay_acc \<Rightarrow> bool" where
  "fact_effect E a b \<longleftrightarrow>
     (case (a, b) of ((r, used), (r', used')) \<Rightarrow>
       state_ok E (ry_state r') \<and> state_le (ry_state r) (ry_state r') \<and> used \<subseteq> used' \<and>
       ry_admin_signature_nonces r \<subseteq> ry_admin_signature_nonces r' \<and>
       ry_admin_grant_ids r' = ry_admin_grant_ids r \<and>
       mutations_le (ry_mutations r) (ry_mutations r') \<and>
       (\<forall>i c. ry_mutations r' i = Some c \<longrightarrow> mf_mutation_id (cm_fact c) = i) \<and>
       current_generation r \<le> current_generation r' \<and> ry_facts r' = ry_facts r \<and>
       ry_canonical_fact_count r' = ry_canonical_fact_count r + 1 \<and>
       (ry_mutations r' = Map.empty \<and> \<not> ry_imported r' \<and> state_is_legacy (ry_state r') \<longrightarrow>
          ry_state r' = AuthorityStateV1_default))"

lemma epoch_fact_effect:
  assumes "fold_epoch E r u p e f = Inr (r', u')" and "replay_inv E (r, u)"
  shows "fact_effect E (r, u) (r', u')"
  using fold_epoch_effect [OF assms(1)] assms(2)
  by (auto simp: fact_effect_def replay_inv_def mutations_le_def state_le_refl current_generation_def)

lemma mutation_fact_effect:
  assumes "fold_mutation E r e f = Inr r'" and "replay_inv E (r, u)"
  shows "fact_effect E (r, u) (r', u)"
proof -
  from assms(1) obtain t where v: "validate_authority_mutation_fact E e r f = Inr t"
    and n: "ry_mutations r (mf_mutation_id f) = None"
    and r': "r' = r\<lparr>ry_admin_signature_nonces := ry_admin_signature_nonces r \<union> change_nonces (mf_changes f),
       ry_mutations := (ry_mutations r)(mf_mutation_id f \<mapsto>
         \<lparr>cm_fact = f, cm_entry_sequence = le_local_sequence e, cm_entry_hash = le_entry_hash e\<rparr>),
       ry_state := t, ry_current_authority := Some (sr_grants_authority (mf_resulting_state f)),
       ry_canonical_fact_count := ry_canonical_fact_count r + 1\<rparr>"
    by (rule fold_mutation_effect)
  from v obtain authority h where a: "ry_current_authority r = Some authority"
    "apply_authority_changes E (ry_state r) (mf_changes f) = Inr t" "authority_state_hash E t = Inr h"
    "unat (gi_generation (sr_grants_authority (mf_resulting_state f))) = unat (gi_generation authority) + 1"
    by (rule validate_mutation_effect)
  from a(3) have "state_ok E t" by (simp add: authority_simps)
  moreover from a(2) have "state_le (ry_state r) t" by (rule apply_authority_changes_le)
  ultimately show ?thesis
    using assms(2) n a(1) unat_Suc_less [OF a(4)]
    by (auto simp: fact_effect_def replay_inv_def mutations_le_def r' current_generation_def)
qed

lemma import_fact_effect:
  assumes "fold_import E r e f = Inr r'" and "replay_inv E (r, u)"
  shows "fact_effect E (r, u) (r', u)"
proof -
  from assms(1) obtain authority h c where a: "ry_current_authority r = Some authority" "\<not> ry_imported r"
    "ry_mutations r = Map.empty" "state_is_legacy (ry_state r)"
    "authority_state_hash E (li_imported_state f) = Inr h"
    "unat (gi_generation (sr_grants_authority (li_resulting_state f))) = unat (gi_generation authority) + 1"
    "r' = r\<lparr>ry_state := li_imported_state f,
       ry_current_authority := Some (sr_grants_authority (li_resulting_state f)), ry_imported := True,
       ry_import := Some c, ry_canonical_fact_count := ry_canonical_fact_count r + 1\<rparr>"
    by (rule fold_import_effect)
  with assms(2) have "ry_state r = AuthorityStateV1_default" by (simp add: replay_inv_def)
  with a assms(2) unat_Suc_less [OF a(6)] show ?thesis
    by (simp add: fact_effect_def replay_inv_def mutations_le_def state_le_default current_generation_def
        authority_simps)
qed

lemma genesis_fact_effect:
  assumes "replay_genesis E r u p e f = Inr (r', u')" and "replay_inv E (r, u)"
  shows "fact_effect E (r, u) (r', u')"
  using assms(1)
  by (rule replay_genesis_effect)
     (use assms(2) state_ok_genesis [of E f] in \<open>auto simp: fact_effect_def replay_inv_def mutations_le_def
        state_le_default current_generation_def state_is_legacy_def\<close>)

lemma passkey_fact_effect:
  assumes "passkey_replay_fact E r u p e f = Inr (r', u')" and "replay_inv E (r, u)"
  shows "fact_effect E (r, u) (r', u')"
proof -
  from assms(1) obtain n identity where a: "passkey_transition E r f = Inr n"
    "passkey_identity E f = Inr identity"
    "r' = r\<lparr>ry_current_authority := Some identity,
       ry_state := (ry_state r)\<lparr>sta_passkey_admin := Some n\<rparr>,
       ry_canonical_fact_count := ry_canonical_fact_count r + 1\<rparr>" "u \<subseteq> u'"
    by (rule passkey_replay_effect)
  have "state_ok E ((ry_state r)\<lparr>sta_passkey_admin := Some n\<rparr>)"
    using assms(2) passkey_transition_state [OF a(1)]
    by (intro state_ok_passkey) (auto simp: replay_inv_def)
  moreover have "current_generation r \<le> gi_generation identity"
    by (rule unat_Suc_less) (rule passkey_transition_generation [OF a(1,2)])
  ultimately show ?thesis
    using assms(2) a(3,4)
    by (auto simp: fact_effect_def replay_inv_def mutations_le_def state_le_def map_le_by_refl
        current_generation_def state_is_legacy_def)
qed

lemma fold_fact_effect:
  "fold_fact E r u p e env = Inr (r', u') \<Longrightarrow> replay_inv E (r, u) \<Longrightarrow> fact_effect E (r, u) (r', u')"
  by (erule fold_fact_cases)
     (blast intro: epoch_fact_effect mutation_fact_effect import_fact_effect genesis_fact_effect
        passkey_fact_effect)+

lemma fold_entry_shape:
  assumes "fold_authority_entry E r u p e = Inr (r', u')"
  obtains r0 where "fold_authority_entry_body E r u p e = Inr (r0, u')"
    "r' = r0\<lparr>ry_tail_recovery_only := ry_tail_recovery_only r0 \<and> is_valid_tail_recovery_entry e,
       ry_admin_grant_ids := ry_admin_grant_ids r0 \<union> fset (fmdom (sta_admin_key_grants (ry_state r0)))\<rparr>"
  using assms unfolding fold_authority_entry_def by (auto simp: result_simps)

lemma fold_entry_inv_le:
  assumes "fold_authority_entry E r u p e = Inr (r', u')" and inv: "replay_inv E (r, u)"
  shows "replay_inv E (r', u')" and "replay_le (r, u) (r', u')"
proof -
  from assms(1) obtain r0 where b: "fold_authority_entry_body E r u p e = Inr (r0, u')"
    and r': "r' = r0\<lparr>ry_tail_recovery_only := ry_tail_recovery_only r0 \<and> is_valid_tail_recovery_entry e,
       ry_admin_grant_ids := ry_admin_grant_ids r0 \<union> fset (fmdom (sta_admin_key_grants (ry_state r0)))\<rparr>"
    by (rule fold_entry_shape)
  from b have "replay_inv E (r', u') \<and> replay_le (r, u) (r', u')"
  proof (cases rule: fold_body_cases)
    case ordinary
    with inv show ?thesis
      by (auto simp: r' replay_inv_def replay_le_def mutations_le_def state_le_refl current_generation_def)
  next
    case (canonical payload env r1 rec)
    from fold_fact_effect [OF canonical(5) inv] inv show ?thesis
      by (auto simp: r' canonical(6) fact_effect_def replay_inv_def replay_le_def current_generation_def)
  qed
  then show "replay_inv E (r', u')" and "replay_le (r, u) (r', u')" by blast+
qed

inductive replay_step :: "Env \<Rightarrow> replay_acc \<Rightarrow> replay_acc \<Rightarrow> bool" for E where
  replay_step: "fold_authority_entry E r u p e = Inr acc \<Longrightarrow> replay_step E (r, u) acc"

inductive_cases replay_stepE: "replay_step E a b"

definition replay_start :: "replay_acc \<Rightarrow> bool" where
  "replay_start acc \<longleftrightarrow> acc = (empty_authority_replay, {})"

lemma replay_start_inv: "replay_start acc \<Longrightarrow> replay_inv E acc"
  using state_ok_default [of E]
  by (auto simp: replay_start_def replay_inv_def empty_authority_replay_def AuthorityStateV1_default_def)

interpretation replays: monotone_system replay_start "replay_step E" "replay_inv E" replay_le
  by unfold_locales
    (auto elim!: replay_stepE intro: replay_start_inv fold_entry_inv_le replay_le_refl replay_le_trans)

section \<open>Runs over a list of entries\<close>

inductive run :: "('s \<Rightarrow> 'e \<Rightarrow> 's \<Rightarrow> bool) \<Rightarrow> 's \<Rightarrow> 'e list \<Rightarrow> 's \<Rightarrow> bool" for step where
  run_Nil: "run step s [] s"
| run_Cons: "step s e t \<Longrightarrow> run step t es u \<Longrightarrow> run step s (e # es) u"

inductive_simps run_Nil_iff [simp]: "run step s [] t"
inductive_simps run_Cons_iff: "run step s (e # es) t"

lemma run_append: "run step s (xs @ ys) u \<longleftrightarrow> (\<exists>t. run step s xs t \<and> run step t ys u)"
  by (induction xs arbitrary: s) (auto simp: run_Cons_iff)

text \<open>
  A run that spends keys: from a proper state, each step spends the keys of its entry, which are
  distinct and were not spent before, and leads to a proper state. Then no key is spent twice in
  the run.
\<close>

locale spending =
  fixes step :: "'s \<Rightarrow> 'e \<Rightarrow> 's \<Rightarrow> bool" and proper :: "'s \<Rightarrow> bool" and spent :: "'s \<Rightarrow> 'k set"
    and keys :: "'e \<Rightarrow> 'k list"
  assumes stays_proper: "proper s \<Longrightarrow> step s e t \<Longrightarrow> proper t"
    and spend: "proper s \<Longrightarrow> step s e t \<Longrightarrow>
      distinct (keys e) \<and> set (keys e) \<inter> spent s = {} \<and> spent s \<union> set (keys e) \<subseteq> spent t"
begin

lemma run_spends:
  "run step s es t \<Longrightarrow> proper s \<Longrightarrow>
     distinct (concat (map keys es)) \<and> set (concat (map keys es)) \<inter> spent s = {} \<and>
     spent s \<union> set (concat (map keys es)) \<subseteq> spent t"
proof (induction rule: run.induct)
  case (run_Cons s e t es u)
  from spend [OF run_Cons.prems run_Cons.hyps(1)]
    run_Cons.IH [OF stays_proper [OF run_Cons.prems run_Cons.hyps(1)]]
  show ?case by auto
qed simp

lemma run_spends_once: "run step s es t \<Longrightarrow> proper s \<Longrightarrow> distinct (concat (map keys es))"
  using run_spends by blast

end

definition entry_step :: "Env \<Rightarrow> replay_acc \<times> head \<Rightarrow> MctObservationLedgerEntry \<Rightarrow> replay_acc \<times> head \<Rightarrow> bool" where
  "entry_step E s e t \<longleftrightarrow>
     fold_authority_entry E (fst (fst s)) (snd (fst s)) (snd s) e = Inr (fst t) \<and>
     snd t = Some (le_local_sequence e, le_entry_hash e)"

lemma replay_loop_run:
  "replay_entries_loop E r u p es = Inr r' \<longleftrightarrow>
     (\<exists>u' p'. run (entry_step E) ((r, u), p) es ((r', u'), p'))"
proof (induction es arbitrary: r u p)
  case (Cons e es)
  show ?case by (auto simp: run_Cons_iff entry_step_def result_simps Cons.IH)
qed auto

lemma replay_run:
  "replay_authority_entries E es = Inr r \<longleftrightarrow>
     (\<exists>u p. run (entry_step E) ((empty_authority_replay, {}), None) es ((r, u), p))"
  by (simp add: replay_authority_entries_def replay_loop_run)

lemma run_steps: "run (entry_step E) s es t \<Longrightarrow> (replay_step E)\<^sup>*\<^sup>* (fst s) (fst t)"
proof (induction rule: run.induct)
  case (run_Cons s e t es u)
  then have "replay_step E (fst s) (fst t)"
    by (cases s; cases t) (auto simp: entry_step_def intro: replay_step.intros)
  then show ?case using run_Cons.IH by (rule converse_rtranclp_into_rtranclp)
qed simp

lemma replay_start_reach: "replay_inv E (empty_authority_replay, {})"
  by (rule replay_start_inv) (simp add: replay_start_def)

lemma replay_reaches_inv:
  "replay_authority_entries E es = Inr r \<Longrightarrow> \<exists>u. replay_inv E (r, u)"
  using replays.steps_inv [OF run_steps _] replay_start_reach by (fastforce simp: replay_run)

section \<open>What an entry spends\<close>

text \<open>The fact of one kind that an entry carries.\<close>

definition entry_envelope :: "Env \<Rightarrow> MctObservationLedgerEntry \<Rightarrow> CanonicalAuthorityEnvelopeV1 option" where
  "entry_envelope E e =
     (case authority_payload e of
        None \<Rightarrow> None
      | Some payload \<Rightarrow>
          (case jd_envelope (en_codec E) payload of Inl _ \<Rightarrow> None | Inr envelope \<Rightarrow> Some envelope))"

definition entry_fact :: "Env \<Rightarrow> string \<Rightarrow> (Json \<Rightarrow> string + 'f) \<Rightarrow> MctObservationLedgerEntry \<Rightarrow> 'f option" where
  "entry_fact E kind decode e =
     (case entry_envelope E e of
        None \<Rightarrow> None
      | Some envelope \<Rightarrow>
          if ev_fact_kind envelope \<noteq> kind then None
          else case decode (ev_body envelope) of Inl _ \<Rightarrow> None | Inr f \<Rightarrow> Some f)"

definition entry_mutation :: "Env \<Rightarrow> MctObservationLedgerEntry \<Rightarrow> AuthorityMutationFactV1 option" where
  "entry_mutation E = entry_fact E ''authority_mutation'' (jd_mutation_fact (en_codec E))"

definition entry_genesis :: "Env \<Rightarrow> MctObservationLedgerEntry \<Rightarrow> AdminGenesisFactV1 option" where
  "entry_genesis E = entry_fact E ''admin_genesis'' (jd_genesis_fact (en_codec E))"

definition entry_establishment :: "Env \<Rightarrow> MctObservationLedgerEntry \<Rightarrow> EpochEstablishedFactV1 option" where
  "entry_establishment E = entry_fact E ''epoch_established'' (jd_epoch_fact (en_codec E))"

definition entry_passkey :: "Env \<Rightarrow> MctObservationLedgerEntry \<Rightarrow> PasskeyAdminFactV1 option" where
  "entry_passkey E = entry_fact E ''passkey_admin'' (jd_passkey_fact (en_codec E))"

text \<open>
  The keys of an entry. Administrative signatures stand in a strict genesis and in the changes of a
  mutation. A strict genesis, an establishment and a passkey bootstrap each start an epoch; the
  later requests of a passkey ledger only name the epoch they belong to.
\<close>

definition signature_key :: "AdminSignatureV1 \<Rightarrow> string \<times> u64" where
  "signature_key g = (as_signer_grant_id g, as_nonce g)"

definition signed_nonces :: "AuthorityChangeV1 list \<Rightarrow> (string \<times> u64) list" where
  "signed_nonces cs = map signature_key (List.map_filter change_signature cs)"

definition entry_nonces :: "Env \<Rightarrow> MctObservationLedgerEntry \<Rightarrow> (string \<times> u64) list" where
  "entry_nonces E e =
     (case entry_genesis E e of None \<Rightarrow> [] | Some f \<Rightarrow> [signature_key (gq_signature (gf_request f))]) @
     (case entry_mutation E e of None \<Rightarrow> [] | Some f \<Rightarrow> signed_nonces (mf_changes f))"

definition entry_mutation_ids :: "Env \<Rightarrow> MctObservationLedgerEntry \<Rightarrow> string list" where
  "entry_mutation_ids E e =
     (case entry_mutation E e of None \<Rightarrow> [] | Some f \<Rightarrow> [mf_mutation_id f])"

definition passkey_key :: "PasskeyAdminFactV1 \<Rightarrow> string \<times> string" where
  "passkey_key f = (signer_ref (pr_proof (kf_request f)), pi_nonce (pr_intent (kf_request f)))"

definition entry_passkey_nonces :: "Env \<Rightarrow> MctObservationLedgerEntry \<Rightarrow> (string \<times> string) list" where
  "entry_passkey_nonces E e =
     (case entry_passkey E e of None \<Rightarrow> [] | Some f \<Rightarrow> [passkey_key f])"

definition is_bootstrap :: "PasskeyAdminFactV1 \<Rightarrow> bool" where
  "is_bootstrap f = (case pi_action (pr_intent (kf_request f)) of PA_Bootstrap _ _ \<Rightarrow> True | _ \<Rightarrow> False)"

definition entry_epoch :: "Env \<Rightarrow> MctObservationLedgerEntry \<Rightarrow> string list" where
  "entry_epoch E e =
     (case entry_genesis E e of None \<Rightarrow> [] | Some f \<Rightarrow> [gn_birth_epoch (gq_intent (gf_request f))]) @
     (case entry_establishment E e of None \<Rightarrow> [] | Some f \<Rightarrow> [ef_authority_epoch f]) @
     (case entry_passkey E e of None \<Rightarrow> []
      | Some f \<Rightarrow> if is_bootstrap f then [pi_epoch (pr_intent (kf_request f))] else [])"

lemmas entry_facts = entry_mutation_def entry_genesis_def entry_establishment_def entry_passkey_def
  entry_fact_def

lemmas entry_keys = entry_nonces_def entry_mutation_ids_def entry_passkey_nonces_def entry_epoch_def
  entry_facts

lemma set_signed_nonces: "set (signed_nonces cs) = change_nonces cs"
  by (simp add: signed_nonces_def signature_key_def [abs_def] change_nonces_list)

lemma mutation_nonces_fresh:
  assumes "validate_authority_mutation_fact E e r f = Inr t"
  shows "distinct (signed_nonces (mf_changes f)) \<and>
    change_nonces (mf_changes f) \<inter> ry_admin_signature_nonces r = {}"
  using assms
proof (rule validate_mutation_effect)
  assume "verify_admin_change_signatures E (ry_state r) (ry_admin_signature_nonces r)
       (mf_mother_node_id f) (mf_ledger_id f) (mf_changes f) = Inr ()"
  then show ?thesis
    using verify_signatures_distinct verify_signatures_fresh
    by (fastforce simp: verify_admin_change_signatures_def signed_nonces_def signature_key_def [abs_def])
qed

lemma genesis_signature_key:
  assumes "replay_genesis E r u p e f = Inr (r', u')"
  shows "signature_key (gq_signature (gf_request f)) = (ag_grant_id (gn_root (gq_intent (gf_request f))), 0)"
    and "p = None"
  using assms unfolding replay_genesis_def Let_def genesis_validate_def signature_key_def
  by (auto simp: result_simps split: if_split_asm)

text \<open>The nonces of passkey requests live in the passkey state.\<close>

definition passkey_spent :: "AuthorityReplayV1 \<Rightarrow> (string \<times> string) set" where
  "passkey_spent r =
     (case sta_passkey_admin (ry_state r) of None \<Rightarrow> {} | Some c \<Rightarrow> ps_used_nonces (kc_state c))"

lemma passkey_bootstrap:
  assumes "evaluate_passkey_admin_transition C J W None request now = Inr t"
  shows "ps_used_nonces t = {(signer_ref (pr_proof request), pi_nonce (pr_intent request))}"
  using assms
  by (cases "pi_action (pr_intent request)")
    (auto simp: evaluate_passkey_admin_transition_def Let_def result_simps)

lemma passkey_replay_spends:
  assumes "passkey_replay_fact E r u p e f = Inr (r', u')"
  shows "passkey_key f \<notin> passkey_spent r \<and> passkey_spent r' = insert (passkey_key f) (passkey_spent r) \<and>
    ry_admin_signature_nonces r' = ry_admin_signature_nonces r \<and> ry_mutations r' = ry_mutations r \<and>
    (if is_bootstrap f then pi_epoch (pr_intent (kf_request f)) \<notin> u \<and> u' = insert (pi_epoch (pr_intent (kf_request f))) u
     else u' = u)"
proof -
  let ?i = "pr_intent (kf_request f)"
  let ?none = "sta_passkey_admin (ry_state r) = None"
  from assms obtain nxt identity where n: "passkey_transition E r f = Inr nxt"
    and r': "r' = r\<lparr>ry_current_authority := Some identity,
       ry_state := (ry_state r)\<lparr>sta_passkey_admin := Some nxt\<rparr>,
       ry_canonical_fact_count := ry_canonical_fact_count r + 1\<rparr>"
    and u: "u' = (if ?none then insert (pi_epoch ?i) u else u)" "?none \<Longrightarrow> u = {}"
    unfolding passkey_replay_fact_def Let_def by (auto simp: result_simps split: if_split_asm)
  have "(?none \<longleftrightarrow> is_bootstrap f) \<and> passkey_key f \<notin> passkey_spent r \<and>
      ps_used_nonces (kc_state nxt) = insert (passkey_key f) (passkey_spent r)"
  proof (cases "sta_passkey_admin (ry_state r)")
    case None
    with n obtain st where "is_bootstrap f" "evaluate_passkey_admin_transition (en_crypto E) (en_jiff E) (en_web E)
        None (kf_request f) (kf_decided_at f) = Inr st" "kc_state nxt = st"
      by (auto simp: passkey_transition_def Let_def is_bootstrap_def result_simps
          split: PasskeyAdminActionV1.split_asm if_split_asm)
    with None passkey_bootstrap show ?thesis by (simp add: passkey_spent_def passkey_key_def)
  next
    case (Some prior)
    with n obtain st where st: "evaluate_passkey_admin_transition (en_crypto E) (en_jiff E) (en_web E)
        (Some (kc_state prior)) (kf_request f) (kf_decided_at f) = Inr st" "kc_state nxt = st"
      by (auto simp: passkey_transition_def Let_def result_simps split: if_split_asm)
    with Some show ?thesis
      by (auto simp: passkey_spent_def passkey_key_def is_bootstrap_def passkey_required_scope_def
          elim!: passkey_accepted split: PasskeyAdminActionV1.splits)
  qed
  with u show ?thesis by (auto simp: r' passkey_spent_def)
qed

text \<open>An accepted entry carries no authority fact, or one that was folded.\<close>

lemma entry_step_cases:
  assumes "entry_step E ((r, u), p) e ((r', u'), p')"
  obtains (ordinary) "entry_envelope E e = None" "ry_admin_signature_nonces r' = ry_admin_signature_nonces r"
      "ry_mutations r' = ry_mutations r" "ry_state r' = ry_state r" "u' = u"
  | (folded) envelope r0 where "entry_envelope E e = Some envelope"
      "fold_fact E r u p e envelope = Inr (r0, u')"
      "ry_admin_signature_nonces r' = ry_admin_signature_nonces r0"
      "ry_mutations r' = ry_mutations r0" "ry_state r' = ry_state r0"
proof -
  from assms have "fold_authority_entry E r u p e = Inr (r', u')" by (simp add: entry_step_def)
  then obtain r0 where b: "fold_authority_entry_body E r u p e = Inr (r0, u')"
    and r': "r' = r0\<lparr>ry_tail_recovery_only := ry_tail_recovery_only r0 \<and> is_valid_tail_recovery_entry e,
       ry_admin_grant_ids := ry_admin_grant_ids r0 \<union> fset (fmdom (sta_admin_key_grants (ry_state r0)))\<rparr>"
    by (rule fold_entry_shape)
  from b show thesis
  proof (cases rule: fold_body_cases)
    case ordinary
    then show ?thesis by (intro that(1)) (simp_all add: entry_envelope_def r')
  next
    case (canonical payload env r1 rec)
    then show ?thesis by (intro that(2)) (simp_all add: entry_envelope_def r')
  qed
qed

text \<open>
  Before the first entry nothing is spent: the replay starts empty, and every entry leaves a head.
\<close>

definition begun :: "replay_acc \<times> head \<Rightarrow> bool" where
  "begun s \<longleftrightarrow> (snd s = None \<longrightarrow> fst s = (empty_authority_replay, {}))"

lemma entry_step_begun: "entry_step E s e t \<Longrightarrow> begun t"
  by (simp add: entry_step_def begun_def)

lemma fact_spends:
  assumes f: "fold_fact E r u p e env = Inr (r', u')" and env: "entry_envelope E e = Some env"
    and fresh: "p = None \<Longrightarrow> ry_admin_signature_nonces r = {}"
  shows "(distinct (entry_nonces E e) \<and> set (entry_nonces E e) \<inter> ry_admin_signature_nonces r = {} \<and>
      ry_admin_signature_nonces r' = ry_admin_signature_nonces r \<union> set (entry_nonces E e)) \<and>
    (set (entry_mutation_ids E e) \<inter> dom (ry_mutations r) = {} \<and>
      dom (ry_mutations r') = dom (ry_mutations r) \<union> set (entry_mutation_ids E e)) \<and>
    (set (entry_passkey_nonces E e) \<inter> passkey_spent r = {} \<and>
      passkey_spent r \<union> set (entry_passkey_nonces E e) \<subseteq> passkey_spent r') \<and>
    (distinct (entry_epoch E e) \<and> set (entry_epoch E e) \<inter> u = {} \<and> u' = u \<union> set (entry_epoch E e))"
  using f
proof (cases rule: fold_fact_cases)
  case (passkey g)
  with passkey_replay_spends [OF passkey(3)] env show ?thesis by (simp add: entry_keys)
next
  case (genesis g)
  from genesis(3) show ?thesis
    by (rule replay_genesis_effect)
      (use genesis env fresh genesis_signature_key [OF genesis(3)] in
        \<open>simp add: entry_keys passkey_spent_def AuthorityStateV1_default_def\<close>)
next
  case (epoch g)
  with fold_epoch_effect [OF epoch(3)] env show ?thesis by (simp add: entry_keys passkey_spent_def)
next
  case (mutation g)
  from mutation(3) obtain t where v: "validate_authority_mutation_fact E e r g = Inr t"
    "ry_mutations r (mf_mutation_id g) = None"
    "r' = r\<lparr>ry_admin_signature_nonces := ry_admin_signature_nonces r \<union> change_nonces (mf_changes g),
       ry_mutations := (ry_mutations r)(mf_mutation_id g \<mapsto>
         \<lparr>cm_fact = g, cm_entry_sequence = le_local_sequence e, cm_entry_hash = le_entry_hash e\<rparr>),
       ry_state := t, ry_current_authority := Some (sr_grants_authority (mf_resulting_state g)),
       ry_canonical_fact_count := ry_canonical_fact_count r + 1\<rparr>"
    by (rule fold_mutation_effect)
  from v(1) have "sta_passkey_admin (ry_state r) = None"
    by (rule validate_mutation_effect) (auto simp: apply_authority_changes_def split: if_split_asm)
  with mutation(1,2,4) v mutation_nonces_fresh [OF v(1)] env show ?thesis
    by (auto simp: entry_keys set_signed_nonces passkey_spent_def)
next
  case (imported g)
  from imported(3) show ?thesis
    by (rule fold_import_effect)
      (use imported env in \<open>simp add: entry_keys passkey_spent_def state_is_legacy_def\<close>)
qed

lemma entry_spends:
  assumes "begun s" and "entry_step E s e t"
  shows "distinct (entry_nonces E e) \<and>
      set (entry_nonces E e) \<inter> ry_admin_signature_nonces (fst (fst s)) = {} \<and>
      ry_admin_signature_nonces (fst (fst s)) \<union> set (entry_nonces E e) \<subseteq> ry_admin_signature_nonces (fst (fst t))"
    and "distinct (entry_mutation_ids E e) \<and>
      set (entry_mutation_ids E e) \<inter> dom (ry_mutations (fst (fst s))) = {} \<and>
      dom (ry_mutations (fst (fst s))) \<union> set (entry_mutation_ids E e) \<subseteq> dom (ry_mutations (fst (fst t)))"
    and "distinct (entry_passkey_nonces E e) \<and>
      set (entry_passkey_nonces E e) \<inter> passkey_spent (fst (fst s)) = {} \<and>
      passkey_spent (fst (fst s)) \<union> set (entry_passkey_nonces E e) \<subseteq> passkey_spent (fst (fst t))"
    and "distinct (entry_epoch E e) \<and> set (entry_epoch E e) \<inter> snd (fst s) = {} \<and>
      snd (fst s) \<union> set (entry_epoch E e) \<subseteq> snd (fst t)"
proof -
  obtain r u p r' u' p' where s: "s = ((r, u), p)" and t: "t = ((r', u'), p')"
    by (metis surj_pair)
  have single: "distinct (entry_mutation_ids E e)" "distinct (entry_passkey_nonces E e)"
    by (simp_all add: entry_mutation_ids_def entry_passkey_nonces_def split: option.split)
  from assms(1) have fresh: "p = None \<Longrightarrow> ry_admin_signature_nonces r = {}"
    by (simp add: s begun_def empty_authority_replay_def)
  from assms(2) [unfolded s t]
  show "distinct (entry_nonces E e) \<and>
      set (entry_nonces E e) \<inter> ry_admin_signature_nonces (fst (fst s)) = {} \<and>
      ry_admin_signature_nonces (fst (fst s)) \<union> set (entry_nonces E e) \<subseteq> ry_admin_signature_nonces (fst (fst t))"
    by (cases rule: entry_step_cases) (use fact_spends fresh in \<open>force simp: s t entry_keys\<close>)+
  from assms(2) [unfolded s t]
  show "distinct (entry_mutation_ids E e) \<and>
      set (entry_mutation_ids E e) \<inter> dom (ry_mutations (fst (fst s))) = {} \<and>
      dom (ry_mutations (fst (fst s))) \<union> set (entry_mutation_ids E e) \<subseteq> dom (ry_mutations (fst (fst t)))"
    by (cases rule: entry_step_cases)
      (use fact_spends fresh single in \<open>auto simp: s t entry_mutation_ids_def entry_facts\<close>)
  from assms(2) [unfolded s t]
  show "distinct (entry_passkey_nonces E e) \<and>
      set (entry_passkey_nonces E e) \<inter> passkey_spent (fst (fst s)) = {} \<and>
      passkey_spent (fst (fst s)) \<union> set (entry_passkey_nonces E e) \<subseteq> passkey_spent (fst (fst t))"
    by (cases rule: entry_step_cases)
      (use fact_spends fresh single in \<open>auto simp: s t passkey_spent_def entry_passkey_nonces_def entry_facts\<close>)
  from assms(2) [unfolded s t]
  show "distinct (entry_epoch E e) \<and> set (entry_epoch E e) \<inter> snd (fst s) = {} \<and>
      snd (fst s) \<union> set (entry_epoch E e) \<subseteq> snd (fst t)"
    by (cases rule: entry_step_cases) (use fact_spends fresh in \<open>force simp: s t entry_keys\<close>)+
qed

interpretation nonces: spending "entry_step E" begun "\<lambda>s. ry_admin_signature_nonces (fst (fst s))" "entry_nonces E"
  by unfold_locales (erule entry_step_begun, erule (1) entry_spends(1))

interpretation mutation_ids: spending "entry_step E" begun "\<lambda>s. dom (ry_mutations (fst (fst s)))" "entry_mutation_ids E"
  by unfold_locales (erule entry_step_begun, erule (1) entry_spends(2))

interpretation passkey_nonces: spending "entry_step E" begun "\<lambda>s. passkey_spent (fst (fst s))" "entry_passkey_nonces E"
  by unfold_locales (erule entry_step_begun, erule (1) entry_spends(3))

interpretation epochs: spending "entry_step E" begun "\<lambda>s. snd (fst s)" "entry_epoch E"
  by unfold_locales (erule entry_step_begun, erule (1) entry_spends(4))

end
