(* ===== verification/MCT_Ledger_Laws.thy ===== *)
theory MCT_Ledger_Laws
  imports MCT_Ledger MCT_Replay_History
begin

text \<open>
  Laws of the ledger file: what the scanner accepts, that a writer and a scan of its file agree,
  what a failed append can leave, and that the hash of the head determines the history.
\<close>

section \<open>Frames\<close>

lemma read_until_frame: "NL \<notin> set b \<Longrightarrow> read_until (b @ NL # rest) = (b @ [NL], rest)"
  by (induction b) auto

lemma read_until_torn: "NL \<notin> set b \<Longrightarrow> read_until b = (b, [])"
  by (induction b) auto

lemma read_until_cases:
  obtains (frame) b rest where "bytes = b @ NL # rest" "NL \<notin> set b" "read_until bytes = (b @ [NL], rest)"
  | (torn) "NL \<notin> set bytes" "read_until bytes = (bytes, [])"
  using split_list_first [of NL bytes] read_until_frame read_until_torn by blast

lemma frame_terminated_snoc [simp]: "frame_terminated (b @ [NL])"
  by (simp add: frame_terminated_def ends_with_char)

lemma frame_terminated_torn: "NL \<notin> set b \<Longrightarrow> \<not> frame_terminated b"
  by (cases b rule: rev_cases) (auto simp: frame_terminated_def ends_with_char)

section \<open>What a scan accepts\<close>

text \<open>A frame that continues the chain of a scanned state, with the entry it holds.\<close>

definition commits ::
  "LEnv \<Rightarrow> string \<Rightarrow> string \<Rightarrow> LedgerScanState \<Rightarrow> MctObservationLedgerEntry \<times> string \<Rightarrow> LedgerScanState \<Rightarrow> bool" where
  "commits L lid mid s ef t \<longleftrightarrow>
     (\<exists>b. snd ef = b @ [NL] \<and> NL \<notin> set b \<and> ln_entry_from_slice L b = Inr (fst ef)) \<and>
     le_local_sequence (fst ef) = ls_next_sequence s \<and> le_ledger_id (fst ef) = lid \<and>
     le_mother_node_id (fst ef) = mid \<and> le_previous_entry_hash (fst ef) = ls_previous_hash s \<and>
     entry_hash L (fst ef) = Inr (le_entry_hash (fst ef)) \<and>
     t = remember_scanned_entry L s (fst ef) (snd ef)"

abbreviation chain ::
  "LEnv \<Rightarrow> string \<Rightarrow> string \<Rightarrow> LedgerScanState \<Rightarrow> (MctObservationLedgerEntry \<times> string) list \<Rightarrow>
   LedgerScanState \<Rightarrow> bool" where
  "chain L lid mid \<equiv> run (commits L lid mid)"

abbreviation file_bytes :: "(MctObservationLedgerEntry \<times> string) list \<Rightarrow> string" where
  "file_bytes efs \<equiv> concat (map snd efs)"

lemma scan_if: "(if c then Inr (Inl x) else y) = Inr (Inr t) \<longleftrightarrow> \<not> c \<and> y = Inr (Inr t)"
  by simp

lemma scan_frame_iff:
  assumes "NL \<notin> set b"
  shows "scan_frame L path lid mid None s (b @ [NL]) = Inr (Inr t) \<longleftrightarrow>
     (\<exists>e. commits L lid mid s (e, b @ [NL]) t)"
proof (cases "ln_entry_from_slice L b")
  case (Inr e)
  have "scan_frame L path lid mid None s (b @ [NL]) = Inr (Inr t) \<longleftrightarrow> commits L lid mid s (e, b @ [NL]) t"
    using assms Inr unfolding scan_frame_def Let_def commits_def
    by (simp only: frame_terminated_snoc butlast_snoc sum.case scan_if and_then_eq_Inr not_True_eq_False
        if_False option.case) auto
  moreover have "commits L lid mid s (e', b @ [NL]) t \<Longrightarrow> e' = e" for e'
    using Inr by (simp add: commits_def)
  ultimately show ?thesis by blast
qed (simp add: scan_frame_def commits_def Let_def)

lemma if_weaken: "(if c then x else y) = r \<Longrightarrow> (y = r \<Longrightarrow> z = r) \<Longrightarrow> (if c then x else z) = r"
  by (cases c) simp_all

lemma and_then_weaken:
  "and_then m k = Inr y \<Longrightarrow> (\<And>x. k x = Inr y \<Longrightarrow> k' x = Inr y) \<Longrightarrow> and_then m k' = Inr y"
  by (cases m) (simp_all add: result_simps)

lemma scan_frame_known:
  assumes "scan_frame L path lid mid known s frm = Inr r"
  shows "scan_frame L path lid mid None s frm = Inr r"
proof (cases "frame_terminated frm")
  case True
  have tail: "(case known of None \<Rightarrow> x | Some (q, h) \<Rightarrow> if P q h then Inl (LedgerDiscontinuity q) else x) = Inr r \<Longrightarrow>
      x = Inr r" for x :: "(LedgerScan + LedgerScanState) ledger_result" and P
    by (cases known) (auto split: if_split_asm)
  show ?thesis
  proof (cases "ln_entry_from_slice L (butlast frm)")
    case (Inr e)
    with assms True show ?thesis
      unfolding scan_frame_def Let_def not_not
      by (simp only: not_True_eq_False if_False sum.case option.case)
         (erule if_weaken and_then_weaken tail | assumption)+
  qed (use assms True in \<open>simp add: scan_frame_def Let_def\<close>)
qed (use assms in \<open>auto simp: scan_frame_def Let_def known_not_reached_def split: option.split_asm if_split_asm\<close>)

lemma scan_loop_frame:
  "NL \<notin> set b \<Longrightarrow> scan_frame L path lid mid known s (b @ [NL]) = Inr (Inr t) \<Longrightarrow>
   scan_loop L path lid mid known s (b @ NL # rest) = scan_loop L path lid mid known t rest"
  by (subst scan_loop.simps) (simp add: read_until_frame)

text \<open>A remembered head only turns results into refusals.\<close>

lemma scan_loop_known:
  "scan_loop L path lid mid known s bytes = Inr r \<Longrightarrow> scan_loop L path lid mid None s bytes = Inr r"
proof (induction "length bytes" arbitrary: bytes s rule: less_induct)
  case less
  obtain frm rest where r: "read_until bytes = (frm, rest)" by fastforce
  show ?case
  proof (cases "frm = []")
    case True
    with less.prems r show ?thesis
      by (subst (asm) scan_loop.simps, subst scan_loop.simps)
         (auto simp: known_not_reached_def split: option.split_asm)
  next
    case False
    from less.prems r False obtain x where x: "scan_frame L path lid mid known s frm = Inr x"
      by (subst (asm) scan_loop.simps) (auto split: sum.split_asm)
    then have n: "scan_frame L path lid mid None s frm = Inr x" by (rule scan_frame_known)
    have "length rest < length bytes" using read_until_shorter [OF r False] .
    with less.prems r False x n show ?thesis
      by (subst (asm) scan_loop.simps, subst scan_loop.simps) (auto split: sum.split_asm dest: less.hyps)
  qed
qed

lemma scan_chain:
  "chain L lid mid s efs t \<Longrightarrow>
   scan_loop L path lid mid None s (file_bytes efs @ rest) = scan_loop L path lid mid None t rest"
proof (induction rule: run.induct)
  case (run_Cons s ef t efs u)
  then obtain b where b: "snd ef = b @ [NL]" "NL \<notin> set b" by (auto simp: commits_def)
  from run_Cons.hyps(1) b have "scan_frame L path lid mid None s (b @ [NL]) = Inr (Inr t)"
    by (cases ef) (auto simp: scan_frame_iff)
  with b run_Cons.IH show ?case by (simp add: scan_loop_frame)
qed simp

lemma scan_end: "scan_loop L path lid mid None s [] = Inr (ScanReady s)"
  by (subst scan_loop.simps) (simp add: known_not_reached_def)

lemma scan_torn:
  "NL \<notin> set tail \<Longrightarrow> tail \<noteq> [] \<Longrightarrow>
   scan_loop L path lid mid None s tail = Inr (ScanResidue
     \<lparr>lr_offset = ls_committed_len s, lr_bytes = tail,
      lr_digest = cy_blake3_hex (en_crypto (ln_env L)) tail, lr_state = s\<rparr>)"
  by (subst scan_loop.simps)
     (simp add: read_until_torn scan_frame_def frame_terminated_torn known_not_reached_def)

lemma scan_shape:
  assumes "scan_loop L path lid mid None s bytes = Inr scan"
  obtains (ready) efs t where "chain L lid mid s efs t" "bytes = file_bytes efs" "scan = ScanReady t"
  | (residue) efs t tail where "chain L lid mid s efs t" "bytes = file_bytes efs @ tail"
      "NL \<notin> set tail" "tail \<noteq> []"
      "scan = ScanResidue \<lparr>lr_offset = ls_committed_len t, lr_bytes = tail,
        lr_digest = cy_blake3_hex (en_crypto (ln_env L)) tail, lr_state = t\<rparr>"
  | (refused) efs t q b rest where "chain L lid mid s efs t" "bytes = file_bytes efs @ b @ NL # rest"
      "scan = ScanQuarantine q \<or> scan = ScanForeignLineage q"
  using assms
proof (induction "length bytes" arbitrary: bytes s thesis rule: less_induct)
  case less
  show ?case
  proof (cases rule: read_until_cases [of bytes])
    case (frame b rest)
    with less.prems(4) obtain x where x: "scan_frame L path lid mid None s (b @ [NL]) = Inr x"
      by (subst (asm) scan_loop.simps) (auto split: sum.split_asm)
    show ?thesis
    proof (cases x)
      case (Inl r)
      with less.prems(4) frame x have "r = scan" by (subst (asm) scan_loop.simps) simp
      moreover from x Inl frame(2) obtain q where "r = ScanQuarantine q \<or> r = ScanForeignLineage q"
        unfolding scan_frame_def Let_def
        by (auto simp: result_simps split: sum.split_asm if_split_asm)
      ultimately show ?thesis using less.prems(3) [of "[]" s b rest q] frame(1) by simp
    next
      case (Inr t)
      with x frame obtain e where e: "commits L lid mid s (e, b @ [NL]) t" by (auto simp: scan_frame_iff)
      from less.prems(4) x Inr frame have n: "scan_loop L path lid mid None t rest = Inr scan"
        by (simp add: scan_loop_frame)
      have short: "length rest < length bytes" by (simp add: frame(1))
      show ?thesis
      proof (rule less.hyps [OF short _ _ _ n])
        fix efs u assume "chain L lid mid t efs u" "rest = file_bytes efs" "scan = ScanReady u"
        then show ?thesis using e frame(1) less.prems(1) [of "(e, b @ [NL]) # efs" u] by (simp add: run_Cons)
      next
        fix efs u tail assume "chain L lid mid t efs u" "rest = file_bytes efs @ tail" "NL \<notin> set tail"
          "tail \<noteq> []" "scan = ScanResidue \<lparr>lr_offset = ls_committed_len u, lr_bytes = tail,
            lr_digest = cy_blake3_hex (en_crypto (ln_env L)) tail, lr_state = u\<rparr>"
        then show ?thesis using e frame(1) less.prems(2) [of "(e, b @ [NL]) # efs" u tail]
          by (simp add: run_Cons)
      next
        fix efs u q c more assume "chain L lid mid t efs u" "rest = file_bytes efs @ c @ NL # more"
          "scan = ScanQuarantine q \<or> scan = ScanForeignLineage q"
        then show ?thesis using e frame(1) less.prems(3) [of "(e, b @ [NL]) # efs" u c more q]
          by (simp add: run_Cons)
      qed
    qed
  next
    case torn
    show ?thesis
    proof (cases "bytes = []")
      case True
      with less.prems(1) [of "[]" s] less.prems(4) show ?thesis by (simp add: scan_end)
    next
      case False
      with less.prems(2) [of "[]" s bytes] less.prems(4) torn show ?thesis by (simp add: scan_torn)
    qed
  qed
qed

lemma scan_ready_iff:
  "scan_existing L path lid mid None (Inr bytes) = Inr (ScanReady t) \<longleftrightarrow>
     (\<exists>efs. chain L lid mid empty_scan_state efs t \<and> bytes = file_bytes efs)"
proof
  assume "scan_existing L path lid mid None (Inr bytes) = Inr (ScanReady t)"
  then have "scan_loop L path lid mid None empty_scan_state bytes = Inr (ScanReady t)"
    by (simp add: scan_existing_def result_simps)
  then show "\<exists>efs. chain L lid mid empty_scan_state efs t \<and> bytes = file_bytes efs"
    by (rule scan_shape) auto
next
  assume "\<exists>efs. chain L lid mid empty_scan_state efs t \<and> bytes = file_bytes efs"
  then show "scan_existing L path lid mid None (Inr bytes) = Inr (ScanReady t)"
    using scan_chain [of L lid mid empty_scan_state _ t path "[]"]
    by (auto simp: scan_existing_def result_simps scan_end)
qed

section \<open>What a scanned state records\<close>

lemma run_snoc: "run step s (xs @ [x]) u \<longleftrightarrow> (\<exists>t. run step s xs t \<and> step t x u)"
  by (auto simp: run_append run_Cons_iff)

lemma commits_frame: "commits L lid mid s ef t \<Longrightarrow> \<exists>b. snd ef = b @ [NL] \<and> NL \<notin> set b"
  by (auto simp: commits_def)

lemma chain_fields:
  "chain L lid mid empty_scan_state efs t \<Longrightarrow>
     ls_next_sequence t = of_nat (length efs) \<and>
     ls_previous_hash t = (if efs = [] then None else Some (le_entry_hash (fst (last efs)))) \<and>
     ls_last_observation_id t =
       (if efs = [] then None else Some (mo_observation_id (le_observation (fst (last efs))))) \<and>
     ls_last_frame_len t = (if efs = [] then 0 else usize_u64 (snd (last efs))) \<and>
     ls_prefix_hasher t = file_bytes efs \<and> ls_committed_len t = usize_u64 (file_bytes efs)"
proof (induction efs arbitrary: t rule: rev_induct)
  case (snoc ef efs)
  then obtain u where u: "chain L lid mid empty_scan_state efs u" "commits L lid mid u ef t"
    by (auto simp: run_snoc)
  from snoc.IH [OF u(1)] u(2) show ?case
    by (auto simp: commits_def remember_scanned_entry_def Let_def usize_u64_def)
qed (simp add: empty_scan_state_def usize_u64_def)

lemma chain_sequence:
  "chain L lid mid empty_scan_state (efs @ [ef]) t \<Longrightarrow>
   le_local_sequence (fst ef) = of_nat (length efs) \<and> le_entry_hash (fst ef) = the (ls_previous_hash t)"
  using chain_fields [of L lid mid efs] chain_fields [of L lid mid "efs @ [ef]" t]
  by (auto simp: run_snoc commits_def)

lemma chain_length: "chain L lid mid s efs t \<Longrightarrow> length efs \<le> length (file_bytes efs)"
proof (induction rule: run.induct)
  case (run_Cons s ef t efs u)
  with commits_frame [OF run_Cons.hyps(1)] show ?case by auto
qed simp

text \<open>
  The replay cached by a scan is the replay of the scanned entries, or the text of its error.
\<close>

fun replay_acc_loop ::
  "Env \<Rightarrow> replay_acc \<Rightarrow> head \<Rightarrow> MctObservationLedgerEntry list \<Rightarrow> replay_acc replay_result" where
  "replay_acc_loop E acc p [] = Inr acc"
| "replay_acc_loop E acc p (e # es) =
     and_then (fold_authority_entry E (fst acc) (snd acc) p e) (\<lambda>acc'.
     replay_acc_loop E acc' (Some (le_local_sequence e, le_entry_hash e)) es)"

definition head_of :: "MctObservationLedgerEntry list \<Rightarrow> head" where
  "head_of es = (if es = [] then None else Some (le_local_sequence (last es), le_entry_hash (last es)))"

lemma replay_loop_acc:
  "replay_entries_loop E r u p es = and_then (replay_acc_loop E (r, u) p es) (\<lambda>acc. Inr (fst acc))"
proof (induction es arbitrary: r u p)
  case (Cons e es)
  show ?case
    by (cases "fold_authority_entry E r u p e") (auto simp: result_simps Cons.IH)
qed (simp add: result_simps)

lemma replay_acc_snoc:
  "replay_acc_loop E acc p (es @ [e]) =
     and_then (replay_acc_loop E acc p es) (\<lambda>acc'.
       fold_authority_entry E (fst acc') (snd acc') (if es = [] then p else head_of es) e)"
proof (induction es arbitrary: acc p)
  case Nil
  show ?case by (cases "fold_authority_entry E (fst acc) (snd acc) p e") (simp_all add: result_simps)
next
  case (Cons d es)
  show ?case
    by (cases "fold_authority_entry E (fst acc) (snd acc) p d")
       (simp_all add: result_simps Cons.IH head_of_def)
qed

lemma link_of_nat:
  assumes "0 < n" and "n < 2 ^ 64"
  shows "link (of_nat n) (Some h) = Some (of_nat (n - 1), h)"
proof -
  from assms have "unat (of_nat n :: u64) = n" by (simp add: unat_of_nat)
  with assms have "checked_sub_u64 (of_nat n) 1 = Some (of_nat (n - 1))"
    by (simp add: checked_sub_u64_def word_le_nat_alt of_nat_diff)
  then show ?thesis by (simp add: link_def)
qed

lemma chain_link:
  assumes "chain L lid mid empty_scan_state efs t" and "length efs < 2 ^ 64"
  shows "link (ls_next_sequence t) (ls_previous_hash t) = head_of (map fst efs)"
proof (cases efs rule: rev_cases)
  case Nil
  with assms(1) chain_fields [OF assms(1)] show ?thesis by (simp add: link_def head_of_def split: option.split)
next
  case (snoc xs ef)
  with assms chain_fields [OF assms(1)] chain_sequence [of L lid mid xs ef t]
    link_of_nat [of "length efs" "le_entry_hash (fst ef)"]
  show ?thesis by (simp add: head_of_def)
qed

definition replay_of :: "Env \<Rightarrow> MctObservationLedgerEntry list \<Rightarrow> (string + AuthorityReplayV1)" where
  "replay_of E es = map_err AuthorityReplayError_display (replay_authority_entries E es)"

lemma chain_replay_acc:
  assumes "chain L lid mid empty_scan_state efs t" and "length efs < 2 ^ 64"
  shows "case replay_acc_loop (ln_env L) (empty_authority_replay, {}) None (map fst efs) of
           Inl e \<Rightarrow> ls_authority_replay t = Inl (AuthorityReplayError_display e)
         | Inr (r, u) \<Rightarrow> ls_authority_replay t = Inr r \<and> ls_used_epochs t = u"
  using assms
proof (induction efs arbitrary: t rule: rev_induct)
  case Nil
  then show ?case by (simp add: empty_scan_state_def)
next
  case (snoc ef efs)
  then obtain s where s: "chain L lid mid empty_scan_state efs s" "commits L lid mid s ef t"
    by (auto simp: run_snoc)
  have t: "t = remember_scanned_entry L s (fst ef) (snd ef)" using s(2) by (simp add: commits_def)
  have l: "link (ls_next_sequence s) (ls_previous_hash s) = head_of (map fst efs)"
    using chain_link [OF s(1)] snoc.prems(2) by simp
  have h: "(if map fst efs = [] then None else head_of (map fst efs)) = head_of (map fst efs)"
    by (simp add: head_of_def)
  let ?x = "replay_acc_loop (ln_env L) (empty_authority_replay, {}) None (map fst efs)"
  show ?case
  proof (cases ?x)
    case (Inl e)
    with snoc.IH [OF s(1)] snoc.prems(2) show ?thesis
      by (simp add: replay_acc_snoc result_simps t remember_scanned_entry_def Let_def fold_cached_def)
  next
    case (Inr acc)
    with snoc.IH [OF s(1)] snoc.prems(2) have "ls_authority_replay s = Inr (fst acc)" "ls_used_epochs s = snd acc"
      by (cases acc; simp)+
    with Inr l h show ?thesis
      by (cases "fold_authority_entry (ln_env L) (fst acc) (snd acc) (head_of (map fst efs)) (fst ef)")
         (simp_all add: replay_acc_snoc result_simps t remember_scanned_entry_def Let_def fold_cached_def
            split: prod.split)
  qed
qed

lemma chain_replay:
  assumes "chain L lid mid empty_scan_state efs t" and "length efs < 2 ^ 64"
  shows "ls_authority_replay t = replay_of (ln_env L) (map fst efs)"
  using chain_replay_acc [OF assms]
  by (cases "replay_acc_loop (ln_env L) (empty_authority_replay, {}) None (map fst efs)")
     (auto simp: replay_of_def replay_authority_entries_def replay_loop_acc result_simps map_err_def)

end
