(* ===== verification/MCT_Ledger_Readers.thy ===== *)
theory MCT_Ledger_Readers
  imports MCT_Ledger_Laws
begin

text \<open>
  The readers of a ledger agree: the iterator yields the entries the scanner accepts, a resumed
  verification is the full one, and the hash of the head determines every entry before it.
\<close>

section \<open>What serialization promises\<close>

text \<open>
  An entry survives its serialization, whose text is one line. A text that parses is not blank, is
  UTF-8, and parses the same without a trailing carriage return, which is JSON white space.
\<close>

definition entry_codec :: "LEnv \<Rightarrow> bool" where
  "entry_codec L \<longleftrightarrow>
     (\<forall>e b. ln_entry_to_vec L e = Inr b \<longrightarrow> ln_entry_from_slice L b = Inr e \<and> NL \<notin> set b)"

definition line_codec :: "LEnv \<Rightarrow> bool" where
  "line_codec L \<longleftrightarrow>
     (\<forall>b e. ln_entry_from_slice L b = Inr e \<longrightarrow>
        utf8_valid (utf8_bytes b) \<and> \<not> trim_is_empty b \<and>
        (ends_with b [CHR 0x0D] \<longrightarrow>
           \<not> trim_is_empty (butlast b) \<and> ln_entry_from_slice L (butlast b) = Inr e))"

lemma utf8_valid_snoc: "utf8_valid xs \<Longrightarrow> a < 0x80 \<Longrightarrow> utf8_valid (xs @ [a])"
proof (induction xs rule: utf8_valid.induct)
  case (4 x y z rest)
  then show ?case by (cases rest) (auto split: if_split_asm)
qed (auto split: if_split_asm)

lemma utf8_frame: "utf8_valid (utf8_bytes b) \<Longrightarrow> utf8_valid (utf8_bytes (b @ [NL]))"
  by (simp add: utf8_bytes_def utf8_valid_snoc NL_def)

section \<open>The iterator reads what the scanner accepts\<close>

definition iter_at :: "string \<Rightarrow> string \<Rightarrow> LedgerScanState \<Rightarrow> LedgerEntryIter \<Rightarrow> bool" where
  "iter_at lid mid s it \<longleftrightarrow>
     it_pending_error it = None \<and> it_ledger_id it = lid \<and> it_mother_node_id it = mid \<and>
     it_expected_sequence it = ls_next_sequence s \<and> it_previous_hash it = ls_previous_hash s"

lemma strip_frame:
  "strip_terminator (b @ [NL]) = (if ends_with b [CHR 0x0D] then butlast b else b)"
  by (simp add: strip_terminator_def)

lemma iter_commits:
  assumes "line_codec L" and c: "commits L lid mid s (e, frm) t" and it: "iter_at lid mid s it"
    and lines: "it_lines it = Some (frm @ rest)"
  obtains it' where "iter_next L it = (it', Some (Inr e))" "iter_at lid mid t it'" "it_lines it' = Some rest"
proof -
  from c obtain b where b: "frm = b @ [NL]" "NL \<notin> set b" "ln_entry_from_slice L b = Inr e"
    by (auto simp: commits_def)
  let ?line = "strip_terminator frm"
  let ?it = "it\<lparr>it_lines := Some rest\<rparr>"
  let ?it' = "?it\<lparr>it_previous_hash := Some (le_entry_hash e),
      it_expected_sequence := it_expected_sequence it + 1\<rparr>"
  from assms(1) b(3) have u: "utf8_valid (utf8_bytes frm)" and n: "\<not> trim_is_empty ?line"
    and f: "ln_entry_from_slice L ?line = Inr e"
    by (auto simp: line_codec_def b(1) strip_frame utf8_frame)
  have "iter_validate_entry L ?it e = (?it', Inr e)"
    using c it by (simp add: iter_validate_entry_def commits_def iter_at_def)
  then have l: "iter_line L ?it ?line = (?it', Some (Inr e))"
    by (simp add: iter_line_def f)
  have r: "read_until (frm @ rest) = (frm, rest)" using b by (simp add: read_until_frame)
  have "frm \<noteq> []" using b(1) by simp
  then have "iter_lines L it (frm @ rest) = (?it', Some (Inr e))"
    by (subst iter_lines.simps) (simp add: r u n l)
  then have "iter_next L it = (?it', Some (Inr e))"
    using it lines by (simp add: iter_next_def iter_at_def)
  moreover have "iter_at lid mid t ?it'"
    using it c by (simp add: iter_at_def commits_def remember_scanned_entry_def Let_def)
  ultimately show ?thesis by (rule that) simp
qed

lemma iter_end:
  "iter_at lid mid s it \<Longrightarrow> it_lines it = Some [] \<Longrightarrow> \<exists>it'. iter_next L it = (it', None)"
  by (simp add: iter_next_def iter_at_def) (subst iter_lines.simps, simp)

lemma collect_chain:
  assumes "line_codec L"
  shows "chain L lid mid s efs t \<Longrightarrow> iter_at lid mid s it \<Longrightarrow> it_lines it = Some (file_bytes efs) \<Longrightarrow>
    collect_entries L keep it = Inr (filter keep (map fst efs))"
proof (induction arbitrary: it rule: run.induct)
  case (run_Nil s)
  then obtain it' where "iter_next L it = (it', None)" using iter_end by fastforce
  then show ?case by (subst collect_entries.simps) simp
next
  case (run_Cons s ef t efs u)
  then have c: "commits L lid mid s (fst ef, snd ef) t"
    and l: "it_lines it = Some (snd ef @ file_bytes efs)" by simp_all
  from iter_commits [OF assms c run_Cons.prems(1) l] obtain it'
    where it': "iter_next L it = (it', Some (Inr (fst ef)))" "iter_at lid mid t it'"
      "it_lines it' = Some (file_bytes efs)" .
  from run_Cons.IH [OF it'(2,3)] it'(1) show ?case
    by (subst collect_entries.simps) (simp add: result_simps)
qed

lemma collect_scan:
  assumes "line_codec L" and "chain L lid mid empty_scan_state efs t"
  shows "collect_entries L keep (LedgerEntryIter_open path lid mid (Inr (file_bytes efs))) =
    Inr (filter keep (map fst efs))"
  by (rule collect_chain [OF assms]) (simp_all add: iter_at_def LedgerEntryIter_open_def empty_scan_state_def)

lemmas entries_scan = collect_scan [where keep = "\<lambda>_. True", folded ledger_entries_def, simplified]

section \<open>The head determines the history\<close>

definition digests_separate :: "LEnv \<Rightarrow> MctObservationLedgerEntry list \<Rightarrow> MctObservationLedgerEntry list \<Rightarrow> bool" where
  "digests_separate L es es' \<longleftrightarrow>
     (\<forall>e \<in> set es. \<forall>e' \<in> set es'. \<forall>a b.
        ln_entry_to_vec L (e\<lparr>le_entry_hash := []\<rparr>) = Inr a \<longrightarrow>
        ln_entry_to_vec L (e'\<lparr>le_entry_hash := []\<rparr>) = Inr b \<longrightarrow>
        blake3_separates (en_crypto (ln_env L)) a b)"

lemma entry_hash_ok:
  "entry_hash L e = Inr h \<longleftrightarrow>
     (\<exists>b. ln_entry_to_vec L (e\<lparr>le_entry_hash := []\<rparr>) = Inr b \<and>
       h = cy_blake3_hex (en_crypto (ln_env L)) b)"
  by (auto simp: entry_hash_def result_simps)

lemma entry_determined:
  assumes "entry_codec L" and "digests_separate L [e] [e']"
    and "entry_hash L e = Inr (le_entry_hash e)" and "entry_hash L e' = Inr (le_entry_hash e')"
    and "le_entry_hash e = le_entry_hash e'"
  shows "e = e'"
proof -
  from assms(3,4) obtain b b' where b: "ln_entry_to_vec L (e\<lparr>le_entry_hash := []\<rparr>) = Inr b"
    "le_entry_hash e = cy_blake3_hex (en_crypto (ln_env L)) b"
    "ln_entry_to_vec L (e'\<lparr>le_entry_hash := []\<rparr>) = Inr b'"
    "le_entry_hash e' = cy_blake3_hex (en_crypto (ln_env L)) b'"
    by (auto simp: entry_hash_ok)
  with assms(2,5) have "b = b'" by (auto simp: digests_separate_def blake3_separates_def)
  with assms(1) b(1,3) have "e\<lparr>le_entry_hash := []\<rparr> = e'\<lparr>le_entry_hash := []\<rparr>"
    unfolding entry_codec_def by (metis sum.inject(2))
  with assms(5) show ?thesis by (cases e; cases e') simp
qed

lemma chain_determined:
  assumes "entry_codec L"
  shows "chain L lid mid empty_scan_state efs t \<Longrightarrow> chain L lid mid empty_scan_state efs' t' \<Longrightarrow>
    ls_previous_hash t = ls_previous_hash t' \<Longrightarrow> digests_separate L (map fst efs) (map fst efs') \<Longrightarrow>
    map fst efs = map fst efs'"
proof (induction efs arbitrary: t efs' t' rule: rev_induct)
  case Nil
  then show ?case using chain_fields [OF Nil.prems(1)] chain_fields [OF Nil.prems(2)]
    by (simp split: if_split_asm)
next
  case (snoc ef efs)
  from chain_fields [OF snoc.prems(1)] chain_fields [OF snoc.prems(2)] snoc.prems(3)
  have "efs' \<noteq> []" by auto
  then obtain xs ef' where e': "efs' = xs @ [ef']" by (metis rev_exhaust)
  from snoc.prems(1,2) e' obtain s s' where s: "chain L lid mid empty_scan_state efs s"
    "commits L lid mid s ef t" "chain L lid mid empty_scan_state xs s'" "commits L lid mid s' ef' t'"
    by (auto simp: run_snoc)
  have "fst ef = fst ef'"
  proof (rule entry_determined [OF assms])
    show "digests_separate L [fst ef] [fst ef']" using snoc.prems(4) by (simp add: digests_separate_def e')
    show "le_entry_hash (fst ef) = le_entry_hash (fst ef')"
      using chain_fields [OF snoc.prems(1)] chain_fields [OF snoc.prems(2)] snoc.prems(3) by (simp add: e')
  qed (use s in \<open>simp_all add: commits_def\<close>)
  with s(2,4) have "ls_previous_hash s = ls_previous_hash s'" by (simp add: commits_def)
  with snoc.IH [OF s(1,3)] snoc.prems(4) have "map fst efs = map fst xs"
    by (simp add: digests_separate_def e')
  with \<open>fst ef = fst ef'\<close> show ?case by (simp add: e')
qed

section \<open>A resumed verification is the full one\<close>

text \<open>The loop state of a resumed verification, at a scanned state whose replay succeeded.\<close>

definition suffix_of ::
  "string \<Rightarrow> string \<Rightarrow> LedgerScanState \<Rightarrow> AuthorityReplayV1 \<Rightarrow> SuffixState" where
  "suffix_of lid mid s r =
     \<lparr>sx_replay = r, sx_used_epochs = ls_used_epochs s, sx_expected_sequence = ls_next_sequence s,
      sx_previous_hash = ls_previous_hash s,
      sx_head = \<lparr>vh_local_sequence = ls_next_sequence s - 1, vh_entry_hash = the (ls_previous_hash s),
        vh_observation_id = the (ls_last_observation_id s), vh_ledger_id = lid, vh_mother_node_id = mid\<rparr>,
      sx_prefix_len = ls_committed_len s, sx_last_frame_len = ls_last_frame_len s,
      sx_hasher = ls_prefix_hasher s\<rparr>"

definition suffix_verified :: "LEnv \<Rightarrow> SuffixState \<Rightarrow> VerifiedLedgerReplay" where
  "suffix_verified L s =
     assemble_verified (Some (sx_head s)) (sx_replay s) (sx_used_epochs s) (sx_prefix_len s)
       (sx_last_frame_len s) (cy_blake3_hex (en_crypto (ln_env L)) (sx_hasher s))"

text \<open>A state after at least one entry, with its replay.\<close>

definition scanned ::
  "LEnv \<Rightarrow> string \<Rightarrow> string \<Rightarrow> (MctObservationLedgerEntry \<times> string) list \<Rightarrow> LedgerScanState \<Rightarrow>
   AuthorityReplayV1 \<Rightarrow> bool" where
  "scanned L lid mid efs s r \<longleftrightarrow>
     chain L lid mid empty_scan_state efs s \<and> efs \<noteq> [] \<and> length efs < 2 ^ 64 \<and>
     ls_authority_replay s = Inr r"

lemma scanned_link:
  assumes "scanned L lid mid efs s r"
  obtains h where "ls_previous_hash s = Some h"
    "link (ls_next_sequence s) (Some h) = Some (ls_next_sequence s - 1, h)"
    "checked_sub_u64 (ls_next_sequence s) 1 = Some (ls_next_sequence s - 1)"
proof -
  from assms have c: "chain L lid mid empty_scan_state efs s" "efs \<noteq> []" "length efs < 2 ^ 64"
    by (simp_all add: scanned_def)
  let ?h = "le_entry_hash (fst (last efs))"
  from chain_fields [OF c(1)] c(2) have f: "ls_next_sequence s = of_nat (length efs)"
    "ls_previous_hash s = Some ?h" by simp_all
  have "link (of_nat (length efs)) (Some ?h) = Some (of_nat (length efs - 1), ?h)"
    using c(2,3) by (intro link_of_nat) simp_all
  moreover have "of_nat (length efs - 1) = ls_next_sequence s - 1"
    using c(2) f(1) by (simp add: of_nat_diff Suc_le_eq)
  ultimately have l: "link (ls_next_sequence s) (Some ?h) = Some (ls_next_sequence s - 1, ?h)"
    using f(1) by simp
  then have "checked_sub_u64 (ls_next_sequence s) 1 = Some (ls_next_sequence s - 1)"
    by (simp add: link_def split: option.split_asm)
  with f(2) l show ?thesis by (rule that)
qed

lemma cached_step:
  "ls_authority_replay (remember_scanned_entry L s e frm) = Inr r' \<longleftrightarrow>
     (\<exists>r u. ls_authority_replay s = Inr r \<and>
       fold_authority_entry (ln_env L) r (ls_used_epochs s)
         (link (ls_next_sequence s) (ls_previous_hash s)) e = Inr (r', u))"
  by (auto simp: remember_scanned_entry_def Let_def fold_cached_def split: sum.split prod.split)

lemma chain_replay_before:
  "chain L lid mid s efs t \<Longrightarrow> ls_authority_replay t = Inr r' \<Longrightarrow> \<exists>r. ls_authority_replay s = Inr r"
proof (induction rule: run.induct)
  case (run_Cons s ef t efs u)
  then show ?case by (auto simp: commits_def cached_step)
qed simp

lemma resume_if: "(if c then Inl x else y) = Inr t \<longleftrightarrow> \<not> c \<and> y = Inr t"
  by simp

lemma resume_frame_iff:
  assumes "NL \<notin> set b" and s: "scanned L lid mid efs s r"
  shows "resume_frame L path lid mid (suffix_of lid mid s r) (b @ [NL]) = Inr sx \<longleftrightarrow>
     (\<exists>e t r'. commits L lid mid s (e, b @ [NL]) t \<and> ls_authority_replay t = Inr r' \<and>
       sx = suffix_of lid mid t r')"
proof (cases "ln_entry_from_slice L b")
  case (Inr e)
  obtain h where h: "ls_previous_hash s = Some h"
    "link (ls_next_sequence s) (Some h) = Some (ls_next_sequence s - 1, h)"
    using scanned_link [OF s] by metis
  let ?frm = "b @ [NL]"
  let ?t = "remember_scanned_entry L s e ?frm"
  let ?ok = "le_local_sequence e = ls_next_sequence s \<and> le_ledger_id e = lid \<and>
    le_mother_node_id e = mid \<and> le_previous_entry_hash e = Some h \<and> entry_hash L e = Inr (le_entry_hash e)"
  let ?fold = "fold_authority_entry (ln_env L) r (ls_used_epochs s) (Some (ls_next_sequence s - 1, h)) e"
  have r: "ls_authority_replay s = Inr r" using s by (simp add: scanned_def)
  have c: "commits L lid mid s (e', ?frm) t \<longleftrightarrow> e' = e \<and> ?ok \<and> t = ?t" for e' t
    using Inr assms(1) h(1) by (auto simp: commits_def)
  have f: "ls_authority_replay ?t = Inr r' \<longleftrightarrow> (\<exists>u. ?fold = Inr (r', u))" for r'
    using r h by (simp add: cached_step)
  let ?sx = "\<lambda>r' u. \<lparr>sx_replay = r', sx_used_epochs = u, sx_expected_sequence = ls_next_sequence s + 1,
      sx_previous_hash = Some (le_entry_hash e),
      sx_head = \<lparr>vh_local_sequence = ls_next_sequence s, vh_entry_hash = le_entry_hash e,
        vh_observation_id = mo_observation_id (le_observation e), vh_ledger_id = lid, vh_mother_node_id = mid\<rparr>,
      sx_prefix_len = ls_committed_len s + usize_u64 ?frm, sx_last_frame_len = usize_u64 ?frm,
      sx_hasher = ls_prefix_hasher s @ ?frm\<rparr>"
  have n: "?fold = Inr (r', u) \<Longrightarrow> suffix_of lid mid ?t r' = ?sx r' u" for r' u
    using r h by (simp add: suffix_of_def remember_scanned_entry_def Let_def fold_cached_def)
  have "resume_frame L path lid mid (suffix_of lid mid s r) ?frm = Inr sx \<longleftrightarrow>
      ?ok \<and> (\<exists>r' u. ?fold = Inr (r', u) \<and> sx = ?sx r' u)"
    using Inr h(1)
    by (auto simp: resume_frame_def result_simps resume_if Let_def head_from_entry_def suffix_of_def)
  then have "resume_frame L path lid mid (suffix_of lid mid s r) ?frm = Inr sx \<longleftrightarrow>
      ?ok \<and> (\<exists>r' u. ?fold = Inr (r', u) \<and> sx = suffix_of lid mid ?t r')"
    using n by metis
  then show ?thesis by (auto simp: c f)
qed (simp add: resume_frame_def result_simps commits_def)

lemma scanned_snoc:
  "scanned L lid mid efs s r \<Longrightarrow> commits L lid mid s ef t \<Longrightarrow> ls_authority_replay t = Inr r' \<Longrightarrow>
   Suc (length efs) < 2 ^ 64 \<Longrightarrow> scanned L lid mid (efs @ [ef]) t r'"
  by (auto simp: scanned_def run_snoc)

lemma resume_loop_frame:
  "NL \<notin> set b \<Longrightarrow> resume_frame L path lid mid sx (b @ [NL]) = Inr sx' \<Longrightarrow>
   resume_loop L path lid mid sx (b @ NL # rest) = resume_loop L path lid mid sx' rest"
  by (subst resume_loop.simps) (simp add: read_until_frame)

lemma resume_of_chain:
  "chain L lid mid s new t \<Longrightarrow> scanned L lid mid efs s r \<Longrightarrow> length efs + length new < 2 ^ 64 \<Longrightarrow>
   ls_authority_replay t = Inr r' \<Longrightarrow>
   resume_loop L path lid mid (suffix_of lid mid s r) (file_bytes new) = Inr (suffix_of lid mid t r')"
proof (induction arbitrary: efs r rule: run.induct)
  case (run_Nil s)
  then show ?case by (subst resume_loop.simps) (simp add: scanned_def)
next
  case (run_Cons s ef t new u)
  obtain b where b: "snd ef = b @ [NL]" "NL \<notin> set b" using commits_frame [OF run_Cons.hyps(1)] by blast
  obtain r1 where r1: "ls_authority_replay t = Inr r1"
    using chain_replay_before [OF run_Cons.hyps(2) run_Cons.prems(3)] by blast
  have "scanned L lid mid (efs @ [ef]) t r1"
    using scanned_snoc [OF run_Cons.prems(1) run_Cons.hyps(1) r1] run_Cons.prems(2) by simp
  then have n: "resume_loop L path lid mid (suffix_of lid mid t r1) (file_bytes new) = Inr (suffix_of lid mid u r')"
    using run_Cons.IH run_Cons.prems(2,3) by simp
  have "resume_frame L path lid mid (suffix_of lid mid s r) (b @ [NL]) = Inr (suffix_of lid mid t r1)"
    using resume_frame_iff [OF b(2) run_Cons.prems(1)] run_Cons.hyps(1) b(1) r1 by (metis prod.collapse)
  with n b show ?case by (simp add: resume_loop_frame)
qed

lemma resume_shape:
  "resume_loop L path lid mid (suffix_of lid mid s r) bytes = Inr sx \<Longrightarrow> scanned L lid mid efs s r \<Longrightarrow>
   length efs + length bytes < 2 ^ 64 \<Longrightarrow>
   \<exists>new t r'. chain L lid mid s new t \<and> bytes = file_bytes new \<and> ls_authority_replay t = Inr r' \<and>
     sx = suffix_of lid mid t r'"
proof (induction "length bytes" arbitrary: bytes s r efs rule: less_induct)
  case less
  show ?case
  proof (cases rule: read_until_cases [of bytes])
    case (frame b rest)
    with less.prems(1) obtain sx' where f: "resume_frame L path lid mid (suffix_of lid mid s r) (b @ [NL]) = Inr sx'"
      by (subst (asm) resume_loop.simps) (auto split: sum.split_asm)
    then obtain e t r' where e: "commits L lid mid s (e, b @ [NL]) t" "ls_authority_replay t = Inr r'"
      "sx' = suffix_of lid mid t r'"
      using resume_frame_iff [OF frame(2) less.prems(2)] by blast
    have "scanned L lid mid (efs @ [(e, b @ [NL])]) t r'"
      using scanned_snoc [OF less.prems(2) e(1,2)] less.prems(3) frame(1) by simp
    moreover have "resume_loop L path lid mid (suffix_of lid mid t r') rest = Inr sx"
      using less.prems(1) resume_loop_frame [OF frame(2) f] e(3) by (simp add: frame(1))
    ultimately obtain new u q where "chain L lid mid t new u" "rest = file_bytes new"
      "ls_authority_replay u = Inr q" "sx = suffix_of lid mid u q"
      using less.hyps [of rest t r' "efs @ [(e, b @ [NL])]"] less.prems(3) frame(1) by auto
    with e(1) frame(1) show ?thesis
      by (intro exI [of _ "(e, b @ [NL]) # new"]) (auto simp: run_Cons_iff)
  next
    case torn
    show ?thesis
    proof (cases "bytes = []")
      case True
      with less.prems(1,2) show ?thesis
        by (subst (asm) resume_loop.simps) (force simp: scanned_def intro: run_Nil exI [of _ "[]"])
    next
      case False
      with less.prems(1) torn show ?thesis
        by (subst (asm) resume_loop.simps) (simp add: resume_frame_def frame_terminated_torn)
    qed
  qed
qed

lemma verified_scanned:
  assumes "scanned L lid mid efs s r"
  shows "verified_from_scan L s lid mid = Inr (suffix_verified L (suffix_of lid mid s r))"
proof -
  from assms have c: "chain L lid mid empty_scan_state efs s" "efs \<noteq> []" "ls_authority_replay s = Inr r"
    by (simp_all add: scanned_def)
  obtain h where "ls_previous_hash s = Some h" "checked_sub_u64 (ls_next_sequence s) 1 = Some (ls_next_sequence s - 1)"
    using scanned_link [OF assms] by metis
  then show ?thesis using chain_fields [OF c(1)] c(2,3)
    by (simp add: verified_from_scan_def result_simps suffix_verified_def suffix_of_def)
qed

lemma verify_iff:
  assumes "length bytes < 2 ^ 64" and "bytes \<noteq> []"
  shows "verify_ledger_streaming L path lid mid None (Inr bytes) = Inr v \<longleftrightarrow>
    (\<exists>efs s r. scanned L lid mid efs s r \<and> bytes = file_bytes efs \<and> v = suffix_verified L (suffix_of lid mid s r))"
proof
  assume v: "verify_ledger_streaming L path lid mid None (Inr bytes) = Inr v"
  then obtain scan where scan: "scan_existing L path lid mid None (Inr bytes) = Inr scan"
    by (auto simp: verify_ledger_streaming_def result_simps)
  with v obtain s where s: "scan_existing L path lid mid None (Inr bytes) = Inr (ScanReady s)"
    "verified_from_scan L s lid mid = Inr v"
    by (cases scan) (simp_all add: verify_ledger_streaming_def result_simps)
  then obtain efs where e: "chain L lid mid empty_scan_state efs s" "bytes = file_bytes efs"
    by (auto simp: scan_ready_iff)
  from s(2) obtain r where r: "ls_authority_replay s = Inr r"
    by (auto simp: verified_from_scan_def result_simps)
  have "efs \<noteq> []" using e(2) assms(2) by auto
  with chain_length [OF e(1)] e r assms(1) have "scanned L lid mid efs s r" by (simp add: scanned_def)
  with e(2) s(2) verified_scanned show "\<exists>efs s r. scanned L lid mid efs s r \<and> bytes = file_bytes efs \<and>
      v = suffix_verified L (suffix_of lid mid s r)" by fastforce
next
  assume "\<exists>efs s r. scanned L lid mid efs s r \<and> bytes = file_bytes efs \<and>
    v = suffix_verified L (suffix_of lid mid s r)"
  then obtain efs s r where s: "scanned L lid mid efs s r" "bytes = file_bytes efs"
    "v = suffix_verified L (suffix_of lid mid s r)" by blast
  then have "scan_existing L path lid mid None (Inr bytes) = Inr (ScanReady s)"
    by (auto simp: scan_ready_iff scanned_def)
  with s verified_scanned [OF s(1)] show "verify_ledger_streaming L path lid mid None (Inr bytes) = Inr v"
    by (simp add: verify_ledger_streaming_def result_simps)
qed

text \<open>The prefix of a checkpoint ends at a frame, whose bytes are the last frame carried.\<close>

lemma carry_frame: "NL \<notin> set b \<Longrightarrow> carry_byte (foldl carry_byte (c, l) b) NL = ([], c @ b @ [NL])"
  by (induction b arbitrary: c) (auto simp: carry_byte_def)

lemma carry_chain:
  "chain L lid mid s efs t \<Longrightarrow>
   foldl carry_byte ([], l) (file_bytes efs) = ([], if efs = [] then l else snd (last efs))"
proof (induction arbitrary: l rule: run.induct)
  case (run_Cons s ef t efs u)
  then show ?case using commits_frame [OF run_Cons.hyps(1)] by (auto simp: carry_frame)
qed simp

lemma scanned_frames:
  assumes "scanned L lid mid efs s r"
  obtains xs e b where "efs = xs @ [(e, b @ [NL])]" "ln_entry_from_slice L b = Inr e"
    "entry_hash L e = Inr (le_entry_hash e)" "le_ledger_id e = lid" "le_mother_node_id e = mid"
    "sx_head (suffix_of lid mid s r) = head_from_entry e"
proof -
  from assms obtain xs ef where x: "efs = xs @ [ef]" by (cases efs rule: rev_cases) (auto simp: scanned_def)
  with assms have c: "chain L lid mid empty_scan_state (xs @ [ef]) s" by (simp add: scanned_def)
  then obtain u where u: "commits L lid mid u ef s" by (auto simp: run_snoc)
  then obtain b where b: "snd ef = b @ [NL]" "ln_entry_from_slice L b = Inr (fst ef)"
    by (auto simp: commits_def)
  have "sx_head (suffix_of lid mid s r) = head_from_entry (fst ef)"
    using u by (simp add: suffix_of_def head_from_entry_def commits_def remember_scanned_entry_def Let_def)
  with u b x that [of xs "fst ef" b] show ?thesis by (auto simp: commits_def prod_eq_iff)
qed

lemma usize_less: "length xs < 2 ^ 64 \<Longrightarrow> unat (usize_u64 xs) = length xs"
  by (simp add: usize_u64_def unat_of_nat)

lemma resume_at:
  assumes s: "scanned L lid mid efs s r" and "length (file_bytes efs @ rest) < 2 ^ 64"
    and cp: "vr_checkpoint (suffix_verified L (suffix_of lid mid s r)) = Some cp"
  shows "resume_ledger_replay L path lid mid cp (Inr (file_bytes efs @ rest)) =
    and_then (resume_loop L path lid mid (suffix_of lid mid s r) rest) (\<lambda>sx. Inr (Resumed (suffix_verified L sx)))"
proof -
  obtain xs e b where e: "efs = xs @ [(e, b @ [NL])]" "ln_entry_from_slice L b = Inr e"
    "entry_hash L e = Inr (le_entry_hash e)" "le_ledger_id e = lid" "le_mother_node_id e = mid"
    "sx_head (suffix_of lid mid s r) = head_from_entry e"
    by (rule scanned_frames [OF s])
  from s have c: "chain L lid mid empty_scan_state efs s" by (simp add: scanned_def)
  let ?P = "file_bytes efs"
  let ?F = "b @ [NL]"
  note f = chain_fields [OF c]
  have cp': "cp = \<lparr>cp_through_sequence = le_local_sequence e, cp_through_entry_hash = le_entry_hash e,
      cp_prefix_len = usize_u64 ?P, cp_prefix_blake3 = cy_blake3_hex (en_crypto (ln_env L)) ?P,
      cp_checkpoint_frame_len = usize_u64 ?F, cp_replay = r, cp_used_epochs = ls_used_epochs s\<rparr>"
    using cp e f by (simp add: suffix_verified_def assemble_verified_def head_from_entry_def) (simp add: suffix_of_def)
  have P: "unat (usize_u64 ?P) = length ?P" and F: "unat (usize_u64 ?F) = length ?F"
    and A: "unat (usize_u64 (?P @ rest)) = length (?P @ rest)"
    by (rule usize_less; use assms(2) e(1) in simp)+
  have n: "usize_u64 ?P \<noteq> 0" "usize_u64 ?F \<noteq> 0" "\<not> usize_u64 ?P < usize_u64 ?F"
    "\<not> usize_u64 (?P @ rest) < usize_u64 ?P"
    using P F A e(1) by (auto simp: word_less_nat_alt unat_eq_0 [symmetric])
  have carry: "foldl carry_byte ([], []) ?P = ([], ?F)" using carry_chain [OF c] e(1) by simp
  obtain h where h: "ls_previous_hash s = Some h" "checked_sub_u64 (ls_next_sequence s) 1 = Some (ls_next_sequence s - 1)"
    using scanned_link [OF s] by metis
  have seq: "le_local_sequence e = ls_next_sequence s - 1" "le_entry_hash e = h"
    using e(6) h(1) by (simp_all add: suffix_of_def head_from_entry_def)
  have "unat (ls_next_sequence s) < 2 ^ 64" by (rule unsigned_less [THEN order_less_le_trans]) simp
  then have "checked_add_u64 (ls_next_sequence s - 1) 1 = Some (ls_next_sequence s)"
    using checked_sub_u64_Some [OF h(2)] by (simp add: checked_add_u64_def)
  moreover have "\<lparr>sx_replay = r, sx_used_epochs = ls_used_epochs s, sx_expected_sequence = ls_next_sequence s,
      sx_previous_hash = Some h, sx_head = head_from_entry e, sx_prefix_len = usize_u64 ?P,
      sx_last_frame_len = usize_u64 ?F, sx_hasher = ?P\<rparr> = suffix_of lid mid s r"
    using f h(1) e(1,6) by (simp add: suffix_of_def)
  ultimately have "resume_suffix L path lid mid cp e ?P rest =
      and_then (resume_loop L path lid mid (suffix_of lid mid s r) rest) (\<lambda>sx. Inr (Resumed (suffix_verified L sx)))"
    by (simp add: resume_suffix_def cp' seq ok_or_def result_simps suffix_verified_def)
  then show ?thesis
    by (simp add: resume_ledger_replay_def cp' n P carry e(2-5) result_simps)
qed

text \<open>Two files that continue one prefix differ only behind it.\<close>

lemma chain_split:
  assumes "chain L lid mid empty_scan_state efs s" and "chain L lid mid empty_scan_state efs' s'"
    and "file_bytes efs' = file_bytes efs @ rest"
  shows "\<exists>new. chain L lid mid s new s' \<and> rest = file_bytes new"
proof -
  have "scan_loop L [] lid mid None empty_scan_state (file_bytes efs') = Inr (ScanReady s')"
    using scan_chain [OF assms(2), of "[]" "[]"] by (simp add: scan_end)
  then have "scan_loop L [] lid mid None s rest = Inr (ScanReady s')"
    using scan_chain [OF assms(1), of "[]" rest] assms(3) by simp
  then show ?thesis by (rule scan_shape) auto
qed

lemma resume_iff:
  assumes s: "scanned L lid mid efs s r" and l: "length (file_bytes efs @ rest) < 2 ^ 64"
    and cp: "vr_checkpoint (suffix_verified L (suffix_of lid mid s r)) = Some cp"
  shows "resume_ledger_replay L path lid mid cp (Inr (file_bytes efs @ rest)) = Inr (Resumed v) \<longleftrightarrow>
    (\<exists>new t q. chain L lid mid s new t \<and> rest = file_bytes new \<and> ls_authority_replay t = Inr q \<and>
      v = suffix_verified L (suffix_of lid mid t q))"
proof -
  have c: "length efs \<le> length (file_bytes efs)" using s chain_length by (auto simp: scanned_def)
  have "resume_loop L path lid mid (suffix_of lid mid s r) rest = Inr sx \<longleftrightarrow>
      (\<exists>new t q. chain L lid mid s new t \<and> rest = file_bytes new \<and> ls_authority_replay t = Inr q \<and>
        sx = suffix_of lid mid t q)" for sx
    using resume_shape [OF _ s] resume_of_chain [OF _ s] chain_length c l by fastforce
  then show ?thesis by (auto simp: resume_at [OF assms] result_simps)
qed

lemma verify_empty:
  "verify_ledger_streaming L path lid mid None (Inr []) = Inr v \<Longrightarrow> vr_checkpoint v = None"
  by (auto simp: verify_ledger_streaming_def scan_existing_def result_simps scan_end verified_from_scan_def
      empty_scan_state_def assemble_verified_def checked_sub_u64_def)

lemma resume_agrees:
  assumes v: "verify_ledger_streaming L path lid mid None (Inr old) = Inr v0" "vr_checkpoint v0 = Some cp"
    and l: "length (old @ rest) < 2 ^ 64"
  shows "resume_ledger_replay L path lid mid cp (Inr (old @ rest)) = Inr (Resumed v) \<longleftrightarrow>
    verify_ledger_streaming L path lid mid None (Inr (old @ rest)) = Inr v"
proof -
  have o: "length old < 2 ^ 64" "old \<noteq> []" using l verify_empty v by auto
  then have n: "old @ rest \<noteq> []" by simp
  from v(1) [unfolded verify_iff [OF o]] obtain efs s r where s: "scanned L lid mid efs s r"
    "old = file_bytes efs" "v0 = suffix_verified L (suffix_of lid mid s r)" by blast
  note c = s(1) [unfolded scanned_def]
  have len: "chain L lid mid empty_scan_state xs t \<Longrightarrow> file_bytes xs = old @ rest \<Longrightarrow> length xs < 2 ^ 64" for xs t
    using chain_length l by fastforce
  have r: "resume_ledger_replay L path lid mid cp (Inr (old @ rest)) = Inr (Resumed v) \<longleftrightarrow>
      (\<exists>new t q. chain L lid mid s new t \<and> rest = file_bytes new \<and> ls_authority_replay t = Inr q \<and>
        v = suffix_verified L (suffix_of lid mid t q))"
    using resume_iff [OF s(1)] l v(2) s(2,3) by simp
  show ?thesis
  proof
    assume "resume_ledger_replay L path lid mid cp (Inr (old @ rest)) = Inr (Resumed v)"
    then obtain new t q where m: "chain L lid mid s new t" "rest = file_bytes new" "ls_authority_replay t = Inr q"
      "v = suffix_verified L (suffix_of lid mid t q)" using r by blast
    have k: "chain L lid mid empty_scan_state (efs @ new) t" using c m(1) by (auto simp: run_append)
    have "scanned L lid mid (efs @ new) t q" using k len [OF k] m s(2) c by (simp add: scanned_def)
    then show "verify_ledger_streaming L path lid mid None (Inr (old @ rest)) = Inr v"
      using verify_iff [OF l n] m(2,4) s(2) by (metis concat_append map_append)
  next
    assume a: "verify_ledger_streaming L path lid mid None (Inr (old @ rest)) = Inr v"
    from a [unfolded verify_iff [OF l n]] obtain efs' t q where t: "scanned L lid mid efs' t q"
      "old @ rest = file_bytes efs'" "v = suffix_verified L (suffix_of lid mid t q)" by blast
    then have "\<exists>new. chain L lid mid s new t \<and> rest = file_bytes new"
      using chain_split [of L lid mid efs s efs' t rest] c s(2) by (simp add: scanned_def)
    with t r show "resume_ledger_replay L path lid mid cp (Inr (old @ rest)) = Inr (Resumed v)"
      by (auto simp: scanned_def)
  qed
qed

end
