(* ===== verification/MCT_Writer_Laws.thy ===== *)
theory MCT_Writer_Laws
  imports MCT_Ledger_Open MCT_Ledger_Readers
begin

text \<open>
  Laws of the ledger writer: after any sequence of its operations, with any outcome of each write,
  its memory is the scan of the part of its file it acknowledged, and what lies behind that part is
  the beginning of one unacknowledged write.
\<close>

section \<open>The scanned state a writer stands for\<close>

definition scan_view :: "JsonlObservationLedger \<Rightarrow> string set \<Rightarrow> LedgerScanState" where
  "scan_view w ids =
     \<lparr>ls_next_sequence = jl_next_sequence w, ls_previous_hash = jl_previous_hash w,
      ls_committed_len = jl_prefix_len w, ls_recovery_observation_ids = ids,
      ls_authority_replay = jl_authority_replay w, ls_used_epochs = jl_used_epochs w,
      ls_prefix_hasher = jl_prefix_hasher w, ls_last_observation_id = jl_last_observation_id w,
      ls_last_frame_len = jl_last_frame_len w\<rparr>"

text \<open>What no operation changes, and what only a failed append changes.\<close>

definition same_file :: "JsonlObservationLedger \<Rightarrow> JsonlObservationLedger \<Rightarrow> bool" where
  "same_file w w' \<longleftrightarrow> jl_path w' = jl_path w \<and> jl_file w' = jl_file w \<and> jl_ledger_id w' = jl_ledger_id w \<and>
     jl_mother_node_id w' = jl_mother_node_id w \<and> jl_writer_state w' = jl_writer_state w"

text \<open>
  The invariant: \<open>efs\<close> is what the writer acknowledged, \<open>lost\<close> the entries of an append that failed
  after \<open>n\<close> bytes.
\<close>

definition writer_holds ::
  "LEnv \<Rightarrow> JsonlObservationLedger \<Rightarrow> (MctObservationLedgerEntry \<times> string) list \<Rightarrow> string set \<Rightarrow>
   (MctObservationLedgerEntry \<times> string) list \<Rightarrow> LedgerScanState \<Rightarrow> nat \<Rightarrow> bool" where
  "writer_holds L w efs ids lost t n \<longleftrightarrow>
     chain L (jl_ledger_id w) (jl_mother_node_id w) empty_scan_state efs (scan_view w ids) \<and>
     chain L (jl_ledger_id w) (jl_mother_node_id w) (scan_view w ids) lost t \<and>
     jl_file w = file_bytes efs @ take n (file_bytes lost) \<and> (\<not> is_poisoned w \<longrightarrow> lost = [])"

definition writer_inv :: "LEnv \<Rightarrow> JsonlObservationLedger \<Rightarrow> bool" where
  "writer_inv L w \<longleftrightarrow> (\<exists>efs ids lost t n. writer_holds L w efs ids lost t n)"

lemma writer_invI [intro]: "writer_holds L w efs ids lost t n \<Longrightarrow> writer_inv L w"
  unfolding writer_inv_def by blast

lemma writer_invE: "writer_inv L w \<Longrightarrow> (\<And>efs ids lost t n. writer_holds L w efs ids lost t n \<Longrightarrow> P) \<Longrightarrow> P"
  unfolding writer_inv_def by blast

section \<open>One append\<close>

lemma seal_commits:
  assumes "entry_codec L"
    and "seal_entry L path (unhashed_entry w (ls_next_sequence s) (ls_previous_hash s) ob at dc es) = Inr (e, frm)"
  shows "commits L (jl_ledger_id w) (jl_mother_node_id w) s (e, frm) (remember_scanned_entry L s e frm)"
proof -
  let ?u = "unhashed_entry w (ls_next_sequence s) (ls_previous_hash s) ob at dc es"
  from assms(2) obtain h b where h: "entry_hash L ?u = Inr h" "e = ?u\<lparr>le_entry_hash := h\<rparr>"
    "ln_entry_to_vec L e = Inr b" "frm = b @ [NL]"
    by (auto simp: seal_entry_def result_simps Let_def)
  from h(1,2) have "entry_hash L e = Inr (le_entry_hash e)" by (simp add: entry_hash_def)
  moreover have "ln_entry_from_slice L b = Inr e" "NL \<notin> set b"
    using assms(1) h(3) by (auto simp: entry_codec_def)
  ultimately show ?thesis using h by (simp add: commits_def unhashed_entry_def)
qed

lemma recorded_view:
  "\<exists>ids'. scan_view ((record_committed_entry L w (previous_link w) e frm)
      \<lparr>jl_previous_hash := Some (le_entry_hash e), jl_next_sequence := jl_next_sequence w + 1\<rparr>) ids' =
    remember_scanned_entry L (scan_view w ids) e frm"
  by (rule exI [of _ "ls_recovery_observation_ids (remember_scanned_entry L (scan_view w ids) e frm)"])
     (simp add: scan_view_def record_committed_entry_def remember_scanned_entry_def previous_link_def Let_def)

lemma append_canonical_holds:
  assumes "entry_codec L" and w: "writer_holds L w efs ids lost t n"
  shows "writer_inv L (fst (append_canonical L w ob at dc es outcome))"
proof (cases "is_poisoned w")
  case True
  with w show ?thesis by (auto simp: append_canonical_def)
next
  case False
  with w have c: "chain L (jl_ledger_id w) (jl_mother_node_id w) empty_scan_state efs (scan_view w ids)"
    and f: "jl_file w = file_bytes efs" by (simp_all add: writer_holds_def)
  let ?u = "unhashed_entry w (jl_next_sequence w) (jl_previous_hash w) ob at dc es"
  show ?thesis
  proof (cases "seal_entry L (jl_path w) ?u")
    case (Inl e)
    with False w show ?thesis by (auto simp: append_canonical_def)
  next
    case (Inr p)
    obtain e frm where p: "p = (e, frm)" by fastforce
    let ?t = "remember_scanned_entry L (scan_view w ids) e frm"
    have m: "commits L (jl_ledger_id w) (jl_mother_node_id w) (scan_view w ids) (e, frm) ?t"
      by (rule seal_commits [OF assms(1), of "jl_path w" w _ ob at dc es])
         (use Inr p in \<open>simp add: scan_view_def\<close>)
    have failed: "writer_holds L (w\<lparr>jl_file := jl_file w @ take k frm, jl_writer_state := WriterIsPoisoned\<rparr>)
        efs ids [(e, frm)] ?t k" for k
      using c m f by (simp add: writer_holds_def scan_view_def run_Cons_iff run_Nil_iff is_poisoned_def)
    show ?thesis
    proof (cases outcome)
      case IoOk
      let ?w = "(record_committed_entry L (w\<lparr>jl_file := jl_file w @ frm\<rparr>) (previous_link w) e frm)
        \<lparr>jl_previous_hash := Some (le_entry_hash e), jl_next_sequence := jl_next_sequence w + 1\<rparr>"
      obtain ids' where v: "scan_view ?w ids' = ?t"
        using recorded_view [where L = L and w = "w\<lparr>jl_file := jl_file w @ frm\<rparr>" and e = e and frm = frm and ids = ids]
        by (auto simp: scan_view_def previous_link_def)
      have "writer_holds L ?w (efs @ [(e, frm)]) ids' [] ?t 0"
        using c m f False v
        by (simp add: writer_holds_def run_snoc run_Nil_iff) (auto simp: record_committed_entry_def Let_def)
      then show ?thesis using False Inr p IoOk
        by (auto simp: append_canonical_def append_frame_def)
    next
      case (WriteFails k source)
      with failed [of k] False Inr p show ?thesis
        by (auto simp: append_canonical_def append_frame_def poisoned_append_error_def)
    next
      case (SyncFails source)
      with failed [of "length frm"] False Inr p show ?thesis
        by (auto simp: append_canonical_def append_frame_def poisoned_append_error_def)
    qed
  qed
qed

section \<open>A durable batch\<close>

lemma prepare_chain:
  assumes "entry_codec L"
  shows "prepare_batch L w at dc es (ls_next_sequence s) (ls_previous_hash s) obs = Inr prepared \<Longrightarrow>
    unat (ls_next_sequence s) + length obs < 2 ^ 64 \<Longrightarrow>
    \<exists>t. chain L (jl_ledger_id w) (jl_mother_node_id w) s prepared t \<and> length prepared = length obs"
proof (induction obs arbitrary: s prepared)
  case (Cons ob obs)
  from Cons.prems(1) obtain e frm rest where e:
    "seal_entry L (jl_path w) (unhashed_entry w (ls_next_sequence s) (ls_previous_hash s) ob at dc es) = Inr (e, frm)"
    "prepare_batch L w at dc es (saturating_add_u64 (ls_next_sequence s) 1) (Some (le_entry_hash e)) obs = Inr rest"
    "prepared = (e, frm) # rest"
    by (auto simp: result_simps)
  let ?t = "remember_scanned_entry L s e frm"
  have m: "commits L (jl_ledger_id w) (jl_mother_node_id w) s (e, frm) ?t"
    using seal_commits [OF assms e(1)] .
  have "saturating_add_u64 (ls_next_sequence s) 1 = ls_next_sequence s + 1"
    "unat (ls_next_sequence s + 1) = unat (ls_next_sequence s) + 1"
    using Cons.prems(2) by (simp_all add: saturating_add_u64_def checked_add_u64_def unat_word_ariths)
  then have "prepare_batch L w at dc es (ls_next_sequence ?t) (ls_previous_hash ?t) obs = Inr rest"
    "unat (ls_next_sequence ?t) + length obs < 2 ^ 64"
    using e(2) Cons.prems(2) by (simp_all add: remember_scanned_entry_def Let_def)
  from Cons.IH [OF this] m e(3) show ?case by (auto simp: run_Cons_iff)
qed (simp add: run_Nil_iff)

text \<open>
  Acknowledging an entry records what a scan of its frame records, as long as the sequence
  does not reach the largest value, where the source stops counting.
\<close>

lemma one_le_u64: "1 \<le> (a :: u64) \<longleftrightarrow> a \<noteq> 0"
  by (metis word_le_sub1 word_less_1 linorder_not_le)

lemma acknowledge_view:
  assumes m: "commits L lid mid (scan_view w ids) ef t"
    and first: "jl_next_sequence w = 0 \<Longrightarrow> jl_previous_hash w = None"
    and room: "unat (jl_next_sequence w) + 1 < 2 ^ 64"
  shows "\<exists>ids'. t = scan_view (acknowledge_entry L w ef) ids'" "same_file w (acknowledge_entry L w ef)"
    "jl_next_sequence (acknowledge_entry L w ef) = jl_next_sequence w + 1"
proof -
  obtain e frm where ef: "ef = (e, frm)" by fastforce
  with m have e: "le_local_sequence e = jl_next_sequence w" "le_previous_entry_hash e = jl_previous_hash w"
    "t = remember_scanned_entry L (scan_view w ids) e frm"
    by (simp_all add: commits_def scan_view_def)
  have add: "saturating_add_u64 (jl_next_sequence w) 1 = jl_next_sequence w + 1"
    using room by (simp add: saturating_add_u64_def checked_add_u64_def)
  have "map_option (\<lambda>h. (saturating_sub_u64 (jl_next_sequence w) 1, h)) (jl_previous_hash w) = previous_link w"
    using first
    by (cases "jl_previous_hash w") (auto simp: previous_link_def link_def saturating_sub_u64_def checked_sub_u64_def
        one_le_u64 split: option.split)
  then have a: "acknowledge_entry L w ef = (record_committed_entry L w (previous_link w) e frm)
      \<lparr>jl_previous_hash := Some (le_entry_hash e), jl_next_sequence := jl_next_sequence w + 1\<rparr>"
    by (simp add: acknowledge_entry_def ef e add)
  show "\<exists>ids'. t = scan_view (acknowledge_entry L w ef) ids'"
    using recorded_view [where L = L and w = w and e = e and frm = frm and ids = ids] a e(3) by metis
  show "same_file w (acknowledge_entry L w ef)"
    by (simp add: a same_file_def record_committed_entry_def Let_def)
  show "jl_next_sequence (acknowledge_entry L w ef) = jl_next_sequence w + 1" by (simp add: a)
qed

lemma acknowledge_chain:
  "chain L lid mid s efs t \<Longrightarrow> s = scan_view w ids \<Longrightarrow> (jl_next_sequence w = 0 \<Longrightarrow> jl_previous_hash w = None) \<Longrightarrow>
   unat (jl_next_sequence w) + length efs < 2 ^ 64 \<Longrightarrow>
   (\<exists>ids'. t = scan_view (foldl (acknowledge_entry L) w efs) ids') \<and>
   same_file w (foldl (acknowledge_entry L) w efs)"
proof (induction arbitrary: w ids rule: run.induct)
  case (run_Nil s)
  then show ?case by (auto simp: same_file_def)
next
  case (run_Cons s ef t efs u)
  let ?w = "acknowledge_entry L w ef"
  from run_Cons.prems(3) have room: "unat (jl_next_sequence w) + 1 < 2 ^ 64" by simp
  have m: "commits L lid mid (scan_view w ids) ef t" using run_Cons.hyps(1) run_Cons.prems(1) by simp
  note a = acknowledge_view [OF m run_Cons.prems(2) room]
  obtain ids' where t: "t = scan_view ?w ids'" using a(1) by blast
  have n: "unat (jl_next_sequence ?w) = unat (jl_next_sequence w) + 1"
    using room by (simp add: a(3) unat_word_ariths)
  then have "jl_next_sequence ?w \<noteq> 0" by auto
  with run_Cons.IH [OF t] n run_Cons.prems(3) a(2) show ?case
    by (auto simp: same_file_def)
qed

lemma append_durable_batch_holds:
  assumes "entry_codec L" and w: "writer_holds L w efs ids lost t n"
    and room: "length (jl_file w) + length obs < 2 ^ 64"
  shows "writer_inv L (fst (append_durable_batch L w obs at dc es outcome))"
proof (cases "is_poisoned w")
  case True
  with w show ?thesis by (auto simp: append_durable_batch_def)
next
  case False
  with w have c: "chain L (jl_ledger_id w) (jl_mother_node_id w) empty_scan_state efs (scan_view w ids)"
    and f: "jl_file w = file_bytes efs" by (simp_all add: writer_holds_def)
  have len: "length efs + length obs < 2 ^ 64" using chain_length [OF c] room f by simp
  have s: "ls_next_sequence (scan_view w ids) = jl_next_sequence w" "ls_previous_hash (scan_view w ids) = jl_previous_hash w"
    by (simp_all add: scan_view_def)
  have n: "unat (jl_next_sequence w) = length efs"
    using chain_fields [OF c] len s(1) by (simp add: unat_of_nat)
  show ?thesis
  proof (cases "prepare_batch L w at dc es (jl_next_sequence w) (jl_previous_hash w) obs")
    case (Inl e)
    with False w show ?thesis by (auto simp: append_durable_batch_def)
  next
    case (Inr prepared)
    then obtain u where u: "chain L (jl_ledger_id w) (jl_mother_node_id w) (scan_view w ids) prepared u"
      "length prepared = length obs"
      using prepare_chain [OF assms(1), of w at dc es "scan_view w ids" obs prepared] s n len by auto
    have failed: "writer_holds L (w\<lparr>jl_file := jl_file w @ take k (file_bytes prepared),
        jl_writer_state := WriterIsPoisoned\<rparr>) efs ids prepared u k" for k
      using c u f by (simp add: writer_holds_def scan_view_def is_poisoned_def)
    let ?v = "w\<lparr>jl_file := jl_file w @ file_bytes prepared\<rparr>"
    let ?w = "foldl (acknowledge_entry L) ?v prepared"
    have "(\<exists>ids'. u = scan_view ?w ids') \<and> same_file ?v ?w"
    proof (rule acknowledge_chain [OF u(1), of ?v ids])
      show "jl_next_sequence ?v = 0 \<Longrightarrow> jl_previous_hash ?v = None"
        using n chain_fields [OF c] s(2) by simp
    qed (use n u(2) len in \<open>simp_all add: scan_view_def\<close>)
    then obtain ids' where v: "u = scan_view ?w ids'" "same_file ?v ?w" by blast
    have acked: "writer_inv L ?w"
      unfolding writer_inv_def writer_holds_def
      by (intro exI [of _ "efs @ prepared"] exI [of _ ids'] exI [of _ "[]"] exI [of _ u])
         (use c u(1) f v in \<open>auto simp: same_file_def run_append run_Nil_iff\<close>)
    show ?thesis
    proof (cases "prepared = [] \<or> outcome = IoOk")
      case True
      then show ?thesis using False Inr acked w
        by (cases prepared) (auto simp: append_durable_batch_def append_frame_def)
    next
      case nok: False
      then show ?thesis
        using False Inr failed [of "length (file_bytes prepared)"] failed
        by (cases prepared; cases outcome)
           (auto simp: append_durable_batch_def append_frame_def poisoned_append_error_def)
    qed
  qed
qed

section \<open>The file only grows\<close>

text \<open>
  The bytes a writer acknowledged are those it fed to its hasher. A poisoned writer writes
  nothing more.
\<close>

definition writer_le :: "JsonlObservationLedger \<Rightarrow> JsonlObservationLedger \<Rightarrow> bool" where
  "writer_le w w' \<longleftrightarrow>
     jl_path w' = jl_path w \<and> jl_ledger_id w' = jl_ledger_id w \<and> jl_mother_node_id w' = jl_mother_node_id w \<and>
     (\<exists>x. jl_file w' = jl_file w @ x) \<and> (\<exists>x. jl_prefix_hasher w' = jl_prefix_hasher w @ x) \<and>
     (is_poisoned w \<longrightarrow> is_poisoned w' \<and> jl_file w' = jl_file w \<and> jl_prefix_hasher w' = jl_prefix_hasher w)"

lemma writer_le_refl: "writer_le w w"
  by (simp add: writer_le_def)

lemma writer_le_trans: "writer_le u v \<Longrightarrow> writer_le v w \<Longrightarrow> writer_le u w"
  by (auto simp: writer_le_def)

lemma recorded_le:
  "\<not> is_poisoned w \<Longrightarrow> writer_le w ((record_committed_entry L (w\<lparr>jl_file := jl_file w @ x\<rparr>) p e frm)
     \<lparr>jl_previous_hash := h, jl_next_sequence := n\<rparr>)"
  by (simp add: writer_le_def record_committed_entry_def Let_def)

lemma append_frame_cases:
  assumes "append_frame w frm outcome = (w', r)"
  obtains (ok) "outcome = IoOk" "w' = w\<lparr>jl_file := jl_file w @ frm\<rparr>" "r = Inr ()"
  | (failed) n e where "w' = w\<lparr>jl_file := jl_file w @ take n frm, jl_writer_state := WriterIsPoisoned\<rparr>" "r = Inl e"
proof (cases outcome)
  case (SyncFails source)
  with assms failed [of "length frm"] show ?thesis by (auto simp: append_frame_def poisoned_append_error_def)
qed (use assms ok failed in \<open>auto simp: append_frame_def poisoned_append_error_def\<close>)

lemma append_canonical_le: "writer_le w (fst (append_canonical L w ob at dc es outcome))"
proof (cases "is_poisoned w \<or>
    (\<exists>e. seal_entry L (jl_path w) (unhashed_entry w (jl_next_sequence w) (jl_previous_hash w) ob at dc es) = Inl e)")
  case True
  then show ?thesis by (auto simp: append_canonical_def writer_le_refl)
next
  case False
  then obtain e frm where e:
    "seal_entry L (jl_path w) (unhashed_entry w (jl_next_sequence w) (jl_previous_hash w) ob at dc es) = Inr (e, frm)"
    by (metis obj_sumE surj_pair)
  obtain w' r where a: "append_frame w frm outcome = (w', r)" by fastforce
  then show ?thesis
  proof (cases rule: append_frame_cases)
    case ok
    with False e a show ?thesis by (simp add: append_canonical_def recorded_le)
  next
    case (failed n e)
    with False e a show ?thesis by (simp add: append_canonical_def) (simp add: writer_le_def)
  qed
qed

lemma acknowledge_le: "\<not> is_poisoned w \<Longrightarrow> writer_le w (acknowledge_entry L w ef) \<and> \<not> is_poisoned (acknowledge_entry L w ef)"
  by (cases ef) (simp add: acknowledge_entry_def writer_le_def record_committed_entry_def Let_def is_poisoned_def)

lemma acknowledged_le: "\<not> is_poisoned w \<Longrightarrow> writer_le w (foldl (acknowledge_entry L) w efs)"
proof (induction efs arbitrary: w)
  case (Cons ef efs)
  have a: "writer_le w (acknowledge_entry L w ef)" "\<not> is_poisoned (acknowledge_entry L w ef)"
    using acknowledge_le [OF Cons.prems] by blast+
  show ?case using writer_le_trans [OF a(1) Cons.IH [OF a(2)]] by simp
qed (simp add: writer_le_refl)

lemma append_durable_batch_le: "writer_le w (fst (append_durable_batch L w obs at dc es outcome))"
proof (cases "is_poisoned w \<or> (\<forall>p ps. prepare_batch L w at dc es (jl_next_sequence w) (jl_previous_hash w) obs \<noteq> Inr (p # ps))")
  case True
  then show ?thesis by (auto simp: append_durable_batch_def writer_le_refl split: sum.split list.split)
next
  case False
  then obtain p ps where p: "prepare_batch L w at dc es (jl_next_sequence w) (jl_previous_hash w) obs = Inr (p # ps)"
    by blast
  obtain w' r where a: "append_frame w (concat (map snd (p # ps))) outcome = (w', r)" by fastforce
  then show ?thesis
  proof (cases rule: append_frame_cases)
    case ok
    have "writer_le w w'" "\<not> is_poisoned w'" using False ok(2) by (auto simp: writer_le_def is_poisoned_def)
    then have "writer_le w (foldl (acknowledge_entry L) w' (p # ps))"
      using acknowledged_le writer_le_trans by blast
    with False p a ok(3) show ?thesis by (simp add: append_durable_batch_def)
  next
    case (failed n e)
    with False p a show ?thesis by (simp add: append_durable_batch_def) (simp add: writer_le_def)
  qed
qed

section \<open>Every operation of the writer\<close>

text \<open>
  Whatever an operation checks first, it changes the writer by appends, by a durable batch, and by
  what only lives in memory: the tenure and the offset of the recovery wait. The source counts the
  entries of a batch without wrapping, so a batch must fit below the largest sequence.
\<close>

inductive writer_step :: "LEnv \<Rightarrow> JsonlObservationLedger \<Rightarrow> JsonlObservationLedger \<Rightarrow> bool" for L where
  canonical: "writer_step L w (fst (append_canonical L w ob at dc es outcome))"
| durable_batch: "length (jl_file w) + length obs < 2 ^ 64 \<Longrightarrow>
    writer_step L w (fst (append_durable_batch L w obs at dc es outcome))"
| memory: "writer_step L w (w\<lparr>jl_authority_tenure := tenure, jl_recovery_wait_offset_ms := offset\<rparr>)"

abbreviation writer_steps :: "LEnv \<Rightarrow> JsonlObservationLedger \<Rightarrow> JsonlObservationLedger \<Rightarrow> bool" where
  "writer_steps L \<equiv> (writer_step L)\<^sup>*\<^sup>*"

definition writer_start :: "LEnv \<Rightarrow> JsonlObservationLedger \<Rightarrow> bool" where
  "writer_start L w \<longleftrightarrow> entry_codec L \<and>
     (\<exists>path lid mid created s status bytes.
        scan_existing L path lid mid None (Inr bytes) = Inr (ScanReady s) \<and>
        w = opened_ledger path lid mid created s status bytes)"

definition writer_ok :: "LEnv \<Rightarrow> JsonlObservationLedger \<Rightarrow> bool" where
  "writer_ok L w \<longleftrightarrow> entry_codec L \<and> writer_inv L w"

lemma opened_view: "scan_view (opened_ledger path lid mid created s status bytes) (ls_recovery_observation_ids s) = s"
  by (simp add: scan_view_def opened_ledger_def)

lemma writer_start_ok: "writer_start L w \<Longrightarrow> writer_ok L w"
  unfolding writer_start_def writer_ok_def
proof safe
  fix path lid mid created s status bytes
  assume "scan_existing L path lid mid None (Inr bytes) = Inr (ScanReady s)"
  then obtain efs where e: "chain L lid mid empty_scan_state efs s" "bytes = file_bytes efs"
    by (auto simp: scan_ready_iff)
  have "writer_holds L (opened_ledger path lid mid created s status bytes) efs (ls_recovery_observation_ids s) [] s 0"
    unfolding writer_holds_def opened_view using e by (simp add: opened_ledger_def)
  then show "writer_inv L (opened_ledger path lid mid created s status bytes)" ..
qed

lemma memory_inv:
  "writer_inv L w \<Longrightarrow> writer_inv L (w\<lparr>jl_authority_tenure := tenure, jl_recovery_wait_offset_ms := offset\<rparr>)"
  by (simp add: writer_inv_def writer_holds_def scan_view_def is_poisoned_def)

lemma memory_le: "writer_le w (w\<lparr>jl_authority_tenure := tenure, jl_recovery_wait_offset_ms := offset\<rparr>)"
  by (simp add: writer_le_def is_poisoned_def)

lemma writer_step_ok: "writer_step L w w' \<Longrightarrow> writer_ok L w \<Longrightarrow> writer_ok L w'"
  unfolding writer_ok_def
  by (induction rule: writer_step.induct)
     (blast elim: writer_invE intro: append_canonical_holds append_durable_batch_holds memory_inv)+

lemma writer_step_le: "writer_step L w w' \<Longrightarrow> writer_le w w'"
  by (induction rule: writer_step.induct)
     (blast intro: append_canonical_le append_durable_batch_le memory_le)+

interpretation writer_moves: monotone_system "writer_start L" "writer_step L" "writer_ok L" writer_le
  by unfold_locales
    (auto intro: writer_start_ok writer_step_ok writer_le_refl writer_le_trans writer_step_le)

named_theorems operation_steps \<open>the operations of the writer are sequences of its steps\<close>

lemma canonical_steps [operation_steps]:
  "append_canonical_before_effect L w ob at outcome = (w', r) \<Longrightarrow> writer_steps L w w'"
  unfolding append_canonical_before_effect_def by (metis canonical fst_conv r_into_rtranclp)

lemma ledger_append_steps [operation_steps]:
  "ledger_append L w ob at dc es outcome = (w', r) \<Longrightarrow> writer_steps L w w'"
  unfolding ledger_append_def
  by (cases "validate_ordinary_observation ob") (simp_all, metis canonical fst_conv r_into_rtranclp)

lemma memory_steps: "writer_steps L w (w\<lparr>jl_authority_tenure := tenure\<rparr>)"
  "writer_steps L w (w\<lparr>jl_recovery_wait_offset_ms := offset\<rparr>)"
proof -
  have "w\<lparr>jl_authority_tenure := tenure, jl_recovery_wait_offset_ms := jl_recovery_wait_offset_ms w\<rparr> =
      w\<lparr>jl_authority_tenure := tenure\<rparr>" "w\<lparr>jl_authority_tenure := jl_authority_tenure w,
      jl_recovery_wait_offset_ms := offset\<rparr> = w\<lparr>jl_recovery_wait_offset_ms := offset\<rparr>" by simp_all
  then show "writer_steps L w (w\<lparr>jl_authority_tenure := tenure\<rparr>)"
    "writer_steps L w (w\<lparr>jl_recovery_wait_offset_ms := offset\<rparr>)"
    by (metis memory r_into_rtranclp)+
qed

lemma batch_loop_steps [operation_steps]:
  "append_batch_loop L show_error w at acked obs = (w', r) \<Longrightarrow> writer_steps L w w'"
proof (induction L show_error w at acked obs rule: append_batch_loop.induct)
  case (2 L show_error w at acked ob outcome rest)
  obtain v x where v: "append_before_effect L w ob at outcome = (v, x)" by fastforce
  then have "writer_steps L w v" by (auto simp: append_before_effect_def intro: ledger_append_steps)
  with v 2 show ?case by (cases x) (auto intro: rtranclp_trans)
qed simp

lemma tenure_steps [operation_steps]:
  "begin_authority_tenure_with_startup L w startup entropy started_at outcome = (w', r) \<Longrightarrow> writer_steps L w w'"
  by (auto simp: begin_authority_tenure_with_startup_def split: if_split_asm sum.split_asm prod.split_asm
      intro: canonical_steps rtranclp_trans [OF canonical_steps memory_steps(1)])

lemma inferred_tenure_steps [operation_steps]:
  "begin_authority_tenure L w entropy started_at outcome = (w', r) \<Longrightarrow> writer_steps L w w'"
  by (auto simp: begin_authority_tenure_def split: if_split_asm sum.split_asm intro: tenure_steps)

lemma validated_mutation_steps [operation_steps]:
  "execute_authority_mutation_validated L w request project typed outcome = (w', r) \<Longrightarrow> writer_steps L w w'"
  by (auto simp: execute_authority_mutation_validated_def Let_def intro: canonical_steps
      split: sum.split_asm prod.split_asm MutationPlan.split_asm)

lemma mutation_steps [operation_steps]:
  "execute_authority_mutation_inner L w request project typed outcome = (w', r) \<Longrightarrow> writer_steps L w w'"
  by (auto simp: execute_authority_mutation_inner_def split: if_split_asm intro: validated_mutation_steps)

lemma pairing_steps [operation_steps]:
  "execute_pairing_ticket_admission L w request peer now project outcome = (w', r) \<Longrightarrow> writer_steps L w w'"
  by (auto simp: execute_pairing_ticket_admission_def split: if_split_asm intro: validated_mutation_steps)

lemma import_steps [operation_steps]:
  "execute_legacy_authority_import L w request principal_ref imported decided_at outcome = (w', r) \<Longrightarrow>
   writer_steps L w w'"
  by (auto simp: execute_legacy_authority_import_def Let_def intro: canonical_steps
      split: sum.split_asm prod.split_asm)

lemma issuance_steps [operation_steps]:
  "execute_admin_key_issuance_at L w request now outcome = (w', r) \<Longrightarrow> writer_steps L w w'"
  by (auto simp: execute_admin_key_issuance_at_def Let_def intro: mutation_steps
      split: sum.split_asm prod.split_asm)

lemma recovery_steps [operation_steps]:
  "execute_guardian_recovery_with_clock L w ident command wall ms elapsed outcome = (w', r) \<Longrightarrow> writer_steps L w w'"
  by (auto simp: execute_guardian_recovery_with_clock_def
      intro: mutation_steps rtranclp_trans [OF mutation_steps memory_steps(2)]
      split: option.split_asm prod.split_asm if_split_asm)

lemma genesis_steps [operation_steps]:
  "execute_admin_genesis_at L w setup request now outcome = (w', r) \<Longrightarrow> writer_steps L w w'"
  by (auto simp: execute_admin_genesis_at_def Let_def intro: canonical_steps
      split: sum.split_asm option.split_asm if_split_asm)

lemma commit_passkey_steps [operation_steps]:
  "commit_passkey_at L w request time outcome = (w', r) \<Longrightarrow> writer_steps L w w'"
  by (auto simp: commit_passkey_at_def Let_def intro: canonical_steps split: sum.split_asm if_split_asm)

lemma passkey_genesis_steps [operation_steps]:
  "execute_passkey_genesis_at L w setup request time outcome = (w', r) \<Longrightarrow> writer_steps L w w'"
  by (auto simp: execute_passkey_genesis_at_def Let_def intro: commit_passkey_steps
      split: sum.split_asm option.split_asm if_split_asm)

lemma passkey_command_steps [operation_steps]:
  "execute_passkey_command_with_clock L w request route scope t1 t2 effect outcome = (w', r) \<Longrightarrow> writer_steps L w w'"
  by (auto simp: execute_passkey_command_with_clock_def intro: commit_passkey_steps
      split: PasskeyAdminActionV1.split_asm sum.split_asm prod.split_asm if_split_asm)

text \<open>
  The public operations. What is known of the entropy of a new tenure is a parameter; the laws below
  hold for all entropy.
\<close>

inductive public_op ::
  "LEnv \<Rightarrow> (JsonlObservationLedger \<Rightarrow> string + string \<Rightarrow> bool) \<Rightarrow> JsonlObservationLedger \<Rightarrow>
   JsonlObservationLedger \<Rightarrow> bool" for L fresh where
  "ledger_append L w ob at dc es outcome = (w', r) \<Longrightarrow> public_op L fresh w w'"
| "append_before_effect L w ob at outcome = (w', r) \<Longrightarrow> public_op L fresh w w'"
| "append_batch_before_effect L show_error w obs at = (w', r') \<Longrightarrow> public_op L fresh w w'"
| "append_durable_batch L w obs2 at dc es outcome = (w', r') \<Longrightarrow>
     length (jl_file w) + length obs2 < 2 ^ 64 \<Longrightarrow> public_op L fresh w w'"
| "begin_authority_tenure_with_startup L w startup entropy at outcome = (w', u) \<Longrightarrow> fresh w entropy \<Longrightarrow> public_op L fresh w w'"
| "begin_authority_tenure L w entropy at outcome = (w', u) \<Longrightarrow> fresh w entropy \<Longrightarrow> public_op L fresh w w'"
| "execute_authority_mutation L w request project outcome = (w', m) \<Longrightarrow> public_op L fresh w w'"
| "execute_pairing_ticket_admission L w request peer now project outcome = (w', m) \<Longrightarrow> public_op L fresh w w'"
| "execute_legacy_authority_import L w import_request principal_ref imported at outcome = (w', m) \<Longrightarrow> public_op L fresh w w'"
| "execute_admin_key_issuance_at L w issue_request now outcome = (w', m) \<Longrightarrow> public_op L fresh w w'"
| "execute_guardian_recovery L w ident command now ms elapsed outcome = (w', m) \<Longrightarrow> public_op L fresh w w'"
| "activate_guardian_policy L w ident expected now ms elapsed outcome = (w', m) \<Longrightarrow> public_op L fresh w w'"
| "rebase_guardian_recovery_clock L w ident expected now ms elapsed outcome = (w', m) \<Longrightarrow> public_op L fresh w w'"
| "expire_guardian_recovery L w ident expected now ms elapsed outcome = (w', m) \<Longrightarrow> public_op L fresh w w'"
| "issue_guardian_recovery_challenge L w ident expected entropy now ms elapsed outcome = (w', m) \<Longrightarrow> public_op L fresh w w'"
| "execute_admin_genesis_at L w genesis_setup genesis_request now outcome = (w', r) \<Longrightarrow> public_op L fresh w w'"
| "execute_passkey_genesis_at L w passkey_setup passkey_request now outcome = (w', r) \<Longrightarrow> public_op L fresh w w'"
| "execute_passkey_admin_at L w passkey_request now outcome = (w', r) \<Longrightarrow> public_op L fresh w w'"
| "execute_passkey_command_with_clock L w passkey_request route scope now later effect outcome = (w', u :: unit ledger_result) \<Longrightarrow>
     public_op L fresh w w'"

lemma public_op_steps: "public_op L fresh w w' \<Longrightarrow> writer_steps L w w'"
proof (induction rule: public_op.induct)
  case (4 w obs2 at dc es outcome w' r')
  then show ?case by (metis durable_batch fst_conv r_into_rtranclp)
qed (auto simp: append_before_effect_def append_batch_before_effect_def execute_authority_mutation_def
    execute_guardian_recovery_def activate_guardian_policy_def rebase_guardian_recovery_clock_def
    expire_guardian_recovery_def host_recovery_def issue_guardian_recovery_challenge_def
    execute_passkey_admin_at_def intro: operation_steps split: if_split_asm option.split_asm sum.split_asm)

interpretation writers: monotone_system "writer_start L" "public_op L fresh" "writer_ok L" writer_le
  by unfold_locales
    (auto dest!: public_op_steps intro: writer_start_ok writer_moves.steps_inv writer_le_refl writer_le_trans
       writer_moves.steps_le)

section \<open>What a scan of the file finds\<close>

text \<open>The beginning of a chain: whole frames, and less than one frame behind them.\<close>

lemma take_frames:
  "chain L lid mid s efs t \<Longrightarrow>
   \<exists>whole u tail. chain L lid mid s whole u \<and> take n (file_bytes efs) = file_bytes whole @ tail \<and> NL \<notin> set tail"
proof (induction arbitrary: n rule: run.induct)
  case (run_Nil s)
  show ?case by (intro exI [of _ "[]"]) (auto intro: run_Nil)
next
  case (run_Cons s ef t efs u)
  obtain b where b: "snd ef = b @ [NL]" "NL \<notin> set b" using commits_frame [OF run_Cons.hyps(1)] by blast
  show ?case
  proof (cases "n < length (snd ef)")
    case True
    then have "take n (file_bytes (ef # efs)) = take n b" using b(1) by simp
    moreover have "NL \<notin> set (take n b)" using b(2) by (auto dest: in_set_takeD)
    ultimately show ?thesis by (intro exI [of _ "[]"]) (auto intro: run.run_Nil)
  next
    case False
    obtain whole v tail where "chain L lid mid t whole v" "NL \<notin> set tail"
      "take (n - length (snd ef)) (file_bytes efs) = file_bytes whole @ tail"
      using run_Cons.IH by blast
    with False run_Cons.hyps(1) show ?thesis
      by (intro exI [of _ "ef # whole"] exI [of _ v] exI [of _ tail]) (auto simp: run_Cons_iff)
  qed
qed

lemma chain_hasher: "chain L lid mid s efs t \<Longrightarrow> ls_prefix_hasher t = ls_prefix_hasher s @ file_bytes efs"
  by (induction rule: run.induct) (auto simp: commits_def remember_scanned_entry_def Let_def)

fun scan_state :: "LedgerScan \<Rightarrow> LedgerScanState option" where
  "scan_state (ScanReady s) = Some s"
| "scan_state (ScanResidue r) = Some (lr_state r)"
| "scan_state _ = None"

lemma writer_scan:
  assumes "writer_inv L w"
  obtains ids scan t where
    "scan_existing L path (jl_ledger_id w) (jl_mother_node_id w) None (Inr (jl_file w)) = Inr scan"
    "scan_state scan = Some t" "\<exists>x. ls_prefix_hasher t = jl_prefix_hasher w @ x"
    "\<not> is_poisoned w \<Longrightarrow> scan = ScanReady (scan_view w ids)"
proof -
  let ?lid = "jl_ledger_id w" and ?mid = "jl_mother_node_id w"
  obtain efs ids lost t n where w: "writer_holds L w efs ids lost t n" using assms by (rule writer_invE)
  then have c: "chain L ?lid ?mid empty_scan_state efs (scan_view w ids)" "chain L ?lid ?mid (scan_view w ids) lost t"
    and f: "jl_file w = file_bytes efs @ take n (file_bytes lost)" and p: "\<not> is_poisoned w \<Longrightarrow> lost = []"
    by (auto simp: writer_holds_def)
  obtain whole u tail where x: "chain L ?lid ?mid (scan_view w ids) whole u"
    "take n (file_bytes lost) = file_bytes whole @ tail" "NL \<notin> set tail"
    using take_frames [OF c(2)] by blast
  have "chain L ?lid ?mid empty_scan_state (efs @ whole) u" using c(1) x(1) by (auto simp: run_append)
  then have scan: "scan_existing L path ?lid ?mid None (Inr (jl_file w)) = scan_loop L path ?lid ?mid None u tail"
    using scan_chain [of L ?lid ?mid empty_scan_state "efs @ whole" u path tail]
    by (simp add: scan_existing_def result_simps f x(2))
  have h: "\<exists>y. ls_prefix_hasher u = jl_prefix_hasher w @ y"
    using chain_hasher [OF x(1)] by (simp add: scan_view_def)
  show ?thesis
  proof (cases "tail = []")
    case True
    have "scan_existing L path ?lid ?mid None (Inr (jl_file w)) = Inr (ScanReady (scan_view w ids))" if "lost = []"
      using c(1) f that by (auto simp: scan_ready_iff)
    with True scan p h that [of "ScanReady u" u ids] show ?thesis by (auto simp: scan_end)
  next
    case False
    have "is_poisoned w" by (rule ccontr) (use p x(2) False in auto)
    with False scan h x(3) that [of _ u ids] show ?thesis by (auto simp: scan_torn)
  qed
qed

end
