(* ===== verification/MCT_Open_Laws.thy ===== *)
theory MCT_Open_Laws
  imports MCT_Writer_Laws
begin

text \<open>
  Laws of opening a ledger on a disk that may fail at every operation: committed frames stay in the
  file, an unterminated tail is preserved before it is cut off, and a writer that was opened holds
  exactly what a scan of the file finds.
\<close>

section \<open>Triples for disk operations\<close>

text \<open>
  From files that satisfy \<open>G\<close>, the operation ends in files and a result that satisfy \<open>Q\<close>, or fails
  and leaves files that satisfy \<open>E\<close>.
\<close>

type_synonym files = "(string, string) fmap"

definition io_spec :: "(files \<Rightarrow> bool) \<Rightarrow> 'a io \<Rightarrow> ('a \<Rightarrow> files \<Rightarrow> bool) \<Rightarrow> (files \<Rightarrow> bool) \<Rightarrow> bool" where
  "io_spec G m Q E \<longleftrightarrow>
     (\<forall>d d' r. G (fs_files d) \<longrightarrow> m d = (d', r) \<longrightarrow>
        (case r of Inl e \<Rightarrow> E (fs_files d') | Inr x \<Rightarrow> Q x (fs_files d')))"

named_theorems io_rules \<open>triples of the disk operations\<close>

lemma io_specD:
  "io_spec G m Q E \<Longrightarrow> G (fs_files d) \<Longrightarrow> m d = (d', r) \<Longrightarrow>
   case r of Inl e \<Rightarrow> E (fs_files d') | Inr x \<Rightarrow> Q x (fs_files d')"
  by (simp add: io_spec_def)

lemma io_conseq:
  assumes "io_spec G m Q E" and "\<And>f. G' f \<Longrightarrow> G f" and "\<And>x f. Q x f \<Longrightarrow> Q' x f" and "\<And>f. E f \<Longrightarrow> E' f"
  shows "io_spec G' m Q' E'"
  unfolding io_spec_def
proof (intro allI impI)
  fix d d' r assume "G' (fs_files d)" "m d = (d', r)"
  then have "case r of Inl e \<Rightarrow> E (fs_files d') | Inr x \<Rightarrow> Q x (fs_files d')"
    using assms(1,2) by (auto intro: io_specD)
  with assms(3,4) show "case r of Inl e \<Rightarrow> E' (fs_files d') | Inr x \<Rightarrow> Q' x (fs_files d')"
    by (cases r) simp_all
qed

lemma io_bind_spec:
  assumes "io_spec G m Q E" and "\<And>x. io_spec (Q x) (k x) Q' E"
  shows "io_spec G (io_bind m k) Q' E"
  unfolding io_spec_def
proof (intro allI impI)
  fix d d' r assume d: "G (fs_files d)" "io_bind m k d = (d', r)"
  obtain d1 y where y: "m d = (d1, y)" by fastforce
  from io_specD [OF assms(1) d(1) y] d(2) y show "case r of Inl e \<Rightarrow> E (fs_files d') | Inr x \<Rightarrow> Q' x (fs_files d')"
    by (cases y) (auto simp: io_bind_def dest: io_specD [OF assms(2)])
qed

lemma io_return_spec:
  "(\<And>x f. r = Inr x \<Longrightarrow> G f \<Longrightarrow> Q x f) \<Longrightarrow> (\<And>f. G f \<Longrightarrow> E f) \<Longrightarrow> io_spec G (io_return r) Q E"
  by (cases r) (auto simp: io_spec_def io_return_def)

lemma io_hook [io_rules]: "(\<And>f. G f \<Longrightarrow> E f) \<Longrightarrow> io_spec G (call_recovery_hook R path stage) (\<lambda>_. G) E"
  unfolding call_recovery_hook_def by (rule io_return_spec)

lemma io_op_spec:
  assumes "\<And>n d. G (fs_files d) \<Longrightarrow> E (fs_files (partial n d))"
    and "\<And>d. G (fs_files d) \<Longrightarrow>
      (case effect d of (d', Inl e) \<Rightarrow> E (fs_files d') | (d', Inr x) \<Rightarrow> Q x (fs_files d'))"
  shows "io_spec G (io_op plan path partial effect) Q E"
  unfolding io_spec_def
proof (intro allI impI)
  fix d d' r assume d: "G (fs_files d)" "io_op plan path partial effect d = (d', r)"
  let ?d = "d\<lparr>fs_ops := Suc (fs_ops d)\<rparr>"
  have g: "G (fs_files ?d)" using d(1) by simp
  show "case r of Inl e \<Rightarrow> E (fs_files d') | Inr x \<Rightarrow> Q x (fs_files d')"
  proof (cases "plan (fs_ops d)")
    case NoFault
    with d(2) have "effect ?d = (d', r)" by (simp add: io_op_def)
    with assms(2) [OF g] show ?thesis by (cases r) simp_all
  next
    case (Fault n e)
    with d(2) have "d' = partial n ?d" "r = Inl (LE_Io path e)" by (auto simp: io_op_def)
    with assms(1) [OF g] show ?thesis by simp
  qed
qed

lemma io_read [io_rules]: "(\<And>f. G f \<Longrightarrow> E f) \<Longrightarrow> io_spec G (fs_read plan p) (\<lambda>b f. G f \<and> fmlookup f p = Some b) E"
  unfolding fs_read_def by (rule io_op_spec) (auto split: option.split)

lemma io_sync [io_rules]: "(\<And>f. G f \<Longrightarrow> E f) \<Longrightarrow> io_spec G (sync_directory plan p) (\<lambda>_. G) E"
  unfolding sync_directory_def by (rule io_op_spec) auto

lemma io_sync_data [io_rules]: "(\<And>f. G f \<Longrightarrow> E f) \<Longrightarrow> io_spec G (file_sync_data plan p) (\<lambda>_. G) E"
  unfolding file_sync_data_def by (rule io_op_spec) auto

lemma io_directory [io_rules]: "(\<And>f. G f \<Longrightarrow> E f) \<Longrightarrow> io_spec G (ensure_private_directory plan p) (\<lambda>_. G) E"
  unfolding ensure_private_directory_def
  by (rule io_bind_spec [OF io_op_spec io_sync [where G = G]]) auto

lemma io_write:
  "(\<And>f. G f \<Longrightarrow> H (fmupd p b f)) \<Longrightarrow> (\<And>f. G f \<Longrightarrow> E f) \<Longrightarrow> (\<And>f. H f \<Longrightarrow> E f) \<Longrightarrow>
   io_spec G (write_bytes_durable plan p b) (\<lambda>_. H) E"
  unfolding write_bytes_durable_def by (rule io_op_spec) (auto simp: set_file_def)

lemma io_write_once:
  assumes "\<And>f. G f \<Longrightarrow> fmlookup f p = None \<Longrightarrow> H (fmupd p b f)"
    and "\<And>f. G f \<Longrightarrow> fmlookup f p = Some b \<Longrightarrow> H f" and "\<And>f. G f \<Longrightarrow> E f" and "\<And>f. H f \<Longrightarrow> E f"
  shows "io_spec G (write_bytes_once_durable plan p b) (\<lambda>_. H) E"
  unfolding io_spec_def
proof (intro allI impI)
  fix d d' r assume d: "G (fs_files d)" "write_bytes_once_durable plan p b d = (d', r)"
  show "case r of Inl e \<Rightarrow> E (fs_files d') | Inr x \<Rightarrow> H (fs_files d')"
  proof (cases "fmlookup (fs_files d) p")
    case None
    then have "write_bytes_durable plan p b d = (d', r)" using d(2) by (simp add: write_bytes_once_durable_def)
    moreover have "io_spec (\<lambda>f. G f \<and> fmlookup f p = None) (write_bytes_durable plan p b) (\<lambda>_. H) E"
      using assms by (intro io_write) auto
    ultimately show ?thesis using d(1) None by (auto dest: io_specD split: sum.split)
  next
    case (Some c)
    have "io_spec G (io_bind (fs_read plan p) (\<lambda>existing. io_return
        (if existing = b then Inr () else Inl (LedgerChanged p (usize_u64 b) (usize_u64 existing))))) (\<lambda>_. H) E"
      by (rule io_bind_spec [OF io_read io_return_spec]) (auto intro: assms(2,3) split: if_split_asm)
    moreover have "io_bind (fs_read plan p) (\<lambda>existing. io_return
        (if existing = b then Inr () else Inl (LedgerChanged p (usize_u64 b) (usize_u64 existing)))) d = (d', r)"
      using d(2) Some by (simp add: write_bytes_once_durable_def)
    ultimately show ?thesis using d(1) by (auto dest: io_specD)
  qed
qed

lemma io_set_len:
  "(\<And>f b. G f \<Longrightarrow> fmlookup f p = Some b \<Longrightarrow> H (fmupd p (take (unat len) b) f)) \<Longrightarrow>
   (\<And>f. G f \<Longrightarrow> fmlookup f p \<noteq> None) \<Longrightarrow> io_spec G (file_set_len plan p len) (\<lambda>_. H) G"
  unfolding file_set_len_def
  by (rule io_op_spec) (fastforce simp: set_file_def file_of_def split: option.split)+

lemma io_append:
  "(\<And>f b n. G f \<Longrightarrow> fmlookup f p = Some b \<Longrightarrow> E (fmupd p (b @ take n bytes) f)) \<Longrightarrow>
   (\<And>f b. G f \<Longrightarrow> fmlookup f p = Some b \<Longrightarrow> H (fmupd p (b @ bytes) f)) \<Longrightarrow>
   (\<And>f. G f \<Longrightarrow> fmlookup f p \<noteq> None) \<Longrightarrow> io_spec G (file_write_all plan p bytes) (\<lambda>_. H) E"
  unfolding file_write_all_def
  by (rule io_op_spec) (fastforce simp: set_file_def file_of_def split: option.split)+

lemma io_write_json:
  assumes "\<And>f b. G f \<Longrightarrow> json = Inr b \<Longrightarrow> H (fmupd p b f)" and "\<And>f. G f \<Longrightarrow> E f" and "\<And>f. H f \<Longrightarrow> E f"
  shows "io_spec G (write_json_durable R p json) (\<lambda>_. H) E"
  unfolding write_json_durable_def
proof (rule io_bind_spec)
  show "io_spec G (io_return (map_err (LE_Json p) json)) (\<lambda>b f. G f \<and> json = Inr b) E"
    by (rule io_return_spec) (auto simp: result_simps assms(2))
  show "io_spec (\<lambda>f. G f \<and> json = Inr b) (write_bytes_durable (rn_plan R) p b) (\<lambda>_. H) E" for b
    by (rule io_write) (auto intro: assms)
qed

lemma io_read_status:
  "io_spec G (read_recovery_status R p)
     (\<lambda>st f. G f \<and> (\<exists>b. fmlookup f p = Some b \<and> rn_status_from_slice R b = Inr st)) G"
  unfolding read_recovery_status_def
  by (rule io_bind_spec [OF io_read]) (auto intro!: io_return_spec simp: result_simps)

section \<open>Paths and records\<close>

definition record_at :: "string \<Rightarrow> string \<Rightarrow> string" where
  "record_at path name = path_join (path_join (forensic_root_path path) name) ''record.json''"

definition source_at :: "string \<Rightarrow> string \<Rightarrow> string" where
  "source_at path name = path_join (path_join (forensic_root_path path) name) ''source.bin''"

lemma source_not_record [simp]: "source_at path name \<noteq> record_at path' name'" "record_at path' name' \<noteq> source_at path name"
proof -
  have "rev (source_at path name) \<noteq> rev (record_at path' name')"
    by (simp add: source_at_def record_at_def path_join_def)
  then show "source_at path name \<noteq> record_at path' name'" "record_at path' name' \<noteq> source_at path name" by auto
qed

lemma ledger_not_forensic [simp]:
  "record_at path name \<noteq> path" "path \<noteq> record_at path name" "source_at path name \<noteq> path" "path \<noteq> source_at path name"
proof -
  have "length (record_at path name) > length path" "length (source_at path name) > length path"
    by (simp_all add: record_at_def source_at_def path_join_def forensic_root_path_def)
  then show "record_at path name \<noteq> path" "path \<noteq> record_at path name" "source_at path name \<noteq> path"
    "path \<noteq> source_at path name" by auto
qed

text \<open>What serialization of recovery records promises, and that a record names its own path.\<close>

definition status_codec :: "REnv \<Rightarrow> bool" where
  "status_codec R \<longleftrightarrow> (\<forall>st b. rn_status_to_vec R st = Inr b \<longrightarrow> rn_status_from_slice R b = Inr st)"

definition records_ok :: "REnv \<Rightarrow> string \<Rightarrow> files \<Rightarrow> bool" where
  "records_ok R path f \<longleftrightarrow>
     (\<forall>name b st. fmlookup f (record_at path name) = Some b \<longrightarrow> rn_status_from_slice R b = Inr st \<longrightarrow>
        rv_diagnostic_record_path st = record_at path name)"

text \<open>A preserved tail, if there is one.\<close>

definition held :: "string \<Rightarrow> (string \<times> string) option \<Rightarrow> files \<Rightarrow> bool" where
  "held path h f \<longleftrightarrow> (case h of None \<Rightarrow> True | Some (name, b) \<Rightarrow> fmlookup f (source_at path name) = Some b)"

definition forensics :: "REnv \<Rightarrow> string \<Rightarrow> (string \<times> string) option \<Rightarrow> files \<Rightarrow> bool" where
  "forensics R path h f \<longleftrightarrow> records_ok R path f \<and> held path h f"

lemma forensics_ledger: "forensics R path h f \<Longrightarrow> forensics R path h (fmupd path b f)"
  by (auto simp: forensics_def records_ok_def held_def split: option.split)

lemma forensics_source:
  "forensics R path h f \<Longrightarrow> fmlookup f (source_at path name) = None \<Longrightarrow>
   forensics R path h (fmupd (source_at path name) b f)"
  by (auto simp: forensics_def records_ok_def held_def split: option.split)

lemma forensics_record:
  assumes "status_codec R" and "rn_status_to_vec R st = Inr b" and "rv_diagnostic_record_path st = record_at path name"
    and "forensics R path h f"
  shows "forensics R path h (fmupd (record_at path name) b f)"
proof -
  have "rn_status_from_slice R b = Inr st" using assms(1,2) by (simp add: status_codec_def)
  with assms(3,4) show ?thesis by (auto simp: forensics_def records_ok_def held_def split: option.split)
qed

section \<open>Preserving a tail\<close>

definition tail_name :: "LedgerTailResidue \<Rightarrow> string" where
  "tail_name residue = ''tail-'' @ dec_u64 (lr_offset residue) @ ''-'' @ lr_digest residue"

lemma tail_paths:
  "path_join (tail_case_dir path (lr_offset residue) (lr_digest residue)) ''record.json'' = record_at path (tail_name residue)"
  "path_join (tail_case_dir path (lr_offset residue) (lr_digest residue)) ''source.bin'' = source_at path (tail_name residue)"
  by (simp_all add: tail_case_dir_def record_at_def source_at_def tail_name_def path_join_def)

lemma residue_forensics:
  assumes "status_codec R"
  shows "io_spec (\<lambda>f. forensics R path h f \<and> fmlookup f path = Some B)
    (ensure_residue_forensics R path lid mid residue now)
    (\<lambda>st f. forensics R path h f \<and> fmlookup f path = Some B \<and>
       fmlookup f (source_at path (tail_name residue)) = Some (lr_bytes residue) \<and>
       rv_diagnostic_record_path st = record_at path (tail_name residue))
    (\<lambda>f. forensics R path h f \<and> fmlookup f path = Some B)"
proof -
  let ?rec = "record_at path (tail_name residue)" and ?src = "source_at path (tail_name residue)"
  let ?G = "\<lambda>f. forensics R path h f \<and> fmlookup f path = Some B"
  let ?H = "\<lambda>f. ?G f \<and> fmlookup f ?src = Some (lr_bytes residue)"
  have once: "io_spec ?G (write_bytes_once_durable (rn_plan R) ?src (lr_bytes residue)) (\<lambda>_. ?H) ?G"
    by (rule io_write_once) (auto intro: forensics_source)
  have status: "io_spec ?H (\<lambda>d. if fmlookup (fs_files d) ?rec \<noteq> None then read_recovery_status R ?rec d
      else (d, Inr (new_recovery_status path lid mid residue now)))
      (\<lambda>st f. ?H f \<and> rv_diagnostic_record_path st = ?rec) ?G"
    unfolding io_spec_def
  proof (intro allI impI)
    fix d d' r assume d: "?H (fs_files d)" "(if fmlookup (fs_files d) ?rec \<noteq> None then read_recovery_status R ?rec d
      else (d, Inr (new_recovery_status path lid mid residue now))) = (d', r)"
    show "case r of Inl e \<Rightarrow> ?G (fs_files d') | Inr st \<Rightarrow> ?H (fs_files d') \<and> rv_diagnostic_record_path st = ?rec"
    proof (cases "fmlookup (fs_files d) ?rec")
      case None
      with d show ?thesis by (auto simp: new_recovery_status_def tail_paths)
    next
      case (Some b)
      with d have "read_recovery_status R ?rec d = (d', r)" by simp
      from io_specD [OF io_read_status [of ?H R ?rec] d(1) this] show ?thesis
        by (cases r) (auto simp: forensics_def records_ok_def)
    qed
  qed
  have written: "io_spec (\<lambda>f. ?H f \<and> rv_diagnostic_record_path st = ?rec)
      (write_json_durable R ?rec (rn_status_to_vec R st)) (\<lambda>_ f. ?H f \<and> rv_diagnostic_record_path st = ?rec) ?G" for st
    by (rule io_write_json) (auto intro: forensics_record [OF assms])
  have last: "io_spec (\<lambda>f. ?H f \<and> rv_diagnostic_record_path st = ?rec)
      (io_bind (call_recovery_hook R path stage) (\<lambda>_. io_return (Inr st)))
      (\<lambda>st f. ?H f \<and> rv_diagnostic_record_path st = ?rec) ?G" for st stage
    by (rule io_bind_spec [OF io_hook io_return_spec]) auto
  have "io_spec ?G (ensure_residue_forensics R path lid mid residue now)
      (\<lambda>st f. ?H f \<and> rv_diagnostic_record_path st = ?rec) ?G"
    unfolding ensure_residue_forensics_def Let_def tail_paths
    by (rule io_bind_spec [OF io_directory] io_bind_spec [OF io_hook] io_bind_spec [OF once]
        io_bind_spec [OF status] io_bind_spec [OF written] last | simp)+
  then show ?thesis by (simp add: conj_assoc)
qed

section \<open>The ledger file during a recovery\<close>

text \<open>Behind the bytes \<open>c\<close> of a scanned state: whole frames, and less than one frame behind them.\<close>

definition log_at :: "REnv \<Rightarrow> string \<Rightarrow> string \<Rightarrow> string \<Rightarrow> LedgerScanState \<Rightarrow> string \<Rightarrow> files \<Rightarrow> bool" where
  "log_at R lid mid path t c f \<longleftrightarrow>
     (\<exists>new u tail. chain (rn_ledger R) lid mid t new u \<and> NL \<notin> set tail \<and>
        fmlookup f path = Some (c @ file_bytes new @ tail))"

definition ready_at ::
  "REnv \<Rightarrow> string \<Rightarrow> string \<Rightarrow> string \<Rightarrow> LedgerScanState \<Rightarrow> string \<Rightarrow> LedgerScanState \<Rightarrow> files \<Rightarrow> bool" where
  "ready_at R lid mid path t c u f \<longleftrightarrow>
     (\<exists>new. chain (rn_ledger R) lid mid t new u \<and> fmlookup f path = Some (c @ file_bytes new))"

lemma ready_log: "ready_at R lid mid path t c u f \<Longrightarrow> log_at R lid mid path t c f"
  unfolding ready_at_def log_at_def by (metis append_Nil2 empty_iff list.set(1))

lemma torn_log: "NL \<notin> set tail \<Longrightarrow> fmlookup f path = Some (c @ tail) \<Longrightarrow> log_at R lid mid path t c f"
  unfolding log_at_def by (intro exI [of _ "[]"] exI [of _ t] exI [of _ tail]) (simp add: run_Nil)

lemma ready_here: "fmlookup f path = Some c \<Longrightarrow> ready_at R lid mid path t c t f"
  unfolding ready_at_def by (intro exI [of _ "[]"]) (simp add: run_Nil)

lemma log_here: "fmlookup f path = Some c \<Longrightarrow> log_at R lid mid path t c f"
  by (rule ready_log [OF ready_here])

lemma log_fmupd:
  "q \<noteq> path \<Longrightarrow> log_at R lid mid path t c (fmupd q b f) = log_at R lid mid path t c f"
  "q \<noteq> path \<Longrightarrow> ready_at R lid mid path t c u (fmupd q b f) = ready_at R lid mid path t c u f"
  by (simp_all add: log_at_def ready_at_def)

section \<open>Appending the recovery observation\<close>

lemma recovery_commits:
  assumes "entry_codec (rn_ledger R)" and "entry_hash (rn_ledger R) (recovery_entry lid mid status t at) = Inr h"
    and "ln_entry_to_vec (rn_ledger R) ((recovery_entry lid mid status t at)\<lparr>le_entry_hash := h\<rparr>) = Inr b"
  shows "commits (rn_ledger R) lid mid t ((recovery_entry lid mid status t at)\<lparr>le_entry_hash := h\<rparr>, b @ [NL])
    (remember_scanned_entry (rn_ledger R) t ((recovery_entry lid mid status t at)\<lparr>le_entry_hash := h\<rparr>) (b @ [NL]))"
proof -
  let ?e = "(recovery_entry lid mid status t at)\<lparr>le_entry_hash := h\<rparr>"
  have "entry_hash (rn_ledger R) ?e = Inr (le_entry_hash ?e)" using assms(2) by (simp add: entry_hash_def)
  moreover have "ln_entry_from_slice (rn_ledger R) b = Inr ?e" "NL \<notin> set b"
    using assms(1,3) by (auto simp: entry_codec_def)
  ultimately show ?thesis by (simp add: commits_def recovery_entry_def)
qed

lemma entry_written:
  assumes "entry_codec (rn_ledger R)" and h: "entry_hash (rn_ledger R) (recovery_entry lid mid status t at) = Inr h"
    and F: "\<And>f b. F f \<Longrightarrow> F (fmupd path b f)"
  shows "io_spec (\<lambda>f. F f \<and> fmlookup f path = Some c)
    (write_entry_durable R path ((recovery_entry lid mid status t at)\<lparr>le_entry_hash := h\<rparr>))
    (\<lambda>frm f. F f \<and> ready_at R lid mid path t c (remember_scanned_entry (rn_ledger R) t
        ((recovery_entry lid mid status t at)\<lparr>le_entry_hash := h\<rparr>) frm) f)
    (\<lambda>f. F f \<and> log_at R lid mid path t c f)"
proof -
  let ?e = "(recovery_entry lid mid status t at)\<lparr>le_entry_hash := h\<rparr>" and ?L = "rn_ledger R"
  let ?G = "\<lambda>f. F f \<and> fmlookup f path = Some c" and ?E = "\<lambda>f. F f \<and> log_at R lid mid path t c f"
  let ?Q = "\<lambda>frm f. F f \<and> ready_at R lid mid path t c (remember_scanned_entry ?L t ?e frm) f"
  have json: "io_spec ?G (io_return (map_err (LE_Json path) (ln_entry_to_vec ?L ?e)))
      (\<lambda>b f. ?G f \<and> ln_entry_to_vec ?L ?e = Inr b) ?E"
    by (rule io_return_spec) (auto simp: result_simps intro: log_here)
  have puts: "io_spec (\<lambda>f. ?G f \<and> ln_entry_to_vec ?L ?e = Inr b) (file_write_all (rn_plan R) path (b @ [NL]))
      (\<lambda>_. ?Q (b @ [NL])) ?E" for b
  proof (cases "ln_entry_to_vec ?L ?e = Inr b")
    case True
    have m: "chain ?L lid mid t [(?e, b @ [NL])] (remember_scanned_entry ?L t ?e (b @ [NL]))"
      using recovery_commits [OF assms(1) h True] by (simp add: run_Cons_iff run_Nil_iff)
    have part: "\<exists>new u tail. chain ?L lid mid t new u \<and> NL \<notin> set tail \<and> take n (b @ [NL]) = file_bytes new @ tail" for n
      using take_frames [OF m, of n] by auto
    show ?thesis
    proof (rule io_append)
      fix f x n assume f: "?G f \<and> ln_entry_to_vec ?L ?e = Inr b" "fmlookup f path = Some x"
      with part [of n] show "?E (fmupd path (x @ take n (b @ [NL])) f)"
        unfolding log_at_def by (auto intro: F)
    next
      fix f x assume f: "?G f \<and> ln_entry_to_vec ?L ?e = Inr b" "fmlookup f path = Some x"
      then show "?Q (b @ [NL]) (fmupd path (x @ b @ [NL]) f)"
        using m unfolding ready_at_def by (auto intro!: F exI [of _ "[(?e, b @ [NL])]"])
    qed auto
  qed (simp add: io_spec_def)
  show ?thesis
    unfolding write_entry_durable_def Let_def
    by (rule io_bind_spec [OF json], rule io_bind_spec [OF puts], rule io_bind_spec [OF io_sync_data io_return_spec])
       (auto intro: ready_log)
qed

lemma observation_appended:
  assumes "entry_codec (rn_ledger R)" and F: "\<And>f b. F f \<Longrightarrow> F (fmupd path b f)"
  shows "io_spec (\<lambda>f. F f \<and> fmlookup f path = Some c)
    (append_recovery_observation R path lid mid status t)
    (\<lambda>u f. F f \<and> ready_at R lid mid path t c u f)
    (\<lambda>f. F f \<and> log_at R lid mid path t c f)"
proof -
  let ?L = "rn_ledger R" and ?E = "\<lambda>f. F f \<and> log_at R lid mid path t c f"
  let ?G = "\<lambda>f. F f \<and> fmlookup f path = Some c"
  let ?Q = "\<lambda>u f. F f \<and> ready_at R lid mid path t c u f"
  have hash: "io_spec ?G (io_return (entry_hash ?L (recovery_entry lid mid status t at)))
      (\<lambda>h f. ?G f \<and> entry_hash ?L (recovery_entry lid mid status t at) = Inr h) ?E" for at
    by (rule io_return_spec) (auto intro: log_here)
  have puts: "io_spec (\<lambda>f. ?G f \<and> entry_hash ?L (recovery_entry lid mid status t at) = Inr h)
      (io_bind (write_entry_durable R path ((recovery_entry lid mid status t at)\<lparr>le_entry_hash := h\<rparr>))
        (\<lambda>frm. io_return (Inr (remember_scanned_entry ?L t
          ((recovery_entry lid mid status t at)\<lparr>le_entry_hash := h\<rparr>) frm)))) ?Q ?E" for at h
  proof (cases "entry_hash ?L (recovery_entry lid mid status t at) = Inr h")
    case True
    show ?thesis
      by (rule io_conseq [OF io_bind_spec [OF entry_written [where F = F, OF assms(1) True F]
            io_return_spec [where Q = ?Q]]]) (auto intro: ready_log)
  qed (simp add: io_spec_def)
  have given: "io_spec ?G (io_return (map_err (\<lambda>e. AuthorityReplayFailed (MctKernelError_display e)) r)) (\<lambda>_. ?G) ?E" for r
    by (rule io_return_spec) (auto intro: log_here)
  have kept: "io_spec ?G (io_return (Inr t)) ?Q ?E"
    by (auto intro!: io_return_spec ready_here log_here)
  have fresh: "io_spec ?G (io_bind (io_return (map_err (\<lambda>e. AuthorityReplayFailed (MctKernelError_display e)) r)) (\<lambda>at.
      io_bind (io_return (entry_hash ?L (recovery_entry lid mid status t at))) (\<lambda>h.
      io_bind (write_entry_durable R path ((recovery_entry lid mid status t at)\<lparr>le_entry_hash := h\<rparr>)) (\<lambda>frm.
      io_return (Inr (remember_scanned_entry ?L t
        ((recovery_entry lid mid status t at)\<lparr>le_entry_hash := h\<rparr>) frm)))))) ?Q ?E" for r
    by (rule io_bind_spec [OF given], rule io_bind_spec [OF hash puts])
  show ?thesis
    unfolding append_recovery_observation_def Let_def
    by (rule io_bind_spec [OF given]) (simp add: kept fresh)
qed

section \<open>Cutting off a tail\<close>

definition cut_residue :: "REnv \<Rightarrow> LedgerScanState \<Rightarrow> string \<Rightarrow> LedgerTailResidue" where
  "cut_residue R t tail =
     \<lparr>lr_offset = ls_committed_len t, lr_bytes = tail,
      lr_digest = cy_blake3_hex (en_crypto (ln_env (rn_ledger R))) tail, lr_state = t\<rparr>"

text \<open>The tail is where it was, or preserved beside the ledger.\<close>

definition tail_safe ::
  "REnv \<Rightarrow> string \<Rightarrow> string \<Rightarrow> string \<Rightarrow> LedgerScanState \<Rightarrow> string \<Rightarrow> string \<Rightarrow> files \<Rightarrow> bool" where
  "tail_safe R lid mid path t c tail f \<longleftrightarrow>
     fmlookup f path = Some (c @ tail) \<or>
     ((tail = [] \<or> (\<exists>name. fmlookup f (source_at path name) = Some tail)) \<and> log_at R lid mid path t c f)"

lemma tail_cut:
  assumes "entry_codec (rn_ledger R)" and "status_codec R"
    and t: "unat (ls_committed_len t) = length c"
  shows "io_spec (\<lambda>f. forensics R path h f \<and> fmlookup f path = Some (c @ tail))
    (recover_tail R path lid mid (cut_residue R t tail) now)
    (\<lambda>(u, st) f. forensics R path h f \<and> tail_safe R lid mid path t c tail f \<and> ready_at R lid mid path t c u f)
    (\<lambda>f. forensics R path h f \<and> tail_safe R lid mid path t c tail f)"
proof -
  let ?r = "cut_residue R t tail"
  let ?src = "source_at path (tail_name ?r)" and ?rec = "record_at path (tail_name ?r)"
  let ?F = "\<lambda>f. forensics R path h f \<and> fmlookup f ?src = Some tail"
  let ?E = "\<lambda>f. forensics R path h f \<and> tail_safe R lid mid path t c tail f"
  have r [simp]: "lr_state ?r = t" "lr_bytes ?r = tail" by (simp_all add: cut_residue_def)
  have safe: "fmlookup f ?src = Some tail \<Longrightarrow> log_at R lid mid path t c f \<Longrightarrow> tail_safe R lid mid path t c tail f" for f
    by (auto simp: tail_safe_def)
  have first: "io_spec (\<lambda>f. forensics R path h f \<and> fmlookup f path = Some (c @ tail))
      (ensure_residue_forensics R path lid mid ?r now)
      (\<lambda>st f. (?F f \<and> fmlookup f path = Some (c @ tail)) \<and> rv_diagnostic_record_path st = ?rec) ?E"
    by (rule io_conseq [OF residue_forensics [OF assms(2)]]) (auto simp: tail_safe_def)
  have cut: "io_spec (\<lambda>f. (?F f \<and> fmlookup f path = Some (c @ tail)) \<and> P) (file_set_len (rn_plan R) path (ls_committed_len t))
      (\<lambda>_ f. (?F f \<and> fmlookup f path = Some c) \<and> P) ?E" for P
    by (rule io_conseq [OF io_set_len [where G = "\<lambda>f. (?F f \<and> fmlookup f path = Some (c @ tail)) \<and> P"
          and H = "\<lambda>f. (?F f \<and> fmlookup f path = Some c) \<and> P"]])
       (auto simp: t tail_safe_def intro: forensics_ledger)
  have told: "io_spec (\<lambda>f. (?F f \<and> fmlookup f path = Some c) \<and> P)
      (append_recovery_observation R path lid mid st (t\<lparr>ls_committed_len := ls_committed_len t\<rparr>))
      (\<lambda>u f. (?F f \<and> ready_at R lid mid path t c u f) \<and> P) ?E" for st P
    by (rule io_conseq [OF observation_appended [OF assms(1), where F = "\<lambda>f. ?F f \<and> P"]])
       (auto intro: forensics_ledger safe)
  have close: "io_spec (\<lambda>f. (?F f \<and> ready_at R lid mid path t c u f) \<and> rv_diagnostic_record_path st = ?rec)
      (write_json_durable R (rv_diagnostic_record_path (st\<lparr>rv_recovery_complete := True\<rparr>))
        (rn_status_to_vec R (st\<lparr>rv_recovery_complete := True\<rparr>)))
      (\<lambda>_ f. ?F f \<and> ready_at R lid mid path t c u f) ?E" for u st
    by (rule io_write_json) (auto simp: log_fmupd intro: safe ready_log forensics_record [OF assms(2)])
  have last: "io_spec (\<lambda>f. ?F f \<and> ready_at R lid mid path t c u f) (call_recovery_hook R path stage)
      (\<lambda>_ f. ?F f \<and> ready_at R lid mid path t c u f) ?E" for u stage
    by (rule io_hook) (auto intro: safe ready_log)
  show ?thesis
    unfolding recover_tail_def Let_def r
    by (rule io_bind_spec [OF first] io_bind_spec [OF cut] io_bind_spec [OF io_sync_data] io_bind_spec [OF told]
        io_bind_spec [OF close] io_bind_spec [OF last io_return_spec] io_bind_spec [OF io_hook]
        | (auto intro: safe ready_log log_here)[1])+
qed

section \<open>Completing recorded recoveries\<close>

lemma record_completed:
  assumes "entry_codec (rn_ledger R)" and "status_codec R" and st: "rv_diagnostic_record_path st = record_at path name"
  shows "io_spec (\<lambda>f. forensics R path h f \<and> fmlookup f path = Some c)
    (complete_record R path lid mid (record_at path name) st t)
    (\<lambda>(u, st) f. forensics R path h f \<and> ready_at R lid mid path t c u f)
    (\<lambda>f. forensics R path h f \<and> log_at R lid mid path t c f)"
proof -
  let ?G = "\<lambda>f. forensics R path h f \<and> fmlookup f path = Some c"
  let ?E = "\<lambda>f. forensics R path h f \<and> log_at R lid mid path t c f"
  let ?Q = "\<lambda>u f. forensics R path h f \<and> ready_at R lid mid path t c u f"
  have told: "io_spec ?G (append_recovery_observation R path lid mid st t) ?Q ?E"
    by (rule observation_appended [OF assms(1), where F = "forensics R path h"]) (rule forensics_ledger)
  have told': "io_spec ?G (if b then io_return (Inr t) else
      io_bind (append_recovery_observation R path lid mid st t) (\<lambda>u.
        io_bind (call_recovery_hook R path stage) (\<lambda>_. io_return (Inr u)))) ?Q ?E" for b stage
  proof (cases b)
    case False
    then show ?thesis
      by (simp only: if_False) (rule io_bind_spec [OF told io_bind_spec [OF io_hook io_return_spec]], auto intro: ready_log)
  qed (auto intro!: io_return_spec intro: ready_here log_here)
  have close: "io_spec (?Q u) (write_json_durable R (record_at path name)
      (rn_status_to_vec R (st\<lparr>rv_recovery_complete := True\<rparr>))) (\<lambda>_. ?Q u) ?E" for u
    by (rule io_write_json) (auto simp: log_fmupd st intro: ready_log forensics_record [OF assms(2)])
  show ?thesis
    unfolding complete_record_def Let_def
    by (rule io_bind_spec [OF told'], rule io_bind_spec [OF close], rule io_bind_spec [OF io_hook io_return_spec])
       (auto intro: ready_log)
qed

lemma records_completed:
  assumes "entry_codec (rn_ledger R)" and "status_codec R"
  shows "io_spec (\<lambda>f. forensics R path h f \<and> fmlookup f path = Some c)
    (complete_records R path lid mid t (map (record_at path) names))
    (\<lambda>(u, st) f. forensics R path h f \<and> ready_at R lid mid path t c u f)
    (\<lambda>f. forensics R path h f \<and> log_at R lid mid path t c f)"
proof (induction names)
  case Nil
  show ?case by (auto intro!: io_return_spec intro: ready_here log_here)
next
  case (Cons name names)
  let ?G = "\<lambda>f. forensics R path h f \<and> fmlookup f path = Some c"
  let ?E = "\<lambda>f. forensics R path h f \<and> log_at R lid mid path t c f"
  let ?Q = "\<lambda>(u, st) f. forensics R path h f \<and> ready_at R lid mid path t c u f"
  show ?case
    unfolding io_spec_def
  proof (intro allI impI)
    fix d d' r
    assume d: "?G (fs_files d)" "complete_records R path lid mid t (map (record_at path) (name # names)) d = (d', r)"
    obtain d1 y where y: "read_recovery_status R (record_at path name) d = (d1, y)" by fastforce
    note read = io_specD [OF io_read_status [where G = ?G] d(1) y]
    then have g: "?G (fs_files d1)" by (cases y) auto
    show "case r of Inl e \<Rightarrow> ?E (fs_files d') | Inr x \<Rightarrow> ?Q x (fs_files d')"
    proof (cases "\<exists>st. y = Inr st \<and> status_is_pending path lid mid st")
      case True
      then obtain st where st: "y = Inr st" "status_is_pending path lid mid st" by blast
      have "rv_diagnostic_record_path st = record_at path name"
        using read st(1) by (auto simp: forensics_def records_ok_def)
      from io_specD [OF record_completed [OF assms this] g] d(2) y st show ?thesis by simp
    next
      case False
      then have "complete_records R path lid mid t (map (record_at path) names) d1 = (d', r)"
        using d(2) y by (auto split: sum.split_asm)
      from io_specD [OF Cons.IH g this] show ?thesis .
    qed
  qed
qed

lemma record_paths_at: "record_paths (forensic_root_path path) d = map (record_at path)
    (sort (List.map_filter (record_case_name (forensic_root_path path)) (map fst (sorted_list_of_fmap (fs_files d)))))"
  by (simp add: record_paths_def record_at_def)

lemma pending_completed:
  assumes "entry_codec (rn_ledger R)" and "status_codec R"
  shows "io_spec (\<lambda>f. forensics R path h f \<and> fmlookup f path = Some c)
    (complete_pending_recovery R path lid mid t)
    (\<lambda>(u, st) f. forensics R path h f \<and> ready_at R lid mid path t c u f)
    (\<lambda>f. forensics R path h f \<and> log_at R lid mid path t c f)"
proof -
  let ?G = "\<lambda>f. forensics R path h f \<and> fmlookup f path = Some c"
  let ?E = "\<lambda>f. forensics R path h f \<and> log_at R lid mid path t c f"
  let ?Q = "\<lambda>(u, st) f. forensics R path h f \<and> ready_at R lid mid path t c u f"
  let ?root = "forensic_root_path path"
  have found: "io_spec ?G (io_op (rn_plan R) ?root (\<lambda>_ d. d) (\<lambda>d. (d, Inr (record_paths ?root d))))
      (\<lambda>ps f. ?G f \<and> ps \<in> range (map (record_at path))) ?E"
    by (rule io_op_spec) (auto simp: record_paths_at intro: log_here)
  have each: "io_spec (\<lambda>f. ?G f \<and> ps \<in> range (map (record_at path))) (complete_records R path lid mid t ps) ?Q ?E" for ps
  proof (cases "ps \<in> range (map (record_at path))")
    case True
    then obtain names where names: "ps = map (record_at path) names" by blast
    show ?thesis unfolding names by (rule io_conseq [OF records_completed [OF assms, where names = names and h = h and c = c]]) auto
  qed (simp add: io_spec_def)
  have run: "io_spec ?G (io_bind (io_op (rn_plan R) ?root (\<lambda>_ d. d) (\<lambda>d. (d, Inr (record_paths ?root d))))
      (complete_records R path lid mid t)) ?Q ?E"
    by (rule io_bind_spec [OF found each])
  show ?thesis
    unfolding io_spec_def complete_pending_recovery_def Let_def
    using run by (auto simp: io_spec_def intro: ready_here)
qed

section \<open>Opening a writer\<close>

definition torn_scan :: "REnv \<Rightarrow> LedgerScanState \<Rightarrow> string \<Rightarrow> LedgerScan" where
  "torn_scan R t tail = (if tail = [] then ScanReady t else ScanResidue (cut_residue R t tail))"

lemma scan_of_log:
  assumes "chain (rn_ledger R) lid mid empty_scan_state efs t" and "NL \<notin> set tail"
  shows "scan_existing (rn_ledger R) path lid mid None (Inr (file_bytes efs @ tail)) = Inr (torn_scan R t tail)"
  using scan_chain [OF assms(1), of path tail] scan_torn [OF assms(2)]
  by (auto simp: scan_existing_def result_simps scan_end torn_scan_def cut_residue_def)

lemma scan_known:
  "scan_existing L path lid mid known (Inr b) = Inr scan \<Longrightarrow> scan_existing L path lid mid None (Inr b) = Inr scan"
  by (auto simp: scan_existing_def result_simps intro: scan_loop_known)

lemma scanned_on_disk:
  assumes "chain (rn_ledger R) lid mid empty_scan_state efs t" and "NL \<notin> set tail"
  shows "io_spec (\<lambda>f. forensics R path h f \<and> fmlookup f path = Some (file_bytes efs @ tail))
    (scan_on_disk R path lid mid known)
    (\<lambda>scan f. (forensics R path h f \<and> fmlookup f path = Some (file_bytes efs @ tail)) \<and> scan = torn_scan R t tail)
    (\<lambda>f. forensics R path h f \<and> tail_safe R lid mid path t (file_bytes efs) tail f)"
proof -
  have "scan = torn_scan R t tail"
    if "scan_existing (rn_ledger R) path lid mid known (Inr (file_bytes efs @ tail)) = Inr scan" for scan
    using scan_known [OF that] scan_of_log [OF assms, of path] by simp
  then show ?thesis
    unfolding scan_on_disk_def by (intro io_bind_spec [OF io_read io_return_spec]) (auto simp: tail_safe_def)
qed

text \<open>The writer that is returned is the scan of the file, which has grown by whole frames.\<close>

definition opened_at ::
  "REnv \<Rightarrow> string \<Rightarrow> string \<Rightarrow> string \<Rightarrow> LedgerScanState \<Rightarrow> string \<Rightarrow> JsonlObservationLedger \<Rightarrow> files \<Rightarrow> bool" where
  "opened_at R lid mid path t c w f \<longleftrightarrow>
     (\<exists>u created status. ready_at R lid mid path t c u f \<and>
        w = opened_ledger path lid mid created u status (the (fmlookup f path)))"

lemma opened_here:
  assumes "ready_at R lid mid path t c u (fs_files d)"
  shows "opened_at R lid mid path t c (opened_ledger path lid mid created u st (file_of path d)) (fs_files d)"
proof -
  have "file_of path d = the (fmlookup (fs_files d) path)" using assms by (auto simp: ready_at_def file_of_def)
  with assms show ?thesis unfolding opened_at_def by metis
qed

lemma writer_opened:
  assumes "entry_codec (rn_ledger R)" and "status_codec R"
    and efs: "chain (rn_ledger R) lid mid empty_scan_state efs t" and tail: "NL \<notin> set tail"
    and len: "length (file_bytes efs) < 2 ^ 64"
  shows "io_spec (\<lambda>f. forensics R path h f \<and> fmlookup f path = Some (file_bytes efs @ tail))
    (open_file_with_recovery_hook R path lid mid known lock now created)
    (\<lambda>w f. (forensics R path h f \<and> tail_safe R lid mid path t (file_bytes efs) tail f) \<and>
       opened_at R lid mid path t (file_bytes efs) w f)
    (\<lambda>f. forensics R path h f \<and> tail_safe R lid mid path t (file_bytes efs) tail f)"
proof -
  let ?c = "file_bytes efs"
  let ?G = "\<lambda>f. forensics R path h f \<and> fmlookup f path = Some (?c @ tail)"
  let ?E = "\<lambda>f. forensics R path h f \<and> tail_safe R lid mid path t ?c tail f"
  let ?Q = "\<lambda>(u, st) f. ?E f \<and> ready_at R lid mid path t ?c u f"
  have t: "unat (ls_committed_len t) = length ?c" using chain_fields [OF efs] usize_less [OF len] by simp
  have lock: "io_spec ?G (io_return (acquire_writer_lock path lock)) (\<lambda>_. ?G) ?E"
    by (rule io_return_spec) (auto simp: tail_safe_def)
  have ready: "io_spec ?G (complete_pending_recovery R path lid mid t) ?Q ?E" if "tail = []"
    by (rule io_conseq [OF pending_completed [OF assms(1,2), where h = h and c = ?c]])
       (use that in \<open>auto simp: tail_safe_def intro: ready_log\<close>)
  have cut: "io_spec ?G (io_bind (recover_tail R path lid mid (cut_residue R t tail) now)
      (\<lambda>(u, st). io_return (Inr (u, Some st)))) ?Q ?E"
  proof (rule io_bind_spec [OF tail_cut [OF assms(1,2) t]])
    fix x :: "LedgerScanState \<times> LedgerRecoveryStatus"
    show "io_spec ((\<lambda>(u, st) f. forensics R path h f \<and> tail_safe R lid mid path t ?c tail f \<and>
        ready_at R lid mid path t ?c u f) x) (case x of (u, st) \<Rightarrow> io_return (Inr (u, Some st))) ?Q ?E"
      by (cases x) (auto intro!: io_return_spec)
  qed
  have recovers: "io_spec (\<lambda>f. ?G f \<and> scan = torn_scan R t tail)
      (case scan of ScanReady state \<Rightarrow> complete_pending_recovery R path lid mid state
        | ScanResidue residue \<Rightarrow> io_bind (recover_tail R path lid mid residue now) (\<lambda>(u, st). io_return (Inr (u, Some st)))
        | ScanQuarantine status \<Rightarrow> io_bind (preserve_quarantine R path status) (\<lambda>q. io_return (Inl (LE_Quarantined q)))
        | ScanForeignLineage status \<Rightarrow> io_bind (preserve_quarantine R path status) (\<lambda>q. io_return (Inl (LE_ForeignLineage q))))
      ?Q ?E" for scan
  proof (cases "scan = torn_scan R t tail")
    case True
    then show ?thesis using ready cut by (auto simp: torn_scan_def)
  qed (simp add: io_spec_def)
  have opened: "io_spec (?Q x) (case x of (u, st) \<Rightarrow> \<lambda>d. (d, Inr (opened_ledger path lid mid created u st (file_of path d))))
      (\<lambda>w f. ?E f \<and> opened_at R lid mid path t ?c w f) ?E" for x
    by (cases x) (simp add: io_spec_def opened_here)
  show ?thesis
    unfolding open_file_with_recovery_hook_def
    by (rule io_bind_spec [OF lock], rule io_bind_spec [OF scanned_on_disk [OF efs tail]],
        rule io_bind_spec [OF recovers], rule opened)
qed

lemma ledger_opened:
  assumes "entry_codec (rn_ledger R)" and "status_codec R"
    and "chain (rn_ledger R) lid mid empty_scan_state efs t" and "NL \<notin> set tail" and "length (file_bytes efs) < 2 ^ 64"
  shows "io_spec (\<lambda>f. forensics R path h f \<and> fmlookup f path = Some (file_bytes efs @ tail))
    (open_with_recovery_hook R path lid mid known lock now)
    (\<lambda>w f. (forensics R path h f \<and> tail_safe R lid mid path t (file_bytes efs) tail f) \<and>
       opened_at R lid mid path t (file_bytes efs) w f)
    (\<lambda>f. forensics R path h f \<and> tail_safe R lid mid path t (file_bytes efs) tail f)"
  unfolding open_with_recovery_hook_def
  by (rule io_bind_spec [OF _ writer_opened [OF assms]], unfold open_or_create_def, rule io_op_spec)
     (auto simp: tail_safe_def)

section \<open>Any number of attempts\<close>

text \<open>
  One attempt to open the ledger, with any fault plan, hook results, remembered head, lock outcome
  and time. A file is shorter than \<open>2 ^ 64\<close> bytes.
\<close>

inductive open_attempt :: "REnv \<Rightarrow> string \<Rightarrow> string \<Rightarrow> string \<Rightarrow> Disk \<Rightarrow> Disk \<Rightarrow> bool"
  for R path lid mid where
  attempt: "length (file_of path d) < 2 ^ 64 \<Longrightarrow>
    open_with_recovery_hook (R\<lparr>rn_plan := plan, rn_hook := hook\<rparr>) path lid mid known lock now d = (d', r) \<Longrightarrow>
    open_attempt R path lid mid d d'"

definition recoverable :: "REnv \<Rightarrow> string \<Rightarrow> string \<Rightarrow> string \<Rightarrow> string \<Rightarrow> string \<Rightarrow> Disk \<Rightarrow> bool" where
  "recoverable R path lid mid c tail d \<longleftrightarrow>
     entry_codec (rn_ledger R) \<and> status_codec R \<and> records_ok R path (fs_files d) \<and> NL \<notin> set tail \<and>
     (\<exists>efs t. chain (rn_ledger R) lid mid empty_scan_state efs t \<and> c = file_bytes efs \<and>
        tail_safe R lid mid path t c tail (fs_files d))"

text \<open>The predicates do not depend on the fault plan and the hook.\<close>

lemma faulty_simps:
  "rn_ledger (R\<lparr>rn_plan := plan, rn_hook := hook\<rparr>) = rn_ledger R"
  "status_codec (R\<lparr>rn_plan := plan, rn_hook := hook\<rparr>) = status_codec R"
  "forensics (R\<lparr>rn_plan := plan, rn_hook := hook\<rparr>) path h f = forensics R path h f"
  "tail_safe (R\<lparr>rn_plan := plan, rn_hook := hook\<rparr>) lid mid path t c tail f = tail_safe R lid mid path t c tail f"
  "opened_at (R\<lparr>rn_plan := plan, rn_hook := hook\<rparr>) lid mid path t c w f = opened_at R lid mid path t c w f"
  by (simp_all add: status_codec_def forensics_def records_ok_def tail_safe_def log_at_def opened_at_def ready_at_def)

lemma attempt_outcome:
  assumes "entry_codec (rn_ledger R)" and "status_codec R"
    and "chain (rn_ledger R) lid mid empty_scan_state efs t" and "NL \<notin> set tail" and "length (file_bytes efs) < 2 ^ 64"
    and d: "forensics R path h (fs_files d)" "fmlookup (fs_files d) path = Some (file_bytes efs @ tail)"
    and o: "open_with_recovery_hook (R\<lparr>rn_plan := plan, rn_hook := hook\<rparr>) path lid mid known lock now d = (d', r)"
  shows "forensics R path h (fs_files d')" "tail_safe R lid mid path t (file_bytes efs) tail (fs_files d')"
    "r = Inr w \<Longrightarrow> opened_at R lid mid path t (file_bytes efs) w (fs_files d')"
proof -
  let ?R = "R\<lparr>rn_plan := plan, rn_hook := hook\<rparr>"
  have p: "entry_codec (rn_ledger ?R)" "status_codec ?R" "chain (rn_ledger ?R) lid mid empty_scan_state efs t"
    unfolding faulty_simps by (rule assms)+
  have g: "forensics ?R path h (fs_files d) \<and> fmlookup (fs_files d) path = Some (file_bytes efs @ tail)"
    unfolding faulty_simps by (rule conjI [OF d])
  show "forensics R path h (fs_files d')" "tail_safe R lid mid path t (file_bytes efs) tail (fs_files d')"
    "r = Inr w \<Longrightarrow> opened_at R lid mid path t (file_bytes efs) w (fs_files d')"
    using io_specD [OF ledger_opened [OF p assms(4,5)] g o] unfolding faulty_simps by (cases r; simp)+
qed

text \<open>Whatever was lost earlier stays preserved, and the frames found since then stay behind the first ones.\<close>

lemma recoverable_cases:
  assumes "recoverable R path lid mid c tail d"
  obtains efs t new u rest h where
    "chain (rn_ledger R) lid mid empty_scan_state efs t" "c = file_bytes efs" "chain (rn_ledger R) lid mid t new u"
    "chain (rn_ledger R) lid mid empty_scan_state (efs @ new) u"
    "fmlookup (fs_files d) path = Some (file_bytes (efs @ new) @ rest)" "NL \<notin> set rest"
    "forensics R path h (fs_files d)" "new = [] \<and> rest = tail \<or> tail = [] \<or> (\<exists>name. h = Some (name, tail))"
proof -
  from assms obtain efs t where e: "chain (rn_ledger R) lid mid empty_scan_state efs t" "c = file_bytes efs"
    "tail_safe R lid mid path t c tail (fs_files d)" "records_ok R path (fs_files d)" "NL \<notin> set tail"
    by (auto simp: recoverable_def)
  from e(3) show ?thesis
    unfolding tail_safe_def
  proof (elim disjE conjE)
    assume "fmlookup (fs_files d) path = Some (c @ tail)"
    then show ?thesis using e that [of efs t "[]" t tail None] by (simp add: run_Nil forensics_def held_def)
  next
    assume "tail = []" "log_at R lid mid path t c (fs_files d)"
    then show ?thesis using e that [of efs t _ _ _ None]
      by (fastforce simp: log_at_def forensics_def held_def run_append)
  next
    assume "\<exists>name. fmlookup (fs_files d) (source_at path name) = Some tail" "log_at R lid mid path t c (fs_files d)"
    then obtain name new u rest where "fmlookup (fs_files d) (source_at path name) = Some tail"
      "chain (rn_ledger R) lid mid t new u" "NL \<notin> set rest" "fmlookup (fs_files d) path = Some (c @ file_bytes new @ rest)"
      by (auto simp: log_at_def)
    then show ?thesis using e that [of efs t new u rest "Some (name, tail)"]
      by (auto simp: forensics_def held_def run_append)
  qed
qed

lemma log_extend:
  assumes "chain (rn_ledger R) lid mid t new u"
  shows "log_at R lid mid path u (c @ file_bytes new) f \<Longrightarrow> log_at R lid mid path t c f"
    and "ready_at R lid mid path u (c @ file_bytes new) v f \<Longrightarrow> ready_at R lid mid path t c v f"
proof -
  have x: "chain (rn_ledger R) lid mid u more' v \<Longrightarrow> chain (rn_ledger R) lid mid t (new @ more') v" for more' v
    using assms by (auto simp: run_append)
  show "log_at R lid mid path u (c @ file_bytes new) f \<Longrightarrow> log_at R lid mid path t c f"
    unfolding log_at_def using x by (metis (no_types, opaque_lifting) append_assoc concat_append map_append)
  show "ready_at R lid mid path u (c @ file_bytes new) v f \<Longrightarrow> ready_at R lid mid path t c v f"
    unfolding ready_at_def using x by (metis append_assoc concat_append map_append)
qed

lemma attempt_keeps:
  assumes d: "recoverable R path lid mid c tail d" and len: "length (file_of path d) < 2 ^ 64"
    and o: "open_with_recovery_hook (R\<lparr>rn_plan := plan, rn_hook := hook\<rparr>) path lid mid known lock now d = (d', r)"
  shows "recoverable R path lid mid c tail d'"
    "r = Inr w \<Longrightarrow> \<exists>efs t. chain (rn_ledger R) lid mid empty_scan_state efs t \<and> c = file_bytes efs \<and>
       opened_at R lid mid path t c w (fs_files d')"
proof -
  have k: "entry_codec (rn_ledger R)" "status_codec R" "NL \<notin> set tail" using d by (simp_all add: recoverable_def)
  from recoverable_cases [OF d] obtain efs t new u rest h where
    e: "chain (rn_ledger R) lid mid empty_scan_state efs t" "c = file_bytes efs" "chain (rn_ledger R) lid mid t new u"
    and n: "chain (rn_ledger R) lid mid empty_scan_state (efs @ new) u" "NL \<notin> set rest"
    and f: "forensics R path h (fs_files d)" "fmlookup (fs_files d) path = Some (file_bytes (efs @ new) @ rest)"
    and c: "new = [] \<and> rest = tail \<or> tail = [] \<or> (\<exists>name. h = Some (name, tail))" .
  have l: "length (file_bytes (efs @ new)) < 2 ^ 64" using len f(2) by (simp add: file_of_def)
  note a = attempt_outcome [OF k(1,2) n l f o]
  have grown: "file_bytes (efs @ new) = c @ file_bytes new" by (simp add: e(2))
  have log: "log_at R lid mid path t c (fs_files d')"
    using a(2) n(2) unfolding tail_safe_def grown by (blast intro: log_extend [OF e(3)] torn_log)
  have "tail_safe R lid mid path t c tail (fs_files d')"
  proof (cases "new = [] \<and> rest = tail")
    case True
    with a(2) e show ?thesis by (simp add: run_Nil_iff)
  next
    case False
    with c a(1) log show ?thesis by (auto simp: tail_safe_def forensics_def held_def)
  qed
  with k e(1,2) a(1) show "recoverable R path lid mid c tail d'"
    unfolding recoverable_def forensics_def by blast
  show "r = Inr w \<Longrightarrow> \<exists>efs t. chain (rn_ledger R) lid mid empty_scan_state efs t \<and> c = file_bytes efs \<and>
       opened_at R lid mid path t c w (fs_files d')"
    using a(3) e(1,2) unfolding grown opened_at_def by (blast intro: log_extend [OF e(3)])
qed

interpretation attempts: invariant_system "recoverable R path lid mid c tail" "open_attempt R path lid mid"
  "recoverable R path lid mid c tail"
  by unfold_locales (auto elim!: open_attempt.cases intro: attempt_keeps(1))

text \<open>What such a disk and a writer opened on it look like.\<close>

lemma recoverable_start:
  assumes "entry_codec (rn_ledger R)" and "status_codec R" and "records_ok R path (fs_files d)" and "NL \<notin> set tail"
    and "scan_existing (rn_ledger R) path lid mid None (Inr c) = Inr (ScanReady t)"
    and "fmlookup (fs_files d) path = Some (c @ tail)"
  shows "recoverable R path lid mid c tail d"
  using assms by (auto simp: recoverable_def scan_ready_iff tail_safe_def)

lemma recoverable_file:
  assumes "recoverable R path lid mid c tail d"
  obtains new rest t where "fmlookup (fs_files d) path = Some (c @ new @ rest)" "NL \<notin> set rest"
    "scan_existing (rn_ledger R) path lid mid None (Inr (c @ new)) = Inr (ScanReady t)"
    "scan_existing (rn_ledger R) path lid mid None (Inr (c @ new @ rest)) = Inr (torn_scan R t rest)"
    "new = [] \<and> rest = tail \<or> tail = [] \<or> (\<exists>name. fmlookup (fs_files d) (source_at path name) = Some tail)"
proof -
  from recoverable_cases [OF assms] obtain efs t new u rest h where
    e: "chain (rn_ledger R) lid mid empty_scan_state efs t" "c = file_bytes efs"
    and n: "chain (rn_ledger R) lid mid empty_scan_state (efs @ new) u" "NL \<notin> set rest"
    and f: "forensics R path h (fs_files d)" "fmlookup (fs_files d) path = Some (file_bytes (efs @ new) @ rest)"
    and c: "new = [] \<and> rest = tail \<or> tail = [] \<or> (\<exists>name. h = Some (name, tail))" .
  show ?thesis
  proof (rule that [of "file_bytes new" rest u])
    show "fmlookup (fs_files d) path = Some (c @ file_bytes new @ rest)" using e f by simp
    show "scan_existing (rn_ledger R) path lid mid None (Inr (c @ file_bytes new)) = Inr (ScanReady u)"
      using scan_of_log [OF n(1), of "[]" path] e by (simp add: torn_scan_def)
    show "scan_existing (rn_ledger R) path lid mid None (Inr (c @ file_bytes new @ rest)) = Inr (torn_scan R u rest)"
      using scan_of_log [OF n, of path] e by simp
    show "file_bytes new = [] \<and> rest = tail \<or> tail = [] \<or> (\<exists>name. fmlookup (fs_files d) (source_at path name) = Some tail)"
      using c f(1) by (auto simp: forensics_def held_def)
  qed (rule n(2))
qed

lemma opened_writer:
  assumes "chain (rn_ledger R) lid mid empty_scan_state efs t" and "opened_at R lid mid path t (file_bytes efs) w f"
  obtains new u created status where "fmlookup f path = Some (file_bytes efs @ new)"
    "w = opened_ledger path lid mid created u status (file_bytes efs @ new)"
    "scan_existing (rn_ledger R) path lid mid None (Inr (file_bytes efs @ new)) = Inr (ScanReady u)"
proof -
  from assms(2) obtain u created status new where u: "chain (rn_ledger R) lid mid t new u"
    "fmlookup f path = Some (file_bytes efs @ file_bytes new)"
    "w = opened_ledger path lid mid created u status (file_bytes efs @ file_bytes new)"
    by (auto simp: opened_at_def ready_at_def)
  have "chain (rn_ledger R) lid mid empty_scan_state (efs @ new) u" using assms(1) u(1) by (auto simp: run_append)
  from scan_of_log [OF this, of "[]" path] that [OF u(2,3)] show ?thesis by (simp add: torn_scan_def)
qed

section \<open>A recovery that nothing disturbs\<close>

text \<open>No operation fails, and the stages are not interrupted.\<close>

definition undisturbed :: "REnv \<Rightarrow> bool" where
  "undisturbed R \<longleftrightarrow> rn_plan R = (\<lambda>_. NoFault) \<and> (\<forall>stage. rn_hook R stage = Inr ())"

text \<open>What is serialized serializes.\<close>

definition recovery_serializes :: "REnv \<Rightarrow> string \<Rightarrow> string \<Rightarrow> LedgerRecoveryStatus \<Rightarrow> LedgerScanState \<Rightarrow> bool" where
  "recovery_serializes R lid mid st t \<longleftrightarrow>
     (\<exists>at h b x y. Timestamp_new (en_jiff (ln_env (rn_ledger R))) (rv_recovery_time st) = Inr at \<and>
        entry_hash (rn_ledger R) (recovery_entry lid mid st t at) = Inr h \<and>
        ln_entry_to_vec (rn_ledger R) ((recovery_entry lid mid st t at)\<lparr>le_entry_hash := h\<rparr>) = Inr b \<and>
        rn_status_to_vec R st = Inr x \<and> rn_status_to_vec R (st\<lparr>rv_recovery_complete := True\<rparr>) = Inr y)"

lemma quiet_hook: "undisturbed R \<Longrightarrow> call_recovery_hook R path stage d = (d, Inr ())"
  by (simp add: call_recovery_hook_def undisturbed_def io_return_def result_simps)

lemma quiet_op:
  "undisturbed R \<Longrightarrow> io_op (rn_plan R) path partial effect d = effect (d\<lparr>fs_ops := Suc (fs_ops d)\<rparr>)"
  by (simp add: io_op_def undisturbed_def)

lemmas quiet_simps = quiet_hook quiet_op io_bind_def io_return_def ensure_private_directory_def
  sync_directory_def file_sync_data_def file_set_len_def file_write_all_def write_bytes_durable_def
  write_bytes_once_durable_def write_json_durable_def set_file_def file_of_def result_simps

lemma quiet_forensics:
  assumes "undisturbed R" and "rn_status_to_vec R (new_recovery_status path lid mid residue now) = Inr x"
    and "fmlookup (fs_files d) (source_at path (tail_name residue)) = None"
    and "fmlookup (fs_files d) (record_at path (tail_name residue)) = None"
  obtains d' where "ensure_residue_forensics R path lid mid residue now d =
      (d', Inr (new_recovery_status path lid mid residue now))"
    "fmlookup (fs_files d') path = fmlookup (fs_files d) path"
    "fmlookup (fs_files d') (source_at path (tail_name residue)) = Some (lr_bytes residue)"
  using assms unfolding ensure_residue_forensics_def Let_def tail_paths
  by (simp add: quiet_simps)

text \<open>
  How the ledger is told of a recovery: by one frame with the sealed entry of the recovery, unless
  it already holds the observation.
\<close>

definition told_by ::
  "REnv \<Rightarrow> string \<Rightarrow> string \<Rightarrow> LedgerRecoveryStatus \<Rightarrow> LedgerScanState \<Rightarrow> string \<Rightarrow> LedgerScanState \<Rightarrow> bool" where
  "told_by R lid mid st t new u \<longleftrightarrow>
     (if rv_recovery_decision_id st \<in> ls_recovery_observation_ids t then new = [] \<and> u = t
      else \<exists>at h b. Timestamp_new (en_jiff (ln_env (rn_ledger R))) (rv_recovery_time st) = Inr at \<and>
        entry_hash (rn_ledger R) (recovery_entry lid mid st t at) = Inr h \<and>
        ln_entry_to_vec (rn_ledger R) ((recovery_entry lid mid st t at)\<lparr>le_entry_hash := h\<rparr>) = Inr b \<and>
        new = b @ [NL] \<and>
        u = remember_scanned_entry (rn_ledger R) t ((recovery_entry lid mid st t at)\<lparr>le_entry_hash := h\<rparr>) new)"

lemma told_chain:
  assumes "told_by R lid mid st t new u" and "entry_codec (rn_ledger R)"
  shows "\<exists>efs. chain (rn_ledger R) lid mid t efs u \<and> file_bytes efs = new"
proof (cases "rv_recovery_decision_id st \<in> ls_recovery_observation_ids t")
  case True
  with assms(1) show ?thesis by (intro exI [of _ "[]"]) (simp add: told_by_def run_Nil)
next
  case False
  with assms(1) obtain at h b where h: "entry_hash (rn_ledger R) (recovery_entry lid mid st t at) = Inr h"
    and b: "ln_entry_to_vec (rn_ledger R) ((recovery_entry lid mid st t at)\<lparr>le_entry_hash := h\<rparr>) = Inr b"
    and u: "new = b @ [NL]"
      "u = remember_scanned_entry (rn_ledger R) t ((recovery_entry lid mid st t at)\<lparr>le_entry_hash := h\<rparr>) new"
    by (auto simp: told_by_def)
  from recovery_commits [OF assms(2) h b] u show ?thesis
    by (intro exI [of _ "[((recovery_entry lid mid st t at)\<lparr>le_entry_hash := h\<rparr>, b @ [NL])]"])
      (simp add: run_Cons_iff run_Nil_iff)
qed

lemma told_id:
  assumes "told_by R lid mid (new_recovery_status path lid mid residue now) t new u"
  shows "rv_recovery_decision_id (new_recovery_status path lid mid residue now) \<in> ls_recovery_observation_ids u"
  using assms
  by (auto simp: told_by_def remember_scanned_entry_def recovery_entry_def recovery_observation_def
      new_recovery_status_def Let_def starts_with_def split: if_split_asm)

lemma recovery_id_visible: "non_blank (rv_recovery_decision_id (new_recovery_status path lid mid residue now))"
  by (simp add: new_recovery_status_def Let_def non_blank_def trim_is_empty_visible)

lemma quiet_observation:
  assumes "undisturbed R" and "recovery_serializes R lid mid st t" and "non_blank (rv_recovery_decision_id st)"
    and "fmlookup (fs_files d) path = Some c"
  obtains d' u new where "append_recovery_observation R path lid mid st t d = (d', Inr u)"
    "told_by R lid mid st t new u" "fmlookup (fs_files d') path = Some (c @ new)"
    "\<And>p. p \<noteq> path \<Longrightarrow> fmlookup (fs_files d') p = fmlookup (fs_files d) p"
proof -
  let ?id = "rv_recovery_decision_id st"
  have id: "string_id_new ''ObservationId'' ?id = Inr ?id" using assms(3) by (simp add: string_id_new_ok)
  show ?thesis
  proof (cases "?id \<in> ls_recovery_observation_ids t")
    case True
    with assms(4) show ?thesis
      by (intro that [of d t "[]"])
        (simp_all add: append_recovery_observation_def Let_def quiet_simps told_by_def id)
  next
    case False
    from assms(2) obtain at h b where b: "Timestamp_new (en_jiff (ln_env (rn_ledger R))) (rv_recovery_time st) = Inr at"
      "entry_hash (rn_ledger R) (recovery_entry lid mid st t at) = Inr h"
      "ln_entry_to_vec (rn_ledger R) ((recovery_entry lid mid st t at)\<lparr>le_entry_hash := h\<rparr>) = Inr b"
      by (auto simp: recovery_serializes_def)
    let ?u = "remember_scanned_entry (rn_ledger R) t ((recovery_entry lid mid st t at)\<lparr>le_entry_hash := h\<rparr>) (b @ [NL])"
    have "\<exists>d'. append_recovery_observation R path lid mid st t d = (d', Inr ?u) \<and>
        fs_files d' = fmupd path (c @ b @ [NL]) (fs_files d)"
      using assms(1,4) b False
      by (simp add: append_recovery_observation_def write_entry_durable_def Let_def quiet_simps id)
    then obtain d' where d': "append_recovery_observation R path lid mid st t d = (d', Inr ?u)"
      "fs_files d' = fmupd path (c @ b @ [NL]) (fs_files d)" by blast
    have "told_by R lid mid st t (b @ [NL]) ?u" using False b by (auto simp: told_by_def)
    from that [OF d'(1) this] d'(2) show ?thesis by simp
  qed
qed

lemma quiet_tail:
  assumes q: "undisturbed R" and s: "recovery_serializes R lid mid (new_recovery_status path lid mid (cut_residue R t tail) now) t"
    and d: "fmlookup (fs_files d) path = Some (c @ tail)" "unat (ls_committed_len t) = length c"
    and f: "fmlookup (fs_files d) (source_at path (tail_name (cut_residue R t tail))) = None"
      "fmlookup (fs_files d) (record_at path (tail_name (cut_residue R t tail))) = None"
  obtains d' u new y where "recover_tail R path lid mid (cut_residue R t tail) now d =
      (d', Inr (u, (new_recovery_status path lid mid (cut_residue R t tail) now)\<lparr>rv_recovery_complete := True\<rparr>))"
    "fmlookup (fs_files d') (source_at path (tail_name (cut_residue R t tail))) = Some tail"
    "rn_status_to_vec R ((new_recovery_status path lid mid (cut_residue R t tail) now)\<lparr>rv_recovery_complete := True\<rparr>) = Inr y"
    "fmlookup (fs_files d') (record_at path (tail_name (cut_residue R t tail))) = Some y"
    "told_by R lid mid (new_recovery_status path lid mid (cut_residue R t tail) now) t new u"
    "fmlookup (fs_files d') path = Some (c @ new)"
proof -
  let ?r = "cut_residue R t tail"
  let ?st = "new_recovery_status path lid mid ?r now"
  let ?src = "source_at path (tail_name ?r)" and ?rec = "record_at path (tail_name ?r)"
  obtain x y where x: "rn_status_to_vec R ?st = Inr x" "rn_status_to_vec R (?st\<lparr>rv_recovery_complete := True\<rparr>) = Inr y"
    using s by (auto simp: recovery_serializes_def)
  obtain d1 where d1: "ensure_residue_forensics R path lid mid ?r now d = (d1, Inr ?st)"
    "fmlookup (fs_files d1) path = Some (c @ tail)" "fmlookup (fs_files d1) ?src = Some tail"
    using quiet_forensics [OF q x(1) f] d(1) by (auto simp: cut_residue_def)
  define d2 where "d2 = (set_file path c (d1\<lparr>fs_ops := Suc (fs_ops d1)\<rparr>))\<lparr>fs_ops := Suc (Suc (fs_ops d1))\<rparr>"
  have d2: "fmlookup (fs_files d2) path = Some c" "fmlookup (fs_files d2) ?src = Some tail"
    using d1(3) by (simp_all add: d2_def set_file_def)
  obtain d3 u new where d3: "append_recovery_observation R path lid mid ?st t d2 = (d3, Inr u)"
    "told_by R lid mid ?st t new u" "fmlookup (fs_files d3) path = Some (c @ new)"
    "\<And>p. p \<noteq> path \<Longrightarrow> fmlookup (fs_files d3) p = fmlookup (fs_files d2) p"
    using quiet_observation [OF q s recovery_id_visible d2(1)] by blast
  have st: "rv_diagnostic_record_path ?st = ?rec"
    by (simp add: new_recovery_status_def tail_paths)
  have r: "lr_state ?r = t" by (simp add: cut_residue_def)
  have "fmlookup (fs_files d3) ?src = Some tail" using d2(2) d3(4) by simp
  then have "\<exists>d'. recover_tail R path lid mid ?r now d = (d', Inr (u, ?st\<lparr>rv_recovery_complete := True\<rparr>)) \<and>
      fmlookup (fs_files d') ?src = Some tail \<and> fmlookup (fs_files d') ?rec = Some y \<and>
      fmlookup (fs_files d') path = Some (c @ new)"
    unfolding recover_tail_def Let_def r using d1 d3(1,3) x q d(2)
    by (simp add: quiet_simps d2_def st)
  then show ?thesis using that [OF _ _ x(2) _ d3(2)] by blast
qed

lemma quiet_open:
  assumes q: "undisturbed R" and t: "chain (rn_ledger R) lid mid empty_scan_state efs t" "NL \<notin> set tail" "tail \<noteq> []"
    and s: "recovery_serializes R lid mid (new_recovery_status path lid mid (cut_residue R t tail) now) t"
    and d: "fmlookup (fs_files d) path = Some (file_bytes efs @ tail)" "length (file_bytes efs) < 2 ^ 64"
    and f: "fmlookup (fs_files d) (source_at path (tail_name (cut_residue R t tail))) = None"
      "fmlookup (fs_files d) (record_at path (tail_name (cut_residue R t tail))) = None"
  obtains d' u new y where "open_with_recovery_hook R path lid mid None LockAcquired now d =
      (d', Inr (opened_ledger path lid mid False u (Some ((new_recovery_status path lid mid (cut_residue R t tail) now)
         \<lparr>rv_recovery_complete := True\<rparr>)) (file_bytes efs @ new)))"
    "fmlookup (fs_files d') (source_at path (tail_name (cut_residue R t tail))) = Some tail"
    "rn_status_to_vec R ((new_recovery_status path lid mid (cut_residue R t tail) now)\<lparr>rv_recovery_complete := True\<rparr>) = Inr y"
    "fmlookup (fs_files d') (record_at path (tail_name (cut_residue R t tail))) = Some y"
    "told_by R lid mid (new_recovery_status path lid mid (cut_residue R t tail) now) t new u"
    "fmlookup (fs_files d') path = Some (file_bytes efs @ new)"
proof -
  let ?r = "cut_residue R t tail" and ?d = "d\<lparr>fs_ops := Suc (Suc (fs_ops d))\<rparr>"
  let ?done = "(new_recovery_status path lid mid ?r now)\<lparr>rv_recovery_complete := True\<rparr>"
  have len: "unat (ls_committed_len t) = length (file_bytes efs)"
    using chain_fields [OF t(1)] usize_less [OF d(2)] by simp
  have d0: "fmlookup (fs_files ?d) path = Some (file_bytes efs @ tail)"
    "fmlookup (fs_files ?d) (source_at path (tail_name ?r)) = None"
    "fmlookup (fs_files ?d) (record_at path (tail_name ?r)) = None" using d f by simp_all
  obtain d' u new y where d': "recover_tail R path lid mid ?r now ?d = (d', Inr (u, ?done))"
    "fmlookup (fs_files d') (source_at path (tail_name ?r)) = Some tail"
    "rn_status_to_vec R ?done = Inr y" "fmlookup (fs_files d') (record_at path (tail_name ?r)) = Some y"
    "told_by R lid mid (new_recovery_status path lid mid ?r now) t new u"
    "fmlookup (fs_files d') path = Some (file_bytes efs @ new)"
    by (rule quiet_tail [OF q s d0(1) len d0(2,3)])
  have scan: "scan_existing (rn_ledger R) path lid mid None (Inr (file_bytes efs @ tail)) = Inr (ScanResidue ?r)"
    using scan_of_log [OF t(1,2)] t(3) by (simp add: torn_scan_def)
  have "file_of path d' = file_bytes efs @ new" using d'(6) by (simp add: file_of_def)
  then have "open_with_recovery_hook R path lid mid None LockAcquired now d =
      (d', Inr (opened_ledger path lid mid False u (Some ?done) (file_bytes efs @ new)))"
    using d(1) d'(1) scan q
    by (simp add: open_with_recovery_hook_def open_or_create_def open_file_with_recovery_hook_def
        scan_on_disk_def fs_read_def acquire_writer_lock_def quiet_hook quiet_op io_bind_def io_return_def)
  from that [OF this d'(2-6)] show ?thesis .
qed

end
