(* ===== verification/MCT_Commit_Laws.thy ===== *)
theory MCT_Commit_Laws
  imports MCT_Writer_Laws
begin

text \<open>
  What the writer commits, a replay accepts: every canonical fact the writer appends is decoded,
  validated and folded by the replay of the same entry, with the result the writer computed. A
  retried mutation finds its committed fact.
\<close>

section \<open>What serialization of facts promises\<close>

text \<open>
  The envelope and the facts survive their canonical serialization.
\<close>

definition fact_codec :: "Codec \<Rightarrow> bool" where
  "fact_codec K \<longleftrightarrow>
     (\<forall>kind ident body bytes. jc_to_vec K (canonicalize (envelope_json kind ident body)) = Inr bytes \<longrightarrow>
        jd_envelope K bytes = Inr \<lparr>ev_schema = AUTHORITY_FACT_SCHEMA_V1, ev_fact_kind = kind,
          ev_fact_id = ident, ev_body = canonicalize body\<rparr>) \<and>
     (\<forall>f v. jc_epoch_fact K f = Inr v \<longrightarrow> jd_epoch_fact K (canonicalize v) = Inr f) \<and>
     (\<forall>f v. jc_mutation_fact K f = Inr v \<longrightarrow> jd_mutation_fact K (canonicalize v) = Inr f) \<and>
     (\<forall>f v. jc_import_fact K f = Inr v \<longrightarrow> jd_import_fact K (canonicalize v) = Inr f) \<and>
     (\<forall>f v. jc_genesis_fact K f = Inr v \<longrightarrow> jd_genesis_fact K (canonicalize v) = Inr f) \<and>
     (\<forall>f v. jc_passkey_fact K f = Inr v \<longrightarrow> jd_passkey_fact K (canonicalize v) = Inr f)"

text \<open>A fresh tenure: 32 random bytes, whose epoch was not used before.\<close>

definition fresh_entropy :: "JsonlObservationLedger \<Rightarrow> string + string \<Rightarrow> bool" where
  "fresh_entropy w entropy \<longleftrightarrow>
     (\<forall>bytes epoch. entropy = Inr bytes \<longrightarrow> fresh_authority_epoch entropy = Inr epoch \<longrightarrow>
        length bytes = 32 \<and> epoch \<notin> jl_used_epochs w)"

section \<open>An appended entry\<close>

text \<open>The entry of an append that succeeded.\<close>

definition carries :: "JsonlObservationLedger \<Rightarrow> MctObservation \<Rightarrow> string \<Rightarrow> MctObservationLedgerEntry \<Rightarrow> bool" where
  "carries w ob at e \<longleftrightarrow>
     le_observation e = ob \<and> le_ledger_id e = jl_ledger_id w \<and> le_mother_node_id e = jl_mother_node_id w \<and>
     le_local_sequence e = jl_next_sequence w \<and> le_previous_entry_hash e = jl_previous_hash w \<and>
     le_durability_class e = BeforeEffect \<and> le_appended_at e = at"

lemma append_canonical_cases:
  assumes "append_canonical L w ob at dc es outcome = (w', r)"
  obtains (refused) err where "r = Inl err" "jl_authority_replay w' = jl_authority_replay w"
      "jl_used_epochs w' = jl_used_epochs w"
  | (acked) e where "r = Inr e" "\<not> is_poisoned w" "\<not> is_poisoned w'" "le_observation e = ob"
      "le_ledger_id e = jl_ledger_id w" "le_mother_node_id e = jl_mother_node_id w"
      "le_local_sequence e = jl_next_sequence w" "le_previous_entry_hash e = jl_previous_hash w"
      "le_durability_class e = dc" "le_appended_at e = at"
      "(jl_authority_replay w', jl_used_epochs w') =
         fold_cached (ln_env L) (jl_authority_replay w) (jl_used_epochs w) (previous_link w) e"
      "jl_authority_tenure w' = jl_authority_tenure w" "jl_ledger_id w' = jl_ledger_id w"
      "jl_mother_node_id w' = jl_mother_node_id w"
proof (cases "is_poisoned w \<or>
    (\<exists>e. seal_entry L (jl_path w) (unhashed_entry w (jl_next_sequence w) (jl_previous_hash w) ob at dc es) = Inl e)")
  case True
  with assms refused show ?thesis by (auto simp: append_canonical_def split: if_split_asm)
next
  case False
  then obtain e frm where e:
    "seal_entry L (jl_path w) (unhashed_entry w (jl_next_sequence w) (jl_previous_hash w) ob at dc es) = Inr (e, frm)"
    by (metis obj_sumE surj_pair)
  then obtain h where h: "e = (unhashed_entry w (jl_next_sequence w) (jl_previous_hash w) ob at dc es)\<lparr>le_entry_hash := h\<rparr>"
    by (auto simp: seal_entry_def result_simps Let_def)
  obtain v x where a: "append_frame w frm outcome = (v, x)" by fastforce
  then show ?thesis
  proof (cases rule: append_frame_cases)
    case ok
    with False e a assms have "r = Inr e" "w' = (record_committed_entry L v (previous_link w) e frm)
        \<lparr>jl_previous_hash := Some (le_entry_hash e), jl_next_sequence := jl_next_sequence w + 1\<rparr>"
      by (simp_all add: append_canonical_def)
    with False ok(2) h show ?thesis
      by (intro acked [of e])
         (simp_all add: record_committed_entry_def Let_def is_poisoned_def unhashed_entry_def)
  next
    case (failed n err)
    with False e a assms show ?thesis by (intro refused [of err]) (auto simp: append_canonical_def)
  qed
qed

lemma committed_cases:
  assumes "append_canonical_before_effect L w ob at outcome = (w', r)"
  obtains (refused) err where "r = Inl err" "jl_authority_replay w' = jl_authority_replay w"
      "jl_used_epochs w' = jl_used_epochs w"
  | (acked) e where "r = Inr e" "\<not> is_poisoned w" "\<not> is_poisoned w'" "carries w ob at e"
      "(jl_authority_replay w', jl_used_epochs w') =
         fold_cached (ln_env L) (jl_authority_replay w) (jl_used_epochs w) (previous_link w) e"
      "jl_authority_tenure w' = jl_authority_tenure w" "jl_ledger_id w' = jl_ledger_id w"
      "jl_mother_node_id w' = jl_mother_node_id w"
  using assms unfolding append_canonical_before_effect_def
proof (cases rule: append_canonical_cases)
  case (refused err)
  then show ?thesis by (rule that(1))
next
  case (acked e)
  then have "carries w ob at e" by (simp add: carries_def)
  with acked(1-3) show ?thesis using acked(11-14) by (rule that(2))
qed

section \<open>Decoding a committed fact\<close>

lemma fold_committed:
  assumes K: "fact_codec (en_codec E)"
    and enc: "encode_authority_fact (en_codec E) kind (mo_observation_id ob) jv = Inr detail"
    and e: "mo_detail_ref ob = Some detail" "le_observation e = ob"
    and fact: "\<And>v. jv = Inr v \<Longrightarrow> fold_fact E r u p e \<lparr>ev_schema = AUTHORITY_FACT_SCHEMA_V1,
        ev_fact_kind = kind, ev_fact_id = mo_observation_id ob, ev_body = canonicalize v\<rparr> = Inr (r1, u1)"
  shows "\<exists>facts tail ids. fold_authority_entry E r u p e =
    Inr (r1\<lparr>ry_facts := facts, ry_tail_recovery_only := tail, ry_admin_grant_ids := ids\<rparr>, u1)"
proof -
  from enc obtain v bytes where v: "jv = Inr v"
    "jc_to_vec (en_codec E) (canonicalize (envelope_json kind (mo_observation_id ob) v)) = Inr bytes"
    "detail = AUTHORITY_FACT_DETAIL_PREFIX @ bytes"
    by (auto simp: encode_authority_fact_def canonical_json_bytes_def result_simps)
  have "authority_payload e = Some bytes" using e v(3) by (simp add: authority_payload_def strip_prefix_Some)
  moreover from K v(2) have "jd_envelope (en_codec E) bytes = Inr \<lparr>ev_schema = AUTHORITY_FACT_SCHEMA_V1,
      ev_fact_kind = kind, ev_fact_id = mo_observation_id ob, ev_body = canonicalize v\<rparr>"
    unfolding fact_codec_def by blast
  ultimately show ?thesis using fact [OF v(1)] e(2)
    by (auto simp: fold_authority_entry_def fold_authority_entry_body_def result_simps)
qed

lemma canonical_detail [simp]:
  "mo_observation_id (canonical_observation ident at kind plane tr mother ledger revision msg detail) = ident"
  "mo_detail_ref (canonical_observation ident at kind plane tr mother ledger revision msg detail) = Some detail"
  by (simp_all add: canonical_observation_def)

section \<open>Mutations\<close>

lemma mutation_plan_new:
  assumes "new_mutation_plan L w request intent replay = Inr plan"
  obtains auth st h h' gen detail at f where
    "ry_current_authority replay = Some auth"
    "is_ok (issuance_validate_context (ry_admin_grant_ids replay) (mq_changes request) auth (jl_ledger_id w)
       (mq_mutation_id request) (mq_decided_at request))"
    "is_ok (recovery_validate_context (ry_state replay) (mq_changes request) auth (jl_ledger_id w)
       (mq_decided_at request))"
    "is_ok (verify_admin_change_signatures (ln_env L) (ry_state replay) (ry_admin_signature_nonces replay)
       (jl_mother_node_id w) (jl_ledger_id w) (mq_changes request))"
    "apply_authority_changes (ln_env L) (ry_state replay) (mq_changes request) = Inr st"
    "authority_state_hash (ln_env L) (ry_state replay) = Inr h" "authority_state_hash (ln_env L) st = Inr h'"
    "checked_add_u64 (gi_generation auth) 1 = Some gen" "f = mutation_fact w request intent auth h h' gen"
    "encode_authority_fact (en_codec (ln_env L)) ''authority_mutation'' (mutation_fact_id (mq_mutation_id request))
       (jc_mutation_fact (en_codec (ln_env L)) f) = Inr detail"
    "plan = CommitNew f (canonical_observation (mutation_fact_id (mq_mutation_id request)) at
       OK_OperatorActionRecorded SP_Kernel (''trace:authority-mutation:'' @ mf_mutation_id f) (mf_mother_node_id f)
       (mf_ledger_id f) (gi_generation (sr_grants_authority (mf_resulting_state f)))
       ''canonical authority mutation committed'' detail) st"
  using assms
  by (auto simp: new_mutation_plan_def reject_err_def Let_def result_simps is_ok_def
      authority_mutation_observation_def)

lemma mutation_validates:
  assumes plan: "new_mutation_plan L w request intent replay = Inr (CommitNew f ob st)"
    and intent: "authority_mutation_intent_hash (ln_env L) request = Inr intent" and e: "carries w ob at e"
  shows "validate_authority_mutation_fact (ln_env L) e replay f = Inr st"
  using plan
proof (rule mutation_plan_new, goal_cases)
  case (1 auth st' h h' gen detail ts f')
  have f: "f = mutation_fact w request intent auth h h' gen" "st' = st" using 1 by simp_all
  have "fact_request f = request" by (simp add: fact_request_def f mutation_fact_def)
  then show ?case using 1 intent e f
    by (simp add: validate_authority_mutation_fact_def Let_def result_simps ok_or_def is_ok_iff carrier_ok_def
        carries_def canonical_observation_def identity_of_entry_def mutation_fact_def)
qed

lemma mutation_folds:
  assumes K: "fact_codec (en_codec (ln_env L))"
    and plan: "new_mutation_plan L w request intent replay = Inr (CommitNew f ob st)"
    and intent: "authority_mutation_intent_hash (ln_env L) request = Inr intent" and e: "carries w ob at e"
    and new: "ry_mutations replay (mq_mutation_id request) = None"
  obtains replay' where "fold_authority_entry (ln_env L) replay used previous e = Inr (replay', used)"
    "ry_state replay' = st" "ry_current_authority replay' = Some (sr_grants_authority (mf_resulting_state f))"
    "ry_mutations replay' = (ry_mutations replay)(mq_mutation_id request \<mapsto>
       \<lparr>cm_fact = f, cm_entry_sequence = le_local_sequence e, cm_entry_hash = le_entry_hash e\<rparr>)"
proof -
  let ?E = "ln_env L"
  have v: "validate_authority_mutation_fact ?E e replay f = Inr st"
    using mutation_validates [OF plan intent e] .
  obtain detail where enc: "encode_authority_fact (en_codec ?E) ''authority_mutation'' (mo_observation_id ob)
      (jc_mutation_fact (en_codec ?E) f) = Inr detail" "mo_detail_ref ob = Some detail"
    and fid: "mf_mutation_id f = mq_mutation_id request"
    using plan by (rule mutation_plan_new) (auto simp: mutation_fact_def)
  let ?r = "replay\<lparr>ry_admin_signature_nonces := record_admin_signature_nonces (ry_admin_signature_nonces replay) (mf_changes f),
    ry_mutations := (ry_mutations replay)(mf_mutation_id f \<mapsto>
      \<lparr>cm_fact = f, cm_entry_sequence = le_local_sequence e, cm_entry_hash = le_entry_hash e\<rparr>),
    ry_state := st, ry_current_authority := Some (sr_grants_authority (mf_resulting_state f)),
    ry_canonical_fact_count := ry_canonical_fact_count replay + 1\<rparr>"
  have "\<exists>facts tail ids. fold_authority_entry ?E replay used previous e =
      Inr (?r\<lparr>ry_facts := facts, ry_tail_recovery_only := tail, ry_admin_grant_ids := ids\<rparr>, used)"
  proof (rule fold_committed [OF K enc])
    fix v1 assume "jc_mutation_fact (en_codec ?E) f = Inr v1"
    with K have "jd_mutation_fact (en_codec ?E) (canonicalize v1) = Inr f" by (simp add: fact_codec_def)
    with v new fid show "fold_fact ?E replay used previous e \<lparr>ev_schema = AUTHORITY_FACT_SCHEMA_V1,
        ev_fact_kind = ''authority_mutation'', ev_fact_id = mo_observation_id ob, ev_body = canonicalize v1\<rparr> =
        Inr (?r, used)"
      by (simp add: fold_fact_def Let_def result_simps fold_mutation_def)
  qed (use e in \<open>simp add: carries_def\<close>)
  then show ?thesis using that fid by fastforce
qed

lemma changes_special:
  assumes "apply_authority_changes E s cs = Inr t"
  shows "sta_passkey_admin t = None"
    and "\<not> list_ex (\<lambda>c. is_recovery_change c \<or> is_issue_change c) cs \<Longrightarrow>
      sta_guardian_recovery t = None \<and> sta_admin_issuance t = fmempty \<and> sta_admin_genesis t = None"
proof -
  have loop: "apply_changes_loop E s cs = Inr t \<Longrightarrow> sta_passkey_admin t = sta_passkey_admin s \<and>
      sta_guardian_recovery t = sta_guardian_recovery s \<and> sta_admin_issuance t = sta_admin_issuance s \<and>
      sta_admin_genesis t = sta_admin_genesis s" for s
    by (induction cs arbitrary: s) (auto simp: result_simps dest!: apply_change_special)
  have p: "sta_passkey_admin s = None" using assms by (simp add: apply_authority_changes_def split: if_split_asm)
  show "sta_passkey_admin t = None" using assms
  proof (cases rule: apply_authority_changes_cases)
    case (issue request decided_at)
    then show ?thesis using p by (auto elim: issuance_apply_effect)
  next
    case (recover command clock)
    then show ?thesis using p by (auto elim!: recovery_apply_effect simp: replace_root_def)
  next
    case ordinary
    then show ?thesis using p loop by auto
  qed
  show "sta_guardian_recovery t = None \<and> sta_admin_issuance t = fmempty \<and> sta_admin_genesis t = None"
    if "\<not> list_ex (\<lambda>c. is_recovery_change c \<or> is_issue_change c) cs"
    using assms
  proof (cases rule: apply_authority_changes_cases)
    case ordinary
    then show ?thesis using loop by (simp add: legacy_part_def)
  qed (use that in simp_all)
qed

text \<open>
  A mutation that was committed is the state of the replay, and a retry resolves to the same entry.
\<close>

lemma mutation_plan_cases:
  assumes "mutation_plan L w request typed_path = Inr (intent, plan)"
  obtains replay where "cached_replay w = Inr replay" "jl_authority_tenure w \<noteq> None" "\<not> is_poisoned w"
    "authority_mutation_intent_hash (ln_env L) request = Inr intent" "sta_passkey_admin (ry_state replay) = None"
    "typed_path \<or> \<not> list_ex (\<lambda>c. is_recovery_change c \<or> is_issue_change c) (mq_changes request)"
    "case ry_mutations replay (mq_mutation_id request) of
       Some existing \<Rightarrow> mf_mutation_intent_hash (cm_fact existing) = intent \<and>
         plan = ResolveExisting existing (ry_state replay)
     | None \<Rightarrow> new_mutation_plan L w request intent replay = Inr plan"
  using assms
  by (auto simp: mutation_plan_def Let_def reject_err_def result_simps split: if_split_asm option.split_asm)

lemma new_plan_commits:
  "new_mutation_plan L w request intent replay = Inr plan \<Longrightarrow> \<exists>f ob st. plan = CommitNew f ob st"
  by (rule mutation_plan_new) auto

lemma finish_newly: "newly_committed (finish_projected_mutation f s h resolution projected) \<longleftrightarrow> resolution = NewlyCommitted"
  by (cases resolution) (auto simp: finish_projected_mutation_def Let_def split: sum.split option.split)

lemma append_failure_newly: "\<not> newly_committed (append_failure mutation_id attempted e)"
  by (cases e) simp_all

lemma cached_ok: "cached_replay w = Inr replay \<longleftrightarrow> jl_authority_replay w = Inr replay"
  by (auto simp: cached_replay_def result_simps)

lemma fold_cached_ok:
  "jl_authority_replay w = Inr replay \<Longrightarrow> fold_authority_entry E replay used p e = Inr (replay', used') \<Longrightarrow>
   (a, b) = fold_cached E (jl_authority_replay w) used p e \<Longrightarrow> a = Inr replay' \<and> b = used'"
  by (simp add: fold_cached_def)

lemma validated_mutation_cases:
  assumes "execute_authority_mutation_validated L w request project typed_path outcome = (w', result)"
  obtains (idle) "w' = w" "\<not> newly_committed result"
  | (failed) ob at e where "append_canonical_before_effect L w ob at outcome = (w', Inl e)"
      "\<not> newly_committed result"
  | (committed) replay intent f ob st e where "jl_authority_replay w = Inr replay"
      "mutation_plan L w request typed_path = Inr (intent, CommitNew f ob st)"
      "ry_mutations replay (mq_mutation_id request) = None"
      "new_mutation_plan L w request intent replay = Inr (CommitNew f ob st)"
      "append_canonical_before_effect L w ob (mf_decided_at f) outcome = (w', Inr e)"
      "result = finish_projected_mutation f (le_local_sequence e) (le_entry_hash e) NewlyCommitted (project st)"
proof (cases "mutation_plan L w request typed_path")
  case (Inl reason)
  with assms idle show ?thesis by (auto simp: execute_authority_mutation_validated_def Let_def)
next
  case (Inr p)
  obtain intent plan where p: "p = (intent, plan)" by fastforce
  show ?thesis
  proof (cases plan)
    case (ResolveExisting existing state)
    with assms Inr p idle show ?thesis
      by (auto simp: execute_authority_mutation_validated_def Let_def finish_newly)
  next
    case (CommitNew f ob st)
    from Inr p obtain replay where r: "cached_replay w = Inr replay"
      "case ry_mutations replay (mq_mutation_id request) of
         Some existing \<Rightarrow> mf_mutation_intent_hash (cm_fact existing) = intent \<and>
           plan = ResolveExisting existing (ry_state replay)
       | None \<Rightarrow> new_mutation_plan L w request intent replay = Inr plan"
      by (auto elim: mutation_plan_cases)
    obtain v x where a: "append_canonical_before_effect L w ob (mf_decided_at f) outcome = (v, x)" by fastforce
    show ?thesis
    proof (cases x)
      case (Inl e)
      with assms Inr p CommitNew a show ?thesis
        by (intro failed [of ob "mf_decided_at f" e]) (auto simp: execute_authority_mutation_validated_def Let_def append_failure_newly)
    next
      case ok: (Inr e)
      from r CommitNew have "ry_mutations replay (mq_mutation_id request) = None"
        "new_mutation_plan L w request intent replay = Inr (CommitNew f ob st)"
        by (auto split: option.split_asm)
      with assms Inr p CommitNew a ok r(1) show ?thesis
        by (intro committed) (auto simp: execute_authority_mutation_validated_def Let_def cached_ok)
    qed
  qed
qed

lemma committed_mutation:
  assumes K: "fact_codec (en_codec (ln_env L))"
    and x: "execute_authority_mutation_validated L w request project typed_path outcome = (w', result)"
      "newly_committed result"
  obtains replay f sequence h replay' where
    "cached_replay w = Inr replay" "cached_replay w' = Inr replay'"
    "apply_authority_changes (ln_env L) (ry_state replay) (mq_changes request) = Inr (ry_state replay')"
    "ry_mutations replay (mq_mutation_id request) = None"
    "ry_mutations replay' = (ry_mutations replay)(mq_mutation_id request \<mapsto>
       \<lparr>cm_fact = f, cm_entry_sequence = sequence, cm_entry_hash = h\<rparr>)"
    "result = finish_projected_mutation f (sequence) (h) NewlyCommitted
       (project (ry_state replay'))"
    "mutation_plan L w' request typed_path = Inr (mf_mutation_intent_hash f,
         ResolveExisting \<lparr>cm_fact = f, cm_entry_sequence = sequence, cm_entry_hash = h\<rparr>
           (ry_state replay'))"
  using x(1)
proof (cases rule: validated_mutation_cases)
  case idle
  with x(2) show ?thesis by simp
next
  case failed
  with x(2) show ?thesis by simp
next
  case (committed replay intent f ob st e)
  from committed(2) have plan: "jl_authority_tenure w \<noteq> None" "\<not> is_poisoned w"
    "authority_mutation_intent_hash (ln_env L) request = Inr intent"
    "typed_path \<or> \<not> list_ex (\<lambda>c. is_recovery_change c \<or> is_issue_change c) (mq_changes request)"
    by (auto elim: mutation_plan_cases)
  from committed(5) obtain c: "carries w ob (mf_decided_at f) e" "\<not> is_poisoned w'"
    "(jl_authority_replay w', jl_used_epochs w') =
      fold_cached (ln_env L) (jl_authority_replay w) (jl_used_epochs w) (previous_link w) e"
    "jl_authority_tenure w' = jl_authority_tenure w"
    by (cases rule: committed_cases) auto
  obtain replay' where r: "fold_authority_entry (ln_env L) replay (jl_used_epochs w) (previous_link w) e = Inr (replay', jl_used_epochs w)"
    "ry_state replay' = st"
    "ry_mutations replay' = (ry_mutations replay)(mq_mutation_id request \<mapsto>
       \<lparr>cm_fact = f, cm_entry_sequence = le_local_sequence e, cm_entry_hash = le_entry_hash e\<rparr>)"
    using mutation_folds [OF K committed(4) plan(3) c(1) committed(3)] by metis
  have w': "jl_authority_replay w' = Inr replay'"
    using fold_cached_ok [OF committed(1) r(1) c(3)] by simp
  have st: "apply_authority_changes (ln_env L) (ry_state replay) (mq_changes request) = Inr st"
    and f: "mf_mutation_intent_hash f = intent"
    using committed(4) by (auto elim!: mutation_plan_new simp: mutation_fact_def)
  note sp = changes_special [OF st]
  have "mutation_plan L w' request typed_path = Inr (mf_mutation_intent_hash f,
      ResolveExisting \<lparr>cm_fact = f, cm_entry_sequence = le_local_sequence e, cm_entry_hash = le_entry_hash e\<rparr> st)"
    using plan c(2,4) w' r sp f
    by (auto simp: mutation_plan_def Let_def reject_err_def result_simps cached_replay_def)
  then show ?thesis using committed w' r st
    by (intro that [of replay replay' f "le_local_sequence e" "le_entry_hash e"]) (auto simp: cached_ok)
qed

section \<open>The other facts\<close>

lemma fold_known_fact:
  assumes K: "fact_codec (en_codec E)"
    and enc: "encode_authority_fact (en_codec E) kind (mo_observation_id ob) jv = Inr detail"
    and e: "mo_detail_ref ob = Some detail" "le_observation e = ob"
    and fact: "\<And>v. jv = Inr v \<Longrightarrow> \<exists>acc. fold_fact E r u p e \<lparr>ev_schema = AUTHORITY_FACT_SCHEMA_V1,
        ev_fact_kind = kind, ev_fact_id = mo_observation_id ob, ev_body = canonicalize v\<rparr> = Inr acc"
  shows "\<exists>acc. fold_authority_entry E r u p e = Inr acc"
proof -
  from enc obtain v where v: "jv = Inr v"
    by (auto simp: encode_authority_fact_def canonical_json_bytes_def result_simps)
  obtain r1 u1 where f: "fold_fact E r u p e \<lparr>ev_schema = AUTHORITY_FACT_SCHEMA_V1,
        ev_fact_kind = kind, ev_fact_id = mo_observation_id ob, ev_body = canonicalize v\<rparr> = Inr (r1, u1)"
    using fact [OF v] by (metis surj_pair)
  show ?thesis using fold_committed [OF K enc e, of r u p r1 u1] v f by fastforce
qed

lemma predecessor_link:
  "actual_predecessor w = Inr predecessor \<Longrightarrow>
   (if jl_next_sequence w = 0 then previous_link w = None \<and> predecessor = NoneForVirgin
    else \<exists>sequence h. previous_link w = Some (sequence, h) \<and> predecessor = ValidatedHead sequence h)"
  by (auto simp: actual_predecessor_def head_predecessor_def previous_link_def link_def result_simps
      checked_sub_u64_def split: if_split_asm option.split)

lemma startup_related:
  assumes "startup_matches startup replay (jl_next_sequence w = 0) predecessor"
    and "actual_predecessor w = Inr predecessor"
  shows "startup_relation_valid (previous_link w) replay (epoch_fact w startup replay epoch h at)"
  using assms(1) predecessor_link [OF assms(2)]
  by (cases "sv_startup_class startup"; cases "jl_next_sequence w = 0"; cases "ry_current_authority replay")
     (auto simp: startup_matches_def startup_relation_valid_def Let_def epoch_fact_def)

lemma epoch_length: "length (concat (map byte_hex bytes)) = 2 * length bytes"
  by (induction bytes) (simp_all add: byte_hex_def)

lemma tenure_folds_to:
  assumes K: "fact_codec (en_codec (ln_env L))" and r: "jl_authority_replay w = Inr replay"
    and plan: "tenure_plan L w startup entropy started_at = Inr (f, ob)" and fresh: "fresh_entropy w entropy"
    and e: "carries w ob started_at e"
  shows "\<exists>facts tail ids. fold_authority_entry (ln_env L) replay (jl_used_epochs w) (previous_link w) e =
    Inr (replay\<lparr>ry_current_authority := Some (ef_resulting_authority f),
      ry_canonical_fact_count := ry_canonical_fact_count replay + 1,
      ry_facts := facts, ry_tail_recovery_only := tail, ry_admin_grant_ids := ids\<rparr>,
      insert (ef_authority_epoch f) (jl_used_epochs w))"
proof -
  let ?E = "ln_env L"
  from plan r obtain predecessor h epoch detail at where p: "actual_predecessor w = Inr predecessor"
    "authority_state_hash ?E (ry_state replay) = Inr h"
    "startup_matches startup replay (jl_next_sequence w = 0) predecessor"
    "fresh_authority_epoch entropy = Inr epoch" "f = epoch_fact w startup replay epoch h started_at"
    "encode_epoch_fact (en_codec ?E) (epoch_fact_id epoch) f = Inr detail"
    "Timestamp_new (en_jiff ?E) started_at = Inr at" "ob = epoch_observation f at detail"
    by (auto simp: tenure_plan_def Let_def result_simps cached_replay_def split: if_split_asm)
  from p(4) obtain bytes where b: "entropy = Inr bytes" "epoch = AUTHORITY_EPOCH_PREFIX_V1 @ concat (map byte_hex bytes)"
    by (auto simp: fresh_authority_epoch_def result_simps)
  with fresh p(4) have ep: "epoch \<notin> jl_used_epochs w" "starts_with epoch AUTHORITY_EPOCH_PREFIX_V1"
    "length epoch = length AUTHORITY_EPOCH_PREFIX_V1 + 64"
    by (auto simp: fresh_entropy_def starts_with_def epoch_length)
  have ob: "mo_observation_id ob = epoch_fact_id epoch" "mo_detail_ref ob = Some detail"
    by (simp_all add: p(5,8) epoch_observation_def epoch_fact_def canonical_observation_def)
  have "validate_epoch_fact ?E (previous_link w) e replay (jl_used_epochs w) f = Inr ()"
    using p(2,7) e ep startup_related [OF p(3,1)]
    by (simp add: validate_epoch_fact_def result_simps carrier_ok_def carries_def p(5,8) epoch_observation_def
        canonical_observation_def is_ok_def identity_of_entry_def)
       (simp add: epoch_fact_def)
  then have v: "fold_epoch ?E replay (jl_used_epochs w) (previous_link w) e f =
      Inr (replay\<lparr>ry_current_authority := Some (ef_resulting_authority f),
        ry_canonical_fact_count := ry_canonical_fact_count replay + 1\<rparr>,
        insert (ef_authority_epoch f) (jl_used_epochs w))"
    by (simp add: fold_epoch_def result_simps)
  show ?thesis
  proof (rule fold_committed [OF K])
    show "encode_authority_fact (en_codec ?E) ''epoch_established'' (mo_observation_id ob)
        (jc_epoch_fact (en_codec ?E) f) = Inr detail"
      using p(6) ob(1) by (simp add: encode_epoch_fact_def)
    fix v1 assume "jc_epoch_fact (en_codec ?E) f = Inr v1"
    with K have "jd_epoch_fact (en_codec ?E) (canonicalize v1) = Inr f" by (simp add: fact_codec_def)
    with v show "fold_fact ?E replay (jl_used_epochs w) (previous_link w) e
        \<lparr>ev_schema = AUTHORITY_FACT_SCHEMA_V1, ev_fact_kind = ''epoch_established'',
         ev_fact_id = mo_observation_id ob, ev_body = canonicalize v1\<rparr> =
        Inr (replay\<lparr>ry_current_authority := Some (ef_resulting_authority f),
          ry_canonical_fact_count := ry_canonical_fact_count replay + 1\<rparr>,
          insert (ef_authority_epoch f) (jl_used_epochs w))"
      by (simp add: fold_fact_def Let_def result_simps)
  qed (use ob e in \<open>simp_all add: carries_def\<close>)
qed

lemma tenure_folds:
  assumes "fact_codec (en_codec (ln_env L))" and "jl_authority_replay w = Inr replay"
    and "tenure_plan L w startup entropy started_at = Inr (f, ob)" and "fresh_entropy w entropy"
    and "carries w ob started_at e"
  shows "\<exists>acc. fold_authority_entry (ln_env L) replay (jl_used_epochs w) (previous_link w) e = Inr acc"
  using tenure_folds_to [OF assms] by blast

lemma import_folds:
  assumes K: "fact_codec (en_codec (ln_env L))" and r: "jl_authority_replay w = Inr replay"
    and plan: "import_plan L w request principal_ref imported decided_at = Inr (f, ob)"
    and e: "carries w ob decided_at e"
  shows "\<exists>acc. fold_authority_entry (ln_env L) replay (jl_used_epochs w) (previous_link w) e = Inr acc"
proof -
  let ?E = "ln_env L"
  from plan r obtain prior h h' generation detail at where p: "\<not> ry_imported replay" "ry_mutations replay = Map.empty"
    "ry_current_authority replay = Some prior" "state_is_legacy imported" "state_is_legacy (ry_state replay)"
    "authority_state_hash ?E imported = Inr h'" "h' = iq_expected_sqlite_authority_hash request"
    "authority_state_hash ?E (ry_state replay) = Inr h" "checked_add_u64 (gi_generation prior) 1 = Some generation"
    "iq_confirmation request = LEGACY_AUTHORITY_IMPORT_CONFIRMATION_V1"
    "f = import_fact w request principal_ref imported decided_at prior h h' generation"
    "encode_authority_fact (en_codec ?E) ''legacy_authority_import'' (import_fact_id (iq_import_id request))
       (jc_import_fact (en_codec ?E) f) = Inr detail"
    "ob = canonical_observation (import_fact_id (iq_import_id request)) at OK_OperatorActionRecorded SP_Operator
       (''trace:legacy-authority-import:'' @ li_import_id f) (li_mother_node_id f) (li_ledger_id f)
       (gi_generation (sr_grants_authority (li_resulting_state f)))
       ''legacy Toy authority imported as canonical'' detail"
    by (auto simp: import_plan_def Let_def reject_err_def result_simps cached_replay_def
        legacy_import_observation_def split: if_split_asm)
  have "validate_watch_scope_state ?E imported = Inr ()"
    using p(6) by (auto simp: authority_state_hash_def and_then_unit result_simps)
  then have "validate_legacy_import_fact ?E e replay f = Inr ()"
    using p e by (simp add: validate_legacy_import_fact_def Let_def result_simps ok_or_def carrier_ok_def carries_def
        canonical_observation_def identity_of_entry_def import_fact_def)
  with p(1,2) have v: "\<exists>acc. fold_import ?E replay e f = Inr acc" by (simp add: fold_import_def result_simps)
  show ?thesis
  proof (rule fold_known_fact [OF K])
    show "encode_authority_fact (en_codec ?E) ''legacy_authority_import'' (mo_observation_id ob)
        (jc_import_fact (en_codec ?E) f) = Inr detail"
      using p(12,13) by simp
    fix v1 assume "jc_import_fact (en_codec ?E) f = Inr v1"
    with K have "jd_import_fact (en_codec ?E) (canonicalize v1) = Inr f" by (simp add: fact_codec_def)
    with v show "\<exists>acc. fold_fact ?E replay (jl_used_epochs w) (previous_link w) e
        \<lparr>ev_schema = AUTHORITY_FACT_SCHEMA_V1, ev_fact_kind = ''legacy_authority_import'',
         ev_fact_id = mo_observation_id ob, ev_body = canonicalize v1\<rparr> = Inr acc"
      by (auto simp: fold_fact_def Let_def result_simps)
  qed (use p(13) e in \<open>simp_all add: carries_def\<close>)
qed

text \<open>A writer whose next sequence is the first has seen nothing, as long as its file is addressable.\<close>

lemma virgin_writer:
  assumes "writer_inv L w" and "length (jl_file w) < 2 ^ 64" and "jl_next_sequence w = 0"
  shows "jl_used_epochs w = {} \<and> jl_previous_hash w = None \<and> jl_authority_replay w = Inr empty_authority_replay"
proof -
  obtain efs ids lost t n where w: "writer_holds L w efs ids lost t n" using assms(1) by (rule writer_invE)
  then have c: "chain L (jl_ledger_id w) (jl_mother_node_id w) empty_scan_state efs (scan_view w ids)"
    and l: "length (file_bytes efs) \<le> length (jl_file w)" by (simp_all add: writer_holds_def)
  have "length efs < 2 ^ 64" using chain_length [OF c] l assms(2) by simp
  moreover have "of_nat (length efs) = (0 :: u64)" using chain_fields [OF c] assms(3) by (simp add: scan_view_def)
  ultimately have "efs = []" using unat_of_nat [of "length efs", where 'a = 64] by simp
  with c have "scan_view w ids = empty_scan_state" by simp
  then show ?thesis by (simp add: scan_view_def empty_scan_state_def)
qed

lemma genesis_folds:
  assumes K: "fact_codec (en_codec E)" and valid: "genesis_validate E (gf_request f) = Inr ()"
    and ob: "genesis_observation (en_codec E) f = Inr ob"
    and e: "carries w ob (ts_value (gf_decided_at f)) e" "jl_next_sequence w = 0" "jl_previous_hash w = None"
      "gn_mother_node_id (gq_intent (gf_request f)) = jl_mother_node_id w"
      "gn_ledger_id (gq_intent (gf_request f)) = jl_ledger_id w"
  shows "\<exists>acc. fold_authority_entry E empty_authority_replay {} (previous_link w) e = Inr acc"
proof -
  from ob obtain detail where d: "encode_authority_fact (en_codec E) ''admin_genesis'' (mo_observation_id ob)
      (jc_genesis_fact (en_codec E) f) = Inr detail" "mo_detail_ref ob = Some detail"
    by (auto simp: genesis_observation_def Let_def result_simps)
  have "previous_link w = None" using e(3) by (simp add: previous_link_def link_def split: option.split)
  with valid ob e have v: "\<exists>acc. replay_genesis E empty_authority_replay {} (previous_link w) e f = Inr acc"
    by (simp add: replay_genesis_def Let_def result_simps carries_def empty_authority_replay_def)
  show ?thesis
  proof (rule fold_known_fact [OF K d])
    fix v1 assume "jc_genesis_fact (en_codec E) f = Inr v1"
    with K have "jd_genesis_fact (en_codec E) (canonicalize v1) = Inr f" by (simp add: fact_codec_def)
    with v show "\<exists>acc. fold_fact E empty_authority_replay {} (previous_link w) e
        \<lparr>ev_schema = AUTHORITY_FACT_SCHEMA_V1, ev_fact_kind = ''admin_genesis'',
         ev_fact_id = mo_observation_id ob, ev_body = canonicalize v1\<rparr> = Inr acc"
      by (simp add: fold_fact_def Let_def result_simps)
  qed (use e in \<open>simp add: carries_def\<close>)
qed

lemma passkey_folds:
  assumes K: "fact_codec (en_codec E)" and ob: "passkey_observation E f = Inr ob"
    and t: "passkey_transition E replay f = Inr nxt" "passkey_identity E f = Inr identity"
    and e: "carries w ob (ts_value (kf_decided_at f)) e"
      "pi_mother_node_id (pr_intent (kf_request f)) = jl_mother_node_id w"
      "pi_ledger_id (pr_intent (kf_request f)) = jl_ledger_id w"
    and first: "sta_passkey_admin (ry_state replay) = None \<Longrightarrow>
      jl_next_sequence w = 0 \<and> jl_previous_hash w = None \<and> used = {}"
  shows "\<exists>acc. fold_authority_entry E replay used (previous_link w) e = Inr acc"
proof -
  from ob obtain detail where d: "encode_authority_fact (en_codec E) ''passkey_admin'' (mo_observation_id ob)
      (jc_passkey_fact (en_codec E) f) = Inr detail" "mo_detail_ref ob = Some detail"
    by (auto simp: passkey_observation_def Let_def result_simps)
  have "sta_passkey_admin (ry_state replay) = None \<Longrightarrow> previous_link w = None"
    using first by (simp add: previous_link_def link_def split: option.split)
  with ob t e first have v: "\<exists>acc. passkey_replay_fact E replay used (previous_link w) e f = Inr acc"
    by (auto simp: passkey_replay_fact_def Let_def result_simps carries_def)
  show ?thesis
  proof (rule fold_known_fact [OF K d])
    fix v1 assume "jc_passkey_fact (en_codec E) f = Inr v1"
    with K have "jd_passkey_fact (en_codec E) (canonicalize v1) = Inr f" by (simp add: fact_codec_def)
    with v show "\<exists>acc. fold_fact E replay used (previous_link w) e
        \<lparr>ev_schema = AUTHORITY_FACT_SCHEMA_V1, ev_fact_kind = ''passkey_admin'',
         ev_fact_id = mo_observation_id ob, ev_body = canonicalize v1\<rparr> = Inr acc"
      by (simp add: fold_fact_def Let_def result_simps)
  qed (use e in \<open>simp add: carries_def\<close>)
qed

text \<open>An ordinary observation carries no fact.\<close>

lemma ordinary_folds:
  assumes "validate_ordinary_observation (le_observation e) = Inr ()"
  shows "\<exists>acc. fold_authority_entry E replay used previous e = Inr acc"
proof -
  have "authority_payload e = None"
  proof (rule ccontr)
    assume "authority_payload e \<noteq> None"
    then obtain d r where "mo_detail_ref (le_observation e) = Some d" "d = AUTHORITY_FACT_DETAIL_PREFIX @ r"
      by (auto simp: authority_payload_def strip_prefix_Some split: option.split_asm)
    with assms show False
      by (simp add: validate_ordinary_observation_def opt_starts_with_def starts_with_def
          AUTHORITY_FACT_DETAIL_PREFIX_def split: if_split_asm)
  qed
  then show ?thesis by (simp add: fold_authority_entry_def fold_authority_entry_body_def result_simps)
qed

section \<open>No operation breaks the replay\<close>

definition replays :: "JsonlObservationLedger \<Rightarrow> bool" where
  "replays w \<longleftrightarrow> (\<exists>replay. jl_authority_replay w = Inr replay)"

lemma fold_cached_replays:
  "jl_authority_replay w = Inr replay \<Longrightarrow> \<exists>acc. fold_authority_entry E replay used p e = Inr acc \<Longrightarrow>
   (jl_authority_replay w', u) = fold_cached E (jl_authority_replay w) used p e \<Longrightarrow> replays w'"
  by (auto simp: fold_cached_def replays_def)

lemma committed_replays:
  assumes a: "append_canonical_before_effect L w ob at outcome = (w', x)" and r: "jl_authority_replay w = Inr replay"
    and fold: "\<And>e. carries w ob at e \<Longrightarrow>
      \<exists>acc. fold_authority_entry (ln_env L) replay (jl_used_epochs w) (previous_link w) e = Inr acc"
  shows "replays w'"
  using a
proof (cases rule: committed_cases)
  case (acked e)
  then show ?thesis using fold_cached_replays [OF r fold [OF acked(4)] acked(5)] by simp
qed (use r in \<open>simp add: replays_def\<close>)

lemma ledger_append_replays:
  assumes a: "ledger_append L w ob at dc es outcome = (w', x)" and "replays w"
  shows "replays w'"
proof (cases "validate_ordinary_observation ob")
  case (Inr u)
  from assms(2) obtain replay where r: "jl_authority_replay w = Inr replay" by (auto simp: replays_def)
  from a Inr have "append_canonical L w ob at dc es outcome = (w', x)" by (simp add: ledger_append_def)
  then show ?thesis
  proof (cases rule: append_canonical_cases)
    case (acked e)
    then have "\<exists>acc. fold_authority_entry (ln_env L) replay (jl_used_epochs w) (previous_link w) e = Inr acc"
      using Inr by (intro ordinary_folds) simp
    then show ?thesis by (rule fold_cached_replays [OF r _ acked(11)])
  qed (use r in \<open>simp add: replays_def\<close>)
qed (use assms in \<open>simp add: ledger_append_def\<close>)

lemma batch_loop_replays:
  "append_batch_loop L show_error w at acked obs = (w', x) \<Longrightarrow> replays w \<Longrightarrow> replays w'"
proof (induction L show_error w at acked obs rule: append_batch_loop.induct)
  case (2 L show_error w at acked ob outcome rest)
  obtain v y where v: "append_before_effect L w ob at outcome = (v, y)" by fastforce
  then have "replays v" using 2(3) by (auto simp: append_before_effect_def intro: ledger_append_replays)
  with v 2 show ?case by (cases y) auto
qed simp

lemma prepare_ordinary:
  "prepare_batch L w at dc es sequence h obs = Inr prepared \<Longrightarrow>
   list_all (\<lambda>p. validate_ordinary_observation (le_observation (fst p)) = Inr ()) prepared"
proof (induction obs arbitrary: sequence h prepared)
  case (Cons ob obs)
  then show ?case by (fastforce simp: result_simps seal_entry_def unhashed_entry_def Let_def)
qed simp

lemma acknowledged_replays:
  "list_all (\<lambda>p. validate_ordinary_observation (le_observation (fst p)) = Inr ()) prepared \<Longrightarrow> replays w \<Longrightarrow>
   replays (foldl (acknowledge_entry L) w prepared)"
proof (induction prepared arbitrary: w)
  case (Cons p ps)
  obtain e frm where p: "p = (e, frm)" by fastforce
  from Cons.prems(2) obtain replay where r: "jl_authority_replay w = Inr replay" by (auto simp: replays_def)
  let ?l = "map_option (\<lambda>h. (saturating_sub_u64 (le_local_sequence e) 1, h)) (le_previous_entry_hash e)"
  have "\<exists>acc. fold_authority_entry (ln_env L) replay (jl_used_epochs w) ?l e = Inr acc"
    using Cons.prems(1) p by (intro ordinary_folds) simp
  then have "replays (acknowledge_entry L w p)"
    using r by (auto simp: p replays_def acknowledge_entry_def record_committed_entry_def Let_def fold_cached_def)
  with Cons show ?case by simp
qed simp

lemma durable_batch_replays:
  assumes "append_durable_batch L w obs at dc es outcome = (w', x)" and "replays w"
  shows "replays w'"
proof (cases "is_poisoned w \<or> (\<forall>p ps. prepare_batch L w at dc es (jl_next_sequence w) (jl_previous_hash w) obs \<noteq> Inr (p # ps))")
  case True
  with assms show ?thesis by (auto simp: append_durable_batch_def split: sum.split_asm list.split_asm if_split_asm)
next
  case False
  then obtain p ps where p: "prepare_batch L w at dc es (jl_next_sequence w) (jl_previous_hash w) obs = Inr (p # ps)"
    by blast
  obtain v y where a: "append_frame w (concat (map snd (p # ps))) outcome = (v, y)" by fastforce
  then show ?thesis
  proof (cases rule: append_frame_cases)
    case ok
    have "replays (foldl (acknowledge_entry L) v (p # ps))"
      using ok(2) assms(2) by (intro acknowledged_replays prepare_ordinary [OF p]) (simp add: replays_def)
    with False p a ok(3) assms(1) show ?thesis by (simp add: append_durable_batch_def)
  next
    case (failed n e)
    with False p a assms show ?thesis by (auto simp: append_durable_batch_def replays_def)
  qed
qed

lemma tenure_replays:
  assumes K: "fact_codec (en_codec (ln_env L))" and "replays w" and fresh: "fresh_entropy w entropy"
    and x: "begin_authority_tenure_with_startup L w startup entropy started_at outcome = (w', r)"
  shows "replays w'"
proof (cases "jl_authority_tenure w = None \<and> (\<exists>p. tenure_plan L w startup entropy started_at = Inr p)")
  case True
  then obtain f ob where p: "tenure_plan L w startup entropy started_at = Inr (f, ob)" by fastforce
  obtain replay where q: "jl_authority_replay w = Inr replay" using assms(2) by (auto simp: replays_def)
  obtain v y where a: "append_canonical_before_effect L w ob started_at outcome = (v, y)" by fastforce
  have "replays v"
    by (rule committed_replays [OF a q]) (rule tenure_folds [OF K q p fresh])
  with True p a x show ?thesis
    by (cases y) (auto simp: begin_authority_tenure_with_startup_def replays_def)
next
  case False
  with x assms(2) show ?thesis
    by (cases "tenure_plan L w startup entropy started_at")
       (auto simp: begin_authority_tenure_with_startup_def split: if_split_asm)
qed

lemma mutation_replays:
  assumes K: "fact_codec (en_codec (ln_env L))" and "replays w"
    and x: "execute_authority_mutation_validated L w request project typed_path outcome = (w', r)"
  shows "replays w'"
  using x
proof (cases rule: validated_mutation_cases)
  case (failed ob at e)
  then show ?thesis using assms(2) by (auto elim: committed_cases simp: replays_def)
next
  case (committed replay intent f ob st e)
  have i: "authority_mutation_intent_hash (ln_env L) request = Inr intent"
    using committed(2) by (rule mutation_plan_cases)
  show ?thesis
  proof (rule committed_replays [OF committed(5,1)])
    fix e' assume c: "carries w ob (mf_decided_at f) e'"
    show "\<exists>acc. fold_authority_entry (ln_env L) replay (jl_used_epochs w) (previous_link w) e' = Inr acc"
      by (rule mutation_folds [OF K committed(4) i c committed(3), of "jl_used_epochs w" "previous_link w"]) blast
  qed
qed (use assms(2) in simp)

lemma inner_mutation_replays:
  "fact_codec (en_codec (ln_env L)) \<Longrightarrow> replays w \<Longrightarrow>
   execute_authority_mutation_inner L w request project typed_path outcome = (w', r) \<Longrightarrow> replays w'"
  by (auto simp: execute_authority_mutation_inner_def split: if_split_asm intro: mutation_replays)

lemma import_replays:
  assumes K: "fact_codec (en_codec (ln_env L))" and "replays w"
    and x: "execute_legacy_authority_import L w request principal_ref imported decided_at outcome = (w', r)"
  shows "replays w'"
proof (cases "import_plan L w request principal_ref imported decided_at")
  case (Inl reason)
  with x assms(2) show ?thesis by (simp add: execute_legacy_authority_import_def Let_def)
next
  case (Inr p)
  obtain f ob where p: "import_plan L w request principal_ref imported decided_at = Inr (f, ob)"
    using Inr by (cases p) simp
  obtain replay where q: "jl_authority_replay w = Inr replay" using assms(2) by (auto simp: replays_def)
  obtain v y where a: "append_canonical_before_effect L w ob decided_at outcome = (v, y)" by fastforce
  have "replays v" by (rule committed_replays [OF a q]) (rule import_folds [OF K q p])
  with p a x show ?thesis by (cases y) (auto simp: execute_legacy_authority_import_def Let_def)
qed

lemma issuance_replays:
  "fact_codec (en_codec (ln_env L)) \<Longrightarrow> replays w \<Longrightarrow>
   execute_admin_key_issuance_at L w request now outcome = (w', r) \<Longrightarrow> replays w'"
  by (auto simp: execute_admin_key_issuance_at_def Let_def intro: inner_mutation_replays
      split: sum.split_asm prod.split_asm)

lemma recovery_replays:
  assumes "fact_codec (en_codec (ln_env L))" and "replays w"
    and x: "execute_guardian_recovery_with_clock L w ident command wall ms elapsed outcome = (w', r)"
  shows "replays w'"
proof -
  have keep: "replays (v\<lparr>jl_recovery_wait_offset_ms := n\<rparr>) \<longleftrightarrow> replays v" for v n
    by (simp add: replays_def)
  show ?thesis
    using x assms(2)
    by (auto simp: execute_guardian_recovery_with_clock_def keep intro: inner_mutation_replays [OF assms(1,2)]
        split: option.split_asm prod.split_asm if_split_asm)
qed

lemma genesis_replays:
  assumes K: "fact_codec (en_codec (ln_env L))" and "replays w"
    and w: "writer_inv L w" "length (jl_file w) < 2 ^ 64"
    and x: "execute_admin_genesis_at L w setup request now outcome = (w', r)"
  shows "replays w'"
proof (cases "w' = w")
  case False
  let ?f = "\<lparr>gf_request = request, gf_decided_at = now\<rparr>"
  from x False obtain ob where g: "genesis_validate (ln_env L) request = Inr ()" "jl_next_sequence w = 0"
    "gn_mother_node_id (gq_intent request) = jl_mother_node_id w" "gn_ledger_id (gq_intent request) = jl_ledger_id w"
    "genesis_observation (en_codec (ln_env L)) ?f = Inr ob"
    "append_canonical_before_effect L w ob (ts_value now) outcome = (w', r)"
    by (auto simp: execute_admin_genesis_at_def Let_def split: if_split_asm sum.split_asm option.split_asm)
  note v = virgin_writer [OF w g(2)]
  show ?thesis
  proof (rule committed_replays [OF g(6)])
    fix e assume "carries w ob (ts_value now) e"
    then show "\<exists>acc. fold_authority_entry (ln_env L) empty_authority_replay (jl_used_epochs w) (previous_link w) e = Inr acc"
      using genesis_folds [OF K _ g(5)] g v by simp
  qed (use v in simp)
qed (use assms(2) in simp)

lemma commit_passkey_replays:
  assumes K: "fact_codec (en_codec (ln_env L))" and q: "jl_authority_replay w = Inr replay"
    and first: "sta_passkey_admin (ry_state replay) = None \<Longrightarrow>
      is_lease_action (pi_action (pr_intent request)) \<or> (\<exists>s rt b. pi_action (pr_intent request) = PA_Command s rt b) \<or>
      jl_next_sequence w = 0 \<and> jl_previous_hash w = None \<and> jl_used_epochs w = {}"
    and x: "commit_passkey_at L w request time outcome = (w', r)"
  shows "replays w'"
proof (cases "w' = w")
  case True
  with q show ?thesis by (simp add: replays_def)
next
  case False
  let ?E = "ln_env L" and ?f = "\<lparr>kf_request = request, kf_decided_at = time\<rparr>"
  from x False q obtain nxt identity ob where p: "passkey_transition ?E replay ?f = Inr nxt"
    "passkey_identity ?E ?f = Inr identity" "passkey_observation ?E ?f = Inr ob"
    "pi_mother_node_id (pr_intent request) = jl_mother_node_id w" "pi_ledger_id (pr_intent request) = jl_ledger_id w"
    "append_canonical_before_effect L w ob (ts_value time) outcome = (w', r)"
    by (auto simp: commit_passkey_at_def Let_def cached_replay_def result_simps split: if_split_asm sum.split_asm)
  have "sta_passkey_admin (ry_state replay) = None \<Longrightarrow>
      jl_next_sequence w = 0 \<and> jl_previous_hash w = None \<and> jl_used_epochs w = {}"
    using first p(1)
    by (cases "pi_action (pr_intent request)") (auto simp: passkey_transition_def Let_def)
  then have "\<And>e. carries w ob (ts_value time) e \<Longrightarrow>
      \<exists>acc. fold_authority_entry ?E replay (jl_used_epochs w) (previous_link w) e = Inr acc"
    using passkey_folds [OF K p(3,1,2), of w] p(4,5) by simp
  then show ?thesis by (rule committed_replays [OF p(6) q])
qed

lemma passkey_genesis_replays:
  assumes K: "fact_codec (en_codec (ln_env L))" and r: "replays w"
    and w: "writer_inv L w" "length (jl_file w) < 2 ^ 64"
    and x: "execute_passkey_genesis_at L w setup request time outcome = (w', y)"
  shows "replays w'"
proof (cases "w' = w")
  case False
  from x False have c: "jl_next_sequence w = 0" "commit_passkey_at L w request time outcome = (w', y)"
    by (auto simp: execute_passkey_genesis_at_def split: if_split_asm sum.split_asm option.split_asm)
  note v = virgin_writer [OF w c(1)]
  show ?thesis by (rule commit_passkey_replays [OF K _ _ c(2)]) (use v c(1) in auto)
qed (use r in simp)

lemma passkey_admin_replays:
  assumes K: "fact_codec (en_codec (ln_env L))" and r: "replays w"
    and x: "execute_passkey_admin_at L w request time outcome = (w', y)"
  shows "replays w'"
proof -
  from r obtain replay where q: "jl_authority_replay w = Inr replay" by (auto simp: replays_def)
  from x r show ?thesis
    by (auto simp: execute_passkey_admin_at_def split: if_split_asm intro: commit_passkey_replays [OF K q])
qed

lemma passkey_command_replays:
  assumes K: "fact_codec (en_codec (ln_env L))" and r: "replays w"
    and x: "execute_passkey_command_with_clock L w request route scope t1 t2 effect outcome = (w', y)"
  shows "replays w'"
proof -
  from r obtain replay where q: "jl_authority_replay w = Inr replay" by (auto simp: replays_def)
  from x r show ?thesis
    by (auto simp: execute_passkey_command_with_clock_def intro: commit_passkey_replays [OF K q]
        split: PasskeyAdminActionV1.split_asm sum.split_asm prod.split_asm if_split_asm)
qed

lemmas operation_replays = ledger_append_replays batch_loop_replays durable_batch_replays
  tenure_replays [rotated 3] mutation_replays [rotated 2] inner_mutation_replays [rotated 2]
  import_replays [rotated 2] issuance_replays [rotated 2] recovery_replays [rotated 2]
  genesis_replays [rotated 4] passkey_genesis_replays [rotated 4] passkey_admin_replays [rotated 2]
  passkey_command_replays [rotated 2]

lemma public_op_replays:
  assumes "public_op L fresh_entropy w w'" and "fact_codec (en_codec (ln_env L))" and "replays w"
    and "writer_inv L w" and "length (jl_file w) < 2 ^ 64"
  shows "replays w'"
  using assms
  by (induction rule: public_op.induct)
     (auto simp: append_before_effect_def append_batch_before_effect_def execute_authority_mutation_def
       execute_guardian_recovery_def activate_guardian_policy_def rebase_guardian_recovery_clock_def
       expire_guardian_recovery_def host_recovery_def issue_guardian_recovery_challenge_def
       begin_authority_tenure_def execute_pairing_ticket_admission_def
       dest: operation_replays split: if_split_asm option.split_asm sum.split_asm)

definition replaying :: "LEnv \<Rightarrow> JsonlObservationLedger \<Rightarrow> bool" where
  "replaying L w \<longleftrightarrow> writer_ok L w \<and> fact_codec (en_codec (ln_env L)) \<and>
     (length (jl_file w) < 2 ^ 64 \<longrightarrow> replays w)"

lemma replaying_step:
  assumes "replaying L w" and "public_op L fresh_entropy w w'"
  shows "replaying L w'"
proof -
  have ok: "writer_ok L w'" and le: "writer_le w w'"
    using assms writers.inv_step writers.le_step by (auto simp: replaying_def)
  from le have "length (jl_file w) \<le> length (jl_file w')" by (auto simp: writer_le_def)
  with assms ok public_op_replays show ?thesis by (auto simp: replaying_def writer_ok_def)
qed

lemma replaying_start:
  "writer_start L w \<Longrightarrow> fact_codec (en_codec (ln_env L)) \<Longrightarrow> replays w \<Longrightarrow> replaying L w"
  by (simp add: replaying_def writer_start_ok)

interpretation replaying_writer: invariant_system
  "\<lambda>w. writer_start L w \<and> fact_codec (en_codec (ln_env L)) \<and> replays w" "public_op L fresh_entropy" "replaying L"
  by unfold_locales (auto intro: replaying_start replaying_step)

end
