(* ===== verification/MCT_Ledger_Samples.thy ===== *)
theory MCT_Ledger_Samples
  imports MCT_Commit_Laws MCT_Recovery_Properties
begin

text \<open>
  A concrete world for the ledger: serializers that satisfy the named promises on the entries and
  facts of a short history, and that history: a writer opens an empty file, begins a tenure, commits
  a mutation of the catalog and appends an ordinary observation.
\<close>

section \<open>Serializers\<close>

definition is_printable :: "char \<Rightarrow> bool" where
  "is_printable c \<longleftrightarrow> 0x21 \<le> (of_char c :: nat) \<and> (of_char c :: nat) < 0x7F"

text \<open>An entry of a table is its position followed by its hash.\<close>

fun table_index :: "'a list \<Rightarrow> 'a \<Rightarrow> nat option" where
  "table_index [] x = None"
| "table_index (y # ys) x = (if x = y then Some 0 else map_option Suc (table_index ys x))"

definition table_to_vec ::
  "MctObservationLedgerEntry list \<Rightarrow> MctObservationLedgerEntry \<Rightarrow> string + string" where
  "table_to_vec table e =
     (case table_index table (e\<lparr>le_entry_hash := []\<rparr>) of
        None \<Rightarrow> Inl ''unsupported entry''
      | Some i \<Rightarrow>
          if i < 26 \<and> list_all is_printable (le_entry_hash e)
          then Inr (char_of (65 + i) # le_entry_hash e) else Inl ''unsupported entry'')"

definition table_from_slice ::
  "MctObservationLedgerEntry list \<Rightarrow> string \<Rightarrow> string + MctObservationLedgerEntry" where
  "table_from_slice table b =
     (case b of
        [] \<Rightarrow> Inl ''empty''
      | c # h \<Rightarrow>
          let i = of_char c - (65 :: nat) in
          if 65 \<le> (of_char c :: nat) \<and> i < 26 \<and> i < length table \<and> list_all is_printable h
          then Inr ((table ! i)\<lparr>le_entry_hash := h\<rparr>) else Inl ''not an entry'')"

text \<open>The separator of the parts of an envelope.\<close>

definition SEP :: char where
  "SEP = CHR ''|''"

fun sample_json_to_vec :: "Json \<Rightarrow> string + string" where
  "sample_json_to_vec (JObject ms) =
     (case ms of
        [(a, body), (b, ident), (c, kind), (d, schema)] \<Rightarrow>
          if (a, b, c, d) = (''body'', ''fact_id'', ''fact_kind'', ''schema'')
          then (case (body, ident, kind) of
                  (JString s, JString i, JString k) \<Rightarrow>
                    if SEP \<notin> set i \<and> SEP \<notin> set k then Inr (k @ SEP # i @ SEP # s)
                    else Inl ''unsupported text''
                | _ \<Rightarrow> Inl ''unsupported body'')
          else Inr ''object''
      | _ \<Rightarrow> Inr ''object'')"
| "sample_json_to_vec v = Inr ''value''"

definition sample_envelope :: "string \<Rightarrow> string + CanonicalAuthorityEnvelopeV1" where
  "sample_envelope bytes =
     (let k = takeWhile (\<lambda>c. c \<noteq> SEP) bytes; rest = drop (Suc (length k)) bytes;
          i = takeWhile (\<lambda>c. c \<noteq> SEP) rest; s = drop (Suc (length i)) rest in
      Inr \<lparr>ev_schema = AUTHORITY_FACT_SCHEMA_V1, ev_fact_kind = k, ev_fact_id = i, ev_body = JString s\<rparr>)"

text \<open>One value of a type, under a name.\<close>

definition only_to :: "'a \<Rightarrow> string \<Rightarrow> 'a \<Rightarrow> string + Json" where
  "only_to x name y = (if y = x then Inr (JString name) else Inl ''unsupported fact'')"

definition only_from :: "'a \<Rightarrow> string \<Rightarrow> Json \<Rightarrow> string + 'a" where
  "only_from x name v = (if v = JString name then Inr x else Inl ''unsupported fact'')"

definition sample_codec :: "EpochEstablishedFactV1 \<Rightarrow> AuthorityMutationFactV1 \<Rightarrow> Codec" where
  "sample_codec f g =
     \<lparr>jc_to_vec = sample_json_to_vec, jc_change = (\<lambda>_. Inr JNull), jc_source = (\<lambda>_. Inr JNull),
      jc_contract = (\<lambda>_. Inr JNull), jc_toy_grant = (\<lambda>_. Inr JNull), jc_watch_scope = (\<lambda>_. Inr JNull),
      jc_grant = (\<lambda>_. Inr JNull), jc_ticket = (\<lambda>_. Inr JNull), jc_recovery = (\<lambda>_. Inr JNull),
      jc_issuance = (\<lambda>_. Inr JNull), jc_issue_intent = (\<lambda>_. Inr JNull), jc_genesis_intent = (\<lambda>_. Inr JNull),
      jc_passkey_request = (\<lambda>_. Inr JNull), jc_state = (\<lambda>_. Inr JNull), jc_projection_input = (\<lambda>_. Inr JNull),
      jc_epoch_fact = only_to f ''epoch'', jc_mutation_fact = only_to g ''mutation'',
      jc_import_fact = (\<lambda>_. Inl ''unsupported fact''), jc_genesis_fact = (\<lambda>_. Inl ''unsupported fact''),
      jc_passkey_fact = (\<lambda>_. Inl ''unsupported fact''), jd_envelope = sample_envelope,
      jd_epoch_fact = only_from f ''epoch'', jd_mutation_fact = only_from g ''mutation'',
      jd_import_fact = (\<lambda>_. Inl ''unsupported fact''), jd_genesis_fact = (\<lambda>_. Inl ''unsupported fact''),
      jd_passkey_fact = (\<lambda>_. Inl ''unsupported fact'')\<rparr>"

definition sample_env :: "EpochEstablishedFactV1 \<Rightarrow> AuthorityMutationFactV1 \<Rightarrow> Env" where
  "sample_env f g =
     \<lparr>en_crypto = plain_crypto, en_jiff = plain_jiff, en_serde = sample_serde, en_web = sample_web,
      en_watch_json = sample_watch_json, en_codec = sample_codec f g\<rparr>"

section \<open>The promises hold\<close>

lemma table_index_Some: "table_index xs x = Some i \<Longrightarrow> i < length xs \<and> xs ! i = x"
  by (induction xs arbitrary: i) (auto split: if_split_asm)

lemma printable_text: "list_all is_printable h \<Longrightarrow> c \<in> set h \<Longrightarrow> c \<noteq> NL \<and> c \<noteq> CHR 0x0D"
  by (auto simp: list_all_iff is_printable_def NL_def)

lemma printable_utf8: "list_all is_printable h \<Longrightarrow> utf8_valid (utf8_bytes h)"
proof (induction h rule: rev_induct)
  case (snoc c h)
  then have "utf8_valid (utf8_bytes h)" "of_char c < (0x80 :: nat)" by (auto simp: is_printable_def)
  then show ?case by (simp add: utf8_bytes_def utf8_valid_snoc)
qed (simp add: utf8_bytes_def)

lemma table_printable: "table_from_slice table b = Inr e \<Longrightarrow> b \<noteq> [] \<and> list_all is_printable b"
  by (auto simp: table_from_slice_def Let_def is_printable_def split: list.split_asm if_split_asm)

lemma table_roundtrip: "table_to_vec table e = Inr b \<Longrightarrow> table_from_slice table b = Inr e"
  by (auto simp: table_to_vec_def table_from_slice_def dest!: table_index_Some split: option.split_asm if_split_asm)

lemma table_entry_codec:
  "ln_entry_to_vec L = table_to_vec table \<Longrightarrow> ln_entry_from_slice L = table_from_slice table \<Longrightarrow> entry_codec L"
  unfolding entry_codec_def using table_roundtrip table_printable printable_text by metis

lemma table_line_codec:
  assumes "ln_entry_from_slice L = table_from_slice table"
  shows "line_codec L"
  unfolding line_codec_def assms
proof (intro allI impI)
  fix b e assume "table_from_slice table b = Inr e"
  then have p: "b \<noteq> []" "list_all is_printable b" using table_printable by blast+
  then have "\<not> trim_is_empty b" by (cases b) (auto simp: is_printable_def trim_is_empty_visible)
  moreover have "\<not> ends_with b [CHR 0x0D]"
    using p by (cases b rule: rev_cases) (auto simp: ends_with_char is_printable_def)
  ultimately show "utf8_valid (utf8_bytes b) \<and> \<not> trim_is_empty b \<and> (ends_with b [CHR 0x0D] \<longrightarrow>
      \<not> trim_is_empty (butlast b) \<and> table_from_slice table (butlast b) = Inr e)"
    using p(2) by (simp add: printable_utf8)
qed

lemma canonical_envelope:
  "canonicalize (envelope_json kind ident body) =
     JObject [(''body'', canonicalize body), (''fact_id'', JString ident), (''fact_kind'', JString kind),
       (''schema'', JString AUTHORITY_FACT_SCHEMA_V1)]"
  by (simp add: envelope_json_def json_collect_def)

lemma sample_envelope_text:
  "SEP \<notin> set i \<Longrightarrow> SEP \<notin> set k \<Longrightarrow> sample_envelope (k @ SEP # i @ SEP # s) =
     Inr \<lparr>ev_schema = AUTHORITY_FACT_SCHEMA_V1, ev_fact_kind = k, ev_fact_id = i, ev_body = JString s\<rparr>"
proof -
  have "SEP \<notin> set xs \<Longrightarrow> takeWhile (\<lambda>c. c \<noteq> SEP) (xs @ SEP # ys) = xs" for xs ys
    by (induction xs) auto
  moreover assume "SEP \<notin> set i" "SEP \<notin> set k"
  ultimately show ?thesis by (simp add: sample_envelope_def)
qed

lemma sample_fact_codec: "fact_codec (sample_codec f g)"
  unfolding fact_codec_def
  by (auto simp: sample_codec_def only_to_def only_from_def canonical_envelope sample_envelope_text
      split: if_split_asm Json.split_asm)

section \<open>The history\<close>

definition sample_writer :: JsonlObservationLedger where
  "sample_writer = opened_ledger ''p'' ''ledger'' ''mother'' True empty_scan_state None []"

definition sample_entropy :: string where
  "sample_entropy = replicate 32 (CHR ''e'')"

definition sample_epoch :: string where
  "sample_epoch = AUTHORITY_EPOCH_PREFIX_V1 @ concat (map byte_hex sample_entropy)"

text \<open>The text of every object but an envelope is the same, and so is its digest.\<close>

definition sample_digest :: string where
  "sample_digest = hex_encode ''object''"

definition sample_startup :: AuthorityTenureStartupEvidenceV1 where
  "sample_startup =
     \<lparr>sv_startup_class = Virgin, sv_expected_predecessor = NoneForVirgin, sv_expected_prior_authority = None,
      sv_expected_authority_state_hash = sample_digest,
      sv_inventory_hash = ''legacy-inferred-startup-evidence'', sv_operator_gate_decision_id = None,
      sv_authenticated_principal_ref = None\<rparr>"

definition sample_epoch_fact :: EpochEstablishedFactV1 where
  "sample_epoch_fact =
     epoch_fact sample_writer sample_startup empty_authority_replay sample_epoch sample_digest ''0''"

definition sample_contract :: ToyContractIdentity where
  "sample_contract =
     \<lparr>ti_namespace = ''ns'', ti_interface_name = ''if'', ti_version = ''1'', ti_function_name = None,
      ti_resource_name = None\<rparr>"

definition sample_change :: AuthorityChangeV1 where
  "sample_change = ToyCatalogPut ''toy'' sample_contract True 1 ''obs''"

definition sample_state :: AuthorityStateV1 where
  "sample_state = AuthorityStateV1_default\<lparr>sta_toy_catalog := fmupd ''toy''
     \<lparr>ct_toy_id = ''toy'', ct_contract = sample_contract, ct_authority_bearing = True, ct_catalog_revision = 1,
      ct_admitted_by_observation_id = ''obs''\<rparr> fmempty\<rparr>"

definition sample_mutation_request :: AuthorityMutationRequestV1 where
  "sample_mutation_request =
     \<lparr>mq_mutation_id = ''m1'', mq_changes = [sample_change],
      mq_grant_shaping_sources = [OperatorDecision ''d'' ''operator'' GrantChange], mq_decided_at = ''1''\<rparr>"

definition sample_mutation :: AuthorityMutationFactV1 where
  "sample_mutation = mutation_fact sample_writer sample_mutation_request sample_digest
     (ef_resulting_authority sample_epoch_fact) sample_digest sample_digest 1"

definition sample_detail :: "string \<Rightarrow> string \<Rightarrow> string \<Rightarrow> string" where
  "sample_detail kind ident body = AUTHORITY_FACT_DETAIL_PREFIX @ kind @ SEP # ident @ SEP # body"

definition sample_ob0 :: MctObservation where
  "sample_ob0 = epoch_observation sample_epoch_fact (sample_ts 0)
     (sample_detail ''epoch_established'' (epoch_fact_id sample_epoch) ''epoch'')"

definition sample_ob1 :: MctObservation where
  "sample_ob1 = canonical_observation (mutation_fact_id ''m1'') (sample_ts 1) OK_OperatorActionRecorded SP_Kernel
     ''trace:authority-mutation:m1'' ''mother'' ''ledger'' 1 ''canonical authority mutation committed''
     (sample_detail ''authority_mutation'' (mutation_fact_id ''m1'') ''mutation'')"

definition sample_ob2 :: MctObservation where
  "sample_ob2 =
     \<lparr>mo_observation_id = ''obs:2'', mo_observed_at = sample_ts 2, mo_kind = OK_OperatorActionRecorded,
      mo_source_plane = SP_Kernel, mo_trace = trace_only ''trace:2'', mo_call_id = None, mo_decision_id = None,
      mo_subject_id = None, mo_resource_id = None, mo_policy_revision = None, mo_grants_revision = None,
      mo_outcome = OO_Allowed, mo_visibility = OV_NodeOperator, mo_safe_message = ''hello'',
      mo_detail_ref = None\<rparr>"

definition sample_entries :: "MctObservationLedgerEntry list" where
  "sample_entries =
     [unhashed_entry sample_writer 0 None sample_ob0 ''0'' BeforeEffect ES_NotRequired,
      unhashed_entry sample_writer 1 (Some (hex_encode ''A'')) sample_ob1 ''1'' BeforeEffect ES_NotRequired,
      unhashed_entry sample_writer 2 (Some (hex_encode ''B'')) sample_ob2 ''2'' BeforeEffect ES_NotRequired]"

definition sample_ledger :: LEnv where
  "sample_ledger =
     \<lparr>ln_env = sample_env sample_epoch_fact sample_mutation, ln_entry_to_vec = table_to_vec sample_entries,
      ln_entry_from_slice = table_from_slice sample_entries, ln_canonicalize = id\<rparr>"

text \<open>The sealed entries, their frames, and the writer after each commit.\<close>

definition sample_mark :: "nat \<Rightarrow> char" where
  "sample_mark i = char_of (65 + i)"

definition sample_frame :: "nat \<Rightarrow> string" where
  "sample_frame i = sample_mark i # hex_encode [sample_mark i] @ [NL]"

definition sample_entry :: "nat \<Rightarrow> MctObservationLedgerEntry" where
  "sample_entry i = (sample_entries ! i)\<lparr>le_entry_hash := hex_encode [sample_mark i]\<rparr>"

definition sample_committed :: "JsonlObservationLedger \<Rightarrow> nat \<Rightarrow> JsonlObservationLedger" where
  "sample_committed w i =
     (record_committed_entry sample_ledger (w\<lparr>jl_file := jl_file w @ sample_frame i\<rparr>) (previous_link w)
        (sample_entry i) (sample_frame i))
     \<lparr>jl_previous_hash := Some (hex_encode [sample_mark i]), jl_next_sequence := jl_next_sequence w + 1\<rparr>"

definition sample_w1 :: JsonlObservationLedger where
  "sample_w1 = (sample_committed sample_writer 0)
     \<lparr>jl_authority_tenure := Some \<lparr>tn_fact = sample_epoch_fact, tn_entry = sample_entry 0\<rparr>\<rparr>"

definition sample_w2 :: JsonlObservationLedger where
  "sample_w2 = sample_committed sample_w1 1"

section \<open>The history happens\<close>

lemma sample_ledger_codecs:
  "entry_codec sample_ledger" "line_codec sample_ledger" "fact_codec (en_codec (ln_env sample_ledger))"
  by (auto simp: sample_ledger_def sample_env_def intro: table_entry_codec table_line_codec sample_fact_codec)

lemma sample_fields [simp]:
  "en_crypto (ln_env sample_ledger) = plain_crypto" "en_jiff (ln_env sample_ledger) = plain_jiff"
  "en_codec (ln_env sample_ledger) = sample_codec sample_epoch_fact sample_mutation"
  "ln_entry_to_vec sample_ledger = table_to_vec sample_entries"
  "ln_entry_from_slice sample_ledger = table_from_slice sample_entries"
  by (simp_all add: sample_ledger_def sample_env_def)

lemma sample_writer_fields [simp]:
  "jl_path sample_writer = ''p''" "jl_file sample_writer = []" "jl_ledger_id sample_writer = ''ledger''"
  "jl_mother_node_id sample_writer = ''mother''" "jl_next_sequence sample_writer = 0"
  "jl_previous_hash sample_writer = None" "jl_authority_tenure sample_writer = None"
  "jl_authority_replay sample_writer = Inr empty_authority_replay" "jl_used_epochs sample_writer = {}"
  "is_poisoned sample_writer = False" "previous_link sample_writer = None"
  by (simp_all add: sample_writer_def opened_ledger_def empty_scan_state_def is_poisoned_def previous_link_def
      link_def split: option.split)

lemma sample_committed_fields [simp]:
  "jl_path (sample_committed w i) = jl_path w" "jl_ledger_id (sample_committed w i) = jl_ledger_id w"
  "jl_mother_node_id (sample_committed w i) = jl_mother_node_id w"
  "jl_next_sequence (sample_committed w i) = jl_next_sequence w + 1"
  "jl_previous_hash (sample_committed w i) = Some (hex_encode [sample_mark i])"
  "jl_authority_tenure (sample_committed w i) = jl_authority_tenure w"
  "is_poisoned (sample_committed w i) = is_poisoned w" "jl_file (sample_committed w i) = jl_file w @ sample_frame i"
  by (simp_all add: sample_committed_def record_committed_entry_def Let_def is_poisoned_def)

lemma sample_marks [simp]: "sample_mark 0 = CHR ''A''" "sample_mark (Suc 0) = CHR ''B''" "sample_mark 2 = CHR ''C''"
  by (simp_all add: sample_mark_def char_of_eq_iff)

lemma sample_w1_fields [simp]:
  "jl_path sample_w1 = ''p''" "jl_ledger_id sample_w1 = ''ledger''" "jl_mother_node_id sample_w1 = ''mother''"
  "jl_next_sequence sample_w1 = 1" "jl_previous_hash sample_w1 = Some (hex_encode ''A'')"
  "jl_authority_tenure sample_w1 = Some \<lparr>tn_fact = sample_epoch_fact, tn_entry = sample_entry 0\<rparr>"
  "jl_authority_replay sample_w1 = jl_authority_replay (sample_committed sample_writer 0)"
  "jl_file sample_w1 = sample_frame 0" "is_poisoned sample_w1 = False"
  using sample_writer_fields(10) by (simp_all add: sample_w1_def is_poisoned_def sample_committed_def
      record_committed_entry_def Let_def)

lemma sample_w2_fields [simp]:
  "jl_path sample_w2 = ''p''" "jl_ledger_id sample_w2 = ''ledger''" "jl_mother_node_id sample_w2 = ''mother''"
  "jl_next_sequence sample_w2 = 2" "jl_previous_hash sample_w2 = Some (hex_encode ''B'')"
  "jl_file sample_w2 = sample_frame 0 @ sample_frame 1" "is_poisoned sample_w2 = False"
  by (simp_all add: sample_w2_def)

lemma printable_hex: "list_all is_printable (hex_encode x)"
  using set_hex_encode [of x] by (auto simp: list_all_iff is_printable_def hex_alphabet_def)

lemma sample_seal:
  assumes "table_index sample_entries u = Some i" "le_entry_hash u = []" "i < 26"
  shows "seal_entry sample_ledger path u = Inr (sample_entry i, sample_frame i)"
proof -
  have u: "u = sample_entries ! i" using table_index_Some [OF assms(1)] by simp
  have same: "(sample_entries ! i)\<lparr>le_entry_hash := []\<rparr> = sample_entries ! i" using assms(2) u by (cases u) simp
  show ?thesis using assms u
    by (simp add: same seal_entry_def entry_hash_def table_to_vec_def result_simps printable_hex sample_entry_def
        sample_frame_def sample_mark_def plain_blake3_hex)
qed

lemma unhashed_same:
  "jl_ledger_id w = ''ledger'' \<Longrightarrow> jl_mother_node_id w = ''mother'' \<Longrightarrow>
   unhashed_entry w sequence h ob at dc es = unhashed_entry sample_writer sequence h ob at dc es"
  by (simp add: unhashed_entry_def)

lemma sample_seals:
  "jl_ledger_id w = ''ledger'' \<Longrightarrow> jl_mother_node_id w = ''mother'' \<Longrightarrow>
     seal_entry sample_ledger path (unhashed_entry w 0 None sample_ob0 ''0'' BeforeEffect ES_NotRequired) =
       Inr (sample_entry 0, sample_frame 0) \<and>
     seal_entry sample_ledger path (unhashed_entry w 1 (Some (hex_encode ''A'')) sample_ob1 ''1'' BeforeEffect ES_NotRequired) =
       Inr (sample_entry 1, sample_frame 1) \<and>
     seal_entry sample_ledger path (unhashed_entry w 2 (Some (hex_encode ''B'')) sample_ob2 ''2'' BeforeEffect ES_NotRequired) =
       Inr (sample_entry 2, sample_frame 2)"
  by (auto simp: unhashed_same [of w] intro!: sample_seal)
     (simp_all add: sample_entries_def unhashed_entry_def)

lemma sample_append:
  assumes "\<not> is_poisoned w" "seal_entry sample_ledger (jl_path w) (unhashed_entry w (jl_next_sequence w)
      (jl_previous_hash w) ob at BeforeEffect ES_NotRequired) = Inr (sample_entry i, sample_frame i)"
  shows "append_canonical_before_effect sample_ledger w ob at IoOk = (sample_committed w i, Inr (sample_entry i))"
  using assms
  by (simp add: append_canonical_before_effect_def append_canonical_def append_frame_def sample_committed_def
      sample_entry_def)

text \<open>The facts of the first two commits.\<close>

lemma seq_nulls: "json_seq (\<lambda>_. Inr JNull) xs = Inr (JArray (map (\<lambda>_. JNull) xs))"
proof -
  have "seq_values (map (\<lambda>_. Inr JNull) xs) = Inr (map (\<lambda>_. JNull) xs)"
    by (induction xs) (simp_all add: result_simps)
  then show ?thesis by (simp add: json_seq_def result_simps)
qed

lemma default_fields [simp]:
  "sta_watch_scopes AuthorityStateV1_default = fmempty" "sta_admin_key_grants AuthorityStateV1_default = fmempty"
  "sta_pairing_tickets AuthorityStateV1_default = fmempty" "sta_toy_grants AuthorityStateV1_default = fmempty"
  "sta_toy_catalog AuthorityStateV1_default = fmempty" "sta_guardian_recovery AuthorityStateV1_default = None"
  "sta_admin_issuance AuthorityStateV1_default = fmempty" "sta_admin_genesis AuthorityStateV1_default = None"
  "sta_passkey_admin AuthorityStateV1_default = None"
  by (simp_all add: AuthorityStateV1_default_def)

lemma empty_replay_fields [simp]:
  "ry_state empty_authority_replay = AuthorityStateV1_default" "ry_current_authority empty_authority_replay = None"
  "ry_mutations empty_authority_replay = Map.empty" "ry_canonical_fact_count empty_authority_replay = 0"
  by (simp_all add: empty_authority_replay_def)

lemma sample_state_hash:
  "authority_state_hash (ln_env sample_ledger) (AuthorityStateV1_default\<lparr>sta_toy_catalog := catalog\<rparr>) = Inr sample_digest"
  by (simp add: authority_state_hash_def validate_watch_scope_state_def
      validate_admin_authority_state_def recovery_validate_state_def issuance_validate_state_def
      genesis_validate_state_def result_simps state_hash_input_def blake3_of_def canonical_json_bytes_def
      sample_digest_def plain_crypto_def sorted_list_of_fmap_def hashable_state_def skip_empty_def seq_nulls
      sample_codec_def json_collect_def)

lemma sample_hashes [simp]:
  "authority_state_hash (ln_env sample_ledger) AuthorityStateV1_default = Inr sample_digest"
  "authority_state_hash (ln_env sample_ledger) sample_state = Inr sample_digest"
  using sample_state_hash [of fmempty] sample_state_hash by (simp_all add: sample_state_def AuthorityStateV1_default_def)

lemma sample_times [simp]:
  "Timestamp_new plain_jiff ''0'' = Inr (sample_ts 0)" "Timestamp_new plain_jiff ''1'' = Inr (sample_ts 1)"
proof -
  have "dec 0 = ''0''" "dec (Suc 0) = ''1''"
    by (subst dec.simps, simp add: digit_char_def char_of_eq_iff)+
  then show "Timestamp_new plain_jiff ''0'' = Inr (sample_ts 0)" "Timestamp_new plain_jiff ''1'' = Inr (sample_ts 1)"
    by (simp_all add: Timestamp_new_def plain_jiff_def plain_parse_def sample_ts_def undec_def plain_show_def
        result_simps)
qed

lemma sample_texts [simp]: "\<not> trim_is_empty ''m1''" "\<not> trim_is_empty ''legacy-inferred-startup-evidence''"
  by (rule trim_is_empty_visible; simp)+

lemma sample_request_fields [simp]:
  "mq_mutation_id sample_mutation_request = ''m1''" "mq_changes sample_mutation_request = [sample_change]"
  "mq_decided_at sample_mutation_request = ''1''"
  "mq_grant_shaping_sources sample_mutation_request = [OperatorDecision ''d'' ''operator'' GrantChange]"
  by (simp_all add: sample_mutation_request_def)

lemma sample_change_kind [simp]:
  "is_recovery_change sample_change = False" "is_issue_change sample_change = False"
  "is_consumed_change sample_change = False" "change_signature sample_change = None"
  by (simp_all add: sample_change_def)

lemma sample_contexts [simp]:
  "issuance_validate_context ids [sample_change] auth lid mid at = Inr ()"
  "recovery_validate_context st [sample_change] auth lid at = Inr ()"
  "verify_admin_change_signatures E st used mother lid [sample_change] = Inr ()"
  by (simp_all add: issuance_validate_context_def recovery_validate_context_def verify_admin_change_signatures_def
      sample_change_def result_simps)

lemma sample_apply [simp]:
  "apply_authority_changes (ln_env sample_ledger) AuthorityStateV1_default [sample_change] = Inr sample_state"
  by (simp add: apply_authority_changes_def) (simp add: sample_change_def apply_change_def result_simps sample_state_def
      string_id_new_def)

lemma sample_intent [simp]:
  "authority_mutation_intent_hash (ln_env sample_ledger) sample_mutation_request = Inr sample_digest"
  by (simp add: authority_mutation_intent_hash_def seq_nulls sample_codec_def result_simps
      blake3_of_def canonical_json_bytes_def json_collect_def plain_crypto_def is_ok_def sample_digest_def)

lemma sample_encoded:
  "SEP \<notin> set ident \<Longrightarrow> SEP \<notin> set kind \<Longrightarrow>
   encode_authority_fact (sample_codec f g) kind ident (Inr (JString body)) = Inr (sample_detail kind ident body)"
  by (simp add: encode_authority_fact_def canonical_json_bytes_def result_simps canonical_envelope sample_detail_def
      sample_codec_def)

lemma sample_epoch_text: "SEP \<notin> set (epoch_fact_id sample_epoch)"
proof -
  have "byte_hex (CHR ''e'') = ''65''" by (simp add: byte_hex_def hex_digit_def char_of_eq_iff)
  then show ?thesis
    by (simp add: epoch_fact_id_def sample_epoch_def AUTHORITY_EPOCH_PREFIX_V1_def SEP_def sample_entropy_def)
qed

lemma sample_facts_encoded:
  "encode_epoch_fact (sample_codec sample_epoch_fact g) (epoch_fact_id sample_epoch) sample_epoch_fact =
     Inr (sample_detail ''epoch_established'' (epoch_fact_id sample_epoch) ''epoch'')"
  "encode_authority_fact (sample_codec f sample_mutation) ''authority_mutation'' (mutation_fact_id ''m1'')
     (jc_mutation_fact (sample_codec f sample_mutation) sample_mutation) =
     Inr (sample_detail ''authority_mutation'' (mutation_fact_id ''m1'') ''mutation'')"
proof -
  have "jc_epoch_fact (sample_codec sample_epoch_fact g) sample_epoch_fact = Inr (JString ''epoch'')"
    "jc_mutation_fact (sample_codec f sample_mutation) sample_mutation = Inr (JString ''mutation'')"
    by (simp_all add: sample_codec_def only_to_def)
  then show "encode_epoch_fact (sample_codec sample_epoch_fact g) (epoch_fact_id sample_epoch) sample_epoch_fact =
      Inr (sample_detail ''epoch_established'' (epoch_fact_id sample_epoch) ''epoch'')"
    "encode_authority_fact (sample_codec f sample_mutation) ''authority_mutation'' (mutation_fact_id ''m1'')
      (jc_mutation_fact (sample_codec f sample_mutation) sample_mutation) =
      Inr (sample_detail ''authority_mutation'' (mutation_fact_id ''m1'') ''mutation'')"
    using sample_encoded [OF sample_epoch_text, of "''epoch_established''"]
      sample_encoded [of "mutation_fact_id ''m1''" "''authority_mutation''"]
    by (simp_all add: encode_epoch_fact_def SEP_def mutation_fact_id_def)
qed

section \<open>The tenure\<close>

lemma sample_inferred: "inferred_startup sample_ledger sample_writer = Inr sample_startup"
  by (simp add: inferred_startup_def cached_replay_def actual_predecessor_def result_simps sample_startup_def)

lemma sample_tenure_plan:
  "tenure_plan sample_ledger sample_writer sample_startup (Inr sample_entropy) ''0'' = Inr (sample_epoch_fact, sample_ob0)"
proof -
  have "startup_matches sample_startup empty_authority_replay True NoneForVirgin"
    by (simp add: startup_matches_def sample_startup_def)
  moreover have "fresh_authority_epoch (Inr sample_entropy) = Inr sample_epoch"
    by (simp add: fresh_authority_epoch_def sample_epoch_def result_simps)
  ultimately show ?thesis
    by (simp add: tenure_plan_def cached_replay_def actual_predecessor_def result_simps Let_def
        sample_epoch_fact_def [symmetric] sample_facts_encoded sample_ob0_def)
       (simp add: sample_startup_def)
qed

lemma sample_tenure:
  "begin_authority_tenure sample_ledger sample_writer (Inr sample_entropy) ''0'' IoOk = (sample_w1, Inr ())"
  using sample_append [of sample_writer sample_ob0 "''0''" 0] sample_seals [of sample_writer]
  by (simp add: begin_authority_tenure_def sample_inferred begin_authority_tenure_with_startup_def sample_tenure_plan
      sample_w1_def)

lemma sample_fresh: "fresh_entropy sample_writer (Inr sample_entropy)"
  by (simp add: fresh_entropy_def sample_entropy_def)

lemma sample_w1_replay:
  obtains facts tail ids where "jl_authority_replay sample_w1 =
    Inr (empty_authority_replay\<lparr>ry_current_authority := Some (ef_resulting_authority sample_epoch_fact),
      ry_canonical_fact_count := 1, ry_facts := facts, ry_tail_recovery_only := tail, ry_admin_grant_ids := ids\<rparr>)"
proof -
  have "carries sample_writer sample_ob0 ''0'' (sample_entry 0)"
    by (simp add: carries_def sample_entry_def sample_entries_def unhashed_entry_def)
  from tenure_folds_to [OF sample_ledger_codecs(3) _ sample_tenure_plan sample_fresh this, of empty_authority_replay]
  show ?thesis using that
    by (auto simp: sample_committed_def record_committed_entry_def Let_def fold_cached_def)
qed

section \<open>The mutation\<close>

lemma sample_plan:
  assumes "jl_authority_replay sample_w1 =
    Inr (empty_authority_replay\<lparr>ry_current_authority := Some (ef_resulting_authority sample_epoch_fact),
      ry_canonical_fact_count := 1, ry_facts := facts, ry_tail_recovery_only := tail, ry_admin_grant_ids := ids\<rparr>)"
  shows "mutation_plan sample_ledger sample_w1 sample_mutation_request False =
    Inr (sample_digest, CommitNew sample_mutation sample_ob1 sample_state)"
proof -
  let ?auth = "ef_resulting_authority sample_epoch_fact"
  have gen: "checked_add_u64 (gi_generation ?auth) 1 = Some 1"
    by (simp add: sample_epoch_fact_def epoch_fact_def checked_add_u64_def current_generation_def)
  have m: "mutation_fact sample_w1 sample_mutation_request sample_digest ?auth sample_digest sample_digest 1 = sample_mutation"
    by (simp add: sample_mutation_def mutation_fact_def)
  have ob: "authority_mutation_observation plain_jiff (mutation_fact_id ''m1'') sample_mutation
      (sample_detail ''authority_mutation'' (mutation_fact_id ''m1'') ''mutation'') = Inr sample_ob1"
    by (simp add: authority_mutation_observation_def sample_mutation_def mutation_fact_def result_simps sample_ob1_def)
  show ?thesis using assms
    by (simp add: mutation_plan_def new_mutation_plan_def Let_def reject_err_def result_simps cached_replay_def
        ok_or_def gen m ob sample_facts_encoded)
qed

lemma sample_commit:
  "execute_authority_mutation sample_ledger sample_w1 sample_mutation_request project IoOk =
     (sample_w2, finish_projected_mutation sample_mutation 1 (hex_encode ''B'') NewlyCommitted (project sample_state))"
proof -
  obtain facts tail ids where "jl_authority_replay sample_w1 =
    Inr (empty_authority_replay\<lparr>ry_current_authority := Some (ef_resulting_authority sample_epoch_fact),
      ry_canonical_fact_count := 1, ry_facts := facts, ry_tail_recovery_only := tail, ry_admin_grant_ids := ids\<rparr>)"
    by (rule sample_w1_replay)
  note plan = sample_plan [OF this]
  have "mf_decided_at sample_mutation = ''1''" by (simp add: sample_mutation_def mutation_fact_def)
  moreover have "le_local_sequence (sample_entry 1) = 1" "le_entry_hash (sample_entry 1) = hex_encode ''B''"
    by (simp_all add: sample_entry_def sample_entries_def unhashed_entry_def)
  ultimately show ?thesis
    using sample_append [of sample_w1 sample_ob1 "''1''" 1] sample_seals [of sample_w1]
    by (simp add: execute_authority_mutation_def execute_authority_mutation_inner_def
        execute_authority_mutation_validated_def Let_def plan sample_w2_def)
qed

end
