(* ===== verification/MCT_Ledger_Properties.thy ===== *)
theory MCT_Ledger_Properties
  imports MCT_Ledger_Samples
begin

text \<open>
  What the ledger promises as a whole: the file is the writer's memory, a crash costs at most the
  unacknowledged write, every committed entry replays, readers agree with each other, and the head
  pins the history.
\<close>

section \<open>The sample history as a chain\<close>

definition sample_scan1 :: LedgerScanState where
  "sample_scan1 = remember_scanned_entry sample_ledger empty_scan_state (sample_entry 0) (sample_frame 0)"

definition sample_scan2 :: LedgerScanState where
  "sample_scan2 = remember_scanned_entry sample_ledger sample_scan1 (sample_entry 1) (sample_frame 1)"

lemma sample_commits:
  "commits sample_ledger ''ledger'' ''mother'' empty_scan_state (sample_entry 0, sample_frame 0) sample_scan1"
  "commits sample_ledger ''ledger'' ''mother'' sample_scan1 (sample_entry 1, sample_frame 1) sample_scan2"
proof -
  have s1: "ls_next_sequence sample_scan1 = 1" "ls_previous_hash sample_scan1 = Some (hex_encode ''A'')"
    by (simp_all add: sample_scan1_def remember_scanned_entry_def Let_def empty_scan_state_def sample_entry_def)
  show "commits sample_ledger ''ledger'' ''mother'' empty_scan_state (sample_entry 0, sample_frame 0) sample_scan1"
    using seal_commits [OF sample_ledger_codecs(1), of "''p''" sample_writer empty_scan_state sample_ob0
        "''0''" BeforeEffect ES_NotRequired "sample_entry 0" "sample_frame 0"] sample_seals [of sample_writer]
    by (simp add: sample_scan1_def) (simp add: empty_scan_state_def)
  show "commits sample_ledger ''ledger'' ''mother'' sample_scan1 (sample_entry 1, sample_frame 1) sample_scan2"
    using seal_commits [OF sample_ledger_codecs(1), of "''p''" sample_writer sample_scan1 sample_ob1
        "''1''" BeforeEffect ES_NotRequired "sample_entry 1" "sample_frame 1"] sample_seals [of sample_writer] s1
    by (simp add: sample_scan2_def)
qed

lemma sample_chains:
  "chain sample_ledger ''ledger'' ''mother'' empty_scan_state [(sample_entry 0, sample_frame 0)] sample_scan1"
  "chain sample_ledger ''ledger'' ''mother'' empty_scan_state
     [(sample_entry 0, sample_frame 0), (sample_entry 1, sample_frame 1)] sample_scan2"
  using sample_commits by (auto simp: run_Cons_iff)

lemma sample_scans:
  "scan_existing sample_ledger path ''ledger'' ''mother'' None (Inr []) = Inr (ScanReady empty_scan_state)"
  "scan_existing sample_ledger path ''ledger'' ''mother'' None (Inr (sample_frame 0)) = Inr (ScanReady sample_scan1)"
  "scan_existing sample_ledger path ''ledger'' ''mother'' None (Inr (sample_frame 0 @ sample_frame 1)) =
     Inr (ScanReady sample_scan2)"
proof -
  show "scan_existing sample_ledger path ''ledger'' ''mother'' None (Inr []) = Inr (ScanReady empty_scan_state)"
    unfolding scan_ready_iff by (intro exI [of _ "[]"]) simp
  show "scan_existing sample_ledger path ''ledger'' ''mother'' None (Inr (sample_frame 0)) = Inr (ScanReady sample_scan1)"
    unfolding scan_ready_iff using sample_chains(1) by fastforce
  show "scan_existing sample_ledger path ''ledger'' ''mother'' None (Inr (sample_frame 0 @ sample_frame 1)) =
      Inr (ScanReady sample_scan2)"
    unfolding scan_ready_iff using sample_chains(2) by fastforce
qed

lemma sample_frame_length [simp]: "length (sample_frame i) = 4"
  by (simp add: sample_frame_def hex_encode_def)

lemma sample_operations: "(public_op sample_ledger fresh_entropy)\<^sup>*\<^sup>* sample_writer sample_w2"
proof -
  have "public_op sample_ledger fresh_entropy sample_writer sample_w1"
    by (rule public_op.intros(6) [where fresh = fresh_entropy, OF sample_tenure sample_fresh])
  moreover have "public_op sample_ledger fresh_entropy sample_w1 sample_w2"
    by (rule public_op.intros(7) [OF sample_commit])
  ultimately show ?thesis by (meson converse_rtranclp_into_rtranclp r_into_rtranclp)
qed

section \<open>The file and the writer\<close>

lemma opened_start:
  "entry_codec L \<Longrightarrow> scan_existing L path lid mid None (Inr bytes) = Inr (ScanReady s) \<Longrightarrow>
   writer_start L (opened_ledger path lid mid created s status bytes)"
  unfolding writer_start_def by blast

lemma opened_operations:
  assumes "entry_codec L" and "scan_existing L path lid mid None (Inr bytes) = Inr (ScanReady s)"
    and "(public_op L fresh)\<^sup>*\<^sup>* (opened_ledger path lid mid created s status bytes) w"
  shows "writer_inv L w" "jl_ledger_id w = lid" "jl_mother_node_id w = mid" "jl_path w = path"
    "\<exists>x. jl_file w = bytes @ x"
proof -
  let ?w = "opened_ledger path lid mid created s status bytes"
  have ok: "writer_ok L ?w" using opened_start [OF assms(1,2)] by (rule writer_start_ok)
  then have "writer_ok L w" and le: "writer_le ?w w"
    using writers.steps_inv [OF assms(3)] writers.steps_le [OF assms(3)] by blast+
  then show "writer_inv L w" by (simp add: writer_ok_def)
  from le show "jl_ledger_id w = lid" "jl_mother_node_id w = mid" "jl_path w = path" "\<exists>x. jl_file w = bytes @ x"
    by (auto simp: writer_le_def opened_ledger_def)
qed

text \<open>
  C6: Crash consistency. Open a ledger whose scan is clean and run any public operations of the
  writer, with any outcome of each write. A rescan of the file then never quarantines it: it is
  ready, or ready up to an unterminated tail, it keeps every byte the writer acknowledged, and as
  long as no append failed the rescan is exactly the state the writer holds in memory.
\<close>

theorem writer_crash_consistent:
  assumes "entry_codec L" and "scan_existing L path lid mid None (Inr bytes) = Inr (ScanReady s)"
    and "(public_op L fresh)\<^sup>*\<^sup>* (opened_ledger path lid mid created s status bytes) w"
  shows "\<exists>scan t ids acked. scan_existing L path lid mid None (Inr (jl_file w)) = Inr scan \<and>
    (scan = ScanReady t \<or> (\<exists>r. scan = ScanResidue r \<and> lr_state r = t \<and> NL \<notin> set (lr_bytes r))) \<and>
    ls_prefix_hasher t = jl_prefix_hasher w @ acked \<and>
    (is_poisoned w \<or> scan = ScanReady (scan_view w ids))"
proof -
  note w = opened_operations [OF assms]
  obtain ids scan t where x: "scan_existing L path lid mid None (Inr (jl_file w)) = Inr scan"
    "scan_state scan = Some t" "\<exists>x. ls_prefix_hasher t = jl_prefix_hasher w @ x"
    "\<not> is_poisoned w \<Longrightarrow> scan = ScanReady (scan_view w ids)"
    using writer_scan [OF w(1), of path] w(2,3) by metis
  have "scan = ScanReady t \<or> (\<exists>r. scan = ScanResidue r \<and> lr_state r = t \<and> NL \<notin> set (lr_bytes r))"
  proof (cases scan)
    case (ScanResidue r)
    have "scan_loop L path lid mid None empty_scan_state (jl_file w) = Inr (ScanResidue r)"
      using x(1) ScanResidue by (simp add: scan_existing_def result_simps)
    then have "NL \<notin> set (lr_bytes r)" by (rule scan_shape) auto
    with ScanResidue x(2) show ?thesis by simp
  qed (use x(2) in auto)
  with x(1,3,4) show ?thesis by blast
qed

definition sample_w3 :: JsonlObservationLedger where
  "sample_w3 = sample_w2\<lparr>jl_file := jl_file sample_w2 @ take 2 (sample_frame 2), jl_writer_state := WriterIsPoisoned\<rparr>"

lemma sample_ordinary: "validate_ordinary_observation sample_ob2 = Inr ()"
  by (simp add: validate_ordinary_observation_def sample_ob2_def opt_starts_with_def)

lemma sample_torn_append:
  "ledger_append sample_ledger sample_w2 sample_ob2 ''2'' BeforeEffect ES_NotRequired (WriteFails 2 ''full'') =
     (sample_w3, Inl (AppendCommitUnknown ''p'' FailedWrite ''full''))"
  using sample_seals [of sample_w2]
  by (simp add: ledger_append_def append_canonical_def append_frame_def poisoned_append_error_def sample_w3_def
      sample_ordinary)

lemma sample_torn_operations: "(public_op sample_ledger fresh_entropy)\<^sup>*\<^sup>* sample_writer sample_w3"
  using sample_operations public_op.intros(1) [OF sample_torn_append] by (rule rtranclp.rtrancl_into_rtrancl)

theorem writer_crash_consistent_witness:
  "\<exists>scan t acked. scan_existing sample_ledger ''p'' ''ledger'' ''mother'' None
       (Inr (sample_frame 0 @ sample_frame 1 @ take 2 (sample_frame 2))) = Inr scan \<and> is_poisoned sample_w3 \<and>
     (scan = ScanReady t \<or> (\<exists>r. scan = ScanResidue r \<and> lr_state r = t)) \<and>
     ls_prefix_hasher t = jl_prefix_hasher sample_w3 @ acked"
proof -
  have "jl_file sample_w3 = sample_frame 0 @ sample_frame 1 @ take 2 (sample_frame 2)" "is_poisoned sample_w3"
    by (simp_all add: sample_w3_def is_poisoned_def)
  then show ?thesis
    using writer_crash_consistent [OF sample_ledger_codecs(1) sample_scans(1)
        sample_torn_operations [unfolded sample_writer_def]]
    by auto
qed

section \<open>Replay\<close>

lemma opened_replays:
  "replays (opened_ledger path lid mid created s status bytes) \<longleftrightarrow> (\<exists>r. ls_authority_replay s = Inr r)"
  by (simp add: replays_def opened_ledger_def)

text \<open>
  C3: What the writer commits, replay accepts. Open a ledger that scans and replays, and run any
  public operations, where the entropy of each new tenure is 32 fresh bytes. As long as the file is
  addressable, the cached replay never fails: no operation commits an entry that replay refuses.
  Without a failed append, reading the file back and replaying its entries from the start gives
  exactly the cached replay.
\<close>

theorem committed_entries_replay:
  assumes "entry_codec L" and "line_codec L" and "fact_codec (en_codec (ln_env L))"
    and "scan_existing L path lid mid None (Inr bytes) = Inr (ScanReady s)" and "ls_authority_replay s = Inr r0"
    and "(public_op L fresh_entropy)\<^sup>*\<^sup>* (opened_ledger path lid mid created s status bytes) w"
    and "length (jl_file w) < 2 ^ 64"
  shows "\<exists>r. cached_replay w = Inr r \<and>
    (is_poisoned w \<or> (\<exists>es. ledger_entries L path lid mid (Inr (jl_file w)) = Inr es \<and>
       replay_authority_entries (ln_env L) es = Inr r))"
proof -
  note w = opened_operations [OF assms(1,4,6)]
  have "replaying L (opened_ledger path lid mid created s status bytes)"
    using opened_start [OF assms(1,4)] assms(3,5) by (intro replaying_start) (simp_all add: opened_replays)
  then have "replaying L w" using replaying_writer.steps_inv [OF assms(6)] by blast
  then obtain r where r: "jl_authority_replay w = Inr r" using assms(7) by (auto simp: replaying_def replays_def)
  have "\<exists>es. ledger_entries L path lid mid (Inr (jl_file w)) = Inr es \<and>
      replay_authority_entries (ln_env L) es = Inr r" if ok: "\<not> is_poisoned w"
  proof -
    obtain efs ids where e: "chain L lid mid empty_scan_state efs (scan_view w ids)" "jl_file w = file_bytes efs"
      using w(1) ok w(2,3) by (auto simp: writer_holds_def elim!: writer_invE)
    have "length efs < 2 ^ 64" using chain_length [OF e(1)] e(2) assms(7) by simp
    with chain_replay [OF e(1)] r have "replay_of (ln_env L) (map fst efs) = Inr r" by (simp add: scan_view_def)
    then have "replay_authority_entries (ln_env L) (map fst efs) = Inr r" by (simp add: replay_of_def result_simps)
    with entries_scan [OF assms(2) e(1)] e(2) show ?thesis by simp
  qed
  with r show ?thesis by (auto simp: cached_ok)
qed

theorem committed_entries_replay_witness:
  "\<exists>r es. cached_replay sample_w2 = Inr r \<and> \<not> is_poisoned sample_w2 \<and>
     ledger_entries sample_ledger ''p'' ''ledger'' ''mother'' (Inr (sample_frame 0 @ sample_frame 1)) = Inr es \<and>
     replay_authority_entries (ln_env sample_ledger) es = Inr r"
proof -
  have "length (jl_file sample_w2) < 2 ^ 64" by simp
  moreover have "ls_authority_replay empty_scan_state = Inr empty_authority_replay" by (simp add: empty_scan_state_def)
  ultimately show ?thesis
    using committed_entries_replay [OF sample_ledger_codecs sample_scans(1) _
        sample_operations [unfolded sample_writer_def]]
    by auto
qed

text \<open>
  C7: A committed mutation takes effect once. When the mutation endpoint reports a new commit, the
  changes applied to the replayed state give the state of the new replay, the mutation was unknown
  before and is recorded with the sequence and hash of its entry, and every retry of the same
  request returns that entry without writing anything.
\<close>

theorem mutation_commits_once:
  assumes "fact_codec (en_codec (ln_env L))"
    and "execute_authority_mutation L w request project outcome = (w', result)" and "newly_committed result"
  shows "\<exists>r r' f sequence h. cached_replay w = Inr r \<and> cached_replay w' = Inr r' \<and>
    apply_authority_changes (ln_env L) (ry_state r) (mq_changes request) = Inr (ry_state r') \<and>
    ry_mutations r (mq_mutation_id request) = None \<and>
    ry_mutations r' = (ry_mutations r)(mq_mutation_id request \<mapsto>
      \<lparr>cm_fact = f, cm_entry_sequence = sequence, cm_entry_hash = h\<rparr>) \<and>
    result = finish_projected_mutation f sequence h NewlyCommitted (project (ry_state r')) \<and>
    (\<forall>project' outcome'. execute_authority_mutation L w' request project' outcome' =
      (w', finish_projected_mutation f sequence h ResolvedExistingFact (project' (ry_state r'))))"
proof -
  from assms(2,3) have c: "\<not> list_ex is_consumed_change (mq_changes request)"
    and x: "execute_authority_mutation_validated L w request project False outcome = (w', result)"
    by (auto simp: execute_authority_mutation_def execute_authority_mutation_inner_def split: if_split_asm)
  show ?thesis
  proof (rule committed_mutation [OF assms(1) x assms(3)], goal_cases)
    case (1 r f sequence h r')
    have "execute_authority_mutation L w' request project' outcome' =
        (w', finish_projected_mutation f sequence h ResolvedExistingFact (project' (ry_state r')))" for project' outcome'
      using 1(7) c by (simp add: execute_authority_mutation_def execute_authority_mutation_inner_def
          execute_authority_mutation_validated_def)
    with 1(1-6) show ?case by blast
  qed
qed

theorem mutation_commits_once_witness:
  "\<exists>f sequence h. execute_authority_mutation sample_ledger sample_w1 sample_mutation_request (\<lambda>_. Inr None) IoOk =
       (sample_w2, finish_projected_mutation f sequence h NewlyCommitted (Inr None)) \<and>
     execute_authority_mutation sample_ledger sample_w2 sample_mutation_request (\<lambda>_. Inr None) IoOk =
       (sample_w2, finish_projected_mutation f sequence h ResolvedExistingFact (Inr None))"
proof -
  let ?none = "\<lambda>_. Inr None"
  obtain f sequence h where
    "finish_projected_mutation sample_mutation 1 (hex_encode ''B'') NewlyCommitted (Inr None) =
       finish_projected_mutation f sequence h NewlyCommitted (Inr None)"
    "execute_authority_mutation sample_ledger sample_w2 sample_mutation_request ?none IoOk =
       (sample_w2, finish_projected_mutation f sequence h ResolvedExistingFact (Inr None))"
    using mutation_commits_once [OF sample_ledger_codecs(3) sample_commit [of ?none]] by (auto simp: finish_newly)
  with sample_commit [of ?none] show ?thesis by metis
qed

section \<open>Readers\<close>

text \<open>
  C19: The readers agree. When the scanner finds a file ready, the iterator reads it without error,
  its entries number what the scanner counted, the queries by trace and by call are filters of them,
  and the replay the scanner carries is the replay of these entries, with the same error if it fails.
\<close>

theorem readers_agree:
  assumes "line_codec L" and "scan_existing L path lid mid None (Inr bytes) = Inr (ScanReady s)"
    and "length bytes < 2 ^ 64"
  shows "\<exists>es. ledger_entries L path lid mid (Inr bytes) = Inr es \<and> ls_next_sequence s = of_nat (length es) \<and>
    entries_by_trace L path lid mid (Inr bytes) trace =
      Inr (filter (\<lambda>e. tf_trace_id (mo_trace (le_observation e)) = trace) es) \<and>
    entries_by_call L path lid mid (Inr bytes) call =
      Inr (filter (\<lambda>e. mo_call_id (le_observation e) = Some call) es) \<and>
    ls_authority_replay s = map_err AuthorityReplayError_display (replay_authority_entries (ln_env L) es)"
proof -
  from assms(2) obtain efs where e: "chain L lid mid empty_scan_state efs s" "bytes = file_bytes efs"
    by (auto simp: scan_ready_iff)
  have "length efs < 2 ^ 64" using chain_length [OF e(1)] e(2) assms(3) by simp
  from chain_replay [OF e(1) this] have "ls_authority_replay s =
      map_err AuthorityReplayError_display (replay_authority_entries (ln_env L) (map fst efs))"
    by (simp add: replay_of_def)
  moreover have "ls_next_sequence s = of_nat (length (map fst efs))" using chain_fields [OF e(1)] by simp
  ultimately show ?thesis
    using entries_scan [OF assms(1) e(1), of path] collect_scan [OF assms(1) e(1), of _ path]
    by (intro exI [of _ "map fst efs"]) (auto simp: e(2) entries_by_trace_def entries_by_call_def)
qed

theorem readers_agree_witness:
  "\<exists>es. ledger_entries sample_ledger ''p'' ''ledger'' ''mother'' (Inr (sample_frame 0 @ sample_frame 1)) = Inr es \<and>
     ls_next_sequence sample_scan2 = of_nat (length es) \<and>
     ls_authority_replay sample_scan2 =
       map_err AuthorityReplayError_display (replay_authority_entries (ln_env sample_ledger) es)"
proof -
  have "length (sample_frame 0 @ sample_frame 1) < 2 ^ 64" by simp
  from readers_agree [OF sample_ledger_codecs(2) sample_scans(3) this] show ?thesis by blast
qed

text \<open>
  C13: The head pins the history. If two files of one ledger are ready and end in the same head hash,
  and the digest function separates the entries they contain, then a reader gets the same entries
  from both.
\<close>

theorem head_pins_history:
  assumes "entry_codec L" and "line_codec L"
    and "scan_existing L path lid mid None (Inr bytes) = Inr (ScanReady s)"
    and "scan_existing L path' lid mid None (Inr bytes') = Inr (ScanReady s')"
    and "ledger_entries L path lid mid (Inr bytes) = Inr es" and "ledger_entries L path' lid mid (Inr bytes') = Inr es'"
    and "digests_separate L es es'" and "ls_previous_hash s = ls_previous_hash s'"
  shows "es = es'"
proof -
  from assms(3,4) obtain efs efs' where e: "chain L lid mid empty_scan_state efs s" "bytes = file_bytes efs"
    "chain L lid mid empty_scan_state efs' s'" "bytes' = file_bytes efs'" by (auto simp: scan_ready_iff)
  have "es = map fst efs" "es' = map fst efs'"
    using entries_scan [OF assms(2) e(1)] entries_scan [OF assms(2) e(3)] assms(5,6) e(2,4) by simp_all
  with chain_determined [OF assms(1) e(1,3) assms(8)] assms(7) show ?thesis by simp
qed

theorem head_pins_history_witness:
  "\<exists>es es'. ledger_entries sample_ledger ''p'' ''ledger'' ''mother'' (Inr (sample_frame 0 @ sample_frame 1)) = Inr es \<and>
     ledger_entries sample_ledger ''q'' ''ledger'' ''mother'' (Inr (sample_frame 0 @ sample_frame 1)) = Inr es' \<and>
     digests_separate sample_ledger es es' \<and> es = es' \<and> length es = 2"
proof -
  have e: "ledger_entries sample_ledger path ''ledger'' ''mother'' (Inr (sample_frame 0 @ sample_frame 1)) =
      Inr [sample_entry 0, sample_entry 1]" for path
    using entries_scan [OF sample_ledger_codecs(2) sample_chains(2), of path] by simp
  then obtain es es' where r:
    "ledger_entries sample_ledger ''p'' ''ledger'' ''mother'' (Inr (sample_frame 0 @ sample_frame 1)) = Inr es"
    "ledger_entries sample_ledger ''q'' ''ledger'' ''mother'' (Inr (sample_frame 0 @ sample_frame 1)) = Inr es'"
    by blast
  have d: "digests_separate sample_ledger es es'" by (simp add: digests_separate_def plain_crypto_separates)
  have "es = es'"
    by (rule head_pins_history [OF sample_ledger_codecs(1,2) sample_scans(3) sample_scans(3) r d refl])
  moreover have "length es = 2" using r(1) e [of "''p''"] by simp
  ultimately show ?thesis using r d by blast
qed

text \<open>
  C9: Resuming equals verifying. Take a checkpoint from a full verification of a file. If the file
  later continues with other bytes, resuming from the checkpoint succeeds exactly when verifying the
  whole file succeeds, with the same head, replay and digest.
\<close>

theorem resume_equals_verification:
  assumes "verify_ledger_streaming L path lid mid None (Inr old) = Inr v0" and "vr_checkpoint v0 = Some cp"
    and "length (old @ rest) < 2 ^ 64"
  shows "resume_ledger_replay L path lid mid cp (Inr (old @ rest)) = Inr (Resumed v) \<longleftrightarrow>
    verify_ledger_streaming L path lid mid None (Inr (old @ rest)) = Inr v"
  by (rule resume_agrees [OF assms])

lemma sample_replay_1: "\<exists>r. ls_authority_replay sample_scan1 = Inr r"
proof -
  have "ls_authority_replay sample_scan1 = jl_authority_replay sample_w1"
    by (simp add: sample_scan1_def remember_scanned_entry_def Let_def empty_scan_state_def sample_committed_def
        record_committed_entry_def link_def checked_sub_u64_def)
  then show ?thesis by (metis sample_w1_replay)
qed

lemma sample_replay_2: "\<exists>r. ls_authority_replay sample_scan2 = Inr r"
proof -
  note w = opened_operations [OF sample_ledger_codecs(1) sample_scans(1) sample_operations [unfolded sample_writer_def]]
  obtain ids where "scan_existing sample_ledger ''p'' ''ledger'' ''mother'' None (Inr (jl_file sample_w2)) =
      Inr (ScanReady (scan_view sample_w2 ids))"
    using writer_scan [OF w(1), of "''p''"] by auto
  with sample_scans(3) have "sample_scan2 = scan_view sample_w2 ids" by simp
  moreover have "ls_authority_replay (scan_view sample_w2 ids) = jl_authority_replay sample_w2"
    by (simp add: scan_view_def)
  ultimately have "ls_authority_replay sample_scan2 = jl_authority_replay sample_w2" by metis
  moreover have "replays sample_w1" by (metis replays_def sample_w1_replay)
  then have "replays sample_w2"
    using inner_mutation_replays [OF sample_ledger_codecs(3)] sample_commit
    unfolding execute_authority_mutation_def by blast
  ultimately show ?thesis by (simp add: replays_def)
qed

theorem resume_equals_verification_witness:
  "\<exists>v0 cp v. verify_ledger_streaming sample_ledger ''p'' ''ledger'' ''mother'' None (Inr (sample_frame 0)) = Inr v0 \<and>
     vr_checkpoint v0 = Some cp \<and>
     resume_ledger_replay sample_ledger ''p'' ''ledger'' ''mother'' cp (Inr (sample_frame 0 @ sample_frame 1)) =
       Inr (Resumed v) \<and>
     verify_ledger_streaming sample_ledger ''p'' ''ledger'' ''mother'' None (Inr (sample_frame 0 @ sample_frame 1)) = Inr v"
proof -
  obtain r1 r2 where r: "ls_authority_replay sample_scan1 = Inr r1" "ls_authority_replay sample_scan2 = Inr r2"
    using sample_replay_1 sample_replay_2 by blast
  then have s: "scanned sample_ledger ''ledger'' ''mother'' [(sample_entry 0, sample_frame 0)] sample_scan1 r1"
    "scanned sample_ledger ''ledger'' ''mother''
       [(sample_entry 0, sample_frame 0), (sample_entry 1, sample_frame 1)] sample_scan2 r2"
    using sample_chains by (simp_all add: scanned_def)
  let ?v = "\<lambda>s r. suffix_verified sample_ledger (suffix_of ''ledger'' ''mother'' s r)"
  have v: "verify_ledger_streaming sample_ledger ''p'' ''ledger'' ''mother'' None (Inr (sample_frame 0)) = Inr (?v sample_scan1 r1)"
    "verify_ledger_streaming sample_ledger ''p'' ''ledger'' ''mother'' None (Inr (sample_frame 0 @ sample_frame 1)) =
      Inr (?v sample_scan2 r2)"
    using sample_scans(2,3) verified_scanned [OF s(1)] verified_scanned [OF s(2)]
    by (simp_all add: verify_ledger_streaming_def result_simps)
  obtain cp where cp: "vr_checkpoint (?v sample_scan1 r1) = Some cp"
    by (simp add: suffix_verified_def assemble_verified_def)
  have "length (sample_frame 0 @ sample_frame 1) < 2 ^ 64" by simp
  from resume_equals_verification [OF v(1) cp this] v cp show ?thesis by blast
qed

section \<open>The replayed authority\<close>

text \<open>
  C16: A replayed state is well formed. Whatever entries a ledger holds, if they replay then the
  resulting authority state passes the validators of watch scopes, admin keys, recovery, issuance
  and genesis, its profiles are not mixed, every key grant identifier is registered as used, every
  committed mutation is stored under its own identifier, and a state without mutation, import or
  special profile is the default state.
\<close>

theorem replayed_state_well_formed:
  assumes "replay_authority_entries E es = Inr r"
  shows "state_ok E (ry_state r) \<and> fset (fmdom (sta_admin_key_grants (ry_state r))) \<subseteq> ry_admin_grant_ids r \<and>
    (\<forall>i c. ry_mutations r i = Some c \<longrightarrow> mf_mutation_id (cm_fact c) = i) \<and>
    ry_canonical_fact_count r = of_nat (length (ry_facts r)) \<and>
    (ry_mutations r = Map.empty \<and> \<not> ry_imported r \<and> state_is_legacy (ry_state r) \<longrightarrow>
       ry_state r = AuthorityStateV1_default)"
  using replay_reaches_inv [OF assms] by (auto simp: replay_inv_def)

lemma sample_replayed: "\<exists>r. replay_authority_entries (ln_env sample_ledger) [sample_entry 0, sample_entry 1] = Inr r"
  using chain_replay [OF sample_chains(2)] sample_replay_2 by (auto simp: replay_of_def result_simps)

theorem replayed_state_well_formed_witness:
  "\<exists>r. replay_authority_entries (ln_env sample_ledger) [sample_entry 0, sample_entry 1] = Inr r \<and>
     state_ok (ln_env sample_ledger) (ry_state r) \<and> ry_canonical_fact_count r = of_nat (length (ry_facts r))"
  using sample_replayed replayed_state_well_formed by blast

text \<open>
  C18: Replay is append-only. If a longer history replays, so does each prefix, and the rest of it
  takes nothing back: committed mutations keep their facts, the generation never decreases, used
  nonces and key identifiers stay used, a revoked key stays revoked, a consumed ticket stays
  consumed, and a watch scope that is no longer active stays as it is.
\<close>

theorem replay_append_only:
  assumes "replay_authority_entries E (es @ later) = Inr r'"
  shows "\<exists>r. replay_authority_entries E es = Inr r \<and>
    (\<forall>i c. ry_mutations r i = Some c \<longrightarrow> ry_mutations r' i = Some c) \<and>
    current_generation r \<le> current_generation r' \<and>
    ry_admin_signature_nonces r \<subseteq> ry_admin_signature_nonces r' \<and> ry_admin_grant_ids r \<subseteq> ry_admin_grant_ids r' \<and>
    (\<forall>i g. fmlookup (sta_admin_key_grants (ry_state r)) i = Some g \<and> ag_grant_state g = AGS_Revoked \<longrightarrow>
       fmlookup (sta_admin_key_grants (ry_state r')) i = Some g) \<and>
    (\<forall>i k. fmlookup (sta_pairing_tickets (ry_state r)) i = Some k \<and> pt_state k = TicketConsumed \<longrightarrow>
       fmlookup (sta_pairing_tickets (ry_state r')) i = Some k) \<and>
    (\<forall>i v. fmlookup (sta_watch_scopes (ry_state r)) i = Some v \<and> ws_authority_state v \<noteq> WS_Active \<longrightarrow>
       fmlookup (sta_watch_scopes (ry_state r')) i = Some v)"
proof -
  from assms obtain r u p u' p' where r: "run (entry_step E) ((empty_authority_replay, {}), None) es ((r, u), p)"
    "run (entry_step E) ((r, u), p) later ((r', u'), p')"
    by (auto simp: replay_run run_append)
  have "replay_inv E (r, u)" using replays.steps_inv [OF run_steps [OF r(1)]] replay_start_reach by simp
  then have le: "replay_le (r, u) (r', u')" using replays.steps_le [OF run_steps [OF r(2)]] by simp
  have "replay_authority_entries E es = Inr r" using r(1) by (auto simp: replay_run)
  moreover from le have "\<forall>i c. ry_mutations r i = Some c \<longrightarrow> ry_mutations r' i = Some c"
    "current_generation r \<le> current_generation r'"
    "ry_admin_signature_nonces r \<subseteq> ry_admin_signature_nonces r'" "ry_admin_grant_ids r \<subseteq> ry_admin_grant_ids r'"
    and st: "state_le (ry_state r) (ry_state r')"
    by (simp_all add: replay_le_def mutations_le_def)
  moreover from st have "\<forall>i g. fmlookup (sta_admin_key_grants (ry_state r)) i = Some g \<and> ag_grant_state g = AGS_Revoked \<longrightarrow>
      fmlookup (sta_admin_key_grants (ry_state r')) i = Some g"
    by (simp add: state_le_def grant_le_def)
  moreover from st have "\<forall>i k. fmlookup (sta_pairing_tickets (ry_state r)) i = Some k \<and> pt_state k = TicketConsumed \<longrightarrow>
      fmlookup (sta_pairing_tickets (ry_state r')) i = Some k"
    by (fastforce simp: state_le_def map_le_by_def ticket_le_def)
  moreover from st have "\<forall>i v. fmlookup (sta_watch_scopes (ry_state r)) i = Some v \<and> ws_authority_state v \<noteq> WS_Active \<longrightarrow>
      fmlookup (sta_watch_scopes (ry_state r')) i = Some v"
    by (fastforce simp: state_le_def map_le_by_def watch_le_def)
  ultimately show ?thesis by blast
qed

theorem replay_append_only_witness:
  "\<exists>r r'. replay_authority_entries (ln_env sample_ledger) ([sample_entry 0] @ [sample_entry 1]) = Inr r' \<and>
     replay_authority_entries (ln_env sample_ledger) [sample_entry 0] = Inr r \<and>
     current_generation r \<le> current_generation r'"
proof -
  obtain r' where r': "replay_authority_entries (ln_env sample_ledger) ([sample_entry 0] @ [sample_entry 1]) = Inr r'"
    using sample_replayed by auto
  from replay_append_only [OF r'] r' show ?thesis by blast
qed

text \<open>
  C12: Nothing is spent twice. In a history that replays, no pair of signer and nonce is used by two
  administrative signatures, the signature of a strict genesis included, and none by two passkey
  requests; no mutation identifier is committed twice; and no authority epoch is started twice,
  whether by a strict genesis, by a passkey bootstrap or by the establishment of an epoch.
\<close>

theorem replay_spends_once:
  assumes "replay_authority_entries E es = Inr r"
  shows "distinct (concat (map (entry_nonces E) es)) \<and> distinct (concat (map (entry_passkey_nonces E) es)) \<and>
    distinct (concat (map (entry_mutation_ids E) es)) \<and> distinct (concat (map (entry_epoch E) es))"
proof -
  from assms obtain t where "run (entry_step E) ((empty_authority_replay, {}), None) es t"
    by (auto simp: replay_run)
  moreover have "begun ((empty_authority_replay, {}), None)" by (simp add: begun_def)
  ultimately show ?thesis
    using nonces.run_spends_once passkey_nonces.run_spends_once mutation_ids.run_spends_once
      epochs.run_spends_once by blast
qed

theorem replay_spends_once_witness:
  "distinct (concat (map (entry_mutation_ids (ln_env sample_ledger)) [sample_entry 0, sample_entry 1])) \<and>
   distinct (concat (map (entry_epoch (ln_env sample_ledger)) [sample_entry 0, sample_entry 1]))"
  using sample_replayed replay_spends_once by blast

section \<open>Classification of any file\<close>

text \<open>Every entry that parses can be serialized without its hash.\<close>

definition reserializes :: "LEnv \<Rightarrow> bool" where
  "reserializes L \<longleftrightarrow>
     (\<forall>b e. ln_entry_from_slice L b = Inr e \<longrightarrow> (\<exists>x. ln_entry_to_vec L (e\<lparr>le_entry_hash := []\<rparr>) = Inr x))"

lemma scan_loop_total:
  assumes "\<And>s frm. \<exists>x. scan_frame L path lid mid None s frm = Inr x"
  shows "\<exists>scan. scan_loop L path lid mid None s bytes = Inr scan"
proof (induction "length bytes" arbitrary: bytes s rule: less_induct)
  case less
  obtain frm rest where r: "read_until bytes = (frm, rest)" by fastforce
  show ?case
  proof (cases "frm = []")
    case True
    then show ?thesis using r by (subst scan_loop.simps) (simp add: known_not_reached_def)
  next
    case False
    obtain x where x: "scan_frame L path lid mid None s frm = Inr x" using assms by blast
    show ?thesis
      using less.hyps [OF read_until_shorter [OF r False]] False r x
      by (subst scan_loop.simps) (cases x; simp)
  qed
qed

lemma scan_frame_total:
  assumes "reserializes L"
  shows "\<exists>x. scan_frame L path lid mid None s frm = Inr x"
proof (cases "ln_entry_from_slice L (butlast frm)")
  case (Inr e)
  then obtain h where "entry_hash L e = Inr h" using assms by (metis entry_hash_ok reserializes_def)
  with Inr show ?thesis by (simp add: scan_frame_def Let_def known_not_reached_def result_simps)
qed (simp add: scan_frame_def Let_def known_not_reached_def)

text \<open>
  C17: The scan of any file ends. When every entry that parses can be serialized again, the scanner
  returns a classification of whatever bytes it reads; the frames it accepted and the tail it kept
  apart are a prefix of the file, all of it when the file is ready or ends in a torn frame.
\<close>

theorem scan_classifies:
  assumes "reserializes L"
  shows "\<exists>scan efs t rest. scan_existing L path lid mid None (Inr bytes) = Inr scan \<and>
    chain L lid mid empty_scan_state efs t \<and> bytes = file_bytes efs @ rest \<and>
    (case scan of
       ScanReady s \<Rightarrow> s = t \<and> rest = []
     | ScanResidue r \<Rightarrow> lr_state r = t \<and> lr_bytes r = rest \<and> rest \<noteq> [] \<and> NL \<notin> set rest
     | ScanQuarantine q \<Rightarrow> NL \<in> set rest
     | ScanForeignLineage q \<Rightarrow> NL \<in> set rest)"
proof -
  obtain scan where l: "scan_loop L path lid mid None empty_scan_state bytes = Inr scan"
    using scan_loop_total [OF scan_frame_total [OF assms]] by blast
  then have x: "scan_existing L path lid mid None (Inr bytes) = Inr scan" by (simp add: scan_existing_def result_simps)
  show ?thesis
  proof (rule scan_shape [OF l])
    fix efs t assume "chain L lid mid empty_scan_state efs t" "bytes = file_bytes efs" "scan = ScanReady t"
    with x show ?thesis by (intro exI [of _ scan] exI [of _ efs] exI [of _ t] exI [of _ "[]"]) simp
  next
    fix efs t tail assume "chain L lid mid empty_scan_state efs t" "bytes = file_bytes efs @ tail" "NL \<notin> set tail"
      "tail \<noteq> []" "scan = ScanResidue \<lparr>lr_offset = ls_committed_len t, lr_bytes = tail,
        lr_digest = cy_blake3_hex (en_crypto (ln_env L)) tail, lr_state = t\<rparr>"
    with x show ?thesis by (intro exI [of _ scan] exI [of _ efs] exI [of _ t] exI [of _ tail]) simp
  next
    fix efs t q b rest assume "chain L lid mid empty_scan_state efs t" "bytes = file_bytes efs @ b @ NL # rest"
      "scan = ScanQuarantine q \<or> scan = ScanForeignLineage q"
    with x show ?thesis by (intro exI [of _ scan] exI [of _ efs] exI [of _ t] exI [of _ "b @ NL # rest"]) auto
  qed
qed

lemma sample_entries_cleared: "i < length sample_entries \<Longrightarrow> le_entry_hash (sample_entries ! i) = []"
  by (auto simp: sample_entries_def unhashed_entry_def less_Suc_eq nth_Cons')

lemma table_index_mem: "x \<in> set xs \<Longrightarrow> \<exists>i. table_index xs x = Some i \<and> i < length xs"
  by (induction xs) auto

lemma sample_entries_count: "i < length sample_entries \<Longrightarrow> i < 26"
  by (simp add: sample_entries_def)

lemma sample_serializes:
  assumes "table_from_slice sample_entries b = Inr e"
  shows "\<exists>x. table_to_vec sample_entries (e\<lparr>le_entry_hash := []\<rparr>) = Inr x"
proof -
  from assms obtain i h where i: "e = (sample_entries ! i)\<lparr>le_entry_hash := h\<rparr>" "i < length sample_entries"
    by (auto simp: table_from_slice_def Let_def split: list.split_asm if_split_asm)
  have c: "e\<lparr>le_entry_hash := []\<rparr> = sample_entries ! i"
    using i sample_entries_cleared [OF i(2)] by (cases "sample_entries ! i") simp
  have c': "(sample_entries ! i)\<lparr>le_entry_hash := []\<rparr> = sample_entries ! i"
    using sample_entries_cleared [OF i(2)] by (cases "sample_entries ! i") simp
  obtain k where "table_index sample_entries (sample_entries ! i) = Some k" "k < length sample_entries"
    using table_index_mem [of "sample_entries ! i" sample_entries] i(2) by auto
  then show ?thesis using i(2) by (simp add: table_to_vec_def c c' sample_entries_cleared sample_entries_count)
qed

theorem scan_classifies_witness:
  "\<exists>scan efs t rest. scan_existing sample_ledger ''p'' ''ledger'' ''mother'' None (Inr (sample_frame 0 @ ''torn'')) = Inr scan \<and>
     chain sample_ledger ''ledger'' ''mother'' empty_scan_state efs t \<and> sample_frame 0 @ ''torn'' = file_bytes efs @ rest"
proof -
  have "reserializes sample_ledger" using sample_serializes by (simp add: reserializes_def)
  from scan_classifies [OF this] show ?thesis by blast
qed

end
