(* ===== verification/MCT_Open_Properties.thy ===== *)
theory MCT_Open_Properties
  imports MCT_Open_Laws MCT_Ledger_Properties
begin

text \<open>
  What opening a ledger promises over disks that fail: no attempt loses a committed frame or the
  bytes of a torn one, a writer that is returned is the scan of the file, and a recovery that nothing
  disturbs ends with a writer.
\<close>

section \<open>A disk with a torn ledger\<close>

definition sample_recovery :: "LEnv \<Rightarrow> (LedgerRecoveryStatus \<times> string) list \<Rightarrow> REnv" where
  "sample_recovery L table =
     \<lparr>rn_ledger = L,
      rn_status_to_vec = (\<lambda>st. ok_or (map_of table st) ''unsupported record''),
      rn_status_from_slice = (\<lambda>b. ok_or (map_of (map (\<lambda>(st, b). (b, st)) table) b) ''not a record''),
      rn_quarantine_to_vec = (\<lambda>_. Inl ''unsupported record''),
      rn_plan = (\<lambda>_. NoFault), rn_hook = (\<lambda>_. Inr ())\<rparr>"

definition torn_disk :: "string \<Rightarrow> Disk" where
  "torn_disk bytes = \<lparr>fs_files = fmupd ''p'' bytes fmempty, fs_dirs = {}, fs_ops = 0\<rparr>"

text \<open>The record of a tail behind an empty ledger, and the entry that tells of it.\<close>

definition torn_status :: LedgerRecoveryStatus where
  "torn_status = new_recovery_status ''p'' ''ledger'' ''mother''
     \<lparr>lr_offset = 0, lr_bytes = ''torn'', lr_digest = hex_encode ''torn'', lr_state = empty_scan_state\<rparr> ''0''"

definition torn_ledger :: LEnv where
  "torn_ledger =
     (let table = [recovery_entry ''ledger'' ''mother'' torn_status empty_scan_state (sample_ts 0)] in
      sample_ledger\<lparr>ln_entry_to_vec := table_to_vec table, ln_entry_from_slice := table_from_slice table\<rparr>)"

definition torn_recovery :: REnv where
  "torn_recovery = sample_recovery torn_ledger
     [(torn_status, ''pending''), (torn_status\<lparr>rv_recovery_complete := True\<rparr>, ''complete'')]"

lemma no_records: "records_ok R ''p'' (fs_files (torn_disk bytes))"
  by (simp add: records_ok_def torn_disk_def)

lemma torn_file [simp]:
  "fmlookup (fs_files (torn_disk bytes)) ''p'' = Some bytes" "file_of ''p'' (torn_disk bytes) = bytes"
  by (simp_all add: torn_disk_def file_of_def)

section \<open>Attempts\<close>

text \<open>
  C4: Opening never loses history. A ledger file holds committed frames and behind them a tail that
  is not a whole frame. After any number of attempts to open it, each with its own fault at any
  disk operation, interrupted stages, lock outcome and remembered head, the committed frames still
  begin the file, a rescan is ready or ends in a torn frame and never quarantines it, and the tail is
  still in place or preserved byte for byte beside the ledger. Whenever an attempt returns a writer,
  its memory is exactly the ready scan of the file it left.
\<close>

theorem opening_keeps_history:
  assumes "entry_codec (rn_ledger R)" and "status_codec R" and "records_ok R path (fs_files d0)"
    and "fmlookup (fs_files d0) path = Some (c @ tail)" and "NL \<notin> set tail"
    and "scan_existing (rn_ledger R) path lid mid None (Inr c) = Inr (ScanReady t)"
    and "(open_attempt R path lid mid)\<^sup>*\<^sup>* d0 d"
  shows "(\<exists>new rest u. fmlookup (fs_files d) path = Some (c @ new @ rest) \<and> NL \<notin> set rest \<and>
      scan_existing (rn_ledger R) path lid mid None (Inr (c @ new)) = Inr (ScanReady u) \<and>
      scan_existing (rn_ledger R) path lid mid None (Inr (c @ new @ rest)) = Inr (torn_scan R u rest) \<and>
      (new = [] \<and> rest = tail \<or> tail = [] \<or> (\<exists>name. fmlookup (fs_files d) (source_at path name) = Some tail))) \<and>
    (\<forall>plan hook known lock now d' w. length (file_of path d) < 2 ^ 64 \<longrightarrow>
      open_with_recovery_hook (R\<lparr>rn_plan := plan, rn_hook := hook\<rparr>) path lid mid known lock now d = (d', Inr w) \<longrightarrow>
      (\<exists>new u created status. fmlookup (fs_files d') path = Some (c @ new) \<and>
         w = opened_ledger path lid mid created u status (c @ new) \<and>
         scan_existing (rn_ledger R) path lid mid None (Inr (c @ new)) = Inr (ScanReady u)))"
proof (intro conjI allI impI)
  have r: "recoverable R path lid mid c tail d"
    using attempts.steps_inv [OF assms(7)] recoverable_start [OF assms(1,2,3,5,6,4)] .
  show "\<exists>new rest u. fmlookup (fs_files d) path = Some (c @ new @ rest) \<and> NL \<notin> set rest \<and>
      scan_existing (rn_ledger R) path lid mid None (Inr (c @ new)) = Inr (ScanReady u) \<and>
      scan_existing (rn_ledger R) path lid mid None (Inr (c @ new @ rest)) = Inr (torn_scan R u rest) \<and>
      (new = [] \<and> rest = tail \<or> tail = [] \<or> (\<exists>name. fmlookup (fs_files d) (source_at path name) = Some tail))"
    by (rule recoverable_file [OF r]) blast
  fix plan hook known lock now d' w
  assume "length (file_of path d) < 2 ^ 64"
    "open_with_recovery_hook (R\<lparr>rn_plan := plan, rn_hook := hook\<rparr>) path lid mid known lock now d = (d', Inr w)"
  then obtain efs t where e: "chain (rn_ledger R) lid mid empty_scan_state efs t" "c = file_bytes efs"
    "opened_at R lid mid path t c w (fs_files d')"
    using attempt_keeps(2) [OF r] by blast
  show "\<exists>new u created status. fmlookup (fs_files d') path = Some (c @ new) \<and>
         w = opened_ledger path lid mid created u status (c @ new) \<and>
         scan_existing (rn_ledger R) path lid mid None (Inr (c @ new)) = Inr (ScanReady u)"
    by (rule opened_writer [OF e(1) e(3) [unfolded e(2)]]) (use e(2) in blast)
qed

lemma attempt_of_open:
  "length (file_of path d) < 2 ^ 64 \<Longrightarrow>
   open_attempt R path lid mid d (fst (open_with_recovery_hook R path lid mid known lock now d))"
  using attempt [where R = R and plan = "rn_plan R" and hook = "rn_hook R" and path = path and d = d and known = known
    and lock = lock and now = now] by (simp add: prod_eq_iff)

theorem opening_keeps_history_witness:
  "\<exists>new rest. fmlookup (fs_files (fst (open_with_recovery_hook (sample_recovery sample_ledger []) ''p'' ''ledger''
       ''mother'' None LockAcquired ''0'' (torn_disk (sample_frame 0 @ ''torn''))))) ''p'' =
     Some (sample_frame 0 @ new @ rest) \<and> NL \<notin> set rest"
proof -
  let ?R = "sample_recovery sample_ledger []" and ?d = "torn_disk (sample_frame 0 @ ''torn'')"
  have R: "entry_codec (rn_ledger ?R)" "status_codec ?R"
    using sample_ledger_codecs(1) by (simp_all add: sample_recovery_def status_codec_def ok_or_def)
  have t: "NL \<notin> set ''torn''" by (simp add: NL_def)
  have s: "scan_existing (rn_ledger ?R) ''p'' ''ledger'' ''mother'' None (Inr (sample_frame 0)) = Inr (ScanReady sample_scan1)"
    using sample_scans(2) by (simp add: sample_recovery_def)
  have "(open_attempt ?R ''p'' ''ledger'' ''mother'')\<^sup>*\<^sup>* ?d
      (fst (open_with_recovery_hook ?R ''p'' ''ledger'' ''mother'' None LockAcquired ''0'' ?d))"
    by (rule r_into_rtranclp, rule attempt_of_open) simp
  from opening_keeps_history [OF R no_records torn_file(1) t s this] show ?thesis by blast
qed

section \<open>A recovery that nothing disturbs\<close>

text \<open>
  C15: Recovery makes progress. Opening a ledger that ends in a torn frame, on a disk where no operation
  fails and no earlier recovery of this tail is recorded, returns a writer. The torn bytes are
  preserved beside the ledger, and the record next to them says that the recovery is complete, as
  the writer does. The file holds the committed frames and behind them exactly one more, the sealed
  entry that observes this recovery under its decision identifier; no frame is added when the
  ledger already held that observation. The writer's memory is the ready scan of that file, and it
  knows the observation.
\<close>

theorem torn_ledger_recovers:
  assumes "entry_codec (rn_ledger R)" and "status_codec R" and "undisturbed R"
    and "fmlookup (fs_files d) path = Some (c @ tail)" and "NL \<notin> set tail" and "tail \<noteq> []" and "length (c @ tail) < 2 ^ 64"
    and "scan_existing (rn_ledger R) path lid mid None (Inr c) = Inr (ScanReady t)"
    and "fmlookup (fs_files d) (source_at path (tail_name (cut_residue R t tail))) = None"
    and "fmlookup (fs_files d) (record_at path (tail_name (cut_residue R t tail))) = None"
    and "recovery_serializes R lid mid (new_recovery_status path lid mid (cut_residue R t tail) now) t"
  shows "\<exists>d' y new u.
    open_with_recovery_hook R path lid mid None LockAcquired now d =
      (d', Inr (opened_ledger path lid mid False u (Some ((new_recovery_status path lid mid (cut_residue R t tail) now)
         \<lparr>rv_recovery_complete := True\<rparr>)) (c @ new))) \<and>
    fmlookup (fs_files d') (source_at path (tail_name (cut_residue R t tail))) = Some tail \<and>
    fmlookup (fs_files d') (record_at path (tail_name (cut_residue R t tail))) = Some y \<and>
    rn_status_from_slice R y =
      Inr ((new_recovery_status path lid mid (cut_residue R t tail) now)\<lparr>rv_recovery_complete := True\<rparr>) \<and>
    fmlookup (fs_files d') path = Some (c @ new) \<and>
    (if rv_recovery_decision_id (new_recovery_status path lid mid (cut_residue R t tail) now)
          \<in> ls_recovery_observation_ids t
     then new = []
     else \<exists>at h b. Timestamp_new (en_jiff (ln_env (rn_ledger R))) now = Inr at \<and>
       entry_hash (rn_ledger R) (recovery_entry lid mid
         (new_recovery_status path lid mid (cut_residue R t tail) now) t at) = Inr h \<and>
       ln_entry_to_vec (rn_ledger R) ((recovery_entry lid mid
         (new_recovery_status path lid mid (cut_residue R t tail) now) t at)\<lparr>le_entry_hash := h\<rparr>) = Inr b \<and>
       new = b @ [NL]) \<and>
    scan_existing (rn_ledger R) path lid mid None (Inr (c @ new)) = Inr (ScanReady u) \<and>
    rv_recovery_decision_id (new_recovery_status path lid mid (cut_residue R t tail) now)
      \<in> ls_recovery_observation_ids u"
proof -
  let ?st = "new_recovery_status path lid mid (cut_residue R t tail) now"
  obtain efs where e: "chain (rn_ledger R) lid mid empty_scan_state efs t" "c = file_bytes efs"
    using assms(8) by (auto simp: scan_ready_iff)
  have d: "fmlookup (fs_files d) path = Some (file_bytes efs @ tail)" "length (file_bytes efs) < 2 ^ 64"
    using assms(4,7) e(2) by simp_all
  obtain d' u new y where o: "open_with_recovery_hook R path lid mid None LockAcquired now d =
      (d', Inr (opened_ledger path lid mid False u (Some (?st\<lparr>rv_recovery_complete := True\<rparr>)) (c @ new)))"
    "fmlookup (fs_files d') (source_at path (tail_name (cut_residue R t tail))) = Some tail"
    and y: "rn_status_to_vec R (?st\<lparr>rv_recovery_complete := True\<rparr>) = Inr y"
    and r: "fmlookup (fs_files d') (record_at path (tail_name (cut_residue R t tail))) = Some y"
    and told: "told_by R lid mid ?st t new u" and f: "fmlookup (fs_files d') path = Some (c @ new)"
    unfolding e(2) by (rule quiet_open [OF assms(3) e(1) assms(5,6,11) d assms(9,10)])
  have y': "rn_status_from_slice R y = Inr (?st\<lparr>rv_recovery_complete := True\<rparr>)"
    using assms(2) y by (simp add: status_codec_def)
  obtain ext where m: "chain (rn_ledger R) lid mid t ext u" "file_bytes ext = new"
    using told_chain [OF told assms(1)] by blast
  have "chain (rn_ledger R) lid mid empty_scan_state (efs @ ext) u" using e(1) m(1) by (auto simp: run_append)
  then have s: "scan_existing (rn_ledger R) path lid mid None (Inr (c @ new)) = Inr (ScanReady u)"
    using m(2) e(2) by (auto simp: scan_ready_iff intro!: exI [of _ "efs @ ext"])
  have "rv_recovery_time ?st = now" by (simp add: new_recovery_status_def Let_def)
  with told have n: "if rv_recovery_decision_id ?st \<in> ls_recovery_observation_ids t then new = []
     else \<exists>at h b. Timestamp_new (en_jiff (ln_env (rn_ledger R))) now = Inr at \<and>
       entry_hash (rn_ledger R) (recovery_entry lid mid ?st t at) = Inr h \<and>
       ln_entry_to_vec (rn_ledger R) ((recovery_entry lid mid ?st t at)\<lparr>le_entry_hash := h\<rparr>) = Inr b \<and>
       new = b @ [NL]"
    by (auto simp: told_by_def split: if_split_asm)
  show ?thesis by (intro exI conjI) (rule o r y' f n s told_id [OF told])+
qed

lemma torn_parts:
  "cut_residue torn_recovery empty_scan_state ''torn'' =
     \<lparr>lr_offset = 0, lr_bytes = ''torn'', lr_digest = hex_encode ''torn'', lr_state = empty_scan_state\<rparr>"
  "entry_codec (rn_ledger torn_recovery)" "status_codec torn_recovery" "undisturbed torn_recovery"
  "recovery_serializes torn_recovery ''ledger'' ''mother'' torn_status empty_scan_state"
proof -
  let ?e = "recovery_entry ''ledger'' ''mother'' torn_status empty_scan_state (sample_ts 0)"
  have L: "rn_ledger torn_recovery = torn_ledger" "ln_env torn_ledger = ln_env sample_ledger"
    "ln_entry_to_vec torn_ledger = table_to_vec [?e]" "ln_entry_from_slice torn_ledger = table_from_slice [?e]"
    by (simp_all add: torn_recovery_def sample_recovery_def torn_ledger_def Let_def)
  have c: "torn_status\<lparr>rv_recovery_complete := True\<rparr> \<noteq> torn_status"
    by (simp add: torn_status_def new_recovery_status_def Let_def)
  have h: "?e\<lparr>le_entry_hash := []\<rparr> = ?e" "le_entry_hash ?e = []" "char_of (65 :: nat) = CHR ''A''"
    by (simp_all add: recovery_entry_def char_of_eq_iff)
  show "cut_residue torn_recovery empty_scan_state ''torn'' =
     \<lparr>lr_offset = 0, lr_bytes = ''torn'', lr_digest = hex_encode ''torn'', lr_state = empty_scan_state\<rparr>"
    by (simp add: cut_residue_def L plain_blake3_hex) (simp add: empty_scan_state_def)
  show "entry_codec (rn_ledger torn_recovery)" unfolding L by (rule table_entry_codec [OF L(3,4)])
  show "status_codec torn_recovery"
    using c by (auto simp: status_codec_def torn_recovery_def sample_recovery_def ok_or_def split: if_split_asm)
  show "undisturbed torn_recovery" by (simp add: undisturbed_def torn_recovery_def sample_recovery_def)
  have "Timestamp_new (en_jiff (ln_env torn_ledger)) (rv_recovery_time torn_status) = Inr (sample_ts 0)"
    using sample_times by (simp add: L torn_status_def new_recovery_status_def Let_def)
  moreover have "entry_hash torn_ledger ?e = Inr (hex_encode ''A'')"
    by (simp add: L entry_hash_def table_to_vec_def h result_simps plain_blake3_hex)
  moreover have "ln_entry_to_vec torn_ledger (?e\<lparr>le_entry_hash := hex_encode ''A''\<rparr>) = Inr (CHR ''A'' # hex_encode ''A'')"
    by (simp add: L table_to_vec_def h printable_hex)
  moreover have "rn_status_to_vec torn_recovery torn_status = Inr ''pending''"
    "rn_status_to_vec torn_recovery (torn_status\<lparr>rv_recovery_complete := True\<rparr>) = Inr ''complete''"
    using c by (simp_all add: torn_recovery_def sample_recovery_def ok_or_def)
  ultimately show "recovery_serializes torn_recovery ''ledger'' ''mother'' torn_status empty_scan_state"
    unfolding recovery_serializes_def L by blast
qed

theorem torn_ledger_recovers_witness:
  "\<exists>d' w new. open_with_recovery_hook torn_recovery ''p'' ''ledger'' ''mother'' None LockAcquired ''0'' (torn_disk ''torn'') =
       (d', Inr w) \<and> jl_file w = new \<and> new \<noteq> [] \<and> fmlookup (fs_files d') ''p'' = Some new"
proof -
  let ?r = "cut_residue torn_recovery empty_scan_state ''torn''"
  have s: "scan_existing (rn_ledger torn_recovery) ''p'' ''ledger'' ''mother'' None (Inr []) = Inr (ScanReady empty_scan_state)"
    unfolding scan_ready_iff by (intro exI [of _ "[]"]) simp
  have f: "fmlookup (fs_files (torn_disk ''torn'')) (source_at ''p'' (tail_name ?r)) = None"
    "fmlookup (fs_files (torn_disk ''torn'')) (record_at ''p'' (tail_name ?r)) = None"
    by (simp_all add: torn_disk_def)
  have z: "recovery_serializes torn_recovery ''ledger'' ''mother''
      (new_recovery_status ''p'' ''ledger'' ''mother'' ?r ''0'') empty_scan_state"
    using torn_parts(5) by (simp add: torn_parts(1) torn_status_def)
  have n: "ls_recovery_observation_ids empty_scan_state = {}" by (simp add: empty_scan_state_def)
  have "fmlookup (fs_files (torn_disk ''torn'')) ''p'' = Some ([] @ ''torn'')" "NL \<notin> set ''torn''" "''torn'' \<noteq> []"
    "length ([] @ ''torn'') < 2 ^ 64" by (simp_all add: NL_def)
  from torn_ledger_recovers [OF torn_parts(2,3,4) this s f z] show ?thesis
    by (auto simp: opened_ledger_def n)
qed

end
