(* ===== verification/Spec2Isabelle.thy ===== *)
theory Spec2Isabelle
  imports MCT_Route MCT_Recovery_Properties MCT_Watch MCT_Trigger MCT_Artifact MCT_Open_Properties
begin

text \<open>
  The MCT Mother: kernel decisions, the ledger that records them, and what both guarantee.

  The program is a host (the Mother) that runs sandboxed programs (Children) for calls that
  arrive locally or from peers, lets them use host resources (Toys) under grants, and records
  every decision. The crate \<^verbatim>\<open>src/crates/mct-kernel\<close> holds the decisions as pure functions over
  records. The crate \<^verbatim>\<open>src/crates/mct-observation\<close> is the append-only ledger: it commits decisions
  and authority changes as hash-chained entries and rebuilds the authority state by replaying them.
  The other crates collect the records, call the decisions and act on the results. This
  development translates the kernel crate and the ledger crate, except for what is named at the end,
  and proves what they guarantee.

  \<^bold>\<open>Parts and theories.\<close> Every theory names the source file it follows; its definitions keep
  the source's names, record fields carry a short prefix of their type.

  \<^item> \<^verbatim>\<open>MCT_Prelude\<close>: results (\<open>Inl\<close> error, \<open>Inr\<close> value; the question mark operator is
    \<open>and_then\<close>), string operations of the standard library over bytes, decimal and hexadecimal
    printing, 64-bit checked arithmetic, length-prefixed encodings, and the locale
    \<open>invariant_system\<close> of reachable states.
  \<^item> \<^verbatim>\<open>MCT_Base\<close> (\<^verbatim>\<open>error.rs, id.rs\<close>): errors, identifiers, timestamps. A timestamp is its text
    with the instant it denotes; order and equality compare instants, as the source does.
  \<^item> \<^verbatim>\<open>MCT_Call, MCT_Protocol\<close> (\<^verbatim>\<open>call/mod.rs, call/internal.rs\<close>): calls, payload integrity,
    idempotency, the evaluation of a protocol request and the reply a peer sees.
  \<^item> \<^verbatim>\<open>MCT_Peer\<close> (\<^verbatim>\<open>peer/\<close>): peer bindings and the evaluation of a hello.
  \<^item> \<^verbatim>\<open>MCT_Grant\<close> (\<^verbatim>\<open>grant_check.rs, invocation_data.rs\<close>): the checks shared by all grants.
  \<^item> \<^verbatim>\<open>MCT_Records, MCT_Authority\<close> (\<^verbatim>\<open>authority.rs\<close>): the records of a local authority snapshot
    and the token that binds an execution to it.
  \<^item> \<^verbatim>\<open>MCT_Child, MCT_Toy, MCT_Route\<close> (\<^verbatim>\<open>child.rs, toy.rs, route.rs\<close>): lifecycle and call authority
    of a Child, evaluation of Toy grants, revalidation of a route, and the admission of the
    effects themselves. Both admissions are instances of one locale, \<open>effect_admission\<close>, and both
    searches through a grant list are instances of \<open>grant_scan\<close>.
  \<^item> \<^verbatim>\<open>MCT_Crypto, MCT_Admin_Key, MCT_Admin_Sig, MCT_Passkey\<close> (\<^verbatim>\<open>admin_key.rs,
    admin_issuance.rs, admin_sig.rs, admin_key/passkey.rs, admin_sig/day_key.rs\<close>): administrative
    keys, their issuance under ceilings, signed commands, and administration by passkey.
  \<^item> \<^verbatim>\<open>MCT_Recovery, MCT_Recovery_Lifecycle\<close> (\<^verbatim>\<open>recovery/\<close>): guardian recovery: enrollment,
    quorum, roster edits and all lifecycle transitions. \<^verbatim>\<open>MCT_Recovery_Safety\<close> and
    \<^verbatim>\<open>MCT_Recovery_Properties\<close> hold the invariants over whole histories of commands: behind every
    pending recovery its initiation, behind every challenge the command that issued it.
  \<^item> \<^verbatim>\<open>MCT_Watch, MCT_Trigger, MCT_Artifact\<close> (\<^verbatim>\<open>watch.rs, trigger.rs, artifact.rs\<close>): file watch
    scopes and sessions, standing call triggers, and the acquisition of artifacts.
    \<^verbatim>\<open>MCT_Sealed\<close> is what scopes and triggers share: a record that carries the digest of its
    own content.
  \<^item> \<^verbatim>\<open>MCT_Observation\<close> (\<^verbatim>\<open>observation.rs\<close> of the kernel): the observation record and the projection of
    every decision into it.
  \<^item> \<^verbatim>\<open>MCT_Facts, MCT_Authority_State, MCT_Replay\<close> (\<^verbatim>\<open>mct-observation/src/lib.rs, admin_genesis.rs,
    admin_issuance.rs, guardian_recovery.rs, passkey_admin.rs\<close>): the canonical authority facts and
    their envelope, all changes of the authority state, and the fold of the five kinds of facts
    into the replayed authority. \<^verbatim>\<open>MCT_Authority_Laws\<close>, \<^verbatim>\<open>MCT_Replay_Laws\<close> and
    \<^verbatim>\<open>MCT_Replay_History\<close> show that the state stays well formed, that history only grows, and that
    nonces of administrative signatures and passkey requests, mutation identifiers and epochs are
    spent once (the locale \<open>spending\<close>).
  \<^item> \<^verbatim>\<open>MCT_Ledger\<close> (\<^verbatim>\<open>lib.rs\<close>): entries, frames and hashes, the scan of a file, appends and batches with
    their failures, iteration, streaming verification, and resuming from a checkpoint. The file of
    a writer is its bytes; a write may stop after any of them. \<^verbatim>\<open>MCT_Ledger_Laws\<close> describes what a scan
    accepts as a \<open>run\<close> of the relation \<open>commits\<close>; \<^verbatim>\<open>MCT_Ledger_Readers\<close> shows that all readers agree.
  \<^item> \<^verbatim>\<open>MCT_Writer\<close> (\<^verbatim>\<open>lib.rs\<close> and the command files): writer tenure, mutations, import, issuance, genesis,
    guardian recovery and passkey commands. \<^verbatim>\<open>MCT_Writer_Laws\<close> collects all public operations in the
    step relation \<open>public_op\<close> and proves its invariant; \<^verbatim>\<open>MCT_Commit_Laws\<close> shows that what an operation
    commits is accepted by the replay.
  \<^item> \<^verbatim>\<open>MCT_Ledger_Open\<close> (\<^verbatim>\<open>lib.rs\<close>): opening a ledger on a disk where every operation may fail,
    recovery of a torn tail with its forensic copies, and quarantine. \<^verbatim>\<open>MCT_Open_Laws\<close> proves it with
    triples over disk operations (\<open>io_spec\<close>), for every fault plan.
  \<^item> \<^verbatim>\<open>MCT_Ledger_Samples\<close> is a concrete history for the witnesses; \<^verbatim>\<open>MCT_Ledger_Properties\<close> and
    \<^verbatim>\<open>MCT_Open_Properties\<close> state what the ledger promises as a whole.

  \<^bold>\<open>What is a parameter.\<close> Code outside the repository is an argument of the definitions that
  use it: time arithmetic (\<open>jiff\<close>), serialization (\<open>to_json\<close> and the records of serializers),
  hashing and signatures (\<open>Crypto\<close>), WebAuthn and CBOR decoding (\<open>Web\<close>); \<open>Env\<close>, \<open>LEnv\<close> and \<open>REnv\<close> bundle
  them for the authority state, the ledger and the disk. The laws a theorem needs of them are
  named hypotheses (signing then verifying succeeds, a digest does not collide on the two inputs
  compared, an encoder is injective, \<open>entry_codec\<close>: an entry that was serialized parses to itself
  and holds no line break), each witnessed on a concrete instance.

  \<^bold>\<open>What the theorems show.\<close> Admission: a hello or a call is accepted only on current records,
  and what is accepted is exactly characterized. Execution: a Child or Toy effect is admitted
  only for the exact call and while the very records its token was minted from are in force;
  over one snapshot the three stages compose; a watch session rests on a grant and on one scope
  revision. Administration: issuance stays below every ceiling and expiry above it, requests are
  never replayed, revocation is final, leases are bounded. Recovery: a root key is replaced only
  after a full wait on both clocks of one writer, with a challenge issued once and two guardians
  each time, and the recovery state stays consistent over every history. Records: watch scopes and
  trigger identities are tamper evident, paths stay below their root, missed firings are
  partitioned, narrowing a source of artifacts never authorizes more. Ledger: after any
  operations and failed writes a rescan finds all that was acknowledged and never quarantines the
  file; the authority a writer caches is the replay of the entries in its file; a mutation commits
  once; resuming from a checkpoint equals verifying everything; the head hash pins the history; a
  replayed state is well formed and history is never taken back. Opening: no sequence of
  interrupted attempts loses a committed frame or a torn tail; an undisturbed one succeeds, completes
  its record and tells the ledger once.

  \<^bold>\<open>Bounds.\<close> Loops over lists are structural recursion; the other recursions are the search for a
  character boundary and the loops that read a file frame by frame, whose termination is proved:
  each frame is shorter than what was left. No definition uses fuel. Revisions, sizes and counters
  are 64-bit words with the checked or wrapping operations of the source; a theorem about offsets
  assumes files below \<open>2 ^ 64\<close> bytes.

  \<^bold>\<open>Not modelled.\<close> Sealing a copy of a ledger as a checkpointed segment and verifying a
  directory of them (\<^verbatim>\<open>segment.rs\<close>), which the live writer never uses; file modes and directory
  handles of \<^verbatim>\<open>private_fs.rs\<close>, of which the disk model states the effect; the end of the process
  at a panic, which is an error value here; the daemon and the network adapter, which are
  processes, scheduling and transport around the decisions and the ledger.
\<close>

section \<open>Hello and call\<close>

definition call_follows_hello ::
  "MctCallProtocolRequest \<Rightarrow> MctHelloAdmissionEvaluation \<Rightarrow> bool" where
  "call_follows_hello request hello \<longleftrightarrow>
     pa_hello_decision_id (pr_authority request) = he_decision_id hello \<and>
     Some (pa_peer_binding_id (pr_authority request)) = he_selected_binding_id hello \<and>
     Some (pa_vision_id (pr_authority request)) = he_selected_vision_id hello \<and>
     Some (pa_policy_revision (pr_authority request)) = he_selected_policy_revision hello \<and>
     Some (ci_node_id (c_caller (pr_call request))) = he_selected_node_id hello \<and>
     ci_vision_id (c_caller (pr_call request)) = pa_vision_id (pr_authority request) \<and>
     ci_user_id (c_caller (pr_call request)) = None \<and> c_origin (pr_call request) = Iroh \<and>
     pa_accepted_alpn (pr_authority request) = MCT_CALL_ALPN \<and>
     pa_endpoint_id (pr_authority request) = ic_endpoint_id (pr_received_over request) \<and>
     pa_policy_revision (pr_authority request)
       \<le> ac_policy_revision (c_authority_context (pr_call request)) \<and>
     ac_expected_receiver_grants_authority (c_authority_context (pr_call request))
       = pa_expected_receiver_grants_authority (pr_authority request) \<and>
     declared_size_bytes (pr_payload request) = pm_size_bytes (c_payload_metadata (pr_call request))"

definition sample_connection :: IrohConnectionPresentation where [sample_defs]:
  "sample_connection =
     \<lparr>ic_endpoint_id = ''ep1'', ic_alpn = ''mct/hello/0'', ic_connection_side = Incoming,
      ic_path_class = PC_Direct, ic_relay_url = None, ic_presented_capability_ref = None\<rparr>"

definition sample_binding :: MctPeerBinding where [sample_defs]:
  "sample_binding =
     \<lparr>pb_binding_id = ''b1'', pb_iroh_endpoint_id = ''ep1'',
      pb_scope = \<lparr>bs_mct_node_id = ''peer'', bs_vision_id = ''vision'',
                  bs_allowed_alpns = [''mct/call/0''], bs_data_scope = None,
                  bs_observation_scope = None\<rparr>,
      pb_issuer_node_id = ''mother'', pb_policy_revision = 7, pb_binding_state = BS_Admitted,
      pb_issued_at = sample_time 1, pb_expires_at = sample_time 50,
      pb_created_by_observation_id = ''o1'', pb_superseded_by_observation_id = None\<rparr>"

definition sample_hello :: MctHelloRequest where [sample_defs]:
  "sample_hello =
     \<lparr>hr_hello_id = ''hello'', hr_received_over = sample_connection,
      hr_requested_protocol = \<lparr>pv_protocol_name = MCT_HELLO_ALPN, pv_major = 1, pv_minor = 0,
                               pv_compatibility_floor = None\<rparr>,
      hr_requested_vision_id = None, hr_requested_alpns = [''mct/call/0''],
      hr_presented_binding =
        \<lparr>bp_binding_id = None, bp_endpoint_id = ''ep1'', bp_mct_node_id = None,
         bp_vision_id = None, bp_policy_revision = None, bp_allowed_alpns_claim = [],
         bp_signature_ref = None, bp_expires_at = None\<rparr>,
      hr_capability_view = None, hr_local_policy_revision_seen = None, hr_trace_id = ''t'',
      hr_received_observation_id = ''o2''\<rparr>"

definition sample_hello_policy :: HelloPolicy where [sample_defs]:
  "sample_hello_policy = HelloPolicy_default\<lparr>hp_current_policy_revision := 7\<rparr>"

definition sample_hello_context :: HelloEvaluationContext where [sample_defs]:
  "sample_hello_context =
     \<lparr>hc_ids = \<lparr>ei_decision_id = ''d1'', ei_observation_id = ''o3''\<rparr>, hc_now = sample_time 10\<rparr>"

definition sample_call_request :: MctCallProtocolRequest where [sample_defs]:
  "sample_call_request =
     \<lparr>pr_protocol_request_id = ''pr'',
      pr_authority =
        \<lparr>pa_hello_decision_id = ''d1'', pa_peer_binding_id = ''b1'', pa_vision_id = ''vision'',
         pa_accepted_alpn = MCT_CALL_ALPN, pa_endpoint_id = ''ep1'', pa_policy_revision = 7,
         pa_expected_receiver_grants_authority = sample_grants_identity\<rparr>,
      pr_received_over = sample_connection, pr_call = sample_call, pr_payload = EmptyPayload,
      pr_idempotency_key = None, pr_received_observation_id = ''o4''\<rparr>"

definition sample_call_context :: "nat \<Rightarrow> CallEvaluationContext" where [sample_defs]:
  "sample_call_context n =
     \<lparr>cec_ids = \<lparr>cei_decision_id = ''d2'', cei_observation_id = ''o5''\<rparr>,
      cec_current_peer_authority = \<lparr>ps_bindings = [sample_binding], ps_policy_revision = 7\<rparr>,
      cec_current_receiver_grants_authority = Some sample_grants_identity,
      cec_now = sample_time n\<rparr>"

lemma sample_hello_admits:
  "hello_admits sample_hello [sample_binding] sample_hello_policy (sample_time 10) sample_binding"
  by (simp add: hello_admits_def hello_binding_ok_def select_binding_def accepted_alpns_def
      HelloPolicy_default_def MCT_CALL_ALPN_def MCT_HELLO_ALPN_def sample_defs)

lemma sample_hello_admitted:
  "evaluate_hello sample_hello [sample_binding] sample_hello_policy sample_hello_context =
   hello_admission sample_hello sample_binding sample_hello_policy
     \<lparr>ei_decision_id = ''d1'', ei_observation_id = ''o3''\<rparr>"
  using evaluate_hello_admits [of sample_hello "[sample_binding]" sample_hello_policy
      sample_hello_context sample_binding] sample_hello_admits
  by (simp add: sample_hello_context_def)

lemma sample_call_follows:
  "call_follows_hello sample_call_request (hello_admission sample_hello sample_binding
     sample_hello_policy \<lparr>ei_decision_id = ''d1'', ei_observation_id = ''o3''\<rparr>)"
  by (simp add: call_follows_hello_def hello_admission_def sample_defs)

text \<open>
  C30: An admitted hello rests on a local binding of the connection's endpoint that is admitted,
  unexpired and at or above the policy revision, and whose node and Vision the peer's claims do
  not contradict. The admission names exactly that binding, and the ALPNs it accepts are those
  requested, supported by policy and allowed by the binding; there is at least one.
\<close>

theorem hello_admitted_sound:
  assumes "he_is_admitted (evaluate_hello request bindings policy ctx)"
  shows "\<exists>b \<in> set bindings.
    pb_iroh_endpoint_id b = ic_endpoint_id (hr_received_over request) \<and>
    bp_endpoint_id (hr_presented_binding request) = ic_endpoint_id (hr_received_over request) \<and>
    hello_binding_ok request policy (hc_now ctx) b \<and>
    he_selected_binding_id (evaluate_hello request bindings policy ctx) = Some (pb_binding_id b) \<and>
    he_selected_node_id (evaluate_hello request bindings policy ctx)
      = Some (bs_mct_node_id (pb_scope b)) \<and>
    he_selected_vision_id (evaluate_hello request bindings policy ctx)
      = Some (bs_vision_id (pb_scope b)) \<and>
    he_selected_policy_revision (evaluate_hello request bindings policy ctx)
      = Some (pb_policy_revision b) \<and>
    set (he_accepted_alpns (evaluate_hello request bindings policy ctx))
      = set (hr_requested_alpns request) \<inter> set (hp_supported_alpns policy)
        \<inter> set (bs_allowed_alpns (pb_scope b)) \<and>
    he_accepted_alpns (evaluate_hello request bindings policy ctx) \<noteq> []"
proof -
  from evaluate_hello_admitted_only [OF assms] obtain b where
    b: "hello_admits request bindings policy (hc_now ctx) b" ..
  then have sel: "select_binding request bindings = Some b" by (simp add: hello_admits_def)
  show ?thesis
    by (rule bexI [OF _ select_binding_SomeD(1) [OF sel]])
      (use b select_binding_SomeD(2) [OF sel] in
        \<open>auto simp: evaluate_hello_admits [OF b] hello_admission_def hello_admits_def
          hello_binding_ok_def accepted_alpns_def\<close>)
qed

theorem hello_admitted_sound_witness:
  "\<exists>b \<in> set [sample_binding]. hello_binding_ok sample_hello sample_hello_policy (sample_time 10) b"
proof -
  have "he_is_admitted (evaluate_hello sample_hello [sample_binding] sample_hello_policy
      sample_hello_context)" by (simp add: sample_hello_admitted)
  from hello_admitted_sound [OF this] show ?thesis by (auto simp: sample_hello_context_def)
qed

text \<open>
  A hello that is not admitted confers nothing: the evaluation names no binding, node, Vision,
  revision, protocol or ALPN, and neither does the response built from it. The same holds after an
  admitted hello is withdrawn because the receiver cannot prove its grants authority.
\<close>

lemma hello_refused_empty:
  assumes "e = evaluate_hello request bindings policy ctx \<and> \<not> he_is_admitted e \<or>
    e = refuse_receiver_authority_unavailable (evaluate_hello request bindings policy ctx)"
  shows "he_selected_binding_id e = None \<and> he_selected_node_id e = None \<and>
    he_selected_vision_id e = None \<and> he_selected_policy_revision e = None \<and>
    he_negotiated_protocol e = None \<and> he_accepted_alpns e = [] \<and> \<not> he_is_admitted e \<and>
    hs_accepted_alpns (hello_response rid e oid) = [] \<and>
    hs_negotiated_protocol (hello_response rid e oid) = None \<and>
    hs_safe_message (hello_response rid e oid) \<noteq> ''admitted''"
proof (cases rule: evaluate_hello_cases [of request bindings policy ctx])
  case (admitted b)
  with assms show ?thesis
    by (auto simp: refuse_receiver_authority_unavailable_def hello_response_def he_is_admitted_def
        hello_admission_def)
next
  case (refused reason safe)
  with assms have "e = hello_denied request (hc_ids ctx) reason safe"
    by (auto simp: refuse_receiver_authority_unavailable_def)
  with refused(2) show ?thesis
    by (cases safe) (auto simp: hello_denied_def hello_response_def he_is_admitted_def)
qed

lemma hello_refused_empty_witness:
  "he_accepted_alpns (evaluate_hello sample_hello [] sample_hello_policy sample_hello_context) = [] \<and>
   he_reason (evaluate_hello sample_hello [] sample_hello_policy sample_hello_context)
     = HR_MissingBinding"
proof -
  have e: "evaluate_hello sample_hello [] sample_hello_policy sample_hello_context =
      hello_denied sample_hello (hc_ids sample_hello_context) HR_MissingBinding SH_NotAuthorized"
    by (simp add: evaluate_hello_def select_binding_def HelloPolicy_default_def sample_defs)
  from hello_refused_empty [of "evaluate_hello sample_hello [] sample_hello_policy sample_hello_context"
      sample_hello "[]" sample_hello_policy sample_hello_context]
  show ?thesis by (simp add: e) (simp add: hello_denied_def)
qed

text \<open>
  C2: What an accepted call proves. Whatever bindings the hello was evaluated against, a call is
  accepted for routing only if the receiver's current bindings hold an admitted, unexpired binding
  of this very connection and of the binding the hello selected, at the hello's policy revision and
  at or above the current one, whose node and Vision are the caller's and which allows calls; the
  receiver's grants authority is the one the caller expects; and the call is marked as a peer
  hop without a user, so the receiver will not forward it to another peer.
\<close>

theorem call_accepted_sound:
  assumes "is_accepted_for_routing (evaluate_call_protocol request
      (evaluate_hello hello bindings policy hctx) ctx)"
  shows "(\<exists>b \<in> set (ps_bindings (cec_current_peer_authority ctx)).
      Some (pb_binding_id b) = he_selected_binding_id (evaluate_hello hello bindings policy hctx) \<and>
      Some (pb_policy_revision b)
        = he_selected_policy_revision (evaluate_hello hello bindings policy hctx) \<and>
      pb_iroh_endpoint_id b = ic_endpoint_id (pr_received_over request) \<and>
      pb_binding_state b = BS_Admitted \<and> cec_now ctx < pb_expires_at b \<and>
      ps_policy_revision (cec_current_peer_authority ctx) \<le> pb_policy_revision b \<and>
      bs_mct_node_id (pb_scope b) = ci_node_id (c_caller (pr_call request)) \<and>
      bs_vision_id (pb_scope b) = ci_vision_id (c_caller (pr_call request)) \<and>
      MCT_CALL_ALPN \<in> set (bs_allowed_alpns (pb_scope b))) \<and>
    MCT_CALL_ALPN \<in> set (hr_requested_alpns hello) \<inter> set (hp_supported_alpns policy) \<and>
    cec_current_receiver_grants_authority ctx
      = Some (ac_expected_receiver_grants_authority (c_authority_context (pr_call request))) \<and>
    ci_user_id (c_caller (pr_call request)) = None \<and>
    \<not> allows_remote_candidate_sourcing (c_origin (pr_call request))"
proof -
  let ?hello = "evaluate_hello hello bindings policy hctx"
  from call_accepts_only [OF assms] have acc: "call_accepts request ?hello ctx" .
  then obtain b where b: "current_binding_ok request ?hello (cec_current_peer_authority ctx)
      (cec_now ctx) b" by (auto simp: call_accepts_def)
  then have mem: "b \<in> set (ps_bindings (cec_current_peer_authority ctx))"
    "pb_binding_id b = pa_peer_binding_id (pr_authority request)"
    "pb_iroh_endpoint_id b = ic_endpoint_id (pr_received_over request)"
    by (auto simp: current_binding_ok_def dest: find_SomeD)
  from acc have "he_is_admitted ?hello" by (simp add: call_accepts_def)
  from evaluate_hello_admitted_only [OF this] obtain h where
    "hello_admits hello bindings policy (hc_now hctx) h" ..
  then have "set (he_accepted_alpns ?hello) \<subseteq> set (hr_requested_alpns hello) \<inter> set (hp_supported_alpns policy)"
    by (auto simp: evaluate_hello_admits hello_admission_def accepted_alpns_def)
  with acc have "MCT_CALL_ALPN \<in> set (hr_requested_alpns hello) \<inter> set (hp_supported_alpns policy)"
    by (auto simp: call_accepts_def)
  moreover have "\<exists>b \<in> set (ps_bindings (cec_current_peer_authority ctx)).
      Some (pb_binding_id b) = he_selected_binding_id ?hello \<and>
      Some (pb_policy_revision b) = he_selected_policy_revision ?hello \<and>
      pb_iroh_endpoint_id b = ic_endpoint_id (pr_received_over request) \<and>
      pb_binding_state b = BS_Admitted \<and> cec_now ctx < pb_expires_at b \<and>
      ps_policy_revision (cec_current_peer_authority ctx) \<le> pb_policy_revision b \<and>
      bs_mct_node_id (pb_scope b) = ci_node_id (c_caller (pr_call request)) \<and>
      bs_vision_id (pb_scope b) = ci_vision_id (c_caller (pr_call request)) \<and>
      MCT_CALL_ALPN \<in> set (bs_allowed_alpns (pb_scope b))"
    by (rule bexI [OF _ mem(1)]) (use acc b mem in \<open>simp add: call_accepts_def current_binding_ok_def\<close>)
  ultimately show ?thesis using acc by (simp add: call_accepts_def)
qed

text \<open>
  C24: The handshake works: after an admitted hello that accepted the call protocol, a call that
  echoes the admission over a connection of the same endpoint is accepted, as long as the bindings
  and policy revision are unchanged, the selected binding has not expired and the receiver's grants
  authority is the one the call expects.
\<close>

theorem call_after_hello_accepted:
  assumes adm: "he_is_admitted (evaluate_hello hello bindings policy hctx)"
    and follows: "call_follows_hello request (evaluate_hello hello bindings policy hctx)"
    and alpn: "admits_alpn (evaluate_hello hello bindings policy hctx) MCT_CALL_ALPN"
    and conn: "ic_endpoint_id (pr_received_over request) = ic_endpoint_id (hr_received_over hello)"
    and same: "cec_current_peer_authority ctx
      = \<lparr>ps_bindings = bindings, ps_policy_revision = hp_current_policy_revision policy\<rparr>"
    and recv: "cec_current_receiver_grants_authority ctx
      = Some (pa_expected_receiver_grants_authority (pr_authority request))"
    and live: "\<And>b. b \<in> set bindings \<Longrightarrow>
      he_selected_binding_id (evaluate_hello hello bindings policy hctx) = Some (pb_binding_id b) \<Longrightarrow>
      cec_now ctx < pb_expires_at b"
  shows "is_accepted_for_routing (evaluate_call_protocol request
      (evaluate_hello hello bindings policy hctx) ctx)"
proof (rule call_accepts_sufficient)
  let ?hello = "evaluate_hello hello bindings policy hctx"
  from evaluate_hello_admitted_only [OF adm] obtain b where
    b: "hello_admits hello bindings policy (hc_now hctx) b" ..
  then have e: "?hello = hello_admission hello b policy (hc_ids hctx)" by (rule evaluate_hello_admits)
  from b have sel: "select_binding hello bindings = Some b" by (simp add: hello_admits_def)
  have alpns: "MCT_CALL_ALPN \<in> set (bs_allowed_alpns (pb_scope b))"
    using alpn by (simp add: e hello_admission_def accepted_alpns_def)
  have "cec_now ctx < pb_expires_at b"
    using live select_binding_SomeD(1) [OF sel] by (simp add: e hello_admission_def)
  then have "current_binding_ok request ?hello (cec_current_peer_authority ctx) (cec_now ctx) b"
    using b follows alpns select_binding_find [OF sel] conn
    by (simp add: current_binding_ok_def same e hello_admission_def call_follows_hello_def
        hello_admits_def hello_binding_ok_def)
  then show "call_accepts request ?hello ctx"
    using adm follows alpn recv unfolding call_accepts_def call_follows_hello_def admits_alpn_iff
    by auto
qed

theorem call_after_hello_accepted_witness:
  "is_accepted_for_routing (evaluate_call_protocol sample_call_request
     (evaluate_hello sample_hello [sample_binding] sample_hello_policy sample_hello_context)
     (sample_call_context 49))"
proof (rule call_after_hello_accepted)
  show "call_follows_hello sample_call_request (evaluate_hello sample_hello [sample_binding]
      sample_hello_policy sample_hello_context)"
    using sample_call_follows by (simp add: sample_hello_admitted)
  show "admits_alpn (evaluate_hello sample_hello [sample_binding] sample_hello_policy
      sample_hello_context) MCT_CALL_ALPN"
    unfolding sample_hello_admitted
    by (simp add: hello_admission_def accepted_alpns_def
        HelloPolicy_default_def MCT_CALL_ALPN_def sample_defs)
  show "he_is_admitted (evaluate_hello sample_hello [sample_binding] sample_hello_policy
      sample_hello_context)"
    by (simp add: sample_hello_admitted)
qed (simp_all add: sample_defs)

theorem call_accepted_sound_witness:
  "\<exists>b \<in> set [sample_binding]. pb_iroh_endpoint_id b = ''ep1'' \<and> sample_time 20 < pb_expires_at b"
proof -
  have "is_accepted_for_routing (evaluate_call_protocol sample_call_request
     (evaluate_hello sample_hello [sample_binding] sample_hello_policy sample_hello_context)
     (sample_call_context 20))"
    unfolding sample_hello_admitted
    by (rule call_accepts_sufficient)
      (auto simp: call_accepts_def current_binding_ok_def hello_admission_def
        accepted_alpns_def he_is_admitted_def HelloPolicy_default_def MCT_CALL_ALPN_def sample_defs)
  from call_accepted_sound [OF this] show ?thesis by (auto simp: sample_defs)
qed

section \<open>Replies\<close>

definition reply_class_only :: "MctCallProtocolReply \<Rightarrow> bool" where
  "reply_class_only reply \<longleftrightarrow>
     rp_reason reply = None \<and> rp_route_taken reply = None \<and>
     rp_safe_message reply \<in> {''accepted for routing'', ''not authorized'', ''malformed call'',
       ''receiver authority unavailable; retry later'',
       ''receiver authority changed; refresh hello''} \<and>
     MctCallProtocolReply_validate reply = Inr ()"

text \<open>
  A reply to an evaluated call tells the peer no more than the class of the outcome: it carries
  no machine-readable reason and no route, one of five fixed messages, and it passes its own
  validation. A denial reason of the evaluation stays with the receiver.
\<close>

lemma call_reply_class_only:
  "reply_class_only
     (call_reply_from_evaluation rid (evaluate_call_protocol request hello ctx) ref oid)"
proof -
  let ?P = "\<lambda>e. reply_class_only (call_reply_from_evaluation rid e ref oid)"
  have denied: "?P (call_denied request ids reason msg)"
    if "\<not> is_peer_reply_reason reason" and "msg \<in> {''not authorized'', ''malformed call'',
      ''receiver authority unavailable; retry later'', ''receiver authority changed; refresh hello''}"
    for ids reason msg
    using that
    by (auto simp: reply_class_only_def reply_defs MctCallProtocolReply_validate_def
        call_denied_def peer_reply_reason_def ensure_non_blank_visible result_simps)
  have binding: "?P (call_denied request ids reason ''not authorized'')"
    if "current_binding_denial_reason request hello auth now = Some reason" for ids reason auth now
    using current_binding_denial_undisclosed [OF that] by (intro denied) simp_all
  show ?thesis
    unfolding evaluate_call_protocol_def Let_def
    by (auto simp: denied binding is_peer_reply_reason_def split: option.split)
       (simp_all add: reply_class_only_def reply_defs MctCallProtocolReply_validate_def
        peer_reply_reason_def ensure_non_blank_visible result_simps)
qed

section \<open>From Child evaluation to effect\<close>

definition sample_route :: CandidateRoute where
  "sample_route =
     \<lparr>cn_candidate_id = ''c'', cn_node_id = ''mother'', cn_child_id = Some ''kid'',
      cn_runtime_kind = RK_WasmComponent, cn_network_path = NP_Local\<rparr>"

definition sample_route_ids :: RouteRevalidationIds where
  "sample_route_ids =
     \<lparr>rri_decision_id = ''rd'', rri_observation_id = ''ro'',
      rri_authorized_route_execution_id = ''re''\<rparr>"

lemma required_toys_current:
  assumes "\<And>toy. toy \<in> set toys \<Longrightarrow> te_verdict toy = TV_Allowed \<and>
      (\<exists>rq. toy = evaluate_toy_grant_for_route_snapshot call rq catalog grants v n)"
  shows "revalidate_required_toys call v n toys = None"
  unfolding revalidate_required_toys_None
proof
  fix toy assume "toy \<in> set toys"
  with assms obtain rq where ok: "te_verdict toy = TV_Allowed"
    and toy: "toy = evaluate_toy_grant_for_route_snapshot call rq catalog grants v n" by blast
  from toy_route_allowed_form [OF ok [unfolded toy]] obtain g where
    "toy = toy_route_allow call rq v n g" unfolding toy by blast
  then show "te_policy_revision toy = v \<and> te_grants_revision toy = n \<and>
      te_call_id toy = c_call_id call \<and> te_verdict toy = TV_Allowed"
    by (simp add: toy_route_allow_def)
qed

text \<open>
  C1: Child execution works end to end over one snapshot. If the Child evaluation allows the call,
  the initial decision selected an admissible route for that Child, and every required Toy was
  allowed, then revalidation mints an execution whose Child token the same snapshot admits exactly
  while the Mother clock is before the call's deadline, provided the grants authority is the
  executing Mother's own.
\<close>

theorem child_execution_end_to_end:
  assumes child: "child = evaluate_child_call_authority_with_policy call request
      (lp_artifacts (ls_child_policy s)) (lp_approvals (ls_child_policy s))
      (lp_assignments (ls_child_policy s)) (lp_instances (ls_child_policy s)) (ls_policy_revision s)"
    and allowed: "child_is_allowed child"
    and initial: "initial = route_selected call route evaluations dids"
    and admissible: "\<exists>e \<in> set evaluations. cae_candidate e = route \<and> cae_outcome e = CA_Admissible"
    and name: "option_matches (cn_child_id route) (ca_child_name (cr_evaluation child))"
    and toys: "\<And>toy. toy \<in> set toys \<Longrightarrow> te_verdict toy = TV_Allowed \<and>
      (\<exists>rq. toy = evaluate_toy_grant_for_route_snapshot call rq
         (lc_toy_catalog (ls_canonical_grants s)) (lc_toy_grants (ls_canonical_grants s))
         (ls_policy_revision s) (lg_generation (lc_grants_authority (ls_canonical_grants s))))"
  shows "\<exists>x. rv_authorized (revalidate_route_for_execution_with_snapshot call initial child toys s ids)
      = Some x \<and>
    (is_ok (child_admit_effect_with_snapshot (re_child_invocation x) call s) \<longleftrightarrow>
       lk_evaluated_at (ls_mother_clock s) < c_deadline call \<and>
       lg_mother_node_id (lc_grants_authority (ls_canonical_grants s))
         = ls_executing_mother_node_id s)"
proof -
  obtain inst asg apr art where
    look: "child_lookups request (lp_artifacts (ls_child_policy s)) (lp_approvals (ls_child_policy s))
      (lp_assignments (ls_child_policy s)) (lp_instances (ls_child_policy s)) inst asg apr art"
    and ok: "child_facts_ok call request (ls_policy_revision s) inst asg apr art"
    using child_allowed_only [OF allowed [unfolded child]] by (elim exE conjE)
  let ?token = "child_token call request inst asg apr art"
  let ?a = "execution_authority s (c_deadline call)"
  let ?bound = "child_bind_local_execution_authority ?token ?a"
  have res: "cr_authorized child = Some ?token" "ca_verdict (cr_evaluation child) = CV_Allowed"
    "ca_call_id (cr_evaluation child) = c_call_id call"
    "ca_policy_revision (cr_evaluation child) = ls_policy_revision s"
    "ca_child_name (cr_evaluation child) = Some (ai_child_name ?token)"
    unfolding child child_allowed_result [OF look ok]
    using ok by (simp_all add: child_token_def child_facts_ok_def)
  have "route_child_ok call initial child (ls_policy_revision s) route ?token"
    unfolding route_child_ok_def using res admissible name
    by (simp add: initial route_selected_def)
  from route_snapshot_authorized_eq [OF this required_toys_current [OF toys], where ids = ids]
  obtain x where x: "rv_authorized (revalidate_route_for_execution_with_snapshot call initial child
      toys s ids) = Some x" "re_child_invocation x = ?bound" by auto
  have "is_ok (child_admit_effect_with_snapshot ?bound call s) \<longleftrightarrow> authority_current ?a call s"
  proof
    assume "is_ok (child_admit_effect_with_snapshot ?bound call s)"
    then obtain e where "child_admit_effect_with_snapshot ?bound call s = Inr e"
      by (auto simp: is_ok_iff)
    from child_admit_currentD [OF this] show "authority_current ?a call s"
      by (auto simp: child_bind_local_execution_authority_def)
  next
    assume "authority_current ?a call s"
    from child_admit_minted [OF look ok this] show "is_ok (child_admit_effect_with_snapshot ?bound call s)"
      by simp
  qed
  with x show ?thesis by (auto simp: authority_current_minted)
qed

theorem child_execution_end_to_end_witness:
  "\<exists>x. rv_authorized (revalidate_route_for_execution_with_snapshot sample_call
      (route_selected sample_call sample_route [candidate_admissible sample_route 7 3]
        \<lparr>rdi_decision_id = ''d'', rdi_observation_id = ''o''\<rparr>)
      (evaluate_child_call_authority_with_policy sample_call sample_child_request
        [sample_artifact] [sample_approval] [sample_assignment] [sample_instance] 7)
      [evaluate_toy_grant_for_route_snapshot sample_call sample_toy_request [sample_toy] [sample_grant] 7 3]
      sample_snapshot sample_route_ids) = Some x \<and>
    is_ok (child_admit_effect_with_snapshot (re_child_invocation x) sample_call sample_snapshot)"
proof -
  let ?child = "evaluate_child_call_authority_with_policy sample_call sample_child_request
    [sample_artifact] [sample_approval] [sample_assignment] [sample_instance] 7"
  have "child_is_allowed ?child"
    using sample_child_lookups sample_child_facts child_allowed_iff by blast
  moreover have "ca_child_name (cr_evaluation ?child) = Some ''kid''"
    unfolding child_allowed_result [OF sample_child_lookups sample_child_facts]
    by (simp add: sample_instance_def)
  moreover have "evaluate_toy_grant_for_route_snapshot sample_call sample_toy_request [sample_toy]
      [sample_grant] 7 3 = toy_route_allow sample_call sample_toy_request 7 3 sample_grant"
    by (rule toy_route_allowed_eq [OF sample_toy_available])
      (use sample_toy_ok toy_grant_ok_decides in auto)
  ultimately show ?thesis
    using child_execution_end_to_end [of ?child sample_call sample_child_request sample_snapshot
        "route_selected sample_call sample_route [candidate_admissible sample_route 7 3]
           \<lparr>rdi_decision_id = ''d'', rdi_observation_id = ''o''\<rparr>"
        sample_route "[candidate_admissible sample_route 7 3]"
        "\<lparr>rdi_decision_id = ''d'', rdi_observation_id = ''o''\<rparr>"
        "[toy_route_allow sample_call sample_toy_request 7 3 sample_grant]" sample_route_ids]
    by (simp add: candidate_admissible_def sample_route_def toy_route_allow_simps) metis
qed

end
